(* ===== verification/Prelude.thy ===== *)
theory Prelude
  imports Complex_Main "HOL-Library.AList" "HOL-Library.Product_Lexorder"
begin

section \<open>Shared types, table operations and interfaces\<close>

text \<open>
  What every component of the development uses: the error values that stand for the
  exceptions the Python code raises, SQL tables as lists of rows with the queries and updates
  the code issues on them, \<^verbatim>\<open>transaction\<close> as a state transformer that keeps the old state
  when its body fails, the few string functions of Python the code calls, and two locales:
  \<open>state_machine\<close> (operations that keep an invariant) and \<open>lifecycle\<close> (terminal states that
  no operation leaves).  Each locale is interpreted where a component proves its laws.
\<close>

named_theorems tbl \<open>equations of the table operations\<close>
named_theorems frame \<open>what an operation leaves alone\<close>
named_theorems outcome \<open>destruction rules for operations that returned normally\<close>

type_synonym ident = string

text \<open>Instants and durations are counted in microseconds, the resolution of Python's
  \<^verbatim>\<open>datetime\<close>.\<close>

type_synonym time = int

definition seconds :: "int \<Rightarrow> time" where
  "seconds n = n * 1000000"

subsection \<open>Exceptions\<close>

datatype error =
    Key_Error string
  | Value_Error string
  | Runtime_Error string
  | Permission_Error string
  | Type_Error string
  | Lookup_Error string
  | Integrity_Error string
  | Budget_Error string
  | Overflow_Error string
  | Attribute_Error string
  | OS_Error string
  | Timeout_Error string

fun error_text :: "error \<Rightarrow> string" where
  "error_text (Key_Error m) = m"
| "error_text (Value_Error m) = m"
| "error_text (Runtime_Error m) = m"
| "error_text (Permission_Error m) = m"
| "error_text (Type_Error m) = m"
| "error_text (Lookup_Error m) = m"
| "error_text (Integrity_Error m) = m"
| "error_text (Budget_Error m) = m"
| "error_text (Overflow_Error m) = m"
| "error_text (Attribute_Error m) = m"
| "error_text (OS_Error m) = m"
| "error_text (Timeout_Error m) = m"

type_synonym 'a result = "error + 'a"

abbreviation Ok :: "'a \<Rightarrow> 'a result" where
  "Ok x \<equiv> Inr x"

abbreviation Err :: "error \<Rightarrow> 'a result" where
  "Err e \<equiv> Inl e"

definition and_then :: "'a result \<Rightarrow> ('a \<Rightarrow> 'b result) \<Rightarrow> 'b result" where
  "and_then r f = (case r of Inl e \<Rightarrow> Inl e | Inr x \<Rightarrow> f x)"

lemma and_then_Ok [simp]: "and_then (Ok x) f = f x"
  by (simp add: and_then_def)

lemma and_then_Err [simp]: "and_then (Err e) f = Err e"
  by (simp add: and_then_def)

lemma and_then_assoc: "and_then (and_then r f) g = and_then r (\<lambda>x. and_then (f x) g)"
  by (cases r) simp_all

lemma and_then_eq_Ok [outcome]:
  "and_then r f = Ok y \<longleftrightarrow> (\<exists>x. r = Ok x \<and> f x = Ok y)"
  by (auto simp: and_then_def split: sum.splits)

lemma and_thenE:
  assumes "and_then r f = Ok y"
  obtains x where "r = Ok x" and "f x = Ok y"
  using assms by (auto simp: and_then_eq_Ok)

text \<open>\<^verbatim>\<open>raise\<close> guarded by a condition, as the source writes \<^verbatim>\<open>if bad: raise ...\<close>.\<close>

definition raise_if :: "bool \<Rightarrow> error \<Rightarrow> 'a result \<Rightarrow> 'a result" where
  "raise_if bad e r = (if bad then Inl e else r)"

lemma raise_if_eq_Ok [outcome, simp]:
  "raise_if bad e r = Ok y \<longleftrightarrow> \<not> bad \<and> r = Ok y"
  by (simp add: raise_if_def)

lemma raise_if_False [simp]: "raise_if False e r = r"
  by (simp add: raise_if_def)

lemma raise_if_True [simp]: "raise_if True e r = Err e"
  by (simp add: raise_if_def)

text \<open>\<^verbatim>\<open>try: ... except ValueError\<close> and \<^verbatim>\<open>except (OSError, ValueError)\<close>: the message of the error
  caught (as \<open>Inl\<close>) or the value; every other error goes on.\<close>

fun catch_value :: "'a result \<Rightarrow> (string + 'a) result" where
  "catch_value (Inr x) = Ok (Inr x)"
| "catch_value (Inl (Value_Error m)) = Ok (Inl m)"
| "catch_value (Inl e) = Err e"

fun catch_os_value :: "'a result \<Rightarrow> (string + 'a) result" where
  "catch_os_value (Inr x) = Ok (Inr x)"
| "catch_os_value (Inl (Value_Error m)) = Ok (Inl m)"
| "catch_os_value (Inl (OS_Error m)) = Ok (Inl m)"
| "catch_os_value (Inl (Timeout_Error m)) = Ok (Inl m)"
| "catch_os_value (Inl e) = Err e"

lemma catch_value_eq_Ok [outcome]:
  "catch_value r = Ok y \<longleftrightarrow>
     (\<exists>x. r = Ok x \<and> y = Inr x) \<or> (\<exists>m. r = Err (Value_Error m) \<and> y = Inl m)"
  by (cases r rule: catch_value.cases) auto

lemma catch_os_value_Inr [outcome]: "catch_os_value r = Ok (Inr x) \<longleftrightarrow> r = Ok x"
  by (cases r rule: catch_os_value.cases) auto

text \<open>The body of a transaction returns the new state with its result; when it raises, the
  transaction rolls back.\<close>

definition transact :: "('s \<Rightarrow> ('a \<times> 's) result) \<Rightarrow> 's \<Rightarrow> 'a result \<times> 's" where
  "transact body s = (case body s of Inl e \<Rightarrow> (Inl e, s) | Inr (x, s') \<Rightarrow> (Inr x, s'))"

lemma transact_Err [simp]: "body s = Err e \<Longrightarrow> transact body s = (Err e, s)"
  by (simp add: transact_def)

lemma transact_Ok [simp]: "body s = Ok (x, s') \<Longrightarrow> transact body s = (Ok x, s')"
  by (simp add: transact_def)

lemma transact_eq_Ok: "transact body s = (Ok x, s') \<longleftrightarrow> body s = Ok (x, s')"
  by (auto simp: transact_def split: sum.splits prod.splits)

lemma snd_transact:
  "snd (transact body s) = (case body s of Inl e \<Rightarrow> s | Inr xs \<Rightarrow> snd xs)"
  by (auto simp: transact_def split: sum.splits prod.splits)

lemma transact_cases:
  assumes "\<And>e. body s = Err e \<Longrightarrow> P (Err e, s)"
    and "\<And>x s'. body s = Ok (x, s') \<Longrightarrow> P (Ok x, s')"
  shows "P (transact body s)"
  using assms by (auto simp: transact_def split: sum.splits prod.splits)

text \<open>Operations of several transactions run one after the other; what the earlier ones
  committed stays when a later one raises.\<close>

definition and_next :: "'a result \<times> 's \<Rightarrow> ('a \<Rightarrow> 's \<Rightarrow> 'b result \<times> 's) \<Rightarrow> 'b result \<times> 's" where
  "and_next r f = (case fst r of Inl e \<Rightarrow> (Inl e, snd r) | Inr x \<Rightarrow> f x (snd r))"

lemma and_next_simps [simp]:
  "and_next (Err e, s) f = (Err e, s)"
  "and_next (Ok x, s) f = f x s"
  by (simp_all add: and_next_def)

lemma and_next_eq_Ok: "and_next r f = (Ok y, s) \<longleftrightarrow> (\<exists>x s1. r = (Ok x, s1) \<and> f x s1 = (Ok y, s))"
  by (cases r; cases "fst r") auto

lemma and_nextE:
  assumes "and_next r f = (Ok y, s)"
  obtains x s1 where "r = (Ok x, s1)" and "f x s1 = (Ok y, s)"
  using assms by (auto simp: and_next_eq_Ok)

text \<open>A property of the state that each transaction keeps is kept by their sequence.\<close>

lemma and_next_keeps:
  assumes "P (snd r)" and "\<And>x s. P s \<Longrightarrow> P (snd (f x s))"
  shows "P (snd (and_next r f))"
  using assms by (cases r; cases "fst r") auto

lemma transact_keeps:
  assumes "P s" and "\<And>x s'. body s = Ok (x, s') \<Longrightarrow> P s'"
  shows "P (snd (transact body s))"
  using assms by (auto simp: transact_def split: sum.splits prod.splits)

text \<open>What holds of the outcome when a body returns normally; the rules follow the shapes the
  bodies are written in.\<close>

definition ok_post :: "'a result \<Rightarrow> ('a \<Rightarrow> bool) \<Rightarrow> bool" where
  "ok_post r Q = (case r of Inl e \<Rightarrow> True | Inr x \<Rightarrow> Q x)"

named_theorems post \<open>introduction rules for ok_post\<close>

lemma ok_post_simps [simp]: "ok_post (Ok x) Q = Q x" "ok_post (Err e) Q"
  by (simp_all add: ok_post_def)

lemma ok_post_Ok [post]: "Q x \<Longrightarrow> ok_post (Ok x) Q"
  by simp

lemma ok_post_Err [post]: "ok_post (Err e) Q"
  by simp

lemma ok_post_and_then [post]:
  "ok_post r Q \<Longrightarrow> (\<And>x. Q x \<Longrightarrow> ok_post (f x) R) \<Longrightarrow> ok_post (and_then r f) R"
  by (cases r) simp_all

lemma ok_post_raise_if [post]: "(\<not> b \<Longrightarrow> ok_post r Q) \<Longrightarrow> ok_post (raise_if b e r) Q"
  by (simp add: raise_if_def)

lemma ok_post_if [post]:
  "(b \<Longrightarrow> ok_post r Q) \<Longrightarrow> (\<not> b \<Longrightarrow> ok_post s Q) \<Longrightarrow> ok_post (if b then r else s) Q"
  by simp

lemma ok_post_option [post]:
  "(x = None \<Longrightarrow> ok_post r Q) \<Longrightarrow> (\<And>y. x = Some y \<Longrightarrow> ok_post (f y) Q) \<Longrightarrow>
     ok_post (case x of None \<Rightarrow> r | Some y \<Rightarrow> f y) Q"
  by (cases x) simp_all

lemma ok_post_prod [post]:
  "(\<And>a b. p = (a, b) \<Longrightarrow> ok_post (f a b) Q) \<Longrightarrow> ok_post (case p of (a, b) \<Rightarrow> f a b) Q"
  by (cases p) simp

lemma ok_post_Let [post]: "(\<And>y. y = x \<Longrightarrow> ok_post (f y) Q) \<Longrightarrow> ok_post (let y = x in f y) Q"
  by simp

lemma ok_postD: "ok_post r Q \<Longrightarrow> r = Ok x \<Longrightarrow> Q x"
  by simp

lemma ok_post_mono: "ok_post r Q \<Longrightarrow> (\<And>x. Q x \<Longrightarrow> R x) \<Longrightarrow> ok_post r R"
  by (auto simp: ok_post_def split: sum.splits)

lemma transact_post: "P s \<Longrightarrow> ok_post (body s) (\<lambda>(x, s'). P s') \<Longrightarrow> P (snd (transact body s))"
  by (auto simp: transact_def ok_post_def split: sum.splits prod.splits)

subsection \<open>JSON values and dictionaries\<close>

text \<open>A JSON column holds the value it encodes.  A Python \<^verbatim>\<open>dict\<close> keeps its insertion
  order, so it is an association list; \<^verbatim>\<open>d[k] = v\<close> is \<^const>\<open>AList.update\<close>, which replaces in
  place or appends.\<close>

datatype json =
    JNull
  | JBool bool
  | JInt int
  | JReal rat
  | JStr string
  | JArr "json list"
  | JObj "(string \<times> json) list"

type_synonym dict = "(string \<times> json) list"

definition dict_update :: "dict \<Rightarrow> dict \<Rightarrow> dict" where
  "dict_update d new = fold (\<lambda>(k, v). AList.update k v) new d"

lemma dict_update_simps [simp]:
  "dict_update d [] = d"
  "dict_update d ((k, v) # kvs) = dict_update (AList.update k v d) kvs"
  by (simp_all add: dict_update_def)

subsection \<open>Tables\<close>

definition select_one :: "('r \<Rightarrow> 'k) \<Rightarrow> 'k \<Rightarrow> 'r list \<Rightarrow> 'r option" where
  "select_one key k t = find (\<lambda>r. key r = k) t"

definition update_where :: "('r \<Rightarrow> bool) \<Rightarrow> ('r \<Rightarrow> 'r) \<Rightarrow> 'r list \<Rightarrow> 'r list" where
  "update_where P f t = map (\<lambda>r. if P r then f r else r) t"

definition delete_where :: "('r \<Rightarrow> bool) \<Rightarrow> 'r list \<Rightarrow> 'r list" where
  "delete_where P t = filter (\<lambda>r. \<not> P r) t"

definition count_where :: "('r \<Rightarrow> bool) \<Rightarrow> 'r list \<Rightarrow> nat" where
  "count_where P t = length (filter P t)"

definition exists_where :: "('r \<Rightarrow> bool) \<Rightarrow> 'r list \<Rightarrow> bool" where
  "exists_where P t = list_ex P t"

text \<open>\<^verbatim>\<open>SELECT ... WHERE P ORDER BY key LIMIT 1\<close>\<close>

definition select_first :: "('r \<Rightarrow> 'k::linorder) \<Rightarrow> ('r \<Rightarrow> bool) \<Rightarrow> 'r list \<Rightarrow> 'r option" where
  "select_first key P t = (case sort_key key (filter P t) of [] \<Rightarrow> None | r # _ \<Rightarrow> Some r)"

text \<open>\<^verbatim>\<open>SELECT COALESCE(MAX(seq),0)+1 FROM t WHERE P\<close>, for sequence numbers that start at 1\<close>

definition next_seq :: "('r \<Rightarrow> int) \<Rightarrow> ('r \<Rightarrow> bool) \<Rightarrow> 'r list \<Rightarrow> int" where
  "next_seq seq P t = (case map seq (filter P t) of [] \<Rightarrow> 0 | x # xs \<Rightarrow> fold max xs x) + 1"

abbreviation keys_distinct :: "('r \<Rightarrow> 'k) \<Rightarrow> 'r list \<Rightarrow> bool" where
  "keys_distinct key t \<equiv> distinct (map key t)"

lemma exists_where_iff [simp]: "exists_where P t \<longleftrightarrow> (\<exists>r \<in> set t. P r)"
  by (simp add: exists_where_def list_ex_iff)

lemma select_one_Nil [tbl, simp]: "select_one key k [] = None"
  by (simp add: select_one_def)

lemma select_one_Cons [tbl, simp]:
  "select_one key k (r # t) = (if key r = k then Some r else select_one key k t)"
  by (simp add: select_one_def)

lemma select_one_append [tbl]:
  "select_one key k (t @ u) =
     (case select_one key k t of None \<Rightarrow> select_one key k u | Some r \<Rightarrow> Some r)"
  by (induction t) auto

lemma select_one_SomeD: "select_one key k t = Some r \<Longrightarrow> r \<in> set t \<and> key r = k"
  by (induction t) (auto split: if_splits)

lemma select_one_None_iff: "select_one key k t = None \<longleftrightarrow> k \<notin> key ` set t"
  by (induction t) auto

lemma select_one_eq_SomeI:
  "keys_distinct key t \<Longrightarrow> r \<in> set t \<Longrightarrow> key r = k \<Longrightarrow> select_one key k t = Some r"
  by (induction t) (auto simp: image_iff)

lemma select_one_Some_iff:
  "keys_distinct key t \<Longrightarrow> select_one key k t = Some r \<longleftrightarrow> r \<in> set t \<and> key r = k"
  by (auto intro: select_one_eq_SomeI dest: select_one_SomeD)

lemma select_one_append_new [tbl]:
  "key r \<notin> key ` set t \<Longrightarrow>
     select_one key k (t @ [r]) = (if k = key r then Some r else select_one key k t)"
  by (induction t) auto

lemma update_where_Nil [simp]: "update_where P f [] = []"
  by (simp add: update_where_def)

lemma update_where_Cons [simp]:
  "update_where P f (r # t) = (if P r then f r else r) # update_where P f t"
  by (simp add: update_where_def)

lemma update_where_append [simp]:
  "update_where P f (t @ u) = update_where P f t @ update_where P f u"
  by (simp add: update_where_def)

lemma set_update_where: "set (update_where P f t) = (\<lambda>r. if P r then f r else r) ` set t"
  by (simp add: update_where_def)

lemma map_update_where:
  "(\<And>r. r \<in> set t \<Longrightarrow> P r \<Longrightarrow> g (f r) = g r) \<Longrightarrow> map g (update_where P f t) = map g t"
  by (induction t) auto

lemma select_one_update_where [tbl]:
  assumes "\<And>r. key (f r) = key r"
  shows "select_one key k (update_where P f t) =
    map_option (\<lambda>r. if P r then f r else r) (select_one key k t)"
  using assms by (induction t) auto

lemma keys_distinct_update_where:
  assumes "\<And>r. key (f r) = key r"
  shows "keys_distinct key (update_where P f t) = keys_distinct key t"
  using assms by (simp add: map_update_where)

lemma update_where_idle: "(\<And>r. r \<in> set t \<Longrightarrow> \<not> P r) \<Longrightarrow> update_where P f t = t"
  by (induction t) auto

lemma set_delete_where [simp]: "set (delete_where P t) = {r \<in> set t. \<not> P r}"
  by (auto simp: delete_where_def)

lemma keys_distinct_delete_where:
  "keys_distinct key t \<Longrightarrow> keys_distinct key (delete_where P t)"
  by (simp add: delete_where_def distinct_map_filter)

lemma select_one_delete_where [tbl]:
  "keys_distinct key t \<Longrightarrow> select_one key k (delete_where P t) =
     (case select_one key k t of None \<Rightarrow> None | Some r \<Rightarrow> if P r then None else Some r)"
proof (induction t)
  case Nil
  then show ?case by (simp add: delete_where_def)
next
  case (Cons a t)
  have skip: "select_one key (key a) (delete_where P t) = None"
    using Cons.prems by (auto simp: select_one_None_iff)
  have tail: "key a = k \<Longrightarrow> select_one key k t = None"
    using Cons.prems by (auto simp: select_one_None_iff)
  show ?case
    using Cons skip tail by (auto simp: delete_where_def)
qed

lemma count_where_zero_iff: "count_where P t = 0 \<longleftrightarrow> (\<forall>r \<in> set t. \<not> P r)"
  by (induction t) (auto simp: count_where_def)

lemma count_where_append [simp]: "count_where P (t @ u) = count_where P t + count_where P u"
  by (simp add: count_where_def)

lemma count_where_Cons [simp]:
  "count_where P (r # t) = (if P r then Suc (count_where P t) else count_where P t)"
  by (simp add: count_where_def)

lemma count_where_Nil [simp]: "count_where P [] = 0"
  by (simp add: count_where_def)

lemma count_where_mono:
  "(\<And>r. r \<in> set t \<Longrightarrow> P r \<Longrightarrow> Q r) \<Longrightarrow> count_where P t \<le> count_where Q t"
  by (induction t) auto

lemma count_where_update_le:
  "(\<And>r. r \<in> set t \<Longrightarrow> Q r \<Longrightarrow> P (f r) \<Longrightarrow> P r) \<Longrightarrow>
     count_where P (update_where Q f t) \<le> count_where P t"
  by (induction t) auto

lemma count_where_unique:
  "keys_distinct key t \<Longrightarrow> (\<And>r. r \<in> set t \<Longrightarrow> P r \<Longrightarrow> key r = k) \<Longrightarrow> count_where P t \<le> 1"
proof (induction t)
  case Nil
  then show ?case by simp
next
  case (Cons a t)
  then have "P a \<Longrightarrow> count_where P t = 0"
    by (force simp: count_where_zero_iff)
  then show ?case using Cons by auto
qed

lemma select_first_SomeD:
  assumes "select_first key P t = Some r"
  shows "r \<in> set t" and "P r" and "\<And>x. x \<in> set t \<Longrightarrow> P x \<Longrightarrow> key r \<le> key x"
proof -
  from assms obtain rs where rs: "sort_key key (filter P t) = r # rs"
    by (auto simp: select_first_def split: list.splits)
  then have elems: "set (r # rs) = set (filter P t)"
    by (metis set_sort)
  then show "r \<in> set t" and "P r"
    by auto
  have "sorted (map key (r # rs))"
    unfolding rs [symmetric] by (rule sorted_sort_key)
  then have least: "\<forall>y \<in> set (r # rs). key r \<le> key y"
    by auto
  show "key r \<le> key x" if "x \<in> set t" and "P x" for x
    using that elems least by auto
qed

lemma select_first_None_iff: "select_first key P t = None \<longleftrightarrow> (\<forall>r \<in> set t. \<not> P r)"
proof -
  have "sort_key key (filter P t) = [] \<longleftrightarrow> filter P t = []"
    by (metis set_empty set_sort)
  then show ?thesis
    by (auto simp: select_first_def filter_empty_conv split: list.splits)
qed

lemma fold_max_ge: "x \<le> fold max xs (x :: int) \<and> (\<forall>y \<in> set xs. y \<le> fold max xs x)"
proof (induction xs arbitrary: x)
  case Nil
  then show ?case by simp
next
  case (Cons a xs)
  from Cons [of "max a x"] show ?case by auto
qed

lemma next_seq_greater: "r \<in> set t \<Longrightarrow> P r \<Longrightarrow> seq r < next_seq seq P t"
proof -
  assume "r \<in> set t" and "P r"
  then have mem: "seq r \<in> set (map seq (filter P t))" by auto
  then obtain x xs where split: "map seq (filter P t) = x # xs"
    by (cases "map seq (filter P t)") auto
  with mem fold_max_ge [of x xs] show ?thesis
    by (auto simp: next_seq_def)
qed

lemma next_seq_pos: "(\<And>r. r \<in> set t \<Longrightarrow> P r \<Longrightarrow> 1 \<le> seq r) \<Longrightarrow> 1 \<le> next_seq seq P t"
proof (cases "filter P t")
  case Nil
  then show ?thesis by (simp add: next_seq_def)
next
  case (Cons a as)
  assume low: "\<And>r. r \<in> set t \<Longrightarrow> P r \<Longrightarrow> 1 \<le> seq r"
  from Cons have "a \<in> set t \<and> P a"
    by (metis filter_eq_ConsD in_set_conv_decomp)
  with low next_seq_greater [of a t P seq] show ?thesis by fastforce
qed

subsection \<open>Python strings, over ASCII\<close>

definition is_space :: "char \<Rightarrow> bool" where
  "is_space c = (let n = of_char c :: nat in
     (9 \<le> n \<and> n \<le> 13) \<or> (28 \<le> n \<and> n \<le> 32) \<or> n = 133 \<or> n = 160)"

definition is_digit :: "char \<Rightarrow> bool" where
  "is_digit c = (let n = of_char c :: nat in 48 \<le> n \<and> n \<le> 57)"

definition lower_char :: "char \<Rightarrow> char" where
  "lower_char c = (let n = of_char c :: nat in if 65 \<le> n \<and> n \<le> 90 then char_of (n + 32) else c)"

abbreviation casefold :: "string \<Rightarrow> string" where
  "casefold s \<equiv> map lower_char s"

definition strip :: "string \<Rightarrow> string" where
  "strip s = rev (dropWhile is_space (rev (dropWhile is_space s)))"

definition starts_with :: "string \<Rightarrow> string \<Rightarrow> bool" where
  "starts_with s p = (take (length p) s = p)"

definition ends_with :: "string \<Rightarrow> string \<Rightarrow> bool" where
  "ends_with s p = starts_with (rev s) (rev p)"

fun contains :: "string \<Rightarrow> string \<Rightarrow> bool" where
  "contains m [] = (m = [])"
| "contains m (c # cs) = (starts_with (c # cs) m \<or> contains m cs)"

text \<open>\<^verbatim>\<open>s.rstrip(c)\<close> for one character, \<^verbatim>\<open>s.split()\<close> and \<^verbatim>\<open>s.split(c, 1)\<close>\<close>

definition rstrip_char :: "char \<Rightarrow> string \<Rightarrow> string" where
  "rstrip_char c s = rev (dropWhile (\<lambda>x. x = c) (rev s))"

fun split_words :: "string \<Rightarrow> string \<Rightarrow> string list" where
  "split_words acc [] = (if acc = [] then [] else [rev acc])"
| "split_words acc (c # cs) =
     (if is_space c then (if acc = [] then split_words [] cs else rev acc # split_words [] cs)
      else split_words (c # acc) cs)"

definition split_once :: "char \<Rightarrow> string \<Rightarrow> string \<times> string option" where
  "split_once c s = (let a = takeWhile (\<lambda>x. x \<noteq> c) s in
     if length a < length s then (a, Some (drop (Suc (length a)) s)) else (s, None))"

definition digit_char :: "nat \<Rightarrow> char" where
  "digit_char d = char_of (48 + d)"

definition digit_value :: "char \<Rightarrow> nat" where
  "digit_value c = of_char c - 48"

fun dec :: "nat \<Rightarrow> string" where
  "dec n = (if n < 10 then [digit_char n] else dec (n div 10) @ [digit_char (n mod 10)])"

declare dec.simps [simp del]

definition parse_digits :: "string \<Rightarrow> nat" where
  "parse_digits s = foldl (\<lambda>n c. 10 * n + digit_value c) 0 s"

lemma digit_value_digit_char: "d < 10 \<Longrightarrow> digit_value (digit_char d) = d"
  by (simp add: digit_value_def digit_char_def)

lemma is_digit_digit_char: "d < 10 \<Longrightarrow> is_digit (digit_char d)"
  by (simp add: is_digit_def digit_char_def)

lemma parse_digits_dec: "parse_digits (dec n) = n"
proof (induction n rule: dec.induct)
  case (1 n)
  show ?case
  proof (cases "n < 10")
    case True
    then show ?thesis
      by (simp add: dec.simps [of n] parse_digits_def digit_value_digit_char)
  next
    case False
    with "1.IH" have "parse_digits (dec (n div 10)) = n div 10" by simp
    with False show ?thesis
      by (simp add: dec.simps [of n] parse_digits_def digit_value_digit_char)
  qed
qed

lemma dec_digits: "\<forall>c \<in> set (dec n). is_digit c"
proof (induction n rule: dec.induct)
  case (1 n)
  then show ?case
    by (subst dec.simps) (auto simp: is_digit_digit_char)
qed

lemma dec_nonempty [simp]: "dec n \<noteq> []"
  by (subst dec.simps) simp

subsection \<open>Interfaces\<close>

text \<open>Operations that keep an invariant keep it over any sequence of operations.\<close>

locale state_machine =
  fixes step :: "'op \<Rightarrow> 's \<Rightarrow> 's"
    and inv :: "'s \<Rightarrow> bool"
  assumes step_inv: "inv s \<Longrightarrow> inv (step op s)"
begin

lemma run_inv: "inv s \<Longrightarrow> inv (fold step ops s)"
  by (induction ops arbitrary: s) (auto simp: step_inv)

end

text \<open>A component whose records have terminal states: no operation moves a record out of one,
  so no sequence of operations does.\<close>

locale lifecycle = state_machine +
  fixes status :: "'s \<Rightarrow> 'k \<Rightarrow> 'st option"
    and terminal :: "'st \<Rightarrow> bool"
  assumes terminal_step:
    "inv s \<Longrightarrow> status s k = Some st \<Longrightarrow> terminal st \<Longrightarrow> status (step op s) k = Some st"
begin

lemma terminal_run:
  assumes "inv s" and "status s k = Some st" and "terminal st"
  shows "status (fold step ops s) k = Some st"
  using assms(1,2)
proof (induction ops arbitrary: s)
  case Nil
  then show ?case by simp
next
  case (Cons op ops)
  from Cons.prems assms(3) have "status (step op s) k = Some st"
    by (rule terminal_step)
  moreover from Cons.prems(1) have "inv (step op s)"
    by (rule step_inv)
  ultimately show ?case
    using Cons.IH by simp
qed

end

end
