(* ===== verification/Schema.thy ===== *)
theory Schema
  imports Prelude
begin

section \<open>The tables of the state store\<close>

text \<open>
  One record per table of \<^verbatim>\<open>src/tars/state_store.py\<close> that the modelled components read or
  write, with the columns in the order of \<^verbatim>\<open>_schema_sql\<close>, and \<open>db\<close>, the database they form.
  A nullable column has an option type; a column restricted by \<^verbatim>\<open>CHECK(x IN (...))\<close> has a
  datatype with one constructor per value; a JSON column holds the value it encodes; a
  timestamp column holds the instant its ISO text denotes.
\<close>

subsection \<open>Enumerated columns\<close>

datatype task_state = T_Pending | T_Running | T_Paused | T_Completed | T_Failed | T_Cancelled

datatype task_kind = Primary | Delegation | Sideband | Scheduled

datatype control_kind = Cancel | Interrupt | Pause | Approval | Redirect | Resume | Message

datatype control_state = C_Pending | C_Processing | C_Applied | C_Failed

datatype cancellation_state = X_Intent | X_Attempting | X_Resolved | X_Ambiguous

datatype cancellation_effect = Execute_Effect | Destructive_Effect

datatype schedule_kind = One_Shot | Recurring | Condition

datatype missed_policy = Skip | Run_Once | Catch_Up

datatype schedule_run_state =
  R_Claimed | R_Running | R_Succeeded | R_Failed | R_Skipped | R_Cancelled

datatype delivery_state = D_Pending | D_Delivered | D_Failed | D_Suppressed

datatype approval_state = A_Pending | A_Approved | A_Denied | A_Expired | A_Consumed

datatype approval_scope = Call_Scope | Task_Scope | Session_Scope | Target_Scope | Persistent_Scope

datatype policy_action = Allow | Deny | Ask

datatype effect =
    Read_Effect | Write_Effect | Execute | Network_Effect | Service_Effect | Remote_Effect
  | Secret_Effect | Elevated_Effect | Destructive | Sandbox_Escape

datatype run_state =
  Run_Queued | Run_Running | Run_Paused | Run_Completed | Run_Failed | Run_Cancelled

datatype delegation_state = Dg_Requested | Dg_Running | Dg_Completed | Dg_Failed | Dg_Cancelled

datatype result_status = Success | Partial | Status_Failed | Status_Cancelled

datatype contract_state =
    K_Created | K_Scheduled | K_Running | K_Cancellation_Requested | K_Completed | K_Failed
  | K_Cancelled | K_Timed_Out | K_Accepted | K_Rejected

text \<open>The values the code writes into \<^verbatim>\<open>resource_leases.resource_type\<close>.\<close>

datatype resource_type =
    Task_Execution | Task_Execution_Fence | Control_Cancellation | Task_Control
  | Schedule_Run | Schedule_Delivery | Workspace | Delegation_Run | Gpu_Slot
  | Other_Resource string

type_synonym resource = "resource_type \<times> string"

text \<open>An entry of \<^verbatim>\<open>fence_processes\<close> in a lease's metadata: a process identity, or anything
  that is not one (not a dict, or without a usable pid and start).\<close>

datatype fence = Fence int string | Malformed_Fence

text \<open>Schedule timestamps are written by \<^verbatim>\<open>_iso\<close> with a \<^verbatim>\<open>Z\<close> suffix, and SQLite orders them as
  text.  Within one second the fraction is printed only when it is not zero, and \<^verbatim>\<open>Z\<close> sorts
  after the \<^verbatim>\<open>.\<close> of a fraction, so a whole second comes after every fraction of it.\<close>

datatype zstamp = Z time

fun instant :: "zstamp \<Rightarrow> time" where
  "instant (Z t) = t"

definition text_key :: "zstamp \<Rightarrow> int \<times> int" where
  "text_key z = (instant z div 1000000,
     if instant z mod 1000000 = 0 then 1000000 else instant z mod 1000000)"

lemma text_key_inject: "text_key a = text_key b \<longleftrightarrow> a = b"
proof
  assume eq: "text_key a = text_key b"
  have "instant x mod 1000000 < 1000000" for x by simp
  with eq have "instant a mod 1000000 = instant b mod 1000000"
    and "instant a div 1000000 = instant b div 1000000"
    by (auto simp: text_key_def split: if_splits)
  then have "instant a = instant b"
    by (metis div_mult_mod_eq)
  then show "a = b"
    by (cases a, cases b) simp
qed simp

instantiation zstamp :: linorder
begin

definition less_eq_zstamp :: "zstamp \<Rightarrow> zstamp \<Rightarrow> bool" where
  "less_eq_zstamp a b \<longleftrightarrow> text_key a \<le> text_key b"

definition less_zstamp :: "zstamp \<Rightarrow> zstamp \<Rightarrow> bool" where
  "less_zstamp a b \<longleftrightarrow> text_key a < text_key b"

instance
proof
  fix a b c :: zstamp
  show "a < b \<longleftrightarrow> a \<le> b \<and> \<not> b \<le> a"
    by (auto simp: less_eq_zstamp_def less_zstamp_def)
  show "a \<le> a" and "a \<le> b \<or> b \<le> a"
    by (auto simp: less_eq_zstamp_def)
  show "a \<le> b \<Longrightarrow> b \<le> c \<Longrightarrow> a \<le> c"
    unfolding less_eq_zstamp_def by (rule order.trans)
  show "a \<le> b \<Longrightarrow> b \<le> a \<Longrightarrow> a = b"
    unfolding less_eq_zstamp_def text_key_inject [symmetric] by (rule order.antisym)
qed

end

subsection \<open>Conversations, sessions and messages\<close>

record conversation_row =
  cv_id :: ident
  cv_title :: string
  cv_state :: string
  cv_source :: string
  cv_created_at :: time
  cv_updated_at :: time
  cv_last_message_at :: "time option"
  cv_metadata :: dict

record message_row =
  ms_id :: ident
  ms_conversation :: ident
  ms_seq :: int
  ms_role :: string
  ms_content :: string
  ms_kind :: string
  ms_include :: bool
  ms_related_task :: "ident option"
  ms_metadata :: dict
  ms_created_at :: time

record session_row =
  ss_id :: ident
  ss_conversation :: ident
  ss_role :: string
  ss_state :: string
  ss_mode :: string
  ss_started_at :: time
  ss_updated_at :: time
  ss_ended_at :: "time option"
  ss_metadata :: dict

record state_event_row =
  se_id :: int
  se_uuid :: ident
  se_session :: "ident option"
  se_conversation :: "ident option"
  se_task :: "ident option"
  se_timestamp :: time
  se_type :: string
  se_role :: "string option"
  se_message :: string
  se_payload :: dict
  se_visibility :: string

record task_event_row =
  te_id :: int
  te_uuid :: ident
  te_task :: ident
  te_conversation :: "ident option"
  te_timestamp :: time
  te_type :: string
  te_role :: "string option"
  te_message :: string
  te_payload :: dict
  te_visibility :: string

subsection \<open>Policy rules, approvals and evidence\<close>

record rule_row =
  ru_id :: ident
  ru_effect :: effect
  ru_action :: policy_action
  ru_target :: string
  ru_scope :: string
  ru_created_at :: time
  ru_expires_at :: "time option"
  ru_metadata :: "dict option"

record approval_row =
  ap_id :: ident
  ap_state :: approval_state
  ap_risk_class :: string
  ap_tool :: string
  ap_target :: string
  ap_request :: dict
  ap_scope :: approval_scope
  ap_task :: "ident option"
  ap_session :: "ident option"
  ap_decision_reason :: string
  ap_created_at :: time
  ap_decided_at :: "time option"
  ap_expires_at :: "time option"
  ap_consumed_at :: "time option"

record evidence_row =
  ev_id :: ident
  ev_task :: "ident option"
  ev_event :: "ident option"
  ev_type :: string
  ev_source :: string
  ev_sha256 :: string
  ev_result_ref :: string
  ev_metadata :: dict
  ev_created_at :: time

subsection \<open>Controls and their cancellations\<close>

record control_row =
  ct_id :: ident
  ct_task :: ident
  ct_session :: "ident option"
  ct_seq :: int
  ct_kind :: control_kind
  ct_priority :: int
  ct_state :: control_state
  ct_message :: string
  ct_payload :: dict
  ct_created_at :: time
  ct_applied_at :: "time option"

record cancellation_row =
  cx_control :: ident
  cx_state :: cancellation_state
  cx_operation :: string
  cx_active_tool :: string
  cx_cancellable :: bool
  cx_effect :: cancellation_effect
  cx_result :: "dict option"
  cx_error :: string
  cx_created_at :: time
  cx_attempt_started_at :: "time option"
  cx_reconciled_at :: "time option"

subsection \<open>Tasks, their runs and their checkpoints\<close>

record task_row =
  tk_id :: ident
  tk_conversation :: "ident option"
  tk_title :: string
  tk_goal :: string
  tk_owner_role :: string
  tk_state :: task_state
  tk_kind :: task_kind
  tk_phase :: string
  tk_progress :: "rat option"
  tk_parent :: "ident option"
  tk_source :: string
  tk_epoch :: int
  tk_constraints :: "string list"
  tk_decisions :: "string list"
  tk_completed :: "string list"
  tk_open_steps :: "string list"
  tk_failures :: "string list"
  tk_evidence_refs :: "ident list"
  tk_schedule_kind :: "string option"
  tk_schedule_expr :: "string option"
  tk_next_run_at :: "zstamp option"
  tk_last_run_at :: "time option"
  tk_last_result_status :: "string option"
  tk_schedule_enabled :: bool
  tk_created_at :: time
  tk_updated_at :: time

record checkpoint_row =
  cp_id :: ident
  cp_task :: ident
  cp_epoch :: int
  cp_seq :: int
  cp_created_at :: time
  cp_owner_role :: string
  cp_reason :: string
  cp_state :: dict
  cp_evidence_refs :: "ident list"
  cp_sha256 :: string

text \<open>The objects listed in \<^verbatim>\<open>archived_messages_json\<close> and \<^verbatim>\<open>unresolved_json\<close>\<close>

record context_item =
  ci_id :: ident
  ci_seq :: int
  ci_role :: string
  ci_content :: string
  ci_kind :: string
  ci_metadata :: dict

record epoch_row =
  ce_id :: ident
  ce_conversation :: ident
  ce_task :: ident
  ce_epoch :: int
  ce_from_seq :: int
  ce_through_seq :: int
  ce_archived :: "context_item list"
  ce_checkpoint :: ident
  ce_unresolved :: "context_item list"
  ce_created_at :: time

record task_run_row =
  tr_id :: ident
  tr_task :: ident
  tr_conversation :: "ident option"
  tr_role :: string
  tr_state :: run_state
  tr_control_request :: string
  tr_epoch :: int
  tr_created_at :: time
  tr_started_at :: "time option"
  tr_heartbeat_at :: "time option"
  tr_finished_at :: "time option"
  tr_finish_reason :: "string option"
  tr_error :: "string option"
  tr_output_message :: "ident option"
  tr_metadata :: dict

subsection \<open>Schedules\<close>

record schedule_row =
  sc_id :: ident
  sc_task :: ident
  sc_kind :: schedule_kind
  sc_expression :: string
  sc_timezone :: string
  sc_next_run_at :: "zstamp option"
  sc_missed_policy :: missed_policy
  sc_max_catch_up :: int
  sc_enabled :: bool
  sc_concurrency_key :: string
  sc_max_concurrency :: int
  sc_delivery_target :: string
  sc_condition_state :: bool
  sc_revision :: int
  sc_created_at :: time
  sc_updated_at :: time
  sc_removed_at :: "time option"

text \<open>The idempotency key \<^verbatim>\<open>f"{schedule.id}:{_iso(planned)}:r{revision}"\<close> is kept as the triple
  it spells out.\<close>

record schedule_run_row =
  sr_id :: ident
  sr_schedule :: ident
  sr_task :: ident
  sr_planned_for :: zstamp
  sr_idempotency_key :: "ident \<times> zstamp \<times> int"
  sr_state :: schedule_run_state
  sr_attempt :: int
  sr_checkpoint :: "ident option"
  sr_result :: dict
  sr_error :: string
  sr_claimed_at :: time
  sr_started_at :: "time option"
  sr_finished_at :: "time option"

record delivery_row =
  dv_id :: ident
  dv_run :: ident
  dv_target :: string
  dv_state :: delivery_state
  dv_attempt :: int
  dv_result :: dict
  dv_error :: string
  dv_updated_at :: time

subsection \<open>Leases\<close>

record lease_row =
  ls_type :: resource_type
  ls_key :: string
  ls_token :: string
  ls_pid :: int
  ls_start :: string
  ls_acquired_at :: time
  ls_heartbeat_at :: time
  ls_expires_at :: time
  ls_metadata :: dict
  ls_fences :: "fence list"

subsection \<open>Delegation and handoff\<close>

text \<open>A child's authority, budget, workspace and completion contract, the JSON objects
  \<^verbatim>\<open>create_child\<close> normalises.\<close>

record authority =
  au_paths :: "string list"
  au_effects :: "string list"
  au_network_targets :: "string list"
  au_remote_targets :: "string list"
  au_secret_refs :: "string list"

record budget =
  bg_max_seconds :: rat
  bg_max_iterations :: int
  bg_max_tokens :: int
  bg_inference :: bool

record workspace_policy =
  wp_mode :: string
  wp_access :: string
  wp_root :: string
  wp_exclusive :: bool

record completion =
  cm_required_types :: "string list"
  cm_summary_required :: bool

record delegation_row =
  dg_id :: ident
  dg_parent_task :: ident
  dg_child_task :: ident
  dg_requested_role :: string
  dg_state :: delegation_state
  dg_goal :: string
  dg_scope :: dict
  dg_constraints :: "string list"
  dg_permissions :: "string list"
  dg_evidence_refs :: "ident list"
  dg_expected :: string
  dg_result_status :: "result_status option"
  dg_result_summary :: string
  dg_result :: dict
  dg_created_at :: time
  dg_updated_at :: time
  dg_completed_at :: "time option"

record contract_row =
  dc_delegation :: ident
  dc_parent :: "ident option"
  dc_tools :: "string list"
  dc_authority :: authority
  dc_budget :: budget
  dc_workspace :: workspace_policy
  dc_completion :: completion
  dc_state :: contract_state
  dc_accepted :: "bool option"
  dc_acceptance_reason :: string
  dc_started_at :: "time option"
  dc_deadline_at :: "time option"
  dc_finished_at :: "time option"
  dc_updated_at :: time

record handoff_row =
  ho_id :: ident
  ho_task :: ident
  ho_from_role :: string
  ho_to_role :: string
  ho_checkpoint :: ident
  ho_reason :: string
  ho_created_at :: time

subsection \<open>The database\<close>

record db =
  conversations :: "conversation_row list"
  messages :: "message_row list"
  sessions :: "session_row list"
  state_events :: "state_event_row list"
  policy_rules :: "rule_row list"
  approvals :: "approval_row list"
  evidence_records :: "evidence_row list"
  task_controls :: "control_row list"
  control_cancellations :: "cancellation_row list"
  tasks :: "task_row list"
  schedules :: "schedule_row list"
  schedule_runs :: "schedule_run_row list"
  schedule_deliveries :: "delivery_row list"
  task_events :: "task_event_row list"
  checkpoints :: "checkpoint_row list"
  context_epochs :: "epoch_row list"
  task_runs :: "task_run_row list"
  resource_leases :: "lease_row list"
  delegations :: "delegation_row list"
  delegation_contracts :: "contract_row list"
  handoffs :: "handoff_row list"
  meta :: "(string \<times> string) list"

definition empty_db :: db where
  "empty_db = \<lparr>conversations = [], messages = [], sessions = [], state_events = [],
     policy_rules = [], approvals = [], evidence_records = [], task_controls = [],
     control_cancellations = [], tasks = [], schedules = [], schedule_runs = [],
     schedule_deliveries = [], task_events = [], checkpoints = [], context_epochs = [],
     task_runs = [], resource_leases = [], delegations = [], delegation_contracts = [],
     handoffs = [], meta = []\<rparr>"

subsection \<open>Row lookups\<close>

definition find_task :: "db \<Rightarrow> ident \<Rightarrow> task_row option" where
  "find_task d tid = select_one tk_id tid (tasks d)"

definition find_session :: "db \<Rightarrow> ident \<Rightarrow> session_row option" where
  "find_session d sid = select_one ss_id sid (sessions d)"

definition find_control :: "db \<Rightarrow> ident \<Rightarrow> control_row option" where
  "find_control d cid = select_one ct_id cid (task_controls d)"

definition find_cancellation :: "db \<Rightarrow> ident \<Rightarrow> cancellation_row option" where
  "find_cancellation d cid = select_one cx_control cid (control_cancellations d)"

definition find_checkpoint :: "db \<Rightarrow> ident \<Rightarrow> checkpoint_row option" where
  "find_checkpoint d cid = select_one cp_id cid (checkpoints d)"

definition find_schedule :: "db \<Rightarrow> ident \<Rightarrow> schedule_row option" where
  "find_schedule d sid = select_one sc_id sid (schedules d)"

definition find_schedule_run :: "db \<Rightarrow> ident \<Rightarrow> schedule_run_row option" where
  "find_schedule_run d rid = select_one sr_id rid (schedule_runs d)"

definition find_delivery :: "db \<Rightarrow> ident \<Rightarrow> delivery_row option" where
  "find_delivery d vid = select_one dv_id vid (schedule_deliveries d)"

definition find_run :: "db \<Rightarrow> ident \<Rightarrow> task_run_row option" where
  "find_run d rid = select_one tr_id rid (task_runs d)"

definition find_approval :: "db \<Rightarrow> ident \<Rightarrow> approval_row option" where
  "find_approval d aid = select_one ap_id aid (approvals d)"

definition find_delegation :: "db \<Rightarrow> ident \<Rightarrow> delegation_row option" where
  "find_delegation d did = select_one dg_id did (delegations d)"

definition find_contract :: "db \<Rightarrow> ident \<Rightarrow> contract_row option" where
  "find_contract d did = select_one dc_delegation did (delegation_contracts d)"

lemmas find_defs = find_task_def find_session_def find_control_def find_cancellation_def
  find_checkpoint_def find_schedule_def find_schedule_run_def find_delivery_def find_run_def
  find_approval_def find_delegation_def find_contract_def

end
