(* ===== verification/Lineage.thy ===== *)
theory Lineage
  imports Schema
begin

section \<open>Writing to the store: constraints, triggers and the lineage audit\<close>

text \<open>
  The statements the components use to write a table, with what SQLite checks for them: the
  \<^verbatim>\<open>BEFORE\<close> triggers of \<^verbatim>\<open>_schema_sql\<close> (each a function from the database and the new row to
  the message it aborts with), the \<^verbatim>\<open>CHECK\<close>, \<^verbatim>\<open>UNIQUE\<close> and \<^verbatim>\<open>REFERENCES\<close> clauses, and the
  \<^verbatim>\<open>AFTER\<close> trigger that propagates a task's conversation.  That no accepted write makes the audit
  report anything is shown in \<open>Store_Writes\<close> and \<open>Store_Audit\<close>.  The triggers on \<^verbatim>\<open>context_projections\<close> and
  \<^verbatim>\<open>action_journal\<close> are in \<open>Projection\<close> and \<open>Journal\<close>; \<^verbatim>\<open>evidence_refs_json\<close> is a list of
  identifiers in the model, so that the \<^verbatim>\<open>json_valid\<close> checks cannot fail.
\<close>

subsection \<open>What the triggers look up\<close>

definition conversation_exists :: "db \<Rightarrow> ident \<Rightarrow> bool" where
  "conversation_exists d cid = exists_where (\<lambda>c. cv_id c = cid) (conversations d)"

definition task_exists :: "db \<Rightarrow> ident \<Rightarrow> bool" where
  "task_exists d tid = exists_where (\<lambda>t. tk_id t = tid) (tasks d)"

definition session_exists :: "db \<Rightarrow> ident \<Rightarrow> bool" where
  "session_exists d sid = exists_where (\<lambda>s. ss_id s = sid) (sessions d)"

definition control_exists :: "db \<Rightarrow> ident \<Rightarrow> bool" where
  "control_exists d cid = exists_where (\<lambda>c. ct_id c = cid) (task_controls d)"

definition schedule_run_exists :: "db \<Rightarrow> ident \<Rightarrow> bool" where
  "schedule_run_exists d rid = exists_where (\<lambda>r. sr_id r = rid) (schedule_runs d)"

definition task_in :: "db \<Rightarrow> ident \<Rightarrow> ident option \<Rightarrow> bool" where
  "task_in d tid conv =
     exists_where (\<lambda>t. tk_id t = tid \<and> tk_conversation t = conv) (tasks d)"

definition task_below :: "db \<Rightarrow> ident \<Rightarrow> ident \<Rightarrow> bool" where
  "task_below d tid parent =
     exists_where (\<lambda>t. tk_id t = tid \<and> tk_parent t = Some parent) (tasks d)"

definition session_in :: "db \<Rightarrow> ident \<Rightarrow> ident option \<Rightarrow> bool" where
  "session_in d sid conv =
     exists_where (\<lambda>s. ss_id s = sid \<and> Some (ss_conversation s) = conv) (sessions d)"

definition evidence_of :: "db \<Rightarrow> ident \<Rightarrow> ident \<Rightarrow> bool" where
  "evidence_of d eid tid =
     exists_where (\<lambda>e. ev_id e = eid \<and> ev_task e = Some tid) (evidence_records d)"

definition event_of :: "db \<Rightarrow> ident \<Rightarrow> ident option \<Rightarrow> bool" where
  "event_of d uuid tid =
     exists_where (\<lambda>e. se_uuid e = uuid \<and> se_task e = tid) (state_events d)"

definition checkpoint_of :: "db \<Rightarrow> ident \<Rightarrow> ident \<Rightarrow> bool" where
  "checkpoint_of d cid tid =
     exists_where (\<lambda>c. cp_id c = cid \<and> cp_task c = tid) (checkpoints d)"

definition schedule_of :: "db \<Rightarrow> ident \<Rightarrow> ident \<Rightarrow> bool" where
  "schedule_of d sid tid =
     exists_where (\<lambda>s. sc_id s = sid \<and> sc_task s = tid) (schedules d)"

definition delegation_links :: "db \<Rightarrow> ident \<Rightarrow> ident \<Rightarrow> ident \<Rightarrow> bool" where
  "delegation_links d did parent child = exists_where
     (\<lambda>g. dg_id g = did \<and> dg_parent_task g = parent \<and> dg_child_task g = child) (delegations d)"

definition delegation_exists :: "db \<Rightarrow> ident \<Rightarrow> bool" where
  "delegation_exists d did = exists_where (\<lambda>g. dg_id g = did) (delegations d)"

text \<open>\<^verbatim>\<open>tasks t JOIN sessions s ... WHERE t.conversation_id=s.conversation_id\<close>\<close>

definition same_conversation :: "db \<Rightarrow> ident \<Rightarrow> ident \<Rightarrow> bool" where
  "same_conversation d tid sid =
     exists_where (\<lambda>t. tk_id t = tid \<and>
       exists_where (\<lambda>s. ss_id s = sid \<and> tk_conversation t = Some (ss_conversation s)) (sessions d))
     (tasks d)"

text \<open>\<^verbatim>\<open>tasks p JOIN tasks c\<close> of the delegation triggers\<close>

definition parent_and_child :: "db \<Rightarrow> ident \<Rightarrow> ident \<Rightarrow> bool" where
  "parent_and_child d parent child =
     exists_where (\<lambda>p. tk_id p = parent \<and>
       exists_where (\<lambda>c. tk_id c = child \<and> tk_parent c = Some parent \<and>
         tk_conversation c = tk_conversation p) (tasks d)) (tasks d)"

lemmas lookup_defs = conversation_exists_def task_exists_def session_exists_def
  control_exists_def schedule_run_exists_def task_in_def task_below_def session_in_def
  evidence_of_def event_of_def checkpoint_of_def schedule_of_def delegation_links_def
  delegation_exists_def same_conversation_def parent_and_child_def

subsection \<open>Triggers\<close>

definition abort_unless :: "bool \<Rightarrow> string \<Rightarrow> string option" where
  "abort_unless good msg = (if good then None else Some msg)"

fun first_abort :: "string option list \<Rightarrow> string option" where
  "first_abort [] = None"
| "first_abort (None # ms) = first_abort ms"
| "first_abort (Some m # ms) = Some m"

lemma abort_unless_None [simp]: "abort_unless good msg = None \<longleftrightarrow> good"
  by (simp add: abort_unless_def)

lemma first_abort_None [simp]: "first_abort ms = None \<longleftrightarrow> (\<forall>m \<in> set ms. m = None)"
  by (induction ms rule: first_abort.induct) auto

definition messages_lineage_insert :: "db \<Rightarrow> message_row \<Rightarrow> string option" where
  "messages_lineage_insert d new = abort_unless
     (case ms_related_task new of None \<Rightarrow> True
      | Some tid \<Rightarrow> task_in d tid (Some (ms_conversation new)))
     ''message task lineage does not match conversation''"

definition messages_lineage_update :: "db \<Rightarrow> message_row \<Rightarrow> message_row \<Rightarrow> string option" where
  "messages_lineage_update d old new = abort_unless
     (case ms_related_task new of None \<Rightarrow> True
      | Some tid \<Rightarrow> task_in d tid (Some (ms_conversation new)))
     ''message task lineage does not match conversation''"

definition sessions_conversation_immutable ::
    "db \<Rightarrow> session_row \<Rightarrow> session_row \<Rightarrow> string option" where
  "sessions_conversation_immutable d old new = abort_unless
     (ss_conversation new = ss_conversation old) ''session conversation lineage is immutable''"

text \<open>A task may cite its own evidence and its parent's.\<close>

definition task_evidence_ok :: "db \<Rightarrow> ident \<Rightarrow> ident option \<Rightarrow> ident list \<Rightarrow> bool" where
  "task_evidence_ok d tid parent refs = (\<forall>r \<in> set refs.
     evidence_of d r tid \<or> (case parent of None \<Rightarrow> False | Some p \<Rightarrow> evidence_of d r p))"

definition tasks_lineage_insert :: "db \<Rightarrow> task_row \<Rightarrow> string option" where
  "tasks_lineage_insert d new = first_abort
     [abort_unless (case tk_parent new of None \<Rightarrow> True
        | Some p \<Rightarrow> task_in d p (tk_conversation new))
        ''child task lineage does not match parent'',
      abort_unless (task_evidence_ok d (tk_id new) (tk_parent new) (tk_evidence_refs new))
        ''task evidence reference is outside its lineage'']"

definition tasks_lineage_update :: "db \<Rightarrow> task_row \<Rightarrow> task_row \<Rightarrow> string option" where
  "tasks_lineage_update d old new = first_abort
     [abort_unless (tk_parent new = tk_parent old) ''task parent lineage is immutable'',
      abort_unless (tk_conversation old = None \<or> tk_conversation new = tk_conversation old)
        ''task conversation lineage is already bound'',
      abort_unless (tk_conversation new = tk_conversation old \<or>
        \<not> exists_where (\<lambda>c. tk_parent c = Some (tk_id new) \<and>
            tk_conversation c \<noteq> tk_conversation new) (tasks d))
        ''task conversation cannot diverge from child lineage'',
      abort_unless (case tk_parent new of None \<Rightarrow> True
        | Some p \<Rightarrow> task_in d p (tk_conversation new))
        ''child task lineage does not match parent'',
      abort_unless (task_evidence_ok d (tk_id new) (tk_parent new) (tk_evidence_refs new))
        ''task evidence reference is outside its lineage'']"

definition state_events_lineage_insert :: "db \<Rightarrow> state_event_row \<Rightarrow> string option" where
  "state_events_lineage_insert d new = first_abort
     [abort_unless (case se_session new of None \<Rightarrow> True
        | Some sid \<Rightarrow> session_in d sid (se_conversation new))
        ''state event session lineage does not match conversation'',
      abort_unless (case se_task new of None \<Rightarrow> True
        | Some tid \<Rightarrow> task_in d tid (se_conversation new))
        ''state event task lineage does not match conversation'']"

definition state_events_lineage_update ::
    "db \<Rightarrow> state_event_row \<Rightarrow> state_event_row \<Rightarrow> string option" where
  "state_events_lineage_update d old new = first_abort
     [abort_unless (case se_session new of None \<Rightarrow> True
        | Some sid \<Rightarrow> session_in d sid (se_conversation new))
        ''state event session lineage does not match conversation'',
      abort_unless (case se_task new of None \<Rightarrow> True
        | Some tid \<Rightarrow> task_in d tid (se_conversation new))
        ''state event task lineage does not match conversation'']"

definition task_events_lineage_insert :: "db \<Rightarrow> task_event_row \<Rightarrow> string option" where
  "task_events_lineage_insert d new = abort_unless
     (task_in d (te_task new) (te_conversation new))
     ''task event lineage does not match conversation''"

definition task_events_lineage_update ::
    "db \<Rightarrow> task_event_row \<Rightarrow> task_event_row \<Rightarrow> string option" where
  "task_events_lineage_update d old new = abort_unless
     (task_in d (te_task new) (te_conversation new))
     ''task event lineage does not match conversation''"

definition evidence_lineage_insert :: "db \<Rightarrow> evidence_row \<Rightarrow> string option" where
  "evidence_lineage_insert d new = abort_unless
     (case ev_event new of None \<Rightarrow> True | Some uuid \<Rightarrow> event_of d uuid (ev_task new))
     ''evidence event lineage does not match task''"

text \<open>A checkpoint may cite the evidence of its task and of the task's parent.\<close>

definition checkpoints_lineage_insert :: "db \<Rightarrow> checkpoint_row \<Rightarrow> string option" where
  "checkpoints_lineage_insert d new = abort_unless
     (\<forall>r \<in> set (cp_evidence_refs new). exists_where (\<lambda>t. tk_id t = cp_task new \<and>
        (evidence_of d r (cp_task new) \<or>
         (case tk_parent t of None \<Rightarrow> False | Some p \<Rightarrow> evidence_of d r p))) (tasks d))
     ''checkpoint evidence reference is outside task lineage''"

definition context_epochs_lineage_insert :: "db \<Rightarrow> epoch_row \<Rightarrow> string option" where
  "context_epochs_lineage_insert d new = abort_unless
     (task_in d (ce_task new) (Some (ce_conversation new)) \<and>
      checkpoint_of d (ce_checkpoint new) (ce_task new))
     ''context epoch lineage does not match task checkpoint''"

definition task_runs_lineage_insert :: "db \<Rightarrow> task_run_row \<Rightarrow> string option" where
  "task_runs_lineage_insert d new = abort_unless
     (task_in d (tr_task new) (tr_conversation new))
     ''task run lineage does not match conversation''"

definition task_runs_lineage_update ::
    "db \<Rightarrow> task_run_row \<Rightarrow> task_run_row \<Rightarrow> string option" where
  "task_runs_lineage_update d old new = abort_unless
     (task_in d (tr_task new) (tr_conversation new))
     ''task run lineage does not match conversation''"

definition task_controls_lineage_insert :: "db \<Rightarrow> control_row \<Rightarrow> string option" where
  "task_controls_lineage_insert d new = abort_unless
     (case ct_session new of None \<Rightarrow> True | Some sid \<Rightarrow> same_conversation d (ct_task new) sid)
     ''task control session lineage does not match task''"

definition task_controls_lineage_update ::
    "db \<Rightarrow> control_row \<Rightarrow> control_row \<Rightarrow> string option" where
  "task_controls_lineage_update d old new = abort_unless
     (case ct_session new of None \<Rightarrow> True | Some sid \<Rightarrow> same_conversation d (ct_task new) sid)
     ''task control session lineage does not match task''"

definition approvals_lineage_insert :: "db \<Rightarrow> approval_row \<Rightarrow> string option" where
  "approvals_lineage_insert d new = abort_unless
     (case (ap_task new, ap_session new) of
        (Some tid, Some sid) \<Rightarrow> same_conversation d tid sid | _ \<Rightarrow> True)
     ''approval session lineage does not match task''"

definition approvals_lineage_update ::
    "db \<Rightarrow> approval_row \<Rightarrow> approval_row \<Rightarrow> string option" where
  "approvals_lineage_update d old new = abort_unless
     (case (ap_task new, ap_session new) of
        (Some tid, Some sid) \<Rightarrow> same_conversation d tid sid | _ \<Rightarrow> True)
     ''approval session lineage does not match task''"

definition delegations_lineage_insert :: "db \<Rightarrow> delegation_row \<Rightarrow> string option" where
  "delegations_lineage_insert d new = first_abort
     [abort_unless (parent_and_child d (dg_parent_task new) (dg_child_task new))
        ''delegation lineage does not match parent and child'',
      abort_unless (\<forall>r \<in> set (dg_evidence_refs new). evidence_of d r (dg_parent_task new))
        ''delegation evidence is not owned by its parent task'']"

definition delegations_lineage_update ::
    "db \<Rightarrow> delegation_row \<Rightarrow> delegation_row \<Rightarrow> string option" where
  "delegations_lineage_update d old new = first_abort
     [abort_unless (dg_parent_task new = dg_parent_task old \<and> dg_child_task new = dg_child_task old)
        ''delegation task lineage is immutable'',
      abort_unless (parent_and_child d (dg_parent_task new) (dg_child_task new))
        ''delegation lineage does not match parent and child'',
      abort_unless (\<forall>r \<in> set (dg_evidence_refs new). evidence_of d r (dg_parent_task new))
        ''delegation evidence is not owned by its parent task'']"

definition contract_parent_ok :: "db \<Rightarrow> contract_row \<Rightarrow> bool" where
  "contract_parent_ok d new = (case dc_parent new of None \<Rightarrow> True | Some pid \<Rightarrow>
     exists_where (\<lambda>g. dg_id g = dc_delegation new \<and>
       exists_where (\<lambda>p. dg_id p = pid \<and> dg_child_task p = dg_parent_task g) (delegations d))
     (delegations d))"

definition delegation_contracts_lineage_insert :: "db \<Rightarrow> contract_row \<Rightarrow> string option" where
  "delegation_contracts_lineage_insert d new = abort_unless (contract_parent_ok d new)
     ''delegation contract parent lineage does not match''"

definition delegation_contracts_lineage_update ::
    "db \<Rightarrow> contract_row \<Rightarrow> contract_row \<Rightarrow> string option" where
  "delegation_contracts_lineage_update d old new = abort_unless (contract_parent_ok d new)
     ''delegation contract parent lineage does not match''"

definition schedule_runs_lineage_insert :: "db \<Rightarrow> schedule_run_row \<Rightarrow> string option" where
  "schedule_runs_lineage_insert d new = abort_unless
     (schedule_of d (sr_schedule new) (sr_task new) \<and>
      (case sr_checkpoint new of None \<Rightarrow> True | Some cid \<Rightarrow> checkpoint_of d cid (sr_task new)))
     ''schedule run lineage does not match task checkpoint''"

definition schedule_runs_lineage_update ::
    "db \<Rightarrow> schedule_run_row \<Rightarrow> schedule_run_row \<Rightarrow> string option" where
  "schedule_runs_lineage_update d old new = abort_unless
     (schedule_of d (sr_schedule new) (sr_task new) \<and>
      (case sr_checkpoint new of None \<Rightarrow> True | Some cid \<Rightarrow> checkpoint_of d cid (sr_task new)))
     ''schedule run lineage does not match task checkpoint''"

definition handoffs_lineage_insert :: "db \<Rightarrow> handoff_row \<Rightarrow> string option" where
  "handoffs_lineage_insert d new = abort_unless (checkpoint_of d (ho_checkpoint new) (ho_task new))
     ''handoff checkpoint lineage does not match task''"

lemmas trigger_defs = messages_lineage_insert_def messages_lineage_update_def
  sessions_conversation_immutable_def tasks_lineage_insert_def tasks_lineage_update_def
  state_events_lineage_insert_def state_events_lineage_update_def
  task_events_lineage_insert_def task_events_lineage_update_def evidence_lineage_insert_def
  checkpoints_lineage_insert_def context_epochs_lineage_insert_def
  task_runs_lineage_insert_def task_runs_lineage_update_def
  task_controls_lineage_insert_def task_controls_lineage_update_def
  approvals_lineage_insert_def approvals_lineage_update_def
  delegations_lineage_insert_def delegations_lineage_update_def
  delegation_contracts_lineage_insert_def delegation_contracts_lineage_update_def
  schedule_runs_lineage_insert_def schedule_runs_lineage_update_def handoffs_lineage_insert_def

subsection \<open>Insert statements\<close>

text \<open>SQLite evaluates the \<^verbatim>\<open>BEFORE\<close> triggers, then the \<^verbatim>\<open>CHECK\<close> and \<^verbatim>\<open>UNIQUE\<close> clauses of the
  row, and the foreign keys when the statement ends.\<close>

definition admit :: "string option \<Rightarrow> bool \<Rightarrow> bool \<Rightarrow> bool \<Rightarrow> db \<Rightarrow> db result" where
  "admit abort check unique refs d' = (case abort of
     Some msg \<Rightarrow> Err (Integrity_Error msg)
   | None \<Rightarrow>
       raise_if (\<not> check) (Integrity_Error ''CHECK constraint failed'')
      (raise_if (\<not> unique) (Integrity_Error ''UNIQUE constraint failed'')
      (raise_if (\<not> refs) (Integrity_Error ''FOREIGN KEY constraint failed'') (Ok d'))))"

lemma admit_eq_Ok [outcome, simp]:
  "admit abort check unique refs d' = Ok d'' \<longleftrightarrow>
     abort = None \<and> check \<and> unique \<and> refs \<and> d'' = d'"
  by (auto simp: admit_def split: option.splits)

text \<open>A foreign key that may be null.\<close>

definition optional :: "('k \<Rightarrow> bool) \<Rightarrow> 'k option \<Rightarrow> bool" where
  "optional P x = (case x of None \<Rightarrow> True | Some y \<Rightarrow> P y)"

lemma optional_simps [simp]: "optional P None" "optional P (Some y) = P y"
  by (simp_all add: optional_def)

lemma optional_mono: "optional P x \<Longrightarrow> (\<And>y. P y \<Longrightarrow> Q y) \<Longrightarrow> optional Q x"
  by (cases x) auto

definition message_refs :: "db \<Rightarrow> message_row \<Rightarrow> bool" where
  "message_refs d r = conversation_exists d (ms_conversation r)"

definition session_refs :: "db \<Rightarrow> session_row \<Rightarrow> bool" where
  "session_refs d r = conversation_exists d (ss_conversation r)"

definition state_event_refs :: "db \<Rightarrow> state_event_row \<Rightarrow> bool" where
  "state_event_refs d r = (optional (session_exists d) (se_session r) \<and>
     optional (conversation_exists d) (se_conversation r) \<and> optional (task_exists d) (se_task r))"

definition approval_refs :: "db \<Rightarrow> approval_row \<Rightarrow> bool" where
  "approval_refs d r =
     (optional (task_exists d) (ap_task r) \<and> optional (session_exists d) (ap_session r))"

definition evidence_refs :: "db \<Rightarrow> evidence_row \<Rightarrow> bool" where
  "evidence_refs d r = optional (task_exists d) (ev_task r)"

definition control_refs :: "db \<Rightarrow> control_row \<Rightarrow> bool" where
  "control_refs d r = (task_exists d (ct_task r) \<and> optional (session_exists d) (ct_session r))"

definition cancellation_refs :: "db \<Rightarrow> cancellation_row \<Rightarrow> bool" where
  "cancellation_refs d r = control_exists d (cx_control r)"

definition task_refs :: "db \<Rightarrow> task_row \<Rightarrow> bool" where
  "task_refs d r = (optional (conversation_exists d) (tk_conversation r) \<and>
     optional (\<lambda>p. p = tk_id r \<or> task_exists d p) (tk_parent r))"

definition task_event_refs :: "db \<Rightarrow> task_event_row \<Rightarrow> bool" where
  "task_event_refs d r =
     (task_exists d (te_task r) \<and> optional (conversation_exists d) (te_conversation r))"

definition epoch_refs :: "db \<Rightarrow> epoch_row \<Rightarrow> bool" where
  "epoch_refs d r = (conversation_exists d (ce_conversation r) \<and> task_exists d (ce_task r) \<and>
     exists_where (\<lambda>c. cp_id c = ce_checkpoint r) (checkpoints d))"

definition task_run_refs :: "db \<Rightarrow> task_run_row \<Rightarrow> bool" where
  "task_run_refs d r =
     (task_exists d (tr_task r) \<and> optional (conversation_exists d) (tr_conversation r))"

definition delegation_refs :: "db \<Rightarrow> delegation_row \<Rightarrow> bool" where
  "delegation_refs d r = (task_exists d (dg_parent_task r) \<and> task_exists d (dg_child_task r))"

definition contract_refs :: "db \<Rightarrow> contract_row \<Rightarrow> bool" where
  "contract_refs d r =
     (delegation_exists d (dc_delegation r) \<and> optional (delegation_exists d) (dc_parent r))"

definition schedule_run_refs :: "db \<Rightarrow> schedule_run_row \<Rightarrow> bool" where
  "schedule_run_refs d r = (exists_where (\<lambda>s. sc_id s = sr_schedule r) (schedules d) \<and>
     task_exists d (sr_task r) \<and>
     optional (\<lambda>c. exists_where (\<lambda>x. cp_id x = c) (checkpoints d)) (sr_checkpoint r))"

definition handoff_refs :: "db \<Rightarrow> handoff_row \<Rightarrow> bool" where
  "handoff_refs d r = (task_exists d (ho_task r) \<and>
     exists_where (\<lambda>c. cp_id c = ho_checkpoint r) (checkpoints d))"

lemmas refs_defs = message_refs_def session_refs_def state_event_refs_def approval_refs_def
  evidence_refs_def control_refs_def cancellation_refs_def task_refs_def task_event_refs_def
  epoch_refs_def task_run_refs_def delegation_refs_def contract_refs_def schedule_run_refs_def
  handoff_refs_def

definition fresh :: "('r \<Rightarrow> 'k) \<Rightarrow> 'k \<Rightarrow> 'r list \<Rightarrow> bool" where
  "fresh key k t = (\<not> exists_where (\<lambda>r. key r = k) t)"

lemma fresh_iff [simp]: "fresh key k t \<longleftrightarrow> k \<notin> key ` set t"
  by (auto simp: fresh_def)

definition insert_conversation :: "conversation_row \<Rightarrow> db \<Rightarrow> db result" where
  "insert_conversation r d = admit None True (fresh cv_id (cv_id r) (conversations d)) True
     (d\<lparr>conversations := conversations d @ [r]\<rparr>)"

definition insert_message :: "message_row \<Rightarrow> db \<Rightarrow> db result" where
  "insert_message r d = admit (messages_lineage_insert d r) True
     (fresh ms_id (ms_id r) (messages d) \<and>
      fresh (\<lambda>m. (ms_conversation m, ms_seq m)) (ms_conversation r, ms_seq r) (messages d))
     (message_refs d r) (d\<lparr>messages := messages d @ [r]\<rparr>)"

definition insert_session :: "session_row \<Rightarrow> db \<Rightarrow> db result" where
  "insert_session r d = admit None True (fresh ss_id (ss_id r) (sessions d))
     (session_refs d r) (d\<lparr>sessions := sessions d @ [r]\<rparr>)"

text \<open>\<^verbatim>\<open>INTEGER PRIMARY KEY AUTOINCREMENT\<close> gives the next number; neither event table ever loses
  a row.\<close>

definition insert_state_event_row :: "state_event_row \<Rightarrow> db \<Rightarrow> db result" where
  "insert_state_event_row r d = admit (state_events_lineage_insert d r) True
     (fresh se_uuid (se_uuid r) (state_events d)) (state_event_refs d r)
     (d\<lparr>state_events := state_events d @
        [r\<lparr>se_id := next_seq se_id (\<lambda>_. True) (state_events d)\<rparr>]\<rparr>)"

definition insert_task_event_row :: "task_event_row \<Rightarrow> db \<Rightarrow> db result" where
  "insert_task_event_row r d = admit (task_events_lineage_insert d r) True
     (fresh te_uuid (te_uuid r) (task_events d)) (task_event_refs d r)
     (d\<lparr>task_events := task_events d @
        [r\<lparr>te_id := next_seq te_id (\<lambda>_. True) (task_events d)\<rparr>]\<rparr>)"

definition insert_approval :: "approval_row \<Rightarrow> db \<Rightarrow> db result" where
  "insert_approval r d = admit (approvals_lineage_insert d r) True
     (fresh ap_id (ap_id r) (approvals d)) (approval_refs d r)
     (d\<lparr>approvals := approvals d @ [r]\<rparr>)"

definition insert_evidence :: "evidence_row \<Rightarrow> db \<Rightarrow> db result" where
  "insert_evidence r d = admit (evidence_lineage_insert d r) True
     (fresh ev_id (ev_id r) (evidence_records d)) (evidence_refs d r)
     (d\<lparr>evidence_records := evidence_records d @ [r]\<rparr>)"

definition insert_control :: "control_row \<Rightarrow> db \<Rightarrow> db result" where
  "insert_control r d = admit (task_controls_lineage_insert d r) True
     (fresh ct_id (ct_id r) (task_controls d) \<and>
      fresh (\<lambda>c. (ct_task c, ct_seq c)) (ct_task r, ct_seq r) (task_controls d))
     (control_refs d r) (d\<lparr>task_controls := task_controls d @ [r]\<rparr>)"

definition insert_cancellation :: "cancellation_row \<Rightarrow> db \<Rightarrow> db result" where
  "insert_cancellation r d = admit None True
     (fresh cx_control (cx_control r) (control_cancellations d)) (cancellation_refs d r)
     (d\<lparr>control_cancellations := control_cancellations d @ [r]\<rparr>)"

definition task_checks :: "task_row \<Rightarrow> bool" where
  "task_checks r = ((case tk_progress r of None \<Rightarrow> True | Some p \<Rightarrow> 0 \<le> p \<and> p \<le> 1) \<and> 1 \<le> tk_epoch r)"

definition insert_task :: "task_row \<Rightarrow> db \<Rightarrow> db result" where
  "insert_task r d = admit (tasks_lineage_insert d r) (task_checks r)
     (fresh tk_id (tk_id r) (tasks d)) (task_refs d r) (d\<lparr>tasks := tasks d @ [r]\<rparr>)"

text \<open>\<^verbatim>\<open>idx_schedules_active_task\<close>: a task has at most one schedule that is not removed.\<close>

definition schedule_checks :: "schedule_row \<Rightarrow> bool" where
  "schedule_checks r = (1 \<le> sc_max_catch_up r \<and> 1 \<le> sc_max_concurrency r)"

definition insert_schedule :: "schedule_row \<Rightarrow> db \<Rightarrow> db result" where
  "insert_schedule r d = admit None (schedule_checks r)
     (fresh sc_id (sc_id r) (schedules d) \<and>
      (sc_removed_at r \<noteq> None \<or>
       \<not> exists_where (\<lambda>s. sc_task s = sc_task r \<and> sc_removed_at s = None) (schedules d)))
     (task_exists d (sc_task r)) (d\<lparr>schedules := schedules d @ [r]\<rparr>)"

text \<open>The run's idempotency key is unique, and so is \<^verbatim>\<open>(schedule_id, planned_for)\<close>
  (\<^verbatim>\<open>idx_schedule_runs_planned\<close>).\<close>

definition insert_schedule_run :: "schedule_run_row \<Rightarrow> db \<Rightarrow> db result" where
  "insert_schedule_run r d = admit (schedule_runs_lineage_insert d r) True
     (fresh sr_id (sr_id r) (schedule_runs d) \<and>
      fresh sr_idempotency_key (sr_idempotency_key r) (schedule_runs d) \<and>
      fresh (\<lambda>x. (sr_schedule x, sr_planned_for x)) (sr_schedule r, sr_planned_for r) (schedule_runs d))
     (schedule_run_refs d r) (d\<lparr>schedule_runs := schedule_runs d @ [r]\<rparr>)"

definition insert_delivery :: "delivery_row \<Rightarrow> db \<Rightarrow> db result" where
  "insert_delivery r d = admit None True
     (fresh dv_id (dv_id r) (schedule_deliveries d) \<and> fresh dv_run (dv_run r) (schedule_deliveries d))
     (schedule_run_exists d (dv_run r)) (d\<lparr>schedule_deliveries := schedule_deliveries d @ [r]\<rparr>)"

definition insert_checkpoint :: "checkpoint_row \<Rightarrow> db \<Rightarrow> db result" where
  "insert_checkpoint r d = admit (checkpoints_lineage_insert d r) (1 \<le> cp_epoch r)
     (fresh cp_id (cp_id r) (checkpoints d) \<and>
      fresh (\<lambda>c. (cp_task c, cp_seq c)) (cp_task r, cp_seq r) (checkpoints d))
     (task_exists d (cp_task r)) (d\<lparr>checkpoints := checkpoints d @ [r]\<rparr>)"

definition insert_epoch :: "epoch_row \<Rightarrow> db \<Rightarrow> db result" where
  "insert_epoch r d = admit (context_epochs_lineage_insert d r) True
     (fresh ce_id (ce_id r) (context_epochs d) \<and>
      fresh (\<lambda>e. (ce_task e, ce_epoch e)) (ce_task r, ce_epoch r) (context_epochs d))
     (epoch_refs d r) (d\<lparr>context_epochs := context_epochs d @ [r]\<rparr>)"

definition insert_task_run :: "task_run_row \<Rightarrow> db \<Rightarrow> db result" where
  "insert_task_run r d = admit (task_runs_lineage_insert d r) True
     (fresh tr_id (tr_id r) (task_runs d)) (task_run_refs d r)
     (d\<lparr>task_runs := task_runs d @ [r]\<rparr>)"

definition insert_delegation :: "delegation_row \<Rightarrow> db \<Rightarrow> db result" where
  "insert_delegation r d = admit (delegations_lineage_insert d r) True
     (fresh dg_id (dg_id r) (delegations d) \<and>
      fresh dg_child_task (dg_child_task r) (delegations d))
     (delegation_refs d r) (d\<lparr>delegations := delegations d @ [r]\<rparr>)"

definition insert_contract :: "contract_row \<Rightarrow> db \<Rightarrow> db result" where
  "insert_contract r d = admit (delegation_contracts_lineage_insert d r) True
     (fresh dc_delegation (dc_delegation r) (delegation_contracts d)) (contract_refs d r)
     (d\<lparr>delegation_contracts := delegation_contracts d @ [r]\<rparr>)"

definition insert_handoff :: "handoff_row \<Rightarrow> db \<Rightarrow> db result" where
  "insert_handoff r d = admit (handoffs_lineage_insert d r) True
     (fresh ho_id (ho_id r) (handoffs d)) (handoff_refs d r)
     (d\<lparr>handoffs := handoffs d @ [r]\<rparr>)"

lemmas insert_defs = insert_conversation_def insert_message_def insert_session_def
  insert_state_event_row_def insert_task_event_row_def insert_approval_def insert_evidence_def
  insert_control_def insert_cancellation_def insert_task_def insert_schedule_def
  insert_schedule_run_def insert_delivery_def insert_checkpoint_def insert_epoch_def
  insert_task_run_def insert_delegation_def insert_contract_def insert_handoff_def

subsection \<open>Update statements\<close>

text \<open>\<^verbatim>\<open>UPDATE t SET ... WHERE P\<close>: the trigger runs on each row the statement changes, and the
  first abort undoes the statement.\<close>

definition update_rows ::
    "('r \<Rightarrow> 'r \<Rightarrow> string option) \<Rightarrow> ('r \<Rightarrow> bool) \<Rightarrow> ('r \<Rightarrow> 'r) \<Rightarrow> 'r list \<Rightarrow> 'r list result" where
  "update_rows trigger P f t =
     (case first_abort (map (\<lambda>r. trigger r (f r)) (filter P t)) of
        Some msg \<Rightarrow> Err (Integrity_Error msg)
      | None \<Rightarrow> Ok (update_where P f t))"

lemma update_rows_eq_Ok [outcome]:
  "update_rows trigger P f t = Ok t' \<longleftrightarrow>
     (\<forall>r \<in> set t. P r \<longrightarrow> trigger r (f r) = None) \<and> t' = update_where P f t"
proof -
  have "first_abort (map (\<lambda>r. trigger r (f r)) (filter P t)) = None \<longleftrightarrow>
      (\<forall>r \<in> set t. P r \<longrightarrow> trigger r (f r) = None)"
    by auto
  then show ?thesis
    by (cases "first_abort (map (\<lambda>r. trigger r (f r)) (filter P t))") (auto simp: update_rows_def simp del: first_abort_None)
qed

text \<open>\<^verbatim>\<open>tasks_conversation_propagate\<close>, after a task was bound to a conversation\<close>

definition tasks_conversation_propagate :: "ident \<Rightarrow> ident \<Rightarrow> db \<Rightarrow> db result" where
  "tasks_conversation_propagate tid conv d =
     and_then (update_rows (state_events_lineage_update d)
       (\<lambda>e. se_task e = Some tid \<and> se_conversation e = None)
       (\<lambda>e. e\<lparr>se_conversation := Some conv\<rparr>) (state_events d))
     (\<lambda>events. and_then (update_rows (task_events_lineage_update d)
       (\<lambda>e. te_task e = tid \<and> te_conversation e = None)
       (\<lambda>e. e\<lparr>te_conversation := Some conv\<rparr>) (task_events d))
     (\<lambda>tevents. and_then (update_rows (task_runs_lineage_update d)
       (\<lambda>r. tr_task r = tid \<and> tr_conversation r = None)
       (\<lambda>r. r\<lparr>tr_conversation := Some conv\<rparr>) (task_runs d))
     (\<lambda>runs. Ok (d\<lparr>state_events := events, task_events := tevents, task_runs := runs\<rparr>))))"

text \<open>Every statement on \<^verbatim>\<open>tasks\<close> names its row by id.  A statement that finds no row changes
  nothing.\<close>

definition update_task_row :: "ident \<Rightarrow> (task_row \<Rightarrow> task_row) \<Rightarrow> db \<Rightarrow> db result" where
  "update_task_row tid f d = (case find_task d tid of
     None \<Rightarrow> Ok d
   | Some old \<Rightarrow>
       and_then (admit (tasks_lineage_update d old (f old)) (task_checks (f old)) True
           (optional (conversation_exists d) (tk_conversation (f old)))
           (d\<lparr>tasks := update_where (\<lambda>t. tk_id t = tid) f (tasks d)\<rparr>))
         (\<lambda>d'. case (tk_conversation old, tk_conversation (f old)) of
            (None, Some conv) \<Rightarrow> tasks_conversation_propagate tid conv d'
          | _ \<Rightarrow> Ok d'))"

definition update_conversations ::
    "(conversation_row \<Rightarrow> bool) \<Rightarrow> (conversation_row \<Rightarrow> conversation_row) \<Rightarrow> db \<Rightarrow> db" where
  "update_conversations P f d = d\<lparr>conversations := update_where P f (conversations d)\<rparr>"

definition update_messages ::
    "(message_row \<Rightarrow> bool) \<Rightarrow> (message_row \<Rightarrow> message_row) \<Rightarrow> db \<Rightarrow> db result" where
  "update_messages P f d = and_then (update_rows (messages_lineage_update d) P f (messages d))
     (\<lambda>t. Ok (d\<lparr>messages := t\<rparr>))"

definition update_sessions ::
    "(session_row \<Rightarrow> bool) \<Rightarrow> (session_row \<Rightarrow> session_row) \<Rightarrow> db \<Rightarrow> db result" where
  "update_sessions P f d = and_then (update_rows (sessions_conversation_immutable d) P f (sessions d))
     (\<lambda>t. Ok (d\<lparr>sessions := t\<rparr>))"

definition update_approvals ::
    "(approval_row \<Rightarrow> bool) \<Rightarrow> (approval_row \<Rightarrow> approval_row) \<Rightarrow> db \<Rightarrow> db result" where
  "update_approvals P f d = and_then (update_rows (approvals_lineage_update d) P f (approvals d))
     (\<lambda>t. Ok (d\<lparr>approvals := t\<rparr>))"

definition update_controls ::
    "(control_row \<Rightarrow> bool) \<Rightarrow> (control_row \<Rightarrow> control_row) \<Rightarrow> db \<Rightarrow> db result" where
  "update_controls P f d = and_then (update_rows (task_controls_lineage_update d) P f (task_controls d))
     (\<lambda>t. Ok (d\<lparr>task_controls := t\<rparr>))"

definition update_cancellations ::
    "(cancellation_row \<Rightarrow> bool) \<Rightarrow> (cancellation_row \<Rightarrow> cancellation_row) \<Rightarrow> db \<Rightarrow> db" where
  "update_cancellations P f d =
     d\<lparr>control_cancellations := update_where P f (control_cancellations d)\<rparr>"

definition update_task_runs ::
    "(task_run_row \<Rightarrow> bool) \<Rightarrow> (task_run_row \<Rightarrow> task_run_row) \<Rightarrow> db \<Rightarrow> db result" where
  "update_task_runs P f d = and_then (update_rows (task_runs_lineage_update d) P f (task_runs d))
     (\<lambda>t. Ok (d\<lparr>task_runs := t\<rparr>))"

definition update_schedules ::
    "(schedule_row \<Rightarrow> bool) \<Rightarrow> (schedule_row \<Rightarrow> schedule_row) \<Rightarrow> db \<Rightarrow> db" where
  "update_schedules P f d = d\<lparr>schedules := update_where P f (schedules d)\<rparr>"

definition update_schedule_runs ::
    "(schedule_run_row \<Rightarrow> bool) \<Rightarrow> (schedule_run_row \<Rightarrow> schedule_run_row) \<Rightarrow> db \<Rightarrow> db result" where
  "update_schedule_runs P f d =
     and_then (update_rows (schedule_runs_lineage_update d) P f (schedule_runs d))
     (\<lambda>t. Ok (d\<lparr>schedule_runs := t\<rparr>))"

definition update_deliveries ::
    "(delivery_row \<Rightarrow> bool) \<Rightarrow> (delivery_row \<Rightarrow> delivery_row) \<Rightarrow> db \<Rightarrow> db" where
  "update_deliveries P f d = d\<lparr>schedule_deliveries := update_where P f (schedule_deliveries d)\<rparr>"

definition update_delegations ::
    "(delegation_row \<Rightarrow> bool) \<Rightarrow> (delegation_row \<Rightarrow> delegation_row) \<Rightarrow> db \<Rightarrow> db result" where
  "update_delegations P f d =
     and_then (update_rows (delegations_lineage_update d) P f (delegations d))
     (\<lambda>t. Ok (d\<lparr>delegations := t\<rparr>))"

definition update_contracts ::
    "(contract_row \<Rightarrow> bool) \<Rightarrow> (contract_row \<Rightarrow> contract_row) \<Rightarrow> db \<Rightarrow> db result" where
  "update_contracts P f d =
     and_then (update_rows (delegation_contracts_lineage_update d) P f (delegation_contracts d))
     (\<lambda>t. Ok (d\<lparr>delegation_contracts := t\<rparr>))"

lemmas update_defs = update_conversations_def update_messages_def update_sessions_def
  update_approvals_def update_controls_def update_cancellations_def update_task_runs_def
  update_schedules_def update_schedule_runs_def update_deliveries_def update_delegations_def
  update_contracts_def

end
