(* ===== verification/Lineage_Audit.thy ===== *)
theory Lineage_Audit
  imports Lineage
begin

section \<open>The lineage audit and the events\<close>

text \<open>
  \<^verbatim>\<open>lineage_errors\<close> of \<^verbatim>\<open>state_store.py\<close> counts, query by query, the rows whose references
  contradict each other.  This theory models it over the tables of \<open>db\<close> (\<open>core_errors\<close>; the whole
  audit is \<open>lineage_errors\<close> of \<open>Store_Audit\<close>), together with
  \<^verbatim>\<open>resolve_lineage_in_transaction\<close> and the event writers of \<^verbatim>\<open>state_events.py\<close> and
  \<^verbatim>\<open>events.py\<close>, and shows that the triggers do their work: a store whose audit is empty keeps
  an empty audit under every write the components make (\<open>db_write\<close>), the binding of a task to
  a conversation, which rewrites the task's events and runs, included.
\<close>

subsection \<open>The audit\<close>

definition count_join :: "('a \<Rightarrow> 'b \<Rightarrow> bool) \<Rightarrow> 'a list \<Rightarrow> 'b list \<Rightarrow> nat" where
  "count_join P t u = sum_list (map (\<lambda>r. count_where (P r) u) t)"

definition foreign_key_violations :: "db \<Rightarrow> nat" where
  "foreign_key_violations d =
     count_where (\<lambda>r. \<not> message_refs d r) (messages d) +
     count_where (\<lambda>r. \<not> session_refs d r) (sessions d) +
     count_where (\<lambda>r. \<not> state_event_refs d r) (state_events d) +
     count_where (\<lambda>r. \<not> approval_refs d r) (approvals d) +
     count_where (\<lambda>r. \<not> evidence_refs d r) (evidence_records d) +
     count_where (\<lambda>r. \<not> control_refs d r) (task_controls d) +
     count_where (\<lambda>r. \<not> cancellation_refs d r) (control_cancellations d) +
     count_where (\<lambda>r. \<not> task_refs d r) (tasks d) +
     count_where (\<lambda>r. \<not> task_exists d (sc_task r)) (schedules d) +
     count_where (\<lambda>r. \<not> schedule_run_refs d r) (schedule_runs d) +
     count_where (\<lambda>r. \<not> schedule_run_exists d (dv_run r)) (schedule_deliveries d) +
     count_where (\<lambda>r. \<not> task_event_refs d r) (task_events d) +
     count_where (\<lambda>r. \<not> task_exists d (cp_task r)) (checkpoints d) +
     count_where (\<lambda>r. \<not> epoch_refs d r) (context_epochs d) +
     count_where (\<lambda>r. \<not> task_run_refs d r) (task_runs d) +
     count_where (\<lambda>r. \<not> delegation_refs d r) (delegations d) +
     count_where (\<lambda>r. \<not> contract_refs d r) (delegation_contracts d) +
     count_where (\<lambda>r. \<not> handoff_refs d r) (handoffs d)"

text \<open>The queries in the order of the code, in three groups: the tables of the journal and of the
  projections, which are modelled beside \<open>db\<close>, are looked at between them (\<open>Store_Audit\<close>).\<close>

definition record_checks :: "db \<Rightarrow> (string \<times> nat) list" where
  "record_checks d =
   [(''message task/conversation'', count_where (\<lambda>m. case ms_related_task m of None \<Rightarrow> False
       | Some t \<Rightarrow> \<not> task_in d t (Some (ms_conversation m))) (messages d)),
    (''child task/parent'', count_join (\<lambda>c p. tk_parent c = Some (tk_id p) \<and>
       tk_conversation c \<noteq> tk_conversation p) (tasks d) (tasks d)),
    (''state event/session'', count_join (\<lambda>e s. se_session e = Some (ss_id s) \<and>
       se_conversation e \<noteq> Some (ss_conversation s)) (state_events d) (sessions d)),
    (''state event/task'', count_join (\<lambda>e t. se_task e = Some (tk_id t) \<and>
       se_conversation e \<noteq> tk_conversation t) (state_events d) (tasks d)),
    (''task event/conversation'', count_join (\<lambda>e t. te_task e = tk_id t \<and>
       te_conversation e \<noteq> tk_conversation t) (task_events d) (tasks d)),
    (''evidence event/task'', count_where (\<lambda>e. case ev_event e of None \<Rightarrow> False
       | Some uuid \<Rightarrow> \<not> event_of d uuid (ev_task e)) (evidence_records d)),
    (''task evidence lineage'', sum_list (map (\<lambda>t. count_where (\<lambda>r.
       \<not> (evidence_of d r (tk_id t) \<or>
          (case tk_parent t of None \<Rightarrow> False | Some p \<Rightarrow> evidence_of d r p)))
       (tk_evidence_refs t)) (tasks d))),
    (''checkpoint evidence lineage'', sum_list (map (\<lambda>c. count_join (\<lambda>t r.
       cp_task c = tk_id t \<and> \<not> (evidence_of d r (cp_task c) \<or>
          (case tk_parent t of None \<Rightarrow> False | Some p \<Rightarrow> evidence_of d r p)))
       (tasks d) (cp_evidence_refs c)) (checkpoints d)))]"

definition run_checks :: "db \<Rightarrow> (string \<times> nat) list" where
  "run_checks d =
   [(''context epoch/task checkpoint'', sum_list (map (\<lambda>e. count_join (\<lambda>t c.
       ce_task e = tk_id t \<and> ce_checkpoint e = cp_id c \<and>
       (Some (ce_conversation e) \<noteq> tk_conversation t \<or> cp_task c \<noteq> ce_task e))
       (tasks d) (checkpoints d)) (context_epochs d))),
    (''task run/conversation'', count_join (\<lambda>r t. tr_task r = tk_id t \<and>
       tr_conversation r \<noteq> tk_conversation t) (task_runs d) (tasks d)),
    (''task control/session'', sum_list (map (\<lambda>c. count_join (\<lambda>t s.
       ct_task c = tk_id t \<and> ct_session c = Some (ss_id s) \<and>
       tk_conversation t \<noteq> Some (ss_conversation s)) (tasks d) (sessions d)) (task_controls d))),
    (''approval/session'', sum_list (map (\<lambda>a. count_join (\<lambda>t s.
       ap_task a = Some (tk_id t) \<and> ap_session a = Some (ss_id s) \<and>
       tk_conversation t \<noteq> Some (ss_conversation s)) (tasks d) (sessions d)) (approvals d)))]"

definition link_checks :: "db \<Rightarrow> (string \<times> nat) list" where
  "link_checks d =
   [(''delegation task/evidence'', count_where (\<lambda>g.
       \<not> parent_and_child d (dg_parent_task g) (dg_child_task g) \<or>
       (\<exists>r \<in> set (dg_evidence_refs g). \<not> evidence_of d r (dg_parent_task g))) (delegations d)),
    (''delegation contract parent'', count_where (\<lambda>c. \<not> contract_parent_ok d c)
       (delegation_contracts d)),
    (''schedule run/task checkpoint'', count_where (\<lambda>r.
       \<not> schedule_of d (sr_schedule r) (sr_task r) \<or>
       (case sr_checkpoint r of None \<Rightarrow> False | Some c \<Rightarrow> \<not> checkpoint_of d c (sr_task r)))
       (schedule_runs d)),
    (''handoff/task checkpoint'', count_where (\<lambda>h.
       \<not> checkpoint_of d (ho_checkpoint h) (ho_task h)) (handoffs d))]"

definition core_checks :: "db \<Rightarrow> (string \<times> nat) list" where
  "core_checks d = (''foreign key'', foreign_key_violations d) # record_checks d @ run_checks d @ link_checks d"

lemmas check_defs = core_checks_def record_checks_def run_checks_def link_checks_def

definition report_checks :: "(string \<times> nat) list \<Rightarrow> string list" where
  "report_checks checks = map (\<lambda>(label, n). label @ '' lineage violations: '' @ dec n) (filter (\<lambda>(label, n). n \<noteq> 0) checks)"

definition core_errors :: "db \<Rightarrow> string list" where
  "core_errors d = report_checks (core_checks d)"

lemma report_checks_Nil [simp]: "report_checks checks = [] \<longleftrightarrow> (\<forall>c \<in> set checks. snd c = 0)"
  by (auto simp: report_checks_def filter_empty_conv)

lemma count_join_zero_iff:
  "count_join P t u = 0 \<longleftrightarrow> (\<forall>r \<in> set t. \<forall>s \<in> set u. \<not> P r s)"
  by (auto simp: count_join_def count_where_zero_iff)

lemma core_errors_Nil: "core_errors d = [] \<longleftrightarrow> (\<forall>c \<in> set (core_checks d). snd c = 0)"
  by (simp add: core_errors_def)

subsection \<open>What the audit looks for, row by row\<close>

definition keys_ok :: "db \<Rightarrow> bool" where
  "keys_ok d = (keys_distinct tk_id (tasks d) \<and> keys_distinct ss_id (sessions d) \<and>
     keys_distinct cp_id (checkpoints d))"

definition lineage_ok :: "db \<Rightarrow> bool" where
  "lineage_ok d =
    ((\<forall>r \<in> set (messages d). message_refs d r \<and> messages_lineage_insert d r = None) \<and>
     (\<forall>r \<in> set (sessions d). session_refs d r) \<and>
     (\<forall>r \<in> set (state_events d). state_event_refs d r \<and> state_events_lineage_insert d r = None) \<and>
     (\<forall>r \<in> set (approvals d). approval_refs d r \<and> approvals_lineage_insert d r = None) \<and>
     (\<forall>r \<in> set (evidence_records d). evidence_refs d r \<and> evidence_lineage_insert d r = None) \<and>
     (\<forall>r \<in> set (task_controls d). control_refs d r \<and> task_controls_lineage_insert d r = None) \<and>
     (\<forall>r \<in> set (control_cancellations d). cancellation_refs d r) \<and>
     (\<forall>r \<in> set (tasks d). task_refs d r \<and> tasks_lineage_insert d r = None) \<and>
     (\<forall>r \<in> set (schedules d). task_exists d (sc_task r)) \<and>
     (\<forall>r \<in> set (schedule_runs d). schedule_run_refs d r \<and> schedule_runs_lineage_insert d r = None) \<and>
     (\<forall>r \<in> set (schedule_deliveries d). schedule_run_exists d (dv_run r)) \<and>
     (\<forall>r \<in> set (task_events d). task_event_refs d r \<and> task_events_lineage_insert d r = None) \<and>
     (\<forall>r \<in> set (checkpoints d). task_exists d (cp_task r) \<and> checkpoints_lineage_insert d r = None) \<and>
     (\<forall>r \<in> set (context_epochs d). epoch_refs d r \<and> context_epochs_lineage_insert d r = None) \<and>
     (\<forall>r \<in> set (task_runs d). task_run_refs d r \<and> task_runs_lineage_insert d r = None) \<and>
     (\<forall>r \<in> set (delegations d). delegation_refs d r \<and> delegations_lineage_insert d r = None) \<and>
     (\<forall>r \<in> set (delegation_contracts d).
        contract_refs d r \<and> delegation_contracts_lineage_insert d r = None) \<and>
     (\<forall>r \<in> set (handoffs d). handoff_refs d r \<and> handoffs_lineage_insert d r = None))"

lemma task_unique: "keys_ok d \<Longrightarrow> t \<in> set (tasks d) \<Longrightarrow> u \<in> set (tasks d) \<Longrightarrow> tk_id t = tk_id u \<Longrightarrow> t = u"
  by (auto simp: keys_ok_def distinct_map dest: inj_onD)

lemma session_unique:
  "keys_ok d \<Longrightarrow> s \<in> set (sessions d) \<Longrightarrow> u \<in> set (sessions d) \<Longrightarrow> ss_id s = ss_id u \<Longrightarrow> s = u"
  by (auto simp: keys_ok_def distinct_map dest: inj_onD)

lemma checkpoint_unique:
  "keys_ok d \<Longrightarrow> c \<in> set (checkpoints d) \<Longrightarrow> u \<in> set (checkpoints d) \<Longrightarrow> cp_id c = cp_id u \<Longrightarrow> c = u"
  by (auto simp: keys_ok_def distinct_map dest: inj_onD)

lemma task_in_iff:
  "keys_ok d \<Longrightarrow> task_exists d tid \<Longrightarrow>
     task_in d tid c \<longleftrightarrow> (\<forall>t \<in> set (tasks d). tk_id t = tid \<longrightarrow> c = tk_conversation t)"
  by (fastforce simp: task_in_def task_exists_def dest: task_unique)

lemma session_in_iff:
  "keys_ok d \<Longrightarrow> session_exists d sid \<Longrightarrow>
     session_in d sid c \<longleftrightarrow> (\<forall>s \<in> set (sessions d). ss_id s = sid \<longrightarrow> c = Some (ss_conversation s))"
  by (fastforce simp: session_in_def session_exists_def dest: session_unique)

lemma checkpoint_of_iff:
  "keys_ok d \<Longrightarrow> exists_where (\<lambda>c. cp_id c = cid) (checkpoints d) \<Longrightarrow>
     checkpoint_of d cid tid \<longleftrightarrow> (\<forall>c \<in> set (checkpoints d). cp_id c = cid \<longrightarrow> cp_task c = tid)"
  by (fastforce simp: checkpoint_of_def dest: checkpoint_unique)

lemma same_conversation_iff:
  assumes "keys_ok d" "task_exists d tid" "session_exists d sid"
  shows "same_conversation d tid sid \<longleftrightarrow> (\<forall>t \<in> set (tasks d). \<forall>s \<in> set (sessions d).
     tk_id t = tid \<longrightarrow> ss_id s = sid \<longrightarrow> tk_conversation t = Some (ss_conversation s))"
proof -
  from assms obtain t s where ts: "t \<in> set (tasks d)" "tk_id t = tid" "s \<in> set (sessions d)" "ss_id s = sid"
    by (auto simp: task_exists_def session_exists_def)
  have "u = t" if "u \<in> set (tasks d)" "tk_id u = tid" for u
    using task_unique [OF assms(1)] that ts by metis
  moreover have "v = s" if "v \<in> set (sessions d)" "ss_id v = sid" for v
    using session_unique [OF assms(1)] that ts by metis
  ultimately show ?thesis
    using ts unfolding same_conversation_def exists_where_iff by blast
qed

lemmas audit_zero = count_where_zero_iff count_join_zero_iff sum_list_eq_0_iff

lemma clean_foreign_keys: "foreign_key_violations d = 0 \<longleftrightarrow>
    (\<forall>r \<in> set (messages d). message_refs d r) \<and> (\<forall>r \<in> set (sessions d). session_refs d r) \<and>
    (\<forall>r \<in> set (state_events d). state_event_refs d r) \<and> (\<forall>r \<in> set (approvals d). approval_refs d r) \<and>
    (\<forall>r \<in> set (evidence_records d). evidence_refs d r) \<and> (\<forall>r \<in> set (task_controls d). control_refs d r) \<and>
    (\<forall>r \<in> set (control_cancellations d). cancellation_refs d r) \<and> (\<forall>r \<in> set (tasks d). task_refs d r) \<and>
    (\<forall>r \<in> set (schedules d). task_exists d (sc_task r)) \<and>
    (\<forall>r \<in> set (schedule_runs d). schedule_run_refs d r) \<and>
    (\<forall>r \<in> set (schedule_deliveries d). schedule_run_exists d (dv_run r)) \<and>
    (\<forall>r \<in> set (task_events d). task_event_refs d r) \<and>
    (\<forall>r \<in> set (checkpoints d). task_exists d (cp_task r)) \<and>
    (\<forall>r \<in> set (context_epochs d). epoch_refs d r) \<and> (\<forall>r \<in> set (task_runs d). task_run_refs d r) \<and>
    (\<forall>r \<in> set (delegations d). delegation_refs d r) \<and>
    (\<forall>r \<in> set (delegation_contracts d). contract_refs d r) \<and> (\<forall>r \<in> set (handoffs d). handoff_refs d r)"
  by (simp add: foreign_key_violations_def count_where_zero_iff)

lemma task_of_parent: "task_refs d r \<Longrightarrow> r \<in> set (tasks d) \<Longrightarrow> tk_parent r = Some p \<Longrightarrow> task_exists d p"
  by (auto simp: task_refs_def task_exists_def)

lemma clean_tasks:
  assumes "keys_ok d" "\<forall>r \<in> set (tasks d). task_refs d r"
  shows "(\<forall>r \<in> set (tasks d). tasks_lineage_insert d r = None) \<longleftrightarrow>
    (\<forall>c \<in> set (tasks d). \<forall>p \<in> set (tasks d).
       \<not> (tk_parent c = Some (tk_id p) \<and> tk_conversation c \<noteq> tk_conversation p)) \<and>
    (\<forall>t \<in> set (tasks d). \<forall>r \<in> set (tk_evidence_refs t). evidence_of d r (tk_id t) \<or>
       (case tk_parent t of None \<Rightarrow> False | Some p \<Rightarrow> evidence_of d r p))"
proof -
  have "(case tk_parent c of None \<Rightarrow> True | Some p \<Rightarrow> task_in d p (tk_conversation c)) \<longleftrightarrow>
      (\<forall>p \<in> set (tasks d). \<not> (tk_parent c = Some (tk_id p) \<and> tk_conversation c \<noteq> tk_conversation p))"
    if "c \<in> set (tasks d)" for c
    using that assms task_of_parent [of d c] task_in_iff [of d]
    by (cases "tk_parent c") auto
  then show ?thesis
    by (auto simp: tasks_lineage_insert_def task_evidence_ok_def)
qed

lemma clean_state_event:
  assumes "keys_ok d" "state_event_refs d r"
  shows "state_events_lineage_insert d r = None \<longleftrightarrow>
    (\<forall>s \<in> set (sessions d). \<not> (se_session r = Some (ss_id s) \<and> se_conversation r \<noteq> Some (ss_conversation s))) \<and>
    (\<forall>t \<in> set (tasks d). \<not> (se_task r = Some (tk_id t) \<and> se_conversation r \<noteq> tk_conversation t))"
  using assms
  by (cases "se_session r"; cases "se_task r")
    (auto simp: state_events_lineage_insert_def state_event_refs_def session_in_iff task_in_iff)

lemma clean_task_event:
  "keys_ok d \<Longrightarrow> task_event_refs d r \<Longrightarrow> task_events_lineage_insert d r = None \<longleftrightarrow>
    (\<forall>t \<in> set (tasks d). \<not> (te_task r = tk_id t \<and> te_conversation r \<noteq> tk_conversation t))"
  by (auto simp: task_events_lineage_insert_def task_event_refs_def task_in_iff)

lemma clean_task_run:
  "keys_ok d \<Longrightarrow> task_run_refs d r \<Longrightarrow> task_runs_lineage_insert d r = None \<longleftrightarrow>
    (\<forall>t \<in> set (tasks d). \<not> (tr_task r = tk_id t \<and> tr_conversation r \<noteq> tk_conversation t))"
  by (auto simp: task_runs_lineage_insert_def task_run_refs_def task_in_iff)

lemma clean_checkpoint:
  assumes keys: "keys_ok d" and task: "task_exists d (cp_task c)"
  shows "checkpoints_lineage_insert d c = None \<longleftrightarrow>
    (\<forall>t \<in> set (tasks d). \<forall>r \<in> set (cp_evidence_refs c). \<not> (cp_task c = tk_id t \<and>
       \<not> (evidence_of d r (cp_task c) \<or> (case tk_parent t of None \<Rightarrow> False | Some p \<Rightarrow> evidence_of d r p))))"
proof -
  from task obtain t where t: "t \<in> set (tasks d)" "tk_id t = cp_task c"
    by (auto simp: task_exists_def)
  then have "u = t" if "u \<in> set (tasks d)" "tk_id u = cp_task c" for u
    using task_unique [OF keys] that by metis
  with t show ?thesis
    unfolding checkpoints_lineage_insert_def abort_unless_None exists_where_iff by metis
qed

lemma clean_epoch:
  assumes "keys_ok d" "epoch_refs d r"
  shows "context_epochs_lineage_insert d r = None \<longleftrightarrow>
    (\<forall>t \<in> set (tasks d). \<forall>c \<in> set (checkpoints d). \<not> (ce_task r = tk_id t \<and> ce_checkpoint r = cp_id c \<and>
       (Some (ce_conversation r) \<noteq> tk_conversation t \<or> cp_task c \<noteq> ce_task r)))"
proof -
  from assms have refs: "task_exists d (ce_task r)"
    "exists_where (\<lambda>c. cp_id c = ce_checkpoint r) (checkpoints d)"
    by (auto simp: epoch_refs_def)
  from this show ?thesis
    unfolding context_epochs_lineage_insert_def abort_unless_None
      task_in_iff [OF assms(1) refs(1)] checkpoint_of_iff [OF assms(1) refs(2)]
    by (auto simp: task_exists_def)
qed

lemma clean_control:
  "keys_ok d \<Longrightarrow> control_refs d r \<Longrightarrow> task_controls_lineage_insert d r = None \<longleftrightarrow>
    (\<forall>t \<in> set (tasks d). \<forall>s \<in> set (sessions d). \<not> (ct_task r = tk_id t \<and> ct_session r = Some (ss_id s) \<and>
       tk_conversation t \<noteq> Some (ss_conversation s)))"
  by (cases "ct_session r")
    (auto simp: task_controls_lineage_insert_def control_refs_def same_conversation_iff)

lemma clean_approval:
  "keys_ok d \<Longrightarrow> approval_refs d r \<Longrightarrow> approvals_lineage_insert d r = None \<longleftrightarrow>
    (\<forall>t \<in> set (tasks d). \<forall>s \<in> set (sessions d). \<not> (ap_task r = Some (tk_id t) \<and>
       ap_session r = Some (ss_id s) \<and> tk_conversation t \<noteq> Some (ss_conversation s)))"
  by (cases "ap_session r"; cases "ap_task r")
    (auto simp: approvals_lineage_insert_def approval_refs_def same_conversation_iff)

lemma clean_rest:
  "(\<forall>r \<in> set (messages d). messages_lineage_insert d r = None) \<longleftrightarrow>
     (\<forall>m \<in> set (messages d). \<not> (case ms_related_task m of None \<Rightarrow> False
        | Some t \<Rightarrow> \<not> task_in d t (Some (ms_conversation m))))"
  "(\<forall>r \<in> set (evidence_records d). evidence_lineage_insert d r = None) \<longleftrightarrow>
     (\<forall>e \<in> set (evidence_records d). \<not> (case ev_event e of None \<Rightarrow> False
        | Some uuid \<Rightarrow> \<not> event_of d uuid (ev_task e)))"
  "(\<forall>r \<in> set (delegations d). delegations_lineage_insert d r = None) \<longleftrightarrow>
     (\<forall>g \<in> set (delegations d). \<not> (\<not> parent_and_child d (dg_parent_task g) (dg_child_task g) \<or>
        (\<exists>r \<in> set (dg_evidence_refs g). \<not> evidence_of d r (dg_parent_task g))))"
  "(\<forall>r \<in> set (schedule_runs d). schedule_runs_lineage_insert d r = None) \<longleftrightarrow>
     (\<forall>r \<in> set (schedule_runs d). \<not> (\<not> schedule_of d (sr_schedule r) (sr_task r) \<or>
        (case sr_checkpoint r of None \<Rightarrow> False | Some c \<Rightarrow> \<not> checkpoint_of d c (sr_task r))))"
     by (simp_all add: messages_lineage_insert_def evidence_lineage_insert_def
        delegations_lineage_insert_def schedule_runs_lineage_insert_def option.case_eq_if)

lemma lineage_ok_split:
  "lineage_ok d \<longleftrightarrow> foreign_key_violations d = 0 \<and>
     (\<forall>r \<in> set (messages d). messages_lineage_insert d r = None) \<and>
     (\<forall>r \<in> set (state_events d). state_events_lineage_insert d r = None) \<and>
     (\<forall>r \<in> set (approvals d). approvals_lineage_insert d r = None) \<and>
     (\<forall>r \<in> set (evidence_records d). evidence_lineage_insert d r = None) \<and>
     (\<forall>r \<in> set (task_controls d). task_controls_lineage_insert d r = None) \<and>
     (\<forall>r \<in> set (tasks d). tasks_lineage_insert d r = None) \<and>
     (\<forall>r \<in> set (schedule_runs d). schedule_runs_lineage_insert d r = None) \<and>
     (\<forall>r \<in> set (task_events d). task_events_lineage_insert d r = None) \<and>
     (\<forall>r \<in> set (checkpoints d). checkpoints_lineage_insert d r = None) \<and>
     (\<forall>r \<in> set (context_epochs d). context_epochs_lineage_insert d r = None) \<and>
     (\<forall>r \<in> set (task_runs d). task_runs_lineage_insert d r = None) \<and>
     (\<forall>r \<in> set (delegations d). delegations_lineage_insert d r = None) \<and>
     (\<forall>r \<in> set (delegation_contracts d). delegation_contracts_lineage_insert d r = None) \<and>
     (\<forall>r \<in> set (handoffs d). handoffs_lineage_insert d r = None)"
  unfolding lineage_ok_def clean_foreign_keys ball_conj_distrib
  by (rule iffI; elim conjE; intro conjI; assumption)

text \<open>Over unique keys, an empty audit is the same as every row passing its references and its
  trigger.\<close>

lemma audit_clean_iff: "keys_ok d \<Longrightarrow> core_errors d = [] \<longleftrightarrow> lineage_ok d"
proof (cases "foreign_key_violations d = 0")
  case False
  then show ?thesis
    by (simp add: lineage_ok_split core_errors_Nil check_defs)
next
  case True
  assume keys: "keys_ok d"
  note refs = True [unfolded clean_foreign_keys]
  have tasks: "\<forall>r \<in> set (tasks d). task_refs d r" using refs by blast
  show ?thesis
    unfolding lineage_ok_split clean_tasks [OF keys tasks] clean_rest
    using True refs keys
    by (simp add: core_errors_Nil check_defs audit_zero clean_state_event clean_task_event
        clean_task_run clean_checkpoint clean_epoch clean_control clean_approval
        handoffs_lineage_insert_def delegation_contracts_lineage_insert_def ball_conj_distrib)
      (rule iffI; elim conjE; intro conjI; assumption)
qed

subsection \<open>Writes that only add references to point at\<close>

text \<open>\<open>extends d d'\<close>: whatever a row could refer to in \<open>d\<close> it can refer to in \<open>d'\<close>.\<close>

definition extends :: "db \<Rightarrow> db \<Rightarrow> bool" where
  "extends d d' =
    (cv_id ` set (conversations d) \<subseteq> cv_id ` set (conversations d') \<and>
     (\<lambda>t. (tk_id t, tk_conversation t, tk_parent t)) ` set (tasks d)
       \<subseteq> (\<lambda>t. (tk_id t, tk_conversation t, tk_parent t)) ` set (tasks d') \<and>
     (\<lambda>s. (ss_id s, ss_conversation s)) ` set (sessions d)
       \<subseteq> (\<lambda>s. (ss_id s, ss_conversation s)) ` set (sessions d') \<and>
     ct_id ` set (task_controls d) \<subseteq> ct_id ` set (task_controls d') \<and>
     sr_id ` set (schedule_runs d) \<subseteq> sr_id ` set (schedule_runs d') \<and>
     (\<lambda>e. (ev_id e, ev_task e)) ` set (evidence_records d)
       \<subseteq> (\<lambda>e. (ev_id e, ev_task e)) ` set (evidence_records d') \<and>
     (\<lambda>e. (se_uuid e, se_task e)) ` set (state_events d)
       \<subseteq> (\<lambda>e. (se_uuid e, se_task e)) ` set (state_events d') \<and>
     (\<lambda>c. (cp_id c, cp_task c)) ` set (checkpoints d)
       \<subseteq> (\<lambda>c. (cp_id c, cp_task c)) ` set (checkpoints d') \<and>
     (\<lambda>s. (sc_id s, sc_task s)) ` set (schedules d)
       \<subseteq> (\<lambda>s. (sc_id s, sc_task s)) ` set (schedules d') \<and>
     (\<lambda>g. (dg_id g, dg_parent_task g, dg_child_task g)) ` set (delegations d)
       \<subseteq> (\<lambda>g. (dg_id g, dg_parent_task g, dg_child_task g)) ` set (delegations d'))"

lemma image_subset_exD: "f ` A \<subseteq> f ` B \<Longrightarrow> x \<in> A \<Longrightarrow> \<exists>y \<in> B. f y = f x"
  by (metis image_iff subsetD imageI)

lemma extends_elements:
  assumes "extends d d'"
  shows "c \<in> set (conversations d) \<Longrightarrow> \<exists>u \<in> set (conversations d'). cv_id u = cv_id c"
    and "t \<in> set (tasks d) \<Longrightarrow> \<exists>u \<in> set (tasks d'). tk_id u = tk_id t \<and>
      tk_conversation u = tk_conversation t \<and> tk_parent u = tk_parent t"
    and "s \<in> set (sessions d) \<Longrightarrow> \<exists>u \<in> set (sessions d'). ss_id u = ss_id s \<and>
      ss_conversation u = ss_conversation s"
    and "k \<in> set (task_controls d) \<Longrightarrow> \<exists>u \<in> set (task_controls d'). ct_id u = ct_id k"
    and "r \<in> set (schedule_runs d) \<Longrightarrow> \<exists>u \<in> set (schedule_runs d'). sr_id u = sr_id r"
    and "e \<in> set (evidence_records d) \<Longrightarrow> \<exists>u \<in> set (evidence_records d'). ev_id u = ev_id e \<and>
      ev_task u = ev_task e"
    and "v \<in> set (state_events d) \<Longrightarrow> \<exists>u \<in> set (state_events d'). se_uuid u = se_uuid v \<and>
      se_task u = se_task v"
    and "p \<in> set (checkpoints d) \<Longrightarrow> \<exists>u \<in> set (checkpoints d'). cp_id u = cp_id p \<and>
      cp_task u = cp_task p"
    and "q \<in> set (schedules d) \<Longrightarrow> \<exists>u \<in> set (schedules d'). sc_id u = sc_id q \<and>
      sc_task u = sc_task q"
    and "g \<in> set (delegations d) \<Longrightarrow> \<exists>u \<in> set (delegations d'). dg_id u = dg_id g \<and>
      dg_parent_task u = dg_parent_task g \<and> dg_child_task u = dg_child_task g"
  using assms unfolding extends_def by - (elim conjE, drule (1) image_subset_exD, simp)+

lemma extends_lookups:
  assumes "extends d d'"
  shows "conversation_exists d c \<Longrightarrow> conversation_exists d' c"
    and "task_in d t k \<Longrightarrow> task_in d' t k"
    and "task_exists d t \<Longrightarrow> task_exists d' t"
    and "session_in d s k \<Longrightarrow> session_in d' s k"
    and "session_exists d s \<Longrightarrow> session_exists d' s"
    and "control_exists d u \<Longrightarrow> control_exists d' u"
    and "schedule_run_exists d r \<Longrightarrow> schedule_run_exists d' r"
    and "evidence_of d e t \<Longrightarrow> evidence_of d' e t"
    and "event_of d v k \<Longrightarrow> event_of d' v k"
    and "checkpoint_of d p t \<Longrightarrow> checkpoint_of d' p t"
    and "schedule_of d q t \<Longrightarrow> schedule_of d' q t"
    and "delegation_exists d g \<Longrightarrow> delegation_exists d' g"
  unfolding lookup_defs exists_where_iff using extends_elements [OF assms] by metis+

lemma extends_joins:
  assumes "extends d d'"
  shows "same_conversation d t s \<Longrightarrow> same_conversation d' t s"
    and "parent_and_child d p c \<Longrightarrow> parent_and_child d' p c"
    and "contract_parent_ok d k \<Longrightarrow> contract_parent_ok d' k"
    and "checkpoints_lineage_insert d q = None \<Longrightarrow> checkpoints_lineage_insert d' q = None"
    and "exists_where (\<lambda>x. cp_id x = i) (checkpoints d) \<Longrightarrow> exists_where (\<lambda>x. cp_id x = i) (checkpoints d')"
    and "exists_where (\<lambda>x. sc_id x = j) (schedules d) \<Longrightarrow> exists_where (\<lambda>x. sc_id x = j) (schedules d')"
proof -
  note tasks = extends_elements(2) [OF assms] and sessions = extends_elements(3) [OF assms]
    and delegations = extends_elements(10) [OF assms]
  show "same_conversation d t s \<Longrightarrow> same_conversation d' t s"
    unfolding lookup_defs exists_where_iff using tasks sessions by metis
  show "parent_and_child d p c \<Longrightarrow> parent_and_child d' p c"
    unfolding lookup_defs exists_where_iff using tasks by metis
  show "contract_parent_ok d k \<Longrightarrow> contract_parent_ok d' k"
  proof (cases "dc_parent k")
    case (Some pid)
    assume "contract_parent_ok d k"
    with Some delegations show ?thesis
      unfolding contract_parent_ok_def exists_where_iff by simp metis
  qed (simp add: contract_parent_ok_def)
  show "checkpoints_lineage_insert d q = None \<Longrightarrow> checkpoints_lineage_insert d' q = None"
    unfolding checkpoints_lineage_insert_def abort_unless_None exists_where_iff
  proof (rule ballI)
    fix r assume "r \<in> set (cp_evidence_refs q)"
      and all: "\<forall>r \<in> set (cp_evidence_refs q). \<exists>t \<in> set (tasks d). tk_id t = cp_task q \<and>
        (evidence_of d r (cp_task q) \<or> (case tk_parent t of None \<Rightarrow> False | Some p \<Rightarrow> evidence_of d r p))"
    then obtain t where t: "t \<in> set (tasks d)" "tk_id t = cp_task q"
      "evidence_of d r (cp_task q) \<or> (case tk_parent t of None \<Rightarrow> False | Some p \<Rightarrow> evidence_of d r p)"
      by blast
    from tasks [OF t(1)] obtain u where u: "u \<in> set (tasks d')" "tk_id u = tk_id t" "tk_parent u = tk_parent t"
      by blast
    have "evidence_of d' r (cp_task q) \<or>
        (case tk_parent u of None \<Rightarrow> False | Some p \<Rightarrow> evidence_of d' r p)"
      using t(3) u(3) extends_lookups(8) [OF assms] by (auto split: option.splits)
    with u t show "\<exists>t \<in> set (tasks d'). tk_id t = cp_task q \<and>
        (evidence_of d' r (cp_task q) \<or> (case tk_parent t of None \<Rightarrow> False | Some p \<Rightarrow> evidence_of d' r p))"
      by metis
  qed
  show "exists_where (\<lambda>x. cp_id x = i) (checkpoints d) \<Longrightarrow> exists_where (\<lambda>x. cp_id x = i) (checkpoints d')"
    "exists_where (\<lambda>x. sc_id x = j) (schedules d) \<Longrightarrow> exists_where (\<lambda>x. sc_id x = j) (schedules d')"
    unfolding exists_where_iff using extends_elements(8,9) [OF assms] by metis+
qed

lemma extends_rows:
  assumes "extends d d'"
  shows "messages_lineage_insert d m = None \<Longrightarrow> messages_lineage_insert d' m = None"
    and "state_events_lineage_insert d e = None \<Longrightarrow> state_events_lineage_insert d' e = None"
    and "approvals_lineage_insert d a = None \<Longrightarrow> approvals_lineage_insert d' a = None"
    and "evidence_lineage_insert d v = None \<Longrightarrow> evidence_lineage_insert d' v = None"
    and "task_controls_lineage_insert d c = None \<Longrightarrow> task_controls_lineage_insert d' c = None"
    and "tasks_lineage_insert d t = None \<Longrightarrow> tasks_lineage_insert d' t = None"
    and "schedule_runs_lineage_insert d r = None \<Longrightarrow> schedule_runs_lineage_insert d' r = None"
    and "task_events_lineage_insert d u = None \<Longrightarrow> task_events_lineage_insert d' u = None"
    and "context_epochs_lineage_insert d x = None \<Longrightarrow> context_epochs_lineage_insert d' x = None"
    and "task_runs_lineage_insert d y = None \<Longrightarrow> task_runs_lineage_insert d' y = None"
    and "delegations_lineage_insert d g = None \<Longrightarrow> delegations_lineage_insert d' g = None"
    and "delegation_contracts_lineage_insert d k = None \<Longrightarrow> delegation_contracts_lineage_insert d' k = None"
    and "handoffs_lineage_insert d h = None \<Longrightarrow> handoffs_lineage_insert d' h = None"
  by (auto simp: messages_lineage_insert_def intro: extends_lookups [OF assms] split: option.splits)
    (auto simp: state_events_lineage_insert_def approvals_lineage_insert_def
      evidence_lineage_insert_def task_controls_lineage_insert_def tasks_lineage_insert_def
      task_evidence_ok_def schedule_runs_lineage_insert_def task_events_lineage_insert_def
      context_epochs_lineage_insert_def task_runs_lineage_insert_def delegations_lineage_insert_def
      delegation_contracts_lineage_insert_def handoffs_lineage_insert_def
      intro: extends_lookups [OF assms] extends_joins [OF assms]
      split: option.splits prod.splits)

lemma extends_refs:
  assumes "extends d d'"
  shows "message_refs d m \<Longrightarrow> message_refs d' m"
    and "session_refs d s \<Longrightarrow> session_refs d' s"
    and "state_event_refs d e \<Longrightarrow> state_event_refs d' e"
    and "approval_refs d a \<Longrightarrow> approval_refs d' a"
    and "evidence_refs d v \<Longrightarrow> evidence_refs d' v"
    and "control_refs d c \<Longrightarrow> control_refs d' c"
    and "cancellation_refs d n \<Longrightarrow> cancellation_refs d' n"
    and "task_refs d t \<Longrightarrow> task_refs d' t"
    and "schedule_run_refs d r \<Longrightarrow> schedule_run_refs d' r"
    and "task_event_refs d u \<Longrightarrow> task_event_refs d' u"
    and "epoch_refs d x \<Longrightarrow> epoch_refs d' x"
    and "task_run_refs d y \<Longrightarrow> task_run_refs d' y"
    and "delegation_refs d g \<Longrightarrow> delegation_refs d' g"
    and "contract_refs d k \<Longrightarrow> contract_refs d' k"
    and "handoff_refs d h \<Longrightarrow> handoff_refs d' h"
  unfolding refs_defs
  by (auto intro: extends_lookups [OF assms] extends_joins [OF assms, simplified]
      simp: optional_def split: option.splits)

end
