(* ===== verification/Store_Writes.thy ===== *)
theory Store_Writes
  imports Lineage_Audit
begin

section \<open>The audit stays empty\<close>

text \<open>
  The writes of the components as one datatype, \<open>db_write\<close>, and the proof that none of them,
  once SQLite accepts it, makes \<open>core_errors\<close> report anything.  Most writes only add rows
  that others may refer to (\<open>extends\<close>); binding a task to a conversation removes a reference
  target, and its case shows that every row that pointed at the unbound task is rewritten by
  \<^verbatim>\<open>tasks_conversation_propagate\<close> or is kept from existing by the other triggers.
\<close>

subsection \<open>The writes the components make\<close>

text \<open>One constructor per kind of statement.  An update is a condition and an assignment; the
  columns no statement of the code assigns (primary keys, and the references no trigger guards)
  keep their value.\<close>

datatype db_write =
    Add_Conversation conversation_row
  | Add_Message message_row
  | Add_Session session_row
  | Add_State_Event state_event_row
  | Add_Task_Event task_event_row
  | Add_Approval approval_row
  | Add_Evidence evidence_row
  | Add_Control control_row
  | Add_Cancellation cancellation_row
  | Add_Task task_row
  | Add_Schedule schedule_row
  | Add_Schedule_Run schedule_run_row
  | Add_Delivery delivery_row
  | Add_Checkpoint checkpoint_row
  | Add_Epoch epoch_row
  | Add_Task_Run task_run_row
  | Add_Delegation delegation_row
  | Add_Contract contract_row
  | Add_Handoff handoff_row
  | Set_Conversations "conversation_row \<Rightarrow> bool" "conversation_row \<Rightarrow> conversation_row"
  | Set_Messages "message_row \<Rightarrow> bool" "message_row \<Rightarrow> message_row"
  | Set_Sessions "session_row \<Rightarrow> bool" "session_row \<Rightarrow> session_row"
  | Set_Approvals "approval_row \<Rightarrow> bool" "approval_row \<Rightarrow> approval_row"
  | Set_Controls "control_row \<Rightarrow> bool" "control_row \<Rightarrow> control_row"
  | Set_Cancellations "cancellation_row \<Rightarrow> bool" "cancellation_row \<Rightarrow> cancellation_row"
  | Set_Task ident "task_row \<Rightarrow> task_row"
  | Set_Task_Runs "task_run_row \<Rightarrow> bool" "task_run_row \<Rightarrow> task_run_row"
  | Set_Schedules "schedule_row \<Rightarrow> bool" "schedule_row \<Rightarrow> schedule_row"
  | Set_Schedule_Runs "schedule_run_row \<Rightarrow> bool" "schedule_run_row \<Rightarrow> schedule_run_row"
  | Set_Deliveries "delivery_row \<Rightarrow> bool" "delivery_row \<Rightarrow> delivery_row"
  | Set_Delegations "delegation_row \<Rightarrow> bool" "delegation_row \<Rightarrow> delegation_row"
  | Set_Contracts "contract_row \<Rightarrow> bool" "contract_row \<Rightarrow> contract_row"
  | Set_Leases "lease_row list \<Rightarrow> lease_row list"

fun apply_write :: "db_write \<Rightarrow> db \<Rightarrow> db result" where
  "apply_write (Add_Conversation r) d = insert_conversation r d"
| "apply_write (Add_Message r) d = insert_message r d"
| "apply_write (Add_Session r) d = insert_session r d"
| "apply_write (Add_State_Event r) d = insert_state_event_row r d"
| "apply_write (Add_Task_Event r) d = insert_task_event_row r d"
| "apply_write (Add_Approval r) d = insert_approval r d"
| "apply_write (Add_Evidence r) d = insert_evidence r d"
| "apply_write (Add_Control r) d = insert_control r d"
| "apply_write (Add_Cancellation r) d = insert_cancellation r d"
| "apply_write (Add_Task r) d = insert_task r d"
| "apply_write (Add_Schedule r) d = insert_schedule r d"
| "apply_write (Add_Schedule_Run r) d = insert_schedule_run r d"
| "apply_write (Add_Delivery r) d = insert_delivery r d"
| "apply_write (Add_Checkpoint r) d = insert_checkpoint r d"
| "apply_write (Add_Epoch r) d = insert_epoch r d"
| "apply_write (Add_Task_Run r) d = insert_task_run r d"
| "apply_write (Add_Delegation r) d = insert_delegation r d"
| "apply_write (Add_Contract r) d = insert_contract r d"
| "apply_write (Add_Handoff r) d = insert_handoff r d"
| "apply_write (Set_Conversations P f) d =
     Ok (update_conversations P (\<lambda>r. (f r)\<lparr>cv_id := cv_id r\<rparr>) d)"
| "apply_write (Set_Messages P f) d =
     update_messages P (\<lambda>r. (f r)\<lparr>ms_conversation := ms_conversation r\<rparr>) d"
| "apply_write (Set_Sessions P f) d = update_sessions P (\<lambda>r. (f r)\<lparr>ss_id := ss_id r\<rparr>) d"
| "apply_write (Set_Approvals P f) d =
     update_approvals P (\<lambda>r. (f r)\<lparr>ap_id := ap_id r, ap_task := ap_task r, ap_session := ap_session r\<rparr>) d"
| "apply_write (Set_Controls P f) d = update_controls P
     (\<lambda>r. (f r)\<lparr>ct_id := ct_id r, ct_task := ct_task r, ct_session := ct_session r\<rparr>) d"
| "apply_write (Set_Cancellations P f) d =
     Ok (update_cancellations P (\<lambda>r. (f r)\<lparr>cx_control := cx_control r\<rparr>) d)"
| "apply_write (Set_Task tid f) d = update_task_row tid (\<lambda>r. (f r)\<lparr>tk_id := tk_id r\<rparr>) d"
| "apply_write (Set_Task_Runs P f) d =
     update_task_runs P (\<lambda>r. (f r)\<lparr>tr_task := tr_task r\<rparr>) d"
| "apply_write (Set_Schedules P f) d =
     Ok (update_schedules P (\<lambda>r. (f r)\<lparr>sc_id := sc_id r, sc_task := sc_task r\<rparr>) d)"
| "apply_write (Set_Schedule_Runs P f) d = update_schedule_runs P
     (\<lambda>r. (f r)\<lparr>sr_id := sr_id r, sr_schedule := sr_schedule r, sr_task := sr_task r\<rparr>) d"
| "apply_write (Set_Deliveries P f) d =
     Ok (update_deliveries P (\<lambda>r. (f r)\<lparr>dv_run := dv_run r\<rparr>) d)"
| "apply_write (Set_Delegations P f) d = update_delegations P (\<lambda>r. (f r)\<lparr>dg_id := dg_id r\<rparr>) d"
| "apply_write (Set_Contracts P f) d =
     update_contracts P (\<lambda>r. (f r)\<lparr>dc_delegation := dc_delegation r\<rparr>) d"
| "apply_write (Set_Leases f) d = Ok (d\<lparr>resource_leases := f (resource_leases d)\<rparr>)"

text \<open>A rejected statement raises and leaves the tables as they were.\<close>

definition write_step :: "db_write \<Rightarrow> db \<Rightarrow> db" where
  "write_step w d = (case apply_write w d of Inl e \<Rightarrow> d | Inr d' \<Rightarrow> d')"

subsection \<open>No accepted write breaks the lineage\<close>

lemma lineage_okD:
  assumes "lineage_ok d"
  shows "m \<in> set (messages d) \<Longrightarrow> message_refs d m \<and> messages_lineage_insert d m = None"
    and "s \<in> set (sessions d) \<Longrightarrow> session_refs d s"
    and "e \<in> set (state_events d) \<Longrightarrow> state_event_refs d e \<and> state_events_lineage_insert d e = None"
    and "a \<in> set (approvals d) \<Longrightarrow> approval_refs d a \<and> approvals_lineage_insert d a = None"
    and "v \<in> set (evidence_records d) \<Longrightarrow> evidence_refs d v \<and> evidence_lineage_insert d v = None"
    and "c \<in> set (task_controls d) \<Longrightarrow> control_refs d c \<and> task_controls_lineage_insert d c = None"
    and "n \<in> set (control_cancellations d) \<Longrightarrow> cancellation_refs d n"
    and "t \<in> set (tasks d) \<Longrightarrow> task_refs d t \<and> tasks_lineage_insert d t = None"
    and "q \<in> set (schedules d) \<Longrightarrow> task_exists d (sc_task q)"
    and "r \<in> set (schedule_runs d) \<Longrightarrow> schedule_run_refs d r \<and> schedule_runs_lineage_insert d r = None"
    and "w \<in> set (schedule_deliveries d) \<Longrightarrow> schedule_run_exists d (dv_run w)"
    and "u \<in> set (task_events d) \<Longrightarrow> task_event_refs d u \<and> task_events_lineage_insert d u = None"
    and "p \<in> set (checkpoints d) \<Longrightarrow> task_exists d (cp_task p) \<and> checkpoints_lineage_insert d p = None"
    and "x \<in> set (context_epochs d) \<Longrightarrow> epoch_refs d x \<and> context_epochs_lineage_insert d x = None"
    and "y \<in> set (task_runs d) \<Longrightarrow> task_run_refs d y \<and> task_runs_lineage_insert d y = None"
    and "g \<in> set (delegations d) \<Longrightarrow> delegation_refs d g \<and> delegations_lineage_insert d g = None"
    and "k \<in> set (delegation_contracts d) \<Longrightarrow>
      contract_refs d k \<and> delegation_contracts_lineage_insert d k = None"
    and "h \<in> set (handoffs d) \<Longrightarrow> handoff_refs d h \<and> handoffs_lineage_insert d h = None"
  using assms unfolding lineage_ok_def by - (elim conjE, drule (1) bspec, assumption)+

lemma ball_extend:
  "\<forall>r \<in> A'. r \<in> A \<or> Q r \<Longrightarrow> \<forall>r \<in> A. P r \<Longrightarrow> (\<And>r. P r \<Longrightarrow> Q r) \<Longrightarrow> \<forall>r \<in> A'. Q r"
  by blast

lemma lineage_ok_extends:
  assumes ok: "lineage_ok d" and ext: "extends d d'"
    and "\<forall>r \<in> set (messages d'). r \<in> set (messages d) \<or>
      message_refs d' r \<and> messages_lineage_insert d' r = None"
    and "\<forall>r \<in> set (sessions d'). r \<in> set (sessions d) \<or> session_refs d' r"
    and "\<forall>r \<in> set (state_events d'). r \<in> set (state_events d) \<or>
      state_event_refs d' r \<and> state_events_lineage_insert d' r = None"
    and "\<forall>r \<in> set (approvals d'). r \<in> set (approvals d) \<or>
      approval_refs d' r \<and> approvals_lineage_insert d' r = None"
    and "\<forall>r \<in> set (evidence_records d'). r \<in> set (evidence_records d) \<or>
      evidence_refs d' r \<and> evidence_lineage_insert d' r = None"
    and "\<forall>r \<in> set (task_controls d'). r \<in> set (task_controls d) \<or>
      control_refs d' r \<and> task_controls_lineage_insert d' r = None"
    and "\<forall>r \<in> set (control_cancellations d'). r \<in> set (control_cancellations d) \<or>
      cancellation_refs d' r"
    and "\<forall>r \<in> set (tasks d'). r \<in> set (tasks d) \<or>
      task_refs d' r \<and> tasks_lineage_insert d' r = None"
    and "\<forall>r \<in> set (schedules d'). r \<in> set (schedules d) \<or> task_exists d' (sc_task r)"
    and "\<forall>r \<in> set (schedule_runs d'). r \<in> set (schedule_runs d) \<or>
      schedule_run_refs d' r \<and> schedule_runs_lineage_insert d' r = None"
    and "\<forall>r \<in> set (schedule_deliveries d'). r \<in> set (schedule_deliveries d) \<or>
      schedule_run_exists d' (dv_run r)"
    and "\<forall>r \<in> set (task_events d'). r \<in> set (task_events d) \<or>
      task_event_refs d' r \<and> task_events_lineage_insert d' r = None"
    and "\<forall>r \<in> set (checkpoints d'). r \<in> set (checkpoints d) \<or>
      task_exists d' (cp_task r) \<and> checkpoints_lineage_insert d' r = None"
    and "\<forall>r \<in> set (context_epochs d'). r \<in> set (context_epochs d) \<or>
      epoch_refs d' r \<and> context_epochs_lineage_insert d' r = None"
    and "\<forall>r \<in> set (task_runs d'). r \<in> set (task_runs d) \<or>
      task_run_refs d' r \<and> task_runs_lineage_insert d' r = None"
    and "\<forall>r \<in> set (delegations d'). r \<in> set (delegations d) \<or>
      delegation_refs d' r \<and> delegations_lineage_insert d' r = None"
    and "\<forall>r \<in> set (delegation_contracts d'). r \<in> set (delegation_contracts d) \<or>
      contract_refs d' r \<and> delegation_contracts_lineage_insert d' r = None"
    and "\<forall>r \<in> set (handoffs d'). r \<in> set (handoffs d) \<or>
      handoff_refs d' r \<and> handoffs_lineage_insert d' r = None"
  shows "lineage_ok d'"
  using ok unfolding lineage_ok_def
  apply (elim conjE)
  apply (intro conjI)
  apply (rule ball_extend [OF assms(3)], assumption, intro conjI extends_rows(1) [OF ext] extends_refs(1) [OF ext]; (elim conjE)?; assumption)
  apply (rule ball_extend [OF assms(4)], assumption, intro conjI extends_refs(2) [OF ext]; (elim conjE)?; assumption)
  apply (rule ball_extend [OF assms(5)], assumption, intro conjI extends_rows(2) [OF ext] extends_refs(3) [OF ext]; (elim conjE)?; assumption)
  apply (rule ball_extend [OF assms(6)], assumption, intro conjI extends_rows(3) [OF ext] extends_refs(4) [OF ext]; (elim conjE)?; assumption)
  apply (rule ball_extend [OF assms(7)], assumption, intro conjI extends_rows(4) [OF ext] extends_refs(5) [OF ext]; (elim conjE)?; assumption)
  apply (rule ball_extend [OF assms(8)], assumption, intro conjI extends_rows(5) [OF ext] extends_refs(6) [OF ext]; (elim conjE)?; assumption)
  apply (rule ball_extend [OF assms(9)], assumption, intro conjI extends_refs(7) [OF ext]; (elim conjE)?; assumption)
  apply (rule ball_extend [OF assms(10)], assumption, intro conjI extends_rows(6) [OF ext] extends_refs(8) [OF ext]; (elim conjE)?; assumption)
  apply (rule ball_extend [OF assms(11)], assumption, intro conjI extends_lookups(3) [OF ext]; (elim conjE)?; assumption)
  apply (rule ball_extend [OF assms(12)], assumption, intro conjI extends_rows(7) [OF ext] extends_refs(9) [OF ext]; (elim conjE)?; assumption)
  apply (rule ball_extend [OF assms(13)], assumption, intro conjI extends_lookups(7) [OF ext]; (elim conjE)?; assumption)
  apply (rule ball_extend [OF assms(14)], assumption, intro conjI extends_rows(8) [OF ext] extends_refs(10) [OF ext]; (elim conjE)?; assumption)
  apply (rule ball_extend [OF assms(15)], assumption, intro conjI extends_lookups(3) [OF ext] extends_joins(4) [OF ext]; (elim conjE)?; assumption)
  apply (rule ball_extend [OF assms(16)], assumption, intro conjI extends_rows(9) [OF ext] extends_refs(11) [OF ext]; (elim conjE)?; assumption)
  apply (rule ball_extend [OF assms(17)], assumption, intro conjI extends_rows(10) [OF ext] extends_refs(12) [OF ext]; (elim conjE)?; assumption)
  apply (rule ball_extend [OF assms(18)], assumption, intro conjI extends_rows(11) [OF ext] extends_refs(13) [OF ext]; (elim conjE)?; assumption)
  apply (rule ball_extend [OF assms(19)], assumption, intro conjI extends_rows(12) [OF ext] extends_refs(14) [OF ext]; (elim conjE)?; assumption)
  apply (rule ball_extend [OF assms(20)], assumption, intro conjI extends_rows(13) [OF ext] extends_refs(15) [OF ext]; (elim conjE)?; assumption)
  done

lemma extends_insert:
  "extends d (d\<lparr>conversations := conversations d @ [a]\<rparr>)"
  "extends d (d\<lparr>messages := messages d @ [b]\<rparr>)"
  "extends d (d\<lparr>sessions := sessions d @ [c]\<rparr>)"
  "extends d (d\<lparr>state_events := state_events d @ [e]\<rparr>)"
  "extends d (d\<lparr>task_events := task_events d @ [f]\<rparr>)"
  "extends d (d\<lparr>approvals := approvals d @ [g]\<rparr>)"
  "extends d (d\<lparr>evidence_records := evidence_records d @ [h]\<rparr>)"
  "extends d (d\<lparr>task_controls := task_controls d @ [i]\<rparr>)"
  "extends d (d\<lparr>control_cancellations := control_cancellations d @ [j]\<rparr>)"
  "extends d (d\<lparr>tasks := tasks d @ [k]\<rparr>)"
  "extends d (d\<lparr>schedules := schedules d @ [l]\<rparr>)"
  "extends d (d\<lparr>schedule_runs := schedule_runs d @ [m]\<rparr>)"
  "extends d (d\<lparr>schedule_deliveries := schedule_deliveries d @ [n]\<rparr>)"
  "extends d (d\<lparr>checkpoints := checkpoints d @ [p]\<rparr>)"
  "extends d (d\<lparr>context_epochs := context_epochs d @ [q]\<rparr>)"
  "extends d (d\<lparr>task_runs := task_runs d @ [r]\<rparr>)"
  "extends d (d\<lparr>delegations := delegations d @ [s]\<rparr>)"
  "extends d (d\<lparr>delegation_contracts := delegation_contracts d @ [t]\<rparr>)"
  "extends d (d\<lparr>handoffs := handoffs d @ [u]\<rparr>)"
  by (simp_all add: extends_def image_Un subset_insertI)

lemma task_insert_self:
  assumes "tasks_lineage_insert d r = None" "task_refs d r"
  shows "task_refs (d\<lparr>tasks := tasks d @ [r]\<rparr>) r"
    and "tasks_lineage_insert (d\<lparr>tasks := tasks d @ [r]\<rparr>) r = None"
  using extends_rows(6) [OF extends_insert(10) [of d r] assms(1)] extends_refs(8) [OF extends_insert(10) [of d r] assms(2)]
  by simp_all

lemma event_number_irrelevant [simp]:
  "state_event_refs d (r\<lparr>se_id := n\<rparr>) = state_event_refs d r"
  "state_events_lineage_insert d (r\<lparr>se_id := n\<rparr>) = state_events_lineage_insert d r"
  "task_event_refs d (t\<lparr>te_id := n\<rparr>) = task_event_refs d t"
  "task_events_lineage_insert d (t\<lparr>te_id := n\<rparr>) = task_events_lineage_insert d t"
  by (simp_all add: refs_defs state_events_lineage_insert_def task_events_lineage_insert_def
      cong: option.case_cong)

lemmas insert_hints = task_insert_self
  extends_rows [OF extends_insert(2)] extends_refs [OF extends_insert(2)]
  extends_rows [OF extends_insert(3)] extends_refs [OF extends_insert(3)]
  extends_rows [OF extends_insert(4)] extends_refs [OF extends_insert(4)]
  extends_rows [OF extends_insert(5)] extends_refs [OF extends_insert(5)]
  extends_rows [OF extends_insert(6)] extends_refs [OF extends_insert(6)]
  extends_rows [OF extends_insert(7)] extends_refs [OF extends_insert(7)]
  extends_rows [OF extends_insert(8)] extends_refs [OF extends_insert(8)]
  extends_rows [OF extends_insert(9)] extends_refs [OF extends_insert(9)]
  extends_rows [OF extends_insert(12)] extends_refs [OF extends_insert(12)]
  extends_rows [OF extends_insert(15)] extends_refs [OF extends_insert(15)]
  extends_rows [OF extends_insert(16)] extends_refs [OF extends_insert(16)]
  extends_rows [OF extends_insert(17)] extends_refs [OF extends_insert(17)]
  extends_rows [OF extends_insert(18)] extends_refs [OF extends_insert(18)]
  extends_rows [OF extends_insert(19)] extends_refs [OF extends_insert(19)]
  extends_lookups(3) [OF extends_insert(11)] extends_lookups(7) [OF extends_insert(13)]
  extends_lookups(3) [OF extends_insert(14)] extends_joins(4) [OF extends_insert(14)]

lemma insert_lineage_ok:
  assumes ok: "lineage_ok d"
  shows "insert_conversation a d = Ok d' \<Longrightarrow> lineage_ok d'"
    and "insert_message b d = Ok d' \<Longrightarrow> lineage_ok d'"
    and "insert_session c d = Ok d' \<Longrightarrow> lineage_ok d'"
    and "insert_state_event_row e d = Ok d' \<Longrightarrow> lineage_ok d'"
    and "insert_task_event_row f d = Ok d' \<Longrightarrow> lineage_ok d'"
    and "insert_approval g d = Ok d' \<Longrightarrow> lineage_ok d'"
    and "insert_evidence h d = Ok d' \<Longrightarrow> lineage_ok d'"
    and "insert_control i d = Ok d' \<Longrightarrow> lineage_ok d'"
    and "insert_cancellation j d = Ok d' \<Longrightarrow> lineage_ok d'"
    and "insert_task k d = Ok d' \<Longrightarrow> lineage_ok d'"
    and "insert_schedule l d = Ok d' \<Longrightarrow> lineage_ok d'"
    and "insert_schedule_run m d = Ok d' \<Longrightarrow> lineage_ok d'"
    and "insert_delivery n d = Ok d' \<Longrightarrow> lineage_ok d'"
    and "insert_checkpoint p d = Ok d' \<Longrightarrow> lineage_ok d'"
    and "insert_epoch q d = Ok d' \<Longrightarrow> lineage_ok d'"
    and "insert_task_run r d = Ok d' \<Longrightarrow> lineage_ok d'"
    and "insert_delegation s d = Ok d' \<Longrightarrow> lineage_ok d'"
    and "insert_contract t d = Ok d' \<Longrightarrow> lineage_ok d'"
    and "insert_handoff u d = Ok d' \<Longrightarrow> lineage_ok d'"
  unfolding insert_defs admit_eq_Ok
  by (elim conjE, hypsubst, rule lineage_ok_extends [OF ok], rule extends_insert; simp add: insert_hints)+

lemma image_update_where:
  "(\<And>r. r \<in> set t \<Longrightarrow> P r \<Longrightarrow> g (f r) = g r) \<Longrightarrow> g ` set (update_where P f t) = g ` set t"
  by (induction t) auto

lemma ball_update_where:
  "(\<And>r. r \<in> set t \<Longrightarrow> P r \<Longrightarrow> Q (f r)) \<Longrightarrow> \<forall>r \<in> set (update_where P f t). r \<in> set t \<or> Q r"
  by (auto simp: set_update_where)

lemma task_conversation_exists:
  "lineage_ok d \<Longrightarrow> task_in d tid (Some c) \<Longrightarrow> conversation_exists d c"
  by (auto simp: lineage_ok_def task_in_def task_refs_def)

lemma update_lineage_ok_unlinked:
  assumes "lineage_ok d"
  shows "lineage_ok (update_conversations P (\<lambda>r. (f r)\<lparr>cv_id := cv_id r\<rparr>) d)"
    and "lineage_ok (update_cancellations Q (\<lambda>r. (g r)\<lparr>cx_control := cx_control r\<rparr>) d)"
    and "lineage_ok (update_schedules R (\<lambda>r. (h r)\<lparr>sc_id := sc_id r, sc_task := sc_task r\<rparr>) d)"
    and "lineage_ok (update_deliveries S (\<lambda>r. (k r)\<lparr>dv_run := dv_run r\<rparr>) d)"
    and "lineage_ok (d\<lparr>resource_leases := l\<rparr>)"
proof -
  have ext: "extends d (update_conversations P (\<lambda>r. (f r)\<lparr>cv_id := cv_id r\<rparr>) d)"
    "extends d (update_cancellations Q (\<lambda>r. (g r)\<lparr>cx_control := cx_control r\<rparr>) d)"
    "extends d (update_schedules R (\<lambda>r. (h r)\<lparr>sc_id := sc_id r, sc_task := sc_task r\<rparr>) d)"
    "extends d (update_deliveries S (\<lambda>r. (k r)\<lparr>dv_run := dv_run r\<rparr>) d)"
    "extends d (d\<lparr>resource_leases := l\<rparr>)"
    by (simp_all add: update_defs extends_def image_update_where)
  note parts = assms [unfolded lineage_ok_def]
  show "lineage_ok (update_conversations P (\<lambda>r. (f r)\<lparr>cv_id := cv_id r\<rparr>) d)"
    by (rule lineage_ok_extends [OF assms ext(1)]; simp add: update_defs)
  show "lineage_ok (update_cancellations Q (\<lambda>r. (g r)\<lparr>cx_control := cx_control r\<rparr>) d)"
    by (rule lineage_ok_extends [OF assms ext(2)]; (simp add: update_defs; fail)?)
      (use parts extends_refs(7) [OF ext(2)] in
        \<open>auto simp: update_cancellations_def set_update_where cancellation_refs_def\<close>)
  show "lineage_ok (update_schedules R (\<lambda>r. (h r)\<lparr>sc_id := sc_id r, sc_task := sc_task r\<rparr>) d)"
    by (rule lineage_ok_extends [OF assms ext(3)]; (simp add: update_defs; fail)?)
      (use parts extends_lookups(3) [OF ext(3)] in \<open>auto simp: update_schedules_def set_update_where\<close>)
  show "lineage_ok (update_deliveries S (\<lambda>r. (k r)\<lparr>dv_run := dv_run r\<rparr>) d)"
    by (rule lineage_ok_extends [OF assms ext(4)]; (simp add: update_defs; fail)?)
      (use parts extends_lookups(7) [OF ext(4)] in \<open>auto simp: update_deliveries_def set_update_where\<close>)
  show "lineage_ok (d\<lparr>resource_leases := l\<rparr>)"
    by (rule lineage_ok_extends [OF assms ext(5)]; simp)
qed

text \<open>An \<^verbatim>\<open>UPDATE\<close> trigger tests the new row as the \<^verbatim>\<open>INSERT\<close> trigger of its table does.\<close>

lemma update_trigger_iff:
  "messages_lineage_update d m m' = messages_lineage_insert d m'"
  "state_events_lineage_update d e e' = state_events_lineage_insert d e'"
  "task_events_lineage_update d u u' = task_events_lineage_insert d u'"
  "approvals_lineage_update d a a' = approvals_lineage_insert d a'"
  "task_controls_lineage_update d c c' = task_controls_lineage_insert d c'"
  "task_runs_lineage_update d y y' = task_runs_lineage_insert d y'"
  "schedule_runs_lineage_update d r r' = schedule_runs_lineage_insert d r'"
  "delegation_contracts_lineage_update d k k' = delegation_contracts_lineage_insert d k'"
  "delegations_lineage_update d g g' = None \<longleftrightarrow> delegations_lineage_insert d g' = None \<and>
     dg_parent_task g' = dg_parent_task g \<and> dg_child_task g' = dg_child_task g"
  "sessions_conversation_immutable d s s' = None \<longleftrightarrow> ss_conversation s' = ss_conversation s"
  by (auto simp: trigger_defs)

lemma update_messages_lineage_ok:
  assumes ok: "lineage_ok d"
    and upd: "update_messages P (\<lambda>r. (f r)\<lparr>ms_conversation := ms_conversation r\<rparr>) d = Ok d'"
  shows "lineage_ok d'"
proof -
  note parts = ok [unfolded lineage_ok_def]
  let ?f = "\<lambda>r. (f r)\<lparr>ms_conversation := ms_conversation r\<rparr>"
  have d': "d' = d\<lparr>messages := update_where P ?f (messages d)\<rparr>"
    and trig: "\<And>r. r \<in> set (messages d) \<Longrightarrow> P r \<Longrightarrow> messages_lineage_insert d (?f r) = None"
    using upd by (auto simp: update_messages_def and_then_eq_Ok update_rows_eq_Ok update_trigger_iff)
  have ext: "extends d d'" by (simp add: d' extends_def)
  show ?thesis
    by (rule lineage_ok_extends [OF ok ext]; (simp add: d'; fail)?)
      (use trig parts extends_rows(1) [OF ext] in \<open>auto simp: d' set_update_where refs_defs lookup_defs\<close>)
qed

lemma update_sessions_lineage_ok:
  assumes ok: "lineage_ok d"
    and upd: "update_sessions Q (\<lambda>r. (g r)\<lparr>ss_id := ss_id r\<rparr>) d = Ok d'"
  shows "lineage_ok d'"
proof -
  note parts = ok [unfolded lineage_ok_def]
  let ?g = "\<lambda>r. (g r)\<lparr>ss_id := ss_id r\<rparr>"
  have d': "d' = d\<lparr>sessions := update_where Q ?g (sessions d)\<rparr>"
    and trig: "\<And>r. r \<in> set (sessions d) \<Longrightarrow> Q r \<Longrightarrow> ss_conversation (g r) = ss_conversation r"
    using upd by (auto simp: update_sessions_def and_then_eq_Ok update_rows_eq_Ok update_trigger_iff)
  have ext: "extends d d'" by (simp add: d' extends_def image_update_where trig)
  show ?thesis
    by (rule lineage_ok_extends [OF ok ext]; (simp add: d'; fail)?)
      (use trig parts in \<open>auto simp: d' set_update_where refs_defs lookup_defs\<close>)
qed

lemma update_approvals_lineage_ok:
  assumes ok: "lineage_ok d"
    and upd: "update_approvals A (\<lambda>r. (h r)\<lparr>ap_task := ap_task r, ap_session := ap_session r\<rparr>) d = Ok d'"
  shows "lineage_ok d'"
proof -
  note parts = ok [unfolded lineage_ok_def]
  have d': "d' = d\<lparr>approvals := update_where A (\<lambda>r. (h r)\<lparr>ap_task := ap_task r, ap_session := ap_session r\<rparr>)
      (approvals d)\<rparr>"
    using upd by (auto simp: update_approvals_def and_then_eq_Ok update_rows_eq_Ok update_trigger_iff)
  have ext: "extends d d'" by (simp add: d' extends_def)
  have same: "approval_refs d (x\<lparr>ap_task := ap_task r, ap_session := ap_session r\<rparr>) = approval_refs d r"
    "approvals_lineage_insert d (x\<lparr>ap_task := ap_task r, ap_session := ap_session r\<rparr>) =
      approvals_lineage_insert d r" for x r
    by (simp_all add: refs_defs approvals_lineage_insert_def)
  show ?thesis
    by (rule lineage_ok_extends [OF ok ext]; (simp add: d'; fail)?)
      (unfold d', auto simp: set_update_where same parts
        intro!: extends_rows(3) [OF ext, unfolded d'] extends_refs(4) [OF ext, unfolded d'])
qed

lemma update_controls_lineage_ok:
  assumes ok: "lineage_ok d"
    and upd: "update_controls C
      (\<lambda>r. (k r)\<lparr>ct_id := ct_id r, ct_task := ct_task r, ct_session := ct_session r\<rparr>) d = Ok d'"
  shows "lineage_ok d'"
proof -
  note parts = ok [unfolded lineage_ok_def]
  have d': "d' = d\<lparr>task_controls := update_where C
      (\<lambda>r. (k r)\<lparr>ct_id := ct_id r, ct_task := ct_task r, ct_session := ct_session r\<rparr>) (task_controls d)\<rparr>"
    using upd by (auto simp: update_controls_def and_then_eq_Ok update_rows_eq_Ok update_trigger_iff)
  have ext: "extends d d'" by (simp add: d' extends_def image_update_where)
  have same: "control_refs d (x\<lparr>ct_id := ct_id r, ct_task := ct_task r, ct_session := ct_session r\<rparr>) =
      control_refs d r"
    "task_controls_lineage_insert d (x\<lparr>ct_id := ct_id r, ct_task := ct_task r, ct_session := ct_session r\<rparr>) =
      task_controls_lineage_insert d r" for x r
    by (simp_all add: refs_defs task_controls_lineage_insert_def cong: option.case_cong)
  show ?thesis
    by (rule lineage_ok_extends [OF ok ext]; (simp add: d'; fail)?)
      (unfold d', auto simp: set_update_where same parts
        intro!: extends_rows(5) [OF ext, unfolded d'] extends_refs(6) [OF ext, unfolded d'])
qed

lemma update_delegations_lineage_ok:
  assumes ok: "lineage_ok d"
    and upd: "update_delegations D (\<lambda>r. (l r)\<lparr>dg_id := dg_id r\<rparr>) d = Ok d'"
  shows "lineage_ok d'"
proof -
  note parts = ok [unfolded lineage_ok_def]
  let ?l = "\<lambda>r. (l r)\<lparr>dg_id := dg_id r\<rparr>"
  have d': "d' = d\<lparr>delegations := update_where D ?l (delegations d)\<rparr>"
    and trig: "\<And>r. r \<in> set (delegations d) \<Longrightarrow> D r \<Longrightarrow> delegations_lineage_insert d (?l r) = None \<and>
      dg_parent_task (?l r) = dg_parent_task r \<and> dg_child_task (?l r) = dg_child_task r"
    using upd by (auto simp: update_delegations_def and_then_eq_Ok update_rows_eq_Ok update_trigger_iff)
  have ext: "extends d d'" using trig by (simp add: d' extends_def image_update_where)
  have refs: "delegation_refs d (?l r)" if "r \<in> set (delegations d)" "D r" for r
    using that parts trig [OF that] by (simp add: delegation_refs_def)
  show ?thesis
    by (rule lineage_ok_extends [OF ok ext]; (simp add: d'; fail)?)
      (use trig refs extends_rows(11) [OF ext] extends_refs(13) [OF ext] in
        \<open>auto simp: d' set_update_where\<close>)
qed

lemma task_conversation_refs:
  "lineage_ok d \<Longrightarrow> task_in d tid c \<Longrightarrow> task_exists d tid \<and> optional (conversation_exists d) c"
  by (auto simp: lineage_ok_def task_in_def task_exists_def task_refs_def)

lemma update_task_runs_lineage_ok:
  assumes ok: "lineage_ok d"
    and upd: "update_task_runs P (\<lambda>r. (f r)\<lparr>tr_task := tr_task r\<rparr>) d = Ok d'"
  shows "lineage_ok d'"
proof -
  let ?f = "\<lambda>r. (f r)\<lparr>tr_task := tr_task r\<rparr>"
  have d': "d' = d\<lparr>task_runs := update_where P ?f (task_runs d)\<rparr>"
    and trig: "\<And>r. r \<in> set (task_runs d) \<Longrightarrow> P r \<Longrightarrow> task_runs_lineage_insert d (?f r) = None"
    using upd by (auto simp: update_task_runs_def and_then_eq_Ok update_rows_eq_Ok update_trigger_iff)
  have ext: "extends d d'" by (simp add: d' extends_def)
  have refs: "task_run_refs d (?f r)" if "r \<in> set (task_runs d)" "P r" for r
    using trig [OF that] task_conversation_refs [OF ok]
    by (auto simp: task_runs_lineage_insert_def task_run_refs_def)
  show ?thesis
    by (rule lineage_ok_extends [OF ok ext]; (simp add: d'; fail)?)
      (use trig refs extends_rows(10) [OF ext] extends_refs(12) [OF ext] in
        \<open>auto simp: d' set_update_where\<close>)
qed

lemma update_schedule_runs_lineage_ok:
  assumes ok: "lineage_ok d"
    and upd: "update_schedule_runs P
      (\<lambda>r. (f r)\<lparr>sr_id := sr_id r, sr_schedule := sr_schedule r, sr_task := sr_task r\<rparr>) d = Ok d'"
  shows "lineage_ok d'"
proof -
  let ?f = "\<lambda>r. (f r)\<lparr>sr_id := sr_id r, sr_schedule := sr_schedule r, sr_task := sr_task r\<rparr>"
  note parts = ok [unfolded lineage_ok_def]
  have d': "d' = d\<lparr>schedule_runs := update_where P ?f (schedule_runs d)\<rparr>"
    and trig: "\<And>r. r \<in> set (schedule_runs d) \<Longrightarrow> P r \<Longrightarrow> schedule_runs_lineage_insert d (?f r) = None"
    using upd by (auto simp: update_schedule_runs_def and_then_eq_Ok update_rows_eq_Ok update_trigger_iff)
  have ext: "extends d d'" by (simp add: d' extends_def image_update_where)
  have refs: "schedule_run_refs d (?f r)" if r: "r \<in> set (schedule_runs d)" "P r" for r
  proof -
    have "schedule_run_refs d r" using parts r by blast
    moreover have "optional (\<lambda>c. exists_where (\<lambda>x. cp_id x = c) (checkpoints d)) (sr_checkpoint (f r))"
      using trig [OF r] by (auto simp: schedule_runs_lineage_insert_def checkpoint_of_def
          optional_def split: option.splits)
    ultimately show ?thesis by (simp add: schedule_run_refs_def)
  qed
  show ?thesis
    by (rule lineage_ok_extends [OF ok ext]; (simp add: d'; fail)?)
      (use trig refs extends_rows(7) [OF ext] extends_refs(9) [OF ext] in
        \<open>auto simp: d' set_update_where\<close>)
qed

lemma update_contracts_lineage_ok:
  assumes ok: "lineage_ok d"
    and upd: "update_contracts P (\<lambda>r. (f r)\<lparr>dc_delegation := dc_delegation r\<rparr>) d = Ok d'"
  shows "lineage_ok d'"
proof -
  let ?f = "\<lambda>r. (f r)\<lparr>dc_delegation := dc_delegation r\<rparr>"
  note parts = ok [unfolded lineage_ok_def]
  have d': "d' = d\<lparr>delegation_contracts := update_where P ?f (delegation_contracts d)\<rparr>"
    and trig: "\<And>r. r \<in> set (delegation_contracts d) \<Longrightarrow> P r \<Longrightarrow>
      delegation_contracts_lineage_insert d (?f r) = None"
    using upd by (auto simp: update_contracts_def and_then_eq_Ok update_rows_eq_Ok update_trigger_iff)
  have ext: "extends d d'" by (simp add: d' extends_def)
  have refs: "contract_refs d (?f r)" if r: "r \<in> set (delegation_contracts d)" "P r" for r
  proof -
    have "contract_refs d r" using parts r by blast
    moreover have "optional (delegation_exists d) (dc_parent (f r))"
      using trig [OF r] by (auto simp: delegation_contracts_lineage_insert_def contract_parent_ok_def
          delegation_exists_def optional_def split: option.splits)
    ultimately show ?thesis by (simp add: contract_refs_def)
  qed
  show ?thesis
    by (rule lineage_ok_extends [OF ok ext]; (simp add: d'; fail)?)
      (use trig refs extends_rows(12) [OF ext] extends_refs(14) [OF ext] in
        \<open>auto simp: d' set_update_where\<close>)
qed

text \<open>An update of a task that leaves its conversation alone.\<close>

lemma update_task_Ok_same:
  assumes "update_task_row tid f d = Ok d'" "find_task d tid = Some old" "tk_conversation (f old) = tk_conversation old"
  shows "d' = d\<lparr>tasks := update_where (\<lambda>t. tk_id t = tid) f (tasks d)\<rparr> \<and>
    tasks_lineage_update d old (f old) = None"
  using assms by (auto simp: update_task_row_def and_then_eq_Ok split: option.splits)

lemma find_task_SomeD: "find_task d tid = Some t \<Longrightarrow> t \<in> set (tasks d) \<and> tk_id t = tid"
  by (auto simp: find_task_def dest: select_one_SomeD)

lemma find_task_unique:
  "keys_ok d \<Longrightarrow> find_task d tid = Some old \<Longrightarrow> t \<in> set (tasks d) \<Longrightarrow> tk_id t = tid \<Longrightarrow> t = old"
  using find_task_SomeD task_unique by metis

lemma update_task_same_lineage_ok:
  assumes keys: "keys_ok d" and ok: "lineage_ok d"
    and upd: "update_task_row tid (\<lambda>r. (f r)\<lparr>tk_id := tk_id r\<rparr>) d = Ok d'"
    and found: "find_task d tid = Some old" and same: "tk_conversation (f old) = tk_conversation old"
  shows "lineage_ok d'"
proof -
  let ?f = "\<lambda>r. (f r)\<lparr>tk_id := tk_id r\<rparr>"
  note parts = ok [unfolded lineage_ok_def]
  have d': "d' = d\<lparr>tasks := update_where (\<lambda>t. tk_id t = tid) ?f (tasks d)\<rparr>"
    and trig: "tasks_lineage_update d old (?f old) = None"
    using update_task_Ok_same [OF upd found] same by simp_all
  have only: "t = old" if "t \<in> set (tasks d)" "tk_id t = tid" for t
    using find_task_unique [OF keys found] that .
  have old: "old \<in> set (tasks d)" "tk_id old = tid" using find_task_SomeD [OF found] by simp_all
  have cols: "tk_conversation (?f old) = tk_conversation old" "tk_parent (?f old) = tk_parent old"
    using same trig by (simp_all add: tasks_lineage_update_def)
  have "(\<lambda>t. (tk_id t, tk_conversation t, tk_parent t)) ` set (update_where (\<lambda>t. tk_id t = tid) ?f (tasks d)) =
      (\<lambda>t. (tk_id t, tk_conversation t, tk_parent t)) ` set (tasks d)"
    by (rule image_update_where) (use cols only in fastforce)
  then have ext: "extends d d'"
    by (simp add: d' extends_def)
  have new: "task_refs d (?f old)" "tasks_lineage_insert d (?f old) = None"
    using parts old trig cols by (auto simp: task_refs_def tasks_lineage_update_def tasks_lineage_insert_def)
  show ?thesis
    by (rule lineage_ok_extends [OF ok ext]; (simp add: d'; fail)?)
      (use new only extends_rows(6) [OF ext] extends_refs(8) [OF ext] in
        \<open>auto simp: d' set_update_where\<close>)
qed

text \<open>Binding a task to its conversation: the task has no children (they would diverge), its
  parent is already there, and the events and runs that carried no conversation follow it.\<close>

lemma task_in_conv:
  "keys_ok d \<Longrightarrow> task_in d tid c \<Longrightarrow> t \<in> set (tasks d) \<Longrightarrow> tk_id t = tid \<Longrightarrow> tk_conversation t = c"
  using task_unique by (fastforce simp: task_in_def)

definition rebound :: "ident \<Rightarrow> task_row \<Rightarrow> db \<Rightarrow> db \<Rightarrow> bool" where
  "rebound tid new d d' \<longleftrightarrow>
     set (tasks d') = insert new {t \<in> set (tasks d). tk_id t \<noteq> tid} \<and>
     conversations d' = conversations d \<and> messages d' = messages d \<and> sessions d' = sessions d \<and>
     approvals d' = approvals d \<and> evidence_records d' = evidence_records d \<and>
     task_controls d' = task_controls d \<and> control_cancellations d' = control_cancellations d \<and>
     schedules d' = schedules d \<and> schedule_runs d' = schedule_runs d \<and>
     schedule_deliveries d' = schedule_deliveries d \<and> checkpoints d' = checkpoints d \<and>
     context_epochs d' = context_epochs d \<and> delegations d' = delegations d \<and>
     delegation_contracts d' = delegation_contracts d \<and> handoffs d' = handoffs d \<and>
     (\<lambda>e. (se_uuid e, se_task e)) ` set (state_events d') = (\<lambda>e. (se_uuid e, se_task e)) ` set (state_events d)"

lemma rebind_no_child:
  assumes keys: "keys_ok d" and ok: "lineage_ok d"
    and old: "old \<in> set (tasks d)" "tk_id old = tid" "tk_conversation old = None"
    and trig: "tasks_lineage_update d old new = None"
    and new: "tk_id new = tid" "tk_conversation new = Some conv"
  shows "\<forall>t \<in> set (tasks d). tk_parent t \<noteq> Some tid"
    and "tk_parent new = tk_parent old"
    and "\<forall>p. tk_parent new = Some p \<longrightarrow> p \<noteq> tid \<and> task_in d p (Some conv)"
proof -
  have "tk_parent t \<noteq> Some tid" if t: "t \<in> set (tasks d)" for t
  proof
    assume parent: "tk_parent t = Some tid"
    with t trig new old(3) have "tk_conversation t = Some conv"
      by (auto simp: tasks_lineage_update_def)
    moreover have "task_in d tid (tk_conversation t)"
      using ok t parent by (auto simp: lineage_ok_def tasks_lineage_insert_def)
    ultimately show False
      using task_in_conv [OF keys _ old(1,2)] old(3) by fastforce
  qed
  then show "\<forall>t \<in> set (tasks d). tk_parent t \<noteq> Some tid" by blast
  show "tk_parent new = tk_parent old"
    using trig by (simp add: tasks_lineage_update_def)
  show "\<forall>p. tk_parent new = Some p \<longrightarrow> p \<noteq> tid \<and> task_in d p (Some conv)"
    using task_in_conv [OF keys _ old(1,2), of "Some conv"] old(3) trig new
    by (auto simp: tasks_lineage_update_def)
qed

lemma rebound_lookups:
  assumes reb: "rebound tid new d d'" and keys: "keys_ok d"
    and old: "old \<in> set (tasks d)" "tk_id old = tid" "tk_conversation old = None"
    and new: "tk_id new = tid" "tk_conversation new = Some conv" "tk_parent new = tk_parent old"
    and no_child: "\<forall>t \<in> set (tasks d). tk_parent t \<noteq> Some tid"
    and parent: "\<forall>p. tk_parent new = Some p \<longrightarrow> p \<noteq> tid \<and> task_in d p (Some conv)"
  shows "task_in d t (Some k) \<Longrightarrow> task_in d' t (Some k)"
    and "task_in d t k' \<Longrightarrow> t \<noteq> tid \<Longrightarrow> task_in d' t k'"
    and "task_exists d t \<Longrightarrow> task_exists d' t"
    and "same_conversation d t s \<Longrightarrow> same_conversation d' t s"
    and "parent_and_child d p c \<Longrightarrow> parent_and_child d' p c"
    and "checkpoints_lineage_insert d q = None \<Longrightarrow> checkpoints_lineage_insert d' q = None"
proof -
  have T: "set (tasks d') = insert new {t \<in> set (tasks d). tk_id t \<noteq> tid}"
    and S: "sessions d' = sessions d" and E: "evidence_records d' = evidence_records d"
    using reb by (simp_all add: rebound_def)
  have only: "u = old" if "u \<in> set (tasks d)" "tk_id u = tid" for u
    using task_unique [OF keys] old that by metis
  show some: "task_in d t (Some k) \<Longrightarrow> task_in d' t (Some k)"
    using only old by (fastforce simp: task_in_def T)
  show "task_in d t k' \<Longrightarrow> t \<noteq> tid \<Longrightarrow> task_in d' t k'"
    by (auto simp: task_in_def T)
  show "task_exists d t \<Longrightarrow> task_exists d' t"
    using new(1) by (auto simp: task_exists_def T)
  show "same_conversation d t s \<Longrightarrow> same_conversation d' t s"
    using only old by (fastforce simp: same_conversation_def T S)
  show "parent_and_child d p c \<Longrightarrow> parent_and_child d' p c"
  proof -
    assume "parent_and_child d p c"
    then obtain x y where xy: "x \<in> set (tasks d)" "tk_id x = p" "y \<in> set (tasks d)" "tk_id y = c"
      "tk_parent y = Some p" "tk_conversation y = tk_conversation x"
      by (auto simp: parent_and_child_def)
    with no_child have p: "p \<noteq> tid" by auto
    have "c \<noteq> tid"
    proof
      assume "c = tid"
      with xy only old(3) have "y = old" "tk_conversation x = None" by auto
      moreover from this xy(5) new(3) parent have "task_in d p (Some conv)" by simp
      ultimately show False
        using task_in_conv [OF keys _ xy(1,2)] by fastforce
    qed
    with p xy show ?thesis
      by (auto simp: parent_and_child_def T)
  qed
  show "checkpoints_lineage_insert d' q = None" if "checkpoints_lineage_insert d q = None"
  proof -
    have same: "evidence_of d' = evidence_of d" by (intro ext) (simp add: evidence_of_def E)
    have image: "\<exists>u \<in> set (tasks d'). tk_id u = tk_id t \<and> tk_parent u = tk_parent t" if "t \<in> set (tasks d)" for t
      using that only new(1,3) by (cases "tk_id t = tid") (auto simp: T)
    show ?thesis
      unfolding checkpoints_lineage_insert_def abort_unless_None exists_where_iff same
    proof (rule ballI)
      fix r assume "r \<in> set (cp_evidence_refs q)"
      with that obtain t where t: "t \<in> set (tasks d)" "tk_id t = cp_task q"
        "evidence_of d r (cp_task q) \<or> (case tk_parent t of None \<Rightarrow> False | Some p \<Rightarrow> evidence_of d r p)"
        by (auto simp: checkpoints_lineage_insert_def)
      from image [OF t(1)] t(2,3)
      show "\<exists>t \<in> set (tasks d'). tk_id t = cp_task q \<and>
          (evidence_of d r (cp_task q) \<or> (case tk_parent t of None \<Rightarrow> False | Some p \<Rightarrow> evidence_of d r p))"
        by metis
    qed
  qed
qed

lemma rebound_same:
  assumes "rebound tid new d d'"
  shows "conversations d' = conversations d" and "messages d' = messages d" and "sessions d' = sessions d"
    and "approvals d' = approvals d" and "evidence_records d' = evidence_records d"
    and "task_controls d' = task_controls d" and "control_cancellations d' = control_cancellations d"
    and "schedules d' = schedules d" and "schedule_runs d' = schedule_runs d"
    and "schedule_deliveries d' = schedule_deliveries d" and "checkpoints d' = checkpoints d"
    and "context_epochs d' = context_epochs d" and "delegations d' = delegations d"
    and "delegation_contracts d' = delegation_contracts d" and "handoffs d' = handoffs d"
    and "set (tasks d') = insert new {t \<in> set (tasks d). tk_id t \<noteq> tid}"
  using assms by (simp_all add: rebound_def)

lemma rebound_kept:
  assumes reb: "rebound tid new d d'"
  shows "conversation_exists d' = conversation_exists d" and "session_exists d' = session_exists d"
    and "session_in d' = session_in d" and "control_exists d' = control_exists d"
    and "schedule_run_exists d' = schedule_run_exists d" and "evidence_of d' = evidence_of d"
    and "checkpoint_of d' = checkpoint_of d" and "schedule_of d' = schedule_of d"
    and "delegation_exists d' = delegation_exists d" and "contract_parent_ok d' = contract_parent_ok d"
    and "event_of d u k \<Longrightarrow> event_of d' u k"
proof -
  note same = rebound_same [OF reb]
  show "conversation_exists d' = conversation_exists d" "session_exists d' = session_exists d"
    "session_in d' = session_in d" "control_exists d' = control_exists d"
    "schedule_run_exists d' = schedule_run_exists d" "evidence_of d' = evidence_of d"
    "checkpoint_of d' = checkpoint_of d" "schedule_of d' = schedule_of d"
    "delegation_exists d' = delegation_exists d" "contract_parent_ok d' = contract_parent_ok d"
    unfolding fun_eq_iff lookup_defs contract_parent_ok_def same by simp_all
  have sub: "(\<lambda>e. (se_uuid e, se_task e)) ` set (state_events d) \<subseteq>
      (\<lambda>e. (se_uuid e, se_task e)) ` set (state_events d')"
    using reb by (simp add: rebound_def)
  assume "event_of d u k"
  then obtain e where e: "e \<in> set (state_events d)" "se_uuid e = u" "se_task e = k"
    by (auto simp: event_of_def)
  from image_subset_exD [OF sub e(1)] e(2,3) show "event_of d' u k"
    by (auto simp: event_of_def)
qed

text \<open>The rows of the tables the binding does not write\<close>

lemma rebound_fixed_rows:
  assumes reb: "rebound tid new d d'" and ok: "lineage_ok d"
    and some: "\<forall>t k. task_in d t (Some k) \<longrightarrow> task_in d' t (Some k)"
    and task: "\<forall>t. task_exists d t \<longrightarrow> task_exists d' t"
    and same_conv: "\<forall>t s. same_conversation d t s \<longrightarrow> same_conversation d' t s"
    and pc: "\<forall>p c. parent_and_child d p c \<longrightarrow> parent_and_child d' p c"
    and ckpt: "\<forall>q. checkpoints_lineage_insert d q = None \<longrightarrow> checkpoints_lineage_insert d' q = None"
  shows "m \<in> set (messages d) \<Longrightarrow> message_refs d' m \<and> messages_lineage_insert d' m = None"
    and "s \<in> set (sessions d) \<Longrightarrow> session_refs d' s"
    and "a \<in> set (approvals d) \<Longrightarrow> approval_refs d' a \<and> approvals_lineage_insert d' a = None"
    and "v \<in> set (evidence_records d) \<Longrightarrow> evidence_refs d' v \<and> evidence_lineage_insert d' v = None"
    and "c \<in> set (task_controls d) \<Longrightarrow> control_refs d' c \<and> task_controls_lineage_insert d' c = None"
    and "n \<in> set (control_cancellations d) \<Longrightarrow> cancellation_refs d' n"
    and "q \<in> set (schedules d) \<Longrightarrow> task_exists d' (sc_task q)"
    and "r \<in> set (schedule_runs d) \<Longrightarrow> schedule_run_refs d' r \<and> schedule_runs_lineage_insert d' r = None"
    and "w \<in> set (schedule_deliveries d) \<Longrightarrow> schedule_run_exists d' (dv_run w)"
    and "p \<in> set (checkpoints d) \<Longrightarrow> task_exists d' (cp_task p) \<and> checkpoints_lineage_insert d' p = None"
    and "x \<in> set (context_epochs d) \<Longrightarrow> epoch_refs d' x \<and> context_epochs_lineage_insert d' x = None"
    and "g \<in> set (delegations d) \<Longrightarrow> delegation_refs d' g \<and> delegations_lineage_insert d' g = None"
    and "k \<in> set (delegation_contracts d) \<Longrightarrow>
      contract_refs d' k \<and> delegation_contracts_lineage_insert d' k = None"
    and "h \<in> set (handoffs d) \<Longrightarrow> handoff_refs d' h \<and> handoffs_lineage_insert d' h = None"
proof -
  note parts = lineage_okD [OF ok] and same = rebound_same [OF reb]
  note kept = rebound_kept(1-10) [OF reb] and event = rebound_kept(11) [OF reb]
  have opt: "optional (task_exists d) x \<Longrightarrow> optional (task_exists d') x" for x
    using task by (cases x) auto
  show "message_refs d' m \<and> messages_lineage_insert d' m = None" if "m \<in> set (messages d)"
    using parts(1) [OF that] some
    by (cases "ms_related_task m") (simp_all add: message_refs_def kept messages_lineage_insert_def)
  show "approval_refs d' a \<and> approvals_lineage_insert d' a = None" if "a \<in> set (approvals d)"
    using parts(4) [OF that] opt same_conv task
    by (cases "ap_task a"; cases "ap_session a") (simp_all add: approval_refs_def kept approvals_lineage_insert_def)
  show "evidence_refs d' v \<and> evidence_lineage_insert d' v = None" if "v \<in> set (evidence_records d)"
    using parts(5) [OF that] opt event
    by (cases "ev_event v") (simp_all add: evidence_refs_def evidence_lineage_insert_def)
  show "control_refs d' c \<and> task_controls_lineage_insert d' c = None" if "c \<in> set (task_controls d)"
    using parts(6) [OF that] task same_conv
    by (cases "ct_session c") (simp_all add: control_refs_def kept task_controls_lineage_insert_def)
  show "session_refs d' s" if "s \<in> set (sessions d)"
    using parts(2) [OF that] by (simp add: session_refs_def kept)
  show "cancellation_refs d' n" if "n \<in> set (control_cancellations d)"
    using parts(7) [OF that] by (simp add: cancellation_refs_def kept)
  show "task_exists d' (sc_task q)" if "q \<in> set (schedules d)"
    using parts(9) [OF that] task by simp
  show "schedule_run_refs d' r \<and> schedule_runs_lineage_insert d' r = None" if "r \<in> set (schedule_runs d)"
    using parts(10) [OF that] task
    by (cases "sr_checkpoint r") (simp_all add: schedule_run_refs_def schedule_runs_lineage_insert_def kept same)
  show "schedule_run_exists d' (dv_run w)" if "w \<in> set (schedule_deliveries d)"
    using parts(11) [OF that] by (simp add: kept)
  show "task_exists d' (cp_task p) \<and> checkpoints_lineage_insert d' p = None" if "p \<in> set (checkpoints d)"
    using parts(13) [OF that] task ckpt by simp
  show "epoch_refs d' x \<and> context_epochs_lineage_insert d' x = None" if "x \<in> set (context_epochs d)"
    using parts(14) [OF that] some task by (simp add: epoch_refs_def context_epochs_lineage_insert_def kept same)
  show "delegation_refs d' g \<and> delegations_lineage_insert d' g = None" if "g \<in> set (delegations d)"
    using parts(16) [OF that] pc task by (simp add: delegation_refs_def delegations_lineage_insert_def kept)
  show "contract_refs d' k \<and> delegation_contracts_lineage_insert d' k = None" if "k \<in> set (delegation_contracts d)"
    using parts(17) [OF that]
    by (cases "dc_parent k") (simp_all add: contract_refs_def delegation_contracts_lineage_insert_def kept)
  show "handoff_refs d' h \<and> handoffs_lineage_insert d' h = None" if "h \<in> set (handoffs d)"
    using parts(18) [OF that] task by (simp add: handoff_refs_def handoffs_lineage_insert_def kept same)
qed

lemma rebound_lineage_ok:
  assumes reb: "rebound tid new d d'" and keys: "keys_ok d" and ok: "lineage_ok d"
    and old: "old \<in> set (tasks d)" "tk_id old = tid" "tk_conversation old = None"
    and trig: "tasks_lineage_update d old new = None"
    and new: "tk_id new = tid" "tk_conversation new = Some conv" and conv: "conversation_exists d conv"
    and events: "\<And>r. r \<in> set (state_events d') \<Longrightarrow>
      r \<in> set (state_events d) \<and> (se_task r \<noteq> Some tid \<or> se_conversation r \<noteq> None) \<or>
      state_event_refs d' r \<and> state_events_lineage_insert d' r = None"
    and tevents: "\<And>r. r \<in> set (task_events d') \<Longrightarrow>
      r \<in> set (task_events d) \<and> (te_task r \<noteq> tid \<or> te_conversation r \<noteq> None) \<or>
      task_event_refs d' r \<and> task_events_lineage_insert d' r = None"
    and runs: "\<And>r. r \<in> set (task_runs d') \<Longrightarrow>
      r \<in> set (task_runs d) \<and> (tr_task r \<noteq> tid \<or> tr_conversation r \<noteq> None) \<or>
      task_run_refs d' r \<and> task_runs_lineage_insert d' r = None"
  shows "lineage_ok d'"
proof -
  note child = rebind_no_child [OF keys ok old trig new]
  note look = rebound_lookups [OF reb keys old new child(2) child(1) child(3)]
  note parts = lineage_okD [OF ok]
  note same = rebound_same(1-15) [OF reb] and T = rebound_same(16) [OF reb]
  note kept = rebound_kept(1-10) [OF reb]
  have bound: "task_in d tid c \<Longrightarrow> c = None" for c
    using task_in_conv [OF keys _ old(1,2)] old(3) by fastforce
  have task_rows: "task_refs d' r \<and> tasks_lineage_insert d' r = None" if "r \<in> set (tasks d')" for r
  proof (cases "r = new")
    case True
    have "task_exists d' p" if "task_in d p k" for p k
      using that look(3) by (force simp: task_in_def task_exists_def)
    with True trig new conv child look show ?thesis
      by (auto simp: task_refs_def kept tasks_lineage_update_def tasks_lineage_insert_def
          task_evidence_ok_def optional_def split: option.splits)
  next
    case False
    with that have r: "r \<in> set (tasks d)" "tk_id r \<noteq> tid" by (auto simp: T)
    then have "task_refs d r" "tasks_lineage_insert d r = None" using parts(8) by simp_all
    moreover have "tk_parent r \<noteq> Some tid" using child(1) r(1) by blast
    ultimately show ?thesis using look(2,3)
      by (cases "tk_parent r") (auto simp: task_refs_def kept tasks_lineage_insert_def
          task_evidence_ok_def optional_def)
  qed
  have event_rows: "state_event_refs d' r \<and> state_events_lineage_insert d' r = None"
    if "r \<in> set (state_events d')" for r
    using events [OF that]
  proof
    assume r: "r \<in> set (state_events d) \<and> (se_task r \<noteq> Some tid \<or> se_conversation r \<noteq> None)"
    then have "state_event_refs d r" "state_events_lineage_insert d r = None" using parts(3) by simp_all
    with r bound look(1-3) show ?thesis
      by (cases "se_task r"; cases "se_session r"; cases "se_conversation r")
        (auto simp: state_event_refs_def kept state_events_lineage_insert_def)
  qed
  have tevent_rows: "task_event_refs d' r \<and> task_events_lineage_insert d' r = None"
    if "r \<in> set (task_events d')" for r
    using tevents [OF that]
  proof
    assume r: "r \<in> set (task_events d) \<and> (te_task r \<noteq> tid \<or> te_conversation r \<noteq> None)"
    then have "task_event_refs d r" "task_events_lineage_insert d r = None" using parts(12) by simp_all
    with r bound look(1-3) show ?thesis
      by (cases "te_conversation r") (auto simp: task_event_refs_def kept task_events_lineage_insert_def)
  qed
  have run_rows: "task_run_refs d' r \<and> task_runs_lineage_insert d' r = None"
    if "r \<in> set (task_runs d')" for r
    using runs [OF that]
  proof
    assume r: "r \<in> set (task_runs d) \<and> (tr_task r \<noteq> tid \<or> tr_conversation r \<noteq> None)"
    then have "task_run_refs d r" "task_runs_lineage_insert d r = None" using parts(15) by simp_all
    with r bound look(1-3) show ?thesis
      by (cases "tr_conversation r") (auto simp: task_run_refs_def kept task_runs_lineage_insert_def)
  qed
  have carried: "\<forall>t k. task_in d t (Some k) \<longrightarrow> task_in d' t (Some k)"
    "\<forall>t. task_exists d t \<longrightarrow> task_exists d' t"
    "\<forall>t s. same_conversation d t s \<longrightarrow> same_conversation d' t s"
    "\<forall>p c. parent_and_child d p c \<longrightarrow> parent_and_child d' p c"
    "\<forall>q. checkpoints_lineage_insert d q = None \<longrightarrow> checkpoints_lineage_insert d' q = None"
    using look by blast+
  note fixed = rebound_fixed_rows [OF reb ok carried]
  show ?thesis
    unfolding lineage_ok_def same
    by (intro conjI; rule ballI; erule fixed event_rows tevent_rows run_rows task_rows)
qed

lemma set_update_one:
  assumes "keys_ok d" "find_task d tid = Some old" "tk_id (f old) = tid"
  shows "set (update_where (\<lambda>t. tk_id t = tid) f (tasks d)) = insert (f old) {t \<in> set (tasks d). tk_id t \<noteq> tid}"
  using find_task_unique [OF assms(1,2)] find_task_SomeD [OF assms(2)] by (force simp: set_update_where)

lemma propagate_lineage_ok:
  assumes keys: "keys_ok d" and ok: "lineage_ok d" and found: "find_task d tid = Some old"
    and unbound: "tk_conversation old = None"
    and trig: "tasks_lineage_update d old (f old) = None"
    and new: "tk_id (f old) = tid" "tk_conversation (f old) = Some conv"
    and conv: "conversation_exists d conv"
    and follow: "tasks_conversation_propagate tid conv
      (d\<lparr>tasks := update_where (\<lambda>t. tk_id t = tid) f (tasks d)\<rparr>) = Ok d'"
  shows "lineage_ok d'"
proof -
  define d1 where "d1 = d\<lparr>tasks := update_where (\<lambda>t. tk_id t = tid) f (tasks d)\<rparr>"
  define pe :: "state_event_row \<Rightarrow> bool" where "pe e \<longleftrightarrow> se_task e = Some tid \<and> se_conversation e = None" for e
  define pv :: "task_event_row \<Rightarrow> bool" where "pv e \<longleftrightarrow> te_task e = tid \<and> te_conversation e = None" for e
  define pr :: "task_run_row \<Rightarrow> bool" where "pr r \<longleftrightarrow> tr_task r = tid \<and> tr_conversation r = None" for r
  let ?e = "\<lambda>e :: state_event_row. e\<lparr>se_conversation := Some conv\<rparr>" and ?v = "\<lambda>e :: task_event_row. e\<lparr>te_conversation := Some conv\<rparr>"
  let ?r = "\<lambda>r :: task_run_row. r\<lparr>tr_conversation := Some conv\<rparr>"
  note old = find_task_SomeD [OF found]
  from follow have d': "d' = d1\<lparr>state_events := update_where pe ?e (state_events d),
      task_events := update_where pv ?v (task_events d), task_runs := update_where pr ?r (task_runs d)\<rparr>"
    and te: "\<And>r. r \<in> set (state_events d) \<Longrightarrow> pe r \<Longrightarrow> state_events_lineage_insert d1 (?e r) = None"
    and tv: "\<And>r. r \<in> set (task_events d) \<Longrightarrow> pv r \<Longrightarrow> task_events_lineage_insert d1 (?v r) = None"
    and tr: "\<And>r. r \<in> set (task_runs d) \<Longrightarrow> pr r \<Longrightarrow> task_runs_lineage_insert d1 (?r r) = None"
    by (auto simp: tasks_conversation_propagate_def and_then_eq_Ok update_rows_eq_Ok
        update_trigger_iff d1_def pe_def [abs_def] pv_def [abs_def] pr_def [abs_def])
  have reb: "rebound tid (f old) d d'"
    using set_update_one [of d tid old f] keys found new(1)
    by (simp add: rebound_def d' d1_def image_update_where)
  have same: "task_in d1 = task_in d'" "session_in d1 = session_in d'"
    by (auto simp: lookup_defs d' intro!: ext)
  have trigs: "state_events_lineage_insert d' = state_events_lineage_insert d1"
    "task_events_lineage_insert d' = task_events_lineage_insert d1"
    "task_runs_lineage_insert d' = task_runs_lineage_insert d1"
    unfolding fun_eq_iff state_events_lineage_insert_def task_events_lineage_insert_def
      task_runs_lineage_insert_def same by simp_all
  have there: "task_exists d' tid" "conversation_exists d' conv" "session_exists d' = session_exists d"
    using new(1) conv rebound_same(16) [OF reb] by (auto simp: task_exists_def d' d1_def lookup_defs)
  show ?thesis
  proof (rule rebound_lineage_ok [OF reb keys ok _ _ unbound trig new conv])
    show "old \<in> set (tasks d)" "tk_id old = tid" using old by simp_all
    show "r \<in> set (state_events d) \<and> (se_task r \<noteq> Some tid \<or> se_conversation r \<noteq> None) \<or>
        state_event_refs d' r \<and> state_events_lineage_insert d' r = None" if r: "r \<in> set (state_events d')" for r
    proof (cases "\<exists>x \<in> set (state_events d). pe x \<and> r = ?e x")
      case True
      then obtain x where x: "x \<in> set (state_events d)" "pe x" "r = ?e x" by blast
      with te [OF x(1,2)] there lineage_okD(3) [OF ok x(1)] show ?thesis
        by (auto simp: trigs state_event_refs_def pe_def)
    next
      case False
      with r show ?thesis by (auto simp: d' set_update_where pe_def)
    qed
    show "r \<in> set (task_events d) \<and> (te_task r \<noteq> tid \<or> te_conversation r \<noteq> None) \<or>
        task_event_refs d' r \<and> task_events_lineage_insert d' r = None" if r: "r \<in> set (task_events d')" for r
    proof (cases "\<exists>x \<in> set (task_events d). pv x \<and> r = ?v x")
      case True
      then obtain x where x: "x \<in> set (task_events d)" "pv x" "r = ?v x" by blast
      with tv [OF x(1,2)] there show ?thesis
        by (auto simp: trigs task_event_refs_def pv_def)
    next
      case False
      with r show ?thesis by (auto simp: d' set_update_where pv_def)
    qed
    show "r \<in> set (task_runs d) \<and> (tr_task r \<noteq> tid \<or> tr_conversation r \<noteq> None) \<or>
        task_run_refs d' r \<and> task_runs_lineage_insert d' r = None" if r: "r \<in> set (task_runs d')" for r
    proof (cases "\<exists>x \<in> set (task_runs d). pr x \<and> r = ?r x")
      case True
      then obtain x where x: "x \<in> set (task_runs d)" "pr x" "r = ?r x" by blast
      with tr [OF x(1,2)] there show ?thesis
        by (auto simp: trigs task_run_refs_def pr_def)
    next
      case False
      with r show ?thesis by (auto simp: d' set_update_where pr_def)
    qed
  qed
qed

lemma update_task_lineage_ok:
  assumes keys: "keys_ok d" and ok: "lineage_ok d"
    and upd: "update_task_row tid (\<lambda>r. (f r)\<lparr>tk_id := tk_id r\<rparr>) d = Ok d'"
  shows "lineage_ok d'"
proof (cases "find_task d tid")
  case None
  with upd ok show ?thesis by (simp add: update_task_row_def)
next
  case (Some old)
  show ?thesis
  proof (cases "tk_conversation (f old) = tk_conversation old")
    case True
    with update_task_same_lineage_ok [OF keys ok upd Some] show ?thesis .
  next
    case False
    from upd Some have trig: "tasks_lineage_update d old ((f old)\<lparr>tk_id := tk_id old\<rparr>) = None"
      and conv: "optional (conversation_exists d) (tk_conversation (f old))"
      by (auto simp: update_task_row_def and_then_eq_Ok)
    from trig False have unbound: "tk_conversation old = None"
      by (simp add: tasks_lineage_update_def)
    with False obtain c where c: "tk_conversation (f old) = Some c" by auto
    from find_task_SomeD [OF Some] have id: "tk_id old = tid" by simp
    show ?thesis
      by (rule propagate_lineage_ok [where f = "\<lambda>r. (f r)\<lparr>tk_id := tk_id r\<rparr>" and conv = c, OF keys ok Some unbound trig])
        (use upd Some unbound c conv id in \<open>simp_all add: update_task_row_def and_then_eq_Ok\<close>)
  qed
qed

lemma apply_write_keys_ok:
  assumes "keys_ok d" "apply_write w d = Ok d'"
  shows "keys_ok d'"
proof (cases w)
  case (Set_Task tid f)
  have "keys_distinct tk_id (update_where (\<lambda>t. tk_id t = tid) (\<lambda>r. (f r)\<lparr>tk_id := tk_id r\<rparr>) (tasks d))"
    using assms(1) by (subst keys_distinct_update_where) (auto simp: keys_ok_def)
  with assms Set_Task show ?thesis
    by (auto simp: update_task_row_def tasks_conversation_propagate_def and_then_eq_Ok update_rows_eq_Ok
        keys_ok_def split: option.splits)
qed (use assms in \<open>auto simp: insert_defs update_defs keys_ok_def and_then_eq_Ok update_rows_eq_Ok
      map_update_where\<close>)

lemma apply_write_lineage_ok:
  assumes "keys_ok d" "lineage_ok d" "apply_write w d = Ok d'"
  shows "lineage_ok d'"
  using assms(3)
  by (cases w) (auto dest: insert_lineage_ok [OF assms(2)] update_messages_lineage_ok [OF assms(2)]
      update_sessions_lineage_ok [OF assms(2)] update_approvals_lineage_ok [OF assms(2)]
      update_controls_lineage_ok [OF assms(2)] update_delegations_lineage_ok [OF assms(2)]
      update_task_runs_lineage_ok [OF assms(2)] update_schedule_runs_lineage_ok [OF assms(2)]
      update_contracts_lineage_ok [OF assms(2)] update_task_lineage_ok [OF assms(1,2)]
      intro: update_lineage_ok_unlinked [OF assms(2)])

definition store_ok :: "db \<Rightarrow> bool" where
  "store_ok d \<longleftrightarrow> keys_ok d \<and> core_errors d = []"

lemma write_step_store_ok: "store_ok d \<Longrightarrow> store_ok (write_step w d)"
  using apply_write_keys_ok apply_write_lineage_ok
  by (auto simp: store_ok_def audit_clean_iff write_step_def split: sum.splits)

interpretation store: state_machine write_step store_ok
  by unfold_locales (rule write_step_store_ok)

end
