(* ===== verification/Network.thy ===== *)
theory Network
  imports Prelude
begin

section \<open>Network destinations\<close>

text \<open>
  \<^verbatim>\<open>src/tars/network.py\<close>: how a URL or host becomes a destination with a canonical origin and
  checked addresses.  The record \<open>net\<close> holds what the code calls in the standard library and the
  resolver: URL splitting and joining, query parsing, IDNA, address parsing, \<^verbatim>\<open>inet_aton\<close>,
  \<^verbatim>\<open>getaddrinfo\<close> and SHA-256.  Opening sockets and reading responses is not modelled.
\<close>

record url_parts =
  url_scheme :: string
  url_username :: string
  url_password :: string
  url_hostname :: string
  url_port :: "int option result"
  url_path :: string
  url_query :: string
  url_fragment :: string

record ip_info =
  ip_text :: string
  ip_global :: bool
  ip_loopback :: bool

record net =
  urlsplit :: "string \<Rightarrow> url_parts result"
  urlunsplit :: "string \<Rightarrow> string \<Rightarrow> string \<Rightarrow> string \<Rightarrow> string"
  parse_qsl :: "string \<Rightarrow> (string \<times> string) list"
  urlencode :: "(string \<times> string) list \<Rightarrow> string"
  idna :: "string \<Rightarrow> string result"
  ip_address :: "string \<Rightarrow> ip_info option"
  inet_aton :: "string \<Rightarrow> string option"
  getaddrinfo :: "string \<Rightarrow> int \<Rightarrow> string list result"
  sha256 :: "string \<Rightarrow> string"

subsection \<open>Sensitive names\<close>

definition dashes_to_underscores :: "string \<Rightarrow> string" where
  "dashes_to_underscores s = map (\<lambda>c. if c = CHR ''-'' then CHR ''_'' else c) s"

definition sensitive_markers :: "string list" where
  "sensitive_markers = [''authorization'', ''credential'', ''password'', ''private_key'',
     ''secret'', ''token'', ''api_key'']"

definition sensitive_query_key :: "string \<Rightarrow> bool" where
  "sensitive_query_key value = (let normalized = dashes_to_underscores (casefold value) in
     normalized \<in> set [''authorization'', ''credential'', ''credentials'', ''password'', ''secret'',
       ''token'', ''access_token'', ''api_key'', ''apikey'', ''private_key''] \<or>
     list_ex (\<lambda>m. contains m normalized) sensitive_markers)"

subsection \<open>Hosts and addresses\<close>

definition format_host :: "string \<Rightarrow> string" where
  "format_host host = (if CHR '':'' \<in> set host then ''['' @ host @ '']'' else host)"

text \<open>\<^verbatim>\<open>ip_address(value.split("%", 1)[0])\<close>: the address, without its zone\<close>

definition parse_ip :: "net \<Rightarrow> string \<Rightarrow> ip_info result" where
  "parse_ip n value = (case ip_address n (fst (split_once (CHR ''%'') value)) of
     None \<Rightarrow> Err (Value_Error ''not an IP address'') | Some a \<Rightarrow> Ok a)"

fun parse_ips :: "net \<Rightarrow> string list \<Rightarrow> ip_info list result" where
  "parse_ips n [] = Ok []"
| "parse_ips n (a # as) = and_then (parse_ip n a) (\<lambda>x. and_then (parse_ips n as) (\<lambda>xs. Ok (x # xs)))"

text \<open>The set the source sorts is kept as a list without repetitions.\<close>

definition classify_addresses :: "net \<Rightarrow> bool \<Rightarrow> string list \<Rightarrow> ip_info list result" where
  "classify_addresses n allow_loopback addresses =
     and_then (parse_ips n addresses) (\<lambda>parsed.
       raise_if (parsed = []) (Value_Error ''network target resolved to no addresses'')
      (if list_all ip_global parsed then Ok (remdups parsed)
       else if allow_loopback \<and> list_all ip_loopback parsed then Ok (remdups parsed)
       else Err (Value_Error ''network target resolves to a non-public address'')))"

record destination =
  nd_request_url :: string
  nd_policy_url :: string
  nd_scheme :: string
  nd_host :: string
  nd_port :: int
  nd_origin :: string
  nd_addresses :: "ip_info list"
  nd_url_sha256 :: string

definition same_origin :: "destination \<Rightarrow> destination \<Rightarrow> bool" where
  "same_origin a b = (nd_origin a = nd_origin b)"

definition with_scheme :: "string \<Rightarrow> string" where
  "with_scheme raw = (if contains ''://'' raw then raw else ''https://'' @ raw)"

text \<open>The address a host denotes without a look-up: an IP literal, a legacy spelling of one, or
  a name of the local host\<close>

definition literal_address :: "net \<Rightarrow> string \<Rightarrow> string option" where
  "literal_address n host =
    (if host = ''localhost'' \<or> ends_with host ''.localhost'' then Some ''127.0.0.1'' else
     (case parse_ip n host of
        Inr a \<Rightarrow> Some (ip_text a)
      | Inl _ \<Rightarrow> (case inet_aton n host of
          None \<Rightarrow> None
        | Some dotted \<Rightarrow> (case parse_ip n dotted of Inr a \<Rightarrow> Some (ip_text a) | Inl _ \<Rightarrow> None))))"

definition safe_query :: "net \<Rightarrow> string \<Rightarrow> string" where
  "safe_query n query = urlencode n (map (\<lambda>(k, v). (k, if sensitive_query_key k then ''[REDACTED]'' else v))
     (parse_qsl n query))"

definition host_of_url :: "net \<Rightarrow> url_parts \<Rightarrow> (string \<times> int option) result" where
  "host_of_url n p =
    (case and_then (idna n (rstrip_char (CHR ''.'') (url_hostname p))) (\<lambda>h.
            and_then (url_port p) (\<lambda>port. Ok (casefold h, port))) of
       Inl _ \<Rightarrow> Err (Value_Error ''network target has an invalid host or port'')
     | Inr x \<Rightarrow> Ok x)"

definition default_port :: "url_parts \<Rightarrow> int" where
  "default_port p = (if url_scheme p = ''https'' then 443 else 80)"

definition effective_port :: "url_parts \<Rightarrow> int option \<Rightarrow> int" where
  "effective_port p explicit = (case explicit of None \<Rightarrow> default_port p
     | Some q \<Rightarrow> if q = 0 then default_port p else q)"

definition checked_addresses :: "net \<Rightarrow> bool \<Rightarrow> bool \<Rightarrow> string \<Rightarrow> int \<Rightarrow> ip_info list result" where
  "checked_addresses n resolve_dns allow_loopback host port = (case literal_address n host of
     Some a \<Rightarrow> classify_addresses n allow_loopback [a]
   | None \<Rightarrow> if resolve_dns
       then (case getaddrinfo n host port of
           Inl _ \<Rightarrow> Err (Value_Error ''network target cannot be resolved'')
         | Inr answers \<Rightarrow> classify_addresses n allow_loopback answers)
       else Ok [])"

definition make_destination ::
    "net \<Rightarrow> url_parts \<Rightarrow> string \<Rightarrow> int option \<Rightarrow> ip_info list \<Rightarrow> destination" where
  "make_destination n p host explicit addresses =
    (let port = effective_port p explicit;
         authority = format_host host @ (case explicit of None \<Rightarrow> []
           | Some q \<Rightarrow> if q \<noteq> default_port p then '':'' @ dec (nat port) else []);
         path = (if url_path p = [] then ''/'' else url_path p);
         request_url = urlunsplit n (url_scheme p) authority path (url_query p) in
     \<lparr>nd_request_url = request_url,
      nd_policy_url = urlunsplit n (url_scheme p) authority path (safe_query n (url_query p)),
      nd_scheme = url_scheme p, nd_host = host, nd_port = port,
      nd_origin = url_scheme p @ ''://'' @ format_host host @ '':'' @ dec (nat port),
      nd_addresses = addresses, nd_url_sha256 = sha256 n request_url\<rparr>)"

definition network_destination :: "net \<Rightarrow> bool \<Rightarrow> bool \<Rightarrow> string \<Rightarrow> destination result" where
  "network_destination n resolve_dns allow_loopback raw =
     and_then (urlsplit n (with_scheme raw)) (\<lambda>p.
       raise_if (url_scheme p \<notin> {''http'', ''https''} \<or> url_hostname p = [])
         (Value_Error ''network target must be an HTTP(S) URL or host'')
      (raise_if (url_username p \<noteq> [] \<or> url_password p \<noteq> [])
         (Value_Error ''credentials in network targets are forbidden'')
      (and_then (host_of_url n p) (\<lambda>(host, explicit).
       raise_if (host = []) (Value_Error ''network target requires a host'')
      (raise_if (\<not> (1 \<le> effective_port p explicit \<and> effective_port p explicit \<le> 65535))
         (Value_Error ''network target has an invalid port'')
      (and_then (checked_addresses n resolve_dns allow_loopback host (effective_port p explicit))
       (\<lambda>addresses. Ok (make_destination n p host explicit addresses))))))))"

definition is_alpha :: "char \<Rightarrow> bool" where
  "is_alpha c = (let k = of_char c :: nat in (65 \<le> k \<and> k \<le> 90) \<or> (97 \<le> k \<and> k \<le> 122))"

definition tcp_destination :: "net \<Rightarrow> bool \<Rightarrow> bool \<Rightarrow> string \<Rightarrow> int \<Rightarrow> string \<Rightarrow> destination result" where
  "tcp_destination n resolve_dns allow_loopback host port scheme =
     raise_if (scheme = [] \<or> \<not> list_all is_alpha scheme)
       (Value_Error ''network transport scheme is invalid'')
    (let raw_host = (if starts_with host ''['' \<and> ends_with host '']''
           then butlast (tl host) else host) in
     and_then (network_destination n resolve_dns allow_loopback
         (''https://'' @ format_host raw_host @ '':'' @ (if port < 0 then ''-'' @ dec (nat (- port)) else dec (nat port))))
     (\<lambda>seed.
       let authority = casefold scheme @ ''://'' @ format_host (nd_host seed) @ '':'' @ dec (nat (nd_port seed));
           url = authority @ ''/'' in
       Ok \<lparr>nd_request_url = url, nd_policy_url = url, nd_scheme = casefold scheme,
           nd_host = nd_host seed, nd_port = nd_port seed, nd_origin = authority,
           nd_addresses = nd_addresses seed, nd_url_sha256 = sha256 n url\<rparr>))"

subsection \<open>What a destination guarantees\<close>

lemma classify_addresses_Ok [outcome]:
  "classify_addresses n allow addresses = Ok l \<Longrightarrow>
     l \<noteq> [] \<and> ((\<forall>a \<in> set l. ip_global a) \<or> allow \<and> (\<forall>a \<in> set l. ip_loopback a))"
  by (auto simp: classify_addresses_def and_then_eq_Ok list_all_iff split: if_splits)

lemma network_destination_Ok:
  assumes "network_destination n resolve allow raw = Ok d"
  obtains p host explicit addresses where "urlsplit n (with_scheme raw) = Ok p"
    and "url_scheme p \<in> {''http'', ''https''}" "url_username p = []" "url_password p = []"
    and "host_of_url n p = Ok (host, explicit)" "host \<noteq> []"
    and "1 \<le> effective_port p explicit" "effective_port p explicit \<le> 65535"
    and "checked_addresses n resolve allow host (effective_port p explicit) = Ok addresses"
    and "d = make_destination n p host explicit addresses"
  using assms by (auto simp: network_destination_def and_then_eq_Ok split: prod.splits)

lemma make_destination_simps [simp]:
  "nd_scheme (make_destination n p host explicit addresses) = url_scheme p"
  "nd_host (make_destination n p host explicit addresses) = host"
  "nd_port (make_destination n p host explicit addresses) = effective_port p explicit"
  "nd_addresses (make_destination n p host explicit addresses) = addresses"
  "nd_origin (make_destination n p host explicit addresses) =
     url_scheme p @ ''://'' @ format_host host @ '':'' @ dec (nat (effective_port p explicit))"
  by (simp_all add: make_destination_def Let_def)

lemma checked_addresses_Ok:
  assumes "checked_addresses n resolve allow host port = Ok l"
  shows "(\<forall>a \<in> set l. ip_global a) \<or> allow \<and> (\<forall>a \<in> set l. ip_loopback a)"
    and "resolve \<or> literal_address n host \<noteq> None \<Longrightarrow> l \<noteq> []"
  using assms
  by (auto simp: checked_addresses_def split: option.splits if_splits sum.splits dest: classify_addresses_Ok)

lemma destination_checked:
  assumes "network_destination n resolve allow raw = Ok d"
  shows "(\<forall>a \<in> set (nd_addresses d). ip_global a) \<or> allow \<and> (\<forall>a \<in> set (nd_addresses d). ip_loopback a)"
    and "resolve \<or> literal_address n (nd_host d) \<noteq> None \<Longrightarrow> nd_addresses d \<noteq> []"
    and "nd_host d \<noteq> []" "1 \<le> nd_port d" "nd_port d \<le> 65535" "nd_scheme d \<in> {''http'', ''https''}"
    and "nd_origin d = nd_scheme d @ ''://'' @ format_host (nd_host d) @ '':'' @ dec (nat (nd_port d))"
  using assms checked_addresses_Ok by (elim network_destination_Ok; simp; fail)+

end
