(* ===== verification/Events.thy ===== *)
theory Events
  imports Store_Writes
begin

section \<open>Events\<close>

text \<open>
  \<^verbatim>\<open>resolve_lineage_in_transaction\<close> of \<^verbatim>\<open>state_store.py\<close>, which finds the one conversation a
  task, a session and a supplied conversation agree on; the writers and readers of
  \<^verbatim>\<open>state_events.py\<close> and \<^verbatim>\<open>events.py\<close>.  The identifiers the code draws from \<^verbatim>\<open>uuid4\<close> and the
  clock reading are arguments.  The theorems show that the lineage the resolver returns is one
  the triggers accept, so that an event is refused only for an unknown reference, and that
  reading a log after a cursor returns every later event once, in order.
\<close>

definition resolve_lineage_in_transaction ::
    "db \<Rightarrow> ident option \<Rightarrow> ident option \<Rightarrow> ident option \<Rightarrow> ident option result" where
  "resolve_lineage_in_transaction d task session conv =
     and_then (case task of None \<Rightarrow> Ok None
         | Some tid \<Rightarrow> (case find_task d tid of
             None \<Rightarrow> Err (Key_Error ''unknown task'') | Some t \<Rightarrow> Ok (tk_conversation t)))
     (\<lambda>task_conv.
     and_then (case session of None \<Rightarrow> Ok None
         | Some sid \<Rightarrow> (case find_session d sid of
             None \<Rightarrow> Err (Key_Error ''unknown session'') | Some s \<Rightarrow> Ok (Some (ss_conversation s))))
     (\<lambda>session_conv.
     raise_if (task \<noteq> None \<and> session \<noteq> None \<and> task_conv \<noteq> session_conv)
       (Value_Error ''task and session belong to different conversations'')
     (case conv of
        Some c \<Rightarrow>
          raise_if (task \<noteq> None \<and> Some c \<noteq> task_conv)
            (Value_Error ''task does not belong to the supplied conversation'')
         (raise_if (session \<noteq> None \<and> Some c \<noteq> session_conv)
            (Value_Error ''session does not belong to the supplied conversation'')
         (raise_if (task = None \<and> session = None \<and> \<not> conversation_exists d c)
            (Key_Error ''unknown conversation'')
         (Ok (Some c))))
      | None \<Rightarrow> Ok (if task \<noteq> None then task_conv else session_conv))))"

definition state_event_types :: "string list" where
  "state_event_types = [''user_message'', ''assistant_response'', ''model_invocation'',
     ''tool_proposal'', ''policy_decision'', ''approval'', ''tool_execution'', ''tool_result'',
     ''checkpoint'', ''task_transition'', ''delegation'', ''user_control'', ''interrupt'',
     ''redirect'', ''cancel'', ''pause'', ''resume'', ''session_start'', ''session_end'', ''activity'']"

definition insert_state_event ::
    "time \<Rightarrow> ident \<Rightarrow> string \<Rightarrow> string \<Rightarrow> ident option \<Rightarrow> ident option \<Rightarrow> ident option \<Rightarrow>
     string option \<Rightarrow> dict \<Rightarrow> string \<Rightarrow> db \<Rightarrow> (state_event_row \<times> db) result" where
  "insert_state_event now uuid etype message session conv task role payload visibility d =
     raise_if (etype \<notin> set state_event_types) (Value_Error ''invalid state event type'')
     (and_then (resolve_lineage_in_transaction d task session conv)
     (\<lambda>resolved.
        let r = \<lparr>se_id = 0, se_uuid = uuid, se_session = session, se_conversation = resolved,
              se_task = task, se_timestamp = now, se_type = etype, se_role = role,
              se_message = message, se_payload = payload, se_visibility = visibility\<rparr> in
        and_then (insert_state_event_row r d)
        (\<lambda>d'. Ok (r\<lparr>se_id := next_seq se_id (\<lambda>_. True) (state_events d)\<rparr>, d'))))"

definition append_state_event ::
    "time \<Rightarrow> ident \<Rightarrow> string \<Rightarrow> string \<Rightarrow> ident option \<Rightarrow> ident option \<Rightarrow> ident option \<Rightarrow>
     string option \<Rightarrow> dict \<Rightarrow> string \<Rightarrow> db \<Rightarrow> state_event_row result \<times> db" where
  "append_state_event now uuid etype message session conv task role payload visibility =
     transact (insert_state_event now uuid etype message session conv task role payload visibility)"

definition read_state_events ::
    "ident option \<Rightarrow> ident option \<Rightarrow> int \<Rightarrow> nat \<Rightarrow> db \<Rightarrow> state_event_row list" where
  "read_state_events session task after_id limit d =
     take limit (sort_key se_id (filter (\<lambda>e. after_id < se_id e \<and>
       (session = None \<or> se_session e = session) \<and> (task = None \<or> se_task e = task))
       (state_events d)))"

definition task_event_types :: "string list" where
  "task_event_types = [''progress'', ''tool'', ''reasoning'', ''status'', ''handoff'',
     ''delegation'', ''routing'', ''sideband'', ''user'', ''result'', ''error'', ''checkpoint'']"

definition event_visibility :: "string list" where
  "event_visibility = [''quiet'', ''normal'', ''verbose'', ''internal'']"

definition append_event ::
    "time \<Rightarrow> ident \<Rightarrow> ident \<Rightarrow> string \<Rightarrow> string \<Rightarrow> string option \<Rightarrow> dict \<Rightarrow> string \<Rightarrow> db \<Rightarrow>
     task_event_row result \<times> db" where
  "append_event now uuid tid etype message role payload visibility = transact (\<lambda>d.
     raise_if (etype \<notin> set task_event_types) (Value_Error ''invalid event type'')
    (raise_if (visibility \<notin> set event_visibility) (Value_Error ''invalid event visibility'')
    (case find_task d tid of
       None \<Rightarrow> Err (Key_Error ''unknown task'')
     | Some t \<Rightarrow>
         let r = \<lparr>te_id = 0, te_uuid = uuid, te_task = tid, te_conversation = tk_conversation t,
               te_timestamp = now, te_type = etype, te_role = role, te_message = message,
               te_payload = payload, te_visibility = visibility\<rparr> in
         and_then (insert_task_event_row r d)
         (\<lambda>d'. Ok (r\<lparr>te_id := next_seq te_id (\<lambda>_. True) (task_events d)\<rparr>, d')))))"

text \<open>The latest \<open>limit\<close> events, oldest first; and those after a cursor.\<close>

definition read_events :: "ident \<Rightarrow> nat \<Rightarrow> db \<Rightarrow> task_event_row list result" where
  "read_events tid limit d =
     raise_if (\<not> task_exists d tid) (Key_Error ''unknown task'')
     (Ok (rev (take limit (rev (sort_key te_id (filter (\<lambda>e. te_task e = tid) (task_events d)))))))"

definition read_events_since :: "ident \<Rightarrow> int \<Rightarrow> nat \<Rightarrow> db \<Rightarrow> task_event_row list result" where
  "read_events_since tid after_id limit d =
     raise_if (\<not> task_exists d tid) (Key_Error ''unknown task'')
     (Ok (take limit (sort_key te_id
        (filter (\<lambda>e. te_task e = tid \<and> after_id < te_id e) (task_events d)))))"

subsection \<open>The resolver and the triggers agree\<close>

lemma resolve_lineage_trigger:
  assumes ok: "store_ok d"
    and res: "resolve_lineage_in_transaction d task session conv = Ok c"
  shows "(case session of None \<Rightarrow> True | Some sid \<Rightarrow> session_in d sid c)"
    and "(case task of None \<Rightarrow> True | Some tid \<Rightarrow> task_in d tid c)"
    and "optional (session_exists d) session"
    and "optional (task_exists d) task"
    and "optional (conversation_exists d) c"
proof -
  have lin: "lineage_ok d" using ok audit_clean_iff by (auto simp: store_ok_def)
  have t: "task_in d tid (tk_conversation t)" if "find_task d tid = Some t" for tid t
    using that by (auto simp: find_task_def task_in_def dest: select_one_SomeD)
  have s: "session_in d sid (Some (ss_conversation s))" if "find_session d sid = Some s" for sid s
    using that by (auto simp: find_session_def session_in_def dest: select_one_SomeD)
  show S: "case session of None \<Rightarrow> True | Some sid \<Rightarrow> session_in d sid c"
    and T: "case task of None \<Rightarrow> True | Some tid \<Rightarrow> task_in d tid c"
    using res by (auto simp: resolve_lineage_in_transaction_def and_then_eq_Ok raise_if_def
        dest: t s split: option.splits if_splits)
  show "optional (session_exists d) session" "optional (task_exists d) task"
    using S T by (auto simp: lookup_defs optional_def split: option.splits)
  show "optional (conversation_exists d) c"
  proof (cases "task = None \<and> session = None")
    case True
    with res show ?thesis
      by (auto simp: resolve_lineage_in_transaction_def split: option.splits)
  next
    case False
    then show ?thesis
      using S T lin task_conversation_refs [OF lin] lineage_okD(2) [OF lin]
      by (cases session; cases task) (auto simp: session_in_def session_refs_def)
  qed
qed

lemma insert_state_event_accepted:
  assumes "store_ok d" and "etype \<in> set state_event_types" and "uuid \<notin> se_uuid ` set (state_events d)"
    and "resolve_lineage_in_transaction d task session conv = Ok c"
  shows "\<exists>e d'. insert_state_event now uuid etype message session conv task role payload visibility d = Ok (e, d')"
  using assms resolve_lineage_trigger [OF assms(1,4)]
  by (simp add: insert_state_event_def Let_def and_then_eq_Ok insert_state_event_row_def
      state_events_lineage_insert_def state_event_refs_def cong: option.case_cong)

lemma insert_state_event_Ok [outcome]:
  assumes "insert_state_event now uuid etype message session conv task role payload visibility d = Ok (e, d')"
  shows "d' = d\<lparr>state_events := state_events d @ [e]\<rparr>"
  using assms by (auto simp: insert_state_event_def Let_def and_then_eq_Ok insert_state_event_row_def)

lemma strictly_sorted_after:
  "sorted_wrt (\<lambda>x y. key x < (key y :: int)) l \<Longrightarrow> 0 < n \<Longrightarrow> n \<le> length l \<Longrightarrow>
     filter (\<lambda>x. key (l ! (n - 1)) < key x) l = drop n l"
proof (induction l arbitrary: n)
  case Nil
  then show ?case by simp
next
  case (Cons a l)
  show ?case
  proof (cases "n = 1")
    case True
    with Cons.prems show ?thesis by (auto simp: filter_id_conv)
  next
    case False
    with Cons.prems(2) obtain m where m: "n = Suc m" "0 < m" by (cases n) auto
    with Cons.prems have "key a < key (l ! (m - 1))" by (simp add: nth_mem)
    moreover have "filter (\<lambda>x. key (l ! (m - 1)) < key x) l = drop m l"
      using Cons m by simp
    ultimately show ?thesis using m by (cases m) simp_all
  qed
qed

lemma sorted_distinct_strict:
  "distinct (map key l) \<Longrightarrow> sorted_wrt (\<lambda>x y. key x < (key y :: int)) (sort_key key l)"
proof -
  assume dist: "distinct (map key l)"
  have "distinct (map key (sort_key key l))"
    using dist by (simp add: distinct_map)
  moreover have "sorted (map key (sort_key key l))" by simp
  ultimately have "sorted_wrt (<) (map key (sort_key key l))"
    by (simp add: strict_sorted_iff)
  then show ?thesis by (simp add: sorted_wrt_map)
qed

lemma last_take_nth: "0 < m \<Longrightarrow> m \<le> length l \<Longrightarrow> last (take m l) = l ! (m - 1)"
  by (subst last_conv_nth) auto

text \<open>Reading from the last event of a full page continues where the page ended.\<close>

lemma read_events_since_pages:
  assumes ids: "keys_distinct te_id (task_events d)"
    and page: "read_events_since tid after_id m d = Ok page" and full: "length page = m" "0 < m"
    and rest: "read_events_since tid (te_id (last page)) n d = Ok rest"
  shows "read_events_since tid after_id (m + n) d = Ok (page @ rest)"
proof -
  let ?all = "\<lambda>a. sort_key te_id (filter (\<lambda>e. te_task e = tid \<and> a < te_id e) (task_events d))"
  from page have exists: "task_exists d tid" and page: "page = take m (?all after_id)"
    by (auto simp: read_events_since_def)
  have strict: "sorted_wrt (\<lambda>x y. te_id x < te_id y) (?all after_id)"
    using ids by (intro sorted_distinct_strict) (simp add: distinct_map_filter)
  from full page have len: "m \<le> length (?all after_id)"
    by (metis length_take min.absorb_iff2 min.commute)
  have last: "last page = ?all after_id ! (m - 1)"
    using last_take_nth [OF full(2) len] page by simp
  then have mem: "last page \<in> set (?all after_id)"
    using len full(2) by (simp only:) (rule nth_mem, linarith)
  then have later: "after_id < te_id (last page)" by simp
  have "?all (te_id (last page)) = filter (\<lambda>e. te_id (last page) < te_id e) (?all after_id)"
    using later by (auto simp: filter_sort intro!: arg_cong [of _ _ "sort_key te_id"] filter_cong)
  also have "\<dots> = drop m (?all after_id)"
    unfolding last by (rule strictly_sorted_after [OF strict full(2) len])
  finally have "rest = take n (drop m (?all after_id))"
    using rest by (simp add: read_events_since_def)
  with page exists show ?thesis
    by (simp add: read_events_since_def take_add)
qed

end
