(* ===== verification/Policy.thy ===== *)
theory Policy
  imports Network Events "HOL-Library.List_Lexorder" "HOL-Library.Char_ord"
begin

section \<open>The policy of actions\<close>

text \<open>
  \<^verbatim>\<open>src/tars/policy.py\<close>: redaction, the canonical intent of a request, policy rules and
  \<^verbatim>\<open>ScopeGuard.evaluate\<close>, which decides whether an action is allowed, denied or needs an
  approval.  Arguments of tools are JSON values (the \<^verbatim>\<open>bytes\<close> and \<^verbatim>\<open>Path\<close> branches of the
  Python code have no counterpart).  The record \<open>policy_env\<close> holds the standard library: the
  network functions, \<^verbatim>\<open>Path(v).expanduser().resolve(strict=False)\<close>, \<^verbatim>\<open>str\<close>, \<^verbatim>\<open>json_dumps\<close> and
  the clock.
\<close>

record policy_env =
  pe_net :: net
  pe_resolve :: "string \<Rightarrow> string result"
  pe_str :: "json \<Rightarrow> string"
  pe_json :: "json \<Rightarrow> string"
  pe_now :: time

record scope_request =
  rq_tool :: string
  rq_effect :: string
  rq_target :: string
  rq_arguments :: dict
  rq_task :: "ident option"
  rq_session :: "ident option"
  rq_allowed_paths :: "string list"
  rq_allowed_hosts :: "string list"
  rq_destructive :: bool
  rq_elevated :: bool
  rq_escape :: bool

record decision =
  pd_action :: policy_action
  pd_risk :: string
  pd_effect :: string
  pd_target :: string
  pd_reason :: string
  pd_rule :: "ident option"
  pd_arguments :: json

definition allowed :: "decision \<Rightarrow> bool" where
  "allowed p = (pd_action p = Allow)"

subsection \<open>Effects and defaults\<close>

definition effect_names :: "(string \<times> effect) list" where
  "effect_names = [(''read'', Read_Effect), (''write'', Write_Effect), (''execute'', Execute),
     (''network'', Network_Effect), (''service'', Service_Effect), (''remote'', Remote_Effect),
     (''secret'', Secret_Effect), (''elevated'', Elevated_Effect), (''destructive'', Destructive),
     (''sandbox_escape'', Sandbox_Escape)]"

definition parse_effect :: "string \<Rightarrow> effect option" where
  "parse_effect s = map_of effect_names s"

fun effect_text :: "effect \<Rightarrow> string" where
  "effect_text Read_Effect = ''read''"
| "effect_text Write_Effect = ''write''"
| "effect_text Execute = ''execute''"
| "effect_text Network_Effect = ''network''"
| "effect_text Service_Effect = ''service''"
| "effect_text Remote_Effect = ''remote''"
| "effect_text Secret_Effect = ''secret''"
| "effect_text Elevated_Effect = ''elevated''"
| "effect_text Destructive = ''destructive''"
| "effect_text Sandbox_Escape = ''sandbox_escape''"

fun default_action :: "effect \<Rightarrow> policy_action" where
  "default_action Read_Effect = Allow"
| "default_action Elevated_Effect = Deny"
| "default_action x = Ask"

fun risk_by_effect :: "effect \<Rightarrow> string" where
  "risk_by_effect Read_Effect = ''safe/read''"
| "risk_by_effect Write_Effect = ''write''"
| "risk_by_effect Execute = ''execute''"
| "risk_by_effect Network_Effect = ''network''"
| "risk_by_effect Service_Effect = ''elevated''"
| "risk_by_effect Remote_Effect = ''network''"
| "risk_by_effect Secret_Effect = ''elevated''"
| "risk_by_effect Elevated_Effect = ''elevated''"
| "risk_by_effect Destructive = ''destructive/high-impact''"
| "risk_by_effect Sandbox_Escape = ''elevated''"

subsection \<open>Redaction\<close>

definition sensitive_keys :: "string list" where
  "sensitive_keys = [''authorization'', ''cookie'', ''cookies'', ''password'', ''passwd'', ''secret'',
     ''token'', ''set_cookie'', ''api_key'', ''apikey'', ''access_key'', ''private_key'',
     ''credential'', ''credentials'']"

definition sensitive_key :: "string \<Rightarrow> bool" where
  "sensitive_key value = (let normalized = dashes_to_underscores (casefold value) in
     normalized \<in> set sensitive_keys \<or> list_ex (\<lambda>m. contains m normalized) sensitive_markers)"

abbreviation redacted :: string where
  "redacted \<equiv> ''[REDACTED]''"

fun redact :: "json \<Rightarrow> json" where
  "redact (JObj kvs) = JObj (map (\<lambda>(k, v). (k, if sensitive_key k then JStr redacted else redact v)) kvs)"
| "redact (JArr xs) = JArr (map redact xs)"
| "redact v = v"

text \<open>The option names of \<^verbatim>\<open>redact_arguments\<close>, and the length of \<^verbatim>\<open>--?name\<close> at the start of a text.
  No name is a prefix of another, so the first that fits is the only one.\<close>

definition option_names :: "string list" where
  "option_names = [''apikey'', ''api-key'', ''api_key'', ''authorization'', ''credential'', ''password'',
     ''privatekey'', ''private-key'', ''private_key'', ''secret'', ''token'']"

definition match_option :: "string \<Rightarrow> nat option" where
  "match_option s =
    (let dashes = (if starts_with s ''--'' then 2 else if starts_with s ''-'' then 1 else 0) in
     if dashes = 0 then None
     else map_option (\<lambda>name. dashes + length name)
       (find (\<lambda>name. starts_with (casefold (drop dashes s)) name) option_names))"

definition newline :: char where
  "newline = char_of (10 :: nat)"

definition is_flag :: "string \<Rightarrow> bool" where
  "is_flag s = (case match_option s of None \<Rightarrow> False | Some n \<Rightarrow> drop n s \<in> {[], [newline]})"

definition redact_assignment :: "string \<Rightarrow> string option" where
  "redact_assignment s = (case match_option s of None \<Rightarrow> None
     | Some n \<Rightarrow> (case drop n s of
         [] \<Rightarrow> None
       | c # rest \<Rightarrow>
           let body = takeWhile (\<lambda>c. c \<noteq> newline) rest; after = dropWhile (\<lambda>c. c \<noteq> newline) rest in
           if c = CHR ''='' \<and> body \<noteq> [] \<and> after \<in> {[], [newline]}
           then Some (take (Suc n) s @ redacted @ after) else None))"

text \<open>The match of the third pattern at the start of a text: how much of it is kept and how much
  is replaced\<close>

definition is_quote :: "char \<Rightarrow> bool" where
  "is_quote c = (c = char_of (34 :: nat) \<or> c = char_of (39 :: nat))"

definition match_inline :: "string \<Rightarrow> (nat \<times> nat) option" where
  "match_inline s = (case match_option s of None \<Rightarrow> None
     | Some n \<Rightarrow>
         let rest = drop n s;
             gap = (if starts_with rest ''='' then 1 else length (takeWhile is_space rest));
             value_len = length (takeWhile (\<lambda>c. \<not> is_space c \<and> \<not> is_quote c) (drop gap rest)) in
         if gap = 0 \<or> value_len = 0 then None else Some (n + gap, value_len))"

lemma match_inline_pos: "match_inline s = Some (kept, hidden) \<Longrightarrow> 0 < hidden"
  by (auto simp: match_inline_def Let_def split: option.splits if_splits)

function redact_inline :: "string \<Rightarrow> string" where
  "redact_inline [] = []"
| "redact_inline (c # cs) = (case match_inline (c # cs) of
     None \<Rightarrow> c # redact_inline cs
   | Some (kept, hidden) \<Rightarrow>
       take kept (c # cs) @ redacted @ redact_inline (drop (kept + hidden) (c # cs)))"
  by pat_completeness auto
termination
  by (relation "measure length") (auto dest: match_inline_pos)

text \<open>\<^verbatim>\<open>str(value)\<close>, which is the identity on a text\<close>

definition str_of :: "policy_env \<Rightarrow> json \<Rightarrow> string" where
  "str_of pe v = (case v of JStr s \<Rightarrow> s | _ \<Rightarrow> pe_str pe v)"

fun redact_argv :: "policy_env \<Rightarrow> bool \<Rightarrow> json list \<Rightarrow> json list" where
  "redact_argv pe hide [] = []"
| "redact_argv pe hide (v # vs) =
    (let text = str_of pe v in
     if hide then JStr redacted # redact_argv pe False vs
     else if is_flag text then JStr text # redact_argv pe True vs
     else (case redact_assignment text of
        Some t \<Rightarrow> JStr t # redact_argv pe False vs
      | None \<Rightarrow> JStr (redact_inline text) # redact_argv pe False vs))"

fun object_fields :: "json \<Rightarrow> dict" where
  "object_fields (JObj m) = m"
| "object_fields v = []"

definition redact_arguments :: "policy_env \<Rightarrow> dict \<Rightarrow> json" where
  "redact_arguments pe arguments =
    (let safe = object_fields (redact (JObj arguments)) in
     JObj (case map_of safe ''argv'' of
       Some (JArr argv) \<Rightarrow> AList.update ''argv'' (JArr (redact_argv pe False argv)) safe
     | _ \<Rightarrow> safe))"

subsection \<open>Paths\<close>

text \<open>The parts of a pure POSIX path: its root and the names after it\<close>

fun split_slash :: "string \<Rightarrow> string \<Rightarrow> string list" where
  "split_slash acc [] = [rev acc]"
| "split_slash acc (c # cs) =
    (if c = CHR ''/'' then rev acc # split_slash [] cs else split_slash (c # acc) cs)"

definition path_root :: "string \<Rightarrow> string" where
  "path_root p = (let n = length (takeWhile (\<lambda>c. c = CHR ''/'') p) in
     if n = 0 then [] else if n = 2 then ''//'' else ''/'')"

definition path_names :: "string \<Rightarrow> string list" where
  "path_names p = filter (\<lambda>s. s \<noteq> [] \<and> s \<noteq> ''.'') (split_slash [] p)"

definition relative_to :: "string \<Rightarrow> string \<Rightarrow> bool" where
  "relative_to path dir = (path_root path = path_root dir \<and>
     take (length (path_names dir)) (path_names path) = path_names dir)"

definition canonical_path :: "policy_env \<Rightarrow> string \<Rightarrow> string result" where
  "canonical_path pe value =
     raise_if (value = []) (Value_Error ''filesystem target is required'') (pe_resolve pe value)"

fun path_within :: "policy_env \<Rightarrow> string \<Rightarrow> string list \<Rightarrow> bool result" where
  "path_within pe path [] = Ok False"
| "path_within pe path (raw # roots) = and_then (canonical_path pe raw) (\<lambda>dir.
     if relative_to path dir then Ok True else path_within pe path roots)"

definition path_request :: "scope_request \<Rightarrow> bool" where
  "path_request r = (rq_allowed_paths r \<noteq> [] \<or> starts_with (rq_tool r) ''fs.'')"

subsection \<open>Network scopes\<close>

definition normalize_network_target :: "policy_env \<Rightarrow> string \<Rightarrow> (string \<times> string) result" where
  "normalize_network_target pe value =
     and_then (network_destination (pe_net pe) False False value) (\<lambda>d. Ok (nd_policy_url d, nd_host d))"

definition bare_url :: "url_parts \<Rightarrow> bool" where
  "bare_url p = (url_username p = [] \<and> url_password p = [] \<and> url_query p = [] \<and>
     url_fragment p = [] \<and> url_path p \<in> {[], ''/''})"

definition normalize_network_scope :: "policy_env \<Rightarrow> string \<Rightarrow> string result" where
  "normalize_network_scope pe value =
    (let raw = strip value; explicit_origin = contains ''://'' raw in
     raise_if (raw = []) (Value_Error ''authorized network scope cannot be empty'')
    (and_then (urlsplit (pe_net pe) (if explicit_origin then raw else ''https://'' @ raw)) (\<lambda>p.
     raise_if (\<not> bare_url p) (Value_Error ''authorized network scopes contain only a host or an origin'')
    (and_then (network_destination (pe_net pe) False False raw) (\<lambda>d.
     if explicit_origin then Ok (''origin:'' @ nd_origin d)
     else and_then (url_port p) (\<lambda>port.
       raise_if (port \<noteq> None) (Value_Error ''a port-specific network scope requires an explicit origin'')
         (Ok (''host:'' @ nd_host d))))))))"

definition normalized_origin :: "policy_env \<Rightarrow> string \<Rightarrow> string result" where
  "normalized_origin pe target =
     and_then (urlsplit (pe_net pe) target) (\<lambda>p.
       raise_if (url_scheme p = [] \<or> url_hostname p = []) (Value_Error ''network target does not have an origin'')
      (and_then (url_port p) (\<lambda>explicit.
       let fallback = (if url_scheme p = ''https'' then Some 443
             else if url_scheme p = ''http'' then Some 80 else None);
           port = (case explicit of None \<Rightarrow> fallback | Some q \<Rightarrow> if q = 0 then fallback else Some q) in
       case port of
         None \<Rightarrow> Err (Value_Error ''network target origin requires an explicit port'')
       | Some q \<Rightarrow> Ok (url_scheme p @ ''://'' @ format_host (url_hostname p) @ '':'' @ dec (nat q)))))"

definition normalize_remote_target :: "policy_env \<Rightarrow> string \<Rightarrow> (string \<times> string) result" where
  "normalize_remote_target pe value =
     and_then (urlsplit (pe_net pe) value) (\<lambda>p.
       if url_scheme p = ''ssh'' \<and> url_hostname p \<noteq> [] then
         raise_if (\<not> bare_url p) (Value_Error ''SSH authority targets contain only host and port'')
        (and_then (url_port p) (\<lambda>port.
         and_then (tcp_destination (pe_net pe) False False (url_hostname p)
           (case port of None \<Rightarrow> 22 | Some q \<Rightarrow> if q = 0 then 22 else q) ''ssh'')
         (\<lambda>d. Ok (nd_policy_url d, nd_host d))))
       else normalize_network_target pe value)"

definition network_target_sha256 :: "policy_env \<Rightarrow> string \<Rightarrow> string \<Rightarrow> string result" where
  "network_target_sha256 pe effect value =
     and_then (urlsplit (pe_net pe) value) (\<lambda>p.
       if effect = ''remote'' \<and> url_scheme p = ''ssh''
       then and_then (normalize_remote_target pe value) (\<lambda>(url, host). Ok (sha256 (pe_net pe) url))
       else and_then (network_destination (pe_net pe) False False value)
         (\<lambda>d. Ok (sha256 (pe_net pe) (nd_request_url d))))"

subsection \<open>The canonical intent\<close>

definition protect :: "policy_env \<Rightarrow> string \<Rightarrow> dict \<Rightarrow> json" where
  "protect pe encoded extra = JObj ([(''sha256'', JStr (sha256 (pe_net pe) encoded)),
     (''bytes'', JInt (int (length encoded)))] @ extra)"

fun intent_value :: "policy_env \<Rightarrow> bool \<Rightarrow> json \<Rightarrow> json" where
  "intent_value pe True v = protect pe (pe_json pe v) [(''protected'', JBool True)]"
| "intent_value pe False (JObj kvs) =
     JObj (sort_key fst (map (\<lambda>(k, v). (k, intent_value pe (sensitive_key k) v)) kvs))"
| "intent_value pe False (JArr xs) = JArr (map (intent_value pe False) xs)"
| "intent_value pe False (JStr s) = (if 1024 < length s then protect pe s [] else JStr s)"
| "intent_value pe False v = v"

fun all_ok :: "('a \<Rightarrow> 'b result) \<Rightarrow> 'a list \<Rightarrow> 'b list result" where
  "all_ok f [] = Ok []"
| "all_ok f (x # xs) = and_then (f x) (\<lambda>y. and_then (all_ok f xs) (\<lambda>ys. Ok (y # ys)))"

definition opt_str :: "string option \<Rightarrow> json" where
  "opt_str x = (case x of None \<Rightarrow> JNull | Some s \<Rightarrow> JStr s)"

record intent =
  in_sha256 :: string
  in_value :: dict

definition canonical_intent :: "policy_env \<Rightarrow> scope_request \<Rightarrow> decision \<Rightarrow> intent result" where
  "canonical_intent pe r p =
     and_then (all_ok (canonical_path pe) (rq_allowed_paths r)) (\<lambda>paths.
     and_then (all_ok (normalize_network_scope pe) (rq_allowed_hosts r)) (\<lambda>hosts.
     and_then (if rq_effect r \<in> {''network'', ''remote''} \<and> rq_target r \<noteq> []
         then and_then (network_target_sha256 pe (rq_effect r) (rq_target r))
           (\<lambda>h. Ok [(''network_target_sha256'', JStr h)])
         else Ok []) (\<lambda>digest.
       let value = [(''tool'', JStr (rq_tool r)), (''effect'', JStr (pd_effect p)),
             (''risk_class'', JStr (pd_risk p)), (''target'', JStr (pd_target p)),
             (''task_id'', opt_str (rq_task r)), (''session_id'', opt_str (rq_session r)),
             (''allowed_paths'', JArr (map JStr (sort (remdups paths)))),
             (''allowed_hosts'', JArr (map JStr (sort (remdups hosts)))),
             (''destructive'', JBool (rq_destructive r)), (''elevated'', JBool (rq_elevated r)),
             (''sandbox_escape'', JBool (rq_escape r)),
             (''arguments'', intent_value pe False (JObj (rq_arguments r)))] @ digest in
       Ok \<lparr>in_sha256 = sha256 (pe_net pe) (pe_json pe (JObj value)), in_value = value\<rparr>)))"

definition intent_json :: "intent \<Rightarrow> json" where
  "intent_json i = JObj [(''version'', JInt 1), (''sha256'', JStr (in_sha256 i)), (''value'', JObj (in_value i))]"

subsection \<open>Rules\<close>

fun truthy :: "json \<Rightarrow> bool" where
  "truthy JNull = False"
| "truthy (JBool b) = b"
| "truthy (JInt n) = (n \<noteq> 0)"
| "truthy (JReal x) = (x \<noteq> 0)"
| "truthy (JStr s) = (s \<noteq> [])"
| "truthy (JArr xs) = (xs \<noteq> [])"
| "truthy (JObj m) = (m \<noteq> [])"

definition get :: "dict \<Rightarrow> string \<Rightarrow> json" where
  "get m k = (case map_of m k of None \<Rightarrow> JNull | Some v \<Rightarrow> v)"

text \<open>\<^verbatim>\<open>value["key"]\<close>\<close>

definition item :: "dict \<Rightarrow> string \<Rightarrow> json result" where
  "item m k = (case map_of m k of None \<Rightarrow> Err (Key_Error k) | Some v \<Rightarrow> Ok v)"

definition has_digest :: "json \<Rightarrow> bool" where
  "has_digest v = (case v of JObj m \<Rightarrow> truthy (get m ''sha256'') | _ \<Rightarrow> False)"

text \<open>\<^verbatim>\<open>target_matches\<close> of \<^verbatim>\<open>_matching_rule\<close>\<close>

definition rule_target_matches :: "policy_env \<Rightarrow> effect \<Rightarrow> string \<Rightarrow> rule_row \<Rightarrow> dict \<Rightarrow> bool result" where
  "rule_target_matches pe eff target row metadata =
    (let configured = ru_target row in
     if map_of metadata ''target_kind'' = Some (JStr ''path'')
     then if configured = [] then Ok False else path_within pe target [configured]
     else if eff \<in> {Network_Effect, Remote_Effect} \<and> configured \<noteq> [] then
       and_then (catch_value (urlsplit (pe_net pe) target)) (\<lambda>caught.
       let host = (case caught of Inl _ \<Rightarrow> target
           | Inr p \<Rightarrow> if url_hostname p = [] then target else url_hostname p);
           kind = (case map_of metadata ''target_kind'' of None \<Rightarrow> JStr ''domain'' | Some k \<Rightarrow> k) in
       if kind = JStr ''origin''
       then and_then (catch_value (normalized_origin pe target)) (\<lambda>caught. case caught of
           Inl _ \<Rightarrow> Ok False | Inr origin \<Rightarrow> Ok (origin = configured))
       else if kind = JStr ''host'' then Ok (host = configured)
       else Ok (host = configured \<or> ends_with host (''.'' @ configured)))
     else Ok (configured = [] \<or> target = configured))"

text \<open>The intent a rule created by an approval is bound to: the rule applies only to the request
  with that intent.\<close>

definition authority_matches ::
    "policy_env \<Rightarrow> effect \<Rightarrow> string \<Rightarrow> scope_request \<Rightarrow> rule_row \<Rightarrow> dict \<Rightarrow> bool result" where
  "authority_matches pe eff target r row metadata =
    (let authority = get metadata ''authority_intent'' in
     if truthy (get metadata ''approval_id'') \<and> \<not> has_digest authority then Ok False
     else if authority = JNull then Ok True
     else if \<not> has_digest authority then Ok False
     else and_then (canonical_intent pe r \<lparr>pd_action = ru_action row, pd_risk = risk_by_effect eff,
         pd_effect = effect_text eff, pd_target = target, pd_reason = ''persistent authority candidate'',
         pd_rule = None, pd_arguments = redact_arguments pe (rq_arguments r)\<rparr>)
       (\<lambda>i. Ok (get (object_fields authority) ''sha256'' = JStr (in_sha256 i))))"

fun first_match :: "policy_env \<Rightarrow> effect \<Rightarrow> string \<Rightarrow> scope_request \<Rightarrow> rule_row list \<Rightarrow> rule_row option result" where
  "first_match pe eff target r [] = Ok None"
| "first_match pe eff target r (row # rows) = (case ru_metadata row of
     None \<Rightarrow> first_match pe eff target r rows
   | Some metadata \<Rightarrow>
       and_then (rule_target_matches pe eff target row metadata) (\<lambda>t.
       if \<not> t then first_match pe eff target r rows else
       and_then (authority_matches pe eff target r row metadata) (\<lambda>a.
       if a then Ok (Some row) else first_match pe eff target r rows)))"

definition rule_order :: "rule_row \<Rightarrow> int \<times> int" where
  "rule_order row = (if ru_target row = [] then 1 else 0, - ru_created_at row)"

definition rule_live :: "policy_env \<Rightarrow> rule_row \<Rightarrow> bool" where
  "rule_live pe row = (case ru_expires_at row of None \<Rightarrow> True | Some t \<Rightarrow> pe_now pe < t)"

definition matching_rule ::
    "policy_env \<Rightarrow> effect \<Rightarrow> string \<Rightarrow> scope_request \<Rightarrow> db \<Rightarrow> rule_row option result" where
  "matching_rule pe eff target r d = first_match pe eff target r
     (sort_key rule_order (filter (\<lambda>row. ru_effect row = eff \<and> rule_live pe row) (policy_rules d)))"

subsection \<open>Evaluating a request\<close>

definition request_effect :: "scope_request \<Rightarrow> effect \<Rightarrow> effect" where
  "request_effect r base = (if rq_escape r then Sandbox_Escape else if rq_elevated r then Elevated_Effect
     else if rq_destructive r then Destructive else base)"

definition deny_with :: "policy_env \<Rightarrow> scope_request \<Rightarrow> string \<Rightarrow> string \<Rightarrow> string \<Rightarrow> string \<Rightarrow> decision" where
  "deny_with pe r risk eff target reason = \<lparr>pd_action = Deny, pd_risk = risk, pd_effect = eff,
     pd_target = target, pd_reason = reason, pd_rule = None,
     pd_arguments = redact_arguments pe (rq_arguments r)\<rparr>"

text \<open>The file-system check: the target to go on with and whether the path scope is missing, or
  the denial (as \<open>Inl\<close>).\<close>

definition check_path :: "policy_env \<Rightarrow> scope_request \<Rightarrow> effect \<Rightarrow> (decision + string \<times> bool) result" where
  "check_path pe r eff =
    (let target = rq_target r; deny = deny_with pe r (risk_by_effect eff) (effect_text eff) in
     if \<not> (path_request r \<and> target \<noteq> []) then Ok (Inr (target, False)) else
     and_then (catch_os_value (canonical_path pe target)) (\<lambda>caught. case caught of
       Inl m \<Rightarrow> Ok (Inl (deny target (''invalid filesystem target: '' @ m)))
     | Inr canonical \<Rightarrow>
         if rq_allowed_paths r = [] then Ok (Inr (canonical, True)) else
         and_then (path_within pe canonical (rq_allowed_paths r)) (\<lambda>inside.
           Ok (if inside then Inr (canonical, False)
               else Inl (deny canonical ''canonical target is outside authorized filesystem scope'')))))"

definition check_network :: "policy_env \<Rightarrow> scope_request \<Rightarrow> effect \<Rightarrow> string \<Rightarrow> (decision + string) result" where
  "check_network pe r eff target =
    (let deny = deny_with pe r (risk_by_effect eff) (effect_text eff) in
     if rq_effect r \<notin> {''network'', ''remote''} then Ok (Inr target) else
     and_then (catch_value (if rq_effect r = ''remote'' then normalize_remote_target pe target
         else normalize_network_target pe target)) (\<lambda>caught. case caught of
       Inl m \<Rightarrow> Ok (Inl (deny target m))
     | Inr (url, host) \<Rightarrow>
         and_then (catch_value (and_then (normalized_origin pe url) (\<lambda>origin.
             and_then (all_ok (normalize_network_scope pe) (rq_allowed_hosts r)) (\<lambda>scopes.
             Ok (origin, scopes))))) (\<lambda>caught. case caught of
           Inl m \<Rightarrow> Ok (Inl (deny url m))
         | Inr (origin, scopes) \<Rightarrow>
             Ok (if scopes \<noteq> [] \<and> \<not> (''origin:'' @ origin \<in> set scopes \<or> ''host:'' @ host \<in> set scopes)
                 then Inl (deny url ''destination is outside authorized network scope'')
                 else Inr url))))"

definition rule_decision ::
    "policy_env \<Rightarrow> scope_request \<Rightarrow> effect \<Rightarrow> string \<Rightarrow> bool \<Rightarrow> rule_row option \<Rightarrow> decision" where
  "rule_decision pe r eff target missing_path_scope rule =
    (if missing_path_scope \<and> rule = None
     then deny_with pe r (risk_by_effect eff) (effect_text eff) target
       ''filesystem tools require an authorized path scope''
     else \<lparr>pd_action = (case rule of None \<Rightarrow> default_action eff | Some row \<Rightarrow> ru_action row),
       pd_risk = risk_by_effect eff, pd_effect = effect_text eff, pd_target = target,
       pd_reason = (case rule of None \<Rightarrow> ''default policy''
         | Some row \<Rightarrow> ''matched '' @ ru_scope row @ '' policy rule''),
       pd_rule = map_option ru_id rule, pd_arguments = redact_arguments pe (rq_arguments r)\<rparr>)"

definition evaluate :: "policy_env \<Rightarrow> scope_request \<Rightarrow> db \<Rightarrow> decision result" where
  "evaluate pe r d = (case parse_effect (rq_effect r) of
     None \<Rightarrow> Ok (deny_with pe r ''elevated'' (rq_effect r) (rq_target r) ''unknown effects are denied'')
   | Some base \<Rightarrow>
       let eff = request_effect r base in
       and_then (check_path pe r eff) (\<lambda>checked. case checked of
         Inl denied \<Rightarrow> Ok denied
       | Inr (path, missing_path_scope) \<Rightarrow>
           and_then (check_network pe r eff path) (\<lambda>checked. case checked of
             Inl denied \<Rightarrow> Ok denied
           | Inr target \<Rightarrow>
               and_then (matching_rule pe eff target r d) (\<lambda>rule.
                 Ok (rule_decision pe r eff target missing_path_scope rule)))))"

subsection \<open>Adding and listing rules\<close>

definition action_names :: "(string \<times> policy_action) list" where
  "action_names = [(''allow'', Allow), (''deny'', Deny), (''ask'', Ask)]"

text \<open>The target a new rule is stored with and its metadata\<close>

definition rule_target ::
    "policy_env \<Rightarrow> effect \<Rightarrow> string \<Rightarrow> string option \<Rightarrow> dict \<Rightarrow> (string \<times> dict) result" where
  "rule_target pe eff target target_kind metadata =
    (if target_kind = Some ''path'' \<and> target \<noteq> [] then
       and_then (canonical_path pe target) (\<lambda>path.
         Ok (path, AList.update ''target_kind'' (JStr ''path'') metadata))
     else if eff \<in> {Network_Effect, Remote_Effect} \<and> target \<noteq> [] then
       let kind = (case target_kind of None \<Rightarrow> ''domain'' | Some k \<Rightarrow> if k = [] then ''domain'' else k);
           stored = AList.update ''target_kind'' (JStr kind) metadata in
       (if kind = ''origin'' then
          raise_if (\<not> contains ''://'' target)
            (Value_Error ''an origin policy rule requires an explicit scheme'')
          (and_then
            (if eff = Remote_Effect
             then and_then (normalize_remote_target pe target) (\<lambda>(url, host). normalized_origin pe url)
             else and_then (network_destination (pe_net pe) False False target) (\<lambda>d. Ok (nd_origin d)))
            (\<lambda>origin. Ok (origin, stored)))
        else if kind = ''host'' \<or> kind = ''domain'' then
          and_then (urlsplit (pe_net pe) (with_scheme target)) (\<lambda>p.
            raise_if (url_hostname p = [] \<or> \<not> bare_url p)
              (Value_Error ''host/domain policy targets contain only a hostname'')
            (and_then (url_port p) (\<lambda>port.
              raise_if (port \<noteq> None) (Value_Error ''port-specific policy requires an origin target'')
                (Ok (casefold (rstrip_char (CHR ''.'') (url_hostname p)), stored)))))
        else Err (Value_Error ''network policy target kind must be domain, host or origin''))
     else Ok (target, case target_kind of None \<Rightarrow> metadata
       | Some k \<Rightarrow> if k = [] then metadata else AList.update ''target_kind'' (JStr k) metadata))"

definition add_rule_in_transaction ::
    "policy_env \<Rightarrow> ident \<Rightarrow> string \<Rightarrow> string \<Rightarrow> string \<Rightarrow> string \<Rightarrow> time option \<Rightarrow> dict \<Rightarrow> string option \<Rightarrow>
     db \<Rightarrow> (ident \<times> db) result" where
  "add_rule_in_transaction pe rid effect action target scope expires_at metadata target_kind d =
    (case (parse_effect effect, map_of action_names action) of
       (Some eff, Some act) \<Rightarrow>
         and_then (rule_target pe eff target target_kind metadata) (\<lambda>(normalized, rule_metadata).
         and_then (admit None True (fresh ru_id rid (policy_rules d)) True
           (d\<lparr>policy_rules := policy_rules d @ [\<lparr>ru_id = rid, ru_effect = eff, ru_action = act,
             ru_target = normalized, ru_scope = scope, ru_created_at = pe_now pe,
             ru_expires_at = expires_at,
             ru_metadata = Some (object_fields (redact (JObj rule_metadata)))\<rparr>]\<rparr>)) (\<lambda>d'. Ok (rid, d')))
     | _ \<Rightarrow> Err (Value_Error ''invalid policy effect or action''))"

definition add_rule ::
    "policy_env \<Rightarrow> ident \<Rightarrow> string \<Rightarrow> string \<Rightarrow> string \<Rightarrow> string \<Rightarrow> time option \<Rightarrow> dict \<Rightarrow> string option \<Rightarrow>
     db \<Rightarrow> ident result \<times> db" where
  "add_rule pe rid effect action target scope expires_at metadata target_kind =
     transact (add_rule_in_transaction pe rid effect action target scope expires_at metadata target_kind)"

record listed_rule =
  lr_row :: rule_row
  lr_metadata :: dict
  lr_expired :: bool
  lr_valid :: bool
  lr_active :: bool

definition list_rule :: "policy_env \<Rightarrow> rule_row \<Rightarrow> listed_rule" where
  "list_rule pe row =
    (let metadata = (case ru_metadata row of None \<Rightarrow> [] | Some m \<Rightarrow> m);
         expired = (case ru_expires_at row of None \<Rightarrow> False | Some t \<Rightarrow> t \<le> pe_now pe);
         valid = (ru_metadata row \<noteq> None \<and> (\<not> truthy (get metadata ''approval_id'') \<or>
           has_digest (get metadata ''authority_intent''))) in
     \<lparr>lr_row = row, lr_metadata = metadata, lr_expired = expired, lr_valid = valid,
      lr_active = (\<not> expired \<and> valid)\<rparr>)"

definition list_rules :: "policy_env \<Rightarrow> db \<Rightarrow> listed_rule list" where
  "list_rules pe d = map (list_rule pe) (sort_key (\<lambda>r. - ru_created_at r) (policy_rules d))"

end
