(* ===== verification/Ownership.thy ===== *)
theory Ownership
  imports Store_Writes
begin

section \<open>Leases and their owners\<close>

text \<open>
  \<^verbatim>\<open>src/tars/ownership.py\<close>: who may act on a resource.  A lease row names the process that
  holds it by a token, a pid and the start time \<^verbatim>\<open>/proc/<pid>/stat\<close> gives for that pid, and it
  is taken from its holder only when that process is provably gone and no fenced child process
  is left.  An expired lease of a live process is not taken.  \<open>env\<close> is what an operation reads
  from outside the store: the clock, sampled once, the \<^verbatim>\<open>/proc\<close> files and the resolved form of
  a path.  The polling loop of \<^verbatim>\<open>acquire\<close>, the heartbeat thread and the two context managers
  around model and task execution are not modelled here.
\<close>

subsection \<open>Processes\<close>

datatype stat_file = Stat string | No_Such_Process | Unreadable

record env =
  now :: time
  proc_stat :: "int \<Rightarrow> stat_file"
  resolve_path :: "string \<Rightarrow> string"

text \<open>\<^verbatim>\<open>value[value.rfind(")") + 2:]\<close>; \<^verbatim>\<open>rfind\<close> gives -1 when there is none.\<close>

fun after_last :: "char \<Rightarrow> string \<Rightarrow> string option" where
  "after_last c [] = None"
| "after_last c (x # xs) = (case after_last c xs of
     Some rest \<Rightarrow> Some rest | None \<Rightarrow> if x = c then Some xs else None)"

definition stat_fields :: "string \<Rightarrow> string list" where
  "stat_fields value = split_words []
     (case after_last (CHR '')'') value of Some rest \<Rightarrow> drop 1 rest | None \<Rightarrow> drop 1 value)"

datatype start_read = Start string | Gone_Process | Unusable_Stat

definition read_process_start :: "env \<Rightarrow> int \<Rightarrow> start_read" where
  "read_process_start e pid = (case proc_stat e pid of
     No_Such_Process \<Rightarrow> Gone_Process
   | Unreadable \<Rightarrow> Unusable_Stat
   | Stat value \<Rightarrow> let fields = stat_fields value in
       if 19 < length fields then Start (fields ! 19) else Unusable_Stat)"

definition process_start :: "env \<Rightarrow> int \<Rightarrow> string" where
  "process_start e pid = (case read_process_start e pid of Start s \<Rightarrow> s | _ \<Rightarrow> [])"

definition owner_alive :: "env \<Rightarrow> int \<Rightarrow> string \<Rightarrow> bool" where
  "owner_alive e pid expected = (expected \<noteq> [] \<and> process_start e pid = expected)"

text \<open>Only the absence of the pid, or its reuse, proves the identity cannot act.\<close>

definition owner_gone :: "env \<Rightarrow> int \<Rightarrow> string \<Rightarrow> bool" where
  "owner_gone e pid expected = (if expected = [] then False else
     (case read_process_start e pid of
        Start s \<Rightarrow> s \<noteq> expected | Gone_Process \<Rightarrow> True | Unusable_Stat \<Rightarrow> False))"

record owner =
  ow_token :: string
  ow_pid :: int
  ow_start :: string

definition create_owner :: "env \<Rightarrow> string \<Rightarrow> int \<Rightarrow> owner" where
  "create_owner e token pid = \<lparr>ow_token = token, ow_pid = pid, ow_start = process_start e pid\<rparr>"

definition same_owner :: "lease_row option \<Rightarrow> owner \<Rightarrow> bool" where
  "same_owner row ow = (case row of None \<Rightarrow> False | Some r \<Rightarrow>
     ls_token r = ow_token ow \<and> ls_pid r = ow_pid ow \<and> ls_start r = ow_start ow)"

definition fence_processes_alive :: "env \<Rightarrow> lease_row \<Rightarrow> bool" where
  "fence_processes_alive e row = list_ex (\<lambda>f. case f of
     Malformed_Fence \<Rightarrow> True | Fence pid start \<Rightarrow> \<not> owner_gone e pid start) (ls_fences row)"

definition reclaimable :: "env \<Rightarrow> lease_row \<Rightarrow> bool" where
  "reclaimable e row =
     (owner_gone e (ls_pid row) (ls_start row) \<and> \<not> fence_processes_alive e row)"

definition lease_expiry :: "env \<Rightarrow> time \<Rightarrow> time" where
  "lease_expiry e lease = now e + max (seconds 1) lease"

subsection \<open>Claiming, renewing and releasing\<close>

definition on_lease :: "resource \<Rightarrow> lease_row \<Rightarrow> bool" where
  "on_lease res r = (ls_type r = fst res \<and> ls_key r = snd res)"

definition find_lease :: "db \<Rightarrow> resource \<Rightarrow> lease_row option" where
  "find_lease d res = select_one (\<lambda>r. (ls_type r, ls_key r)) res (resource_leases d)"

definition owned_by :: "owner \<Rightarrow> lease_row \<Rightarrow> bool" where
  "owned_by ow r = (ls_token r = ow_token ow \<and> ls_pid r = ow_pid ow \<and> ls_start r = ow_start ow)"

definition task_phase :: "db \<Rightarrow> ident \<Rightarrow> string option" where
  "task_phase d tid = map_option tk_phase (find_task d tid)"

definition task_execution_fenced :: "db \<Rightarrow> ident \<Rightarrow> bool" where
  "task_execution_fenced d tid = (find_lease d (Task_Execution_Fence, tid) \<noteq> None \<or>
     task_phase d tid = Some ''cancellation-recovery-required'')"

definition claim_in_transaction ::
    "env \<Rightarrow> resource \<Rightarrow> owner \<Rightarrow> time \<Rightarrow> dict \<Rightarrow> db \<Rightarrow> bool \<times> db" where
  "claim_in_transaction e res ow lease metadata d =
    (let row = find_lease d res in
     if fst res = Task_Execution \<and>
        (find_lease d (Task_Execution_Fence, snd res) \<noteq> None \<or>
         task_phase d (snd res) = Some ''cancellation-recovery-required'') then (False, d)
     else case row of
       Some r \<Rightarrow>
         if \<not> same_owner row ow \<and> \<not> reclaimable e r then (False, d)
         else
           let P = (\<lambda>x. on_lease res x \<and> ls_token x = ls_token r \<and> ls_pid x = ls_pid r \<and>
                     ls_start x = ls_start r \<and> ls_expires_at x = ls_expires_at r) in
           (count_where P (resource_leases d) = 1,
            d\<lparr>resource_leases := update_where P
               (\<lambda>x. x\<lparr>ls_token := ow_token ow, ls_pid := ow_pid ow, ls_start := ow_start ow,
                    ls_acquired_at := now e, ls_heartbeat_at := now e,
                    ls_expires_at := lease_expiry e lease, ls_metadata := metadata,
                    ls_fences := []\<rparr>) (resource_leases d)\<rparr>)
     | None \<Rightarrow>
         (True, d\<lparr>resource_leases := resource_leases d @
            [\<lparr>ls_type = fst res, ls_key = snd res, ls_token = ow_token ow, ls_pid = ow_pid ow,
              ls_start = ow_start ow, ls_acquired_at = now e, ls_heartbeat_at = now e,
              ls_expires_at = lease_expiry e lease, ls_metadata = metadata, ls_fences = []\<rparr>]\<rparr>))"

definition claim :: "env \<Rightarrow> resource \<Rightarrow> owner \<Rightarrow> time \<Rightarrow> dict \<Rightarrow> db \<Rightarrow> bool \<times> db" where
  "claim e res ow lease metadata d = claim_in_transaction e res ow lease metadata d"

text \<open>\<^verbatim>\<open>other.rstrip("/") + "/"\<close>, the form a path below \<^verbatim>\<open>other\<close> starts with\<close>

definition as_prefix :: "string \<Rightarrow> string" where
  "as_prefix p = rstrip_char (CHR ''/'') p @ ''/''"

definition paths_overlap :: "string \<Rightarrow> string \<Rightarrow> bool" where
  "paths_overlap key other = (key = other \<or> starts_with key (as_prefix other) \<or>
     starts_with other (as_prefix key))"

text \<open>The loop of \<^verbatim>\<open>claim_workspace\<close> over the workspace leases: \<open>False\<close> when an overlapping
  lease cannot be reclaimed.  The leases deleted before that stay deleted, since the early
  return commits the transaction.\<close>

fun sweep_workspaces :: "env \<Rightarrow> string \<Rightarrow> owner \<Rightarrow> lease_row list \<Rightarrow> db \<Rightarrow> bool \<times> db" where
  "sweep_workspaces e key ow [] d = (True, d)"
| "sweep_workspaces e key ow (row # rows) d =
     (if \<not> paths_overlap key (ls_key row) \<or> same_owner (Some row) ow
      then sweep_workspaces e key ow rows d
      else if \<not> reclaimable e row then (False, d)
      else sweep_workspaces e key ow rows
        (d\<lparr>resource_leases := delete_where (\<lambda>x. on_lease (Workspace, ls_key row) x \<and>
            ls_token x = ls_token row \<and> ls_pid x = ls_pid row \<and> ls_start x = ls_start row)
            (resource_leases d)\<rparr>))"

definition claim_workspace :: "env \<Rightarrow> string \<Rightarrow> owner \<Rightarrow> time \<Rightarrow> dict \<Rightarrow> db \<Rightarrow> bool \<times> db" where
  "claim_workspace e path ow lease metadata d =
    (let key = resolve_path e path;
         swept = sweep_workspaces e key ow
           (filter (\<lambda>r. ls_type r = Workspace) (resource_leases d)) d in
     if fst swept then claim_in_transaction e (Workspace, key) ow lease metadata (snd swept)
     else swept)"

definition heartbeat :: "env \<Rightarrow> resource \<Rightarrow> owner \<Rightarrow> time \<Rightarrow> db \<Rightarrow> bool \<times> db" where
  "heartbeat e res ow lease d =
    (let P = (\<lambda>x. on_lease res x \<and> owned_by ow x) in
     (count_where P (resource_leases d) = 1,
      d\<lparr>resource_leases := update_where P
         (\<lambda>x. x\<lparr>ls_heartbeat_at := now e, ls_expires_at := lease_expiry e lease\<rparr>)
         (resource_leases d)\<rparr>))"

definition normalized_process_identities :: "(int \<times> string) list \<Rightarrow> (int \<times> string) list result" where
  "normalized_process_identities ids =
     raise_if (list_ex (\<lambda>(pid, start). pid \<le> 1 \<or> start = []) ids)
       (Value_Error ''external process fence requires a stable process identity'') (Ok ids)"

definition update_external_process_fence ::
    "resource \<Rightarrow> owner \<Rightarrow> (int \<times> string) list \<Rightarrow> (int \<times> string) list \<Rightarrow> db \<Rightarrow> (bool \<times> db) result" where
  "update_external_process_fence res ow add remove d =
     and_then (normalized_process_identities add) (\<lambda>additions.
     and_then (normalized_process_identities remove) (\<lambda>removals.
     Ok (case find_lease d res of
       None \<Rightarrow> (False, d)
     | Some row \<Rightarrow>
         if \<not> same_owner (Some row) ow then (False, d)
         else
           let retained = filter (\<lambda>f. case f of Malformed_Fence \<Rightarrow> True
                 | Fence pid start \<Rightarrow> (pid, start) \<notin> set removals) (ls_fences row);
               fences = retained @ map (\<lambda>(pid, start). Fence pid start)
                 (filter (\<lambda>(pid, start). Fence pid start \<notin> set retained) additions);
               P = (\<lambda>x. on_lease res x \<and> owned_by ow x) in
           (count_where P (resource_leases d) = 1,
            d\<lparr>resource_leases := update_where P (\<lambda>x. x\<lparr>ls_fences := fences\<rparr>)
               (resource_leases d)\<rparr>))))"

definition add_external_process_fence ::
    "resource \<Rightarrow> owner \<Rightarrow> (int \<times> string) list \<Rightarrow> db \<Rightarrow> (bool \<times> db) result" where
  "add_external_process_fence res ow ids d = update_external_process_fence res ow ids [] d"

definition remove_external_process_fence ::
    "resource \<Rightarrow> owner \<Rightarrow> (int \<times> string) list \<Rightarrow> db \<Rightarrow> (bool \<times> db) result" where
  "remove_external_process_fence res ow ids d = update_external_process_fence res ow [] ids d"

definition release :: "env \<Rightarrow> resource \<Rightarrow> owner \<Rightarrow> db \<Rightarrow> bool \<times> db" where
  "release e res ow d = (case find_lease d res of
     None \<Rightarrow> (False, d)
   | Some row \<Rightarrow>
       if \<not> same_owner (Some row) ow \<or> fence_processes_alive e row then (False, d)
       else let P = (\<lambda>x. on_lease res x \<and> owned_by ow x) in
         (count_where P (resource_leases d) = 1,
          d\<lparr>resource_leases := delete_where P (resource_leases d)\<rparr>))"

definition held_by_in_transaction :: "env \<Rightarrow> resource \<Rightarrow> owner \<Rightarrow> bool \<Rightarrow> db \<Rightarrow> bool" where
  "held_by_in_transaction e res ow require_unexpired d = (case find_lease d res of
     None \<Rightarrow> False
   | Some row \<Rightarrow> same_owner (Some row) ow \<and> (\<not> require_unexpired \<or> now e < ls_expires_at row) \<and>
       owner_alive e (ls_pid row) (ls_start row))"

definition held_by :: "env \<Rightarrow> resource \<Rightarrow> owner \<Rightarrow> db \<Rightarrow> bool" where
  "held_by e res ow d = held_by_in_transaction e res ow True d"

definition active_in_transaction :: "env \<Rightarrow> resource \<Rightarrow> db \<Rightarrow> bool" where
  "active_in_transaction e res d = (case find_lease d res of
     None \<Rightarrow> False | Some row \<Rightarrow> \<not> reclaimable e row)"

definition active_metadata :: "env \<Rightarrow> resource \<Rightarrow> db \<Rightarrow> dict option" where
  "active_metadata e res d = (case find_lease d res of
     None \<Rightarrow> None | Some row \<Rightarrow> if reclaimable e row then None else Some (ls_metadata row))"

subsection \<open>What one operation does to the leases\<close>

abbreviation lease_id :: "lease_row \<Rightarrow> resource" where
  "lease_id r \<equiv> (ls_type r, ls_key r)"

definition leases_ok :: "db \<Rightarrow> bool" where
  "leases_ok d = keys_distinct lease_id (resource_leases d)"

definition lease_owner :: "lease_row \<Rightarrow> owner" where
  "lease_owner r = \<lparr>ow_token = ls_token r, ow_pid = ls_pid r, ow_start = ls_start r\<rparr>"

definition holder :: "db \<Rightarrow> resource \<Rightarrow> owner option" where
  "holder d res = map_option lease_owner (find_lease d res)"

lemma on_lease_iff [simp]: "on_lease res r \<longleftrightarrow> lease_id r = res"
  by (auto simp: on_lease_def prod_eq_iff)

lemma owned_by_iff: "owned_by ow r \<longleftrightarrow> lease_owner r = ow"
  by (auto simp: owned_by_def lease_owner_def)

lemma same_owner_Some [simp]: "same_owner (Some r) ow \<longleftrightarrow> lease_owner r = ow"
  by (auto simp: same_owner_def lease_owner_def)

lemma find_lease_SomeD: "find_lease d res = Some r \<Longrightarrow> r \<in> set (resource_leases d) \<and> lease_id r = res"
  by (auto simp: find_lease_def dest: select_one_SomeD)

lemma find_lease_Some_iff:
  "leases_ok d \<Longrightarrow> find_lease d res = Some r \<longleftrightarrow> r \<in> set (resource_leases d) \<and> lease_id r = res"
  by (simp add: find_lease_def leases_ok_def select_one_Some_iff)

lemma holder_Some_iff:
  "leases_ok d \<Longrightarrow> holder d res = Some ow \<longleftrightarrow>
     (\<exists>r \<in> set (resource_leases d). lease_id r = res \<and> lease_owner r = ow)"
  by (auto simp: holder_def find_lease_Some_iff)

lemma not_reclaimable_alive: "\<not> owner_gone e (ls_pid r) (ls_start r) \<Longrightarrow> \<not> reclaimable e r"
  by (simp add: reclaimable_def)

lemma find_lease_update_where:
  assumes "\<And>x. lease_id (f x) = lease_id x"
  shows "find_lease (d\<lparr>resource_leases := update_where P f (resource_leases d)\<rparr>) res =
    map_option (\<lambda>x. if P x then f x else x) (find_lease d res)"
  unfolding find_lease_def by (simp add: select_one_update_where [of lease_id, OF assms])

lemma leases_ok_update_where:
  "(\<And>x. lease_id (f x) = lease_id x) \<Longrightarrow>
     leases_ok (d\<lparr>resource_leases := update_where P f (resource_leases d)\<rparr>) = leases_ok d"
  unfolding leases_ok_def by (simp add: keys_distinct_update_where [of lease_id])

lemma leases_ok_delete_where:
  "leases_ok d \<Longrightarrow> leases_ok (d\<lparr>resource_leases := delete_where P (resource_leases d)\<rparr>)"
  by (simp add: leases_ok_def keys_distinct_delete_where)

lemma find_lease_delete_where:
  "leases_ok d \<Longrightarrow> find_lease (d\<lparr>resource_leases := delete_where P (resource_leases d)\<rparr>) res =
     (case find_lease d res of None \<Rightarrow> None | Some r \<Rightarrow> if P r then None else Some r)"
  by (simp add: find_lease_def leases_ok_def select_one_delete_where)

text \<open>A live owner is never displaced, whether or not its lease has expired; a claim that
  succeeds installs exactly the new owner and leaves every other lease alone.\<close>

lemma claim_refused:
  "find_lease d res = Some r \<Longrightarrow> lease_owner r \<noteq> ow \<Longrightarrow> \<not> owner_gone e (ls_pid r) (ls_start r) \<Longrightarrow>
     claim_in_transaction e res ow lease metadata d = (False, d)"
  by (simp add: claim_in_transaction_def Let_def not_reclaimable_alive)

lemma claim_fenced:
  "task_execution_fenced d tid \<Longrightarrow>
     claim_in_transaction e (Task_Execution, tid) ow lease metadata d = (False, d)"
  by (simp add: claim_in_transaction_def Let_def task_execution_fenced_def)

lemma claim_frame [frame]:
  "snd (claim_in_transaction e res ow lease metadata d) = d' \<Longrightarrow>
     d' = d\<lparr>resource_leases := resource_leases d'\<rparr>"
  by (auto simp: claim_in_transaction_def Let_def split: option.splits)

lemma claim_leases_ok:
  "leases_ok d \<Longrightarrow> leases_ok (snd (claim_in_transaction e res ow lease metadata d))"
proof (cases "find_lease d res")
  case None
  moreover assume "leases_ok d"
  moreover from None have "res \<notin> lease_id ` set (resource_leases d)"
    by (simp add: find_lease_def select_one_None_iff)
  ultimately show ?thesis
    by (auto simp: claim_in_transaction_def Let_def leases_ok_def)
next
  case (Some r)
  assume ok: "leases_ok d"
  show ?thesis
    using ok by (simp add: claim_in_transaction_def Let_def Some leases_ok_update_where)
qed

definition claimed_row :: "env \<Rightarrow> resource \<Rightarrow> owner \<Rightarrow> time \<Rightarrow> dict \<Rightarrow> lease_row" where
  "claimed_row e res ow lease metadata = \<lparr>ls_type = fst res, ls_key = snd res,
     ls_token = ow_token ow, ls_pid = ow_pid ow, ls_start = ow_start ow, ls_acquired_at = now e,
     ls_heartbeat_at = now e, ls_expires_at = lease_expiry e lease, ls_metadata = metadata,
     ls_fences = []\<rparr>"

lemma claim_granted:
  assumes ok: "leases_ok d"
    and claim: "claim_in_transaction e res ow lease metadata d = (True, d')"
  shows "find_lease d' res = Some (claimed_row e res ow lease metadata)"
    and "other \<noteq> res \<Longrightarrow> find_lease d' other = find_lease d other"
proof -
  have "find_lease d' res = Some (claimed_row e res ow lease metadata) \<and>
      (other \<noteq> res \<longrightarrow> find_lease d' other = find_lease d other)"
  proof (cases "find_lease d res")
    case None
    with claim have "d' = d\<lparr>resource_leases := resource_leases d @ [claimed_row e res ow lease metadata]\<rparr>"
      by (auto simp: claim_in_transaction_def claimed_row_def split: if_splits)
    with None show ?thesis
      by (auto simp: find_lease_def select_one_append claimed_row_def split: option.splits)
  next
    case (Some r)
    then have r: "ls_type r = fst res" "ls_key r = snd res"
      by (auto dest: find_lease_SomeD)
    have row: "r\<lparr>ls_token := ow_token w, ls_pid := ow_pid w, ls_start := ow_start w,
        ls_acquired_at := now e, ls_heartbeat_at := now e, ls_expires_at := lease_expiry e lease,
        ls_metadata := metadata, ls_fences := []\<rparr> = claimed_row e res w lease metadata" for w
      using r by (cases r) (simp add: claimed_row_def)
    have other: "find_lease d other = Some x \<Longrightarrow> other \<noteq> res \<Longrightarrow> lease_id x \<noteq> res" for x
      by (auto dest: find_lease_SomeD)
    show ?thesis
      using claim other r
      by (cases "find_lease d other")
        (auto simp: claim_in_transaction_def Let_def Some row find_lease_update_where split: if_splits)
  qed
  then show "find_lease d' res = Some (claimed_row e res ow lease metadata)"
    and "other \<noteq> res \<Longrightarrow> find_lease d' other = find_lease d other" by simp_all
qed

lemma claim_false_unchanged:
  assumes ok: "leases_ok d" and claim: "claim_in_transaction e res ow lease metadata d = (False, d')"
  shows "d' = d"
proof (cases "find_lease d res")
  case None
  with claim show ?thesis by (auto simp: claim_in_transaction_def split: if_splits)
next
  case (Some r)
  let ?P = "\<lambda>x. lease_id x = res \<and> ls_token x = ls_token r \<and> ls_pid x = ls_pid r \<and>
    ls_start x = ls_start r \<and> ls_expires_at x = ls_expires_at r"
  have mem: "r \<in> set (resource_leases d)" "?P r" using find_lease_SomeD [OF Some] by auto
  have "count_where ?P (resource_leases d) \<le> 1"
    by (rule count_where_unique [where key = lease_id and k = res]) (use ok in \<open>simp_all add: leases_ok_def\<close>)
  moreover have "count_where ?P (resource_leases d) \<noteq> 0"
    using mem by (auto simp: count_where_zero_iff)
  ultimately have "count_where ?P (resource_leases d) = 1" by simp
  with claim Some show ?thesis
    by (auto simp: claim_in_transaction_def Let_def split: if_splits)
qed

lemma claim_reclaims:
  assumes ok: "leases_ok d" and row: "find_lease d res = Some r" and gone: "reclaimable e r"
    and kind: "fst res \<noteq> Task_Execution"
  shows "\<exists>d'. claim_in_transaction e res ow lease metadata d = (True, d')"
proof (cases "claim_in_transaction e res ow lease metadata d")
  case (Pair b d')
  let ?P = "\<lambda>x. lease_id x = res \<and> ls_token x = ls_token r \<and> ls_pid x = ls_pid r \<and>
    ls_start x = ls_start r \<and> ls_expires_at x = ls_expires_at r"
  have mem: "r \<in> set (resource_leases d)" "?P r" using find_lease_SomeD [OF row] by auto
  have "count_where ?P (resource_leases d) \<le> 1"
    by (rule count_where_unique [where key = lease_id and k = res]) (use ok in \<open>simp_all add: leases_ok_def\<close>)
  moreover have "count_where ?P (resource_leases d) \<noteq> 0"
    using mem by (auto simp: count_where_zero_iff)
  ultimately have "count_where ?P (resource_leases d) = 1" by simp
  with row gone kind show ?thesis by (simp add: claim_in_transaction_def Let_def)
qed

lemma sweep_frame [frame]: "\<exists>l. snd (sweep_workspaces e key ow rows d) = d\<lparr>resource_leases := l\<rparr>"
proof (induction rows arbitrary: d)
  case Nil
  show ?case by (rule exI [of _ "resource_leases d"]) simp
next
  case (Cons row rows)
  have keep: "\<exists>l. d = d\<lparr>resource_leases := l\<rparr>"
    by (rule exI [of _ "resource_leases d"]) simp
  have "\<exists>l. snd (sweep_workspaces e key ow rows (d\<lparr>resource_leases := m\<rparr>)) = d\<lparr>resource_leases := l\<rparr>" for m
    using Cons.IH [of "d\<lparr>resource_leases := m\<rparr>"] by simp
  with keep Cons.IH [of d] show ?case by simp
qed

lemma sweep_leases_ok: "leases_ok d \<Longrightarrow> leases_ok (snd (sweep_workspaces e key ow rows d))"
  by (induction rows arbitrary: d) (simp_all add: leases_ok_delete_where)

text \<open>The sweep removes reclaimable leases only.\<close>

lemma sweep_keeps:
  assumes "leases_ok d" and "find_lease d res = Some r" and "\<not> reclaimable_owner"
    and "\<And>row. row \<in> set rows \<Longrightarrow> lease_owner row = lease_owner r \<Longrightarrow> lease_id row = res \<Longrightarrow>
      reclaimable e row \<Longrightarrow> reclaimable_owner"
    and "\<And>row. row \<in> set rows \<Longrightarrow> ls_type row = Workspace"
  shows "find_lease (snd (sweep_workspaces e key ow rows d)) res = Some r"
  using assms(1,2,4,5)
proof (induction rows arbitrary: d)
  case Nil
  then show ?case by simp
next
  case (Cons row rows)
  let ?P = "\<lambda>x. lease_id x = (Workspace, ls_key row) \<and> ls_token x = ls_token row \<and>
    ls_pid x = ls_pid row \<and> ls_start x = ls_start row"
  have spared: "\<not> ?P r" if "reclaimable e row"
    using that Cons.prems(3) [of row] Cons.prems(4) [of row] find_lease_SomeD [OF Cons.prems(2)] assms(3)
    by (auto simp: lease_owner_def)
  have IH: "leases_ok d1 \<Longrightarrow> find_lease d1 res = Some r \<Longrightarrow>
      find_lease (snd (sweep_workspaces e key ow rows d1)) res = Some r" for d1
    by (rule Cons.IH) (use Cons.prems(3,4) in auto)
  show ?case
    using Cons.prems(1,2) spared
    by (auto intro!: IH simp: leases_ok_delete_where find_lease_delete_where)
qed

subsection \<open>Leases over a sequence of operations\<close>

text \<open>What a client of a lease relies on: while its process is seen alive, nothing that other
  owners do takes the lease away.\<close>

locale lease_service = state_machine step inv
  for step :: "'op \<Rightarrow> 's \<Rightarrow> 's" and inv :: "'s \<Rightarrow> bool" +
  fixes holds :: "'s \<Rightarrow> 'res \<Rightarrow> 'own option"
    and actor :: "'op \<Rightarrow> 'own"
    and sees_alive :: "'op \<Rightarrow> 'own \<Rightarrow> bool"
  assumes others_respect:
    "inv s \<Longrightarrow> holds s r = Some ow \<Longrightarrow> actor op \<noteq> ow \<Longrightarrow> sees_alive op ow \<Longrightarrow>
       holds (step op s) r = Some ow"
begin

lemma lease_survives:
  "inv s \<Longrightarrow> holds s r = Some ow \<Longrightarrow> \<forall>op \<in> set ops. actor op \<noteq> ow \<and> sees_alive op ow \<Longrightarrow>
     holds (fold step ops s) r = Some ow"
  by (induction ops arbitrary: s) (simp_all add: step_inv others_respect)

end

datatype lease_op =
    L_Claim env resource owner time dict
  | L_Workspace env string owner time dict
  | L_Heartbeat env resource owner time
  | L_Fence env resource owner "(int \<times> string) list" "(int \<times> string) list"
  | L_Release env resource owner

fun lease_step :: "lease_op \<Rightarrow> db \<Rightarrow> db" where
  "lease_step (L_Claim e res ow lease metadata) d = snd (claim e res ow lease metadata d)"
| "lease_step (L_Workspace e path ow lease metadata) d = snd (claim_workspace e path ow lease metadata d)"
| "lease_step (L_Heartbeat e res ow lease) d = snd (heartbeat e res ow lease d)"
| "lease_step (L_Fence e res ow add remove) d =
     (case update_external_process_fence res ow add remove d of Inl _ \<Rightarrow> d | Inr r \<Rightarrow> snd r)"
| "lease_step (L_Release e res ow) d = snd (release e res ow d)"

fun lease_actor :: "lease_op \<Rightarrow> owner" where
  "lease_actor (L_Claim e res ow lease metadata) = ow"
| "lease_actor (L_Workspace e path ow lease metadata) = ow"
| "lease_actor (L_Heartbeat e res ow lease) = ow"
| "lease_actor (L_Fence e res ow add remove) = ow"
| "lease_actor (L_Release e res ow) = ow"

fun lease_env :: "lease_op \<Rightarrow> env" where
  "lease_env (L_Claim e res ow lease metadata) = e"
| "lease_env (L_Workspace e path ow lease metadata) = e"
| "lease_env (L_Heartbeat e res ow lease) = e"
| "lease_env (L_Fence e res ow add remove) = e"
| "lease_env (L_Release e res ow) = e"

definition seen_alive :: "lease_op \<Rightarrow> owner \<Rightarrow> bool" where
  "seen_alive op ow = (\<not> owner_gone (lease_env op) (ow_pid ow) (ow_start ow))"

lemma lease_step_leases_ok: "leases_ok d \<Longrightarrow> leases_ok (lease_step op d)"
  by (cases op)
    (auto simp: claim_def claim_leases_ok claim_workspace_def Let_def sweep_leases_ok heartbeat_def
      update_external_process_fence_def release_def leases_ok_update_where leases_ok_delete_where
      and_then_def split: sum.splits option.splits)

lemma holder_update_where:
  "(\<And>x. lease_id (f x) = lease_id x) \<Longrightarrow> (\<And>x. lease_owner (f x) = lease_owner x) \<Longrightarrow>
     holder (d\<lparr>resource_leases := update_where P f (resource_leases d)\<rparr>) res = holder d res"
  by (cases "find_lease d res") (simp_all add: holder_def find_lease_update_where)

lemma claim_others_respect:
  assumes ok: "leases_ok d" and held: "holder d res = Some ow" and other: "ow' \<noteq> ow"
    and alive: "\<not> owner_gone e (ow_pid ow) (ow_start ow)"
  shows "holder (snd (claim_in_transaction e res' ow' lease metadata d)) res = Some ow"
proof (cases "claim_in_transaction e res' ow' lease metadata d")
  case (Pair b d')
  from held obtain r where r: "find_lease d res = Some r" "lease_owner r = ow"
    by (auto simp: holder_def)
  then have live: "\<not> owner_gone e (ls_pid r) (ls_start r)"
    using alive by (auto simp: lease_owner_def)
  show ?thesis
  proof (cases b)
    case True
    then have "res' \<noteq> res" using claim_refused [OF r(1)] Pair r(2) other live by force
    with claim_granted(2) [OF ok] Pair True have "find_lease d' res = find_lease d res" by simp
    with Pair held show ?thesis by (simp add: holder_def)
  next
    case False
    with Pair have "d' = d" by (simp add: claim_false_unchanged [OF ok])
    with Pair held show ?thesis by simp
  qed
qed

lemma lease_step_others_respect:
  assumes ok: "leases_ok d" and held: "holder d res = Some ow"
    and other: "lease_actor op \<noteq> ow" and alive: "seen_alive op ow"
  shows "holder (lease_step op d) res = Some ow"
proof -
  from held obtain r where r: "find_lease d res = Some r" "lease_owner r = ow"
    by (auto simp: holder_def)
  show ?thesis
  proof (cases op)
    case (L_Claim e res' ow' lease metadata)
    with assms show ?thesis by (simp add: claim_def claim_others_respect seen_alive_def)
  next
    case (L_Workspace e path ow' lease metadata)
    let ?rows = "filter (\<lambda>r. ls_type r = Workspace) (resource_leases d)"
    have "find_lease (snd (sweep_workspaces e (resolve_path e path) ow' ?rows d)) res = Some r"
      by (rule sweep_keeps [where reclaimable_owner = False])
        (use ok r alive L_Workspace in \<open>auto simp: seen_alive_def reclaimable_def lease_owner_def\<close>)
    then have "holder (snd (sweep_workspaces e (resolve_path e path) ow' ?rows d)) res = Some ow"
      using r by (simp add: holder_def)
    with claim_others_respect [OF sweep_leases_ok [OF ok]] L_Workspace other alive show ?thesis
      by (simp add: claim_workspace_def Let_def seen_alive_def)
  next
    case (L_Heartbeat e res' ow' lease)
    with held show ?thesis
      by (simp add: heartbeat_def Let_def holder_update_where lease_owner_def)
  next
    case (L_Fence e res' ow' add remove)
    with held show ?thesis
      by (auto simp: update_external_process_fence_def and_then_def Let_def holder_update_where
          lease_owner_def split: sum.splits option.splits)
  next
    case (L_Release e res' ow')
    with ok r other show ?thesis
      by (auto simp: release_def Let_def holder_def find_lease_delete_where owned_by_iff
          split: option.splits)
  qed
qed

interpretation leases: lease_service lease_step leases_ok holder lease_actor seen_alive
  by unfold_locales (fact lease_step_leases_ok, fact lease_step_others_respect)

text \<open>A fenced child process keeps the lease in place, for its owner and for everyone else.\<close>

lemma fence_holds:
  assumes "find_lease d res = Some r" and "Fence pid start \<in> set (ls_fences r)" and "\<not> owner_gone e pid start"
  shows "release e res ow d = (False, d)"
    and "lease_owner r \<noteq> ow \<Longrightarrow> claim_in_transaction e res ow lease metadata d = (False, d)"
proof -
  from assms have "fence_processes_alive e r"
    by (force simp: fence_processes_alive_def list_ex_iff)
  with assms(1) show "release e res ow d = (False, d)"
    and "lease_owner r \<noteq> ow \<Longrightarrow> claim_in_transaction e res ow lease metadata d = (False, d)"
    by (simp_all add: release_def claim_in_transaction_def Let_def reclaimable_def)
qed

subsection \<open>Workspaces\<close>

text \<open>No two workspace leases of different owners cover paths one inside the other.\<close>

definition workspaces_disjoint :: "db \<Rightarrow> bool" where
  "workspaces_disjoint d = (\<forall>a \<in> set (resource_leases d). \<forall>b \<in> set (resource_leases d).
     ls_type a = Workspace \<and> ls_type b = Workspace \<and> paths_overlap (ls_key a) (ls_key b) \<longrightarrow>
     lease_owner a = lease_owner b)"

lemma paths_overlap_sym: "paths_overlap a b = paths_overlap b a"
  by (auto simp: paths_overlap_def)

lemma sweep_True:
  assumes "sweep_workspaces e key ow rows d = (True, d')"
  shows "set (resource_leases d') \<subseteq> set (resource_leases d) \<and>
    (\<forall>r \<in> set (resource_leases d'). r \<in> set rows \<and> ls_type r = Workspace \<and> paths_overlap key (ls_key r) \<longrightarrow>
       lease_owner r = ow)"
  using assms
proof (induction rows arbitrary: d)
  case Nil
  then show ?case by simp
next
  case (Cons row rows)
  show ?case
  proof (cases "\<not> paths_overlap key (ls_key row) \<or> lease_owner row = ow")
    case True
    with Cons.prems have "sweep_workspaces e key ow rows d = (True, d')" by auto
    with Cons.IH [of d] True show ?thesis by auto
  next
    case False
    let ?d = "d\<lparr>resource_leases := delete_where (\<lambda>x. on_lease (Workspace, ls_key row) x \<and>
      ls_token x = ls_token row \<and> ls_pid x = ls_pid row \<and> ls_start x = ls_start row) (resource_leases d)\<rparr>"
    from False Cons.prems have "sweep_workspaces e key ow rows ?d = (True, d')"
      by (simp split: if_splits)
    from Cons.IH [OF this] show ?thesis by auto
  qed
qed

lemma sweep_subset:
  "set (resource_leases (snd (sweep_workspaces e key ow rows d))) \<subseteq> set (resource_leases d)"
  by (induction rows arbitrary: d) (auto, fastforce)

lemma claim_workspace_disjoint:
  assumes ok: "leases_ok d" and disj: "workspaces_disjoint d"
  shows "workspaces_disjoint (snd (claim_workspace e path ow lease metadata d))"
proof -
  let ?key = "resolve_path e path" and ?rows = "filter (\<lambda>r. ls_type r = Workspace) (resource_leases d)"
  obtain b d1 where sw: "sweep_workspaces e ?key ow ?rows d = (b, d1)" by (cases "sweep_workspaces e ?key ow ?rows d")
  have sub: "set (resource_leases d1) \<subseteq> set (resource_leases d)"
    using sweep_subset [of e ?key ow ?rows d] sw by simp
  have ok1: "leases_ok d1" using sweep_leases_ok [OF ok, of e ?key ow ?rows] sw by simp
  have disj1: "workspaces_disjoint d1" using disj sub by (auto simp: workspaces_disjoint_def)
  show ?thesis
  proof (cases b)
    case False
    with sw disj1 show ?thesis by (simp add: claim_workspace_def Let_def)
  next
    case True
    obtain c d2 where cl: "claim_in_transaction e (Workspace, ?key) ow lease metadata d1 = (c, d2)"
      by (cases "claim_in_transaction e (Workspace, ?key) ow lease metadata d1")
    have result: "snd (claim_workspace e path ow lease metadata d) = d2"
      using True sw cl by (simp add: claim_workspace_def Let_def)
    show ?thesis
    proof (cases c)
      case False
      with cl have "d2 = d1" by (simp add: claim_false_unchanged [OF ok1])
      with disj1 result show ?thesis by simp
    next
      case granted: True
      let ?new = "claimed_row e (Workspace, ?key) ow lease metadata"
      have ok2: "leases_ok d2" using claim_leases_ok [OF ok1, of e "(Workspace, ?key)" ow lease metadata] cl by simp
      have rows: "r = ?new \<or> r \<in> set (resource_leases d1) \<and> lease_id r \<noteq> (Workspace, ?key)"
        if "r \<in> set (resource_leases d2)" for r
      proof -
        have there: "find_lease d2 (lease_id r) = Some r"
          using that by (simp add: find_lease_Some_iff [OF ok2])
        have g: "claim_in_transaction e (Workspace, ?key) ow lease metadata d1 = (True, d2)"
          using cl granted by simp
        show ?thesis
          using there claim_granted(1) [OF ok1 g] claim_granted(2) [OF ok1 g, of "lease_id r"]
          find_lease_SomeD [of d1 "lease_id r" r]
          by (cases "lease_id r = (Workspace, ?key)") auto
      qed
      have own: "lease_owner ?new = ow" "ls_key ?new = ?key"
        by (simp_all add: lease_owner_def claimed_row_def)
      have near: "lease_owner r = ow" if "r \<in> set (resource_leases d1)" "ls_type r = Workspace"
        "paths_overlap ?key (ls_key r)" for r
        using sweep_True [of e ?key ow ?rows d d1] sw True sub that by auto
      show ?thesis
        unfolding result workspaces_disjoint_def
      proof (intro ballI impI)
        fix x y assume xy: "x \<in> set (resource_leases d2)" "y \<in> set (resource_leases d2)"
          "ls_type x = Workspace \<and> ls_type y = Workspace \<and> paths_overlap (ls_key x) (ls_key y)"
        show "lease_owner x = lease_owner y"
          using rows [OF xy(1)] rows [OF xy(2)]
        proof (elim disjE)
          assume "x \<in> set (resource_leases d1) \<and> lease_id x \<noteq> (Workspace, ?key)"
            and "y \<in> set (resource_leases d1) \<and> lease_id y \<noteq> (Workspace, ?key)"
          with disj1 xy(3) show ?thesis by (simp add: workspaces_disjoint_def)
        qed (use near own xy(3) paths_overlap_sym in auto)
      qed
    qed
  qed
qed

text \<open>Over any sequence of operations: only \<^const>\<open>claim_workspace\<close> creates workspace leases.\<close>

definition no_raw_workspace :: "lease_op \<Rightarrow> bool" where
  "no_raw_workspace op = (case op of L_Claim e res ow lease metadata \<Rightarrow> fst res \<noteq> Workspace | _ \<Rightarrow> True)"

lemma workspaces_disjoint_update:
  "(\<And>x. lease_id (f x) = lease_id x) \<Longrightarrow> (\<And>x. lease_owner (f x) = lease_owner x) \<Longrightarrow> workspaces_disjoint d \<Longrightarrow>
     workspaces_disjoint (d\<lparr>resource_leases := update_where P f (resource_leases d)\<rparr>)"
  by (auto simp: workspaces_disjoint_def set_update_where)

lemma workspaces_disjoint_subset:
  "workspaces_disjoint d \<Longrightarrow> set (resource_leases d') \<subseteq> set (resource_leases d) \<Longrightarrow> workspaces_disjoint d'"
  unfolding workspaces_disjoint_def by blast

lemma workspaces_disjoint_claim:
  assumes ok: "leases_ok d" and disj: "workspaces_disjoint d" and kind: "fst res \<noteq> Workspace"
  shows "workspaces_disjoint (snd (claim_in_transaction e res ow lease metadata d))"
proof (cases "claim_in_transaction e res ow lease metadata d")
  case (Pair b d')
  show ?thesis
  proof (cases b)
    case True
    have ok': "leases_ok d'" using claim_leases_ok [OF ok, of e res ow lease metadata] Pair by simp
    have "x \<in> set (resource_leases d)" if x: "x \<in> set (resource_leases d')" "ls_type x = Workspace" for x
    proof -
      from x kind have "lease_id x \<noteq> res" by auto
      with claim_granted(2) [OF ok, of e res ow lease metadata d' "lease_id x"] Pair True x(1)
      have "find_lease d (lease_id x) = find_lease d' (lease_id x)" by simp
      also have "\<dots> = Some x" using x(1) by (simp add: find_lease_Some_iff [OF ok'])
      finally show ?thesis by (auto dest: find_lease_SomeD)
    qed
    with disj Pair show ?thesis by (auto simp: workspaces_disjoint_def)
  next
    case False
    with Pair disj claim_false_unchanged [OF ok, of e res ow lease metadata d'] show ?thesis by simp
  qed
qed

lemma lease_step_workspaces:
  assumes "leases_ok d" and "workspaces_disjoint d" and "no_raw_workspace op"
  shows "workspaces_disjoint (lease_step op d)"
proof (cases op)
  case (L_Release e res ow)
  with assms(2) show ?thesis
    by (auto simp: release_def Let_def intro: workspaces_disjoint_subset split: option.split)
next
  case (L_Fence e res ow add remove)
  with assms(2) show ?thesis
    by (auto simp: update_external_process_fence_def and_then_def Let_def lease_owner_def
        intro!: workspaces_disjoint_update split: sum.splits option.splits)
qed (use assms in \<open>simp_all add: claim_def workspaces_disjoint_claim no_raw_workspace_def
      claim_workspace_disjoint heartbeat_def Let_def workspaces_disjoint_update lease_owner_def\<close>)

lemma lease_run_workspaces:
  "leases_ok d \<Longrightarrow> workspaces_disjoint d \<Longrightarrow> \<forall>op \<in> set ops. no_raw_workspace op \<Longrightarrow>
     workspaces_disjoint (fold lease_step ops d)"
  by (induction ops arbitrary: d) (simp_all add: lease_step_workspaces lease_step_leases_ok)

subsection \<open>Reading /proc\<close>

lemma after_last_none: "c \<notin> set s \<Longrightarrow> after_last c s = None"
  by (induction s) auto

lemma after_last_append: "c \<notin> set b \<Longrightarrow> after_last c (a @ c # b) = Some b"
  by (induction a) (auto simp: after_last_none)

text \<open>The command name of a process is the only field of \<^verbatim>\<open>stat\<close> it can choose; whatever
  parentheses and blanks it holds, the fields after it are found.\<close>

lemma stat_fields_command_name:
  "CHR '')'' \<notin> set rest \<Longrightarrow> stat_fields (pid @ '' ('' @ comm @ '') '' @ rest) = split_words [] rest"
proof -
  assume "CHR '')'' \<notin> set rest"
  then have "after_last (CHR '')'') ((pid @ '' ('' @ comm) @ CHR '')'' # ('' '' @ rest)) = Some ('' '' @ rest)"
    by (intro after_last_append) simp
  then show ?thesis by (simp add: stat_fields_def)
qed

end
