(* ===== verification/Tasks.thy ===== *)
theory Tasks
  imports Events Ownership
begin

section \<open>Tasks and checkpoints\<close>

text \<open>
  \<^verbatim>\<open>src/tars/tasks.py\<close> and \<^verbatim>\<open>src/tars/checkpoints.py\<close>.  Every write of execution-owned task
  columns passes \<^verbatim>\<open>require_task_write_in_transaction\<close>, which refuses it while another live
  process executes the task and refuses to change a task whose state is terminal.  Checkpoints
  are numbered per task, carry the digest of their payload and are never rewritten.  An
  operation made of several transactions is a sequence of them (\<open>and_next\<close>): what the earlier
  ones committed stays when a later one raises.  Parameters: \<open>resolve_role\<close> stands for
  \<^verbatim>\<open>resolve_role_id\<close> of \<^verbatim>\<open>roles.py\<close>, \<open>digest\<close> for SHA-256 of the JSON text of the state,
  \<open>ids\<close> for the identifiers drawn from \<^verbatim>\<open>uuid4\<close>, in the order of the draws, and \<open>selected\<close>
  for the explicit or ambient execution owner.
\<close>

subsection \<open>Names of the enumerated values\<close>

fun task_state_name :: "task_state \<Rightarrow> string" where
  "task_state_name T_Pending = ''pending''"
| "task_state_name T_Running = ''running''"
| "task_state_name T_Paused = ''paused''"
| "task_state_name T_Completed = ''completed''"
| "task_state_name T_Failed = ''failed''"
| "task_state_name T_Cancelled = ''cancelled''"

fun task_kind_name :: "task_kind \<Rightarrow> string" where
  "task_kind_name Primary = ''primary''"
| "task_kind_name Delegation = ''delegation''"
| "task_kind_name Sideband = ''sideband''"
| "task_kind_name Scheduled = ''scheduled''"

definition terminal_task_state :: "task_state \<Rightarrow> bool" where
  "terminal_task_state s = (s \<in> {T_Completed, T_Failed, T_Cancelled})"

subsection \<open>Column assignments\<close>

datatype task_change =
    Ch_State task_state
  | Ch_Phase string
  | Ch_Progress rat
  | Ch_Owner_Role string
  | Ch_Conversation "ident option"
  | Ch_Epoch "int option"
  | Ch_Constraints "string list"
  | Ch_Decisions "string list"
  | Ch_Completed "string list"
  | Ch_Open_Steps "string list"
  | Ch_Failures "string list"
  | Ch_Evidence "ident list"
  | Ch_Title string
  | Ch_Schedule_Kind string
  | Ch_Schedule_Expr string
  | Ch_Next_Run zstamp
  | Ch_Last_Run time
  | Ch_Last_Result string
  | Ch_Schedule_Enabled bool
  | Ch_Updated time

text \<open>\<^verbatim>\<open>EXECUTION_OWNED_COLUMNS\<close>\<close>

fun execution_owned :: "task_change \<Rightarrow> bool" where
  "execution_owned (Ch_Title x) = False"
| "execution_owned (Ch_Schedule_Kind x) = False"
| "execution_owned (Ch_Schedule_Expr x) = False"
| "execution_owned (Ch_Next_Run x) = False"
| "execution_owned (Ch_Last_Run x) = False"
| "execution_owned (Ch_Last_Result x) = False"
| "execution_owned (Ch_Schedule_Enabled x) = False"
| "execution_owned (Ch_Updated x) = False"
| "execution_owned c = True"

text \<open>\<^verbatim>\<open>row[key] != value\<close>\<close>

fun column_differs :: "task_row \<Rightarrow> task_change \<Rightarrow> bool" where
  "column_differs r (Ch_State x) = (tk_state r \<noteq> x)"
| "column_differs r (Ch_Phase x) = (tk_phase r \<noteq> x)"
| "column_differs r (Ch_Progress x) = (tk_progress r \<noteq> Some x)"
| "column_differs r (Ch_Owner_Role x) = (tk_owner_role r \<noteq> x)"
| "column_differs r (Ch_Conversation x) = (tk_conversation r \<noteq> x)"
| "column_differs r (Ch_Epoch x) = (Some (tk_epoch r) \<noteq> x)"
| "column_differs r (Ch_Constraints x) = (tk_constraints r \<noteq> x)"
| "column_differs r (Ch_Decisions x) = (tk_decisions r \<noteq> x)"
| "column_differs r (Ch_Completed x) = (tk_completed r \<noteq> x)"
| "column_differs r (Ch_Open_Steps x) = (tk_open_steps r \<noteq> x)"
| "column_differs r (Ch_Failures x) = (tk_failures r \<noteq> x)"
| "column_differs r (Ch_Evidence x) = (tk_evidence_refs r \<noteq> x)"
| "column_differs r (Ch_Title x) = (tk_title r \<noteq> x)"
| "column_differs r (Ch_Schedule_Kind x) = (tk_schedule_kind r \<noteq> Some x)"
| "column_differs r (Ch_Schedule_Expr x) = (tk_schedule_expr r \<noteq> Some x)"
| "column_differs r (Ch_Next_Run x) = (tk_next_run_at r \<noteq> Some x)"
| "column_differs r (Ch_Last_Run x) = (tk_last_run_at r \<noteq> Some x)"
| "column_differs r (Ch_Last_Result x) = (tk_last_result_status r \<noteq> Some x)"
| "column_differs r (Ch_Schedule_Enabled x) = (tk_schedule_enabled r \<noteq> x)"
| "column_differs r (Ch_Updated x) = (tk_updated_at r \<noteq> x)"

fun assign_column :: "task_change \<Rightarrow> task_row \<Rightarrow> task_row" where
  "assign_column (Ch_State x) r = r\<lparr>tk_state := x\<rparr>"
| "assign_column (Ch_Phase x) r = r\<lparr>tk_phase := x\<rparr>"
| "assign_column (Ch_Progress x) r = r\<lparr>tk_progress := Some x\<rparr>"
| "assign_column (Ch_Owner_Role x) r = r\<lparr>tk_owner_role := x\<rparr>"
| "assign_column (Ch_Conversation x) r = r\<lparr>tk_conversation := x\<rparr>"
| "assign_column (Ch_Epoch x) r = (case x of None \<Rightarrow> r | Some n \<Rightarrow> r\<lparr>tk_epoch := n\<rparr>)"
| "assign_column (Ch_Constraints x) r = r\<lparr>tk_constraints := x\<rparr>"
| "assign_column (Ch_Decisions x) r = r\<lparr>tk_decisions := x\<rparr>"
| "assign_column (Ch_Completed x) r = r\<lparr>tk_completed := x\<rparr>"
| "assign_column (Ch_Open_Steps x) r = r\<lparr>tk_open_steps := x\<rparr>"
| "assign_column (Ch_Failures x) r = r\<lparr>tk_failures := x\<rparr>"
| "assign_column (Ch_Evidence x) r = r\<lparr>tk_evidence_refs := x\<rparr>"
| "assign_column (Ch_Title x) r = r\<lparr>tk_title := x\<rparr>"
| "assign_column (Ch_Schedule_Kind x) r = r\<lparr>tk_schedule_kind := Some x\<rparr>"
| "assign_column (Ch_Schedule_Expr x) r = r\<lparr>tk_schedule_expr := Some x\<rparr>"
| "assign_column (Ch_Next_Run x) r = r\<lparr>tk_next_run_at := Some x\<rparr>"
| "assign_column (Ch_Last_Run x) r = r\<lparr>tk_last_run_at := Some x\<rparr>"
| "assign_column (Ch_Last_Result x) r = r\<lparr>tk_last_result_status := Some x\<rparr>"
| "assign_column (Ch_Schedule_Enabled x) r = r\<lparr>tk_schedule_enabled := x\<rparr>"
| "assign_column (Ch_Updated x) r = r\<lparr>tk_updated_at := x\<rparr>"

definition assign_columns :: "task_change list \<Rightarrow> task_row \<Rightarrow> task_row" where
  "assign_columns cs r = fold assign_column cs r"

subsection \<open>The guard of every task write\<close>

definition require_task_write_in_transaction ::
    "env \<Rightarrow> owner option \<Rightarrow> bool \<Rightarrow> task_change list \<Rightarrow> ident \<Rightarrow> db \<Rightarrow> task_row result" where
  "require_task_write_in_transaction e selected allow_fail_closed changes tid d =
    (case find_task d tid of
       None \<Rightarrow> Err (Key_Error ''unknown task'')
     | Some row \<Rightarrow>
         raise_if (active_in_transaction e (Task_Execution, tid) d \<and> \<not> allow_fail_closed \<and>
             \<not> (case selected of None \<Rightarrow> False
                | Some ow \<Rightarrow> held_by_in_transaction e (Task_Execution, tid) ow True d))
           (Runtime_Error ''execution-owned state has a live executor'')
        (raise_if (terminal_task_state (tk_state row) \<and>
             list_ex (\<lambda>c. execution_owned c \<and> column_differs row c) changes)
           (Runtime_Error ''terminal task cannot mutate execution truth'')
        (Ok row)))"

definition load_task :: "db \<Rightarrow> ident \<Rightarrow> task_row result" where
  "load_task d tid = (case find_task d tid of
     None \<Rightarrow> Err (Key_Error ''unknown task'') | Some row \<Rightarrow> Ok row)"

definition list_tasks :: "nat \<Rightarrow> bool \<Rightarrow> ident option \<Rightarrow> db \<Rightarrow> task_row list" where
  "list_tasks limit scheduled_only conv d = take limit (sort_key (\<lambda>t. - tk_updated_at t)
     (filter (\<lambda>t. (scheduled_only \<longrightarrow> tk_kind t = Scheduled \<or> tk_schedule_kind t \<noteq> None) \<and>
        (conv = None \<or> tk_conversation t = conv)) (tasks d)))"

subsection \<open>Creating tasks\<close>

record new_task =
  nt_goal :: string
  nt_owner_role :: string
  nt_kind :: task_kind
  nt_parent :: "ident option"
  nt_source :: string
  nt_conversation :: "ident option"
  nt_title :: string
  nt_constraints :: "string list"
  nt_evidence_refs :: "ident list"
  nt_phase :: string
  nt_schedule_kind :: "string option"
  nt_schedule_expr :: "string option"
  nt_next_run_at :: "zstamp option"

definition set_meta :: "string \<Rightarrow> string \<Rightarrow> db \<Rightarrow> db" where
  "set_meta k v d = d\<lparr>meta := AList.update k v (meta d)\<rparr>"

definition get_meta :: "string \<Rightarrow> db \<Rightarrow> string option" where
  "get_meta k d = map_of (meta d) k"

definition create_task_in_transaction ::
    "time \<Rightarrow> ident \<Rightarrow> new_task \<Rightarrow> bool \<Rightarrow> db \<Rightarrow> (ident \<times> db) result" where
  "create_task_in_transaction stamp tid n make_active d =
     and_then (case nt_parent n of None \<Rightarrow> Ok ()
       | Some p \<Rightarrow> (case find_task d p of
           None \<Rightarrow> Err (Key_Error ''unknown task'')
         | Some parent \<Rightarrow> raise_if (tk_conversation parent \<noteq> nt_conversation n)
             (Value_Error ''child task must share its parent conversation'') (Ok ())))
     (\<lambda>_. and_then (insert_task \<lparr>tk_id = tid, tk_conversation = nt_conversation n,
         tk_title = nt_title n, tk_goal = nt_goal n, tk_owner_role = nt_owner_role n,
         tk_state = T_Pending, tk_kind = nt_kind n, tk_phase = nt_phase n, tk_progress = None,
         tk_parent = nt_parent n, tk_source = nt_source n, tk_epoch = 1,
         tk_constraints = nt_constraints n, tk_decisions = [], tk_completed = [],
         tk_open_steps = [], tk_failures = [], tk_evidence_refs = nt_evidence_refs n,
         tk_schedule_kind = nt_schedule_kind n, tk_schedule_expr = nt_schedule_expr n,
         tk_next_run_at = nt_next_run_at n, tk_last_run_at = None,
         tk_last_result_status = None, tk_schedule_enabled = True, tk_created_at = stamp,
         tk_updated_at = stamp\<rparr> d)
     (\<lambda>d'. Ok (tid, if make_active then set_meta ''active_task_id'' tid d' else d')))"

definition create_task ::
    "env \<Rightarrow> (nat \<Rightarrow> ident) \<Rightarrow> (string \<Rightarrow> string result) \<Rightarrow> ident option \<Rightarrow> new_task \<Rightarrow> bool \<Rightarrow> db \<Rightarrow>
     task_row result \<times> db" where
  "create_task e ids resolve_role active_conversation n make_active d =
    (case resolve_role (nt_owner_role n) of Inl err \<Rightarrow> (Inl err, d) | Inr role \<Rightarrow>
       and_next (transact (create_task_in_transaction (now e) (ids 0)
           (n\<lparr>nt_owner_role := role, nt_conversation :=
                (if nt_conversation n = None then active_conversation else nt_conversation n),
              nt_constraints := [], nt_evidence_refs := [], nt_phase := ''created''\<rparr>)
           make_active) d)
       (\<lambda>tid d1. and_next (append_event (now e) (ids 1) tid ''status''
           (''Task created with owner '' @ role) (Some role)
           [(''state'', JStr ''pending''), (''kind'', JStr (task_kind_name (nt_kind n)))] ''normal'' d1)
       (\<lambda>_ d2. (load_task d2 tid, d2))))"

subsection \<open>Checkpoints\<close>

definition opt_json :: "('a \<Rightarrow> json) \<Rightarrow> 'a option \<Rightarrow> json" where
  "opt_json f x = (case x of None \<Rightarrow> JNull | Some y \<Rightarrow> f y)"

definition latest_redirect :: "db \<Rightarrow> ident \<Rightarrow> control_row option" where
  "latest_redirect d tid = select_first (\<lambda>c. - ct_seq c)
     (\<lambda>c. ct_task c = tid \<and> ct_kind c = Redirect \<and> ct_state c = C_Applied) (task_controls d)"

definition canonical_task_state_from_row :: "task_row \<Rightarrow> db \<Rightarrow> dict" where
  "canonical_task_state_from_row r d =
    [(''task_id'', JStr (tk_id r)), (''title'', JStr (tk_title r)), (''goal'', JStr (tk_goal r)),
     (''current_instruction'', JStr (case latest_redirect d (tk_id r) of
        None \<Rightarrow> tk_goal r | Some c \<Rightarrow> ct_message c)),
     (''owner_role'', JStr (tk_owner_role r)), (''state'', JStr (task_state_name (tk_state r))),
     (''kind'', JStr (task_kind_name (tk_kind r))), (''phase'', JStr (tk_phase r)),
     (''progress'', opt_json JReal (tk_progress r)), (''epoch'', JInt (tk_epoch r)),
     (''constraints'', JArr (map JStr (tk_constraints r))),
     (''decisions'', JArr (map JStr (tk_decisions r))),
     (''completed'', JArr (map JStr (tk_completed r))),
     (''open_steps'', JArr (map JStr (tk_open_steps r))),
     (''failures'', JArr (map JStr (tk_failures r))),
     (''evidence_refs'', JArr (map JStr (tk_evidence_refs r))),
     (''parent_task_id'', opt_json JStr (tk_parent r)),
     (''conversation_id'', opt_json JStr (tk_conversation r)),
     (''schedule'', JObj
       [(''kind'', opt_json JStr (tk_schedule_kind r)), (''expr'', opt_json JStr (tk_schedule_expr r)),
        (''next_run_at'', opt_json (\<lambda>z. JInt (instant z)) (tk_next_run_at r)),
        (''last_run_at'', opt_json JInt (tk_last_run_at r)),
        (''last_result_status'', opt_json JStr (tk_last_result_status r)),
        (''enabled'', JBool (tk_schedule_enabled r))])]"

text \<open>\<^verbatim>\<open>if key in state and state[key] != actual\<close>\<close>

definition key_mismatch :: "dict \<Rightarrow> string \<Rightarrow> json \<Rightarrow> bool" where
  "key_mismatch state key actual = (case map_of state key of
     None \<Rightarrow> False | Some v \<Rightarrow> v \<noteq> actual)"

definition create_checkpoint_in_transaction ::
    "env \<Rightarrow> (dict \<Rightarrow> string) \<Rightarrow> owner option \<Rightarrow> ident \<Rightarrow> ident \<Rightarrow> dict option \<Rightarrow> string \<Rightarrow>
     ident list option \<Rightarrow> bool \<Rightarrow> db \<Rightarrow> (checkpoint_row \<times> db) result" where
  "create_checkpoint_in_transaction e digest selected cid tid state reason refs advance d =
     and_then (require_task_write_in_transaction e selected False
       (if advance then [Ch_Epoch None] else []) tid d)
     (\<lambda>task. let payload = (case state of None \<Rightarrow> canonical_task_state_from_row task d | Some s \<Rightarrow> s) in
       raise_if (key_mismatch payload ''task_id'' (JStr tid))
         (Runtime_Error ''checkpoint task_id does not match locked task snapshot'')
      (raise_if (key_mismatch payload ''owner_role'' (JStr (tk_owner_role task)))
         (Runtime_Error ''checkpoint owner_role does not match locked task snapshot'')
      (raise_if (key_mismatch payload ''epoch'' (JInt (tk_epoch task)))
         (Runtime_Error ''checkpoint epoch does not match locked task snapshot'')
      (let r = \<lparr>cp_id = cid, cp_task = tid, cp_epoch = tk_epoch task,
             cp_seq = next_seq cp_seq (\<lambda>c. cp_task c = tid) (checkpoints d), cp_created_at = now e,
             cp_owner_role = tk_owner_role task, cp_reason = reason, cp_state = payload,
             cp_evidence_refs = (case refs of None \<Rightarrow> tk_evidence_refs task | Some x \<Rightarrow> x),
             cp_sha256 = digest payload\<rparr> in
       and_then (insert_checkpoint r d)
       (\<lambda>d1. and_then
         (if advance
          then update_task_row tid (\<lambda>t. t\<lparr>tk_epoch := tk_epoch t + 1, tk_updated_at := now e\<rparr>) d1
          else Ok d1)
       (\<lambda>d2. Ok (r, d2)))))))"

definition create_checkpoint ::
    "env \<Rightarrow> (dict \<Rightarrow> string) \<Rightarrow> owner option \<Rightarrow> ident \<Rightarrow> ident \<Rightarrow> ident \<Rightarrow> dict option \<Rightarrow> string \<Rightarrow>
     ident list option \<Rightarrow> bool \<Rightarrow> db \<Rightarrow> checkpoint_row result \<times> db" where
  "create_checkpoint e digest selected cid uuid tid state reason refs advance d =
     and_next (transact
       (create_checkpoint_in_transaction e digest selected cid tid state reason refs advance) d)
     (\<lambda>cp d1. and_next (append_event (now e) uuid tid ''checkpoint''
         (''Checkpoint '' @ dec (nat (cp_seq cp)) @ '' persisted'') (Some (cp_owner_role cp))
         [(''checkpoint_id'', JStr (cp_id cp)), (''epoch'', JInt (cp_epoch cp)),
          (''sha256'', JStr (cp_sha256 cp)), (''advance_epoch'', JBool advance)] ''verbose'' d1)
     (\<lambda>_ d2. (Ok cp, d2)))"

definition latest_checkpoint :: "db \<Rightarrow> ident \<Rightarrow> checkpoint_row option" where
  "latest_checkpoint d tid = select_first (\<lambda>c. - cp_seq c) (\<lambda>c. cp_task c = tid) (checkpoints d)"

definition list_checkpoints :: "ident \<Rightarrow> nat \<Rightarrow> db \<Rightarrow> checkpoint_row list" where
  "list_checkpoints tid limit d = take limit
     (sort_key (\<lambda>c. - cp_seq c) (filter (\<lambda>c. cp_task c = tid) (checkpoints d)))"

definition verify_checkpoint :: "(dict \<Rightarrow> string) \<Rightarrow> ident \<Rightarrow> db \<Rightarrow> bool result" where
  "verify_checkpoint digest cid d = (case find_checkpoint d cid of
     None \<Rightarrow> Err (Key_Error ''unknown checkpoint'')
   | Some c \<Rightarrow> Ok (digest (cp_state c) = cp_sha256 c))"

subsection \<open>Changing tasks\<close>

definition attach_conversation :: "env \<Rightarrow> owner option \<Rightarrow> ident \<Rightarrow> ident \<Rightarrow> db \<Rightarrow> task_row result \<times> db" where
  "attach_conversation e selected tid cid d =
    (if \<not> conversation_exists d cid then (Inl (Key_Error ''unknown conversation''), d) else
     and_next (transact (\<lambda>d.
         and_then (require_task_write_in_transaction e selected False [Ch_Conversation (Some cid)] tid d)
         (\<lambda>current. raise_if (tk_conversation current \<notin> {None, Some cid})
           (Runtime_Error ''task conversation provenance is already bound'')
         (and_then (update_task_row tid
            (\<lambda>t. t\<lparr>tk_conversation := Some cid, tk_updated_at := now e\<rparr>) d) (\<lambda>d'. Ok ((), d'))))) d)
     (\<lambda>_ d'. (load_task d' tid, d')))"

record task_update =
  up_state :: "task_state option"
  up_phase :: "string option"
  up_progress :: "rat option"
  up_owner_role :: "string option"
  up_title :: "string option"
  up_constraints :: "string list option"
  up_decisions :: "string list option"
  up_completed :: "string list option"
  up_open_steps :: "string list option"
  up_failures :: "string list option"
  up_evidence_refs :: "ident list option"
  up_schedule_kind :: "string option"
  up_schedule_expr :: "string option"
  up_next_run_at :: "zstamp option"
  up_last_run_at :: "time option"
  up_last_result_status :: "string option"
  up_schedule_enabled :: "bool option"

text \<open>The call with every keyword left out\<close>

definition no_update :: task_update where
  "no_update = \<lparr>up_state = None, up_phase = None, up_progress = None, up_owner_role = None,
     up_title = None, up_constraints = None, up_decisions = None, up_completed = None,
     up_open_steps = None, up_failures = None, up_evidence_refs = None, up_schedule_kind = None,
     up_schedule_expr = None, up_next_run_at = None, up_last_run_at = None,
     up_last_result_status = None, up_schedule_enabled = None\<rparr>"

definition given :: "('a \<Rightarrow> task_change) \<Rightarrow> 'a option \<Rightarrow> task_change list" where
  "given c x = (case x of None \<Rightarrow> [] | Some y \<Rightarrow> [c y])"

text \<open>The values \<^verbatim>\<open>update_task\<close> collects, in the order it collects them.\<close>

definition collect_values ::
    "(string \<Rightarrow> string result) \<Rightarrow> task_update \<Rightarrow> task_change list result" where
  "collect_values resolve_role u =
     raise_if (case up_progress u of None \<Rightarrow> False | Some p \<Rightarrow> \<not> (0 \<le> p \<and> p \<le> 1))
       (Value_Error ''progress must be between 0 and 1'')
    (and_then (case up_owner_role u of None \<Rightarrow> Ok None
        | Some r \<Rightarrow> and_then (resolve_role r) (\<lambda>x. Ok (Some x)))
     (\<lambda>role. Ok (given Ch_State (up_state u) @ given Ch_Phase (up_phase u) @
        given Ch_Progress (up_progress u) @ given Ch_Owner_Role role @ given Ch_Title (up_title u) @
        given Ch_Constraints (up_constraints u) @ given Ch_Decisions (up_decisions u) @
        given Ch_Completed (up_completed u) @ given Ch_Open_Steps (up_open_steps u) @
        given Ch_Failures (up_failures u) @ given Ch_Evidence (up_evidence_refs u) @
        given Ch_Schedule_Kind (up_schedule_kind u) @ given Ch_Schedule_Expr (up_schedule_expr u) @
        given Ch_Next_Run (up_next_run_at u) @ given Ch_Last_Run (up_last_run_at u) @
        given Ch_Last_Result (up_last_result_status u) @
        given Ch_Schedule_Enabled (up_schedule_enabled u))))"

definition write_task_values :: "env \<Rightarrow> owner option \<Rightarrow> task_change list \<Rightarrow> ident \<Rightarrow> db \<Rightarrow> (unit \<times> db) result" where
  "write_task_values e selected values tid d =
     and_then (require_task_write_in_transaction e selected False values tid d)
     (\<lambda>_. and_then (update_task_row tid (assign_columns values) d) (\<lambda>d'. Ok ((), d')))"

definition update_task ::
    "env \<Rightarrow> (nat \<Rightarrow> ident) \<Rightarrow> (string \<Rightarrow> string result) \<Rightarrow> (dict \<Rightarrow> string) \<Rightarrow> owner option \<Rightarrow>
     owner option \<Rightarrow> task_update \<Rightarrow> dict option \<Rightarrow> ident \<Rightarrow> db \<Rightarrow> task_row result \<times> db" where
  "update_task e ids resolve_role digest ambient execution_owner u checkpoint tid d =
     and_next (load_task d tid, d)
     (\<lambda>_ d. and_next (collect_values resolve_role u, d)
     (\<lambda>values d. and_next (if values = [] then (Ok (), d)
         else transact (write_task_values e
           (if execution_owner = None then ambient else execution_owner)
           (values @ [Ch_Updated (now e)]) tid) d)
     (\<lambda>_ d1. and_next (case checkpoint of None \<Rightarrow> (Ok (), d1)
         | Some state \<Rightarrow> and_next (create_checkpoint e digest ambient (ids 0) (ids 1) tid
             (Some state) ''task update'' None False d1) (\<lambda>_ d. (Ok (), d)))
     (\<lambda>_ d2. and_next (load_task d2 tid, d2)
     (\<lambda>task d2. and_next (append_event (now e) (ids 2) tid ''status''
         (''Task state updated: '' @ task_state_name (tk_state task)) (Some (tk_owner_role task))
         [(''state'', JStr (task_state_name (tk_state task))), (''phase'', JStr (tk_phase task)),
          (''progress'', opt_json JReal (tk_progress task)), (''epoch'', JInt (tk_epoch task))] ''normal'' d2)
     (\<lambda>_ d3. (Ok task, d3)))))))"

definition recover_task :: "env \<Rightarrow> ident \<Rightarrow> string \<Rightarrow> ident \<Rightarrow> db \<Rightarrow> task_row result \<times> db" where
  "recover_task e uuid phase tid d =
     and_next (transact (\<lambda>d. case find_task d tid of
         None \<Rightarrow> Err (Key_Error ''unknown task'')
       | Some row \<Rightarrow>
           raise_if (active_in_transaction e (Task_Execution, tid) d)
             (Runtime_Error ''task still has a live execution owner'')
          (raise_if (tk_state row \<noteq> T_Failed) (Runtime_Error ''task is not failed'')
          (raise_if (tk_phase row = ''cancellation-recovery-required'')
             (Runtime_Error ''ambiguous cancellation requires dedicated recovery'')
          (and_then (update_task_row tid (\<lambda>t. if tk_state t = T_Failed
              then t\<lparr>tk_state := T_Pending, tk_phase := phase, tk_updated_at := now e\<rparr> else t) d)
           (\<lambda>d'. Ok ((), d')))))) d)
     (\<lambda>_ d1. and_next (load_task d1 tid, d1)
     (\<lambda>task d1. and_next (append_event (now e) uuid tid ''status'' ''Task explicitly recovered''
         (Some (tk_owner_role task))
         [(''state'', JStr (task_state_name (tk_state task))), (''phase'', JStr (tk_phase task))]
         ''normal'' d1)
     (\<lambda>_ d2. (Ok task, d2))))"

definition set_active_task :: "ident option \<Rightarrow> db \<Rightarrow> unit result \<times> db" where
  "set_active_task tid d = (case tid of
     None \<Rightarrow> (Ok (), set_meta ''active_task_id'' [] d)
   | Some t \<Rightarrow> and_next (load_task d t, d) (\<lambda>_ d. (Ok (), set_meta ''active_task_id'' t d)))"

definition active_task :: "db \<Rightarrow> task_row option" where
  "active_task d = (case get_meta ''active_task_id'' d of
     None \<Rightarrow> None | Some t \<Rightarrow> if t = [] then None else find_task d t)"

definition clear_active_task :: "ident option \<Rightarrow> db \<Rightarrow> db" where
  "clear_active_task tid d =
    (if tid = None \<or> get_meta ''active_task_id'' d = tid then set_meta ''active_task_id'' [] d else d)"

subsection \<open>What the guarded writes do\<close>

definition execution_truth where
  "execution_truth r = (tk_state r, tk_phase r, tk_progress r, tk_owner_role r, tk_conversation r,
     tk_epoch r, tk_constraints r, tk_decisions r, tk_completed r, tk_open_steps r, tk_failures r,
     tk_evidence_refs r)"

lemma require_task_write_Ok [outcome]:
  "require_task_write_in_transaction e selected allow changes tid d = Ok row \<longleftrightarrow>
     find_task d tid = Some row \<and>
     (active_in_transaction e (Task_Execution, tid) d \<longrightarrow> allow \<or>
        (\<exists>ow. selected = Some ow \<and> held_by_in_transaction e (Task_Execution, tid) ow True d)) \<and>
     (terminal_task_state (tk_state row) \<longrightarrow>
        (\<forall>c \<in> set changes. execution_owned c \<longrightarrow> \<not> column_differs row c))"
  by (cases selected; cases "find_task d tid")
    (auto simp: require_task_write_in_transaction_def list_ex_iff)

lemma column_differs_truth:
  "execution_owned c \<Longrightarrow> execution_truth r = execution_truth s \<Longrightarrow> column_differs r c = column_differs s c"
  by (cases c) (auto simp: execution_truth_def)

lemma assign_column_same:
  "(execution_owned c \<Longrightarrow> \<not> column_differs r c) \<Longrightarrow> execution_truth (assign_column c r) = execution_truth r"
  by (cases c) (auto simp: execution_truth_def split: option.splits)

lemma assign_columns_same:
  "\<forall>c \<in> set cs. execution_owned c \<longrightarrow> \<not> column_differs r c \<Longrightarrow>
     execution_truth (assign_columns cs r) = execution_truth r"
proof (induction cs arbitrary: r)
  case Nil
  then show ?case by (simp add: assign_columns_def)
next
  case (Cons c cs)
  then have same: "execution_truth (assign_column c r) = execution_truth r"
    by (intro assign_column_same) simp
  with Cons show ?case
    by (simp add: assign_columns_def column_differs_truth [OF _ same])
qed

lemma assign_column_id [simp]: "tk_id (assign_column c r) = tk_id r"
  by (cases c) (auto split: option.splits)

lemma assign_columns_id [simp]: "tk_id (assign_columns cs r) = tk_id r"
  by (induction cs arbitrary: r) (simp_all add: assign_columns_def)

lemma find_task_update_where:
  "(\<And>r. tk_id (f r) = tk_id r) \<Longrightarrow>
     select_one tk_id x (update_where (\<lambda>t. tk_id t = tid) f ts) =
     (if x = tid then map_option f (select_one tk_id x ts) else select_one tk_id x ts)"
  by (cases "select_one tk_id x ts")
    (auto simp: select_one_update_where dest: select_one_SomeD)

lemma update_task_row_tasks:
  "update_task_row tid f d = Ok d' \<Longrightarrow> find_task d tid \<noteq> None \<Longrightarrow>
     tasks d' = update_where (\<lambda>t. tk_id t = tid) f (tasks d)"
  by (auto simp: update_task_row_def tasks_conversation_propagate_def and_then_eq_Ok update_rows_eq_Ok
      split: option.splits)

lemma update_task_row_find:
  assumes "\<And>r. tk_id (f r) = tk_id r" and "update_task_row tid f d = Ok d'"
  shows "find_task d' x = (if x = tid then map_option f (find_task d x) else find_task d x)"
proof (cases "find_task d tid")
  case None
  with assms(2) show ?thesis by (auto simp: update_task_row_def)
next
  case (Some old)
  then have "tasks d' = update_where (\<lambda>t. tk_id t = tid) f (tasks d)"
    using update_task_row_tasks [OF assms(2)] by simp
  then show ?thesis by (simp add: find_task_def find_task_update_where [of f, OF assms(1)])
qed

lemma insert_task_find:
  "insert_task r d = Ok d' \<Longrightarrow> find_task d' x = (if x = tk_id r then Some r else find_task d x)"
  by (auto simp: insert_task_def find_task_def select_one_append_new)

lemma set_meta_find [simp]: "find_task (set_meta k v d) x = find_task d x"
  by (simp add: set_meta_def find_task_def)

lemma append_event_tasks [frame, simp]:
  "tasks (snd (append_event t uuid tid etype message role payload visibility d)) = tasks d"
  by (auto simp: append_event_def transact_def raise_if_def and_then_def insert_task_event_row_def
      admit_def Let_def split: sum.splits option.splits)

lemma append_event_find [simp]:
  "find_task (snd (append_event t uuid tid etype message role payload visibility d)) x = find_task d x"
  by (simp add: find_task_def)

lemma insert_checkpoint_find: "insert_checkpoint r d = Ok d' \<Longrightarrow> find_task d' x = find_task d x"
  by (auto simp: insert_checkpoint_def find_task_def)

lemma create_checkpoint_in_transaction_find:
  assumes "create_checkpoint_in_transaction e digest selected cid tid state reason refs advance d = Ok (r, d')"
  shows "find_task d' x = (if x = tid \<and> advance
    then map_option (\<lambda>t. t\<lparr>tk_epoch := tk_epoch t + 1, tk_updated_at := now e\<rparr>) (find_task d x)
    else find_task d x)"
  using assms
  by (cases advance)
    (auto simp: create_checkpoint_in_transaction_def Let_def and_then_eq_Ok insert_checkpoint_find
      update_task_row_find [where f = "\<lambda>t. t\<lparr>tk_epoch := tk_epoch t + 1, tk_updated_at := now e\<rparr>"]
      simp del: fold_simps)

text \<open>A guarded write leaves the execution truth of a terminal task as it is.\<close>

lemma write_task_values_terminal:
  assumes "write_task_values e selected values tid d = Ok ((), d')"
    and "find_task d x = Some r" and "terminal_task_state (tk_state r)"
  shows "\<exists>r'. find_task d' x = Some r' \<and> execution_truth r' = execution_truth r"
  using assms
  by (auto simp: write_task_values_def and_then_eq_Ok require_task_write_Ok
      update_task_row_find [where f = "assign_columns values"] assign_columns_same)

subsection \<open>The life of a task\<close>

datatype task_op =
    TO_Create env "nat \<Rightarrow> ident" "ident option" new_task bool
  | TO_Update env "nat \<Rightarrow> ident" "owner option" "owner option" task_update "dict option" ident
  | TO_Checkpoint env "owner option" ident ident ident "dict option" string "ident list option" bool
  | TO_Attach env "owner option" ident ident
  | TO_Recover env ident string ident
  | TO_Event time ident ident string string "string option" dict string

fun task_step :: "(string \<Rightarrow> string result) \<Rightarrow> (dict \<Rightarrow> string) \<Rightarrow> task_op \<Rightarrow> db \<Rightarrow> db" where
  "task_step rr dg (TO_Create e ids conv n active) d = snd (create_task e ids rr conv n active d)"
| "task_step rr dg (TO_Update e ids ambient ow u cp tid) d = snd (update_task e ids rr dg ambient ow u cp tid d)"
| "task_step rr dg (TO_Checkpoint e ow cid uuid tid state reason refs advance) d =
     snd (create_checkpoint e dg ow cid uuid tid state reason refs advance d)"
| "task_step rr dg (TO_Attach e ow tid cid) d = snd (attach_conversation e ow tid cid d)"
| "task_step rr dg (TO_Recover e uuid phase tid) d = snd (recover_task e uuid phase tid d)"
| "task_step rr dg (TO_Event t uuid tid etype message role payload visibility) d =
     snd (append_event t uuid tid etype message role payload visibility d)"

definition task_status :: "db \<Rightarrow> ident \<Rightarrow> task_state option" where
  "task_status d tid = map_option tk_state (find_task d tid)"

definition settled :: "task_state \<Rightarrow> bool" where
  "settled s = (s = T_Completed \<or> s = T_Cancelled)"

lemma settled_terminal: "settled s \<Longrightarrow> terminal_task_state s"
  by (auto simp: settled_def terminal_task_state_def)

lemma task_status_event [simp]:
  "task_status (snd (append_event t uuid tid etype message role payload visibility d)) x = task_status d x"
  by (simp add: task_status_def)

lemmas status_next = and_next_keeps [of "\<lambda>s. task_status s x = Some st" for x st]

lemmas status_transact = transact_keeps [of "\<lambda>s. task_status s x = Some st" for x st]

lemma create_task_in_transaction_find:
  "create_task_in_transaction stamp tid n active d = Ok (t, d') \<Longrightarrow> find_task d x = Some r \<Longrightarrow>
     find_task d' x = Some r"
  using select_one_SomeD [of tk_id x "tasks d" r]
  by (auto simp: create_task_in_transaction_def and_then_eq_Ok insert_task_def find_task_def
      select_one_append_new set_meta_def)

lemma create_task_status:
  assumes "task_status d x = Some st"
  shows "task_status (snd (create_task e ids rr conv n active d)) x = Some st"
proof (cases "rr (nt_owner_role n)")
  case (Inl err)
  with assms show ?thesis by (simp add: create_task_def)
next
  case (Inr role)
  have "task_status d' x = Some st" if "create_task_in_transaction stamp tid m active d = Ok (t, d')" for stamp tid m t d'
    using create_task_in_transaction_find [OF that, of x] assms by (auto simp: task_status_def)
  with assms show ?thesis
    unfolding create_task_def Inr sum.case
    by (intro status_next status_transact) simp_all
qed

lemma create_checkpoint_status:
  assumes "task_status d x = Some st"
  shows "task_status (snd (create_checkpoint e dg ow cid uuid tid state reason refs advance d)) x = Some st"
  unfolding create_checkpoint_def
  by (intro status_next status_transact)
    (use assms in \<open>auto simp: create_checkpoint_in_transaction_find task_status_def\<close>)

lemma write_task_values_status:
  assumes "write_task_values e selected values tid d = Ok (u, d')"
    and "task_status d x = Some st" and "terminal_task_state st"
  shows "task_status d' x = Some st"
proof -
  from assms(2) obtain r where r: "find_task d x = Some r" "tk_state r = st"
    by (auto simp: task_status_def)
  from assms(1) have "write_task_values e selected values tid d = Ok ((), d')" by simp
  from write_task_values_terminal [OF this r(1)] r(2) assms(3) show ?thesis
    by (auto simp: task_status_def execution_truth_def)
qed

lemma update_task_status:
  assumes "task_status d x = Some st" and "terminal_task_state st"
  shows "task_status (snd (update_task e ids rr dg ambient ow u cp tid d)) x = Some st"
  unfolding update_task_def
proof (intro status_next)
  fix vs :: "task_change list" and d1 assume "task_status d1 x = Some st"
  then show "task_status (snd (if vs = [] then (Ok (), d1) else
      transact (write_task_values e (if ow = None then ambient else ow) (vs @ [Ch_Updated (now e)]) tid) d1)) x = Some st"
    using write_task_values_status assms(2)
    by (auto intro!: status_transact)
next
  fix d1 :: db and unit :: unit assume "task_status d1 x = Some st"
  then show "task_status (snd (case cp of None \<Rightarrow> (Ok (), d1)
      | Some state \<Rightarrow> and_next (create_checkpoint e dg ambient (ids 0) (ids 1) tid (Some state) ''task update'' None False d1)
          (\<lambda>_ d. (Ok (), d)))) x = Some st"
    using create_checkpoint_status
    by (auto intro!: status_next split: option.split)
qed (use assms in simp_all)

lemma recover_task_status:
  assumes "task_status d x = Some st" and "st \<noteq> T_Failed"
  shows "task_status (snd (recover_task e uuid phase tid d)) x = Some st"
  unfolding recover_task_def
proof (intro status_next status_transact)
  show "task_status d x = Some st" by fact
next
  let ?f = "\<lambda>t :: task_row. if tk_state t = T_Failed
    then t\<lparr>tk_state := T_Pending, tk_phase := phase, tk_updated_at := now e\<rparr> else t"
  have f: "tk_id (?f r) = tk_id r" for r by simp
  fix y d' assume "(case find_task d tid of None \<Rightarrow> Err (Key_Error ''unknown task'')
    | Some row \<Rightarrow> raise_if (active_in_transaction e (Task_Execution, tid) d)
        (Runtime_Error ''task still has a live execution owner'')
       (raise_if (tk_state row \<noteq> T_Failed) (Runtime_Error ''task is not failed'')
       (raise_if (tk_phase row = ''cancellation-recovery-required'')
          (Runtime_Error ''ambiguous cancellation requires dedicated recovery'')
       (and_then (update_task_row tid ?f d) (\<lambda>d'. Ok ((), d')))))) = Ok (y, d')"
  then have "update_task_row tid ?f d = Ok d'"
    by (auto simp: and_then_eq_Ok split: option.splits)
  with update_task_row_find [of ?f tid d d' x, OF f] assms show "task_status d' x = Some st"
    by (auto simp: task_status_def)
qed simp_all

lemma attach_conversation_status:
  assumes "task_status d x = Some st"
  shows "task_status (snd (attach_conversation e ow tid cid d)) x = Some st"
proof -
  let ?f = "\<lambda>t :: task_row. t\<lparr>tk_conversation := Some cid, tk_updated_at := now e\<rparr>"
  have "update_task_row tid ?f d = Ok d' \<Longrightarrow> task_status d' x = Some st" for d'
    using update_task_row_find [of ?f tid d d' x] assms by (auto simp: task_status_def)
  then show ?thesis
    using assms unfolding attach_conversation_def
    by (auto intro!: status_next status_transact simp: and_then_eq_Ok)
qed

lemma task_step_settled:
  assumes "task_status d x = Some st" and "settled st"
  shows "task_status (task_step rr dg op d) x = Some st"
  using assms settled_terminal [OF assms(2)]
  by (cases op) (auto simp: create_task_status update_task_status create_checkpoint_status
      attach_conversation_status recover_task_status settled_def)

interpretation task_life: lifecycle "task_step resolve_role digest" "\<lambda>_. True" task_status settled
  for resolve_role digest
  by unfold_locales (simp_all add: task_step_settled)

subsection \<open>Refused writes\<close>

text \<open>While another process executes the task, or when a terminal task would change, an update
  raises and nothing is written.\<close>

lemma update_task_refused:
  assumes found: "find_task d tid = Some row" and vals: "collect_values rr u = Ok values" "values \<noteq> []"
    and refuse: "require_task_write_in_transaction e (if ow = None then ambient else ow) False
      (values @ [Ch_Updated (now e)]) tid d = Err err"
  shows "update_task e ids rr dg ambient ow u cp tid d = (Err err, d)"
  using assms by (simp add: update_task_def load_task_def write_task_values_def)

lemma require_refuses_foreign_writer:
  assumes "find_task d tid = Some row" and "active_in_transaction e (Task_Execution, tid) d"
    and "\<forall>ow. selected = Some ow \<longrightarrow> \<not> held_by_in_transaction e (Task_Execution, tid) ow True d"
  shows "require_task_write_in_transaction e selected False changes tid d =
    Err (Runtime_Error ''execution-owned state has a live executor'')"
  using assms by (cases selected) (simp_all add: require_task_write_in_transaction_def)

subsection \<open>Checkpoints\<close>

lemma select_first_unique:
  assumes "r \<in> set t" "P r" "\<And>x. x \<in> set t \<Longrightarrow> P x \<Longrightarrow> x \<noteq> r \<Longrightarrow> key r < key x"
  shows "select_first key P t = Some r"
proof (cases "select_first key P t")
  case None
  with assms(1,2) show ?thesis by (simp add: select_first_None_iff)
next
  case (Some x)
  from select_first_SomeD [OF Some] assms have "x = r"
    by (metis leD)
  with Some show ?thesis by simp
qed

lemma checkpoint_inserted:
  assumes "create_checkpoint_in_transaction e digest selected cid tid state reason refs advance d = Ok (r, d')"
  obtains task where "find_task d tid = Some task" and "checkpoints d' = checkpoints d @ [r]"
    and "cp_id r = cid" "cp_task r = tid" "cp_epoch r = tk_epoch task"
    and "cp_seq r = next_seq cp_seq (\<lambda>c. cp_task c = tid) (checkpoints d)"
    and "cp_sha256 r = digest (cp_state r)" and "cid \<notin> cp_id ` set (checkpoints d)"
proof -
  have upd: "update_task_row tid f d1 = Ok d2 \<Longrightarrow> checkpoints d2 = checkpoints d1" for f d1 d2
    by (auto simp: update_task_row_def tasks_conversation_propagate_def and_then_eq_Ok
        split: option.splits)
  from assms that show ?thesis
    by (cases advance)
      (auto simp: create_checkpoint_in_transaction_def Let_def and_then_eq_Ok require_task_write_Ok
        insert_checkpoint_def dest: upd)
qed

lemma checkpoint_is_latest:
  assumes "create_checkpoint_in_transaction e digest selected cid tid state reason refs advance d = Ok (r, d')"
  shows "latest_checkpoint d' tid = Some r"
    and "verify_checkpoint digest cid d' = Ok True"
    and "find_checkpoint d x = Some c \<Longrightarrow> find_checkpoint d' x = Some c"
proof -
  from checkpoint_inserted [OF assms] obtain task where
    ins: "checkpoints d' = checkpoints d @ [r]" "cp_id r = cid" "cp_task r = tid"
      "cp_seq r = next_seq cp_seq (\<lambda>c. cp_task c = tid) (checkpoints d)"
      "cp_sha256 r = digest (cp_state r)" "cid \<notin> cp_id ` set (checkpoints d)" by metis
  show "latest_checkpoint d' tid = Some r"
    unfolding latest_checkpoint_def
  proof (rule select_first_unique)
    fix x assume "x \<in> set (checkpoints d')" "cp_task x = tid" "x \<noteq> r"
    with ins(1) have "x \<in> set (checkpoints d)" by simp
    from next_seq_greater [OF this, of "\<lambda>c. cp_task c = tid" cp_seq] \<open>cp_task x = tid\<close> ins(4)
    show "- cp_seq r < - cp_seq x" by simp
  qed (use ins in simp_all)
  have find: "find_checkpoint d' y = (if y = cid then Some r else find_checkpoint d y)" for y
    using ins by (simp add: find_checkpoint_def select_one_append_new)
  then show "verify_checkpoint digest cid d' = Ok True"
    using ins by (simp add: verify_checkpoint_def)
  show "find_checkpoint d x = Some c \<Longrightarrow> find_checkpoint d' x = Some c"
    using find ins(6) by (auto simp: find_checkpoint_def dest: select_one_SomeD)
qed

text \<open>Recovery reopens exactly a failed task that nobody executes and that no ambiguous
  cancellation fences.\<close>

lemma recover_task_Ok:
  assumes "recover_task e uuid phase tid d = (Ok t, d')"
  shows "\<exists>row. find_task d tid = Some row \<and> tk_state row = T_Failed \<and>
      tk_phase row \<noteq> ''cancellation-recovery-required'' \<and>
      \<not> active_in_transaction e (Task_Execution, tid) d \<and>
      find_task d' tid = Some (row\<lparr>tk_state := T_Pending, tk_phase := phase, tk_updated_at := now e\<rparr>)"
proof -
  let ?f = "\<lambda>t :: task_row. if tk_state t = T_Failed
    then t\<lparr>tk_state := T_Pending, tk_phase := phase, tk_updated_at := now e\<rparr> else t"
  obtain row where row: "find_task d tid = Some row" "\<not> active_in_transaction e (Task_Execution, tid) d"
    "tk_state row = T_Failed" "tk_phase row \<noteq> ''cancellation-recovery-required''"
    using assms by (cases "find_task d tid")
      (auto simp: recover_task_def raise_if_def transact_def and_next_def split: if_splits)
  from row assms obtain d1 where d1: "update_task_row tid ?f d = Ok d1"
    by (cases "update_task_row tid ?f d") (simp_all add: recover_task_def and_next_def)
  then have found: "find_task d1 tid = Some (?f row)"
    using update_task_row_find [of ?f tid d d1 tid] row(1) by simp
  have "find_task d' tid = find_task d1 tid"
  proof -
    from row d1 assms have "d' = snd (and_next (load_task d1 tid, d1)
       (\<lambda>task d1. and_next (append_event (now e) uuid tid ''status'' ''Task explicitly recovered''
         (Some (tk_owner_role task))
         [(''state'', JStr (task_state_name (tk_state task))), (''phase'', JStr (tk_phase task))]
         ''normal'' d1) (\<lambda>_ d2. (Ok task, d2))))"
      by (simp add: recover_task_def)
    also have "find_task \<dots> tid = find_task d1 tid"
      by (intro and_next_keeps [of "\<lambda>s. find_task s tid = find_task d1 tid"]) simp_all
    finally show ?thesis .
  qed
  with row found show ?thesis by simp
qed

end
