(* ===== verification/Registry.thy ===== *)
theory Registry
  imports Prelude "HOL-Library.List_Lexorder" "HOL-Library.Char_ord"
begin

section \<open>The model registry\<close>

text \<open>
  \<^verbatim>\<open>src/tars/registry.py\<close>, \<^verbatim>\<open>models.py\<close> and \<^verbatim>\<open>backend_binding_ready\<close> of \<^verbatim>\<open>runtime_backends.py\<close>.
  The registry is a TOML file with a generation number: a save is refused when the generation
  it was read at is not the one in the file.  The file holds the values \<^verbatim>\<open>serialize_registry\<close>
  writes (the TOML text itself is not modelled); \<open>None\<close> is the absent file.  The locale
  \<open>versioned_file\<close> states what a client of such a file may rely on; \<open>roles.py\<close> keeps its file
  in the same way.
\<close>

subsection \<open>Names\<close>

definition is_lower :: "char \<Rightarrow> bool" where
  "is_lower c = (97 \<le> (of_char c :: nat) \<and> (of_char c :: nat) \<le> 122)"

definition is_upper :: "char \<Rightarrow> bool" where
  "is_upper c = (65 \<le> (of_char c :: nat) \<and> (of_char c :: nat) \<le> 90)"

definition alias_char :: "char \<Rightarrow> bool" where
  "alias_char c = (is_lower c \<or> is_upper c \<or> is_digit c \<or> c = CHR ''.'' \<or> c = CHR ''_'' \<or> c = CHR ''-'')"

text \<open>\<^verbatim>\<open>[A-Za-z0-9][A-Za-z0-9._-]{0,127}\<close>, matched in full\<close>

fun model_alias_ok :: "string \<Rightarrow> bool" where
  "model_alias_ok [] = False"
| "model_alias_ok (c # cs) = ((is_lower c \<or> is_upper c \<or> is_digit c) \<and> list_all alias_char cs \<and> length cs \<le> 127)"

definition validate_model_alias :: "string \<Rightarrow> unit result" where
  "validate_model_alias value = raise_if (\<not> model_alias_ok value) (Value_Error ''invalid model alias'') (Ok ())"

subsection \<open>Models\<close>

text \<open>One entry of the file, as it is read: the optional keys may be missing.\<close>

record model_info =
  mi_name :: string
  mi_path :: string
  mi_sha256 :: string
  mi_backend :: "string option"
  mi_quant :: "string option"
  mi_native_context :: "int option"
  mi_source :: "string option"
  mi_source_revision :: "string option"
  mi_license :: "string option"
  mi_artifact_sha256 :: "string option"
  mi_thinking_control :: "string option"
  mi_size :: "int option"
  mi_integrity_verified :: "bool option"
  mi_runtime_compatible :: "bool option"

record model_record =
  md_alias :: string
  md_name :: string
  md_path :: string
  md_sha256 :: string
  md_backend :: string
  md_quant :: string
  md_native_context :: int
  md_source :: string
  md_source_revision :: string
  md_license :: string
  md_size :: int
  md_integrity_verified :: bool
  md_runtime_compatible :: bool
  md_thinking_control :: string

definition or_else :: "'a option \<Rightarrow> 'a \<Rightarrow> 'a" where
  "or_else x y = (case x of None \<Rightarrow> y | Some z \<Rightarrow> z)"

lemma or_else_simps [simp]: "or_else None y = y" "or_else (Some z) y = z"
  by (simp_all add: or_else_def)

text \<open>\<^verbatim>\<open>ModelRecord.from_dict\<close>; expanding \<^verbatim>\<open>~\<close> in the path is a parameter.\<close>

definition model_from_info :: "(string \<Rightarrow> string) \<Rightarrow> string \<Rightarrow> model_info \<Rightarrow> model_record" where
  "model_from_info expand alias m = \<lparr>md_alias = alias, md_name = mi_name m, md_path = expand (mi_path m),
     md_sha256 = mi_sha256 m, md_backend = or_else (mi_backend m) ''llama.cpp'',
     md_quant = or_else (mi_quant m) ''unknown'', md_native_context = or_else (mi_native_context m) 0,
     md_source = or_else (mi_source m) ''seed'', md_source_revision = or_else (mi_source_revision m) [],
     md_license = or_else (mi_license m) ''unknown'', md_size = or_else (mi_size m) 0,
     md_integrity_verified = or_else (mi_integrity_verified m) False,
     md_runtime_compatible = or_else (mi_runtime_compatible m) False,
     md_thinking_control = or_else (mi_thinking_control m) ''unknown''\<rparr>"

text \<open>What \<^verbatim>\<open>serialize_registry\<close> writes for an entry\<close>

definition written_model :: "model_info \<Rightarrow> model_info" where
  "written_model m = m\<lparr>mi_backend := Some (or_else (mi_backend m) ''llama.cpp''),
     mi_quant := Some (or_else (mi_quant m) ''unknown''),
     mi_native_context := Some (or_else (mi_native_context m) 0)\<rparr>"

record model_registry =
  mr_generation :: int
  mr_models :: "(string \<times> model_info) list"

type_synonym model_file = "model_registry option"

subsection \<open>The file\<close>

fun validate_aliases :: "string list \<Rightarrow> unit result" where
  "validate_aliases [] = Ok ()"
| "validate_aliases (a # as) = and_then (validate_model_alias a) (\<lambda>_. validate_aliases as)"

definition validate_models :: "model_registry \<Rightarrow> unit result" where
  "validate_models r = raise_if (mr_generation r < 0)
     (Value_Error ''model registry generation must be a non-negative integer'')
     (validate_aliases (map fst (mr_models r)))"

definition load_models :: "model_registry \<Rightarrow> model_registry result" where
  "load_models r = and_then (validate_models r) (\<lambda>_. Ok (r\<lparr>mr_models :=
     map (\<lambda>(a, m). (a, m\<lparr>mi_backend := Some (or_else (mi_backend m) ''llama.cpp'')\<rparr>)) (mr_models r)\<rparr>))"

definition write_models :: "model_registry \<Rightarrow> model_registry" where
  "write_models r = r\<lparr>mr_models := sort_key fst (map (\<lambda>(a, m). (a, written_model m)) (mr_models r))\<rparr>"

definition save_models :: "model_registry \<Rightarrow> model_file \<Rightarrow> (model_registry \<times> model_file) result" where
  "save_models data file =
     and_then (validate_models data) (\<lambda>_.
     and_then (case file of None \<Rightarrow> Ok (mr_generation data)
       | Some stored \<Rightarrow> and_then (load_models stored) (\<lambda>current.
           raise_if (mr_generation data \<noteq> mr_generation current)
             (Runtime_Error ''stale model registry update refused'') (Ok (mr_generation current + 1))))
     (\<lambda>generation. let data' = data\<lparr>mr_generation := generation\<rparr> in
       Ok (data', Some (write_models data'))))"

definition default_models :: "(string \<Rightarrow> string) \<Rightarrow> model_registry" where
  "default_models model_path = (let entry = (\<lambda>name path digest. \<lparr>mi_name = name, mi_path = model_path path,
       mi_sha256 = digest, mi_backend = Some ''llama.cpp'', mi_quant = Some ''Q4_K_M'',
       mi_native_context = Some 262144, mi_source = None, mi_source_revision = None, mi_license = None,
       mi_artifact_sha256 = None, mi_thinking_control = Some ''toggle'', mi_size = None,
       mi_integrity_verified = None, mi_runtime_compatible = None\<rparr>) in
     \<lparr>mr_generation = 0, mr_models =
       [(''qwen3.5-9b'', entry ''Qwen3.5-9B'' ''daily/qwen3.5-9b/Qwen3.5-9B-Q4_K_M.gguf''
          ''03b74727a860a56338e042c4420bb3f04b2fec5734175f4cb9fa853daf52b7e8''),
        (''kat-coder-v2.5-dev'', entry ''KAT-Coder V2.5-Dev 35B-A3B''
          ''coder/kat-coder-v2.5-dev/KAT-Coder-V2.5-Dev.i1-Q4_K_M.gguf''
          ''36b86b60f2eb38e69c1ceaeaa713eb14a5462717b5e67b070cb9b7c8b087c730''),
        (''agents-a1'', entry ''Agents-A1 35B-A3B'' ''operator/agents-a1/Agents-A1-Q4_K_M.gguf''
          ''31aefa25b7e1edbde436e643e2b5e3f6e57820a4811d97b131130e48ff0772c2'')]\<rparr>)"

text \<open>\<^verbatim>\<open>ensure_registry\<close>: the registry, written first when there is none\<close>

definition ensure_models :: "(string \<Rightarrow> string) \<Rightarrow> model_file \<Rightarrow> model_registry result \<times> model_file" where
  "ensure_models model_path file = transact (\<lambda>file.
     and_then (case file of Some r \<Rightarrow> Ok file
       | None \<Rightarrow> and_then (save_models (default_models model_path) None) (\<lambda>(_, f). Ok f)) (\<lambda>f.
     and_then (case f of None \<Rightarrow> Err (OS_Error ''missing'') | Some r \<Rightarrow> load_models r) (\<lambda>r. Ok (r, f)))) file"

definition models :: "(string \<Rightarrow> string) \<Rightarrow> model_registry \<Rightarrow> (string \<times> model_record) list" where
  "models expand r = map (\<lambda>(a, m). (a, model_from_info expand a m)) (mr_models r)"

definition get_model ::
    "(string \<Rightarrow> string) \<Rightarrow> (string \<Rightarrow> string) \<Rightarrow> string \<Rightarrow> model_file \<Rightarrow> model_record result \<times> model_file" where
  "get_model model_path expand alias file =
     and_next (validate_model_alias alias, file) (\<lambda>_ f.
     and_next (ensure_models model_path f) (\<lambda>r f.
       (case map_of (models expand r) alias of
          None \<Rightarrow> Err (Key_Error ''unknown model alias'') | Some m \<Rightarrow> Ok m, f)))"

definition set_thinking_control ::
    "(string \<Rightarrow> string) \<Rightarrow> (string \<Rightarrow> string) \<Rightarrow> string \<Rightarrow> string \<Rightarrow> model_file \<Rightarrow> model_record result \<times> model_file" where
  "set_thinking_control model_path expand alias control file =
     and_next (validate_model_alias alias, file) (\<lambda>_ f.
     if control \<notin> {''unknown'', ''toggle''}
     then (Err (Value_Error ''thinking control must be unknown or toggle''), f) else
     and_next (ensure_models model_path f) (\<lambda>r f.
       (case map_of (mr_models r) alias of
          None \<Rightarrow> (Err (Key_Error ''unknown model alias''), f)
        | Some m \<Rightarrow>
            let m' = m\<lparr>mi_thinking_control := Some control\<rparr> in
            and_next (transact (save_models (r\<lparr>mr_models := AList.update alias m' (mr_models r)\<rparr>)) f)
              (\<lambda>_ f. (Ok (model_from_info expand alias m'), f)))))"

subsection \<open>Whether a model can be used\<close>

text \<open>The files and the calibration record are parameters: whether the artifact has the digest of
  the record, the calibration of an alias (status, model digest) when there is one, whether the
  runtime programs are those it was made with, and whether a path is a file.\<close>

record backend_env =
  be_artifact_matches :: "model_record \<Rightarrow> bool"
  be_calibration :: "string \<Rightarrow> (string \<times> string) option"
  be_runtime_matches :: "string \<Rightarrow> bool"
  be_is_file :: "string \<Rightarrow> bool"

definition backend_binding_ready :: "backend_env \<Rightarrow> model_record \<Rightarrow> bool" where
  "backend_binding_ready be m =
    (if md_backend m = ''llama.cpp'' then
       be_artifact_matches be m \<and>
       (case be_calibration be (md_alias m) of
          None \<Rightarrow> False
        | Some (status, digest) \<Rightarrow> status = ''ready'' \<and> digest = md_sha256 m \<and> be_runtime_matches be (md_alias m))
     else if md_backend m = ''colibri'' then
       md_integrity_verified m \<and> md_runtime_compatible m \<and> be_is_file be (md_path m)
     else md_integrity_verified m \<and> md_runtime_compatible m \<and> md_path m \<noteq> [] \<and> be_is_file be (md_path m))"

subsection \<open>Files with a generation\<close>

text \<open>What the registries promise a client that reads, edits and saves: a save that succeeds moves
  the generation on by one, and one that was made from an older generation is refused.\<close>

locale versioned_file =
  fixes save :: "'r \<Rightarrow> 'r option \<Rightarrow> ('r \<times> 'r option) result"
    and generation :: "'r \<Rightarrow> int"
  assumes save_Ok: "save x (Some current) = Ok (x', file) \<Longrightarrow>
      generation x = generation current \<and>
      (\<exists>w. file = Some w \<and> generation w = generation current + 1 \<and> generation x' = generation w)"
begin

lemma stale_save_refused:
  assumes "save x (Some current) = Ok (x', Some w)" and "generation y = generation current"
  shows "save y (Some w) \<noteq> Ok r"
proof
  assume "save y (Some w) = Ok r"
  then have "generation y = generation w"
    using save_Ok [of y w "fst r" "snd r"] by simp
  with assms save_Ok [OF assms(1)] show False by simp
qed

text \<open>Saves one after the other, those that fail leaving the file as it is: the generation counts
  the ones that succeeded.\<close>

fun saves :: "'r list \<Rightarrow> 'r \<Rightarrow> nat \<times> 'r" where
  "saves [] current = (0, current)"
| "saves (x # xs) current = (case save x (Some current) of
     Inr (_, Some w) \<Rightarrow> (let (n, f) = saves xs w in (Suc n, f))
   | _ \<Rightarrow> saves xs current)"

lemma saves_count: "saves xs current = (n, f) \<Longrightarrow> generation f = generation current + int n"
proof (induction xs arbitrary: current n f)
  case Nil
  then show ?case by simp
next
  case (Cons x xs)
  show ?case
  proof (cases "save x (Some current)")
    case (Inl e)
    with Cons show ?thesis by simp
  next
    case (Inr r)
    then obtain x' w where "save x (Some current) = Ok (x', Some w)" "generation w = generation current + 1"
      using save_Ok [of x current "fst r" "snd r"] by (cases r) auto
    with Cons show ?thesis by (auto split: prod.splits)
  qed
qed

end

lemma load_models_generation: "load_models r = Ok r' \<Longrightarrow> mr_generation r' = mr_generation r"
  by (auto simp: load_models_def and_then_eq_Ok)

interpretation model_file: versioned_file save_models mr_generation
  by unfold_locales
    (auto simp: save_models_def Let_def and_then_eq_Ok write_models_def dest: load_models_generation)

end
