(* ===== verification/Roles.thy ===== *)
theory Roles
  imports Registry
begin

section \<open>Roles\<close>

text \<open>
  \<^verbatim>\<open>src/tars/roles.py\<close>, with the thinking policy of \<^verbatim>\<open>thinking.py\<close> and the generation budget
  of \<^verbatim>\<open>generation.py\<close>, which read a role.  The role registry is a file with a generation like
  the model registry; \<open>known\<close> is the list of aliases in the model registry, which \<^verbatim>\<open>_validate_registry\<close>
  reads.  Every entry has all its keys, as \<^verbatim>\<open>serialize_role_registry\<close> writes them.  The theorems
  show that every operation keeps the registry valid: the default role exists and is enabled, and
  no name, up to case, belongs to two roles, so that resolving a name gives the role it was given
  to.
\<close>

record role_info =
  rl_display_name :: string
  rl_description :: string
  rl_enabled :: bool
  rl_runtime_id :: string
  rl_model :: string
  rl_profile :: string
  rl_execution :: string
  rl_capabilities :: "string list"
  rl_aliases :: "string list"

record role_registry =
  rr_generation :: int
  rr_default :: string
  rr_roles :: "(string \<times> role_info) list"

type_synonym role_file = "role_registry option"

record role_record =
  rc_id :: string
  rc_info :: role_info

subsection \<open>Names of roles\<close>

definition id_char :: "char \<Rightarrow> bool" where
  "id_char c = (is_lower c \<or> is_digit c \<or> c = CHR ''_'' \<or> c = CHR ''-'')"

text \<open>\<^verbatim>\<open>^[a-z][a-z0-9_-]{1,31}$\<close> with \<^verbatim>\<open>match\<close>: \<^verbatim>\<open>$\<close> also matches before a final newline.\<close>

definition id_of_length :: "nat \<Rightarrow> nat \<Rightarrow> string \<Rightarrow> bool" where
  "id_of_length lo hi s = (case s of [] \<Rightarrow> False
     | c # cs \<Rightarrow> is_lower c \<and> list_all id_char cs \<and> lo \<le> length cs \<and> length cs \<le> hi)"

definition role_id_ok :: "string \<Rightarrow> bool" where
  "role_id_ok s = (id_of_length 1 31 s \<or>
     (s \<noteq> [] \<and> last s = char_of (10 :: nat) \<and> id_of_length 1 31 (butlast s)))"

definition validate_runtime_id :: "string \<Rightarrow> unit result" where
  "validate_runtime_id value = raise_if (\<not> id_of_length 0 63 value) (Value_Error ''invalid runtime id'') (Ok ())"

definition legacy_role_aliases :: "(string \<times> string) list" where
  "legacy_role_aliases = [(''daily'', ''general''), (''coder'', ''builder'')]"

definition role_from_info :: "string \<Rightarrow> role_info \<Rightarrow> role_record result" where
  "role_from_info rid info = and_then (validate_runtime_id (rl_runtime_id info)) (\<lambda>_.
     Ok \<lparr>rc_id = rid, rc_info = info\<rparr>)"

definition default_roles :: role_registry where
  "default_roles = (let entry = (\<lambda>name description enabled runtime model execution capabilities aliases.
       \<lparr>rl_display_name = name, rl_description = description, rl_enabled = enabled, rl_runtime_id = runtime,
        rl_model = model, rl_profile = ''normal'', rl_execution = execution,
        rl_capabilities = capabilities, rl_aliases = aliases\<rparr>) in
     \<lparr>rr_generation = 0, rr_default = ''general'', rr_roles =
       [(''general'', entry ''General'' ''Conversation, planning, everyday reasoning and light assistance.''
           True ''daily'' ''qwen3.5-9b'' ''chat''
           [''conversation'', ''planning'', ''general-reasoning'', ''light-tools''] [''daily'']),
        (''builder'', entry ''Builder'' ''Build, edit and repair code, projects, documents and automations.''
           True ''coder'' ''kat-coder-v2.5-dev'' ''loop''
           [''create'', ''edit'', ''project-work'', ''code'', ''artifact''] [''coder'']),
        (''operator'', entry ''Operator'' ''Tool-first execution on systems, services, files, networks and APIs.''
           True ''operator'' ''agents-a1'' ''loop''
           [''tools'', ''system-action'', ''network-action'', ''external-action''] []),
        (''oracle'', entry ''Oracle'' ''Deep analysis, review, architecture and second-opinion reasoning.''
           False ''oracle'' [] ''delegate''
           [''deep-reasoning'', ''review'', ''research'', ''adjudication''] [])]\<rparr>)"

subsection \<open>Validation\<close>

fun claim_names :: "string list \<Rightarrow> string list \<Rightarrow> string list result" where
  "claim_names seen [] = Ok seen"
| "claim_names seen (name # names) =
     raise_if (casefold name \<in> set seen) (Value_Error ''duplicate role/alias name'')
       (claim_names (casefold name # seen) names)"

fun validate_roles :: "string list \<Rightarrow> string list \<Rightarrow> (string \<times> role_info) list \<Rightarrow> unit result" where
  "validate_roles known seen [] = Ok ()"
| "validate_roles known seen ((rid, info) # roles) =
     raise_if (\<not> role_id_ok rid) (Value_Error ''invalid role id'')
    (and_then (validate_runtime_id (rl_runtime_id info)) (\<lambda>_.
     raise_if (rl_model info \<noteq> [] \<and> rl_model info \<notin> set known)
       (Value_Error ''role references unknown model'')
    (and_then (claim_names seen (rid # rl_aliases info)) (\<lambda>seen'. validate_roles known seen' roles))))"

definition validate_registry :: "string list \<Rightarrow> role_registry \<Rightarrow> unit result" where
  "validate_registry known r =
     raise_if (rr_generation r < 0) (Value_Error ''role registry generation must be a non-negative integer'')
    (raise_if (rr_roles r = []) (Value_Error ''at least one role is required'')
    (case map_of (rr_roles r) (rr_default r) of
       None \<Rightarrow> Err (Value_Error ''default role must exist'')
     | Some info \<Rightarrow>
         raise_if (\<not> rl_enabled info) (Value_Error ''default role must be enabled'')
           (validate_roles known [] (rr_roles r))))"

subsection \<open>The file\<close>

definition load_roles :: "string list \<Rightarrow> role_registry \<Rightarrow> role_registry result" where
  "load_roles known r = and_then (validate_registry known r) (\<lambda>_. Ok r)"

definition save_role_registry ::
    "string list \<Rightarrow> role_registry \<Rightarrow> role_file \<Rightarrow> (role_registry \<times> role_file) result" where
  "save_role_registry known data file =
     and_then (validate_registry known data) (\<lambda>_.
     and_then (case file of None \<Rightarrow> Ok (rr_generation data)
       | Some stored \<Rightarrow> and_then (load_roles known stored) (\<lambda>current.
           raise_if (rr_generation data \<noteq> rr_generation current)
             (Runtime_Error ''stale role registry update refused'') (Ok (rr_generation current + 1))))
     (\<lambda>generation. let data' = data\<lparr>rr_generation := generation\<rparr> in
       Ok (data', Some (data'\<lparr>rr_roles := sort_key fst (rr_roles data')\<rparr>))))"

definition ensure_roles :: "string list \<Rightarrow> role_file \<Rightarrow> role_registry result \<times> role_file" where
  "ensure_roles known = transact (\<lambda>file.
     and_then (case file of Some r \<Rightarrow> Ok file
       | None \<Rightarrow> and_then (save_role_registry known default_roles None) (\<lambda>(_, f). Ok f)) (\<lambda>f.
     and_then (case f of None \<Rightarrow> Err (OS_Error ''missing'') | Some r \<Rightarrow> load_roles known r) (\<lambda>r. Ok (r, f))))"

subsection \<open>Looking roles up\<close>

definition resolve_role_id_from :: "role_registry \<Rightarrow> string \<Rightarrow> string result" where
  "resolve_role_id_from r name =
    (let key = casefold (strip name);
         legacy = map_of legacy_role_aliases key in
     if key \<in> fst ` set (rr_roles r) then Ok key
     else if legacy \<noteq> None \<and> the legacy \<in> fst ` set (rr_roles r) then Ok (the legacy)
     else (case find (\<lambda>(rid, info). key \<in> set (map casefold (rl_aliases info))) (rr_roles r) of
         None \<Rightarrow> Err (Key_Error ''unknown role'') | Some (rid, info) \<Rightarrow> Ok rid))"

definition resolve_role_id :: "string list \<Rightarrow> string \<Rightarrow> role_file \<Rightarrow> string result \<times> role_file" where
  "resolve_role_id known name file =
     and_next (ensure_roles known file) (\<lambda>r f. (resolve_role_id_from r name, f))"

definition role_info_of :: "role_registry \<Rightarrow> string \<Rightarrow> role_info result" where
  "role_info_of r rid = (case map_of (rr_roles r) rid of
     None \<Rightarrow> Err (Key_Error rid) | Some info \<Rightarrow> Ok info)"

definition role_of :: "role_registry \<Rightarrow> string \<Rightarrow> role_record result" where
  "role_of r name = and_then (resolve_role_id_from r name) (\<lambda>rid.
     and_then (role_info_of r rid) (role_from_info rid))"

definition get_role :: "string list \<Rightarrow> string \<Rightarrow> role_file \<Rightarrow> role_record result \<times> role_file" where
  "get_role known name file =
     and_next (ensure_roles known file) (\<lambda>r f. (role_of r name, f))"

fun role_records :: "(string \<times> role_info) list \<Rightarrow> role_record list result" where
  "role_records [] = Ok []"
| "role_records ((rid, info) # roles) =
     and_then (role_from_info rid info) (\<lambda>x. and_then (role_records roles) (\<lambda>xs. Ok (x # xs)))"

definition roles_listed :: "role_registry \<Rightarrow> bool \<Rightarrow> role_record list result" where
  "roles_listed r include_disabled = and_then (role_records (rr_roles r)) (\<lambda>l.
     let sorted = sort_key rc_id l in
     Ok (if include_disabled then sorted else filter (\<lambda>x. rl_enabled (rc_info x)) sorted))"

definition list_roles :: "string list \<Rightarrow> bool \<Rightarrow> role_file \<Rightarrow> role_record list result \<times> role_file" where
  "list_roles known include_disabled file =
     and_next (ensure_roles known file) (\<lambda>r f. (roles_listed r include_disabled, f))"

definition default_role_id :: "string list \<Rightarrow> role_file \<Rightarrow> string result \<times> role_file" where
  "default_role_id known file = and_next (ensure_roles known file) (\<lambda>r f. (Ok (rr_default r), f))"

subsection \<open>Changing roles\<close>

text \<open>Read, edit and save within one lock\<close>

definition edit_roles ::
    "string list \<Rightarrow> (role_registry \<Rightarrow> ('a \<times> role_registry) result) \<Rightarrow> role_file \<Rightarrow> 'a result \<times> role_file" where
  "edit_roles known edit file =
     and_next (ensure_roles known file) (\<lambda>r f.
     and_next (edit r, f) (\<lambda>(x, r') f.
     and_next (transact (save_role_registry known r') f) (\<lambda>_ f. (Ok x, f))))"

definition put_role :: "string \<Rightarrow> role_info \<Rightarrow> role_registry \<Rightarrow> role_registry" where
  "put_role rid info r = r\<lparr>rr_roles := AList.update rid info (rr_roles r)\<rparr>"

text \<open>\<^verbatim>\<open>str.title\<close> over ASCII\<close>

fun title_case :: "bool \<Rightarrow> string \<Rightarrow> string" where
  "title_case inside [] = []"
| "title_case inside (c # cs) =
    (if is_lower c \<or> is_upper c
     then (if inside then lower_char c
           else if is_lower c then char_of (of_char c - 32 :: nat) else c) # title_case True cs
     else c # title_case False cs)"

record new_role =
  nr_display_name :: "string option"
  nr_model :: string
  nr_profile :: string
  nr_execution :: string
  nr_runtime_id :: "string option"
  nr_capabilities :: "string list"
  nr_aliases :: "string list"
  nr_description :: string

definition given_text :: "string option \<Rightarrow> string \<Rightarrow> string" where
  "given_text x y = (case x of None \<Rightarrow> y | Some s \<Rightarrow> if s = [] then y else s)"

definition created_info :: "string \<Rightarrow> new_role \<Rightarrow> role_info" where
  "created_info rid n = \<lparr>rl_display_name = given_text (nr_display_name n) (title_case False rid),
     rl_description = nr_description n, rl_enabled = (nr_model n \<noteq> []),
     rl_runtime_id = given_text (nr_runtime_id n) rid, rl_model = nr_model n, rl_profile = nr_profile n,
     rl_execution = nr_execution n, rl_capabilities = nr_capabilities n, rl_aliases = nr_aliases n\<rparr>"

definition create_role :: "string list \<Rightarrow> string \<Rightarrow> new_role \<Rightarrow> role_file \<Rightarrow> role_record result \<times> role_file" where
  "create_role known name n =
    (let rid = casefold name in
     edit_roles known (\<lambda>r.
       raise_if (rid \<in> fst ` set (rr_roles r)) (Value_Error ''role already exists'')
       (Ok (\<lparr>rc_id = rid, rc_info = created_info rid n\<rparr>, put_role rid (created_info rid n) r))))"

definition remove_role :: "string list \<Rightarrow> string \<Rightarrow> role_file \<Rightarrow> unit result \<times> role_file" where
  "remove_role known name = edit_roles known (\<lambda>r.
     and_then (resolve_role_id_from r name) (\<lambda>rid.
     raise_if (rid = rr_default r) (Value_Error ''cannot remove default role'')
    (raise_if (length (rr_roles r) \<le> 1) (Value_Error ''at least one role is required'')
     (Ok ((), r\<lparr>rr_roles := AList.delete rid (rr_roles r)\<rparr>)))))"

definition set_role_enabled :: "string list \<Rightarrow> string \<Rightarrow> bool \<Rightarrow> role_file \<Rightarrow> unit result \<times> role_file" where
  "set_role_enabled known name enabled = edit_roles known (\<lambda>r.
     and_then (resolve_role_id_from r name) (\<lambda>rid.
     raise_if (\<not> enabled \<and> rid = rr_default r) (Value_Error ''cannot disable the default role'')
    (and_then (role_info_of r rid) (\<lambda>info.
     raise_if (enabled \<and> rl_model info = []) (Value_Error ''cannot enable an unbound role'')
     (Ok ((), put_role rid (info\<lparr>rl_enabled := enabled\<rparr>) r))))))"

definition set_default_role :: "string list \<Rightarrow> string \<Rightarrow> role_file \<Rightarrow> unit result \<times> role_file" where
  "set_default_role known name = edit_roles known (\<lambda>r.
     and_then (resolve_role_id_from r name) (\<lambda>rid.
     and_then (role_info_of r rid) (\<lambda>info.
     raise_if (\<not> rl_enabled info) (Value_Error ''default role must be enabled'')
     (Ok ((), r\<lparr>rr_default := rid\<rparr>)))))"

definition bind_model :: "string list \<Rightarrow> string \<Rightarrow> string \<Rightarrow> role_file \<Rightarrow> unit result \<times> role_file" where
  "bind_model known name alias file =
    (if alias \<noteq> [] \<and> alias \<notin> set known then (Err (Value_Error ''unknown model alias''), file) else
     edit_roles known (\<lambda>r.
       and_then (resolve_role_id_from r name) (\<lambda>rid.
       and_then (role_info_of r rid) (\<lambda>info.
       Ok ((), put_role rid (info\<lparr>rl_model := alias\<rparr>) r)))) file)"

definition set_role_profile :: "string list \<Rightarrow> string \<Rightarrow> string \<Rightarrow> role_file \<Rightarrow> unit result \<times> role_file" where
  "set_role_profile known name profile file =
    (if profile \<notin> {''compact'', ''normal'', ''extended''}
     then (Err (Value_Error ''profile must be compact, normal or extended''), file) else
     edit_roles known (\<lambda>r.
       and_then (resolve_role_id_from r name) (\<lambda>rid.
       and_then (role_info_of r rid) (\<lambda>info.
       Ok ((), put_role rid (info\<lparr>rl_profile := profile\<rparr>) r)))) file)"

subsection \<open>Thinking and generation\<close>

record thinking_capability =
  tc_supported :: bool
  tc_modes :: "string list"
  tc_mechanism :: string

definition capability_for_model :: "model_record \<Rightarrow> thinking_capability" where
  "capability_for_model m =
    (if md_backend m = ''llama.cpp'' \<and> md_thinking_control m = ''toggle''
     then \<lparr>tc_supported = True, tc_modes = [''off'', ''on''],
       tc_mechanism = ''llama.cpp chat_template_kwargs.enable_thinking''\<rparr>
     else \<lparr>tc_supported = False, tc_modes = [], tc_mechanism = ''unavailable''\<rparr>)"

record thinking_decision =
  td_requested :: string
  td_effective :: string
  td_mechanism :: string
  td_reason :: string

definition thinking_policies :: "string list" where
  "thinking_policies = [''auto'', ''off'', ''on'', ''low'', ''medium'', ''high'']"

text \<open>The settings hold a policy per role and a default.\<close>

record thinking_config =
  th_roles :: "(string \<times> string) list"
  th_default :: "string option"

definition configured_policy :: "thinking_config \<Rightarrow> string \<Rightarrow> string" where
  "configured_policy cfg rid = casefold (case map_of (th_roles cfg) rid of
     Some p \<Rightarrow> p | None \<Rightarrow> or_else (th_default cfg) ''auto'')"

definition decide_thinking ::
    "thinking_config \<Rightarrow> role_record \<Rightarrow> thinking_capability \<Rightarrow> string option \<Rightarrow> string \<Rightarrow> bool \<Rightarrow> bool \<Rightarrow>
     thinking_decision result" where
  "decide_thinking cfg role capability requested operation requires_tools complex_task =
    (let policy = casefold (given_text requested (configured_policy cfg (rc_id role))) in
     raise_if (policy \<notin> set thinking_policies) (Value_Error ''unknown thinking policy'')
    (if \<not> tc_supported capability then
       if policy = ''auto''
       then Ok \<lparr>td_requested = ''auto'', td_effective = ''off'', td_mechanism = tc_mechanism capability,
         td_reason = ''active model/backend has no thinking control''\<rparr>
       else Err (Value_Error ''thinking is not supported by the active model/backend'')
     else if policy \<noteq> ''auto'' then
       raise_if (policy \<notin> set (tc_modes capability))
         (Value_Error ''thinking is not supported by the active model/backend'')
         (Ok \<lparr>td_requested = policy, td_effective = policy, td_mechanism = tc_mechanism capability,
           td_reason = ''explicit user or Role policy''\<rparr>)
     else
       let expensive = (requires_tools \<or> complex_task \<or> operation \<in> {''task'', ''agent'', ''delegation''} \<or>
             rl_execution (rc_info role) \<in> {''loop'', ''delegate''}) in
       Ok \<lparr>td_requested = ''auto'',
         td_effective = (if expensive \<and> ''on'' \<in> set (tc_modes capability) then ''on'' else ''off''),
         td_mechanism = tc_mechanism capability,
         td_reason = (if expensive then ''task/tool complexity'' else ''ordinary conversation'')\<rparr>))"

record generation_config =
  gc_output_tokens :: "int option"
  gc_output_reserve :: "int option"
  gc_safety_margin :: "int option"

record generation_budget =
  gb_role :: string
  gb_window :: int
  gb_reserve :: int
  gb_safety :: int
  gb_usable :: int
  gb_ceiling :: "int option"

text \<open>\<open>window\<close> is the context of the profile \<^verbatim>\<open>get_profile\<close> finds for the role's model.\<close>

definition generation_budget_for ::
    "generation_config \<Rightarrow> role_record \<Rightarrow> int \<Rightarrow> int option \<Rightarrow> generation_budget result" where
  "generation_budget_for cfg role window requested =
     raise_if (\<not> rl_enabled (rc_info role) \<or> rl_model (rc_info role) = [])
       (Runtime_Error ''role has no enabled model binding'')
    (let reserve = (case requested of Some n \<Rightarrow> n
           | None \<Rightarrow> or_else (gc_output_tokens cfg) (or_else (gc_output_reserve cfg) 8192));
         safety = max 0 (or_else (gc_safety_margin cfg) 1024) in
     raise_if (reserve \<le> 0) (Budget_Error ''output reserve must be positive'')
    (raise_if (window \<le> reserve + safety) (Budget_Error ''generation budget exceeds active profile'')
    (Ok \<lparr>gb_role = rc_id role, gb_window = window, gb_reserve = reserve, gb_safety = safety,
       gb_usable = window - reserve - safety, gb_ceiling = requested\<rparr>)))"

definition generation_ceiling :: "generation_budget \<Rightarrow> int \<Rightarrow> int result" where
  "generation_ceiling b input =
    (let remaining = gb_window b - input - gb_safety b in
     raise_if (remaining \<le> 0) (Budget_Error ''input leaves no generation capacity'')
     (Ok (case gb_ceiling b of None \<Rightarrow> remaining
       | Some n \<Rightarrow> if n = 0 then remaining else min remaining n)))"

record generation_outcome =
  go_state :: string
  go_normal_success :: bool
  go_empty :: bool
  go_finish :: string

definition generation_outcome_of :: "string \<Rightarrow> string \<Rightarrow> generation_outcome" where
  "generation_outcome_of content finish_reason =
    (let finish = (if finish_reason = [] then ''unknown'' else finish_reason);
         exhausted = (finish = ''length'') in
     \<lparr>go_state = (if exhausted then ''exhausted'' else ''succeeded''),
      go_normal_success = (content \<noteq> [] \<and> \<not> exhausted), go_empty = (content = []), go_finish = finish\<rparr>)"

end
