(* ===== verification/Orchestration.thy ===== *)
theory Orchestration
  imports Tasks Roles
begin

section \<open>Routing, delegation records and handoffs\<close>

text \<open>
  \<^verbatim>\<open>src/tars/orchestration.py\<close>.  Routing chooses a role for a set of capabilities; a delegation
  creates a child task and its record in one transaction; a handoff passes a task to another
  role after a checkpoint.  \<open>orchestra\<close> holds what the functions read of the two registries and
  of the backends.  The rows of \<^verbatim>\<open>routing_decisions\<close>, which only the router writes and reads,
  are a list of their own beside the database.  \<open>ids\<close> are the identifiers drawn from \<^verbatim>\<open>uuid4\<close>,
  \<open>ambient\<close> is the ambient execution owner.
\<close>

record orchestra =
  oc_roles :: role_registry
  oc_models :: model_registry
  oc_expand :: "string \<Rightarrow> string"
  oc_backend :: backend_env

text \<open>\<^verbatim>\<open>dict.fromkeys\<close>: the first occurrence of each value\<close>

definition first_only :: "'a list \<Rightarrow> 'a list" where
  "first_only xs = rev (remdups (rev xs))"

lemma set_first_only [simp]: "set (first_only xs) = set xs"
  by (simp add: first_only_def)

definition require_available_role :: "orchestra \<Rightarrow> string \<Rightarrow> role_record result" where
  "require_available_role oc name = and_then (role_of (oc_roles oc) name) (\<lambda>role.
     raise_if (\<not> rl_enabled (rc_info role)) (Value_Error ''role is disabled'')
    (raise_if (rl_model (rc_info role) = []) (Value_Error ''role has no model binding'') (Ok role)))"

subsection \<open>Routing\<close>

record candidate =
  ca_role :: string
  ca_required_covered :: nat
  ca_extra :: nat
  ca_capabilities :: "string list"

definition model_ready :: "orchestra \<Rightarrow> string \<Rightarrow> bool result" where
  "model_ready oc alias = and_then (validate_model_alias alias) (\<lambda>_.
     case map_of (models (oc_expand oc) (oc_models oc)) alias of
       None \<Rightarrow> Err (Key_Error ''unknown model alias'')
     | Some m \<Rightarrow> Ok (backend_binding_ready (oc_backend oc) m))"

definition role_candidate :: "string set \<Rightarrow> role_record \<Rightarrow> candidate option" where
  "role_candidate required role = (let available = set (rl_capabilities (rc_info role)) in
     if \<not> required \<subseteq> available then None
     else Some \<lparr>ca_role = rc_id role, ca_required_covered = card required,
       ca_extra = card (available - required),
       ca_capabilities = sort (remdups (rl_capabilities (rc_info role)))\<rparr>)"

fun candidates_of :: "orchestra \<Rightarrow> string set \<Rightarrow> role_record list \<Rightarrow> candidate list result" where
  "candidates_of oc required [] = Ok []"
| "candidates_of oc required (role # roles) =
    (if rl_model (rc_info role) = [] then candidates_of oc required roles else
     and_then (model_ready oc (rl_model (rc_info role))) (\<lambda>ready.
     and_then (candidates_of oc required roles) (\<lambda>rest.
       Ok (if \<not> ready then rest else
         (case role_candidate required role of None \<Rightarrow> rest | Some c \<Rightarrow> c # rest)))))"

definition routing_candidates :: "orchestra \<Rightarrow> string list \<Rightarrow> candidate list result" where
  "routing_candidates oc required =
     and_then (roles_listed (oc_roles oc) False) (candidates_of oc (set required))"

record routing_decision =
  rt_id :: ident
  rt_requested :: "string list"
  rt_selected :: string
  rt_candidates :: "candidate list"
  rt_reason :: string
  rt_created_at :: time
  rt_task :: "ident option"

definition required_capabilities :: "string list \<Rightarrow> string list" where
  "required_capabilities xs = first_only (filter (\<lambda>x. x \<noteq> []) (map strip xs))"

definition candidate_key :: "string \<Rightarrow> candidate \<Rightarrow> nat \<times> nat \<times> string" where
  "candidate_key default_role c = (ca_extra c, if ca_role c = default_role then 0 else 1, ca_role c)"

definition choose_route ::
    "orchestra \<Rightarrow> time \<Rightarrow> ident \<Rightarrow> ident option \<Rightarrow> string list \<Rightarrow> routing_decision result" where
  "choose_route oc stamp rid task capabilities =
    (let required = required_capabilities capabilities; default_role = rr_default (oc_roles oc) in
     and_then (routing_candidates oc required) (\<lambda>found.
     case sort_key (candidate_key default_role) found of
       [] \<Rightarrow> Err (Lookup_Error ''no enabled bound role covers required capabilities'')
     | best # rest \<Rightarrow> Ok \<lparr>rt_id = rid, rt_requested = required, rt_selected = ca_role best,
         rt_candidates = best # rest,
         rt_reason = ''all requested capabilities covered; selected narrowest available role'' @
           (if ca_role best = default_role then ''; default-role tie-break'' else []),
         rt_created_at = stamp, rt_task = task\<rparr>))"

text \<open>The state of the router: its log and the database\<close>

type_synonym routed = "routing_decision list \<times> db"

definition on_db :: "(db \<Rightarrow> 'a result \<times> db) \<Rightarrow> 'r \<times> db \<Rightarrow> 'a result \<times> ('r \<times> db)" where
  "on_db f s = (let (x, d) = f (snd s) in (x, (fst s, d)))"

lemma snd_on_db [simp]: "snd (snd (on_db f s)) = snd (f (snd s))" "fst (on_db f s) = fst (f (snd s))"
  by (simp_all add: on_db_def split: prod.split)

lemma fst_on_db [simp]: "fst (snd (on_db f s)) = fst s"
  by (simp add: on_db_def split: prod.split)

definition route_for_capabilities ::
    "orchestra \<Rightarrow> env \<Rightarrow> (nat \<Rightarrow> ident) \<Rightarrow> string list \<Rightarrow> ident option \<Rightarrow> bool \<Rightarrow> routed \<Rightarrow>
     routing_decision result \<times> routed" where
  "route_for_capabilities oc e ids capabilities task persist s =
     and_next (case task of None \<Rightarrow> Ok () | Some tid \<Rightarrow> and_then (load_task (snd s) tid) (\<lambda>_. Ok ()), s) (\<lambda>_ s.
     and_next (choose_route oc (now e) (ids 0) task capabilities, s) (\<lambda>decision s.
     if \<not> persist then (Ok decision, s) else
     and_next (case task of
         None \<Rightarrow> (Ok (), (fst s @ [decision], snd s))
       | Some tid \<Rightarrow> on_db (\<lambda>d. and_next (append_event (now e) (ids 1) tid ''routing''
           (''AUTO selected '' @ rt_selected decision) (Some (rt_selected decision))
           [(''routing_id'', JStr (rt_id decision)),
            (''required_capabilities'', JArr (map JStr (rt_requested decision)))] ''verbose'' d)
           (\<lambda>_ d. (Ok (), d))) (fst s @ [decision], snd s))
     (\<lambda>_ s. (Ok decision, s))))"

subsection \<open>Delegations\<close>

definition load_delegation :: "db \<Rightarrow> ident \<Rightarrow> delegation_row result" where
  "load_delegation d did = (case find_delegation d did of
     None \<Rightarrow> Err (Key_Error ''unknown delegation'') | Some r \<Rightarrow> Ok r)"

definition list_delegations :: "ident option \<Rightarrow> nat \<Rightarrow> db \<Rightarrow> delegation_row list" where
  "list_delegations parent limit d = take limit (sort_key (\<lambda>r. - dg_created_at r)
     (filter (\<lambda>r. parent = None \<or> parent = Some [] \<or> Some (dg_parent_task r) = parent) (delegations d)))"

record delegation_request =
  dq_goal :: string
  dq_role :: "string option"
  dq_capabilities :: "string list"
  dq_scope :: dict
  dq_constraints :: "string list"
  dq_permissions :: "string list"
  dq_evidence_refs :: "ident list"
  dq_expected :: string

definition closed_for_delegation :: "task_state \<Rightarrow> bool" where
  "closed_for_delegation s = (s \<in> {T_Completed, T_Cancelled})"

definition delegation_target ::
    "orchestra \<Rightarrow> env \<Rightarrow> (nat \<Rightarrow> ident) \<Rightarrow> ident \<Rightarrow> delegation_request \<Rightarrow> routed \<Rightarrow> role_record result \<times> routed" where
  "delegation_target oc e ids parent q s = (case dq_role q of
     None \<Rightarrow> and_next (route_for_capabilities oc e ids (dq_capabilities q) (Some parent) True s)
       (\<lambda>decision s. (require_available_role oc (rt_selected decision), s))
   | Some name \<Rightarrow> (and_then (resolve_role_id_from (oc_roles oc) name) (\<lambda>rid.
       and_then (require_available_role oc rid) (\<lambda>target.
       raise_if (\<not> set (dq_capabilities q) \<subseteq> set (rl_capabilities (rc_info target)))
         (Value_Error ''role lacks required capabilities'') (Ok target))), s))"

definition requested_delegation ::
    "time \<Rightarrow> ident \<Rightarrow> ident \<Rightarrow> ident \<Rightarrow> string \<Rightarrow> delegation_request \<Rightarrow> delegation_row" where
  "requested_delegation stamp did parent child role q = \<lparr>dg_id = did, dg_parent_task = parent,
     dg_child_task = child, dg_requested_role = role, dg_state = Dg_Requested, dg_goal = dq_goal q,
     dg_scope = dq_scope q, dg_constraints = dq_constraints q, dg_permissions = dq_permissions q,
     dg_evidence_refs = dq_evidence_refs q, dg_expected = dq_expected q, dg_result_status = None,
     dg_result_summary = [], dg_result = [], dg_created_at = stamp, dg_updated_at = stamp,
     dg_completed_at = None\<rparr>"

text \<open>The transaction of \<^verbatim>\<open>create_delegation\<close>; \<open>contract\<close> gives the row of the contract for the new
  delegation's id, when there is one.\<close>

definition create_delegation_in_transaction ::
    "env \<Rightarrow> ident \<Rightarrow> ident \<Rightarrow> ident \<Rightarrow> role_record \<Rightarrow> delegation_request \<Rightarrow> (ident \<Rightarrow> contract_row) option \<Rightarrow>
     db \<Rightarrow> (delegation_row \<times> db) result" where
  "create_delegation_in_transaction e did child parent target q contract d =
     (case find_task d parent of
        None \<Rightarrow> Err (Key_Error ''unknown task'')
      | Some p \<Rightarrow>
          raise_if (closed_for_delegation (tk_state p)) (Runtime_Error ''cannot delegate from ended task'')
         (and_then (create_task_in_transaction (now e) child
            \<lparr>nt_goal = dq_goal q, nt_owner_role = rc_id target, nt_kind = Delegation,
             nt_parent = Some parent, nt_source = ''orchestration'', nt_conversation = tk_conversation p,
             nt_title = ''Delegation from '' @ (if tk_title p = [] then parent else tk_title p),
             nt_constraints = dq_constraints q, nt_evidence_refs = dq_evidence_refs q,
             nt_phase = ''delegated'', nt_schedule_kind = None, nt_schedule_expr = None,
             nt_next_run_at = None\<rparr> False d)
          (\<lambda>(cid, d1). let r = requested_delegation (now e) did parent cid (rc_id target) q in
           and_then (insert_delegation r d1) (\<lambda>d2.
           and_then (case contract of None \<Rightarrow> Ok d2 | Some c \<Rightarrow> insert_contract (c did) d2)
           (\<lambda>d3. Ok (r, d3))))))"

definition create_delegation ::
    "orchestra \<Rightarrow> env \<Rightarrow> (nat \<Rightarrow> ident) \<Rightarrow> ident \<Rightarrow> delegation_request \<Rightarrow> (ident \<Rightarrow> contract_row) option \<Rightarrow>
     routed \<Rightarrow> delegation_row result \<times> routed" where
  "create_delegation oc e ids parent q contract s =
     and_next (load_task (snd s) parent, s) (\<lambda>p s.
     if closed_for_delegation (tk_state p) then (Err (Runtime_Error ''cannot delegate from ended task''), s) else
     and_next (delegation_target oc e ids parent q s) (\<lambda>target s.
     on_db (\<lambda>d.
       and_next (transact (create_delegation_in_transaction e (ids 2) (ids 3) parent target q contract) d) (\<lambda>r d.
       and_next (append_event (now e) (ids 4) (dg_child_task r) ''status''
         (''Task created with owner '' @ rc_id target) (Some (rc_id target))
         [(''state'', JStr ''pending''), (''kind'', JStr ''delegation'')] ''verbose'' d) (\<lambda>_ d.
       and_next (append_event (now e) (ids 5) parent ''delegation''
         (''Delegated to '' @ rl_display_name (rc_info target) @ '': '' @ dq_goal q) (Some (tk_owner_role p))
         [(''delegation_id'', JStr (dg_id r)), (''child_task_id'', JStr (dg_child_task r)),
          (''requested_role'', JStr (rc_id target)), (''parent_owner_unchanged'', JStr (tk_owner_role p))]
         ''normal'' d) (\<lambda>_ d.
       and_next (append_event (now e) (ids 6) (dg_child_task r) ''delegation''
         (''Delegation received from '' @ parent) (Some (rc_id target))
         [(''delegation_id'', JStr (dg_id r)), (''parent_task_id'', JStr parent)] ''normal'' d) (\<lambda>_ d.
       (Ok r, d)))))) s))"

fun parse_result_status :: "string \<Rightarrow> result_status option" where
  "parse_result_status s = map_of [(''success'', Success), (''partial'', Partial),
     (''failed'', Status_Failed), (''cancelled'', Status_Cancelled)] (casefold (strip s))"

fun delegation_state_of :: "result_status \<Rightarrow> delegation_state" where
  "delegation_state_of Success = Dg_Completed"
| "delegation_state_of Partial = Dg_Completed"
| "delegation_state_of Status_Failed = Dg_Failed"
| "delegation_state_of Status_Cancelled = Dg_Cancelled"

fun child_state_of :: "result_status \<Rightarrow> task_state" where
  "child_state_of Success = T_Completed"
| "child_state_of Partial = T_Completed"
| "child_state_of Status_Failed = T_Failed"
| "child_state_of Status_Cancelled = T_Cancelled"

fun result_status_name :: "result_status \<Rightarrow> string" where
  "result_status_name Success = ''success''"
| "result_status_name Partial = ''partial''"
| "result_status_name Status_Failed = ''failed''"
| "result_status_name Status_Cancelled = ''cancelled''"

definition delegation_ended :: "delegation_state \<Rightarrow> bool" where
  "delegation_ended s = (s \<in> {Dg_Completed, Dg_Failed, Dg_Cancelled})"

text \<open>The guarded write of a result, and the end of the child task: a child that already ended must
  have ended in the same way.\<close>

definition record_result ::
    "time \<Rightarrow> ident \<Rightarrow> result_status \<Rightarrow> string \<Rightarrow> dict \<Rightarrow> error \<Rightarrow> db \<Rightarrow> db result" where
  "record_result stamp did status summary result changed d =
    (let P = (\<lambda>r. dg_id r = did \<and> \<not> delegation_ended (dg_state r)) in
     and_then (update_delegations P (\<lambda>r. r\<lparr>dg_state := delegation_state_of status,
        dg_result_status := Some status, dg_result_summary := summary, dg_result := result,
        dg_updated_at := stamp, dg_completed_at := Some stamp\<rparr>) d)
     (\<lambda>d'. raise_if (count_where P (delegations d) \<noteq> 1) changed (Ok d')))"

definition end_child ::
    "env \<Rightarrow> owner option \<Rightarrow> ident \<Rightarrow> task_state \<Rightarrow> string \<Rightarrow> bool \<Rightarrow> db \<Rightarrow> db result" where
  "end_child e selected child state phase full_progress d =
     (case find_task d child of
        None \<Rightarrow> Err (Key_Error ''unknown task'')
      | Some t \<Rightarrow>
          if terminal_task_state (tk_state t) then
            raise_if (tk_state t \<noteq> state)
              (Runtime_Error ''delegation result conflicts with terminal child task truth'') (Ok d)
          else
            and_then (require_task_write_in_transaction e selected False
              ([Ch_State state, Ch_Phase phase] @ (if full_progress then [Ch_Progress 1] else [])) child d)
            (\<lambda>_. update_task_row child (\<lambda>t. t\<lparr>tk_state := state, tk_phase := phase,
              tk_progress := (if full_progress then Some 1 else tk_progress t), tk_updated_at := now e\<rparr>) d))"

definition complete_delegation ::
    "env \<Rightarrow> owner option \<Rightarrow> ident \<Rightarrow> ident \<Rightarrow> string \<Rightarrow> string \<Rightarrow> dict \<Rightarrow> db \<Rightarrow> delegation_row result \<times> db" where
  "complete_delegation e ambient uuid did status_text summary result d =
    (case parse_result_status status_text of
       None \<Rightarrow> (Err (Value_Error ''delegation result status must be success, partial, failed or cancelled''), d)
     | Some status \<Rightarrow>
         and_next (transact (\<lambda>d. case find_delegation d did of
             None \<Rightarrow> Err (Key_Error ''unknown delegation'')
           | Some current \<Rightarrow>
               raise_if (delegation_ended (dg_state current)) (Runtime_Error ''delegation has already ended'')
              (and_then (record_result (now e) did status summary result
                 (Runtime_Error ''delegation changed concurrently'') d) (\<lambda>d1.
               and_then (end_child e ambient (dg_child_task current) (child_state_of status)
                 ''delegation-complete'' (child_state_of status = T_Completed) d1) (\<lambda>d2.
               and_then (load_delegation d2 did) (\<lambda>r. Ok (r, d2)))))) d) (\<lambda>r d.
         and_next (append_event (now e) uuid (dg_parent_task r) ''delegation''
           (''Delegation result ('' @ result_status_name status @ ''): '' @ summary) (Some (dg_requested_role r))
           [(''delegation_id'', JStr did), (''child_task_id'', JStr (dg_child_task r)),
            (''status'', JStr (result_status_name status)), (''result'', JObj result)]
           (if status \<in> {Success, Partial} then ''normal'' else ''quiet'') d) (\<lambda>_ d.
         (load_delegation d did, d))))"

subsection \<open>Handoffs\<close>

definition open_run :: "task_run_row \<Rightarrow> bool" where
  "open_run r = (tr_state r \<in> {Run_Queued, Run_Running, Run_Paused})"

definition handoff_in_transaction ::
    "env \<Rightarrow> (dict \<Rightarrow> string) \<Rightarrow> owner option \<Rightarrow> ident \<Rightarrow> ident \<Rightarrow> task_row \<Rightarrow> string \<Rightarrow> string \<Rightarrow> db \<Rightarrow>
     (handoff_row \<times> db) result" where
  "handoff_in_transaction e digest ambient hid cid task target reason d =
     (case find_task d (tk_id task) of
        None \<Rightarrow> Err (Key_Error ''unknown task'')
      | Some current \<Rightarrow>
          raise_if (tk_owner_role current \<noteq> tk_owner_role task)
            (Runtime_Error ''task owner changed while preparing handoff'')
         (raise_if (terminal_task_state (tk_state current)) (Runtime_Error ''cannot hand off ended task'')
         (raise_if (exists_where (\<lambda>r. tr_task r = tk_id task \<and> open_run r) (task_runs d))
            (Runtime_Error ''task has active run'')
         (and_then (require_task_write_in_transaction e ambient False [Ch_Owner_Role target,
            Ch_Phase ''handoff-complete'', Ch_Epoch (Some (tk_epoch current + 1))] (tk_id task) d) (\<lambda>_.
          and_then (create_checkpoint_in_transaction e digest ambient cid (tk_id task) None
            (''pre-handoff '' @ tk_owner_role task @ '' -> '' @ target @ '': '' @ reason) None False d)
          (\<lambda>(cp, d1). let h = \<lparr>ho_id = hid, ho_task = tk_id task, ho_from_role = tk_owner_role task,
              ho_to_role = target, ho_checkpoint = cp_id cp, ho_reason = reason, ho_created_at = now e\<rparr> in
            and_then (insert_handoff h d1) (\<lambda>d2.
            and_then (update_task_row (tk_id task) (\<lambda>t. t\<lparr>tk_owner_role := target,
              tk_phase := ''handoff-complete'', tk_epoch := tk_epoch t + 1, tk_updated_at := now e\<rparr>) d2)
            (\<lambda>d3. Ok (h, d3)))))))))"

definition handoff_task ::
    "orchestra \<Rightarrow> env \<Rightarrow> (dict \<Rightarrow> string) \<Rightarrow> owner option \<Rightarrow> (nat \<Rightarrow> ident) \<Rightarrow> ident \<Rightarrow> string \<Rightarrow> string \<Rightarrow> db \<Rightarrow>
     handoff_row result \<times> db" where
  "handoff_task oc e digest ambient ids tid to_role reason d =
     and_next (load_task d tid, d) (\<lambda>task d.
     and_next (and_then (resolve_role_id_from (oc_roles oc) to_role) (require_available_role oc), d) (\<lambda>target d.
     if tk_owner_role task = rc_id target
     then (Err (Value_Error ''task is already owned by the role''), d) else
     if terminal_task_state (tk_state task) then (Err (Runtime_Error ''cannot hand off ended task''), d) else
     and_next (transact (handoff_in_transaction e digest ambient (ids 0) (ids 1) task (rc_id target) reason) d) (\<lambda>h d.
     and_next (append_event (now e) (ids 2) tid ''handoff''
       (''Ownership handed off '' @ tk_owner_role task @ '' -> '' @ rc_id target) (Some (rc_id target))
       [(''handoff_id'', JStr (ho_id h)), (''from_role'', JStr (tk_owner_role task)),
        (''to_role'', JStr (rc_id target)), (''checkpoint_id'', JStr (ho_checkpoint h)),
        (''reason'', JStr reason)] ''normal'' d) (\<lambda>_ d. (Ok h, d)))))"

definition list_handoffs :: "ident option \<Rightarrow> nat \<Rightarrow> db \<Rightarrow> handoff_row list" where
  "list_handoffs task limit d = take limit (sort_key (\<lambda>h. - ho_created_at h)
     (filter (\<lambda>h. task = None \<or> task = Some [] \<or> Some (ho_task h) = task) (handoffs d)))"

subsection \<open>Views\<close>

definition delegation_state_name :: "delegation_state \<Rightarrow> string" where
  "delegation_state_name s = (case s of Dg_Requested \<Rightarrow> ''requested'' | Dg_Running \<Rightarrow> ''running''
     | Dg_Completed \<Rightarrow> ''completed'' | Dg_Failed \<Rightarrow> ''failed'' | Dg_Cancelled \<Rightarrow> ''cancelled'')"

definition envelope_of :: "delegation_row \<Rightarrow> dict" where
  "envelope_of r =
    [(''request'', JObj [(''delegation_id'', JStr (dg_id r)), (''parent_task_id'', JStr (dg_parent_task r)),
       (''child_task_id'', JStr (dg_child_task r)), (''requested_role'', JStr (dg_requested_role r)),
       (''goal'', JStr (dg_goal r)), (''scope'', JObj (dg_scope r)),
       (''constraints'', JArr (map JStr (dg_constraints r))),
       (''permissions'', JArr (map JStr (dg_permissions r))),
       (''evidence_refs'', JArr (map JStr (dg_evidence_refs r))),
       (''expected_result'', JStr (dg_expected r))]),
     (''result'', JObj [(''state'', JStr (delegation_state_name (dg_state r))),
       (''status'', opt_json (\<lambda>s. JStr (result_status_name s)) (dg_result_status r)),
       (''summary'', JStr (dg_result_summary r)), (''data'', JObj (dg_result r))])]"

definition delegation_envelope :: "ident \<Rightarrow> db \<Rightarrow> dict result" where
  "delegation_envelope did d = and_then (load_delegation d did) (\<lambda>r. Ok (envelope_of r))"

definition handoff_view :: "handoff_row \<Rightarrow> json" where
  "handoff_view h = JObj [(''id'', JStr (ho_id h)), (''from_role'', JStr (ho_from_role h)),
     (''to_role'', JStr (ho_to_role h)), (''checkpoint_id'', JStr (ho_checkpoint h)),
     (''reason'', JStr (ho_reason h)), (''created_at'', JInt (ho_created_at h))]"

definition task_orchestration_state :: "ident \<Rightarrow> db \<Rightarrow> dict result" where
  "task_orchestration_state tid d = and_then (load_task d tid) (\<lambda>t.
     Ok (canonical_task_state_from_row t d @
       [(''delegations'', JArr (map (\<lambda>r. JObj (envelope_of r)) (list_delegations (Some tid) 50 d))),
        (''handoffs'', JArr (map handoff_view (list_handoffs (Some tid) 50 d)))]))"

end
