(* ===== verification/Control_Queue.thy ===== *)
theory Control_Queue
  imports Tasks
begin

section \<open>Durable controls and their cancellations\<close>

text \<open>
  \<^verbatim>\<open>src/tars/control_queue.py\<close>.  A control is a durable request to a task (cancel, pause,
  redirect, ...), taken by priority and then by number.  An interrupt or a cancel carries a
  cancellation record, which moves from \<^verbatim>\<open>intent\<close> over \<^verbatim>\<open>attempting\<close> to \<^verbatim>\<open>resolved\<close> or
  \<^verbatim>\<open>ambiguous\<close> and must get there before the control is processed.  When the outcome of an
  attempted cancellation is unknown, the task fails closed.  \<open>ids\<close> are the identifiers drawn
  from \<^verbatim>\<open>uuid4\<close> in the order of the draws; the store's \<^verbatim>\<open>json_loads\<close>/\<^verbatim>\<open>json_dumps\<close> of a payload
  are the identity on the dictionaries of the model.
\<close>

fun priority :: "control_kind \<Rightarrow> int" where
  "priority Cancel = 0"
| "priority Interrupt = 1"
| "priority Pause = 1"
| "priority Approval = 2"
| "priority Redirect = 3"
| "priority Resume = 3"
| "priority Message = 4"

fun control_kind_name :: "control_kind \<Rightarrow> string" where
  "control_kind_name Cancel = ''cancel''"
| "control_kind_name Interrupt = ''interrupt''"
| "control_kind_name Pause = ''pause''"
| "control_kind_name Approval = ''approval''"
| "control_kind_name Redirect = ''redirect''"
| "control_kind_name Resume = ''resume''"
| "control_kind_name Message = ''message''"

definition parse_kind :: "string \<Rightarrow> control_kind option" where
  "parse_kind s = find (\<lambda>k. control_kind_name k = casefold s)
     [Cancel, Interrupt, Pause, Approval, Redirect, Resume, Message]"

text \<open>\<^verbatim>\<open>CANCELLATION_READY\<close>\<close>

definition cancellation_ready :: "cancellation_state \<Rightarrow> bool" where
  "cancellation_ready s = (s = X_Resolved \<or> s = X_Ambiguous)"

abbreviation recovery_phase :: string where
  "recovery_phase \<equiv> ''cancellation-recovery-required''"

definition ambiguous_failure :: string where
  "ambiguous_failure =
     ''external cancellation outcome is ambiguous; explicit recovery is required''"

subsection \<open>Statements shared by the operations\<close>

definition drop_lease :: "resource_type \<Rightarrow> string \<Rightarrow> string \<Rightarrow> db \<Rightarrow> db" where
  "drop_lease rtype key token d = d\<lparr>resource_leases := delete_where
     (\<lambda>l. ls_type l = rtype \<and> ls_key l = key \<and> ls_token l = token) (resource_leases d)\<rparr>"

definition drop_fence :: "ident \<Rightarrow> db \<Rightarrow> db" where
  "drop_fence tid d = d\<lparr>resource_leases := delete_where
     (\<lambda>l. ls_type l = Task_Execution_Fence \<and> ls_key l = tid) (resource_leases d)\<rparr>"

definition set_pending_payload :: "ident \<Rightarrow> dict \<Rightarrow> db \<Rightarrow> db result" where
  "set_pending_payload cid payload d = update_controls
     (\<lambda>c. ct_id c = cid \<and> ct_state c = C_Pending) (\<lambda>c. c\<lparr>ct_payload := payload\<rparr>) d"

text \<open>\<^verbatim>\<open>task_controls c JOIN control_cancellations x ON x.control_id=c.id WHERE c.id=?\<close>\<close>

definition control_cancellation :: "db \<Rightarrow> ident \<Rightarrow> (control_row \<times> cancellation_row) option" where
  "control_cancellation d cid = (case find_control d cid of
     None \<Rightarrow> None
   | Some c \<Rightarrow> (case find_cancellation d cid of None \<Rightarrow> None | Some x \<Rightarrow> Some (c, x)))"

definition unreconciled :: "db \<Rightarrow> control_row \<Rightarrow> bool" where
  "unreconciled d c = (ct_state c = C_Pending \<and> (case find_cancellation d (ct_id c) of
     None \<Rightarrow> False | Some x \<Rightarrow> cx_state x \<in> {X_Intent, X_Attempting}))"

definition fail_task_for_ambiguous_cancellation ::
    "env \<Rightarrow> ident \<Rightarrow> ident \<Rightarrow> ident \<Rightarrow> string \<Rightarrow> db \<Rightarrow> db result" where
  "fail_task_for_ambiguous_cancellation e uuid tid cid reason d = (case find_task d tid of
     None \<Rightarrow> Err (Key_Error ''unknown task'')
   | Some row \<Rightarrow>
       let failures = (if ambiguous_failure \<in> set (tk_failures row) then tk_failures row
                       else tk_failures row @ [ambiguous_failure]) in
       and_then (require_task_write_in_transaction e None True
         [Ch_State T_Failed, Ch_Phase recovery_phase, Ch_Failures failures] tid d)
       (\<lambda>_. and_then (update_task_row tid (\<lambda>t. t\<lparr>tk_state := T_Failed,
            tk_phase := recovery_phase, tk_failures := failures, tk_updated_at := now e\<rparr>) d)
       (\<lambda>d1. and_then (insert_state_event (now e) uuid ''task_transition'' ambiguous_failure None
            None (Some tid) (Some (tk_owner_role row))
            [(''control_id'', JStr cid), (''state'', JStr ''recovery-required''),
             (''reason'', JStr (take 128 reason))] ''normal'' d1)
       (\<lambda>(_, d2). Ok d2))))"

definition release_task_fence_if_quiescent :: "ident \<Rightarrow> string option \<Rightarrow> db \<Rightarrow> db" where
  "release_task_fence_if_quiescent tid token d =
    (if exists_where (\<lambda>c. ct_task c = tid \<and> unreconciled d c) (task_controls d) then d
     else case token of None \<Rightarrow> drop_fence tid d
          | Some t \<Rightarrow> drop_lease Task_Execution_Fence tid t d)"

subsection \<open>Enqueueing\<close>

record new_cancellation =
  nc_state :: cancellation_state
  nc_operation :: string
  nc_active_tool :: string
  nc_cancellable :: bool
  nc_effect :: cancellation_effect
  nc_owner :: "owner option"
  nc_lease :: time
  nc_error :: string

definition control_event_type :: "control_kind \<Rightarrow> string" where
  "control_event_type k =
    (if k = Interrupt then ''interrupt''
     else if k \<in> {Cancel, Redirect, Pause, Resume} then control_kind_name k else ''user_control'')"

text \<open>The open control of the same operation, when the new one is an intent\<close>

definition duplicate_of :: "db \<Rightarrow> ident \<Rightarrow> new_cancellation \<Rightarrow> control_row option" where
  "duplicate_of d tid n =
    (if nc_state n = X_Intent \<and> nc_operation n \<noteq> [] then
       select_first ct_seq (\<lambda>c. ct_task c = tid \<and> ct_state c \<in> {C_Pending, C_Processing} \<and>
         (case find_cancellation d (ct_id c) of None \<Rightarrow> False
          | Some x \<Rightarrow> cx_operation x = nc_operation n)) (task_controls d)
     else None)"

text \<open>Recording the cancellation of a new control: its row, and for an intent the lease on the
  cancellation and the fence on the task's execution.\<close>

definition record_cancellation ::
    "env \<Rightarrow> ident \<Rightarrow> ident \<Rightarrow> control_kind \<Rightarrow> new_cancellation \<Rightarrow> db \<Rightarrow> db result" where
  "record_cancellation e cid tid kind n d =
     and_then (insert_cancellation \<lparr>cx_control = cid, cx_state = nc_state n,
         cx_operation = nc_operation n, cx_active_tool = nc_active_tool n,
         cx_cancellable = nc_cancellable n, cx_effect = nc_effect n,
         cx_result = (if nc_state n = X_Resolved then Some [(''requested'', JBool False)] else None),
         cx_error = nc_error n, cx_created_at = now e, cx_attempt_started_at = None,
         cx_reconciled_at = (if nc_state n = X_Resolved then Some (now e) else None)\<rparr> d)
     (\<lambda>d1. if nc_state n \<noteq> X_Intent then Ok d1 else
       (case nc_owner n of
          None \<Rightarrow> Err (Value_Error ''unresolved cancellation intent requires an owner'')
        | Some ow \<Rightarrow>
            let (ok1, d2) = claim_in_transaction e (Control_Cancellation, cid) ow (nc_lease n)
              [(''kind'', JStr (control_kind_name kind)), (''operation_id'', JStr (nc_operation n)),
               (''active_tool'', JStr (nc_active_tool n))] d1 in
            raise_if (\<not> ok1) (Runtime_Error ''could not own new cancellation intent'')
           (raise_if (case find_lease d2 (Task_Execution_Fence, tid) of None \<Rightarrow> False
                | Some f \<Rightarrow> ls_token f \<noteq> ow_token ow)
              (Runtime_Error ''task already has an unresolved cancellation fence'')
           (let (ok2, d3) = claim_in_transaction e (Task_Execution_Fence, tid) ow (nc_lease n)
              [(''control_id'', JStr cid), (''operation_id'', JStr (nc_operation n))] d2 in
            raise_if (\<not> ok2) (Runtime_Error ''could not fence task execution for cancellation'')
              (Ok d3)))))"

definition enqueue_in_transaction ::
    "env \<Rightarrow> (nat \<Rightarrow> ident) \<Rightarrow> ident \<Rightarrow> control_kind \<Rightarrow> string \<Rightarrow> ident option \<Rightarrow> dict \<Rightarrow>
     new_cancellation option \<Rightarrow> db \<Rightarrow> (control_row \<times> db) result" where
  "enqueue_in_transaction e ids tid kind message session payload cancellation d =
     and_then (resolve_lineage_in_transaction d (Some tid) session None)
     (\<lambda>_. raise_if (cancellation \<noteq> None \<and> kind \<notin> {Interrupt, Cancel})
        (Value_Error ''only interrupt/cancel controls have cancellation state'')
     (raise_if (case cancellation of None \<Rightarrow> False | Some n \<Rightarrow> nc_state n \<notin> {X_Intent, X_Resolved})
        (Value_Error ''new cancellation state must be intent or resolved'')
     (let duplicate = (case cancellation of None \<Rightarrow> None | Some n \<Rightarrow> duplicate_of d tid n);
          stored = (case duplicate of None \<Rightarrow> payload
            | Some c \<Rightarrow> dict_update payload
                [(''cancellation_phase'', JStr ''resolved''), (''cancellation_requested'', JBool False),
                 (''cancellation_outcome'', JStr ''already-requested''),
                 (''cancellation_duplicate_of'', JStr (ct_id c))]);
          recorded = (if duplicate = None then cancellation
            else map_option (\<lambda>n. n\<lparr>nc_state := X_Resolved\<rparr>) cancellation);
          cid = ids 0;
          row = \<lparr>ct_id = cid, ct_task = tid, ct_session = session,
            ct_seq = next_seq ct_seq (\<lambda>c. ct_task c = tid) (task_controls d), ct_kind = kind,
            ct_priority = priority kind, ct_state = C_Pending, ct_message = message,
            ct_payload = stored, ct_created_at = now e, ct_applied_at = None\<rparr> in
      and_then (insert_control row d)
      (\<lambda>d1. and_then (case recorded of None \<Rightarrow> Ok d1
          | Some n \<Rightarrow> record_cancellation e cid tid kind n d1)
      (\<lambda>d2. and_then (insert_state_event (now e) (ids 1) (control_event_type kind) message session
          None (Some tid) None
          [(''control_id'', JStr cid), (''seq'', JInt (ct_seq row)),
           (''kind'', JStr (control_kind_name kind)), (''state'', JStr ''pending'')] ''normal'' d2)
      (\<lambda>(_, d3). Ok (row, d3)))))))"

definition enqueue ::
    "env \<Rightarrow> (nat \<Rightarrow> ident) \<Rightarrow> ident \<Rightarrow> string \<Rightarrow> string \<Rightarrow> ident option \<Rightarrow> dict \<Rightarrow>
     new_cancellation option \<Rightarrow> db \<Rightarrow> control_row result \<times> db" where
  "enqueue e ids tid kind message session payload cancellation d = (case find_task d tid of
     None \<Rightarrow> (Inl (Key_Error ''unknown task''), d)
   | Some _ \<Rightarrow> (case parse_kind kind of
       None \<Rightarrow> (Inl (Value_Error ''unsupported control kind''), d)
     | Some k \<Rightarrow>
         if k \<in> {Interrupt, Cancel} \<and> cancellation = None
         then (Inl (Value_Error ''interrupt/cancel controls require durable cancellation state''), d)
         else transact (enqueue_in_transaction e ids tid k message session payload cancellation) d))"

definition is_cancellation_key :: "string \<Rightarrow> bool" where
  "is_cancellation_key k = starts_with k ''cancellation_''"

fun effect_name :: "cancellation_effect \<Rightarrow> string" where
  "effect_name Execute_Effect = ''execute''"
| "effect_name Destructive_Effect = ''destructive''"

definition enqueue_cancellation ::
    "env \<Rightarrow> (nat \<Rightarrow> ident) \<Rightarrow> ident \<Rightarrow> string \<Rightarrow> string \<Rightarrow> ident option \<Rightarrow> dict \<Rightarrow> string \<Rightarrow> bool \<Rightarrow>
     cancellation_effect \<Rightarrow> string \<Rightarrow> owner option \<Rightarrow> bool \<Rightarrow> string \<Rightarrow> db \<Rightarrow> control_row result \<times> db" where
  "enqueue_cancellation e ids tid kind message session payload tool cancellable eff operation ow
     ready outcome d =
    (let base = [(''cancellation_phase'', JStr (if ready then ''resolved'' else ''intent'')),
                 (''active_tool'', JStr tool), (''cancellable'', JBool cancellable),
                 (''cancellation_effect'', JStr (effect_name eff)),
                 (''cancellation_requested'', JBool False)];
         info = (if outcome \<noteq> [] then base @ [(''cancellation_outcome'', JStr outcome)] else base);
         trusted = filter (\<lambda>(k, v). \<not> is_cancellation_key k) payload in
     enqueue e ids tid kind message session (dict_update trusted info)
       (Some \<lparr>nc_state = (if ready then X_Resolved else X_Intent), nc_operation = operation,
          nc_active_tool = tool, nc_cancellable = cancellable, nc_effect = eff, nc_owner = ow,
          nc_lease = seconds 30, nc_error = []\<rparr>) d)"

subsection \<open>Attempting and reconciling a cancellation\<close>

definition begin_cancellation :: "env \<Rightarrow> owner \<Rightarrow> time \<Rightarrow> ident \<Rightarrow> db \<Rightarrow> control_row result \<times> db" where
  "begin_cancellation e ow lease cid = transact (\<lambda>d. case control_cancellation d cid of
     None \<Rightarrow> Err (Key_Error ''unknown cancellation control'')
   | Some (c, x) \<Rightarrow>
       raise_if (ct_state c \<noteq> C_Pending \<or> cx_state x \<noteq> X_Intent)
         (Runtime_Error ''cancellation attempt is no longer pending'')
      (raise_if (cx_effect x = Destructive_Effect)
         (Permission_Error ''destructive cancellation requires separately authorized process control'')
      (let (claimed, d1) = claim_in_transaction e (Control_Cancellation, cid) ow lease
         [(''kind'', JStr (control_kind_name (ct_kind c))), (''operation_id'', JStr (cx_operation x)),
          (''active_tool'', JStr (cx_active_tool x))] d in
       raise_if (\<not> claimed) (Runtime_Error ''cancellation attempt already has a live owner'')
      (let P = (\<lambda>y. cx_control y = cid \<and> cx_state y = X_Intent) in
       raise_if (count_where P (control_cancellations d1) \<noteq> 1)
         (Runtime_Error ''cancellation intent changed concurrently'')
      (and_then (set_pending_payload cid
           (AList.update ''cancellation_phase'' (JStr ''attempting'') (ct_payload c))
           (update_cancellations P
             (\<lambda>y. y\<lparr>cx_state := X_Attempting, cx_attempt_started_at := Some (now e)\<rparr>) d1))
       (\<lambda>d2. case find_control d2 cid of
          None \<Rightarrow> Err (Key_Error ''unknown control'') | Some c' \<Rightarrow> Ok (c', d2)))))))"

text \<open>The lease a resolution needs: held under the owner's token and not expired.\<close>

definition owns_lease :: "env \<Rightarrow> resource_type \<Rightarrow> ident \<Rightarrow> owner \<Rightarrow> db \<Rightarrow> bool" where
  "owns_lease e rtype cid ow d = (case find_lease d (rtype, cid) of
     None \<Rightarrow> False | Some l \<Rightarrow> ls_token l = ow_token ow \<and> now e < ls_expires_at l)"

definition set_error :: "string \<Rightarrow> dict \<Rightarrow> dict" where
  "set_error error payload =
    (if error \<noteq> [] then AList.update ''cancellation_error'' (JStr error) payload
     else AList.delete ''cancellation_error'' payload)"

definition resolve_unattempted_cancellation ::
    "env \<Rightarrow> owner \<Rightarrow> string \<Rightarrow> string \<Rightarrow> ident \<Rightarrow> db \<Rightarrow> control_row result \<times> db" where
  "resolve_unattempted_cancellation e ow outcome error cid = transact (\<lambda>d.
     case control_cancellation d cid of
       None \<Rightarrow> Err (Runtime_Error ''unattempted cancellation resolution lost ownership'')
     | Some (c, x) \<Rightarrow>
         raise_if (ct_state c \<noteq> C_Pending \<or> cx_state x \<noteq> X_Intent \<or>
             \<not> owns_lease e Control_Cancellation cid ow d)
           (Runtime_Error ''unattempted cancellation resolution lost ownership'')
        (let payload = set_error (take 256 error) (dict_update (ct_payload c)
               [(''cancellation_phase'', JStr ''resolved''), (''cancellation_requested'', JBool False),
                (''cancellation_outcome'', JStr (take 128 outcome))]);
             P = (\<lambda>y. cx_control y = cid \<and> cx_state y = X_Intent) in
         raise_if (count_where P (control_cancellations d) \<noteq> 1)
           (Runtime_Error ''cancellation intent changed concurrently'')
        (and_then (set_pending_payload cid payload (update_cancellations P
             (\<lambda>y. y\<lparr>cx_state := X_Resolved, cx_result := Some [(''requested'', JBool False)],
                  cx_error := take 256 error, cx_reconciled_at := Some (now e)\<rparr>) d))
         (\<lambda>d1. let d2 = release_task_fence_if_quiescent (ct_task c) (Some (ow_token ow))
                 (drop_lease Control_Cancellation cid (ow_token ow) d1) in
           case find_control d2 cid of
             None \<Rightarrow> Err (Key_Error ''unknown control'') | Some c' \<Rightarrow> Ok (c', d2)))))"

text \<open>\<^verbatim>\<open>requested\<close>, from what the callback returned: only a boolean is believed.\<close>

definition requested_truth :: "json \<Rightarrow> bool" where
  "requested_truth result =
    (case (case result of JObj m \<Rightarrow> (case map_of m ''requested'' of None \<Rightarrow> JNull | Some v \<Rightarrow> v)
           | v \<Rightarrow> v) of
       JBool b \<Rightarrow> b | _ \<Rightarrow> True)"

definition reconcile_cancellation ::
    "env \<Rightarrow> ident \<Rightarrow> owner \<Rightarrow> json \<Rightarrow> string \<Rightarrow> bool \<Rightarrow> ident \<Rightarrow> db \<Rightarrow> control_row result \<times> db" where
  "reconcile_cancellation e uuid ow result error ambiguous cid = transact (\<lambda>d.
     case control_cancellation d cid of
       None \<Rightarrow> Err (Key_Error ''unknown cancellation control'')
     | Some (c, x) \<Rightarrow>
         raise_if (ct_state c \<noteq> C_Pending \<or> cx_state x \<noteq> X_Attempting \<or>
             \<not> owns_lease e Control_Cancellation cid ow d)
           (Runtime_Error ''cancellation reconciliation lost ownership'')
        (let final = (if ambiguous then X_Ambiguous else X_Resolved);
             requested = requested_truth result;
             truth = [(''requested'', if ambiguous then JNull else JBool requested)];
             payload = set_error (take 256 error) (dict_update (ct_payload c)
               [(''cancellation_phase'', JStr (if ambiguous then ''ambiguous'' else ''resolved'')),
                (''cancellation_requested'', if ambiguous then JNull else JBool requested),
                (''cancellation_outcome'', JStr (if ambiguous then ''ambiguous''
                   else if requested then ''request-dispatched'' else ''not-requested'')),
                (''cancellation_result'', JObj truth)]);
             P = (\<lambda>y. cx_control y = cid \<and> cx_state y = X_Attempting) in
         raise_if (count_where P (control_cancellations d) \<noteq> 1)
           (Runtime_Error ''cancellation attempt changed concurrently'')
        (and_then (set_pending_payload cid payload (update_cancellations P
             (\<lambda>y. y\<lparr>cx_state := final, cx_result := Some truth, cx_error := take 256 error,
                  cx_reconciled_at := Some (now e)\<rparr>) d))
         (\<lambda>d1. let d2 = drop_lease Control_Cancellation cid (ow_token ow) d1 in
           and_then (if ambiguous
             then and_then (fail_task_for_ambiguous_cancellation e uuid (ct_task c) cid
                 (if take 256 error \<noteq> [] then take 256 error
                  else ''cancellation callback outcome is ambiguous'') d2)
               (\<lambda>d3. Ok (drop_fence (ct_task c) d3))
             else Ok (release_task_fence_if_quiescent (ct_task c) (Some (ow_token ow)) d2))
           (\<lambda>d4. case find_control d4 cid of
              None \<Rightarrow> Err (Key_Error ''unknown control'') | Some c' \<Rightarrow> Ok (c', d4))))))"

text \<open>The payload and the record of an attempt whose outcome stays unknown\<close>

definition ambiguous_payload :: "string \<Rightarrow> dict \<Rightarrow> dict" where
  "ambiguous_payload error payload = dict_update payload
     [(''cancellation_phase'', JStr ''ambiguous''), (''cancellation_requested'', JNull),
      (''cancellation_outcome'', JStr ''ambiguous''),
      (''cancellation_result'', JObj [(''requested'', JNull)]), (''cancellation_error'', JStr error)]"

definition mark_ambiguous :: "env \<Rightarrow> ident \<Rightarrow> string \<Rightarrow> db \<Rightarrow> db" where
  "mark_ambiguous e cid error d = update_cancellations
     (\<lambda>y. cx_control y = cid \<and> cx_state y = X_Attempting)
     (\<lambda>y. y\<lparr>cx_state := X_Ambiguous, cx_result := Some [(''requested'', JNull)], cx_error := error,
          cx_reconciled_at := Some (now e)\<rparr>) d"

definition abandon_cancellation ::
    "env \<Rightarrow> ident \<Rightarrow> owner \<Rightarrow> string \<Rightarrow> ident \<Rightarrow> db \<Rightarrow> control_row result \<times> db" where
  "abandon_cancellation e uuid ow error cid = transact (\<lambda>d.
     case control_cancellation d cid of
       None \<Rightarrow> Err (Key_Error ''unknown cancellation control'')
     | Some (c, x) \<Rightarrow>
         and_then (if cx_state x = X_Ambiguous then Ok d else
           raise_if (ct_state c \<noteq> C_Pending \<or> cx_state x \<noteq> X_Attempting \<or>
               \<not> same_owner (find_lease d (Control_Cancellation, cid)) ow \<or>
               \<not> owner_alive e (ow_pid ow) (ow_start ow))
             (Runtime_Error ''cancellation cannot be abandoned by this owner'')
          (raise_if (count_where (\<lambda>y. cx_control y = cid \<and> cx_state y = X_Attempting)
               (control_cancellations d) \<noteq> 1)
             (Runtime_Error ''cancellation attempt changed concurrently'')
          (and_then (set_pending_payload cid (ambiguous_payload (take 256 error) (ct_payload c))
               (mark_ambiguous e cid (take 256 error) d))
           (\<lambda>d1. and_then (fail_task_for_ambiguous_cancellation e uuid (ct_task c) cid
               (take 256 error) (drop_lease Control_Cancellation cid (ow_token ow) d1))
           (\<lambda>d2. Ok (drop_fence (ct_task c) d2))))))
         (\<lambda>d3. case find_control d3 cid of
            None \<Rightarrow> Err (Key_Error ''unknown control'') | Some c' \<Rightarrow> Ok (c', d3)))"

subsection \<open>Recovery\<close>

definition resolve_unattempted_in_transaction ::
    "env \<Rightarrow> control_row \<Rightarrow> string \<Rightarrow> string \<Rightarrow> db \<Rightarrow> (nat \<times> db) result" where
  "resolve_unattempted_in_transaction e c outcome error d =
    (let payload = (let p = dict_update (ct_payload c)
           [(''cancellation_phase'', JStr ''resolved''), (''cancellation_requested'', JBool False),
            (''cancellation_outcome'', JStr outcome)] in
         if error \<noteq> [] then AList.update ''cancellation_error'' (JStr error) p else p);
         P = (\<lambda>y. cx_control y = ct_id c \<and> cx_state y = X_Intent);
         changed = count_where P (control_cancellations d);
         d1 = update_cancellations P (\<lambda>y. y\<lparr>cx_state := X_Resolved,
           cx_result := Some [(''requested'', JBool False)], cx_error := error,
           cx_reconciled_at := Some (now e)\<rparr>) d in
     if changed = 0 then Ok (0, d1)
     else and_then (set_pending_payload (ct_id c) payload d1) (\<lambda>d2. Ok (changed, d2)))"

definition heartbeat_expired_error :: string where
  "heartbeat_expired_error =
     ''cancellation heartbeat expired after attempt began; the live callback outcome is unknown''"

definition owner_lost_error :: string where
  "owner_lost_error = ''cancellation owner was lost after attempt began; outcome is unknown''"

text \<open>One control of the recovery loop, with the cancellation state the query read for it.\<close>

definition recover_one ::
    "env \<Rightarrow> owner \<Rightarrow> time \<Rightarrow> ident \<Rightarrow> ident \<Rightarrow> control_row \<Rightarrow> cancellation_state \<Rightarrow> db \<Rightarrow> (nat \<times> db) result" where
  "recover_one e ow lease uuid tid c xstate d =
    (let cid = ct_id c; existing = find_lease d (Control_Cancellation, cid);
         attempting = (\<lambda>y. cx_control y = cid \<and> cx_state y = X_Attempting) in
     case (case existing of None \<Rightarrow> None
           | Some l \<Rightarrow> if owner_alive e (ls_pid l) (ls_start l) then Some l else None) of
       Some l \<Rightarrow>
         if now e < ls_expires_at l \<or> xstate = X_Intent then Ok (0, d)
         else if count_where attempting (control_cancellations d) = 0 then Ok (0, d)
         else
           and_then (set_pending_payload cid (ambiguous_payload heartbeat_expired_error (ct_payload c))
             (mark_ambiguous e cid heartbeat_expired_error d))
          (\<lambda>d1. and_then (fail_task_for_ambiguous_cancellation e uuid tid cid heartbeat_expired_error d1)
          (\<lambda>d2. Ok (1, drop_fence tid (d2\<lparr>resource_leases := delete_where
             (\<lambda>x. ls_type x = Control_Cancellation \<and> ls_key x = cid \<and> ls_token x = ls_token l \<and>
                ls_pid x = ls_pid l \<and> ls_start x = ls_start l) (resource_leases d2)\<rparr>))))
     | None \<Rightarrow>
         let (claimed, d0) = claim_in_transaction e (Control_Cancellation, cid) ow lease
               [(''recovery'', JBool True), (''task_id'', JStr tid)] d in
         if \<not> claimed then Ok (0, d0)
         else if xstate = X_Intent then
           and_then (resolve_unattempted_in_transaction e c ''recovered-before-attempt'' [] d0)
           (\<lambda>(n, d1). Ok (n, release_task_fence_if_quiescent tid None
              (drop_lease Control_Cancellation cid (ow_token ow) d1)))
         else
           let changed = count_where attempting (control_cancellations d0) in
           and_then (if changed = 0 then Ok (mark_ambiguous e cid owner_lost_error d0) else
               and_then (set_pending_payload cid (ambiguous_payload owner_lost_error (ct_payload c))
                 (mark_ambiguous e cid owner_lost_error d0))
               (\<lambda>d1. fail_task_for_ambiguous_cancellation e uuid tid cid owner_lost_error d1))
           (\<lambda>d2. Ok (if changed = 0 then 0 else 1,
              drop_fence tid (drop_lease Control_Cancellation cid (ow_token ow) d2))))"

fun recover_rows ::
    "env \<Rightarrow> owner \<Rightarrow> time \<Rightarrow> (nat \<Rightarrow> ident) \<Rightarrow> ident \<Rightarrow> (control_row \<times> cancellation_state) list \<Rightarrow> nat \<Rightarrow> db \<Rightarrow>
     (nat \<times> db) result" where
  "recover_rows e ow lease ids tid [] n d = Ok (n, d)"
| "recover_rows e ow lease ids tid ((c, x) # rows) n d =
     and_then (recover_one e ow lease (ids (length rows)) tid c x d)
     (\<lambda>(m, d'). recover_rows e ow lease ids tid rows (n + m) d')"

text \<open>\<^verbatim>\<open>ORDER BY c.priority,c.seq\<close>\<close>

definition control_order :: "control_row \<Rightarrow> int \<times> int" where
  "control_order c = (ct_priority c, ct_seq c)"

definition cancellation_state_of :: "db \<Rightarrow> control_row \<Rightarrow> cancellation_state" where
  "cancellation_state_of d c = (case find_cancellation d (ct_id c) of
     None \<Rightarrow> X_Resolved | Some x \<Rightarrow> cx_state x)"

definition recover_cancellations ::
    "env \<Rightarrow> (nat \<Rightarrow> ident) \<Rightarrow> owner \<Rightarrow> time \<Rightarrow> ident \<Rightarrow> db \<Rightarrow> nat result \<times> db" where
  "recover_cancellations e ids ow lease tid = transact (\<lambda>d.
     recover_rows e ow lease ids tid
       (map (\<lambda>c. (c, cancellation_state_of d c))
         (sort_key control_order (filter (\<lambda>c. ct_task c = tid \<and> unreconciled d c) (task_controls d)))) 0 d)"

definition unreconciled_cancellation :: "db \<Rightarrow> ident \<Rightarrow> control_row option" where
  "unreconciled_cancellation d tid =
     select_first control_order (\<lambda>c. ct_task c = tid \<and> unreconciled d c) (task_controls d)"

subsection \<open>Processing controls\<close>

definition list_controls :: "ident \<Rightarrow> control_state option \<Rightarrow> nat \<Rightarrow> db \<Rightarrow> control_row list" where
  "list_controls tid state limit d = take limit (sort_key ct_seq
     (filter (\<lambda>c. ct_task c = tid \<and> (state = None \<or> Some (ct_state c) = state)) (task_controls d)))"

definition claim_next ::
    "env \<Rightarrow> owner \<Rightarrow> time \<Rightarrow> ident \<Rightarrow> db \<Rightarrow> control_row option result \<times> db" where
  "claim_next e ow lease tid = transact (\<lambda>d.
     case select_first control_order (\<lambda>c. ct_task c = tid \<and> ct_state c = C_Pending) (task_controls d) of
       None \<Rightarrow> Ok (None, d)
     | Some c \<Rightarrow>
         let x = find_cancellation d (ct_id c) in
         if ct_kind c \<in> {Interrupt, Cancel} \<and> x = None then Ok (None, d)
         else if (case x of None \<Rightarrow> False | Some y \<Rightarrow> \<not> cancellation_ready (cx_state y)) then Ok (None, d)
         else
           let (claimed, d1) = claim_in_transaction e (Task_Control, ct_id c) ow lease
                 [(''task_id'', JStr tid)] d in
           if \<not> claimed then Ok (None, d1)
           else
             let P = (\<lambda>y. ct_id y = ct_id c \<and> ct_state y = C_Pending) in
             and_then (update_controls P (\<lambda>y. y\<lparr>ct_state := C_Processing\<rparr>) d1)
             (\<lambda>d2. if count_where P (task_controls d1) \<noteq> 1
                then Ok (None, drop_lease Task_Control (ct_id c) (ow_token ow) d2)
                else Ok (find_control d2 (ct_id c), d2)))"

definition finish ::
    "env \<Rightarrow> ident \<Rightarrow> owner \<Rightarrow> bool \<Rightarrow> dict \<Rightarrow> ident \<Rightarrow> db \<Rightarrow> control_row result \<times> db" where
  "finish e uuid ow success payload cid d =
    (if list_ex (\<lambda>(k, v). is_cancellation_key k) payload
     then (Inl (Value_Error ''cancellation truth may only be written by reconciliation''), d) else
     transact (\<lambda>d. case find_control d cid of
       None \<Rightarrow> Err (Key_Error ''unknown control'')
     | Some c \<Rightarrow>
         let x = find_cancellation d cid; state = (if success then C_Applied else C_Failed);
             P = (\<lambda>y. ct_id y = cid \<and> ct_state y = C_Processing) in
         raise_if (ct_state c \<noteq> C_Processing) (Runtime_Error ''control is already settled'')
        (raise_if (ct_kind c \<in> {Interrupt, Cancel} \<and> x = None)
           (Runtime_Error ''cancellation control has no durable outcome state'')
        (raise_if (case x of None \<Rightarrow> False | Some y \<Rightarrow> \<not> cancellation_ready (cx_state y))
           (Runtime_Error ''cancellation outcome is not reconciled'')
        (raise_if (\<not> owns_lease e Task_Control cid ow d)
           (Runtime_Error ''control is not owned by this processor'')
        (raise_if (count_where P (task_controls d) \<noteq> 1)
           (Runtime_Error ''control changed concurrently'')
        (and_then (update_controls P (\<lambda>y. y\<lparr>ct_state := state,
             ct_payload := dict_update (ct_payload c) payload, ct_applied_at := Some (now e)\<rparr>) d)
        (\<lambda>d1. and_then (insert_state_event (now e) uuid (control_event_type (ct_kind c)) (ct_message c)
            (ct_session c) None (Some (ct_task c)) None
            [(''control_id'', JStr (ct_id c)), (''seq'', JInt (ct_seq c)),
             (''kind'', JStr (control_kind_name (ct_kind c))),
             (''state'', JStr (if success then ''applied'' else ''failed''))] ''normal''
            (drop_lease Task_Control cid (ow_token ow) d1))
        (\<lambda>(_, d2). case find_control d2 cid of
           None \<Rightarrow> Err (Key_Error ''unknown control'') | Some c' \<Rightarrow> Ok (c', d2))))))))) d)"

definition annotate :: "env \<Rightarrow> dict \<Rightarrow> owner option \<Rightarrow> ident \<Rightarrow> db \<Rightarrow> control_row result \<times> db" where
  "annotate e payload ow cid d =
    (if list_ex (\<lambda>(k, v). is_cancellation_key k) payload
     then (Inl (Value_Error ''cancellation truth may only be written by reconciliation''), d) else
     transact (\<lambda>d. case find_control d cid of
       None \<Rightarrow> Err (Key_Error ''unknown control'')
     | Some c \<Rightarrow>
         if ct_state c \<notin> {C_Pending, C_Processing} then Ok (c, d) else
         raise_if (ct_state c = C_Processing \<and> (case ow of None \<Rightarrow> True
             | Some w \<Rightarrow> \<not> owns_lease e Task_Control cid w d))
           (Runtime_Error ''control is owned by another processor'')
        (and_then (update_controls (\<lambda>y. ct_id y = cid \<and> ct_state y \<in> {C_Pending, C_Processing})
             (\<lambda>y. y\<lparr>ct_payload := dict_update (ct_payload c) payload\<rparr>) d)
         (\<lambda>d1. case find_control d1 cid of
            None \<Rightarrow> Err (Key_Error ''unknown control'') | Some c' \<Rightarrow> Ok (c', d1)))) d)"

fun recover_controls ::
    "env \<Rightarrow> owner \<Rightarrow> time \<Rightarrow> ident \<Rightarrow> control_row list \<Rightarrow> nat \<Rightarrow> db \<Rightarrow> (nat \<times> db) result" where
  "recover_controls e ow lease tid [] n d = Ok (n, d)"
| "recover_controls e ow lease tid (c # rows) n d =
    (let (claimed, d1) = claim_in_transaction e (Task_Control, ct_id c) ow lease
           [(''task_id'', JStr tid), (''recovery'', JBool True)] d in
     if \<not> claimed then recover_controls e ow lease tid rows n d1
     else
       let P = (\<lambda>y. ct_id y = ct_id c \<and> ct_state y = C_Processing) in
       and_then (update_controls P (\<lambda>y. y\<lparr>ct_state := C_Pending,
            ct_payload := AList.update ''recovered_after_disconnect'' (JBool True) (ct_payload c)\<rparr>) d1)
       (\<lambda>d2. recover_controls e ow lease tid rows (n + count_where P (task_controls d1))
          (drop_lease Task_Control (ct_id c) (ow_token ow) d2)))"

definition recover_processing :: "env \<Rightarrow> owner \<Rightarrow> time \<Rightarrow> ident \<Rightarrow> db \<Rightarrow> nat result \<times> db" where
  "recover_processing e ow lease tid = transact (\<lambda>d. recover_controls e ow lease tid
     (sort_key ct_seq (filter (\<lambda>c. ct_task c = tid \<and> ct_state c = C_Processing) (task_controls d))) 0 d)"

definition pending_context :: "ident \<Rightarrow> db \<Rightarrow> (ident \<times> int \<times> control_kind \<times> string \<times> dict) list" where
  "pending_context tid d = map (\<lambda>c. (ct_id c, ct_seq c, ct_kind c, ct_message c, ct_payload c))
     (list_controls tid (Some C_Pending) 200 d)"

end
