(* ===== verification/Journal.thy ===== *)
theory Journal
  imports Approvals Orchestration Control_Queue "HOL-Library.List_Lexorder" "HOL-Library.Char_ord"
begin

section \<open>The action journal and the tools that write it\<close>

text \<open>
  \<^verbatim>\<open>src/tars/action_journal.py\<close> and \<^verbatim>\<open>ToolRuntime\<close> of \<^verbatim>\<open>src/tars/tool_core.py\<close>.  Every effect a tool
  has outside the store is journaled before it starts and after it ends, under a lease that tells
  whether its executor lives.  Beside the database the state holds the journal's table and what
  one process remembers: the groups of actions that share workspaces, and the owner each thread
  uses.  Clocks, identifiers, the owner a process creates for itself and the error of a heartbeat
  that was lost are arguments.
\<close>

subsection \<open>The table\<close>

datatype action_state =
    Act_Proposed | Act_Running | Act_Succeeded | Act_Failed | Act_Denied | Act_Cancelled | Act_Unknown

record action_row =
  aj_id :: ident
  aj_task :: "ident option"
  aj_session :: "ident option"
  aj_event :: ident
  aj_tool :: string
  aj_arguments :: json
  aj_target :: string
  aj_effect :: string
  aj_risk :: string
  aj_policy :: policy_action
  aj_reason :: string
  aj_approval :: "ident option"
  aj_state :: action_state
  aj_result :: "json option"
  aj_created_at :: time
  aj_started_at :: "time option"
  aj_completed_at :: "time option"

record lease_group =
  lg_waiting :: "ident list"
  lg_keys :: "string list"
  lg_owner :: owner
  lg_thread :: "nat option"

record journal =
  jn_actions :: "action_row list"
  jn_groups :: "lease_group list"
  jn_threads :: "(nat \<times> (owner \<times> nat)) list"

type_synonym journaled = "journal \<times> db"

fun action_state_name :: "action_state \<Rightarrow> string" where
  "action_state_name Act_Proposed = ''proposed''"
| "action_state_name Act_Running = ''running''"
| "action_state_name Act_Succeeded = ''succeeded''"
| "action_state_name Act_Failed = ''failed''"
| "action_state_name Act_Denied = ''denied''"
| "action_state_name Act_Cancelled = ''cancelled''"
| "action_state_name Act_Unknown = ''unknown''"

definition action_final :: "action_state \<Rightarrow> bool" where
  "action_final st = (st \<in> {Act_Succeeded, Act_Failed, Act_Denied, Act_Cancelled, Act_Unknown})"

text \<open>The triggers check the same of a new row and of an updated one.\<close>

definition action_lineage :: "db \<Rightarrow> action_row \<Rightarrow> string option" where
  "action_lineage d r = first_abort
     [abort_unless (case (aj_task r, aj_session r) of
          (Some tid, Some sid) \<Rightarrow> same_conversation d tid sid | _ \<Rightarrow> True)
        ''action session lineage does not match task'',
      abort_unless (exists_where (\<lambda>e. se_uuid e = aj_event r \<and> se_task e = aj_task r \<and> se_session e = aj_session r)
          (state_events d))
        ''action lineage does not match state event'',
      abort_unless (case aj_approval r of None \<Rightarrow> True | Some aid \<Rightarrow>
          exists_where (\<lambda>a. ap_id a = aid \<and> ap_task a = aj_task r \<and> ap_session a = aj_session r) (approvals d))
        ''action lineage does not match approval'']"

definition action_refs :: "db \<Rightarrow> action_row \<Rightarrow> bool" where
  "action_refs d r = (optional (task_exists d) (aj_task r) \<and> optional (session_exists d) (aj_session r) \<and>
     optional (\<lambda>aid. find_approval d aid \<noteq> None) (aj_approval r))"

definition insert_action :: "action_row \<Rightarrow> journaled \<Rightarrow> journaled result" where
  "insert_action r s = and_then (admit (action_lineage (snd s) r) True
       (fresh aj_id (aj_id r) (jn_actions (fst s))) (action_refs (snd s) r) (snd s)) (\<lambda>_.
     Ok ((fst s)\<lparr>jn_actions := jn_actions (fst s) @ [r]\<rparr>, snd s))"

definition update_actions :: "(action_row \<Rightarrow> bool) \<Rightarrow> (action_row \<Rightarrow> action_row) \<Rightarrow> journaled \<Rightarrow> journaled result" where
  "update_actions P f s = and_then (update_rows (\<lambda>_. action_lineage (snd s)) P f (jn_actions (fst s))) (\<lambda>t.
     Ok ((fst s)\<lparr>jn_actions := t\<rparr>, snd s))"

definition find_action :: "journaled \<Rightarrow> ident \<Rightarrow> action_row option" where
  "find_action s aid = select_one aj_id aid (jn_actions (fst s))"

definition load_action :: "ident \<Rightarrow> journaled \<Rightarrow> action_row result" where
  "load_action aid s = (case find_action s aid of
     None \<Rightarrow> Err (Key_Error ''unknown action'') | Some r \<Rightarrow> Ok r)"

text \<open>Statements on the database alone, inside a transaction\<close>

definition with_db :: "('a \<times> db) result \<Rightarrow> 'r \<Rightarrow> ('a \<times> ('r \<times> db)) result" where
  "with_db r j = and_then r (\<lambda>(x, d). Ok (x, (j, d)))"

subsection \<open>Beginning an action\<close>

abbreviation on_action :: "ident \<Rightarrow> resource" where
  "on_action aid \<equiv> (Other_Resource ''action'', aid)"

text \<open>A one-call approval is consumed in the transaction that writes the action.\<close>

definition consume_in_transaction :: "time \<Rightarrow> ident option \<Rightarrow> db \<Rightarrow> db result" where
  "consume_in_transaction stamp approval d =
    (if missing_id approval then Ok d else
     (case find_approval d (the approval) of
        None \<Rightarrow> Ok d
      | Some a \<Rightarrow>
        if ap_scope a \<noteq> Call_Scope then Ok d else
        (let P = (\<lambda>x. ap_id x = the approval \<and> ap_state x = A_Approved) in
         and_then (update_approvals P (\<lambda>x. x\<lparr>ap_state := A_Consumed, ap_consumed_at := Some stamp\<rparr>) d) (\<lambda>d'.
         raise_if (count_where P (approvals d) \<noteq> 1) (Permission_Error ''one-call approval was already consumed'')
         (Ok d')))))"

definition new_action ::
    "time \<Rightarrow> ident \<Rightarrow> ident \<Rightarrow> scope_request \<Rightarrow> decision \<Rightarrow> ident option \<Rightarrow> action_state \<Rightarrow> json option \<Rightarrow> action_row" where
  "new_action stamp aid uuid r p approval st result = \<lparr>aj_id = aid, aj_task = rq_task r,
     aj_session = rq_session r, aj_event = uuid, aj_tool = rq_tool r, aj_arguments = redact (pd_arguments p),
     aj_target = pd_target p, aj_effect = pd_effect p, aj_risk = pd_risk p, aj_policy = pd_action p,
     aj_reason = pd_reason p, aj_approval = approval, aj_state = st, aj_result = map_option redact result,
     aj_created_at = stamp, aj_started_at = (if st = Act_Running then Some stamp else None),
     aj_completed_at = (if action_final st then Some stamp else None)\<rparr>"

fun policy_name :: "policy_action \<Rightarrow> string" where
  "policy_name Allow = ''allow''"
| "policy_name Ask = ''ask''"
| "policy_name Deny = ''deny''"

definition opt_text :: "string option \<Rightarrow> json" where
  "opt_text x = (case x of None \<Rightarrow> JNull | Some s \<Rightarrow> JStr s)"

definition action_event ::
    "time \<Rightarrow> ident \<Rightarrow> ident \<Rightarrow> scope_request \<Rightarrow> decision \<Rightarrow> ident option \<Rightarrow> action_state \<Rightarrow> db \<Rightarrow>
     (state_event_row \<times> db) result" where
  "action_event stamp uuid aid r p approval st d =
     insert_state_event stamp uuid (if st = Act_Running then ''tool_execution'' else ''policy_decision'')
       (rq_tool r @ '': '' @ action_state_name st) (rq_session r) None (rq_task r) None
       [(''action_id'', JStr aid), (''tool'', JStr (rq_tool r)), (''target'', JStr (pd_target p)),
        (''effect'', JStr (pd_effect p)), (''risk_class'', JStr (pd_risk p)),
        (''policy_action'', JStr (policy_name (pd_action p))), (''approval_id'', opt_text approval)]
       ''normal'' d"

definition lease_action :: "env \<Rightarrow> ident \<Rightarrow> scope_request \<Rightarrow> owner \<Rightarrow> db \<Rightarrow> db result" where
  "lease_action e aid r ow d =
    (let (claimed, d') = claim_in_transaction e (on_action aid) ow (seconds 86400)
           [(''tool'', JStr (rq_tool r)), (''task_id'', opt_text (rq_task r))] d in
     raise_if (\<not> claimed) (Runtime_Error ''new action could not acquire ownership'') (Ok d'))"

definition create_action_in_transaction ::
    "env \<Rightarrow> ident \<Rightarrow> ident \<Rightarrow> scope_request \<Rightarrow> decision \<Rightarrow> ident option \<Rightarrow> action_state \<Rightarrow> json option \<Rightarrow> owner \<Rightarrow>
     journaled \<Rightarrow> (unit \<times> journaled) result" where
  "create_action_in_transaction e aid uuid r p approval st result ow s =
     and_then (consume_in_transaction (now e) approval (snd s)) (\<lambda>d.
     and_then (action_event (now e) uuid aid r p approval st d) (\<lambda>(ev, d).
     and_then (insert_action (new_action (now e) aid (se_uuid ev) r p approval st result) (fst s, d)) (\<lambda>s.
     and_then (if st = Act_Running then lease_action e aid r ow (snd s) else Ok (snd s)) (\<lambda>d.
     Ok ((), (fst s, d))))))"

text \<open>\<open>own\<close> is the owner the process would create for the action when none is given; the token in
  the record returned is that of the owner used.\<close>

definition create_action ::
    "env \<Rightarrow> ident \<Rightarrow> ident \<Rightarrow> owner \<Rightarrow> scope_request \<Rightarrow> decision \<Rightarrow> ident option \<Rightarrow> action_state \<Rightarrow> json option \<Rightarrow>
     owner option \<Rightarrow> journaled \<Rightarrow> (action_row \<times> string option) result \<times> journaled" where
  "create_action e aid uuid own r p approval st result ow s =
     and_next (transact (create_action_in_transaction e aid uuid r p approval st result (or_else ow own)) s) (\<lambda>_ s.
     and_next (load_action aid s, s) (\<lambda>row s.
     (Ok (row, if st = Act_Running then Some (ow_token (or_else ow own)) else map_option ow_token ow), s)))"

definition error_result :: "string \<Rightarrow> json" where
  "error_result m = JObj [(''error'', JStr m)]"

definition record_denied ::
    "env \<Rightarrow> ident \<Rightarrow> ident \<Rightarrow> owner \<Rightarrow> scope_request \<Rightarrow> decision \<Rightarrow> journaled \<Rightarrow>
     (action_row \<times> string option) result \<times> journaled" where
  "record_denied e aid uuid own r p =
     create_action e aid uuid own r p None Act_Denied (Some (error_result (pd_reason p))) None"

text \<open>\<open>pe\<close> is what the broker sees of the world; the action itself never consumes there.\<close>

definition begin_action ::
    "env \<Rightarrow> policy_env \<Rightarrow> ident \<Rightarrow> ident \<Rightarrow> owner \<Rightarrow> scope_request \<Rightarrow> decision \<Rightarrow> ident option \<Rightarrow> owner option \<Rightarrow>
     journaled \<Rightarrow> (action_row \<times> string option) result \<times> journaled" where
  "begin_action e pe aid uuid own r p approval ow s =
    (if pd_action p = Deny then and_next (record_denied e aid uuid own r p s)
       (\<lambda>_ s. (Err (Permission_Error (pd_reason p)), s))
     else (case on_db (authorize pe r p approval False) s of
       (Inl (Permission_Error m), s) \<Rightarrow>
         and_next (create_action e aid uuid own r p None Act_Denied (Some (error_result m)) None s)
           (\<lambda>_ s. (Err (Permission_Error m), s))
     | (Inl err, s) \<Rightarrow> (Inl err, s)
     | (Inr authorization, s) \<Rightarrow> create_action e aid uuid own r p authorization Act_Running None ow s))"

subsection \<open>Finishing an action\<close>

definition finish_action_in_transaction ::
    "env \<Rightarrow> ident \<Rightarrow> owner \<Rightarrow> action_row \<Rightarrow> action_state \<Rightarrow> json \<Rightarrow> string option \<Rightarrow> journaled \<Rightarrow>
     (unit \<times> journaled) result" where
  "finish_action_in_transaction e uuid caller row st safe token s =
    (let aid = aj_id row; lease = find_lease (snd s) (on_action aid) in
     raise_if (case (token, lease) of
         (Some t, Some l) \<Rightarrow> t = [] \<or> ls_token l \<noteq> t \<or> ls_expires_at l \<le> now e \<or> ls_pid l \<noteq> ow_pid caller \<or>
           ls_start l \<noteq> ow_start caller \<or> \<not> owner_alive e (ls_pid l) (ls_start l)
       | _ \<Rightarrow> True) (Runtime_Error ''action is owned by another or expired executor'')
    (let P = (\<lambda>x. aj_id x = aid \<and> aj_state x = Act_Running) in
     and_then (update_actions P (\<lambda>x. x\<lparr>aj_state := st, aj_result := Some safe, aj_completed_at := Some (now e)\<rparr>) s)
       (\<lambda>s1.
     raise_if (count_where P (jn_actions (fst s)) \<noteq> 1) (Runtime_Error ''action state changed concurrently'')
    (and_then (with_db (insert_state_event (now e) uuid ''tool_result'' (aj_tool row @ '': '' @ action_state_name st)
         (aj_session row) None (aj_task row) None
         [(''action_id'', JStr aid), (''state'', JStr (action_state_name st)), (''result'', safe)] ''normal'' (snd s1))
         (fst s1)) (\<lambda>(_, s2).
     Ok ((), (fst s2, drop_lease (Other_Resource ''action'') aid (the token) (snd s2))))))))"

definition finish_action ::
    "env \<Rightarrow> ident \<Rightarrow> owner \<Rightarrow> ident \<Rightarrow> action_state \<Rightarrow> json \<Rightarrow> string option \<Rightarrow> journaled \<Rightarrow>
     action_row result \<times> journaled" where
  "finish_action e uuid caller aid st result token s =
    (if \<not> action_final st \<or> st = Act_Denied then (Err (Value_Error ''invalid terminal action state''), s) else
     and_next (load_action aid s, s) (\<lambda>row s.
     if aj_state row \<noteq> Act_Running then (Err (Runtime_Error ''action is not running''), s) else
     and_next (transact (finish_action_in_transaction e uuid caller row st (redact result) token) s) (\<lambda>_ s.
     (load_action aid s, s))))"

subsection \<open>Recovery and listing\<close>

definition lost_result :: json where
  "lost_result = error_result ''execution owner was lost; external outcome is unknown''"

definition recover_action ::
    "env \<Rightarrow> owner \<Rightarrow> ident \<Rightarrow> action_row \<Rightarrow> journaled \<Rightarrow> (bool \<times> journaled) result" where
  "recover_action e ow uuid row s =
    (let aid = aj_id row;
         (claimed, d) = claim_in_transaction e (on_action aid) ow (seconds 30) [(''recovery'', JBool True)] (snd s);
         P = (\<lambda>x. aj_id x = aid \<and> aj_state x = Act_Running) in
     if \<not> claimed then Ok (False, (fst s, d)) else
     and_then (update_actions P (\<lambda>x. x\<lparr>aj_state := Act_Unknown, aj_result := Some lost_result,
         aj_completed_at := Some (now e)\<rparr>) (fst s, d)) (\<lambda>s1.
     and_then (if count_where P (jn_actions (fst s)) = 0 then Ok s1 else
         and_then (with_db (insert_state_event (now e) uuid ''tool_result'' (aj_tool row @ '': unknown'')
           (aj_session row) None (aj_task row) None
           [(''action_id'', JStr aid), (''state'', JStr ''unknown''), (''result'', lost_result)] ''normal'' (snd s1))
           (fst s1)) (\<lambda>(_, s2). Ok s2)) (\<lambda>s2.
     Ok (count_where P (jn_actions (fst s)) \<noteq> 0,
       (fst s2, drop_lease (Other_Resource ''action'') aid (ow_token ow) (snd s2))))))"

fun recover_actions ::
    "env \<Rightarrow> owner \<Rightarrow> (nat \<Rightarrow> ident) \<Rightarrow> action_row list \<Rightarrow> nat \<Rightarrow> journaled \<Rightarrow> (nat \<times> journaled) result" where
  "recover_actions e ow ids [] n s = Ok (n, s)"
| "recover_actions e ow ids (row # rows) n s =
     and_then (recover_action e ow (ids 0) row s) (\<lambda>(hit, s).
     recover_actions e ow (\<lambda>k. ids (Suc k)) rows (if hit then n + 1 else n) s)"

definition recover_interrupted_actions ::
    "env \<Rightarrow> owner \<Rightarrow> (nat \<Rightarrow> ident) \<Rightarrow> journaled \<Rightarrow> nat result \<times> journaled" where
  "recover_interrupted_actions e ow ids = transact (\<lambda>s.
     recover_actions e ow ids (filter (\<lambda>r. aj_state r = Act_Running) (jn_actions (fst s))) 0 s)"

definition list_actions ::
    "env \<Rightarrow> owner \<Rightarrow> (nat \<Rightarrow> ident) \<Rightarrow> ident option \<Rightarrow> action_state option \<Rightarrow> nat \<Rightarrow> journaled \<Rightarrow>
     action_row list result \<times> journaled" where
  "list_actions e ow ids task state limit s =
     and_next (recover_interrupted_actions e ow ids s) (\<lambda>_ s.
     (Ok (take limit (sort_key (\<lambda>r. - aj_created_at r) (filter (\<lambda>r.
        (missing_id task \<or> aj_task r = task) \<and> (state = None \<or> Some (aj_state r) = state))
        (jn_actions (fst s))))), s))"

end
