(* ===== verification/Projection.thy ===== *)
theory Projection
  imports Conversations Orchestration
begin

section \<open>Projecting a conversation into a model's context\<close>

text \<open>
  \<^verbatim>\<open>src/tars/context.py\<close>: the prompt for one call of a model, built from the role, the state of
  the task and as much of the conversation as fits.  Older messages are dropped first by a cheap
  estimate of their tokens, then by what the tokenizer of the runtime counts; controls,
  unresolved tool messages and the newest message are never dropped, and a prompt that still does
  not fit is an error.  Parameters (\<open>projector\<close>): the role registry, the configuration, the
  context window of a role's profile, the JSON text of a value, and the tokenizer, which is given
  the number of the call and may raise.  The products with 0.94 and the quotients by 3.0 are
  taken exactly.  The rows of \<^verbatim>\<open>context_projections\<close>, which only this module writes and reads,
  are a list beside the database, with the table's trigger and constraints.
\<close>

type_synonym prompt_message = "string \<times> string"

record projector =
  xe_roles :: role_registry
  xe_generation :: generation_config
  xe_window :: "role_record \<Rightarrow> int result"
  xe_history_limit :: "int option"
  xe_json :: "json \<Rightarrow> string"
  xe_count :: "string \<Rightarrow> nat \<Rightarrow> prompt_message list \<Rightarrow> int result"

subsection \<open>Estimates\<close>

definition estimate_text_tokens :: "string \<Rightarrow> int" where
  "estimate_text_tokens s =
    (if s = [] then 0 else max 1 \<lfloor>rat_of_nat (length s) / 3 + 999 / 1000\<rfloor>)"

definition estimate_messages_tokens :: "prompt_message list \<Rightarrow> int" where
  "estimate_messages_tokens ms = sum_list (map (\<lambda>m. estimate_text_tokens (snd m) + 8) ms) + 16"

subsection \<open>Budgets\<close>

record context_budget =
  xb_role :: string
  xb_model :: string
  xb_runtime :: string
  xb_profile :: string
  xb_window :: int
  xb_reserve :: int
  xb_safety :: int
  xb_usable :: int

definition budget_for_role :: "projector \<Rightarrow> string \<Rightarrow> int option \<Rightarrow> (role_record \<times> generation_budget) result" where
  "budget_for_role x name requested = and_then (role_of (xe_roles x) name) (\<lambda>role.
     raise_if (\<not> rl_enabled (rc_info role)) (Runtime_Error ''role is disabled'')
    (raise_if (rl_model (rc_info role) = []) (Runtime_Error ''role has no model binding'')
    (and_then (xe_window x role) (\<lambda>window.
     and_then (generation_budget_for (xe_generation x) role window requested) (\<lambda>plan.
     Ok (role, plan))))))"

definition context_budget_of :: "role_record \<Rightarrow> generation_budget \<Rightarrow> context_budget" where
  "context_budget_of role plan = \<lparr>xb_role = rc_id role, xb_model = rl_model (rc_info role),
     xb_runtime = rl_runtime_id (rc_info role), xb_profile = rl_profile (rc_info role),
     xb_window = gb_window plan, xb_reserve = gb_reserve plan, xb_safety = gb_safety plan,
     xb_usable = gb_usable plan\<rparr>"

subsection \<open>The fixed messages\<close>

definition role_system_message :: "role_record \<Rightarrow> prompt_message" where
  "role_system_message role =
    (let desc = strip (rl_description (rc_info role));
         text = ''T.A.R.S. execution role: '' @ rl_display_name (rc_info role) @ ''.'' in
     (''system'', if desc = [] then text else text @ '' '' @ desc))"

definition checkpoint_meta :: "checkpoint_row option \<Rightarrow> json" where
  "checkpoint_meta cp = (case cp of None \<Rightarrow> JNull
     | Some c \<Rightarrow> JObj [(''id'', JStr (cp_id c)), (''seq'', JInt (cp_seq c)), (''epoch'', JInt (cp_epoch c)),
         (''reason'', JStr (cp_reason c)), (''sha256'', JStr (cp_sha256 c))])"

definition canonical_task_state :: "db \<Rightarrow> ident \<Rightarrow> dict result" where
  "canonical_task_state d tid = (case find_task d tid of
     None \<Rightarrow> Err (Key_Error ''unknown task'') | Some r \<Rightarrow> Ok (canonical_task_state_from_row r d))"

definition task_system_message :: "projector \<Rightarrow> db \<Rightarrow> ident \<Rightarrow> prompt_message result" where
  "task_system_message x d tid = and_then (canonical_task_state d tid) (\<lambda>state. Ok (''system'',
     ''T.A.R.S. canonical task state follows. Treat this structured state as authoritative for the '' @
     ''active task; do not invent omitted history.'' @ [char_of (10 :: nat)] @
     xe_json x (JObj [(''canonical_task_state'', JObj state),
       (''latest_durable_checkpoint'', checkpoint_meta (latest_checkpoint d tid))])))"

definition sideband_system_message :: prompt_message where
  "sideband_system_message = (''system'',
     ''Sideband mode. Answer the user'' @ [CHR 0x27] @ ''s isolated question using the supplied '' @
     ''conversation/task snapshot. Do not treat this question or answer as a '' @
     ''new instruction, decision, or state change for the main task.'')"

definition default_instruction :: string where
  "default_instruction =
     ''Continue the active T.A.R.S. task from its canonical state. Produce the '' @
     ''next concrete result. Do not claim that tools, files, commands or external '' @
     ''actions were used unless a real ToolResult is present. If tools are not '' @
     ''available, limit this epoch to analysis/planning and state that limitation.''"

definition omission_marker :: "nat \<Rightarrow> prompt_message" where
  "omission_marker omitted = (''system'',
     ''ContextManager omitted '' @ dec omitted @ '' older conversation messages '' @
     ''to fit the target model context. Canonical task state and the '' @
     ''newest conversation turns are preserved.'')"

subsection \<open>The history\<close>

record history_item =
  hi_role :: string
  hi_content :: string
  hi_protected :: bool

definition history_item_of :: "message_row \<Rightarrow> history_item" where
  "history_item_of m = \<lparr>hi_role = ms_role m, hi_content = ms_content m,
     hi_protected = (ms_kind m \<in> {''control'', ''pending_control''} \<or>
       ms_role m = ''tool'' \<and> map_of (ms_metadata m) ''unresolved'' = Some (JBool True))\<rparr>"

definition history_messages :: "db \<Rightarrow> ident option \<Rightarrow> nat \<Rightarrow> history_item list \<times> int" where
  "history_messages d conv limit =
    (let rows = filter (\<lambda>m. ms_include m \<and> ms_role m \<in> {''system'', ''user'', ''assistant'', ''tool''})
           (case conv of None \<Rightarrow> [] | Some c \<Rightarrow> list_messages c False limit d) in
     (map history_item_of rows, fold (\<lambda>m n. max n (ms_seq m)) rows 0))"

definition history_limit :: "projector \<Rightarrow> nat" where
  "history_limit x = nat (max 1 (or_else (xe_history_limit x) 1000))"

text \<open>The messages around the history, and how many messages the history had\<close>

record layers =
  ly_prefix :: "prompt_message list"
  ly_suffix :: "prompt_message list"
  ly_original :: nat

definition prompt_of :: "history_item \<Rightarrow> prompt_message" where
  "prompt_of h = (hi_role h, hi_content h)"

definition candidate_messages :: "layers \<Rightarrow> history_item list \<Rightarrow> prompt_message list" where
  "candidate_messages ly selected =
    (let omitted = ly_original ly - length selected in
     ly_prefix ly @ (if omitted = 0 then [] else [omission_marker omitted]) @
     map prompt_of selected @ ly_suffix ly)"

text \<open>What is left and how many were removed; the last message is never removed.\<close>

fun drop_oldest :: "nat \<Rightarrow> history_item list \<Rightarrow> history_item list \<times> nat" where
  "drop_oldest k [] = ([], 0)"
| "drop_oldest k [h] = ([h], 0)"
| "drop_oldest 0 hs = (hs, 0)"
| "drop_oldest (Suc k) (h # g # hs) =
    (if hi_protected h
     then (let (rest, n) = drop_oldest (Suc k) (g # hs) in (h # rest, n))
     else (let (rest, n) = drop_oldest k (g # hs) in (rest, Suc n)))"

lemma drop_oldest_length:
  "drop_oldest k hs = (rest, n) \<Longrightarrow> length rest + n = length hs"
  by (induction k hs arbitrary: rest n rule: drop_oldest.induct) (auto split: if_splits prod.splits)

fun normalize_history :: "history_item list \<Rightarrow> history_item list" where
  "normalize_history (h # g # hs) =
    (if hi_role h \<in> {''assistant'', ''tool''} \<and> \<not> hi_protected h then normalize_history (g # hs)
     else h # g # hs)"
| "normalize_history hs = hs"

definition normalize_selected :: "history_item list \<Rightarrow> bool \<Rightarrow> history_item list" where
  "normalize_selected hs omitted = (if omitted then normalize_history hs else hs)"

subsection \<open>Dropping the oldest messages\<close>

function pre_prune :: "layers \<Rightarrow> int \<Rightarrow> history_item list \<Rightarrow> history_item list" where
  "pre_prune ly target selected =
    (if 1 < length selected \<and> target < estimate_messages_tokens (candidate_messages ly selected)
     then (let (rest, removed) = drop_oldest (max 1 (length selected div 8)) selected in
           if removed = 0 then rest else pre_prune ly target rest)
     else selected)"
  by pat_completeness auto
termination
  by (relation "measure (\<lambda>(ly, target, selected). length selected)")
    (auto dest: drop_oldest_length [OF sym])

declare pre_prune.simps [simp del]

text \<open>How many messages an overflow is worth, by the average estimate of a message\<close>

definition drop_count :: "int \<Rightarrow> int \<Rightarrow> history_item list \<Rightarrow> nat" where
  "drop_count usable tokens selected =
    (let overflow = tokens - usable;
         per = max 1 (estimate_messages_tokens (map prompt_of selected) div int (length selected)) in
     nat (max 1 (min (int (length selected) - 1) (overflow div per + 1))))"

text \<open>The exact tightening, with \<open>left\<close> of its 12 attempts remaining; \<open>n\<close> tokenizer calls were
  made.  The last component is the error the tokenizer raised, if it raised one.\<close>

primrec tighten ::
    "(nat \<Rightarrow> prompt_message list \<Rightarrow> int result) \<Rightarrow> layers \<Rightarrow> int \<Rightarrow> nat \<Rightarrow> nat \<Rightarrow> history_item list \<Rightarrow>
     prompt_message list \<Rightarrow> int \<Rightarrow> history_item list \<times> prompt_message list \<times> int \<times> string option" where
  "tighten count ly usable 0 n selected prompt tokens = (selected, prompt, tokens, None)"
| "tighten count ly usable (Suc left) n selected prompt tokens =
    (if usable < tokens \<and> 1 < length selected then
       (let (rest, removed) = drop_oldest (drop_count usable tokens selected) selected in
        if removed = 0 then (rest, prompt, tokens, None) else
          (let kept = normalize_selected rest True; shorter = candidate_messages ly kept in
           case count n shorter of
             Inl err \<Rightarrow> (kept, shorter, estimate_messages_tokens shorter, Some (error_text err))
           | Inr tokens' \<Rightarrow> tighten count ly usable left (Suc n) kept shorter tokens'))
     else (selected, prompt, tokens, None))"

text \<open>\<^verbatim>\<open>if exact: try ... except Exception\<close>: the selection, the prompt, its tokens, whether they
  were counted, and the error.\<close>

definition count_exactly ::
    "(nat \<Rightarrow> prompt_message list \<Rightarrow> int result) \<Rightarrow> layers \<Rightarrow> int \<Rightarrow> bool \<Rightarrow> history_item list \<Rightarrow>
     history_item list \<times> prompt_message list \<times> int \<times> bool \<times> string option" where
  "count_exactly count ly usable exact selected =
    (let prompt = candidate_messages ly selected; estimate = estimate_messages_tokens prompt in
     if \<not> exact then (selected, prompt, estimate, False, None) else
     case count 0 prompt of
       Inl err \<Rightarrow> (selected, prompt, estimate, False, Some (error_text err))
     | Inr tokens \<Rightarrow>
         let (kept, shorter, tokens', err) = tighten count ly usable 12 1 selected prompt tokens in
         (kept, shorter, tokens', err = None, err))"

subsection \<open>Building a projection\<close>

record projection =
  px_id :: ident
  px_conversation :: "ident option"
  px_task :: "ident option"
  px_budget :: context_budget
  px_mode :: string
  px_messages :: "prompt_message list"
  px_tokens :: int
  px_exact :: bool
  px_included :: nat
  px_omitted :: nat
  px_through :: int
  px_created :: time
  px_exact_error :: "string option"
  px_history_limit :: nat
  px_requested :: "int option"
  px_generation_limit :: int

type_synonym projected = "projection list \<times> db"

definition pressure :: "projection \<Rightarrow> rat" where
  "pressure p = (if xb_usable (px_budget p) \<le> 0 then 0
     else max 0 (min 1 (of_int (px_tokens p) / of_int (xb_usable (px_budget p)))))"

definition generation_limit :: "projection \<Rightarrow> int" where
  "generation_limit p =
    (let remaining = xb_window (px_budget p) - px_tokens p - xb_safety (px_budget p) in
     case px_requested p of None \<Rightarrow> remaining | Some n \<Rightarrow> min remaining n)"

record build_request =
  bq_mode :: string
  bq_question :: "string option"
  bq_task :: "ident option"
  bq_instruction :: "string option"
  bq_output :: "int option"
  bq_exact :: bool

definition stated :: "string option \<Rightarrow> bool" where
  "stated s = (s \<noteq> None \<and> s \<noteq> Some [])"

definition should_include_task :: "db \<Rightarrow> string \<Rightarrow> string \<Rightarrow> ident option \<Rightarrow> ident option result" where
  "should_include_task d role mode override =
     and_then (if stated override then and_then (load_task d (the override)) (\<lambda>t. Ok (Some t))
       else Ok (active_task d)) (\<lambda>task. case task of
       None \<Rightarrow> Ok None
     | Some t \<Rightarrow>
         if mode \<in> {''sideband'', ''task''} then
           raise_if (mode = ''task'' \<and> tk_owner_role t \<noteq> role)
             (Runtime_Error ''task is owned by another role'') (Ok (Some (tk_id t)))
         else Ok (if tk_owner_role t = role then Some (tk_id t) else None))"

definition prompt_prefix :: "projector \<Rightarrow> db \<Rightarrow> role_record \<Rightarrow> string \<Rightarrow> ident option \<Rightarrow> prompt_message list result" where
  "prompt_prefix x d role mode task =
     and_then (case task of None \<Rightarrow> Ok [] | Some tid \<Rightarrow> if tid = [] then Ok [] else
       and_then (task_system_message x d tid) (\<lambda>m. Ok [m])) (\<lambda>ms.
     Ok (role_system_message role # ms @ (if mode = ''sideband'' then [sideband_system_message] else [])))"

definition prompt_suffix :: "build_request \<Rightarrow> prompt_message list" where
  "prompt_suffix q =
    (if bq_mode q = ''sideband'' then [(''user'', or_else (bq_question q) [])]
     else if bq_mode q = ''task'' then [(''user'', given_text (bq_instruction q) default_instruction)]
     else [])"

text \<open>Selecting, counting and the record, once the budget, the task and the fixed messages are known\<close>

definition fit_projection ::
    "projector \<Rightarrow> time \<Rightarrow> ident \<Rightarrow> ident option \<Rightarrow> build_request \<Rightarrow> role_record \<Rightarrow> generation_budget \<Rightarrow>
     ident option \<Rightarrow> prompt_message list \<Rightarrow> history_item list \<times> int \<Rightarrow> projection result" where
  "fit_projection x stamp pid conv q role plan task prefix past =
    (let history = fst past;
         ly = \<lparr>ly_prefix = prefix, ly_suffix = prompt_suffix q, ly_original = length history\<rparr>;
         pruned = pre_prune ly \<lfloor>of_int (gb_usable plan) * (94 / 100 :: rat)\<rfloor> history;
         selected = normalize_selected pruned (length pruned < length history);
         (kept, prompt, tokens, exact, err) =
           count_exactly (xe_count x (rc_id role)) ly (gb_usable plan) (bq_exact q) selected in
     raise_if (gb_usable plan < tokens) (Budget_Error ''context projection does not fit'')
    (and_then (generation_ceiling plan tokens) (\<lambda>ceiling.
     Ok \<lparr>px_id = pid, px_conversation = conv, px_task = task,
       px_budget = context_budget_of role plan, px_mode = bq_mode q, px_messages = prompt,
       px_tokens = tokens, px_exact = exact, px_included = length kept,
       px_omitted = length history - length kept, px_through = snd past, px_created = stamp,
       px_exact_error = err, px_history_limit = history_limit x, px_requested = bq_output q,
       px_generation_limit = ceiling\<rparr>)))"

definition build_projection ::
    "projector \<Rightarrow> time \<Rightarrow> ident \<Rightarrow> ident option \<Rightarrow> string \<Rightarrow> build_request \<Rightarrow> db \<Rightarrow> projection result" where
  "build_projection x stamp pid conv role_name q d =
     raise_if (bq_mode q \<notin> {''main'', ''sideband'', ''task''})
       (Value_Error ''mode must be main, sideband or task'')
    (raise_if (bq_mode q = ''sideband'' \<and> \<not> stated (bq_question q))
       (Value_Error ''sideband_question is required in sideband mode'')
    (raise_if (bq_mode q = ''task'' \<and> \<not> stated (bq_task q))
       (Value_Error ''task_id_override is required in task mode'')
    (and_then (budget_for_role x role_name (bq_output q)) (\<lambda>(role, plan).
     and_then (should_include_task d (rc_id role) (bq_mode q) (bq_task q)) (\<lambda>task.
     and_then (prompt_prefix x d role (bq_mode q) task) (\<lambda>prefix.
     fit_projection x stamp pid conv q role plan task prefix
       (history_messages d conv (history_limit x))))))))"

text \<open>The trigger \<^verbatim>\<open>context_projections_lineage_insert\<close>, then the constraints of the table\<close>

definition projections_lineage_insert :: "db \<Rightarrow> projection \<Rightarrow> string option" where
  "projections_lineage_insert d p =
     abort_unless (case px_task p of None \<Rightarrow> True
       | Some tid \<Rightarrow> map_option tk_conversation (find_task d tid) = Some (px_conversation p))
       ''context projection lineage does not match task''"

definition insert_projection :: "projection \<Rightarrow> projected \<Rightarrow> (unit \<times> projected) result" where
  "insert_projection p s = (case projections_lineage_insert (snd s) p of
     Some msg \<Rightarrow> Err (Integrity_Error msg)
   | None \<Rightarrow>
       raise_if (px_conversation p = None) (Integrity_Error ''NOT NULL constraint failed'')
      (raise_if (px_id p \<in> px_id ` set (fst s)) (Integrity_Error ''UNIQUE constraint failed'')
      (raise_if (\<not> optional (conversation_exists (snd s)) (px_conversation p) \<or>
           \<not> optional (task_exists (snd s)) (px_task p)) (Integrity_Error ''FOREIGN KEY constraint failed'')
        (Ok ((), (fst s @ [p], snd s))))))"

definition build ::
    "projector \<Rightarrow> env \<Rightarrow> ident \<Rightarrow> ident option \<Rightarrow> string \<Rightarrow> build_request \<Rightarrow> bool \<Rightarrow> projected \<Rightarrow>
     projection result \<times> projected" where
  "build x e pid conv role_name q persist s =
     and_next (build_projection x (now e) pid conv role_name q (snd s), s) (\<lambda>p s.
     and_next (if persist then transact (insert_projection p) s else (Ok (), s)) (\<lambda>_ s. (Ok p, s)))"

definition estimate_current ::
    "projector \<Rightarrow> env \<Rightarrow> ident \<Rightarrow> ident option \<Rightarrow> string \<Rightarrow> int option \<Rightarrow> db \<Rightarrow> projection result" where
  "estimate_current x e pid conv role_name requested d =
     build_projection x (now e) pid conv role_name \<lparr>bq_mode = ''main'', bq_question = None,
       bq_task = None, bq_instruction = None, bq_output = requested, bq_exact = False\<rparr> d"

definition latest_projection :: "projector \<Rightarrow> ident \<Rightarrow> string option \<Rightarrow> projection list \<Rightarrow> projection option result" where
  "latest_projection x conv role_name built =
     and_then (case role_name of None \<Rightarrow> Ok None
       | Some name \<Rightarrow> and_then (resolve_role_id_from (xe_roles x) name) (\<lambda>r. Ok (Some r))) (\<lambda>role.
     Ok (select_first (\<lambda>p. - px_created p)
       (\<lambda>p. px_conversation p = Some conv \<and> (role = None \<or> role = Some (xb_role (px_budget p)))) built))"

definition current_context_message_seq :: "ident \<Rightarrow> db \<Rightarrow> int" where
  "current_context_message_seq conv d =
     next_seq ms_seq (\<lambda>m. ms_conversation m = conv \<and> ms_include m) (messages d) - 1"

end
