(* ===== verification/Routing.thy ===== *)
theory Routing
  imports Orchestration Approvals
begin

section \<open>Routes to a runtime, and the slot of the local model\<close>

text \<open>
  \<^verbatim>\<open>src/tars/runtime_routing.py\<close>, and \<^verbatim>\<open>acquire\<close> and \<^verbatim>\<open>model_execution_scope\<close> of
  \<^verbatim>\<open>src/tars/ownership.py\<close>.  A route binds a role to the model, backend and profile it names, or
  says why that is not possible; it never falls back to another model.  The backends themselves
  speak to servers: a record of their answers is an argument.  The table of routes lies beside the
  database, as \<open>'r \<times> db\<close>.
\<close>

subsection \<open>Waiting for a lease\<close>

text \<open>One attempt per clock in the list; the list ends when the deadline has passed, and \<open>between\<close>
  is what other processes commit while the caller waits.\<close>

fun acquire :: "(env \<times> (db \<Rightarrow> db)) list \<Rightarrow> resource \<Rightarrow> owner \<Rightarrow> time \<Rightarrow> dict \<Rightarrow> db \<Rightarrow> bool \<times> db" where
  "acquire [] res ow lease metadata d = (False, d)"
| "acquire ((e, between) # later) res ow lease metadata d =
    (let (claimed, d) = claim e res ow lease metadata d in
     if claimed then (True, d) else acquire later res ow lease metadata (between d))"

definition model_slot :: resource where
  "model_slot = (Other_Resource ''gpu-slot'', ''local-inference:0'')"

text \<open>\<open>existing\<close> is the owner of the enclosing scope, \<open>lost\<close> the error the heartbeat ended with; the
  heartbeat reports it only when the body itself did not raise.\<close>

definition model_execution_scope ::
    "env \<Rightarrow> (env \<times> (db \<Rightarrow> db)) list \<Rightarrow> env \<Rightarrow> owner option \<Rightarrow> owner \<Rightarrow> time \<Rightarrow> string \<Rightarrow> dict \<Rightarrow> error option \<Rightarrow>
     (owner \<Rightarrow> 'r \<times> db \<Rightarrow> 'a result \<times> ('r \<times> db)) \<Rightarrow> 'r \<times> db \<Rightarrow> 'a result \<times> ('r \<times> db)" where
  "model_execution_scope e attempts later existing own lease operation metadata lost body s =
    (case existing of
       Some ow \<Rightarrow> if \<not> held_by e model_slot ow (snd s)
         then (Err (Runtime_Error ''model execution ownership was lost''), s) else body ow s
     | None \<Rightarrow>
       let (got, d) = acquire attempts model_slot own lease (dict_update [(''operation'', JStr operation)] metadata) (snd s) in
       if \<not> got then (Err (Runtime_Error ''local inference slot is busy''), (fst s, d)) else
       let (x, s1) = body own (fst s, d) in
       (case (x, lost) of (Inr _, Some err) \<Rightarrow> Err err | _ \<Rightarrow> x,
        (fst s1, snd (release later model_slot own (snd s1)))))"

subsection \<open>What a backend tells\<close>

record backend_status =
  bs_backend :: string
  bs_available :: bool
  bs_healthy :: bool
  bs_message :: string
  bs_support :: string

record runtime_capabilities =
  rk_streaming :: bool
  rk_reasoning :: "bool option"
  rk_tool_calls :: "bool option"
  rk_explicit_load :: bool
  rk_explicit_unload :: bool
  rk_on_demand :: bool
  rk_thinking_modes :: "string list"
  rk_thinking_mechanism :: string

record model_capabilities =
  mk_model :: string
  mk_context :: int
  mk_input :: "string list"
  mk_output :: "string list"
  mk_reasoning :: "bool option"
  mk_tool_calls :: "bool option"
  mk_thinking_modes :: "string list"
  mk_thinking_mechanism :: string

record lifecycle_result =
  lf_backend :: string
  lf_model :: string
  lf_state :: string
  lf_on_demand :: bool
  lf_message :: string

record backend =
  bk_local_only :: bool
  bk_zero_idle :: bool
  bk_identity :: string
  bk_status :: "backend_status result"
  bk_capabilities :: "runtime_capabilities result"
  bk_model :: "string \<Rightarrow> model_capabilities result"
  bk_load :: "string \<Rightarrow> lifecycle_result result"
  bk_unload :: "string \<Rightarrow> lifecycle_result result"

definition not_inspected :: backend_status where
  "not_inspected = \<lparr>bs_backend = [], bs_available = False, bs_healthy = False, bs_message = ''not inspected'',
     bs_support = ''unknown''\<rparr>"

definition no_runtime :: runtime_capabilities where
  "no_runtime = \<lparr>rk_streaming = False, rk_reasoning = None, rk_tool_calls = None, rk_explicit_load = False,
     rk_explicit_unload = False, rk_on_demand = False, rk_thinking_modes = [], rk_thinking_mechanism = ''model-dependent''\<rparr>"

definition no_model :: model_capabilities where
  "no_model = \<lparr>mk_model = [], mk_context = 0, mk_input = [''text''], mk_output = [''text''], mk_reasoning = None,
     mk_tool_calls = None, mk_thinking_modes = [], mk_thinking_mechanism = ''unavailable''\<rparr>"

subsection \<open>What a route has to provide\<close>

record requirements =
  rn_capabilities :: "string list"
  rn_context :: int
  rn_reasoning :: bool
  rn_tools :: bool
  rn_modalities :: "string list"

definition sorted_set :: "string list \<Rightarrow> string list" where
  "sorted_set xs = sort (remdups xs)"

fun comma_list :: "string list \<Rightarrow> string" where
  "comma_list [] = []"
| "comma_list [x] = x"
| "comma_list (x # xs) = x @ '', '' @ comma_list xs"

definition number :: "int \<Rightarrow> string" where
  "number n = (if n < 0 then ''-'' @ dec (nat (- n)) else dec (nat n))"

definition requirement_reasons :: "int \<Rightarrow> model_capabilities \<Rightarrow> int \<Rightarrow> bool \<Rightarrow> bool \<Rightarrow> string list \<Rightarrow> string list" where
  "requirement_reasons profile_context mc context_tokens reasoning tools modalities =
    (let n = max 0 context_tokens; absent = sorted_set (filter (\<lambda>x. x \<notin> set (mk_input mc)) modalities) in
     (if n \<noteq> 0 \<and> profile_context < n
      then [''requested context '' @ number n @ '' exceeds profile context '' @ number profile_context] else []) @
     (if n \<noteq> 0 \<and> mk_context mc < n
      then [''requested context '' @ number n @ '' exceeds backend model context '' @ number (mk_context mc)] else []) @
     (if absent \<noteq> [] then [''model lacks input modalities: '' @ comma_list absent] else []) @
     (if reasoning \<and> mk_reasoning mc \<noteq> Some True then [''model reasoning capability is not verified''] else []) @
     (if tools \<and> mk_tool_calls mc \<noteq> Some True then [''model tool-call capability is not verified''] else []))"

record runtime_route =
  ro_id :: ident
  ro_asked_role :: string
  ro_selected_role :: string
  ro_model :: string
  ro_backend :: string
  ro_runtime :: string
  ro_profile :: string
  ro_ready :: bool
  ro_requirements :: requirements
  ro_reasons :: "string list"
  ro_status :: backend_status
  ro_runtime_caps :: runtime_capabilities
  ro_model_caps :: model_capabilities
  ro_profile_context :: int
  ro_created_at :: time
  ro_task :: "ident option"
  ro_instance :: "backend option"

type_synonym routes = "runtime_route list"

text \<open>\<^verbatim>\<open>LocalRuntimeRouter\<close>: the registries and files (\<open>orchestra\<close>), the calibrated context of a profile,
  and the factory of backends\<close>

record router =
  lr_orchestra :: orchestra
  lr_profile_context :: "string \<Rightarrow> string \<Rightarrow> int result"
  lr_factory :: "model_record \<Rightarrow> backend result"

definition model_of :: "orchestra \<Rightarrow> string \<Rightarrow> model_record result" where
  "model_of oc alias = and_then (validate_model_alias alias) (\<lambda>_.
     case map_of (models (oc_expand oc) (oc_models oc)) alias of
       None \<Rightarrow> Err (Key_Error ''unknown model alias'') | Some m \<Rightarrow> Ok m)"

subsection \<open>Inspecting the backend\<close>

text \<open>The answers up to the first error, which becomes a reason\<close>

definition backend_answers ::
    "string \<Rightarrow> backend result \<Rightarrow> string list \<times> backend option \<times> backend_status \<times> runtime_capabilities \<times> model_capabilities" where
  "backend_answers runtime made =
    (let failed = (\<lambda>err. [''backend inspection failed: '' @ error_text err]) in
     case made of
       Inl err \<Rightarrow> (failed err, None, not_inspected, no_runtime, no_model)
     | Inr b \<Rightarrow> (case bk_status b of
         Inl err \<Rightarrow> (failed err, Some b, not_inspected, no_runtime, no_model)
       | Inr st \<Rightarrow> (case bk_capabilities b of
           Inl err \<Rightarrow> (failed err, Some b, st, no_runtime, no_model)
         | Inr rc \<Rightarrow> if \<not> (bs_available st \<and> bs_healthy st) then ([], Some b, st, rc, no_model) else
           (case bk_model b runtime of
              Inl err \<Rightarrow> (failed err, Some b, st, rc, no_model)
            | Inr mc \<Rightarrow> ([], Some b, st, rc, mc)))))"

definition backend_policy :: "model_record \<Rightarrow> backend result \<Rightarrow> string list" where
  "backend_policy m made = (case made of Inl _ \<Rightarrow> [] | Inr b \<Rightarrow>
     (if bk_local_only b then [] else [''backend is not an allowed local runtime: '' @ md_backend m]) @
     (if bk_zero_idle b then [] else [''backend does not guarantee Zero-Idle: '' @ md_backend m]) @
     (if bk_identity b = md_backend m then []
      else [''backend identity mismatch: expected '' @ md_backend m @ '', got '' @ bk_identity b]))"

definition status_reasons :: "model_record \<Rightarrow> backend_status \<Rightarrow> string list" where
  "status_reasons m st = (let given = (\<lambda>other. if bs_message st \<noteq> [] then bs_message st else ''backend '' @ md_backend m @ other) in
     if \<not> bs_available st then [given '' is unavailable'']
     else if \<not> bs_healthy st then [given '' is unhealthy''] else [])"

definition model_reasons :: "router \<Rightarrow> model_record \<Rightarrow> string list" where
  "model_reasons rt m = (let be = oc_backend (lr_orchestra rt) in
     (if md_integrity_verified m then [] else [''model '' @ md_alias m @ '' integrity is not verified'']) @
     (if md_runtime_compatible m then [] else [''model '' @ md_alias m @ '' is not runtime compatible'']) @
     (if be_is_file be (md_path m) then [] else [''model artifact is missing: '' @ md_path m]) @
     (if backend_binding_ready be m then [] else [''model '' @ md_alias m @ '' binding is not runtime-ready'']))"

subsection \<open>Resolving a route\<close>

definition role_reasons :: "role_record \<Rightarrow> ident option \<Rightarrow> db \<Rightarrow> string list \<Rightarrow> string list result" where
  "role_reasons role task d required =
    (let disabled = (if rl_enabled (rc_info role) then [] else [''Role '' @ rc_id role @ '' is disabled'']);
         lacking = filter (\<lambda>x. x \<notin> set (rl_capabilities (rc_info role))) required;
         lacks = (if lacking = [] then [] else [''Role lacks capabilities: '' @ comma_list lacking]);
         unbound = (if rl_model (rc_info role) = [] then [''Role '' @ rc_id role @ '' has no model binding''] else []) in
     and_then (if missing_id task then Ok [] else
         (case find_task d (the task) of
            None \<Rightarrow> Err (Key_Error ''unknown task'')
          | Some t \<Rightarrow> Ok (if tk_owner_role t = rc_id role then []
              else [''task owner is '' @ tk_owner_role t @ ''; explicit handoff is required before routing to '' @ rc_id role])))
       (\<lambda>owner. Ok (disabled @ owner @ lacks @ unbound)))"

text \<open>What the binding of the role gives: the reasons against it, the model, and the backend's answers\<close>

record binding =
  bi_reasons :: "string list"
  bi_model :: "model_record option"
  bi_profile_context :: int
  bi_backend :: "backend option"
  bi_status :: backend_status
  bi_runtime :: runtime_capabilities
  bi_caps :: model_capabilities

definition no_binding :: "string list \<Rightarrow> binding" where
  "no_binding reasons = \<lparr>bi_reasons = reasons, bi_model = None, bi_profile_context = 0, bi_backend = None,
     bi_status = not_inspected, bi_runtime = no_runtime, bi_caps = no_model\<rparr>"

definition bind_role :: "router \<Rightarrow> role_record \<Rightarrow> binding" where
  "bind_role rt role =
    (if rl_model (rc_info role) = [] then no_binding [] else
     (case model_of (lr_orchestra rt) (rl_model (rc_info role)) of
        Inl err \<Rightarrow> no_binding [''model binding cannot be loaded: '' @ error_text err]
      | Inr m \<Rightarrow>
        let profile = lr_profile_context rt (md_alias m) (rl_profile (rc_info role));
            made = lr_factory rt m;
            (failed, b, st, rc, mc) = backend_answers (rl_runtime_id (rc_info role)) made in
        \<lparr>bi_reasons = model_reasons rt m @
           (case profile of Inr _ \<Rightarrow> [] | Inl err \<Rightarrow>
              [''runtime profile '' @ rl_profile (rc_info role) @ '' is unavailable: '' @ error_text err]) @
           backend_policy m made @ failed @ status_reasons m st,
         bi_model = Some m, bi_profile_context = (case profile of Inr n \<Rightarrow> n | Inl _ \<Rightarrow> 0), bi_backend = b,
         bi_status = st, bi_runtime = rc, bi_caps = mc\<rparr>))"

definition lifecycle_reasons :: "role_record \<Rightarrow> binding \<Rightarrow> requirements \<Rightarrow> string list" where
  "lifecycle_reasons role b q =
     (if bs_available (bi_status b) \<and> bs_healthy (bi_status b) \<and> mk_context (bi_caps b) \<le> 0
      then [''runtime model '' @ rl_runtime_id (rc_info role) @ '' is absent or its context is unverified''] else []) @
     requirement_reasons (bi_profile_context b) (bi_caps b) (rn_context q) (rn_reasoning q) (rn_tools q) (rn_modalities q) @
     (if rk_on_demand (bi_runtime b) then [] else [''backend does not provide an on-demand lifecycle'']) @
     (if map_option md_backend (bi_model b) = Some ''colibri'' \<and>
         \<not> (rk_explicit_load (bi_runtime b) \<and> rk_explicit_unload (bi_runtime b))
      then [''Colibri does not verify explicit Heavy load/unload lifecycle support''] else [])"

definition requested_of :: "requirements \<Rightarrow> requirements" where
  "requested_of q = q\<lparr>rn_capabilities := sorted_set (rn_capabilities q), rn_context := max 0 (rn_context q),
     rn_modalities := sorted_set (rn_modalities q)\<rparr>"

definition route_of :: "time \<Rightarrow> ident \<Rightarrow> role_record \<Rightarrow> ident option \<Rightarrow> requirements \<Rightarrow> string list \<Rightarrow> binding \<Rightarrow> runtime_route" where
  "route_of stamp rid role task q reasons b = \<lparr>ro_id = rid, ro_asked_role = rc_id role, ro_selected_role = rc_id role,
     ro_model = (case bi_model b of None \<Rightarrow> [] | Some m \<Rightarrow> md_alias m),
     ro_backend = (case bi_model b of None \<Rightarrow> [] | Some m \<Rightarrow> md_backend m),
     ro_runtime = rl_runtime_id (rc_info role), ro_profile = rl_profile (rc_info role), ro_ready = (reasons = []),
     ro_requirements = q, ro_reasons = first_only reasons, ro_status = bi_status b, ro_runtime_caps = bi_runtime b,
     ro_model_caps = bi_caps b, ro_profile_context = bi_profile_context b, ro_created_at = stamp, ro_task = task,
     ro_instance = bi_backend b\<rparr>"

definition persist_route :: "time \<Rightarrow> ident \<Rightarrow> runtime_route \<Rightarrow> routes \<times> db \<Rightarrow> unit result \<times> (routes \<times> db)" where
  "persist_route stamp uuid r s =
     and_next (transact (\<lambda>s. and_then (admit None True (fresh ro_id (ro_id r) (fst s)) (optional (task_exists (snd s)) (ro_task r)) (snd s))
       (\<lambda>d. Ok ((), (fst s @ [r], d)))) s) (\<lambda>_ s.
     if missing_id (ro_task r) then (Ok (), s) else
     and_next (on_db (append_event stamp uuid (the (ro_task r)) ''routing''
         (''Runtime route '' @ (if ro_ready r then ''ready'' else ''unavailable'') @ '': '' @ ro_selected_role r @ '' -> '' @
          (if ro_backend r = [] then ''unavailable'' else ro_backend r) @ '':'' @ ro_runtime r)
         (Some (ro_selected_role r))
         [(''runtime_route_id'', JStr (ro_id r)), (''state'', JStr (if ro_ready r then ''ready'' else ''unavailable'')),
          (''model'', JStr (ro_model r)), (''reasons'', JArr (map JStr (ro_reasons r)))]
         (if ro_ready r then ''normal'' else ''quiet'')) s) (\<lambda>_ s. (Ok (), s)))"

definition resolve_owned ::
    "router \<Rightarrow> env \<Rightarrow> (nat \<Rightarrow> ident) \<Rightarrow> string \<Rightarrow> ident option \<Rightarrow> requirements \<Rightarrow> bool \<Rightarrow> routes \<times> db \<Rightarrow>
     runtime_route result \<times> (routes \<times> db)" where
  "resolve_owned rt e ids name task q persist s =
     and_next (role_of (oc_roles (lr_orchestra rt)) name, s) (\<lambda>role s.
     let q = requested_of q in
     and_next (role_reasons role task (snd s) (rn_capabilities q), s) (\<lambda>reasons s.
       let b = bind_role rt role;
           route = route_of (now e) (ids 0) role task q (reasons @ bi_reasons b @ lifecycle_reasons role b q) b in
       if \<not> persist then (Ok route, s) else
       and_next (persist_route (now e) (ids 1) route s) (\<lambda>_ s. (Ok route, s))))"

definition resolve_route ::
    "router \<Rightarrow> env \<Rightarrow> (env \<times> (db \<Rightarrow> db)) list \<Rightarrow> env \<Rightarrow> (nat \<Rightarrow> ident) \<Rightarrow> owner option \<Rightarrow> owner \<Rightarrow> error option \<Rightarrow>
     string \<Rightarrow> ident option \<Rightarrow> requirements \<Rightarrow> bool \<Rightarrow> routes \<times> db \<Rightarrow> runtime_route result \<times> (routes \<times> db)" where
  "resolve_route rt e attempts later ids existing own lost name task q persist =
     model_execution_scope e attempts later existing own (seconds 30) ''runtime-route'' [(''role'', JStr name)] lost
       (\<lambda>_. resolve_owned rt e ids name task q persist)"

subsection \<open>Using a route\<close>

fun join_reasons :: "string list \<Rightarrow> string" where
  "join_reasons [] = []"
| "join_reasons [x] = x"
| "join_reasons (x # xs) = x @ ''; '' @ join_reasons xs"

definition require_ready :: "runtime_route \<Rightarrow> unit result" where
  "require_ready r = raise_if (\<not> ro_ready r) (Runtime_Error
     (if ro_reasons r = [] then ''runtime route unavailable'' else join_reasons (ro_reasons r))) (Ok ())"

definition require_route :: "runtime_route \<Rightarrow> int \<Rightarrow> bool \<Rightarrow> bool \<Rightarrow> string list \<Rightarrow> runtime_route result" where
  "require_route r context_tokens reasoning tools modalities = and_then (require_ready r) (\<lambda>_.
     let reasons = requirement_reasons (ro_profile_context r) (ro_model_caps r) context_tokens reasoning tools modalities in
     raise_if (reasons \<noteq> []) (Runtime_Error (join_reasons reasons)) (Ok r))"

text \<open>\<open>existing\<close> is the owner of the enclosing model scope; \<open>artifact\<close> says whether the file of the model
  is the one that was registered.\<close>

definition prepare_route :: "router \<Rightarrow> owner option \<Rightarrow> (model_record \<Rightarrow> unit result) \<Rightarrow> runtime_route \<Rightarrow> lifecycle_result result" where
  "prepare_route rt existing artifact r =
     raise_if (existing = None) (Runtime_Error ''runtime preparation requires model execution ownership'')
    (and_then (require_ready r) (\<lambda>_.
     and_then (if ro_backend r = ''llama.cpp'' then and_then (model_of (lr_orchestra rt) (ro_model r)) artifact else Ok ()) (\<lambda>_.
     case ro_instance r of
       None \<Rightarrow> Err (Runtime_Error ''runtime backend instance is unavailable'')
     | Some b \<Rightarrow> and_then (bk_load b (ro_runtime r)) (\<lambda>x.
         raise_if (lf_state x \<notin> {''loaded'', ''on-demand'', ''already-loaded''})
           (Runtime_Error (''backend load failed: '' @ lf_message x)) (Ok x)))))"

definition release_route :: "owner option \<Rightarrow> runtime_route \<Rightarrow> lifecycle_result result" where
  "release_route existing r =
     raise_if (existing = None) (Runtime_Error ''runtime release requires model execution ownership'')
    (and_then (require_ready r) (\<lambda>_. case ro_instance r of
       None \<Rightarrow> Err (Runtime_Error ''runtime backend instance is unavailable'')
     | Some b \<Rightarrow> bk_unload b (ro_runtime r)))"

definition load_route :: "ident \<Rightarrow> routes \<times> db \<Rightarrow> runtime_route result" where
  "load_route rid s = (case select_one ro_id rid (fst s) of
     None \<Rightarrow> Err (Key_Error ''unknown runtime route'') | Some r \<Rightarrow> Ok (r\<lparr>ro_instance := None\<rparr>))"

end
