(* ===== verification/Store_Audit.thy ===== *)
theory Store_Audit
  imports Store_Writes Journal Projection Routing
begin

section \<open>The whole audit\<close>

text \<open>
  \<^verbatim>\<open>lineage_errors\<close> of \<^verbatim>\<open>state_store.py\<close> over every table that is modelled: those of \<open>db\<close>, the
  actions of the journal, the projections and the runtime routes.  The three queries that test a
  column for being a JSON array have nothing to find, as the columns are lists here, and the foreign
  keys of the tables that are not modelled are left out (\<^verbatim>\<open>workspace_checkpoints\<close>, \<^verbatim>\<open>core_pairings\<close>,
  \<^verbatim>\<open>delegation_memory\<close>, \<^verbatim>\<open>routing_decisions\<close>).  A write is one of \<open>db_write\<close>, or a statement on one of
  the three tables beside it; no accepted one makes the audit report anything.
\<close>

type_synonym whole_store = "routes \<times> projection list \<times> journaled"

definition empty_store :: whole_store where
  "empty_store = ([], [], \<lparr>jn_actions = [], jn_groups = [], jn_threads = []\<rparr>, empty_db)"

subsection \<open>The audit\<close>

definition projection_refs :: "db \<Rightarrow> projection \<Rightarrow> bool" where
  "projection_refs d p = (optional (conversation_exists d) (px_conversation p) \<and> optional (task_exists d) (px_task p))"

definition all_key_violations :: "whole_store \<Rightarrow> nat" where
  "all_key_violations = (\<lambda>(rs, ps, jn, d). foreign_key_violations d +
     count_where (\<lambda>r. \<not> optional (task_exists d) (ro_task r)) rs +
     count_where (\<lambda>a. \<not> action_refs d a) (jn_actions jn) + count_where (\<lambda>p. \<not> projection_refs d p) ps)"

definition action_violations :: "db \<Rightarrow> action_row list \<Rightarrow> nat" where
  "action_violations d t = count_where (\<lambda>a.
     (case (aj_task a, aj_session a) of (Some tid, Some sid) \<Rightarrow> \<not> same_conversation d tid sid | _ \<Rightarrow> False) \<or>
     \<not> exists_where (\<lambda>e. se_uuid e = aj_event a \<and> se_task e = aj_task a \<and> se_session e = aj_session a) (state_events d) \<or>
     (case aj_approval a of None \<Rightarrow> False | Some aid \<Rightarrow>
        \<not> exists_where (\<lambda>p. ap_id p = aid \<and> ap_task p = aj_task a \<and> ap_session p = aj_session a) (approvals d))) t"

definition lineage_checks :: "whole_store \<Rightarrow> (string \<times> nat) list" where
  "lineage_checks = (\<lambda>(rs, ps, jn, d). (''foreign key'', all_key_violations (rs, ps, jn, d)) # record_checks d @
     [(''context projection/task'', count_join (\<lambda>p t. px_task p = Some (tk_id t) \<and>
         px_conversation p \<noteq> tk_conversation t) ps (tasks d))] @ run_checks d @
     [(''action/session event approval'', action_violations d (jn_actions jn))] @ link_checks d)"

definition lineage_errors :: "whole_store \<Rightarrow> string list" where
  "lineage_errors s = report_checks (lineage_checks s)"

subsection \<open>The writes\<close>

text \<open>\<^verbatim>\<open>action_journal.py\<close> updates the state, the result and the completion of an action, never what
  the action refers to; projections and routes are never updated.\<close>

datatype store_write =
    On_Database db_write
  | Add_Route runtime_route
  | Add_Projection projection
  | Add_Action action_row
  | Set_Actions "action_row \<Rightarrow> bool" "action_row \<Rightarrow> action_row"

fun apply_store_write :: "store_write \<Rightarrow> whole_store \<Rightarrow> whole_store result" where
  "apply_store_write (On_Database w) (rs, ps, jn, d) = and_then (apply_write w d) (\<lambda>d. Ok (rs, ps, jn, d))"
| "apply_store_write (Add_Route r) (rs, ps, jn, d) =
     and_then (admit None True (fresh ro_id (ro_id r) rs) (optional (task_exists d) (ro_task r)) d) (\<lambda>d. Ok (rs @ [r], ps, jn, d))"
| "apply_store_write (Add_Projection p) (rs, ps, jn, d) =
     and_then (insert_projection p (ps, d)) (\<lambda>(_, ps, d). Ok (rs, ps, jn, d))"
| "apply_store_write (Add_Action a) (rs, ps, s) = and_then (insert_action a s) (\<lambda>s. Ok (rs, ps, s))"
| "apply_store_write (Set_Actions P f) (rs, ps, s) = and_then (update_actions P
     (\<lambda>r. (f r)\<lparr>aj_id := aj_id r, aj_task := aj_task r, aj_session := aj_session r, aj_event := aj_event r,
        aj_approval := aj_approval r\<rparr>) s) (\<lambda>s. Ok (rs, ps, s))"

definition store_step :: "store_write \<Rightarrow> whole_store \<Rightarrow> whole_store" where
  "store_step w s = (case apply_store_write w s of Inl e \<Rightarrow> s | Inr s' \<Rightarrow> s')"

subsection \<open>What a write of the database leaves to refer to\<close>

definition bound_tasks :: "db \<Rightarrow> (ident \<times> ident) set" where
  "bound_tasks d = {(tk_id t, c) |t c. t \<in> set (tasks d) \<and> tk_conversation t = Some c}"

definition bound_sessions :: "db \<Rightarrow> (ident \<times> ident) set" where
  "bound_sessions d = (\<lambda>s. (ss_id s, ss_conversation s)) ` set (sessions d)"

definition event_lines :: "db \<Rightarrow> (ident \<times> ident option \<times> ident option) set" where
  "event_lines d = (\<lambda>e. (se_uuid e, se_task e, se_session e)) ` set (state_events d)"

definition approval_lines :: "db \<Rightarrow> (ident \<times> ident option \<times> ident option) set" where
  "approval_lines d = (\<lambda>a. (ap_id a, ap_task a, ap_session a)) ` set (approvals d)"

lemmas target_defs = bound_tasks_def bound_sessions_def event_lines_def approval_lines_def

definition targets_kept :: "db \<Rightarrow> db \<Rightarrow> bool" where
  "targets_kept d d' = ((\<forall>c. conversation_exists d c \<longrightarrow> conversation_exists d' c) \<and>
     (\<forall>t. task_exists d t \<longrightarrow> task_exists d' t) \<and> bound_tasks d \<subseteq> bound_tasks d' \<and> bound_sessions d \<subseteq> bound_sessions d' \<and>
     event_lines d \<subseteq> event_lines d' \<and> approval_lines d \<subseteq> approval_lines d')"

text \<open>The columns that others refer to are all that matters.\<close>

lemma targets_keptI:
  assumes "cv_id ` set (conversations d) \<subseteq> cv_id ` set (conversations d')" "tk_id ` set (tasks d) \<subseteq> tk_id ` set (tasks d')"
    "bound_tasks d \<subseteq> bound_tasks d'" "bound_sessions d \<subseteq> bound_sessions d'" "event_lines d \<subseteq> event_lines d'"
    "approval_lines d \<subseteq> approval_lines d'"
  shows "targets_kept d d'"
proof -
  have exists: "conversation_exists x c \<longleftrightarrow> c \<in> cv_id ` set (conversations x)" "task_exists x t \<longleftrightarrow> t \<in> tk_id ` set (tasks x)" for x c t
    by (auto simp: conversation_exists_def task_exists_def)
  show ?thesis
    unfolding targets_kept_def exists
    by (intro conjI allI impI assms(3-6)) (erule subsetD [OF assms(1)] subsetD [OF assms(2)])+
qed

lemma targets_kept_same:
  assumes "conversations d' = conversations d" "tasks d' = tasks d" "sessions d' = sessions d"
    "state_events d' = state_events d" "approvals d' = approvals d"
  shows "targets_kept d d'"
  by (rule targets_keptI) (simp_all add: assms target_defs)

text \<open>An insert adds to one table; of the tables that others refer to it keeps every row.\<close>

lemma insert_targets_kept:
  "insert_conversation r1 d = Ok d' \<Longrightarrow> targets_kept d d'" "insert_session r2 d = Ok d' \<Longrightarrow> targets_kept d d'"
  "insert_state_event_row r3 d = Ok d' \<Longrightarrow> targets_kept d d'" "insert_approval r4 d = Ok d' \<Longrightarrow> targets_kept d d'"
  "insert_task r5 d = Ok d' \<Longrightarrow> targets_kept d d'"
  by - ((simp only: insert_defs admit_eq_Ok, rule targets_keptI; (auto simp: target_defs; fail))+)

lemma insert_targets_same:
  "insert_message r1 d = Ok d' \<Longrightarrow> targets_kept d d'" "insert_task_event_row r2 d = Ok d' \<Longrightarrow> targets_kept d d'"
  "insert_evidence r3 d = Ok d' \<Longrightarrow> targets_kept d d'" "insert_control r4 d = Ok d' \<Longrightarrow> targets_kept d d'"
  "insert_cancellation r5 d = Ok d' \<Longrightarrow> targets_kept d d'" "insert_schedule r6 d = Ok d' \<Longrightarrow> targets_kept d d'"
  "insert_schedule_run r7 d = Ok d' \<Longrightarrow> targets_kept d d'" "insert_delivery r8 d = Ok d' \<Longrightarrow> targets_kept d d'"
  "insert_checkpoint r9 d = Ok d' \<Longrightarrow> targets_kept d d'" "insert_epoch r10 d = Ok d' \<Longrightarrow> targets_kept d d'"
  "insert_task_run r11 d = Ok d' \<Longrightarrow> targets_kept d d'" "insert_delegation r12 d = Ok d' \<Longrightarrow> targets_kept d d'"
  "insert_contract r13 d = Ok d' \<Longrightarrow> targets_kept d d'" "insert_handoff r14 d = Ok d' \<Longrightarrow> targets_kept d d'"
  by - ((simp only: insert_defs admit_eq_Ok, rule targets_kept_same; (simp; fail))+)

text \<open>An update keeps the columns that others refer to; a session its conversation, by its trigger.\<close>

lemma update_targets_kept:
  "targets_kept d (update_conversations P (\<lambda>r. (f r)\<lparr>cv_id := cv_id r\<rparr>) d)"
  "update_sessions Q (\<lambda>r. (g r)\<lparr>ss_id := ss_id r\<rparr>) d = Ok d' \<Longrightarrow> targets_kept d d'"
  "update_approvals R (\<lambda>r. (h r)\<lparr>ap_id := ap_id r, ap_task := ap_task r, ap_session := ap_session r\<rparr>) d = Ok d' \<Longrightarrow>
    targets_kept d d'"
proof -
  show "targets_kept d (update_conversations P (\<lambda>r. (f r)\<lparr>cv_id := cv_id r\<rparr>) d)"
    by (rule targets_keptI) (simp_all add: update_conversations_def target_defs image_update_where)
next
  assume "update_sessions Q (\<lambda>r. (g r)\<lparr>ss_id := ss_id r\<rparr>) d = Ok d'"
  then have "\<forall>r \<in> set (sessions d). Q r \<longrightarrow> ss_conversation (g r) = ss_conversation r"
    and "d' = d\<lparr>sessions := update_where Q (\<lambda>r. (g r)\<lparr>ss_id := ss_id r\<rparr>) (sessions d)\<rparr>"
    by (auto simp: update_sessions_def and_then_eq_Ok update_rows_eq_Ok update_trigger_iff)
  then show "targets_kept d d'"
    by (intro targets_keptI) (simp_all add: target_defs image_update_where)
next
  let ?h = "\<lambda>r. (h r)\<lparr>ap_id := ap_id r, ap_task := ap_task r, ap_session := ap_session r\<rparr>"
  assume "update_approvals R ?h d = Ok d'"
  then have "d' = d\<lparr>approvals := update_where R ?h (approvals d)\<rparr>"
    by (auto simp: update_approvals_def and_then_eq_Ok update_rows_eq_Ok)
  then show "targets_kept d d'"
    by (intro targets_keptI) (simp_all add: target_defs image_update_where)
qed

lemma update_targets_same:
  "update_messages P f d = Ok d' \<Longrightarrow> targets_kept d d'" "update_controls Q g d = Ok d' \<Longrightarrow> targets_kept d d'"
  "targets_kept d (update_cancellations R h d)" "update_task_runs S k d = Ok d' \<Longrightarrow> targets_kept d d'"
  "targets_kept d (update_schedules T l d)" "update_schedule_runs U m d = Ok d' \<Longrightarrow> targets_kept d d'"
  "targets_kept d (update_deliveries V n d)" "update_delegations W p d = Ok d' \<Longrightarrow> targets_kept d d'"
  "update_contracts X q d = Ok d' \<Longrightarrow> targets_kept d d'" "targets_kept d (d\<lparr>resource_leases := leases\<rparr>)"
  by - (rule targets_kept_same; (auto simp: Lineage.update_defs and_then_eq_Ok; fail))+

lemmas targets_rules = update_targets_kept update_targets_same insert_targets_kept insert_targets_same

lemma propagate_event_lines:
  assumes "tasks_conversation_propagate tid c d = Ok d'"
  shows "event_lines d' = event_lines d"
proof -
  from assms obtain P where "state_events d' = update_where P (\<lambda>e. e\<lparr>se_conversation := Some c\<rparr>) (state_events d)"
    by (auto simp: tasks_conversation_propagate_def and_then_eq_Ok update_rows_eq_Ok)
  then show ?thesis by (simp add: event_lines_def image_update_where)
qed

lemma update_task_targets_kept:
  assumes "keys_ok d" and "update_task_row tid (\<lambda>r. (f r)\<lparr>tk_id := tk_id r\<rparr>) d = Ok d'"
  shows "targets_kept d d'"
proof (cases "find_task d tid")
  case None
  with assms(2) show ?thesis by (simp add: update_task_row_def targets_kept_same)
next
  case (Some old)
  let ?f = "\<lambda>r. (f r)\<lparr>tk_id := tk_id r\<rparr>"
  from assms(2) Some have bound: "tk_conversation old = None \<or> tk_conversation (f old) = tk_conversation old"
    and rows: "tasks d' = update_where (\<lambda>t. tk_id t = tid) ?f (tasks d)"
    and rest: "conversations d' = conversations d" "sessions d' = sessions d" "approvals d' = approvals d"
    by (auto simp: update_task_row_def tasks_conversation_propagate_def and_then_eq_Ok update_rows_eq_Ok tasks_lineage_update_def
        split: option.splits)
  have "(tk_id t, c) \<in> bound_tasks d'" if t: "t \<in> set (tasks d)" "tk_conversation t = Some c" for t c
  proof (cases "tk_id t = tid")
    case True
    with find_task_unique [OF assms(1) Some] t(1) have "t = old" by blast
    with bound t True have "tk_conversation (?f t) = Some c" "?f t \<in> set (tasks d')"
      by (auto simp: rows set_update_where)
    then show ?thesis unfolding bound_tasks_def by (intro CollectI exI [of _ "?f t"] exI [of _ c]) simp
  next
    case False
    with t show ?thesis by (auto simp: bound_tasks_def rows set_update_where)
  qed
  then have "bound_tasks d \<subseteq> bound_tasks d'" by (auto simp: bound_tasks_def)
  moreover have "event_lines (d\<lparr>tasks := ts\<rparr>) = event_lines d" for ts by (simp add: event_lines_def)
  then have "event_lines d' = event_lines d"
    using assms(2) Some by (auto simp: update_task_row_def and_then_eq_Ok dest!: propagate_event_lines split: option.splits)
  ultimately show ?thesis
    by (intro targets_keptI) (simp_all add: rest rows image_update_where bound_sessions_def approval_lines_def)
qed

lemma apply_write_targets_kept: "keys_ok d \<Longrightarrow> apply_write w d = Ok d' \<Longrightarrow> targets_kept d d'"
  by (cases w; simp only: apply_write.simps sum.inject;
    (erule (1) update_task_targets_kept | erule targets_rules | (drule sym, simp only: targets_rules)))

subsection \<open>Rows that stay in their lineage\<close>

definition action_fits :: "db \<Rightarrow> action_row \<Rightarrow> bool" where
  "action_fits d a = (action_lineage d a = None \<and> action_refs d a)"

definition projection_fits_task :: "db \<Rightarrow> projection \<Rightarrow> bool" where
  "projection_fits_task d p = (\<exists>c. px_conversation p = Some c \<and> conversation_exists d c \<and>
     (px_task p = None \<or> (\<exists>tid. px_task p = Some tid \<and> (tid, c) \<in> bound_tasks d)))"

text \<open>What the audit and the trigger ask of an action, as membership in the sets that are kept\<close>

definition action_placed :: "db \<Rightarrow> ident option \<Rightarrow> ident option \<Rightarrow> bool" where
  "action_placed d task session = (case (task, session) of
     (None, None) \<Rightarrow> True
   | (Some tid, None) \<Rightarrow> task_exists d tid
   | (None, Some sid) \<Rightarrow> (\<exists>c. (sid, c) \<in> bound_sessions d)
   | (Some tid, Some sid) \<Rightarrow> (\<exists>c. (tid, c) \<in> bound_tasks d \<and> (sid, c) \<in> bound_sessions d))"

lemma action_fits_iff:
  "action_fits d a \<longleftrightarrow> (aj_event a, aj_task a, aj_session a) \<in> event_lines d \<and>
    (aj_approval a = None \<or> (\<exists>aid. aj_approval a = Some aid \<and> (aid, aj_task a, aj_session a) \<in> approval_lines d)) \<and>
    action_placed d (aj_task a) (aj_session a)"
proof -
  have event: "exists_where (\<lambda>e. se_uuid e = aj_event a \<and> se_task e = aj_task a \<and> se_session e = aj_session a) (state_events d) \<longleftrightarrow>
      (aj_event a, aj_task a, aj_session a) \<in> event_lines d"
    by (force simp: event_lines_def)
  have approval: "exists_where (\<lambda>p. ap_id p = aid \<and> ap_task p = aj_task a \<and> ap_session p = aj_session a) (approvals d) \<longleftrightarrow>
      (aid, aj_task a, aj_session a) \<in> approval_lines d" for aid
    by (force simp: approval_lines_def)
  have found: "\<exists>y. find_approval d aid = Some y" if "(aid, x) \<in> approval_lines d" for aid x
    using that select_one_None_iff [of ap_id aid "approvals d"] by (cases "find_approval d aid") (auto simp: find_approval_def approval_lines_def)
  have task: "task_exists d tid" if "(tid, c) \<in> bound_tasks d" for tid c
    using that by (auto simp: task_exists_def bound_tasks_def)
  have session: "session_exists d sid \<longleftrightarrow> (\<exists>c. (sid, c) \<in> bound_sessions d)" for sid
    by (auto simp: session_exists_def bound_sessions_def image_iff)
  have same: "same_conversation d tid sid \<longleftrightarrow> (\<exists>c. (tid, c) \<in> bound_tasks d \<and> (sid, c) \<in> bound_sessions d)" for tid sid
    by (fastforce simp: same_conversation_def bound_tasks_def bound_sessions_def image_iff)
  show ?thesis
    unfolding action_fits_def action_lineage_def action_refs_def event approval session same first_abort_None action_placed_def
    by (cases "aj_task a"; cases "aj_session a"; cases "aj_approval a") (auto intro: found task)
qed

lemma action_fits_kept:
  assumes "targets_kept d d'" and "action_fits d a"
  shows "action_fits d' a"
proof -
  have "action_placed d' (aj_task a) (aj_session a)" if "action_placed d (aj_task a) (aj_session a)"
    using that assms(1) unfolding action_placed_def targets_kept_def
    by (cases "aj_task a"; cases "aj_session a"; simp; blast)
  with assms show ?thesis unfolding action_fits_iff targets_kept_def by blast
qed

lemma projection_fits_kept: "targets_kept d d' \<Longrightarrow> projection_fits_task d p \<Longrightarrow> projection_fits_task d' p"
  unfolding projection_fits_task_def targets_kept_def by blast

text \<open>The number of an event is not a target, nor is what an update of an action assigns.\<close>

lemma action_fits_update:
  "action_fits d (b\<lparr>aj_id := aj_id a, aj_task := aj_task a, aj_session := aj_session a, aj_event := aj_event a,
     aj_approval := aj_approval a\<rparr>) = action_fits d a"
  by (simp add: action_fits_iff)

subsection \<open>The audit stays empty\<close>

definition store_fits :: "whole_store \<Rightarrow> bool" where
  "store_fits = (\<lambda>(rs, ps, jn, d). store_ok d \<and> (\<forall>r \<in> set rs. optional (task_exists d) (ro_task r)) \<and>
     (\<forall>a \<in> set (jn_actions jn). action_fits d a) \<and>
     (\<forall>p \<in> set ps. projection_fits_task d p))"

lemma projection_fits_audit:
  assumes "keys_ok d" and "projection_fits_task d p"
  shows "projection_refs d p" and "t \<in> set (tasks d) \<Longrightarrow> px_task p = Some (tk_id t) \<Longrightarrow> px_conversation p = tk_conversation t"
proof -
  from assms(2) show "projection_refs d p"
    by (auto simp: projection_fits_task_def projection_refs_def bound_tasks_def task_exists_def)
  assume t: "t \<in> set (tasks d)" "px_task p = Some (tk_id t)"
  with assms(2) obtain u where "u \<in> set (tasks d)" "tk_id u = tk_id t" "px_conversation p = tk_conversation u"
    by (auto simp: projection_fits_task_def bound_tasks_def)
  with task_unique [OF assms(1)] t(1) show "px_conversation p = tk_conversation t" by metis
qed

text \<open>The query of the audit counts the rows the triggers would not let in.\<close>

lemma action_violations_eq: "action_violations d t = count_where (\<lambda>a. action_lineage d a \<noteq> None) t"
proof -
  have "(case (aj_task a, aj_session a) of (Some tid, Some sid) \<Rightarrow> \<not> same_conversation d tid sid | _ \<Rightarrow> False) \<or>
     \<not> exists_where (\<lambda>e. se_uuid e = aj_event a \<and> se_task e = aj_task a \<and> se_session e = aj_session a) (state_events d) \<or>
     (case aj_approval a of None \<Rightarrow> False | Some aid \<Rightarrow>
        \<not> exists_where (\<lambda>p. ap_id p = aid \<and> ap_task p = aj_task a \<and> ap_session p = aj_session a) (approvals d)) \<longleftrightarrow>
     action_lineage d a \<noteq> None" for a
    unfolding action_lineage_def not_None_eq [symmetric] first_abort_None
    by (cases "aj_task a"; cases "aj_session a"; cases "aj_approval a") (simp_all del: exists_where_iff)
  then show ?thesis by (simp add: action_violations_def del: exists_where_iff)
qed

lemma action_fits_audit:
  assumes "\<forall>a \<in> set t. action_fits d a"
  shows "count_where (\<lambda>a. \<not> action_refs d a) t = 0" and "action_violations d t = 0"
  using assms by (simp_all add: action_violations_eq count_where_zero_iff action_fits_def)

lemma store_fits_audit:
  assumes "store_fits s"
  shows "all_key_violations s = 0" and "lineage_errors s = []"
proof -
  obtain rs ps jn d where s: "s = (rs, ps, jn, d)" by (cases s)
  from assms have ok: "store_ok d" "\<forall>a \<in> set (jn_actions jn). action_fits d a" "\<forall>r \<in> set rs. optional (task_exists d) (ro_task r)"
    "\<forall>p \<in> set ps. projection_fits_task d p"
    by (simp_all add: s store_fits_def)
  then have keys: "keys_ok d" and core: "\<forall>c \<in> set (core_checks d). snd c = 0"
    by (simp_all add: store_ok_def core_errors_Nil)
  from core have zero: "foreign_key_violations d = 0" by (simp add: core_checks_def)
  have refs: "count_where (\<lambda>p. \<not> projection_refs d p) ps = 0"
    using projection_fits_audit(1) [OF keys] ok(4) by (simp add: count_where_zero_iff)
  show keys_zero: "all_key_violations s = 0"
    using ok(3) by (simp add: s all_key_violations_def zero refs count_where_zero_iff [of _ rs] action_fits_audit(1) [OF ok(2)])
  have bound: "count_join (\<lambda>p t. px_task p = Some (tk_id t) \<and> px_conversation p \<noteq> tk_conversation t) ps (tasks d) = 0"
    using projection_fits_audit(2) [OF keys] ok(4) by (auto simp: count_join_zero_iff)
  show "lineage_errors s = []"
    using core keys_zero
    by (auto simp: lineage_errors_def s lineage_checks_def core_checks_def bound action_fits_audit(2) [OF ok(2)])
qed

lemma insert_projection_fits:
  assumes "insert_projection p (ps, d) = Ok (u, ps', d')"
  shows "ps' = ps @ [p] \<and> d' = d \<and> projection_fits_task d p"
  using assms find_task_SomeD
  by (fastforce simp: insert_projection_def projections_lineage_insert_def projection_fits_task_def bound_tasks_def
      raise_if_def split: option.splits if_splits)

lemma insert_action_fits:
  assumes "insert_action a (jn, d) = Ok (jn', d')"
  shows "jn_actions jn' = jn_actions jn @ [a] \<and> d' = d \<and> action_fits d a"
  using assms by (auto simp: insert_action_def and_then_eq_Ok action_fits_def)

lemma apply_store_write_fits:
  assumes "store_fits s" and "apply_store_write w s = Ok s'"
  shows "store_fits s'"
proof -
  obtain rs ps jn d where s: "s = (rs, ps, jn, d)" by (cases s)
  from assms(1) have ok: "store_ok d" "\<forall>a \<in> set (jn_actions jn). action_fits d a" "\<forall>r \<in> set rs. optional (task_exists d) (ro_task r)"
    "\<forall>p \<in> set ps. projection_fits_task d p"
    by (simp_all add: s store_fits_def)
  show ?thesis
  proof (cases w)
    case (On_Database v)
    with assms(2) obtain d' where v: "apply_write v d = Ok d'" and s': "s' = (rs, ps, jn, d')"
      by (auto simp: s and_then_eq_Ok)
    have "targets_kept d d'" by (rule apply_write_targets_kept [OF _ v]) (use ok(1) in \<open>simp add: store_ok_def\<close>)
    moreover have "store_ok d'" using write_step_store_ok [OF ok(1), of v] by (simp add: write_step_def v)
    moreover have "optional (task_exists d') t" if "optional (task_exists d) t" for t
      using calculation(1) that by (cases t) (simp_all add: targets_kept_def)
    ultimately show ?thesis using ok action_fits_kept projection_fits_kept by (auto simp: s' store_fits_def)
  next
    case (Add_Route r)
    with assms(2) ok show ?thesis by (auto simp: s and_then_eq_Ok store_fits_def)
  next
    case (Add_Projection p)
    with assms(2) ok show ?thesis
      by (auto simp: s and_then_eq_Ok store_fits_def dest!: insert_projection_fits)
  next
    case (Add_Action a)
    with assms(2) ok show ?thesis
      by (auto simp: s and_then_eq_Ok store_fits_def dest!: insert_action_fits)
  next
    case (Set_Actions P f)
    with assms(2) ok show ?thesis
      by (auto simp: s and_then_eq_Ok store_fits_def update_actions_def update_rows_eq_Ok set_update_where action_fits_update)
  qed
qed

interpretation whole_store: state_machine store_step store_fits
  by unfold_locales (auto simp: store_step_def intro: apply_store_write_fits split: sum.split)

lemma empty_store_fits: "store_fits empty_store"
proof -
  have "store_ok empty_db" by code_simp
  then show ?thesis by (simp add: store_fits_def empty_store_def)
qed

end
