(* ===== verification/Guarantees_Store.thy ===== *)
theory Guarantees_Store
  imports Store_Audit
begin

section \<open>Guarantees of the state store\<close>

text \<open>The audit over the tables of the database, the actions of the journal, the projections and
  the routes.\<close>

text \<open>C1. The audit of the state store stays silent: whatever statements the components issue, in
  any order and however many of them SQLite rejects, none of the queries of \<^verbatim>\<open>lineage_errors\<close> counts a
  row of the modelled tables (those of the database, the action journal, the projections, the runtime
  routes) whose references contradict each other, and no foreign key of them dangles.\<close>

theorem audit_stays_clean:
  "lineage_errors (fold store_step ws empty_store) = [] \<and> all_key_violations (fold store_step ws empty_store) = 0"
  using store_fits_audit [OF whole_store.run_inv [OF empty_store_fits, of ws]] by simp

end
