(* ===== verification/Control_Safety.thy ===== *)
theory Control_Safety
  imports Control_Queue
begin

section \<open>What the control queue guarantees\<close>

text \<open>
  The theorems about \<open>Control_Queue\<close>.  A control that was applied or failed and a cancellation
  that was reconciled never change again, whatever operations follow (both tables as instances
  of the locale \<open>lifecycle\<close>).  A control is processed in queue order and never before its
  cancellation is reconciled.  Recovery repeats no attempted cancellation: it resolves intents
  nobody attempted, and turns an attempt whose owner is lost into an ambiguous outcome together
  with a failed, fenced task.
\<close>

subsection \<open>Settled controls and cancellations never change\<close>

definition settled_control :: "control_row \<Rightarrow> bool" where
  "settled_control c = (ct_state c = C_Applied \<or> ct_state c = C_Failed)"

definition settled_cancellation :: "cancellation_row \<Rightarrow> bool" where
  "settled_cancellation x = cancellation_ready (cx_state x)"

text \<open>\<open>kept d d'\<close>: from \<open>d\<close> to \<open>d'\<close>, no settled row of the two tables changed.\<close>

definition kept :: "db \<Rightarrow> db \<Rightarrow> bool" where
  "kept d d' =
    ((\<forall>cid c. find_control d cid = Some c \<and> settled_control c \<longrightarrow> find_control d' cid = Some c) \<and>
     (\<forall>cid x. find_cancellation d cid = Some x \<and> settled_cancellation x \<longrightarrow>
        find_cancellation d' cid = Some x))"

lemma kept_refl [simp]: "kept d d"
  by (simp add: kept_def)

lemma kept_trans: "kept d d1 \<Longrightarrow> kept d1 d2 \<Longrightarrow> kept d d2"
  unfolding kept_def by meson

lemma kept_same_tables:
  "task_controls d2 = task_controls d1 \<Longrightarrow> control_cancellations d2 = control_cancellations d1 \<Longrightarrow> kept d1 d2"
  by (simp add: kept_def find_control_def find_cancellation_def)

lemma kept_leases [simp]: "kept d0 (d\<lparr>resource_leases := l\<rparr>) = kept d0 d"
  by (simp add: kept_def find_control_def find_cancellation_def)

lemma kept_state_events [simp]: "kept d0 (d\<lparr>state_events := l\<rparr>) = kept d0 d"
  by (simp add: kept_def find_control_def find_cancellation_def)

lemma ok_post_require [post]:
  "ok_post (require_task_write_in_transaction e selected allow changes tid d) (\<lambda>_. True)"
  by (simp add: ok_post_def split: sum.split)

lemma ok_post_resolve [post]:
  "ok_post (resolve_lineage_in_transaction d task session conv) (\<lambda>_. True)"
  by (simp add: ok_post_def split: sum.split)

lemma kept_drop [simp]:
  "kept d0 (drop_lease t k w d) = kept d0 d" "kept d0 (drop_fence tid d) = kept d0 d"
  "kept d0 (release_task_fence_if_quiescent tid token d) = kept d0 d"
  by (simp_all add: drop_lease_def drop_fence_def release_task_fence_if_quiescent_def split: option.split)

lemma kept_claim: "kept d0 d \<Longrightarrow> kept d0 (snd (claim_in_transaction e res ow lease metadata d))"
  by (metis claim_frame kept_leases)

lemma ok_post_claim:
  "kept d0 d \<Longrightarrow> (\<And>b d1. kept d0 d1 \<Longrightarrow> claim_in_transaction e res ow lease metadata d = (b, d1) \<Longrightarrow> ok_post (f b d1) Q) \<Longrightarrow>
     ok_post (case claim_in_transaction e res ow lease metadata d of (b, d1) \<Rightarrow> f b d1) Q"
  using kept_claim [of d0 d e res ow lease metadata]
  by (cases "claim_in_transaction e res ow lease metadata d") simp

lemma kept_transact:
  "kept d0 d \<Longrightarrow> ok_post (body d) (\<lambda>(x, s'). kept d0 s') \<Longrightarrow> kept d0 (snd (transact body d))"
  by (rule transact_post [of "kept d0"])

lemma kept_if:
  "(b \<Longrightarrow> kept d0 (snd x)) \<Longrightarrow> (\<not> b \<Longrightarrow> kept d0 (snd y)) \<Longrightarrow> kept d0 (snd (if b then x else y))"
  by simp

lemma kept_and_then:
  "kept d0 d \<Longrightarrow> ok_post r (kept d0) \<Longrightarrow> (\<And>x. kept d0 x \<Longrightarrow> ok_post (f x) R) \<Longrightarrow> ok_post (and_then r f) R"
  by (rule ok_post_and_then)

lemma ok_post_update_controls [post]:
  assumes "kept d0 d" and "\<And>c. P c \<Longrightarrow> \<not> settled_control c" and "\<And>c. ct_id (f c) = ct_id c"
  shows "ok_post (update_controls P f d) (kept d0)"
proof -
  have "kept d d'" if "update_controls P f d = Ok d'" for d'
    using that assms(2)
    by (auto simp: update_controls_def and_then_eq_Ok update_rows_eq_Ok kept_def find_control_def
        find_cancellation_def select_one_update_where [of ct_id f, OF assms(3)])
  with assms(1) show ?thesis
    by (auto simp: ok_post_def intro: kept_trans split: sum.split)
qed

lemma ok_post_pending_payload [post]:
  "kept d0 d \<Longrightarrow> ok_post (set_pending_payload cid payload d) (kept d0)"
  unfolding set_pending_payload_def by (rule ok_post_update_controls) (auto simp: settled_control_def)

lemma kept_update_cancellations:
  assumes "kept d0 d" and "\<And>x. P x \<Longrightarrow> \<not> settled_cancellation x" and "\<And>x. cx_control (f x) = cx_control x"
  shows "kept d0 (update_cancellations P f d)"
proof -
  have "kept d (update_cancellations P f d)"
    using assms(2) by (auto simp: update_cancellations_def kept_def find_control_def
        find_cancellation_def select_one_update_where [of cx_control f, OF assms(3)])
  with assms(1) show ?thesis by (rule kept_trans)
qed

lemma kept_mark_ambiguous: "kept d0 d \<Longrightarrow> kept d0 (mark_ambiguous e cid error d)"
  unfolding mark_ambiguous_def
  by (rule kept_update_cancellations) (auto simp: settled_cancellation_def cancellation_ready_def)

lemma ok_post_insert_control [post]: "kept d0 d \<Longrightarrow> ok_post (insert_control r d) (kept d0)"
proof -
  have "kept d d'" if "insert_control r d = Ok d'" for d'
    using that by (auto simp: insert_control_def kept_def find_control_def find_cancellation_def
        select_one_append_new) (metis imageI select_one_SomeD)
  then show "kept d0 d \<Longrightarrow> ok_post (insert_control r d) (kept d0)"
    by (auto simp: ok_post_def intro: kept_trans split: sum.split)
qed

lemma ok_post_insert_cancellation [post]: "kept d0 d \<Longrightarrow> ok_post (insert_cancellation r d) (kept d0)"
proof -
  have "kept d d'" if "insert_cancellation r d = Ok d'" for d'
    using that by (auto simp: insert_cancellation_def kept_def find_control_def find_cancellation_def
        select_one_append_new) (metis imageI select_one_SomeD)
  then show "kept d0 d \<Longrightarrow> ok_post (insert_cancellation r d) (kept d0)"
    by (auto simp: ok_post_def intro: kept_trans split: sum.split)
qed

lemma ok_post_state_event [post]:
  "kept d0 d \<Longrightarrow> ok_post (insert_state_event t uuid etype message session conv task role payload vis d)
     (\<lambda>(r, d'). kept d0 d')"
  by (auto simp: ok_post_def dest!: insert_state_event_Ok split: sum.split)

lemma update_task_row_tables:
  "update_task_row tid f d = Ok d' \<Longrightarrow> task_controls d' = task_controls d \<and>
     control_cancellations d' = control_cancellations d \<and> resource_leases d' = resource_leases d"
  by (auto simp: update_task_row_def tasks_conversation_propagate_def and_then_eq_Ok split: option.splits)

lemma ok_post_update_task_row [post]: "kept d0 d \<Longrightarrow> ok_post (update_task_row tid f d) (kept d0)"
  by (auto simp: ok_post_def intro: kept_trans kept_same_tables dest!: update_task_row_tables split: sum.split)

lemma ok_post_fail_task [post]:
  "kept d0 d \<Longrightarrow> ok_post (fail_task_for_ambiguous_cancellation e uuid tid cid reason d) (kept d0)"
  unfolding fail_task_for_ambiguous_cancellation_def Let_def
  by (rule post | assumption | clarsimp)+

datatype control_op =
    CO_Enqueue env "nat \<Rightarrow> ident" ident string string "ident option" dict "new_cancellation option"
  | CO_Begin env owner time ident
  | CO_Resolve env owner string string ident
  | CO_Reconcile env ident owner json string bool ident
  | CO_Abandon env ident owner string ident
  | CO_Recover_Cancellations env "nat \<Rightarrow> ident" owner time ident
  | CO_Claim_Next env owner time ident
  | CO_Finish env ident owner bool dict ident
  | CO_Annotate env dict "owner option" ident
  | CO_Recover_Processing env owner time ident

fun control_step :: "control_op \<Rightarrow> db \<Rightarrow> db" where
  "control_step (CO_Enqueue e ids tid kind message session payload n) d =
     snd (enqueue e ids tid kind message session payload n d)"
| "control_step (CO_Begin e ow lease cid) d = snd (begin_cancellation e ow lease cid d)"
| "control_step (CO_Resolve e ow outcome error cid) d =
     snd (resolve_unattempted_cancellation e ow outcome error cid d)"
| "control_step (CO_Reconcile e uuid ow result error ambiguous cid) d =
     snd (reconcile_cancellation e uuid ow result error ambiguous cid d)"
| "control_step (CO_Abandon e uuid ow error cid) d = snd (abandon_cancellation e uuid ow error cid d)"
| "control_step (CO_Recover_Cancellations e ids ow lease tid) d =
     snd (recover_cancellations e ids ow lease tid d)"
| "control_step (CO_Claim_Next e ow lease tid) d = snd (claim_next e ow lease tid d)"
| "control_step (CO_Finish e uuid ow success payload cid) d = snd (finish e uuid ow success payload cid d)"
| "control_step (CO_Annotate e payload ow cid) d = snd (annotate e payload ow cid d)"
| "control_step (CO_Recover_Processing e ow lease tid) d = snd (recover_processing e ow lease tid d)"

lemma kept_set_attempting:
  "kept d0 d \<Longrightarrow> s \<in> {X_Intent, X_Attempting} \<Longrightarrow> (\<And>x. cx_control (f x) = cx_control x) \<Longrightarrow>
     kept d0 (update_cancellations (\<lambda>y. cx_control y = cid \<and> cx_state y = s) f d)"
  by (rule kept_update_cancellations) (auto simp: settled_cancellation_def cancellation_ready_def)

lemma ok_post_record [post]:
  "kept d0 d \<Longrightarrow> ok_post (record_cancellation e cid tid kind n d) (kept d0)"
  unfolding record_cancellation_def Let_def
  by (assumption | rule ok_post_claim kept_and_then post | (simp; fail))+

lemma ok_post_enqueue:
  "kept d0 d \<Longrightarrow> ok_post (enqueue_in_transaction e ids tid kind message session payload cancellation d)
     (\<lambda>(r, d'). kept d0 d')"
  unfolding enqueue_in_transaction_def Let_def
  by (assumption | rule ok_post_claim kept_and_then post | (simp; fail))+

lemma kept_enqueue: "kept d0 d \<Longrightarrow> kept d0 (snd (enqueue e ids tid kind message session payload n d))"
  by (auto simp: enqueue_def intro: kept_transact ok_post_enqueue split: option.split)

lemma kept_begin: "kept d0 d \<Longrightarrow> kept d0 (snd (begin_cancellation e ow lease cid d))"
  unfolding begin_cancellation_def Let_def
  by (rule kept_transact, assumption, (assumption | rule ok_post_claim kept_and_then post kept_set_attempting | (simp; fail))+)

lemma kept_resolve: "kept d0 d \<Longrightarrow> kept d0 (snd (resolve_unattempted_cancellation e ow outcome error cid d))"
  unfolding resolve_unattempted_cancellation_def Let_def
  by (rule kept_transact, assumption, (assumption | rule ok_post_claim kept_and_then post kept_set_attempting | (simp; fail))+)

lemma kept_reconcile: "kept d0 d \<Longrightarrow> kept d0 (snd (reconcile_cancellation e uuid ow result error ambiguous cid d))"
  unfolding reconcile_cancellation_def Let_def
  by (rule kept_transact, assumption, (assumption | rule ok_post_claim kept_and_then post kept_set_attempting | (simp; fail))+)

lemma kept_abandon: "kept d0 d \<Longrightarrow> kept d0 (snd (abandon_cancellation e uuid ow error cid d))"
  unfolding abandon_cancellation_def
  by (rule kept_transact, assumption, (assumption | rule ok_post_claim kept_and_then post kept_mark_ambiguous | (simp add: kept_mark_ambiguous; fail))+)

lemma ok_post_resolve_unattempted [post]:
  "kept d0 d \<Longrightarrow> ok_post (resolve_unattempted_in_transaction e c outcome error d) (\<lambda>(n, d'). kept d0 d')"
  unfolding resolve_unattempted_in_transaction_def Let_def
  by (assumption | rule kept_and_then post kept_set_attempting | (simp add: kept_set_attempting; fail))+

lemma ok_post_recover_one [post]:
  "kept d0 d \<Longrightarrow> ok_post (recover_one e ow lease uuid tid c xs d) (\<lambda>(n, d'). kept d0 d')"
  unfolding recover_one_def Let_def
  by (assumption | rule ok_post_claim kept_and_then post kept_mark_ambiguous | (simp add: kept_mark_ambiguous; fail))+

lemma ok_post_recover_rows:
  "kept d0 d \<Longrightarrow> ok_post (recover_rows e ow lease ids tid rows n d) (\<lambda>(n, d'). kept d0 d')"
proof (induction rows arbitrary: n d)
  case Nil
  then show ?case by simp
next
  case (Cons row rows)
  obtain c xs where row: "row = (c, xs)" by (cases row)
  show ?case
    unfolding row recover_rows.simps
    by (rule ok_post_and_then, rule ok_post_recover_one, rule Cons.prems) (use Cons.IH in auto)
qed

lemma kept_recover_cancellations: "kept d0 d \<Longrightarrow> kept d0 (snd (recover_cancellations e ids ow lease tid d))"
  unfolding recover_cancellations_def
  by (rule kept_transact, assumption, rule ok_post_recover_rows)

lemma kept_claim_next: "kept d0 d \<Longrightarrow> kept d0 (snd (claim_next e ow lease tid d))"
  unfolding claim_next_def Let_def
  by (rule kept_transact, assumption, (assumption | rule ok_post_claim kept_and_then post | (simp add: settled_control_def; fail))+)

lemma kept_finish: "kept d0 d \<Longrightarrow> kept d0 (snd (finish e uuid ow success payload cid d))"
  unfolding finish_def Let_def
  by (rule kept_if, simp, rule kept_transact, assumption, (assumption | rule kept_and_then post | (auto simp: settled_control_def; fail))+)

lemma kept_annotate: "kept d0 d \<Longrightarrow> kept d0 (snd (annotate e payload ow cid d))"
  unfolding annotate_def Let_def
  by (rule kept_if, simp, rule kept_transact, assumption, (assumption | rule kept_and_then post | (auto simp: settled_control_def; fail))+)

lemma ok_post_recover_controls:
  "kept d0 d \<Longrightarrow> ok_post (recover_controls e ow lease tid rows n d) (\<lambda>(n, d'). kept d0 d')"
proof (induction rows arbitrary: n d)
  case Nil
  then show ?case by simp
next
  case (Cons c rows)
  show ?case
    unfolding recover_controls.simps Let_def
    by (assumption | rule ok_post_claim kept_and_then post Cons.prems Cons.IH | (simp add: settled_control_def; fail))+
qed

lemma kept_recover_processing: "kept d0 d \<Longrightarrow> kept d0 (snd (recover_processing e ow lease tid d))"
  unfolding recover_processing_def
  by (rule kept_transact, assumption, rule ok_post_recover_controls)

lemma control_step_kept: "kept d (control_step op d)"
  by (cases op) (simp_all add: kept_enqueue kept_begin kept_resolve kept_reconcile kept_abandon
      kept_recover_cancellations kept_claim_next kept_finish kept_annotate kept_recover_processing)

interpretation cancellation_life:
  lifecycle control_step "\<lambda>_. True" find_cancellation settled_cancellation
  by unfold_locales (use control_step_kept in \<open>auto simp: kept_def\<close>)

interpretation control_life: lifecycle control_step "\<lambda>_. True" find_control settled_control
  by unfold_locales (use control_step_kept in \<open>auto simp: kept_def\<close>)

subsection \<open>Which control is processed next\<close>

lemma update_controls_find:
  assumes "update_controls P f d = Ok d'" and "\<And>c. ct_id (f c) = ct_id c"
  shows "find_control d' cid = map_option (\<lambda>c. if P c then f c else c) (find_control d cid)"
  using assms by (auto simp: update_controls_def and_then_eq_Ok update_rows_eq_Ok find_control_def
      select_one_update_where [of ct_id f, OF assms(2)])

lemma claim_keeps_controls:
  assumes "claim_in_transaction e res ow lease metadata d = (b, d')"
  shows "find_control d' cid = find_control d cid"
    and "find_cancellation d' cid = find_cancellation d cid"
    and "find_task d' tid = find_task d tid"
  using claim_frame [of e res ow lease metadata d d'] assms
  by (simp_all add: find_control_def find_cancellation_def find_task_def) (metis db.select_convs db.surjective db.update_convs)+

lemma claim_next_Some:
  assumes keys: "keys_distinct ct_id (task_controls d)" and ok: "leases_ok d"
    and res: "claim_next e ow lease tid d = (Ok (Some c'), d')"
  obtains c where "c \<in> set (task_controls d)" "ct_task c = tid" "ct_state c = C_Pending"
    and "\<And>x. x \<in> set (task_controls d) \<Longrightarrow> ct_task x = tid \<Longrightarrow> ct_state x = C_Pending \<Longrightarrow>
      control_order c \<le> control_order x"
    and "\<not> unreconciled d c" "c' = c\<lparr>ct_state := C_Processing\<rparr>"
    and "find_control d' (ct_id c) = Some c'" "holder d' (Task_Control, ct_id c) = Some ow"
proof -
  let ?P = "\<lambda>c. ct_task c = tid \<and> ct_state c = C_Pending"
  from res obtain c where c: "select_first control_order ?P (task_controls d) = Some c"
    by (cases "select_first control_order ?P (task_controls d)") (auto simp: claim_next_def)
  note first = select_first_SomeD [OF c]
  have found: "find_control d (ct_id c) = Some c"
    using first keys by (simp add: find_control_def select_one_eq_SomeI)
  let ?x = "find_cancellation d (ct_id c)"
  let ?lease = "claim_in_transaction e (Task_Control, ct_id c) ow lease [(''task_id'', JStr tid)] d"
  let ?Q = "\<lambda>y. ct_id y = ct_id c \<and> ct_state y = C_Pending"
  obtain b d1 where cl: "?lease = (b, d1)" by (cases ?lease)
  from res have body: "(if ct_kind c \<in> {Interrupt, Cancel} \<and> ?x = None then Ok (None, d)
      else if (case ?x of None \<Rightarrow> False | Some y \<Rightarrow> \<not> cancellation_ready (cx_state y)) then Ok (None, d)
      else if \<not> b then Ok (None, d1)
      else and_then (update_controls ?Q (\<lambda>y. y\<lparr>ct_state := C_Processing\<rparr>) d1)
        (\<lambda>d2. if count_where ?Q (task_controls d1) \<noteq> 1
           then Ok (None, drop_lease Task_Control (ct_id c) (ow_token ow) d2)
           else Ok (find_control d2 (ct_id c), d2))) = Ok (Some c', d')"
    unfolding claim_next_def transact_eq_Ok c option.case Let_def cl prod.case .
  then have ready: "case ?x of None \<Rightarrow> True | Some y \<Rightarrow> cancellation_ready (cx_state y)" and b: "b"
    by (auto split: if_splits option.splits)
  from body obtain d2 where d2: "update_controls ?Q (\<lambda>y. y\<lparr>ct_state := C_Processing\<rparr>) d1 = Ok d2"
    and out: "find_control d2 (ct_id c) = Some c'" "d' = d2"
    by (auto simp: and_then_eq_Ok split: if_splits)
  have c': "c' = c\<lparr>ct_state := C_Processing\<rparr>"
    using update_controls_find [OF d2, of "ct_id c"] out(1) claim_keeps_controls(1) [OF cl] found first(2) by simp
  have "find_lease d2 = find_lease d1"
    using d2 by (auto simp: update_controls_def and_then_eq_Ok find_lease_def intro!: ext)
  with claim_granted(1) [OF ok, of e _ ow lease _ d1] cl b out(2)
  have hold: "holder d' (Task_Control, ct_id c) = Some ow"
    by (simp add: holder_def claimed_row_def lease_owner_def)
  have "\<not> unreconciled d c"
    using ready by (auto simp: unreconciled_def cancellation_ready_def split: option.splits)
  with that first c' out hold show ?thesis by auto
qed

text \<open>While the first pending control waits for its cancellation to be reconciled, nothing of the
  task is processed.\<close>

lemma claim_next_blocked:
  assumes "select_first control_order (\<lambda>c. ct_task c = tid \<and> ct_state c = C_Pending) (task_controls d) = Some c"
    and "unreconciled d c"
  shows "claim_next e ow lease tid d = (Ok None, d)"
proof -
  from assms(2) obtain x where "find_cancellation d (ct_id c) = Some x" "\<not> cancellation_ready (cx_state x)"
    by (auto simp: unreconciled_def cancellation_ready_def split: option.splits)
  with assms(1) show ?thesis
    by (simp add: claim_next_def Let_def)
qed

subsection \<open>An ambiguous cancellation closes the task\<close>

definition fail_closed :: "db \<Rightarrow> ident \<Rightarrow> bool" where
  "fail_closed d tid = (case find_task d tid of None \<Rightarrow> False
     | Some t \<Rightarrow> tk_state t = T_Failed \<and> tk_phase t = recovery_phase)"

lemma fail_closed_fenced: "fail_closed d tid \<Longrightarrow> task_execution_fenced d tid"
  by (auto simp: fail_closed_def task_execution_fenced_def task_phase_def split: option.splits)

lemma fail_task_closes:
  assumes "fail_task_for_ambiguous_cancellation e uuid tid cid reason d = Ok d'"
  shows "fail_closed d' tid" and "control_cancellations d' = control_cancellations d"
    and "task_controls d' = task_controls d"
proof -
  from assms obtain row d1 where row: "find_task d tid = Some row"
    and upd: "update_task_row tid (\<lambda>t. t\<lparr>tk_state := T_Failed, tk_phase := recovery_phase,
      tk_failures := (if ambiguous_failure \<in> set (tk_failures row) then tk_failures row
                      else tk_failures row @ [ambiguous_failure]), tk_updated_at := now e\<rparr>) d = Ok d1"
    and ev: "\<exists>l. d' = d1\<lparr>state_events := l\<rparr>"
    by (cases "find_task d tid")
      (auto simp: fail_task_for_ambiguous_cancellation_def Let_def and_then_eq_Ok dest!: insert_state_event_Ok)
  then show "fail_closed d' tid"
    using update_task_row_find [OF _ upd, of tid] by (auto simp: fail_closed_def find_task_def)
  show "control_cancellations d' = control_cancellations d" "task_controls d' = task_controls d"
    using update_task_row_tables [OF upd] ev by auto
qed

text \<open>What recovery may do to a cancellation: an intent nobody attempted is resolved, an attempt is
  left or becomes ambiguous, and then the task is closed.  No attempt is ever repeated.\<close>

fun recovery_step :: "cancellation_state \<Rightarrow> cancellation_state \<Rightarrow> bool" where
  "recovery_step X_Intent s = (s = X_Intent \<or> s = X_Resolved)"
| "recovery_step X_Attempting s = (s = X_Attempting \<or> s = X_Ambiguous)"
| "recovery_step r s = (s = r)"

definition recovered_to :: "db \<Rightarrow> db \<Rightarrow> bool" where
  "recovered_to d0 d = (\<forall>cid x. find_cancellation d0 cid = Some x \<longrightarrow>
     (\<exists>x'. find_cancellation d cid = Some x' \<and> recovery_step (cx_state x) (cx_state x')))"

definition became_ambiguous :: "db \<Rightarrow> db \<Rightarrow> bool" where
  "became_ambiguous d0 d = (\<exists>cid x x'. find_cancellation d0 cid = Some x \<and> cx_state x = X_Attempting \<and>
     find_cancellation d cid = Some x' \<and> cx_state x' = X_Ambiguous)"

definition recovery_ok :: "ident \<Rightarrow> db \<Rightarrow> db \<Rightarrow> bool" where
  "recovery_ok tid d0 d = (recovered_to d0 d \<and> (became_ambiguous d0 d \<longrightarrow> fail_closed d tid))"

lemma recovery_step_trans: "recovery_step a b \<Longrightarrow> recovery_step b c \<Longrightarrow> recovery_step a c"
  by (cases a; cases b) auto

lemma recovered_to_trans: "recovered_to d0 d1 \<Longrightarrow> recovered_to d1 d2 \<Longrightarrow> recovered_to d0 d2"
  unfolding recovered_to_def by (meson recovery_step_trans)

lemma recovery_ok_refl: "recovery_ok tid d d"
proof -
  have "recovery_step s s" for s by (cases s) auto
  then show ?thesis by (auto simp: recovery_ok_def recovered_to_def became_ambiguous_def)
qed

lemma recovery_ok_same:
  "control_cancellations d' = control_cancellations d \<Longrightarrow> (fail_closed d tid \<Longrightarrow> fail_closed d' tid) \<Longrightarrow>
     recovery_ok tid d0 d \<Longrightarrow> recovery_ok tid d0 d'"
  by (auto simp: recovery_ok_def recovered_to_def became_ambiguous_def find_cancellation_def)

lemma fail_closed_same: "tasks d' = tasks d \<Longrightarrow> fail_closed d' tid = fail_closed d tid"
  by (simp add: fail_closed_def find_task_def)

lemma recovery_ok_leases [simp]: "recovery_ok tid d0 (d\<lparr>resource_leases := l\<rparr>) = recovery_ok tid d0 d"
  by (simp add: recovery_ok_def recovered_to_def became_ambiguous_def find_cancellation_def
      fail_closed_def find_task_def)

lemma recovery_ok_drop [simp]:
  "recovery_ok tid d0 (drop_lease t k w d) = recovery_ok tid d0 d"
  "recovery_ok tid d0 (drop_fence x d) = recovery_ok tid d0 d"
  "recovery_ok tid d0 (release_task_fence_if_quiescent x token d) = recovery_ok tid d0 d"
  by (simp_all add: drop_lease_def drop_fence_def release_task_fence_if_quiescent_def split: option.split)

lemma recovery_ok_claim:
  assumes "recovery_ok tid d0 d" and "claim_in_transaction e res ow lease metadata d = (b, d')"
  shows "recovery_ok tid d0 d'"
proof -
  obtain l where "d' = d\<lparr>resource_leases := l\<rparr>"
    using claim_frame [of e res ow lease metadata d d'] assms(2) by auto
  with assms(1) show ?thesis by simp
qed

lemma set_pending_payload_tables:
  "set_pending_payload cid payload d = Ok d' \<Longrightarrow>
     control_cancellations d' = control_cancellations d \<and> tasks d' = tasks d"
  by (auto simp: set_pending_payload_def update_controls_def and_then_eq_Ok)

lemma mark_ambiguous_recovered: "recovered_to d0 d \<Longrightarrow> recovered_to d0 (mark_ambiguous e cid error d)"
proof -
  have "recovered_to d (mark_ambiguous e cid error d)"
    unfolding recovered_to_def
  proof (intro allI impI)
    fix i x assume "find_cancellation d i = Some x"
    then have "find_cancellation (mark_ambiguous e cid error d) i = Some
        (if cx_control x = cid \<and> cx_state x = X_Attempting then x\<lparr>cx_state := X_Ambiguous,
           cx_result := Some [(''requested'', JNull)], cx_error := error, cx_reconciled_at := Some (now e)\<rparr> else x)"
      by (simp add: mark_ambiguous_def update_cancellations_def find_cancellation_def select_one_update_where)
    then show "\<exists>x'. find_cancellation (mark_ambiguous e cid error d) i = Some x' \<and>
        recovery_step (cx_state x) (cx_state x')"
      by (cases "cx_state x") auto
  qed
  then show "recovered_to d0 d \<Longrightarrow> recovered_to d0 (mark_ambiguous e cid error d)"
    by (rule recovered_to_trans [rotated])
qed

lemma recover_attempt_ok:
  assumes "recovery_ok tid d0 d"
    and d1: "set_pending_payload cid payload (mark_ambiguous e cid error d) = Ok d1"
    and fail: "fail_task_for_ambiguous_cancellation e uuid tid cid error' d1 = Ok d'"
  shows "recovery_ok tid d0 d'"
proof -
  have "recovered_to d0 (mark_ambiguous e cid error d)"
    using assms(1) mark_ambiguous_recovered by (simp add: recovery_ok_def)
  moreover have "control_cancellations d' = control_cancellations (mark_ambiguous e cid error d)"
    using set_pending_payload_tables [OF d1] fail_task_closes(2) [OF fail] by simp
  ultimately show ?thesis
    using fail_task_closes(1) [OF fail] by (simp add: recovery_ok_def recovered_to_def find_cancellation_def)
qed

lemma mark_ambiguous_idle:
  "count_where (\<lambda>y. cx_control y = cid \<and> cx_state y = X_Attempting) (control_cancellations d) = 0 \<Longrightarrow>
     mark_ambiguous e cid error d = d"
  by (subst mark_ambiguous_def, subst update_cancellations_def, subst update_where_idle)
    (auto simp: count_where_zero_iff)

lemma resolve_unattempted_ok:
  assumes "recovery_ok tid d0 d" and "resolve_unattempted_in_transaction e c outcome error d = Ok (n, d')"
  shows "recovery_ok tid d0 d'"
proof -
  let ?P = "\<lambda>y. cx_control y = ct_id c \<and> cx_state y = X_Intent"
  let ?f = "\<lambda>y. y\<lparr>cx_state := X_Resolved, cx_result := Some [(''requested'', JBool False)],
    cx_error := error, cx_reconciled_at := Some (now e)\<rparr>"
  have d': "control_cancellations d' = update_where ?P ?f (control_cancellations d)" "tasks d' = tasks d"
    using assms(2) by (auto simp: resolve_unattempted_in_transaction_def Let_def and_then_eq_Ok
        update_cancellations_def dest!: set_pending_payload_tables split: if_splits)
  have step: "find_cancellation d' i = map_option (\<lambda>y. if ?P y then ?f y else y) (find_cancellation d i)" for i
    by (simp add: find_cancellation_def d' select_one_update_where)
  have "recovered_to d d'"
    unfolding recovered_to_def
  proof (intro allI impI)
    fix i x assume "find_cancellation d i = Some x"
    with step [of i] show "\<exists>x'. find_cancellation d' i = Some x' \<and> recovery_step (cx_state x) (cx_state x')"
      by (cases "cx_state x") auto
  qed
  moreover have "became_ambiguous d0 d' \<Longrightarrow> became_ambiguous d0 d"
    using step by (auto simp: became_ambiguous_def split: if_splits)
  ultimately show ?thesis
    using assms(1) recovered_to_trans fail_closed_same [OF d'(2)] by (auto simp: recovery_ok_def)
qed

lemma recover_one_ok:
  assumes "recovery_ok tid d0 d" and "recover_one e ow lease uuid tid c xs d = Ok (n, d')"
  shows "recovery_ok tid d0 d'"
proof -
  let ?cid = "ct_id c" and ?ex = "find_lease d (Control_Cancellation, ct_id c)"
  obtain b d1 where cl: "claim_in_transaction e (Control_Cancellation, ?cid) ow lease
      [(''recovery'', JBool True), (''task_id'', JStr tid)] d = (b, d1)" by fastforce
  have ok1: "recovery_ok tid d0 d1" by (rule recovery_ok_claim [OF assms(1) cl])
  show ?thesis
  proof (cases "case ?ex of None \<Rightarrow> None | Some l \<Rightarrow> if owner_alive e (ls_pid l) (ls_start l) then Some l else None")
    case (Some l)
    from assms(2) have "(if now e < ls_expires_at l \<or> xs = X_Intent then Ok (0, d)
         else if count_where (\<lambda>y. cx_control y = ?cid \<and> cx_state y = X_Attempting) (control_cancellations d) = 0
         then Ok (0, d)
         else and_then (set_pending_payload ?cid (ambiguous_payload heartbeat_expired_error (ct_payload c))
             (mark_ambiguous e ?cid heartbeat_expired_error d))
          (\<lambda>d1. and_then (fail_task_for_ambiguous_cancellation e uuid tid ?cid heartbeat_expired_error d1)
          (\<lambda>d2. Ok (1, drop_fence tid (d2\<lparr>resource_leases := delete_where
             (\<lambda>x. ls_type x = Control_Cancellation \<and> ls_key x = ?cid \<and> ls_token x = ls_token l \<and>
                ls_pid x = ls_pid l \<and> ls_start x = ls_start l) (resource_leases d2)\<rparr>))))) = Ok (n, d')"
      unfolding recover_one_def Let_def Some option.case .
    with assms(1) show ?thesis
      by (auto simp: and_then_eq_Ok split: if_splits intro: recover_attempt_ok)
  next
    case None
    with assms(2) have eq: "(if \<not> b then Ok (0, d1)
         else if xs = X_Intent then
           and_then (resolve_unattempted_in_transaction e c ''recovered-before-attempt'' [] d1)
           (\<lambda>(n, d1). Ok (n, release_task_fence_if_quiescent tid None
              (drop_lease Control_Cancellation ?cid (ow_token ow) d1)))
         else
           let changed = count_where (\<lambda>y. cx_control y = ?cid \<and> cx_state y = X_Attempting) (control_cancellations d1) in
           and_then (if changed = 0 then Ok (mark_ambiguous e ?cid owner_lost_error d1) else
               and_then (set_pending_payload ?cid (ambiguous_payload owner_lost_error (ct_payload c))
                 (mark_ambiguous e ?cid owner_lost_error d1))
               (\<lambda>d1. fail_task_for_ambiguous_cancellation e uuid tid ?cid owner_lost_error d1))
           (\<lambda>d2. Ok (if changed = 0 then 0 else 1,
              drop_fence tid (drop_lease Control_Cancellation ?cid (ow_token ow) d2)))) = Ok (n, d')"
      by (simp add: recover_one_def Let_def cl)
    then show ?thesis
      using ok1 by (auto simp: Let_def and_then_eq_Ok mark_ambiguous_idle split: if_splits
          intro: resolve_unattempted_ok recover_attempt_ok)
  qed
qed

lemma recover_rows_ok:
  "recovery_ok tid d0 d \<Longrightarrow> recover_rows e ow lease ids tid rows n d = Ok (m, d') \<Longrightarrow> recovery_ok tid d0 d'"
proof (induction rows arbitrary: n d)
  case Nil
  then show ?case by simp
next
  case (Cons row rows)
  obtain c xs where row: "row = (c, xs)" by (cases row)
  from Cons.prems(2) obtain k d1 where "recover_one e ow lease (ids (length rows)) tid c xs d = Ok (k, d1)"
    and "recover_rows e ow lease ids tid rows (n + k) d1 = Ok (m, d')"
    by (auto simp: row and_then_eq_Ok)
  with Cons recover_one_ok show ?case by blast
qed

lemma recover_cancellations_ok: "recovery_ok tid d (snd (recover_cancellations e ids ow lease tid d))"
  unfolding recover_cancellations_def
  by (rule transact_post [of "recovery_ok tid d"])
    (auto simp: ok_post_def recovery_ok_refl intro: recover_rows_ok [OF recovery_ok_refl] split: sum.split)

subsection \<open>A closed task stays closed\<close>

lemma fail_closed_find: "find_task d' tid = find_task d tid \<Longrightarrow> fail_closed d tid \<Longrightarrow> fail_closed d' tid"
  by (simp add: fail_closed_def)

lemma fail_closed_event [simp]:
  "fail_closed (snd (append_event t uuid x etype message role payload visibility d)) tid = fail_closed d tid"
  by (simp add: fail_closed_def)

lemmas closed_next = and_next_keeps [of "\<lambda>s. fail_closed s tid" for tid]

lemmas closed_transact = transact_keeps [of "\<lambda>s. fail_closed s tid" for tid]

lemma fail_closed_row:
  assumes "fail_closed d tid" and "update_task_row x f d = Ok d'" and "\<And>r. tk_id (f r) = tk_id r"
    and "\<And>r. find_task d x = Some r \<Longrightarrow> tk_state (f r) = tk_state r \<and> tk_phase (f r) = tk_phase r"
  shows "fail_closed d' tid"
  using assms(1,4) update_task_row_find [of f x d d' tid, OF assms(3,2)]
  by (auto simp: fail_closed_def split: option.splits)

lemma fail_closed_create:
  "fail_closed d tid \<Longrightarrow> fail_closed (snd (create_task e ids rr conv n active d)) tid"
proof (cases "rr (nt_owner_role n)")
  case (Inr role)
  assume closed: "fail_closed d tid"
  have "fail_closed d' tid" if "create_task_in_transaction stamp x m active d = Ok (t, d')" for stamp x m t d'
    using create_task_in_transaction_find [OF that, of tid] closed
    by (auto simp: fail_closed_def split: option.splits)
  with closed show ?thesis
    unfolding create_task_def Inr sum.case
    by (intro closed_next closed_transact) simp_all
qed (simp add: create_task_def)

lemma fail_closed_checkpoint:
  assumes "fail_closed d tid"
  shows "fail_closed (snd (create_checkpoint e dg ow cid uuid x state reason refs advance d)) tid"
  unfolding create_checkpoint_def
  by (intro closed_next closed_transact)
    (use assms in \<open>auto simp: fail_closed_def create_checkpoint_in_transaction_find split: option.splits\<close>)

lemma fail_closed_write:
  assumes "fail_closed d tid" and "write_task_values e selected values x d = Ok (u, d')"
  shows "fail_closed d' tid"
proof -
  from assms(1) obtain r where r: "find_task d tid = Some r" "tk_state r = T_Failed" "tk_phase r = recovery_phase"
    by (auto simp: fail_closed_def split: option.splits)
  from assms(2) have "write_task_values e selected values x d = Ok ((), d')" by simp
  from write_task_values_terminal [OF this r(1)] r(2,3) show ?thesis
    by (auto simp: fail_closed_def execution_truth_def terminal_task_state_def)
qed

lemma fail_closed_update:
  assumes "fail_closed d tid"
  shows "fail_closed (snd (update_task e ids rr dg ambient ow u cp x d)) tid"
  unfolding update_task_def
proof (intro closed_next)
  fix vs :: "task_change list" and d1 assume "fail_closed d1 tid"
  then show "fail_closed (snd (if vs = [] then (Ok (), d1) else
      transact (write_task_values e (if ow = None then ambient else ow) (vs @ [Ch_Updated (now e)]) x) d1)) tid"
    using fail_closed_write by (auto intro!: closed_transact)
next
  fix d1 :: db and unit :: unit assume "fail_closed d1 tid"
  then show "fail_closed (snd (case cp of None \<Rightarrow> (Ok (), d1)
      | Some state \<Rightarrow> and_next (create_checkpoint e dg ambient (ids 0) (ids 1) x (Some state) ''task update'' None False d1)
          (\<lambda>_ d. (Ok (), d)))) tid"
    using fail_closed_checkpoint by (auto intro!: closed_next split: option.split)
qed (use assms in simp_all)

lemma fail_closed_recover:
  assumes "fail_closed d tid"
  shows "fail_closed (snd (recover_task e uuid phase x d)) tid"
  unfolding recover_task_def
proof (intro closed_next closed_transact)
  let ?f = "\<lambda>t :: task_row. if tk_state t = T_Failed
    then t\<lparr>tk_state := T_Pending, tk_phase := phase, tk_updated_at := now e\<rparr> else t"
  fix y d' assume body: "(case find_task d x of None \<Rightarrow> Err (Key_Error ''unknown task'')
    | Some row \<Rightarrow> raise_if (active_in_transaction e (Task_Execution, x) d)
        (Runtime_Error ''task still has a live execution owner'')
       (raise_if (tk_state row \<noteq> T_Failed) (Runtime_Error ''task is not failed'')
       (raise_if (tk_phase row = ''cancellation-recovery-required'')
          (Runtime_Error ''ambiguous cancellation requires dedicated recovery'')
       (and_then (update_task_row x ?f d) (\<lambda>d'. Ok ((), d')))))) = Ok (y, d')"
  then have "x \<noteq> tid" and upd: "update_task_row x ?f d = Ok d'"
    using assms by (auto simp: fail_closed_def and_then_eq_Ok split: option.splits)
  with update_task_row_find [of ?f x d d' tid, OF _ upd] assms show "fail_closed d' tid"
    by (simp add: fail_closed_def)
qed (use assms in simp_all)

lemma fail_closed_attach:
  assumes "fail_closed d tid"
  shows "fail_closed (snd (attach_conversation e ow x cid d)) tid"
proof -
  have "update_task_row x (\<lambda>t. t\<lparr>tk_conversation := Some cid, tk_updated_at := now e\<rparr>) d = Ok d' \<Longrightarrow>
      fail_closed d' tid" for d'
    by (erule fail_closed_row [OF assms]) simp_all
  then show ?thesis
    using assms unfolding attach_conversation_def
    by (auto intro!: closed_next closed_transact simp: and_then_eq_Ok)
qed

lemma task_step_fail_closed: "fail_closed d tid \<Longrightarrow> fail_closed (task_step rr dg op d) tid"
  by (cases op) (simp_all add: fail_closed_create fail_closed_update fail_closed_checkpoint
      fail_closed_attach fail_closed_recover)

interpretation closed_task: state_machine "task_step resolve_role digest" "\<lambda>d. fail_closed d tid"
  for resolve_role digest tid
  by unfold_locales (rule task_step_fail_closed)

end
