(* ===== verification/Samples.thy ===== *)
theory Samples
  imports Control_Safety
begin

section \<open>Sample states\<close>

text \<open>
  Small concrete states on which the theorems with hypotheses are applied: a clock with one
  live process (pid 7), an owner in it and one whose process is gone, a task, and a store that
  holds them.
\<close>

definition live_stat :: string where
  "live_stat = ''7 (a) b) S 1 1 1 0 -1 4 0 0 0 0 0 0 0 0 20 0 1 0 100 0 0''"

definition sample_env :: "time \<Rightarrow> env" where
  "sample_env t = \<lparr>now = t, proc_stat = (\<lambda>pid. if pid = 7 then Stat live_stat else No_Such_Process),
     resolve_path = (\<lambda>p. p)\<rparr>"

definition live_owner :: owner where
  "live_owner = \<lparr>ow_token = ''a'', ow_pid = 7, ow_start = ''100''\<rparr>"

definition gone_owner :: owner where
  "gone_owner = \<lparr>ow_token = ''b'', ow_pid = 8, ow_start = ''55''\<rparr>"

lemma live_stat_start: "process_start (sample_env t) 7 = ''100''"
  by code_simp

lemma sample_env_simps [simp]: "now (sample_env t) = t" "resolve_path (sample_env t) p = p"
  by (simp_all add: sample_env_def)

lemma sample_start [simp]:
  "read_process_start (sample_env t) pid = (if pid = 7 then Start ''100'' else Gone_Process)"
  using live_stat_start [of t]
  by (auto simp: process_start_def read_process_start_def sample_env_def split: start_read.splits)

lemma sample_owner_gone [simp]:
  "owner_gone (sample_env t) pid s = (s \<noteq> [] \<and> (pid = 7 \<longrightarrow> s \<noteq> ''100''))"
  by (auto simp: owner_gone_def)

lemma sample_owner_alive [simp]:
  "owner_alive (sample_env t) pid s = (pid = 7 \<and> s = ''100'')"
  by (auto simp: owner_alive_def process_start_def)

definition sample_lease :: "resource \<Rightarrow> owner \<Rightarrow> lease_row" where
  "sample_lease res ow = claimed_row (sample_env 0) res ow (seconds 30) []"

definition sample_task :: "ident \<Rightarrow> task_state \<Rightarrow> task_row" where
  "sample_task tid state = \<lparr>tk_id = tid, tk_conversation = None, tk_title = ''t'', tk_goal = ''g'',
     tk_owner_role = ''primary'', tk_state = state, tk_kind = Primary, tk_phase = ''work'',
     tk_progress = None, tk_parent = None, tk_source = ''user'', tk_epoch = 1, tk_constraints = [],
     tk_decisions = [], tk_completed = [], tk_open_steps = [], tk_failures = [], tk_evidence_refs = [],
     tk_schedule_kind = None, tk_schedule_expr = None, tk_next_run_at = None, tk_last_run_at = None,
     tk_last_result_status = None, tk_schedule_enabled = True, tk_created_at = 0, tk_updated_at = 0\<rparr>"

definition sample_control :: "ident \<Rightarrow> control_kind \<Rightarrow> int \<Rightarrow> control_state \<Rightarrow> control_row" where
  "sample_control cid kind seq state = \<lparr>ct_id = cid, ct_task = ''t'', ct_session = None, ct_seq = seq,
     ct_kind = kind, ct_priority = priority kind, ct_state = state, ct_message = ''m'', ct_payload = [],
     ct_created_at = 0, ct_applied_at = None\<rparr>"

definition sample_cancellation :: "ident \<Rightarrow> cancellation_state \<Rightarrow> cancellation_row" where
  "sample_cancellation cid state = \<lparr>cx_control = cid, cx_state = state, cx_operation = ''op'',
     cx_active_tool = ''tool'', cx_cancellable = True, cx_effect = Execute_Effect, cx_result = None,
     cx_error = [], cx_created_at = 0, cx_attempt_started_at = None, cx_reconciled_at = None\<rparr>"

definition sample_event :: "int \<Rightarrow> task_event_row" where
  "sample_event n = \<lparr>te_id = n, te_uuid = dec (nat n), te_task = ''t'', te_conversation = None,
     te_timestamp = 0, te_type = ''status'', te_role = None, te_message = ''m'', te_payload = [],
     te_visibility = ''normal''\<rparr>"

definition sample_db :: "task_state \<Rightarrow> db" where
  "sample_db state = empty_db\<lparr>tasks := [sample_task ''t'' state]\<rparr>"

lemma sample_task_simps [simp]:
  "tk_id (sample_task tid s) = tid" "tk_state (sample_task tid s) = s"
  by (simp_all add: sample_task_def)

lemma sample_find_task [simp]: "find_task (sample_db s) ''t'' = Some (sample_task ''t'' s)"
  by (simp add: sample_db_def find_task_def)

text \<open>Whether an operation returned normally, as a function to evaluate\<close>

fun is_ok :: "'a result \<Rightarrow> bool" where
  "is_ok (Inl e) = False"
| "is_ok (Inr x) = True"

lemma is_okD: "is_ok r \<Longrightarrow> \<exists>x. r = Ok x"
  by (cases r) simp_all

fun got_some :: "'a option result \<Rightarrow> bool" where
  "got_some (Inl e) = False"
| "got_some (Inr x) = (x \<noteq> None)"

lemma got_someD: "got_some r \<Longrightarrow> \<exists>x. r = Ok (Some x)"
  by (cases r) auto

text \<open>A task with one cancelling control in the given state\<close>

definition cancelling_db :: "task_state \<Rightarrow> cancellation_state \<Rightarrow> db" where
  "cancelling_db ts xs = (sample_db ts)\<lparr>task_controls := [sample_control ''c'' Cancel 1 C_Pending],
     control_cancellations := [sample_cancellation ''c'' xs]\<rparr>"

lemmas sample_defs = sample_lease_def sample_task_def sample_control_def sample_cancellation_def
  sample_event_def sample_db_def live_owner_def gone_owner_def empty_db_def claimed_row_def

end
