(* ===== verification/Lease_Facts.thy ===== *)
theory Lease_Facts
  imports Control_Queue
begin

section \<open>When a lease is granted\<close>

text \<open>
  What the recoveries of the control queue and of the action journal share: a lease is granted
  exactly when nobody holds it, its owner asks again, or it may be taken over; and a lease of
  another resource is as it was.
\<close>

definition free_for :: "env \<Rightarrow> owner \<Rightarrow> resource \<Rightarrow> db \<Rightarrow> bool" where
  "free_for e ow res d = (case find_lease d res of None \<Rightarrow> True
     | Some l \<Rightarrow> lease_owner l = ow \<or> reclaimable e l)"

lemma claim_free_iff:
  assumes "leases_ok d" and "fst res \<noteq> Task_Execution"
    and "claim_in_transaction e res ow lease metadata d = (claimed, d')"
  shows "claimed = free_for e ow res d" and "leases_ok d'"
    and "other \<noteq> res \<Longrightarrow> find_lease d' other = find_lease d other"
proof -
  show "leases_ok d'" using claim_leases_ok [OF assms(1)] assms(3) by (metis snd_conv)
  show "other \<noteq> res \<Longrightarrow> find_lease d' other = find_lease d other"
    using claim_granted(2) [OF assms(1), of e res ow lease metadata d' other]
      claim_false_unchanged [OF assms(1), of e res ow lease metadata d'] assms(3)
    by (cases claimed) simp_all
  show "claimed = free_for e ow res d"
  proof (cases "find_lease d res")
    case None
    with assms(2,3) show ?thesis by (auto simp: claim_in_transaction_def free_for_def)
  next
    case (Some l)
    let ?P = "\<lambda>x. lease_id x = res \<and> ls_token x = ls_token l \<and> ls_pid x = ls_pid l \<and>
      ls_start x = ls_start l \<and> ls_expires_at x = ls_expires_at l"
    have mem: "l \<in> set (resource_leases d)" "?P l" using find_lease_SomeD [OF Some] by auto
    have "count_where ?P (resource_leases d) \<le> 1"
      by (rule count_where_unique [where key = lease_id and k = res]) (use assms(1) in \<open>simp_all add: leases_ok_def\<close>)
    moreover have "count_where ?P (resource_leases d) \<noteq> 0" using mem by (auto simp: count_where_zero_iff)
    ultimately have "count_where ?P (resource_leases d) = 1" by simp
    with Some assms(2,3) show ?thesis
      by (auto simp: claim_in_transaction_def free_for_def Let_def split: if_splits)
  qed
qed

lemma delete_leases_facts:
  assumes "leases_ok d"
  shows "leases_ok (d\<lparr>resource_leases := delete_where P (resource_leases d)\<rparr>)"
    and "(\<And>l. lease_id l = res \<Longrightarrow> \<not> P l) \<Longrightarrow>
      find_lease (d\<lparr>resource_leases := delete_where P (resource_leases d)\<rparr>) res = find_lease d res"
proof -
  show "leases_ok (d\<lparr>resource_leases := delete_where P (resource_leases d)\<rparr>)"
    by (rule leases_ok_delete_where [OF assms])
  assume "\<And>l. lease_id l = res \<Longrightarrow> \<not> P l"
  then show "find_lease (d\<lparr>resource_leases := delete_where P (resource_leases d)\<rparr>) res = find_lease d res"
    unfolding find_lease_delete_where [OF assms] by (auto split: option.split dest: find_lease_SomeD)
qed

lemma drop_lease_facts:
  assumes "leases_ok d"
  shows "leases_ok (drop_lease ty k token d)"
    and "res \<noteq> (ty, k) \<Longrightarrow> find_lease (drop_lease ty k token d) res = find_lease d res"
  unfolding drop_lease_def using assms by (auto intro!: delete_leases_facts)

lemma drop_fence_facts:
  assumes "leases_ok d"
  shows "leases_ok (drop_fence tid d)"
    and "res \<noteq> (Task_Execution_Fence, tid) \<Longrightarrow> find_lease (drop_fence tid d) res = find_lease d res"
  unfolding drop_fence_def using assms by (auto intro!: delete_leases_facts)

lemma release_fence_facts:
  assumes "leases_ok d"
  shows "leases_ok (release_task_fence_if_quiescent tid token d)"
    and "res \<noteq> (Task_Execution_Fence, tid) \<Longrightarrow>
      find_lease (release_task_fence_if_quiescent tid token d) res = find_lease d res"
  using assms by (auto simp: release_task_fence_if_quiescent_def drop_lease_facts drop_fence_facts split: option.split)

end
