(* ===== verification/Recovery_Safety.thy ===== *)
theory Recovery_Safety
  imports Control_Safety Lease_Facts
begin

section \<open>What the recovery of cancellations settles\<close>

text \<open>
  Exactly which cancellations \<^verbatim>\<open>recover_cancellations\<close> settles: those nobody holds a lease on, those
  whose lease may be taken over, and the attempts of a live process whose lease has lapsed.  One
  round of the loop leaves the other cancellations and their leases alone, so that the outcome
  of the loop is the outcome of its rounds.  On a task that has ended meanwhile the first attempt
  to be settled is refused, and with it the whole recovery.
\<close>

abbreviation cancelling :: "ident \<Rightarrow> resource" where
  "cancelling cid \<equiv> (Control_Cancellation, cid)"

text \<open>\<open>settles\<close>: a live owner keeps its intent, and its attempt as long as the lease has not lapsed.\<close>

definition settles :: "env \<Rightarrow> owner \<Rightarrow> db \<Rightarrow> ident \<Rightarrow> cancellation_state \<Rightarrow> bool" where
  "settles e ow d cid st = (case find_lease d (cancelling cid) of None \<Rightarrow> True
     | Some l \<Rightarrow> if owner_alive e (ls_pid l) (ls_start l) then st = X_Attempting \<and> ls_expires_at l \<le> now e
         else free_for e ow (cancelling cid) d)"

fun settled_to :: "cancellation_state \<Rightarrow> cancellation_state" where
  "settled_to X_Intent = X_Resolved"
| "settled_to X_Attempting = X_Ambiguous"
| "settled_to st = st"

definition ended_refusal :: error where
  "ended_refusal = Runtime_Error ''terminal task cannot mutate execution truth''"

subsection \<open>One round\<close>

text \<open>What a round does to the leases of other cancellations\<close>

definition others_kept :: "ident \<Rightarrow> db \<Rightarrow> db \<Rightarrow> bool" where
  "others_kept cid d d' = (leases_ok d' \<and>
     (\<forall>i. i \<noteq> cid \<longrightarrow> find_lease d' (cancelling i) = find_lease d (cancelling i)))"

lemma others_kept_trans: "others_kept cid d d1 \<Longrightarrow> others_kept cid d1 d2 \<Longrightarrow> others_kept cid d d2"
  by (simp add: others_kept_def)

lemma others_kept_same: "others_kept cid d d1 \<Longrightarrow> resource_leases d2 = resource_leases d1 \<Longrightarrow> others_kept cid d d2"
  by (simp add: others_kept_def leases_ok_def find_lease_def)

lemma drops_keep_others:
  assumes "leases_ok d"
  shows "others_kept cid d (drop_fence tid (drop_lease Control_Cancellation cid token d))"
    and "others_kept cid d (release_task_fence_if_quiescent tid None (drop_lease Control_Cancellation cid token d))"
    and "others_kept cid d (drop_fence tid (d\<lparr>resource_leases := delete_where
       (\<lambda>x. ls_type x = Control_Cancellation \<and> ls_key x = cid \<and> ls_token x = t \<and> ls_pid x = p \<and> ls_start x = st)
       (resource_leases d)\<rparr>))"
proof -
  show "others_kept cid d (drop_fence tid (drop_lease Control_Cancellation cid token d))"
    "others_kept cid d (release_task_fence_if_quiescent tid None (drop_lease Control_Cancellation cid token d))"
    using assms by (simp_all add: others_kept_def drop_lease_facts drop_fence_facts release_fence_facts)
  let ?P = "\<lambda>x. ls_type x = Control_Cancellation \<and> ls_key x = cid \<and> ls_token x = t \<and> ls_pid x = p \<and> ls_start x = st"
  have "others_kept cid d (d\<lparr>resource_leases := delete_where ?P (resource_leases d)\<rparr>)"
    unfolding others_kept_def by (intro conjI allI impI delete_leases_facts [OF assms]) auto
  then show "others_kept cid d (drop_fence tid (d\<lparr>resource_leases := delete_where ?P (resource_leases d)\<rparr>))"
    by (auto simp: others_kept_def drop_fence_facts)
qed

lemma drops_tables [simp]:
  "control_cancellations (drop_lease ty k token d) = control_cancellations d"
  "control_cancellations (drop_fence tid d) = control_cancellations d"
  "control_cancellations (release_task_fence_if_quiescent tid own d) = control_cancellations d"
  by (simp_all add: drop_lease_def drop_fence_def release_task_fence_if_quiescent_def split: option.split)

text \<open>A cancellation that is not to be settled is left alone.\<close>

lemma recover_one_kept:
  assumes "leases_ok d" and "\<not> settles e ow d (ct_id c) st" and "st = X_Intent \<or> st = X_Attempting"
  shows "recover_one e ow lease uuid tid c st d = Ok (0, d)"
proof -
  let ?res = "cancelling (ct_id c)"
  from assms(2) obtain l where l: "find_lease d ?res = Some l"
    by (auto simp: settles_def split: option.splits)
  show ?thesis
  proof (cases "owner_alive e (ls_pid l) (ls_start l)")
    case True
    with assms(2,3) l have "now e < ls_expires_at l \<or> st = X_Intent" by (auto simp: settles_def)
    with True l show ?thesis by (auto simp: recover_one_def)
  next
    case False
    obtain claimed d0 where cl: "claim_in_transaction e ?res ow lease
        [(''recovery'', JBool True), (''task_id'', JStr tid)] d = (claimed, d0)" by fastforce
    with assms False l have "\<not> claimed"
      using claim_free_iff(1) [OF assms(1) _ cl] by (simp add: settles_def)
    moreover from this cl have "d0 = d" by (simp add: claim_false_unchanged [OF assms(1)])
    ultimately show ?thesis using False l cl by (simp add: recover_one_def)
  qed
qed

text \<open>The attempt whose owner is lost, and the one whose heartbeat has lapsed, differ in the text of the
  error and in the lease that is dropped.\<close>

lemma recover_one_attempt:
  assumes ok: "leases_ok d" and due: "settles e ow d (ct_id c) X_Attempting"
    and x: "find_cancellation d (ct_id c) = Some x" "cx_state x = X_Attempting"
  obtains r d0 drop where "recover_one e ow lease uuid tid c X_Attempting d =
      and_then (set_pending_payload (ct_id c) (ambiguous_payload r (ct_payload c)) (mark_ambiguous e (ct_id c) r d0))
        (\<lambda>d1. and_then (fail_task_for_ambiguous_cancellation e uuid tid (ct_id c) r d1) (\<lambda>d2. Ok (1, drop d2)))"
    and "d0 = d\<lparr>resource_leases := resource_leases d0\<rparr>" and "others_kept (ct_id c) d d0"
    and "\<And>d2. leases_ok d2 \<Longrightarrow> others_kept (ct_id c) d2 (drop d2)"
    and "\<And>d2. control_cancellations (drop d2) = control_cancellations d2"
proof -
  let ?res = "cancelling (ct_id c)" and ?meta = "[(''recovery'', JBool True), (''task_id'', JStr tid)]"
  have some: "\<exists>y \<in> set (control_cancellations d). cx_control y = ct_id c \<and> cx_state y = X_Attempting"
    using x by (auto simp: find_cancellation_def dest: select_one_SomeD)
  show ?thesis
  proof (cases "case find_lease d ?res of None \<Rightarrow> None | Some l \<Rightarrow> if owner_alive e (ls_pid l) (ls_start l) then Some l else None")
    case (Some l)
    then have "\<not> now e < ls_expires_at l" using due by (auto simp: settles_def split: option.splits if_splits)
    let ?drop = "\<lambda>d2. drop_fence tid (d2\<lparr>resource_leases := delete_where
       (\<lambda>x. ls_type x = Control_Cancellation \<and> ls_key x = ct_id c \<and> ls_token x = ls_token l \<and>
          ls_pid x = ls_pid l \<and> ls_start x = ls_start l) (resource_leases d2)\<rparr>)"
    show ?thesis
    proof (rule that [of heartbeat_expired_error d ?drop])
      show "recover_one e ow lease uuid tid c X_Attempting d =
          and_then (set_pending_payload (ct_id c) (ambiguous_payload heartbeat_expired_error (ct_payload c))
              (mark_ambiguous e (ct_id c) heartbeat_expired_error d))
            (\<lambda>d1. and_then (fail_task_for_ambiguous_cancellation e uuid tid (ct_id c) heartbeat_expired_error d1)
              (\<lambda>d2. Ok (1, ?drop d2)))"
        unfolding recover_one_def Let_def Some option.case
        using some \<open>\<not> now e < ls_expires_at l\<close> by (auto simp: count_where_zero_iff)
    qed (use ok in \<open>simp_all add: others_kept_def [of _ d d] drops_keep_others\<close>)
  next
    case None
    obtain claimed d0 where cl: "claim_in_transaction e ?res ow lease ?meta d = (claimed, d0)" by fastforce
    have "free_for e ow ?res d"
      using None due by (auto simp: settles_def free_for_def split: option.splits if_splits)
    with claim_free_iff [OF ok _ cl] have claimed: claimed and kept: "others_kept (ct_id c) d d0"
      by (simp_all add: others_kept_def)
    have d0: "d0 = d\<lparr>resource_leases := resource_leases d0\<rparr>" using claim_frame cl by (metis snd_conv)
    then have "control_cancellations d0 = control_cancellations d" by (metis db.ext_inject db.surjective db.update_convs(18))
    show ?thesis
    proof (rule that [of owner_lost_error d0 "\<lambda>d2. drop_fence tid (drop_lease Control_Cancellation (ct_id c) (ow_token ow) d2)"])
      show "recover_one e ow lease uuid tid c X_Attempting d =
          and_then (set_pending_payload (ct_id c) (ambiguous_payload owner_lost_error (ct_payload c))
              (mark_ambiguous e (ct_id c) owner_lost_error d0))
            (\<lambda>d1. and_then (fail_task_for_ambiguous_cancellation e uuid tid (ct_id c) owner_lost_error d1)
              (\<lambda>d2. Ok (1, drop_fence tid (drop_lease Control_Cancellation (ct_id c) (ow_token ow) d2))))"
        using None cl claimed some \<open>control_cancellations d0 = control_cancellations d\<close>
        by (auto simp: recover_one_def Let_def count_where_zero_iff and_then_assoc)
    qed (use d0 kept in \<open>simp_all add: drops_keep_others\<close>)
  qed
qed

lemma recover_one_intent:
  assumes ok: "leases_ok d" and due: "settles e ow d (ct_id c) X_Intent"
  obtains d0 where "recover_one e ow lease uuid tid c X_Intent d =
      and_then (resolve_unattempted_in_transaction e c ''recovered-before-attempt'' [] d0)
        (\<lambda>(n, d1). Ok (n, release_task_fence_if_quiescent tid None (drop_lease Control_Cancellation (ct_id c) (ow_token ow) d1)))"
    and "d0 = d\<lparr>resource_leases := resource_leases d0\<rparr>" and "others_kept (ct_id c) d d0"
proof -
  let ?res = "cancelling (ct_id c)" and ?meta = "[(''recovery'', JBool True), (''task_id'', JStr tid)]"
  obtain claimed d0 where cl: "claim_in_transaction e ?res ow lease ?meta d = (claimed, d0)" by fastforce
  have none: "(case find_lease d ?res of None \<Rightarrow> None | Some l \<Rightarrow> if owner_alive e (ls_pid l) (ls_start l) then Some l else None) = None"
    and "free_for e ow ?res d"
    using due by (auto simp: settles_def free_for_def split: option.splits if_splits)
  with claim_free_iff [OF ok _ cl] have claimed: claimed and kept: "others_kept (ct_id c) d d0"
    by (simp_all add: others_kept_def)
  have "d0 = d\<lparr>resource_leases := resource_leases d0\<rparr>" using claim_frame cl by (metis snd_conv)
  with that [of d0] none cl claimed kept show ?thesis by (simp add: recover_one_def)
qed

subsection \<open>What a round settles\<close>

lemma find_mark_ambiguous: "find_cancellation (mark_ambiguous e cid r d) i = map_option
    (\<lambda>x. if cx_control x = cid \<and> cx_state x = X_Attempting then x\<lparr>cx_state := X_Ambiguous,
       cx_result := Some [(''requested'', JNull)], cx_error := r, cx_reconciled_at := Some (now e)\<rparr> else x)
    (find_cancellation d i)"
  by (simp add: mark_ambiguous_def update_cancellations_def find_cancellation_def select_one_update_where)

lemma fail_task_leases:
  "fail_task_for_ambiguous_cancellation e uuid tid cid reason d = Ok d' \<Longrightarrow> resource_leases d' = resource_leases d"
  by (cases "find_task d tid")
    (auto simp: fail_task_for_ambiguous_cancellation_def Let_def and_then_eq_Ok
      dest!: insert_state_event_Ok update_task_row_tables)

lemma set_pending_payload_leases: "set_pending_payload cid p d = Ok d' \<Longrightarrow> resource_leases d' = resource_leases d"
  by (auto simp: set_pending_payload_def update_controls_def and_then_eq_Ok)

lemma find_cancellation_same:
  "control_cancellations d' = control_cancellations d \<Longrightarrow> find_cancellation d' i = find_cancellation d i"
  by (simp add: find_cancellation_def)

lemma resolve_unattempted_tables:
  assumes "resolve_unattempted_in_transaction e c outcome error d = Ok (n, d')"
  shows "resource_leases d' = resource_leases d" and "find_cancellation d' i = map_option
    (\<lambda>y. if cx_control y = ct_id c \<and> cx_state y = X_Intent then y\<lparr>cx_state := X_Resolved,
       cx_result := Some [(''requested'', JBool False)], cx_error := error, cx_reconciled_at := Some (now e)\<rparr> else y)
    (find_cancellation d i)"
proof -
  let ?P = "\<lambda>y. cx_control y = ct_id c \<and> cx_state y = X_Intent"
  let ?f = "\<lambda>y. y\<lparr>cx_state := X_Resolved, cx_result := Some [(''requested'', JBool False)],
    cx_error := error, cx_reconciled_at := Some (now e)\<rparr>"
  have "control_cancellations d' = update_where ?P ?f (control_cancellations d) \<and> resource_leases d' = resource_leases d"
  proof (cases "count_where ?P (control_cancellations d) = 0")
    case True
    with assms show ?thesis by (auto simp: resolve_unattempted_in_transaction_def Let_def update_cancellations_def)
  next
    case False
    with assms obtain p where "set_pending_payload (ct_id c) p (update_cancellations ?P ?f d) = Ok d'"
      by (auto simp: resolve_unattempted_in_transaction_def Let_def and_then_eq_Ok split: if_splits)
    from set_pending_payload_tables [OF this] set_pending_payload_leases [OF this] show ?thesis
      by (simp add: update_cancellations_def)
  qed
  then show "resource_leases d' = resource_leases d"
    "find_cancellation d' i = map_option (\<lambda>y. if ?P y then ?f y else y) (find_cancellation d i)"
    by (simp_all add: find_cancellation_def select_one_update_where)
qed

lemma find_cancellation_id: "find_cancellation d i = Some x \<Longrightarrow> cx_control x = i"
  by (auto simp: find_cancellation_def dest: select_one_SomeD)

lemma recover_one_exact:
  assumes ok: "leases_ok d" and x: "find_cancellation d (ct_id c) = Some x" "cx_state x = st"
    and st: "st = X_Intent \<or> st = X_Attempting" and run: "recover_one e ow lease uuid tid c st d = Ok (n, d')"
  shows "others_kept (ct_id c) d d'"
    and "\<exists>x'. find_cancellation d' (ct_id c) = Some x' \<and>
      (if settles e ow d (ct_id c) st then cx_state x' = settled_to st else x' = x)"
    and "i \<noteq> ct_id c \<Longrightarrow> find_cancellation d' i = find_cancellation d i"
proof -
  let ?cid = "ct_id c"
  have id: "cx_control x = ?cid" "\<And>y. find_cancellation d i = Some y \<Longrightarrow> cx_control y = i"
    using find_cancellation_id [OF x(1)] find_cancellation_id by simp_all
  have "others_kept ?cid d d' \<and> (\<exists>x'. find_cancellation d' ?cid = Some x' \<and>
      (if settles e ow d ?cid st then cx_state x' = settled_to st else x' = x)) \<and>
      (i \<noteq> ?cid \<longrightarrow> find_cancellation d' i = find_cancellation d i)"
  proof (cases "settles e ow d ?cid st")
    case False
    from run recover_one_kept [OF ok False st] have "d' = d" by simp
    with False x ok show ?thesis by (simp add: others_kept_def)
  next
    case due: True
    from st show ?thesis
    proof
      assume st: "st = X_Attempting"
      obtain r d0 drop where one: "recover_one e ow lease uuid tid c X_Attempting d =
          and_then (set_pending_payload ?cid (ambiguous_payload r (ct_payload c)) (mark_ambiguous e ?cid r d0))
            (\<lambda>d1. and_then (fail_task_for_ambiguous_cancellation e uuid tid ?cid r d1) (\<lambda>d2. Ok (1, drop d2)))"
        and d0: "d0 = d\<lparr>resource_leases := resource_leases d0\<rparr>" "others_kept ?cid d d0"
        and drop: "\<And>d2. leases_ok d2 \<Longrightarrow> others_kept ?cid d2 (drop d2)"
          "\<And>d2. control_cancellations (drop d2) = control_cancellations d2"
        by (rule recover_one_attempt [OF ok due [unfolded st] x(1) x(2) [unfolded st], where lease = lease and uuid = uuid and tid = tid]) blast
      from run st one obtain d1 d2 where
        d1: "set_pending_payload ?cid (ambiguous_payload r (ct_payload c)) (mark_ambiguous e ?cid r d0) = Ok d1"
        and d2: "fail_task_for_ambiguous_cancellation e uuid tid ?cid r d1 = Ok d2" and d': "d' = drop d2"
        by (auto simp: and_then_eq_Ok)
      have leases: "resource_leases d2 = resource_leases d0"
        using fail_task_leases [OF d2] set_pending_payload_leases [OF d1]
        by (simp add: mark_ambiguous_def update_cancellations_def)
      with d0(2) have "others_kept ?cid d d2" by (rule others_kept_same)
      then have "others_kept ?cid d d'" using drop(1) unfolding d' by (meson others_kept_def others_kept_trans)
      moreover have "control_cancellations d' = control_cancellations (mark_ambiguous e ?cid r d0)"
        using set_pending_payload_tables [OF d1] fail_task_closes(2) [OF d2] by (simp add: d' drop(2))
      then have found: "find_cancellation d' k = find_cancellation (mark_ambiguous e ?cid r d0) k" for k
        by (rule find_cancellation_same)
      moreover have "find_cancellation d0 k = find_cancellation d k" for k
        by (subst d0(1)) (simp add: find_cancellation_def)
      ultimately have "others_kept ?cid d d'" "find_cancellation d' k = find_cancellation (mark_ambiguous e ?cid r d) k" for k
        by (simp_all add: find_mark_ambiguous)
      with due x st id show ?thesis by (cases "find_cancellation d i") (auto simp: find_mark_ambiguous)
    next
      assume st: "st = X_Intent"
      obtain d0 where one: "recover_one e ow lease uuid tid c X_Intent d =
          and_then (resolve_unattempted_in_transaction e c ''recovered-before-attempt'' [] d0)
            (\<lambda>(n, d1). Ok (n, release_task_fence_if_quiescent tid None (drop_lease Control_Cancellation ?cid (ow_token ow) d1)))"
        and d0: "d0 = d\<lparr>resource_leases := resource_leases d0\<rparr>" "others_kept ?cid d d0"
        by (rule recover_one_intent [OF ok due [unfolded st], where lease = lease and uuid = uuid and tid = tid]) blast
      from run st one obtain d1 where
        d1: "resolve_unattempted_in_transaction e c ''recovered-before-attempt'' [] d0 = Ok (n, d1)"
        and d': "d' = release_task_fence_if_quiescent tid None (drop_lease Control_Cancellation ?cid (ow_token ow) d1)"
        by (auto simp: and_then_eq_Ok)
      note tables = resolve_unattempted_tables [OF d1]
      from d0(2) tables(1) have "others_kept ?cid d d1" by (rule others_kept_same)
      then have "others_kept ?cid d d'"
        unfolding d' by (meson others_kept_def others_kept_trans drops_keep_others(2))
      moreover have found: "find_cancellation d' k = find_cancellation d1 k" for k
        by (rule find_cancellation_same) (simp add: d')
      moreover have "find_cancellation d0 k = find_cancellation d k" for k
        by (subst d0(1)) (simp add: find_cancellation_def)
      ultimately show ?thesis
        using due x st id by (cases "find_cancellation d i") (auto simp: tables(2))
    qed
  qed
  then show "others_kept ?cid d d'" "\<exists>x'. find_cancellation d' ?cid = Some x' \<and>
      (if settles e ow d ?cid st then cx_state x' = settled_to st else x' = x)"
    "i \<noteq> ?cid \<Longrightarrow> find_cancellation d' i = find_cancellation d i" by blast+
qed

subsection \<open>The whole recovery\<close>

text \<open>The rows the query gives: distinct controls, each with the state of its cancellation\<close>

definition recovery_rows :: "db \<Rightarrow> (control_row \<times> cancellation_state) list \<Rightarrow> bool" where
  "recovery_rows d rows = (distinct (map (\<lambda>(c, st). ct_id c) rows) \<and>
     (\<forall>(c, st) \<in> set rows. (st = X_Intent \<or> st = X_Attempting) \<and>
        (\<exists>x. find_cancellation d (ct_id c) = Some x \<and> cx_state x = st)))"

lemma recovery_rows_Cons:
  assumes "recovery_rows d ((c, st) # rows)"
  obtains x where "find_cancellation d (ct_id c) = Some x" "cx_state x = st" "st = X_Intent \<or> st = X_Attempting"
    and "ct_id c \<notin> (\<lambda>(c, st). ct_id c) ` set rows" and "recovery_rows d rows"
  using assms by (fastforce simp: recovery_rows_def)

lemma recovery_rows_same:
  assumes "recovery_rows d rows" and "\<And>c st. (c, st) \<in> set rows \<Longrightarrow> find_cancellation d' (ct_id c) = find_cancellation d (ct_id c)"
  shows "recovery_rows d' rows"
  using assms by (fastforce simp: recovery_rows_def)

lemma settles_same:
  "find_lease d' (cancelling cid) = find_lease d (cancelling cid) \<Longrightarrow> settles e ow d' cid st = settles e ow d cid st"
  by (simp add: settles_def free_for_def split: option.split)

lemma recover_rows_exact:
  assumes "leases_ok d" and "recovery_rows d rows" and "recover_rows e ow lease ids tid rows n d = Ok (m, d')"
    and "find_cancellation d i = Some x"
  shows "\<exists>x'. find_cancellation d' i = Some x' \<and>
    (if i \<in> (\<lambda>(c, st). ct_id c) ` set rows \<and> settles e ow d i (cx_state x) then cx_state x' = settled_to (cx_state x) else x' = x)"
  using assms
proof (induction rows arbitrary: n d x)
  case Nil
  then show ?case by simp
next
  case (Cons row rows)
  obtain c st where row: "row = (c, st)" by (cases row)
  from Cons.prems(3) obtain k d1 where one: "recover_one e ow lease (ids (length rows)) tid c st d = Ok (k, d1)"
    and rest: "recover_rows e ow lease ids tid rows (n + k) d1 = Ok (m, d')"
    by (auto simp: row and_then_eq_Ok)
  from Cons.prems(2) [unfolded row] obtain y where y: "find_cancellation d (ct_id c) = Some y" "cx_state y = st"
      "st = X_Intent \<or> st = X_Attempting"
    and new: "ct_id c \<notin> (\<lambda>(c, st). ct_id c) ` set rows" and rows: "recovery_rows d rows"
    by (rule recovery_rows_Cons)
  note step = recover_one_exact [OF Cons.prems(1) y one]
  from new have others: "(c', st') \<in> set rows \<Longrightarrow> ct_id c' \<noteq> ct_id c" for c' st' by force
  from step(1) have ok: "leases_ok d1" by (simp add: others_kept_def)
  have same: "settles e ow d1 k z = settles e ow d k z" if "k \<noteq> ct_id c" for k z
    by (rule settles_same) (use step(1) that in \<open>simp add: others_kept_def\<close>)
  have rows1: "recovery_rows d1 rows"
    by (rule recovery_rows_same [OF rows]) (use step(3) others in blast)
  show ?case
  proof (cases "i = ct_id c")
    case True
    with step(2) y Cons.prems(4) obtain x1 where x1: "find_cancellation d1 i = Some x1"
      "if settles e ow d i (cx_state x) then cx_state x1 = settled_to (cx_state x) else x1 = x" by auto
    from Cons.IH [OF ok rows1 rest x1(1)] new True have "find_cancellation d' i = Some x1" by auto
    with x1(2) True show ?thesis by (auto simp: row)
  next
    case False
    with step(3) Cons.prems(4) have "find_cancellation d1 i = Some x" by simp
    from Cons.IH [OF ok rows1 rest this] False same show ?thesis by (auto simp: row)
  qed
qed

text \<open>The cancellations of the task's pending controls that no one has reconciled\<close>

definition awaits_recovery :: "db \<Rightarrow> ident \<Rightarrow> ident \<Rightarrow> bool" where
  "awaits_recovery d tid cid = exists_where (\<lambda>c. ct_id c = cid \<and> ct_task c = tid \<and> unreconciled d c) (task_controls d)"

lemma awaits_recovery_state:
  "awaits_recovery d tid cid \<Longrightarrow> find_cancellation d cid = Some x \<Longrightarrow> cx_state x = X_Intent \<or> cx_state x = X_Attempting"
  by (auto simp: awaits_recovery_def unreconciled_def)

definition rows_to_recover :: "db \<Rightarrow> ident \<Rightarrow> (control_row \<times> cancellation_state) list" where
  "rows_to_recover d tid = map (\<lambda>c. (c, cancellation_state_of d c))
     (sort_key control_order (filter (\<lambda>c. ct_task c = tid \<and> unreconciled d c) (task_controls d)))"

lemma rows_to_recover_ok:
  assumes "keys_distinct ct_id (task_controls d)"
  shows "recovery_rows d (rows_to_recover d tid)"
    and "(\<lambda>(c, st). ct_id c) ` set (rows_to_recover d tid) = {cid. awaits_recovery d tid cid}"
proof -
  let ?rows = "filter (\<lambda>c. ct_task c = tid \<and> unreconciled d c) (task_controls d)"
  have "distinct (map ct_id ?rows)" using assms by (rule distinct_map_filter)
  then have "distinct (map ct_id (sort_key control_order ?rows))"
    by (simp add: distinct_map)
  then show "recovery_rows d (rows_to_recover d tid)"
    by (auto simp: recovery_rows_def rows_to_recover_def comp_def cancellation_state_of_def unreconciled_def
        split: option.splits)
  show "(\<lambda>(c, st). ct_id c) ` set (rows_to_recover d tid) = {cid. awaits_recovery d tid cid}"
    by (force simp: rows_to_recover_def awaits_recovery_def)
qed

lemma recover_cancellations_rows:
  "recover_cancellations e ids ow lease tid d = transact (\<lambda>d. recover_rows e ow lease ids tid (rows_to_recover d tid) 0 d) d"
  by (simp add: recover_cancellations_def rows_to_recover_def)

lemma recover_cancellations_exact:
  assumes "recover_cancellations e ids ow lease tid d = (Ok n, d')"
    and "leases_ok d" and "keys_distinct ct_id (task_controls d)" and "find_cancellation d cid = Some x"
  shows "\<exists>x'. find_cancellation d' cid = Some x' \<and>
    (if awaits_recovery d tid cid \<and> settles e ow d cid (cx_state x) then cx_state x' = settled_to (cx_state x) else x' = x)"
proof -
  from assms(1) have "recover_rows e ow lease ids tid (rows_to_recover d tid) 0 d = Ok (n, d')"
    by (simp add: recover_cancellations_rows transact_eq_Ok)
  from recover_rows_exact [OF assms(2) rows_to_recover_ok(1) [OF assms(3)] this assms(4)] show ?thesis
    by (simp add: rows_to_recover_ok(2) [OF assms(3)])
qed

subsection \<open>A task that ended meanwhile\<close>

text \<open>The fail-closed write goes through the guard that protects terminal tasks, and the guard
  refuses it: the recovery raises and rolls everything back, and a task that completed or was
  cancelled keeps its attempted cancellation.\<close>

lemma fail_task_refused:
  assumes "find_task d tid = Some row" and "tk_state row = T_Completed \<or> tk_state row = T_Cancelled"
  shows "fail_task_for_ambiguous_cancellation e uuid tid cid reason d = Err ended_refusal"
  using assms by (auto simp: fail_task_for_ambiguous_cancellation_def Let_def ended_refusal_def
      require_task_write_in_transaction_def raise_if_def terminal_task_state_def)

definition sound_controls :: "db \<Rightarrow> bool" where
  "sound_controls d = (\<forall>c \<in> set (task_controls d). task_controls_lineage_insert d c = None)"

lemma sound_controls_simps [simp]:
  "task_controls_lineage_insert (d\<lparr>task_controls := t\<rparr>) c = task_controls_lineage_insert d c"
  "sound_controls (d\<lparr>resource_leases := l\<rparr>) = sound_controls d"
  "sound_controls (d\<lparr>control_cancellations := x\<rparr>) = sound_controls d"
  by (simp_all add: sound_controls_def task_controls_lineage_insert_def same_conversation_def split: option.split)

lemma set_pending_payload_sound:
  assumes "sound_controls d"
  obtains d' where "set_pending_payload cid p d = Ok d'" and "sound_controls d'" and "tasks d' = tasks d"
proof -
  let ?f = "\<lambda>c :: control_row. c\<lparr>ct_payload := p\<rparr>"
  have same: "task_controls_lineage_insert d (?f c) = task_controls_lineage_insert d c"
    "task_controls_lineage_update d c (?f c) = task_controls_lineage_insert d c" for c
    by (simp_all add: task_controls_lineage_insert_def task_controls_lineage_update_def split: option.split)
  let ?P = "\<lambda>c. ct_id c = cid \<and> ct_state c = C_Pending"
  let ?d = "d\<lparr>task_controls := update_where ?P ?f (task_controls d)\<rparr>"
  have "set_pending_payload cid p d = Ok ?d"
    using assms by (simp add: set_pending_payload_def update_controls_def and_then_eq_Ok update_rows_eq_Ok same sound_controls_def)
  moreover have "sound_controls ?d"
    using assms by (auto simp: sound_controls_def set_update_where same)
  ultimately show ?thesis using that by simp
qed

lemma resolve_unattempted_sound:
  assumes "sound_controls d"
  obtains n d' where "resolve_unattempted_in_transaction e c outcome error d = Ok (n, d')"
    and "sound_controls d'" and "tasks d' = tasks d"
proof -
  let ?P = "\<lambda>y. cx_control y = ct_id c \<and> cx_state y = X_Intent"
  let ?d = "update_cancellations ?P (\<lambda>y. y\<lparr>cx_state := X_Resolved,
    cx_result := Some [(''requested'', JBool False)], cx_error := error, cx_reconciled_at := Some (now e)\<rparr>) d"
  have sound: "sound_controls ?d" "tasks ?d = tasks d"
    using assms by (simp_all add: update_cancellations_def)
  show ?thesis
  proof (cases "count_where ?P (control_cancellations d) = 0")
    case True
    then have "resolve_unattempted_in_transaction e c outcome error d = Ok (0, ?d)"
      by (simp add: resolve_unattempted_in_transaction_def Let_def)
    with sound show ?thesis by (rule that [rotated])
  next
    case False
    obtain p where "resolve_unattempted_in_transaction e c outcome error d =
        and_then (set_pending_payload (ct_id c) p ?d) (\<lambda>d2. Ok (count_where ?P (control_cancellations d), d2))"
      using False by (simp add: resolve_unattempted_in_transaction_def Let_def)
    moreover obtain d' where "set_pending_payload (ct_id c) p ?d = Ok d'" "sound_controls d'" "tasks d' = tasks ?d"
      using sound(1) by (rule set_pending_payload_sound)
    ultimately show ?thesis using that sound(2) by simp
  qed
qed

lemma leases_only:
  assumes "d0 = d\<lparr>resource_leases := resource_leases d0\<rparr>"
  shows "tasks d0 = tasks d" "sound_controls d0 = sound_controls d"
proof -
  show "tasks d0 = tasks d" by (subst assms) simp
  show "sound_controls d0 = sound_controls d" by (subst assms) simp
qed

lemma drop_sound [simp]:
  "sound_controls (release_task_fence_if_quiescent tid token d) = sound_controls d"
  "sound_controls (drop_lease ty k t d) = sound_controls d"
  "tasks (release_task_fence_if_quiescent tid token d) = tasks d" "tasks (drop_lease ty k t d) = tasks d"
  by (simp_all add: release_task_fence_if_quiescent_def drop_lease_def drop_fence_def split: option.split)

lemma recover_one_ended:
  assumes ended: "find_task d tid = Some row" "tk_state row = T_Completed \<or> tk_state row = T_Cancelled"
    and ok: "leases_ok d" and sound: "sound_controls d"
    and x: "find_cancellation d (ct_id c) = Some x" "cx_state x = st" "st = X_Intent \<or> st = X_Attempting"
  shows "if st = X_Attempting \<and> settles e ow d (ct_id c) st
    then recover_one e ow lease uuid tid c st d = Err ended_refusal
    else \<exists>n d'. recover_one e ow lease uuid tid c st d = Ok (n, d') \<and> tasks d' = tasks d \<and> sound_controls d'"
proof (cases "settles e ow d (ct_id c) st")
  case False
  from recover_one_kept [OF ok this x(3)] False sound show ?thesis by simp
next
  case due: True
  from x(3) show ?thesis
  proof
    assume st: "st = X_Attempting"
    obtain r d0 drop where one: "recover_one e ow lease uuid tid c X_Attempting d =
        and_then (set_pending_payload (ct_id c) (ambiguous_payload r (ct_payload c)) (mark_ambiguous e (ct_id c) r d0))
          (\<lambda>d1. and_then (fail_task_for_ambiguous_cancellation e uuid tid (ct_id c) r d1) (\<lambda>d2. Ok (1, drop d2)))"
      and d0: "d0 = d\<lparr>resource_leases := resource_leases d0\<rparr>"
      by (rule recover_one_attempt [OF ok due [unfolded st] x(1) x(2) [unfolded st], where lease = lease and uuid = uuid and tid = tid]) blast
    have "sound_controls (mark_ambiguous e (ct_id c) r d0)" "tasks (mark_ambiguous e (ct_id c) r d0) = tasks d"
      using leases_only [OF d0] sound by (simp_all add: mark_ambiguous_def update_cancellations_def)
    then obtain d1 where "set_pending_payload (ct_id c) (ambiguous_payload r (ct_payload c)) (mark_ambiguous e (ct_id c) r d0) = Ok d1"
      "tasks d1 = tasks d" by (metis set_pending_payload_sound)
    with one fail_task_refused [of d1 tid row] ended st due show ?thesis by (simp add: find_task_def)
  next
    assume st: "st = X_Intent"
    obtain d0 where one: "recover_one e ow lease uuid tid c X_Intent d =
        and_then (resolve_unattempted_in_transaction e c ''recovered-before-attempt'' [] d0)
          (\<lambda>(n, d1). Ok (n, release_task_fence_if_quiescent tid None (drop_lease Control_Cancellation (ct_id c) (ow_token ow) d1)))"
      and d0: "d0 = d\<lparr>resource_leases := resource_leases d0\<rparr>"
      by (rule recover_one_intent [OF ok due [unfolded st], where lease = lease and uuid = uuid and tid = tid]) blast
    obtain n d1 where "resolve_unattempted_in_transaction e c ''recovered-before-attempt'' [] d0 = Ok (n, d1)"
      "sound_controls d1" "tasks d1 = tasks d0"
      by (rule resolve_unattempted_sound [of d0 e c "''recovered-before-attempt''" "[]"]) (use leases_only [OF d0] sound in auto)
    with one st leases_only [OF d0] show ?thesis by simp
  qed
qed

lemma recover_rows_ended:
  assumes "find_task d tid = Some row" and "tk_state row = T_Completed \<or> tk_state row = T_Cancelled"
    and "leases_ok d" and "sound_controls d" and "recovery_rows d rows"
    and "(c, X_Attempting) \<in> set rows" and "settles e ow d (ct_id c) X_Attempting"
  shows "recover_rows e ow lease ids tid rows n d = Err ended_refusal"
  using assms
proof (induction rows arbitrary: n d)
  case Nil
  then show ?case by simp
next
  case (Cons r rows)
  obtain c' st where r: "r = (c', st)" by (cases r)
  from Cons.prems(5) [unfolded r] obtain y where y: "find_cancellation d (ct_id c') = Some y" "cx_state y = st"
      "st = X_Intent \<or> st = X_Attempting"
    and new: "ct_id c' \<notin> (\<lambda>(c, st). ct_id c) ` set rows" and rows: "recovery_rows d rows"
    by (rule recovery_rows_Cons)
  note one = recover_one_ended [OF Cons.prems(1-4) y, of e ow lease "ids (length rows)"]
  show ?case
  proof (cases "st = X_Attempting \<and> settles e ow d (ct_id c') st")
    case True
    with one show ?thesis by (auto simp: r)
  next
    case False
    with one obtain k d1 where d1: "recover_one e ow lease (ids (length rows)) tid c' st d = Ok (k, d1)"
      "tasks d1 = tasks d" "sound_controls d1" by auto
    note step = recover_one_exact [OF Cons.prems(3) y d1(1)]
    from False Cons.prems(6,7) have mem: "(c, X_Attempting) \<in> set rows" by (auto simp: r)
    have others: "ct_id k \<noteq> ct_id c'" if "(k, z) \<in> set rows" for k z using new that by force
    have "settles e ow d1 (ct_id c) X_Attempting"
      using Cons.prems(7) settles_same [of d1 "ct_id c" d e ow X_Attempting] step(1) others [OF mem] by (simp add: others_kept_def)
    moreover have "recovery_rows d1 rows"
      by (rule recovery_rows_same [OF rows]) (use step(3) others in blast)
    moreover have "find_task d1 tid = Some row" "leases_ok d1"
      using Cons.prems(1) d1(2) step(1) by (simp_all add: find_task_def others_kept_def)
    ultimately show ?thesis using Cons.IH [of d1] Cons.prems(2) d1(1,3) mem by (simp add: r)
  qed
qed

lemma recover_cancellations_refused:
  assumes "find_task d tid = Some row" and "tk_state row = T_Completed \<or> tk_state row = T_Cancelled"
    and "leases_ok d" and "sound_controls d" and keys: "keys_distinct ct_id (task_controls d)"
    and c: "awaits_recovery d tid cid" and x: "find_cancellation d cid = Some x" "cx_state x = X_Attempting"
    and due: "settles e ow d cid X_Attempting"
  shows "recover_cancellations e ids ow lease tid d = (Err ended_refusal, d)"
proof -
  from c obtain c where "c \<in> set (task_controls d)" "ct_id c = cid" "ct_task c = tid" "unreconciled d c"
    by (auto simp: awaits_recovery_def)
  with x have "(c, X_Attempting) \<in> set (rows_to_recover d tid)"
    by (auto simp: rows_to_recover_def cancellation_state_of_def)
  from recover_rows_ended [OF assms(1-4) rows_to_recover_ok(1) [OF keys] this] due \<open>ct_id c = cid\<close>
  show ?thesis by (simp add: recover_cancellations_rows transact_def)
qed

end
