(* ===== verification/Guarantees_Core.thy ===== *)
theory Guarantees_Core
  imports Samples Recovery_Safety
begin

section \<open>Guarantees of the store, leases, tasks and controls\<close>

text \<open>
  The properties of the lower components, each with the sample state it is applied to.
\<close>

subsection \<open>State store\<close>

text \<open>The lineage the resolver computes for a new state event is one the insert triggers accept:
  in a consistent store an event of a known type and a fresh id is never rejected once its
  lineage resolves.\<close>

theorem resolved_event_accepted:
  assumes "store_ok d" and "etype \<in> set state_event_types" and "uuid \<notin> se_uuid ` set (state_events d)"
    and "resolve_lineage_in_transaction d task session conv = Ok c"
  shows "\<exists>e. insert_state_event t uuid etype message session conv task role payload visibility d =
    Ok (e, d\<lparr>state_events := state_events d @ [e]\<rparr>)"
  using insert_state_event_accepted [OF assms] insert_state_event_Ok by blast

lemma resolved_event_accepted_witness:
  "\<exists>e. insert_state_event 0 ''u'' ''user_control'' ''m'' None None (Some ''t'') None [] ''normal'' (sample_db T_Running) =
     Ok (e, (sample_db T_Running)\<lparr>state_events := state_events (sample_db T_Running) @ [e]\<rparr>)"
proof (rule resolved_event_accepted [where c = None])
  show "store_ok (sample_db T_Running)" by code_simp
qed (code_simp, code_simp, code_simp)

text \<open>Paging through a task's events with \<^verbatim>\<open>read_events_since\<close>, from the last id of a full page,
  gives the same events as one longer read: none is skipped and none comes twice.\<close>

theorem event_pages_join:
  assumes "keys_distinct te_id (task_events d)"
    and "read_events_since tid after_id m d = Ok page" and "length page = m" "0 < m"
    and "read_events_since tid (te_id (last page)) n d = Ok rest"
  shows "read_events_since tid after_id (m + n) d = Ok (page @ rest)"
  by (rule read_events_since_pages [OF assms])

definition two_events :: db where
  "two_events = (sample_db T_Running)\<lparr>task_events := [sample_event 1, sample_event 2]\<rparr>"

lemma event_pages_join_witness:
  "read_events_since ''t'' 0 2 two_events = Ok ([sample_event 1] @ [sample_event 2])"
proof -
  have "read_events_since ''t'' 0 (1 + 1) two_events = Ok ([sample_event 1] @ [sample_event 2])"
    by (rule event_pages_join) code_simp+
  then show ?thesis by (simp add: numeral_2_eq_2)
qed

subsection \<open>Leases\<close>

text \<open>C11. A lease survives: as long as the operations of the other owners find its owner's process
  alive, no sequence of their claims, workspace claims, heartbeats, fence updates and releases
  takes it away, expired or not.\<close>

theorem live_lease_survives:
  assumes "leases_ok d" and "holder d res = Some ow"
    and "\<forall>op \<in> set ops. lease_actor op \<noteq> ow \<and> seen_alive op ow"
  shows "holder (fold lease_step ops d) res = Some ow"
  by (rule leases.lease_survives [OF assms])

lemma live_lease_survives_witness:
  "holder (fold lease_step
      [L_Claim (sample_env (seconds 90)) (Gpu_Slot, ''0'') gone_owner (seconds 30) [],
       L_Release (sample_env (seconds 91)) (Gpu_Slot, ''0'') gone_owner]
      (empty_db\<lparr>resource_leases := [sample_lease (Gpu_Slot, ''0'') live_owner]\<rparr>)) (Gpu_Slot, ''0'') = Some live_owner"
  by (rule live_lease_survives)
    (simp_all add: leases_ok_def sample_defs holder_def find_lease_def lease_owner_def seen_alive_def)

text \<open>Workspaces stay apart: two workspace leases on the same path, or on paths one inside the
  other, always have the same owner.\<close>

theorem workspaces_never_overlap:
  assumes "\<forall>op \<in> set ops. no_raw_workspace op"
    and "a \<in> set (resource_leases (fold lease_step ops empty_db))" "ls_type a = Workspace"
    and "b \<in> set (resource_leases (fold lease_step ops empty_db))" "ls_type b = Workspace"
    and "paths_overlap (ls_key a) (ls_key b)"
  shows "lease_owner a = lease_owner b"
proof -
  have "leases_ok empty_db" "workspaces_disjoint empty_db"
    by (simp_all add: leases_ok_def workspaces_disjoint_def empty_db_def)
  from lease_run_workspaces [OF this assms(1)] assms(2-6) show ?thesis
    by (simp add: workspaces_disjoint_def)
qed

lemma workspaces_never_overlap_witness:
  "lease_owner (sample_lease (Workspace, ''/w'') live_owner) = lease_owner (sample_lease (Workspace, ''/w/x'') live_owner)"
proof (rule workspaces_never_overlap)
  let ?ops = "[L_Workspace (sample_env 0) ''/w'' live_owner (seconds 30) [],
    L_Workspace (sample_env 0) ''/w/x'' live_owner (seconds 30) [],
    L_Workspace (sample_env 0) ''/w/x'' gone_owner (seconds 30) []]"
  show "\<forall>op \<in> set ?ops. no_raw_workspace op" by (simp add: no_raw_workspace_def)
  show "sample_lease (Workspace, ''/w'') live_owner \<in> set (resource_leases (fold lease_step ?ops empty_db))"
    and "sample_lease (Workspace, ''/w/x'') live_owner \<in> set (resource_leases (fold lease_step ?ops empty_db))"
    by (simp_all add: sample_defs claim_workspace_def Let_def claim_in_transaction_def find_lease_def
        paths_overlap_def as_prefix_def rstrip_char_def starts_with_def same_owner_def reclaimable_def lease_expiry_def)
  show "paths_overlap (ls_key (sample_lease (Workspace, ''/w'') live_owner)) (ls_key (sample_lease (Workspace, ''/w/x'') live_owner))"
    by (simp add: sample_defs paths_overlap_def as_prefix_def rstrip_char_def starts_with_def)
qed (simp_all add: sample_defs)

text \<open>A process fenced onto a lease protects it: until that process is gone the owner cannot
  release the lease and nobody else can claim it.\<close>

theorem fenced_lease_kept:
  assumes "find_lease d res = Some r" and "Fence pid start \<in> set (ls_fences r)" and "\<not> owner_gone e pid start"
  shows "release e res ow d = (False, d) \<and>
    (lease_owner r \<noteq> ow \<longrightarrow> claim_in_transaction e res ow lease metadata d = (False, d))"
  using fence_holds [OF assms] by simp

lemma fenced_lease_kept_witness:
  "let d = empty_db\<lparr>resource_leases := [(sample_lease (Gpu_Slot, ''0'') gone_owner)\<lparr>ls_fences := [Fence 7 ''100'']\<rparr>]\<rparr> in
     release (sample_env 0) (Gpu_Slot, ''0'') gone_owner d = (False, d) \<and>
     claim_in_transaction (sample_env 0) (Gpu_Slot, ''0'') live_owner (seconds 30) [] d = (False, d)"
proof -
  let ?r = "(sample_lease (Gpu_Slot, ''0'') gone_owner)\<lparr>ls_fences := [Fence 7 ''100'']\<rparr>"
  let ?d = "empty_db\<lparr>resource_leases := [?r]\<rparr>"
  have "find_lease ?d (Gpu_Slot, ''0'') = Some ?r" "Fence 7 ''100'' \<in> set (ls_fences ?r)"
    "lease_owner ?r \<noteq> live_owner" "\<not> owner_gone (sample_env 0) 7 ''100''"
    by (simp_all add: find_lease_def sample_defs lease_owner_def)
  then show ?thesis
    using fenced_lease_kept [of ?d "(Gpu_Slot, ''0'')" ?r 7 "''100''" "sample_env 0" gone_owner]
      fenced_lease_kept [of ?d "(Gpu_Slot, ''0'')" ?r 7 "''100''" "sample_env 0" live_owner "seconds 30" "[]"]
    by (simp only: Let_def simp_thms)
qed

text \<open>A process cannot forge its start time through its name: whatever command name
  \<^verbatim>\<open>/proc/<pid>/stat\<close> shows, parentheses and blanks included, the start time read is the field the
  kernel wrote after it.\<close>

theorem start_ignores_command_name:
  assumes "proc_stat e pid = Stat (shown @ '' ('' @ comm @ '') '' @ rest)" and "CHR '')'' \<notin> set rest"
    and "19 < length (split_words [] rest)"
  shows "process_start e pid = split_words [] rest ! 19"
  using stat_fields_command_name [OF assms(2), of shown comm] assms(3)
  unfolding process_start_def read_process_start_def assms(1) by (simp only: stat_file.case) (simp add: Let_def)

lemma start_ignores_command_name_witness: "process_start (sample_env 0) 7 = ''100''"
proof -
  let ?rest = "''S 1 1 1 0 -1 4 0 0 0 0 0 0 0 0 20 0 1 0 100 0 0''"
  have "process_start (sample_env 0) 7 = split_words [] ?rest ! 19"
  proof (rule start_ignores_command_name [where shown = "''7''" and comm = "''a) b''"])
    show "proc_stat (sample_env 0) 7 = Stat (''7'' @ '' ('' @ ''a) b'' @ '') '' @ ?rest)"
      by (simp add: sample_env_def live_stat_def)
  qed code_simp+
  also have "\<dots> = ''100''" by code_simp
  finally show ?thesis .
qed


subsection \<open>Tasks\<close>

text \<open>C12. A task that completed or was cancelled keeps that state for ever: no creation, update,
  checkpoint, attachment, recovery or event changes it, in any order.\<close>

theorem ended_task_stays_ended:
  assumes "find_task d tid = Some row" and "tk_state row = T_Completed \<or> tk_state row = T_Cancelled"
  shows "map_option tk_state (find_task (fold (task_step resolve_role digest) ops d) tid) = Some (tk_state row)"
proof -
  from assms have "task_status d tid = Some (tk_state row)" "settled (tk_state row)"
    by (simp_all add: task_status_def settled_def)
  from task_life.terminal_run [OF _ this] show ?thesis by (simp add: task_status_def)
qed

lemma ended_task_stays_ended_witness:
  "map_option tk_state (find_task (fold (task_step (\<lambda>r. Ok r) (\<lambda>s. []))
     [TO_Recover (sample_env 0) ''u'' ''work'' ''t'', TO_Attach (sample_env 0) None ''t'' ''c'']
     (sample_db T_Completed)) ''t'') = Some T_Completed"
proof -
  have "tk_state (sample_task ''t'' T_Completed) = T_Completed \<or> tk_state (sample_task ''t'' T_Completed) = T_Cancelled"
    by simp
  from ended_task_stays_ended [OF sample_find_task this] show ?thesis
    unfolding sample_task_simps .
qed

text \<open>While a live process executes a task, an update by anyone who does not hold that
  execution raises and writes nothing.\<close>

theorem foreign_update_refused:
  assumes "find_task d tid = Some row" and "find_lease d (Task_Execution, tid) = Some l"
    and "\<not> owner_gone e (ls_pid l) (ls_start l)"
    and "\<forall>w. (if ow = None then ambient else ow) = Some w \<longrightarrow> lease_owner l \<noteq> w"
    and "collect_values rr u = Ok vals" "vals \<noteq> []"
  shows "update_task e ids rr dg ambient ow u cp tid d =
    (Err (Runtime_Error ''execution-owned state has a live executor''), d)"
proof (rule update_task_refused [OF assms(1,5,6)])
  have "active_in_transaction e (Task_Execution, tid) d"
    using assms(2,3) by (simp add: active_in_transaction_def reclaimable_def)
  moreover have "\<forall>w. (if ow = None then ambient else ow) = Some w \<longrightarrow>
      \<not> held_by_in_transaction e (Task_Execution, tid) w True d"
    using assms(2,4) by (simp add: held_by_in_transaction_def)
  ultimately show "require_task_write_in_transaction e (if ow = None then ambient else ow) False
      (vals @ [Ch_Updated (now e)]) tid d = Err (Runtime_Error ''execution-owned state has a live executor'')"
    by (intro require_refuses_foreign_writer [OF assms(1)])
qed

lemma foreign_update_refused_witness:
  "let d = (sample_db T_Running)\<lparr>resource_leases := [sample_lease (Task_Execution, ''t'') live_owner]\<rparr> in
     update_task (sample_env 0) (\<lambda>n. dec n) (\<lambda>r. Ok r) (\<lambda>s. []) None (Some gone_owner)
       (no_update\<lparr>up_state := Some T_Paused\<rparr>) None ''t'' d =
     (Err (Runtime_Error ''execution-owned state has a live executor''), d)"
  unfolding Let_def
  by (rule foreign_update_refused [where row = "sample_task ''t'' T_Running"
        and l = "sample_lease (Task_Execution, ''t'') live_owner" and vals = "[Ch_State T_Paused]"])
    (simp_all add: find_task_def find_lease_def sample_defs lease_owner_def collect_values_def
      no_update_def given_def)

text \<open>A checkpoint, once created, is the latest of its task, matches its digest, and leaves
  every earlier checkpoint as it was.\<close>

theorem checkpoint_is_durable:
  assumes "create_checkpoint_in_transaction e digest selected cid tid state reason refs advance d = Ok (r, d')"
  shows "latest_checkpoint d' tid = Some r \<and> verify_checkpoint digest cid d' = Ok True \<and>
    (\<forall>x c. find_checkpoint d x = Some c \<longrightarrow> find_checkpoint d' x = Some c)"
  using checkpoint_is_latest [OF assms] by blast

lemma checkpoint_is_durable_witness:
  "\<exists>r d'. create_checkpoint_in_transaction (sample_env 0) (\<lambda>s. ''h'') None ''p'' ''t'' None ''r'' None True
      (sample_db T_Running) = Ok (r, d') \<and> latest_checkpoint d' ''t'' = Some r"
proof -
  have "is_ok (create_checkpoint_in_transaction (sample_env 0) (\<lambda>s. ''h'') None ''p'' ''t'' None ''r'' None True
      (sample_db T_Running))" by code_simp
  then obtain r d' where "create_checkpoint_in_transaction (sample_env 0) (\<lambda>s. ''h'') None ''p'' ''t'' None ''r''
      None True (sample_db T_Running) = Ok (r, d')" using is_okD by fast
  with checkpoint_is_durable [OF this] show ?thesis by blast
qed

text \<open>Explicit recovery reopens a task only when it failed, nobody executes it, and no
  ambiguous cancellation closed it; it changes the state, the phase and the time, nothing else.\<close>

theorem recovery_reopens_failed_only:
  assumes "recover_task e uuid phase tid d = (Ok t, d')"
  shows "\<exists>row. find_task d tid = Some row \<and> tk_state row = T_Failed \<and> tk_phase row \<noteq> recovery_phase \<and>
    \<not> active_in_transaction e (Task_Execution, tid) d \<and>
    find_task d' tid = Some (row\<lparr>tk_state := T_Pending, tk_phase := phase, tk_updated_at := now e\<rparr>)"
  using recover_task_Ok [OF assms] by blast

lemma recovery_reopens_failed_only_witness:
  "\<exists>t d'. recover_task (sample_env 0) ''u'' ''planning'' ''t'' (sample_db T_Failed) = (Ok t, d') \<and>
     map_option tk_state (find_task d' ''t'') = Some T_Pending"
proof -
  have "is_ok (fst (recover_task (sample_env 0) ''u'' ''planning'' ''t'' (sample_db T_Failed)))" by code_simp
  then obtain t d' where run: "recover_task (sample_env 0) ''u'' ''planning'' ''t'' (sample_db T_Failed) = (Ok t, d')"
    using is_okD by (metis prod.collapse)
  from recovery_reopens_failed_only [OF run] run show ?thesis by auto
qed

subsection \<open>Controls\<close>

text \<open>Controls of a task are processed in queue order, by priority and then by sequence number,
  and a control never before its cancellation is reconciled; the one processed is marked and
  leased to its processor.\<close>

theorem controls_in_order:
  assumes "keys_distinct ct_id (task_controls d)" and "leases_ok d"
    and "claim_next e ow lease tid d = (Ok (Some c'), d')"
  shows "\<exists>c \<in> set (task_controls d). ct_task c = tid \<and> ct_state c = C_Pending \<and> c' = c\<lparr>ct_state := C_Processing\<rparr> \<and>
    (\<forall>x \<in> set (task_controls d). ct_task x = tid \<and> ct_state x = C_Pending \<longrightarrow> control_order c \<le> control_order x) \<and>
    \<not> unreconciled d c \<and> holder d' (Task_Control, ct_id c) = Some ow"
  using claim_next_Some [OF assms] by metis

lemma controls_in_order_witness:
  "\<exists>c' d'. claim_next (sample_env 0) live_owner (seconds 30) ''t'' (cancelling_db T_Running X_Resolved) =
      (Ok (Some c'), d') \<and> holder d' (Task_Control, ''c'') = Some live_owner"
proof -
  let ?d = "cancelling_db T_Running X_Resolved"
  have "got_some (fst (claim_next (sample_env 0) live_owner (seconds 30) ''t'' ?d))" by code_simp
  then obtain c' d' where run: "claim_next (sample_env 0) live_owner (seconds 30) ''t'' ?d = (Ok (Some c'), d')"
    using got_someD by (metis prod.collapse)
  have "keys_distinct ct_id (task_controls ?d)" "leases_ok ?d" "task_controls ?d = [sample_control ''c'' Cancel 1 C_Pending]"
    by (simp_all add: cancelling_db_def leases_ok_def sample_defs)
  with controls_in_order [OF this(1,2) run] run show ?thesis by (auto simp: sample_control_def)
qed

text \<open>C4. Recovery settles exactly the interrupted cancellations that nobody works on, and repeats none.
  Those of a pending control of the task that no process holds a lease on, or whose lease may be
  taken over, are settled, and so are the attempts of a live process whose lease has lapsed: an
  intent nobody attempted is resolved, an attempt becomes ambiguous, and then the task ends up
  failed and closed to execution.  Every other cancellation keeps each of its columns; a recovery
  that raises changes nothing.  (The store has one row per control and per leased resource.)\<close>

theorem recovery_never_repeats:
  assumes "recover_cancellations e ids ow lease tid d = (r, d')"
    and "leases_ok d" and "keys_distinct ct_id (task_controls d)" and "find_cancellation d cid = Some x"
  shows "case r of Inl err \<Rightarrow> d' = d
    | Inr n \<Rightarrow> \<exists>x'. find_cancellation d' cid = Some x' \<and>
        (if awaits_recovery d tid cid \<and> settles e ow d cid (cx_state x)
         then (cx_state x = X_Intent \<and> cx_state x' = X_Resolved) \<or>
           (cx_state x = X_Attempting \<and> cx_state x' = X_Ambiguous \<and> fail_closed d' tid)
         else x' = x)"
proof (cases r)
  case (Inl err)
  with assms(1) show ?thesis by (auto simp: recover_cancellations_def transact_def split: sum.splits)
next
  case (Inr n)
  with assms(1) have run: "recover_cancellations e ids ow lease tid d = (Ok n, d')" by simp
  from recover_cancellations_exact [OF run assms(2-4)] obtain x' where x': "find_cancellation d' cid = Some x'"
    "if awaits_recovery d tid cid \<and> settles e ow d cid (cx_state x) then cx_state x' = settled_to (cx_state x) else x' = x"
    by blast
  moreover have "cx_state x = X_Intent \<or> cx_state x = X_Attempting" if "awaits_recovery d tid cid"
    using that assms(4) by (rule awaits_recovery_state)
  moreover have "fail_closed d' tid" if "cx_state x = X_Attempting" "cx_state x' = X_Ambiguous"
    using recover_cancellations_ok [of tid d e ids ow lease] that assms(4) x'(1) run
    unfolding recovery_ok_def became_ambiguous_def by auto
  ultimately show ?thesis using Inr by (auto split: if_splits)
qed

lemma recovery_never_repeats_witness:
  "fail_closed (snd (recover_cancellations (sample_env 0) (\<lambda>n. ''u'') live_owner (seconds 30) ''t''
     (cancelling_db T_Running X_Attempting))) ''t''"
proof -
  let ?d = "cancelling_db T_Running X_Attempting"
  let ?run = "recover_cancellations (sample_env 0) (\<lambda>n. ''u'') live_owner (seconds 30) ''t'' ?d"
  have "leases_ok ?d" "keys_distinct ct_id (task_controls ?d)" "find_cancellation ?d ''c'' = Some (sample_cancellation ''c'' X_Attempting)"
    by (simp_all add: cancelling_db_def find_cancellation_def leases_ok_def sample_defs)
  from recovery_never_repeats [OF _ this, of "sample_env 0" "\<lambda>n. ''u''" live_owner "seconds 30" "''t''" "fst ?run" "snd ?run"]
  have "case fst ?run of Inl err \<Rightarrow> snd ?run = ?d
    | Inr n \<Rightarrow> awaits_recovery ?d ''t'' ''c'' \<and> settles (sample_env 0) live_owner ?d ''c'' X_Attempting \<longrightarrow> fail_closed (snd ?run) ''t''"
    by (auto simp: sample_cancellation_def split: sum.split)
  moreover have "is_ok (fst ?run)" "awaits_recovery ?d ''t'' ''c''" "settles (sample_env 0) live_owner ?d ''c'' X_Attempting"
    by code_simp+
  ultimately show ?thesis by (cases "fst ?run") simp_all
qed

text \<open>C5. A task closed by an ambiguous cancellation stays closed: after any sequence of task
  operations, recovery requests included, no process can claim its execution.\<close>

theorem closed_task_not_executable:
  assumes "fail_closed d tid"
  shows "claim e (Task_Execution, tid) ow lease metadata (fold (task_step resolve_role digest) ops d) =
    (False, fold (task_step resolve_role digest) ops d)"
  using fail_closed_fenced [OF closed_task.run_inv [OF assms]] by (simp add: claim_def claim_fenced)

lemma closed_task_not_executable_witness:
  "let d = empty_db\<lparr>tasks := [(sample_task ''t'' T_Failed)\<lparr>tk_phase := recovery_phase\<rparr>]\<rparr> in
     fst (claim (sample_env 0) (Task_Execution, ''t'') live_owner (seconds 30) []
       (fold (task_step (\<lambda>r. Ok r) (\<lambda>s. [])) [TO_Recover (sample_env 0) ''u'' ''work'' ''t''] d)) = False"
proof -
  have "fail_closed (empty_db\<lparr>tasks := [(sample_task ''t'' T_Failed)\<lparr>tk_phase := recovery_phase\<rparr>]\<rparr>) ''t''"
    by (simp add: fail_closed_def find_task_def sample_defs)
  from closed_task_not_executable [OF this] show ?thesis by (simp only: Let_def fst_conv)
qed

text \<open>C2. An applied or failed control and a reconciled cancellation never change again, whatever
  is enqueued, attempted, reconciled, abandoned, recovered, claimed, finished or annotated.\<close>

theorem settled_controls_final:
  assumes "find_control d cid = Some c" and "find_cancellation d cid' = Some x"
    and "ct_state c = C_Applied \<or> ct_state c = C_Failed" and "cancellation_ready (cx_state x)"
  shows "find_control (fold control_step ops d) cid = Some c \<and>
    find_cancellation (fold control_step ops d) cid' = Some x"
  using control_life.terminal_run [of d cid c ops] cancellation_life.terminal_run [of d cid' x ops] assms
  by (simp add: settled_control_def settled_cancellation_def)

lemma settled_controls_final_witness:
  "let d = (cancelling_db T_Running X_Resolved)\<lparr>task_controls := [sample_control ''c'' Cancel 1 C_Applied]\<rparr> in
     find_control (fold control_step [CO_Annotate (sample_env 0) [(''k'', JNull)] None ''c'',
       CO_Finish (sample_env 0) ''u'' live_owner True [] ''c''] d) ''c'' = Some (sample_control ''c'' Cancel 1 C_Applied)"
proof -
  let ?d = "(cancelling_db T_Running X_Resolved)\<lparr>task_controls := [sample_control ''c'' Cancel 1 C_Applied]\<rparr>"
  have "find_control ?d ''c'' = Some (sample_control ''c'' Cancel 1 C_Applied)"
    "find_cancellation ?d ''c'' = Some (sample_cancellation ''c'' X_Resolved)"
    by (simp_all add: cancelling_db_def find_control_def find_cancellation_def sample_defs)
  moreover have "ct_state (sample_control ''c'' Cancel 1 C_Applied) = C_Applied \<or>
      ct_state (sample_control ''c'' Cancel 1 C_Applied) = C_Failed"
    "cancellation_ready (cx_state (sample_cancellation ''c'' X_Resolved))"
    by (simp_all add: sample_control_def sample_cancellation_def cancellation_ready_def)
  ultimately show ?thesis
    unfolding Let_def by (rule settled_controls_final [THEN conjunct1])
qed

text \<open>C40. A cancellation that was attempted on a task that has since completed or been cancelled
  cannot be recovered: as soon as its lease is free, may be taken over or has lapsed, every
  \<^verbatim>\<open>recover_cancellations\<close> of the task raises the refusal of the guard of terminal tasks and
  rolls back, whatever else there was to recover.  (The store has one row per control and per leased
  resource, and its controls are rows the lineage trigger accepts.)\<close>

theorem ended_task_cancellation_stuck:
  assumes "find_task d tid = Some row" "tk_state row = T_Completed \<or> tk_state row = T_Cancelled"
    and "leases_ok d" and "list_all (\<lambda>c. task_controls_lineage_insert d c = None) (task_controls d)"
    and "keys_distinct ct_id (task_controls d)"
    and "awaits_recovery d tid cid" and "find_cancellation d cid = Some x" "cx_state x = X_Attempting"
    and "settles e ow d cid X_Attempting"
  shows "recover_cancellations e ids ow lease tid d =
    (Err (Runtime_Error ''terminal task cannot mutate execution truth''), d)"
  using recover_cancellations_refused [OF assms(1-3) _ assms(5-9)] assms(4)
  by (simp add: sound_controls_def list_all_iff ended_refusal_def)

lemma ended_task_cancellation_stuck_witness:
  "recover_cancellations (sample_env 0) (\<lambda>n. ''u'') live_owner (seconds 30) ''t''
     (cancelling_db T_Completed X_Attempting) =
   (Err (Runtime_Error ''terminal task cannot mutate execution truth''), cancelling_db T_Completed X_Attempting)"
proof (rule ended_task_cancellation_stuck [where cid = "''c''" and row = "sample_task ''t'' T_Completed"
      and x = "sample_cancellation ''c'' X_Attempting"])
  show "awaits_recovery (cancelling_db T_Completed X_Attempting) ''t'' ''c''"
    "settles (sample_env 0) live_owner (cancelling_db T_Completed X_Attempting) ''c'' X_Attempting"
    by code_simp+
qed (simp_all add: cancelling_db_def task_controls_lineage_insert_def find_task_def find_cancellation_def leases_ok_def sample_defs)

end
