(* ===== verification/Execution.thy ===== *)
theory Execution
  imports Control_Safety
begin

section \<open>Executing a task\<close>

text \<open>
  \<^verbatim>\<open>task_execution_scope\<close> of \<^verbatim>\<open>src/tars/ownership.py\<close>, the context manager every engine runs a
  task in.  The context variable that names the owner of the current scope is the argument
  \<open>scoped\<close>; the heartbeat thread that renews the lease while the body runs is not modelled, so
  the body is any state transformer, and a lease the thread could not renew makes the body fail.
\<close>

definition enter_task_execution ::
    "env \<Rightarrow> (nat \<Rightarrow> ident) \<Rightarrow> owner option \<Rightarrow> owner \<Rightarrow> time \<Rightarrow> dict \<Rightarrow> ident \<Rightarrow> db \<Rightarrow> bool result \<times> db" where
  "enter_task_execution e ids scoped selected lease metadata tid d =
     and_next (recover_cancellations e ids selected lease tid d)
     (\<lambda>_ d1. if task_phase d1 tid = Some recovery_phase
        then (Inl (Runtime_Error ''task requires explicit recovery after ambiguous cancellation''), d1)
        else
          let borrowed = (case scoped of None \<Rightarrow> False
                | Some s \<Rightarrow> ow_token s = ow_token selected \<and> held_by e (Task_Execution, tid) selected d1);
              claimed = claim e (Task_Execution, tid) selected lease metadata d1 in
          if \<not> fst claimed
          then (Inl (Runtime_Error ''task already has a live execution owner''), snd claimed)
          else (Inr borrowed, snd claimed))"

definition exit_task_execution :: "env \<Rightarrow> bool \<Rightarrow> owner \<Rightarrow> ident \<Rightarrow> db \<Rightarrow> db" where
  "exit_task_execution e borrowed selected tid d =
    (if borrowed then d else snd (release e (Task_Execution, tid) selected d))"

definition task_execution_scope ::
    "env \<Rightarrow> env \<Rightarrow> (nat \<Rightarrow> ident) \<Rightarrow> owner option \<Rightarrow> owner \<Rightarrow> time \<Rightarrow> dict \<Rightarrow> ident \<Rightarrow>
     (db \<Rightarrow> 'a result \<times> db) \<Rightarrow> db \<Rightarrow> 'a result \<times> db" where
  "task_execution_scope e later ids scoped selected lease metadata tid body d =
     and_next (enter_task_execution e ids scoped selected lease metadata tid d)
     (\<lambda>borrowed d1. let r = body d1 in
        (fst r, exit_task_execution later borrowed selected tid (snd r)))"

text \<open>The body runs only under the task's execution lease, and never on a task an ambiguous
  cancellation closed.\<close>

lemma release_keeps_leases_ok: "leases_ok d \<Longrightarrow> leases_ok (snd (release e res ow d))"
  by (auto simp: release_def Let_def leases_ok_delete_where split: option.split)

lemma enter_task_execution_Ok:
  assumes "enter_task_execution e ids scoped selected lease metadata tid d = (Ok b, d')"
  obtains n d1 where "recover_cancellations e ids selected lease tid d = (Ok n, d1)"
    and "task_phase d1 tid \<noteq> Some recovery_phase"
    and "claim_in_transaction e (Task_Execution, tid) selected lease metadata d1 = (True, d')"
proof -
  obtain n d1 where rec: "recover_cancellations e ids selected lease tid d = (Ok n, d1)"
    using assms by (cases "recover_cancellations e ids selected lease tid d"; cases "fst (recover_cancellations e ids selected lease tid d)")
      (auto simp: enter_task_execution_def)
  obtain c d2 where cl: "claim_in_transaction e (Task_Execution, tid) selected lease metadata d1 = (c, d2)"
    by fastforce
  from assms rec cl have "task_phase d1 tid \<noteq> Some recovery_phase" "c" "d2 = d'"
    by (auto simp: enter_task_execution_def claim_def Let_def split: if_splits)
  with that rec cl show ?thesis by simp
qed

end
