(* ===== verification/Scheduler.thy ===== *)
theory Scheduler
  imports Execution
begin

section \<open>The durable scheduler\<close>

text \<open>
  \<^verbatim>\<open>src/tars/scheduler.py\<close>: schedules and their edits, the planning of the next run, and the
  \<^verbatim>\<open>Scheduler\<close> object, whose \<^verbatim>\<open>claim_due\<close>, \<^verbatim>\<open>execute_claimed\<close>, \<^verbatim>\<open>recover\<close> and
  \<^verbatim>\<open>deliver_pending\<close> are the operations of the service loop.  ISO parsing (\<open>parse_iso\<close>), the executor and
  the delivery callback are arguments.  Every transaction reads the clock of the environment it is
  given.  The wake-up socket only shortens the wait between two rounds and is not modelled.
\<close>

subsection \<open>Intervals\<close>

text \<open>The last instant a Python \<^verbatim>\<open>datetime\<close> can hold; an addition past it raises.\<close>

definition max_instant :: time where
  "max_instant = 253402300799999999"

definition plus_seconds :: "time \<Rightarrow> int \<Rightarrow> time result" where
  "plus_seconds t n = (let r = t + seconds n in
     raise_if (max_instant < r) (Overflow_Error ''date value out of range'') (Ok r))"

fun unit_seconds :: "string \<Rightarrow> int option" where
  "unit_seconds [] = Some 1"
| "unit_seconds [c] = (if c = CHR ''s'' then Some 1 else if c = CHR ''m'' then Some 60
     else if c = CHR ''h'' then Some 3600 else if c = CHR ''d'' then Some 86400 else None)"
| "unit_seconds (c # d # s) = None"

text \<open>\<^verbatim>\<open>^(?:every\s+|interval:)(\d+)([smhd]?)$\<close>, ignoring case: the text after the prefix\<close>

definition after_interval_prefix :: "string \<Rightarrow> string option" where
  "after_interval_prefix s =
    (if starts_with s ''interval:'' then Some (drop 9 s)
     else if starts_with s ''every'' \<and> takeWhile is_space (drop 5 s) \<noteq> []
     then Some (dropWhile is_space (drop 5 s)) else None)"

definition interval_seconds :: "string \<Rightarrow> int result" where
  "interval_seconds expression =
    (let bad = Err (Value_Error ''recurring expression must be every N or interval:N'') in
     case after_interval_prefix (casefold (strip expression)) of
       None \<Rightarrow> bad
     | Some rest \<Rightarrow>
         let digits = takeWhile is_digit rest in
         if digits = [] then bad else
         (case unit_seconds (dropWhile is_digit rest) of
            None \<Rightarrow> bad
          | Some factor \<Rightarrow> let amount = int (parse_digits digits) in
              raise_if (amount < 1) (Value_Error ''schedule interval must be positive'')
                (Ok (amount * factor))))"

text \<open>\<^verbatim>\<open>expression.split("@", 1)\<close> of a condition: its name and its polling interval\<close>

definition poll_expression :: "string \<Rightarrow> string" where
  "poll_expression e = (case snd (split_once (CHR ''@'') e) of Some p \<Rightarrow> p | None \<Rightarrow> ''every 60s'')"

definition condition_name :: "string \<Rightarrow> string" where
  "condition_name e = strip (fst (split_once (CHR ''@'') e))"

definition initial_next ::
    "(string \<Rightarrow> time result) \<Rightarrow> schedule_kind \<Rightarrow> string \<Rightarrow> string option \<Rightarrow> time \<Rightarrow> time result" where
  "initial_next parse_iso kind expression next_run_at current =
    (case next_run_at of
       Some (c # cs) \<Rightarrow> parse_iso (c # cs)
     | _ \<Rightarrow> (case kind of
         One_Shot \<Rightarrow> parse_iso expression
       | Recurring \<Rightarrow> and_then (interval_seconds expression) (plus_seconds current)
       | Condition \<Rightarrow> and_then (interval_seconds (poll_expression expression)) (plus_seconds current)))"

text \<open>\<^verbatim>\<open>_advance\<close>.  The number of jumps is the floor of the float quotient, which is the integer
  quotient as long as the lateness is exact in a double.\<close>

definition advance :: "schedule_row \<Rightarrow> time \<Rightarrow> time \<Rightarrow> zstamp option result" where
  "advance s planned current = (case sc_kind s of
     One_Shot \<Rightarrow> Ok None
   | Condition \<Rightarrow> and_then (interval_seconds (poll_expression (sc_expression s)))
       (\<lambda>n. and_then (plus_seconds current n) (\<lambda>t. Ok (Some (Z t))))
   | Recurring \<Rightarrow> and_then (interval_seconds (sc_expression s)) (\<lambda>n.
       and_then (plus_seconds planned n) (\<lambda>candidate.
       and_then
         (if sc_missed_policy s = Skip \<and> candidate \<le> current
          then plus_seconds candidate (n * ((current - candidate) div seconds n + 1))
          else if sc_missed_policy s = Run_Once \<and> candidate \<le> current then plus_seconds current n
          else Ok candidate)
       (\<lambda>t. Ok (Some (Z t))))))"

subsection \<open>Registering and editing schedules\<close>

definition parse_schedule_kind :: "string \<Rightarrow> schedule_kind option" where
  "parse_schedule_kind s = map_of [(''one-shot'', One_Shot), (''recurring'', Recurring),
     (''condition'', Condition)] s"

definition parse_missed_policy :: "string \<Rightarrow> missed_policy option" where
  "parse_missed_policy s = map_of [(''skip'', Skip), (''run-once'', Run_Once),
     (''catch-up'', Catch_Up)] s"

definition load_schedule :: "ident \<Rightarrow> db \<Rightarrow> schedule_row result" where
  "load_schedule sid d = (case find_schedule d sid of
     None \<Rightarrow> Err (Key_Error ''unknown schedule'') | Some s \<Rightarrow> Ok s)"

definition schedule_for_task :: "ident \<Rightarrow> db \<Rightarrow> schedule_row option" where
  "schedule_for_task tid d =
     find (\<lambda>s. sc_task s = tid \<and> sc_removed_at s = None) (schedules d)"

text \<open>\<^verbatim>\<open>ORDER BY COALESCE(next_run_at,'9999')\<close>: \<^verbatim>\<open>'9999'\<close> sorts before every instant of that
  year and after every earlier one.\<close>

definition due_key :: "schedule_row \<Rightarrow> int \<times> int" where
  "due_key s = (case sc_next_run_at s of None \<Rightarrow> (253370764800, 0) | Some z \<Rightarrow> text_key z)"

definition list_schedules :: "bool option \<Rightarrow> nat \<Rightarrow> db \<Rightarrow> schedule_row list" where
  "list_schedules enabled limit d = take limit (sort_key due_key
     (filter (\<lambda>s. sc_removed_at s = None \<and> (enabled = None \<or> Some (sc_enabled s) = enabled))
       (schedules d)))"

record new_schedule =
  ns_kind :: string
  ns_expression :: string
  ns_next_run_at :: "string option"
  ns_missed_policy :: string
  ns_max_catch_up :: int
  ns_timezone :: string
  ns_concurrency_key :: string
  ns_max_concurrency :: int
  ns_delivery_target :: string

definition create_schedule ::
    "env \<Rightarrow> (nat \<Rightarrow> ident) \<Rightarrow> (string \<Rightarrow> time result) \<Rightarrow> time \<Rightarrow> ident \<Rightarrow> new_schedule \<Rightarrow> db \<Rightarrow>
     schedule_row result \<times> db" where
  "create_schedule e ids parse_iso current tid n d =
     and_next (load_task d tid, d)
     (\<lambda>task d. if tk_state task \<in> {T_Completed, T_Cancelled}
        then (Inl (Runtime_Error ''cannot schedule an ended task''), d) else
      (case parse_schedule_kind (ns_kind n) of
         None \<Rightarrow> (Inl (Value_Error ''invalid schedule kind''), d)
       | Some kind \<Rightarrow>
      (case parse_missed_policy (ns_missed_policy n) of
         None \<Rightarrow> (Inl (Value_Error ''invalid missed-run policy''), d)
       | Some missed \<Rightarrow>
         if ns_delivery_target n \<noteq> []
         then (Inl (Value_Error ''scheduled delivery targets are not supported''), d)
         else if ns_timezone n \<noteq> ''UTC''
         then (Inl (Value_Error ''schedule storage is UTC''), d)
         else
           and_next (initial_next parse_iso kind (ns_expression n) (ns_next_run_at n) current, d)
           (\<lambda>due d. and_next (transact (\<lambda>d.
               and_then (insert_schedule \<lparr>sc_id = ids 0, sc_task = tk_id task, sc_kind = kind,
                 sc_expression = ns_expression n, sc_timezone = ns_timezone n,
                 sc_next_run_at = Some (Z due), sc_missed_policy = missed,
                 sc_max_catch_up = ns_max_catch_up n, sc_enabled = True,
                 sc_concurrency_key = ns_concurrency_key n,
                 sc_max_concurrency = ns_max_concurrency n,
                 sc_delivery_target = ns_delivery_target n, sc_condition_state = False,
                 sc_revision = 1, sc_created_at = current, sc_updated_at = current,
                 sc_removed_at = None\<rparr> d)
               (\<lambda>d1. and_then (update_task_row (tk_id task) (\<lambda>t. t\<lparr>tk_schedule_kind := Some (ns_kind n),
                  tk_schedule_expr := Some (ns_expression n), tk_next_run_at := Some (Z due),
                  tk_schedule_enabled := True, tk_updated_at := current\<rparr>) d1)
               (\<lambda>d2. Ok ((), d2)))) d)
           (\<lambda>_ d1. and_next (append_event (now e) (ids 1) (tk_id task) ''status''
               (''Schedule '' @ ids 0 @ '' registered'') (Some (tk_owner_role task))
               [(''schedule_id'', JStr (ids 0)), (''kind'', JStr (ns_kind n)),
                (''next_run_at'', JInt due)] ''normal'' d1)
           (\<lambda>_ d2. (load_schedule (ids 0) d2, d2)))))))"

text \<open>The edits \<^verbatim>\<open>edit_schedule\<close> collects, as functions on the row: computed before the transaction
  from the schedule it loaded, applied inside it.\<close>

record schedule_edit =
  sx_expression :: "string option"
  sx_next_run_at :: "string option"
  sx_missed_policy :: "string option"
  sx_max_catch_up :: "int option"
  sx_concurrency_key :: "string option"
  sx_max_concurrency :: "int option"
  sx_delivery_target :: "string option"

definition collect_edits ::
    "(string \<Rightarrow> time result) \<Rightarrow> time \<Rightarrow> schedule_kind \<Rightarrow> schedule_edit \<Rightarrow>
     (schedule_row \<Rightarrow> schedule_row) list result" where
  "collect_edits parse_iso current kind x =
     and_then (case sx_expression x of None \<Rightarrow> Ok []
       | Some ex \<Rightarrow> and_then (initial_next parse_iso kind ex (sx_next_run_at x) current) (\<lambda>t.
           Ok [\<lambda>r. r\<lparr>sc_expression := ex, sc_next_run_at := Some (Z t),
                 sc_condition_state := (if kind = Condition then False else sc_condition_state r)\<rparr>]))
     (\<lambda>a. and_then (case sx_next_run_at x of None \<Rightarrow> Ok []
       | Some s \<Rightarrow> and_then (parse_iso s) (\<lambda>t. Ok [\<lambda>r. r\<lparr>sc_next_run_at := Some (Z t)\<rparr>]))
     (\<lambda>b. and_then (case sx_missed_policy x of None \<Rightarrow> Ok []
       | Some s \<Rightarrow> (case parse_missed_policy s of
           None \<Rightarrow> Err (Value_Error ''invalid missed-run policy'')
         | Some p \<Rightarrow> Ok [\<lambda>r. r\<lparr>sc_missed_policy := p\<rparr>]))
     (\<lambda>c. and_then (case sx_delivery_target x of None \<Rightarrow> Ok []
       | Some t \<Rightarrow> if t \<noteq> [] then Err (Value_Error ''scheduled delivery targets are not supported'')
           else Ok [\<lambda>r. r\<lparr>sc_delivery_target := t\<rparr>])
     (\<lambda>f. Ok (a @ b @ c @
        (case sx_max_catch_up x of None \<Rightarrow> [] | Some n \<Rightarrow> [\<lambda>r. r\<lparr>sc_max_catch_up := n\<rparr>]) @
        (case sx_concurrency_key x of None \<Rightarrow> [] | Some k \<Rightarrow> [\<lambda>r. r\<lparr>sc_concurrency_key := k\<rparr>]) @
        (case sx_max_concurrency x of None \<Rightarrow> [] | Some n \<Rightarrow> [\<lambda>r. r\<lparr>sc_max_concurrency := n\<rparr>]) @ f)))))"

definition edit_schedule ::
    "(string \<Rightarrow> time result) \<Rightarrow> time \<Rightarrow> schedule_edit \<Rightarrow> ident \<Rightarrow> db \<Rightarrow> schedule_row result \<times> db" where
  "edit_schedule parse_iso current x sid d =
     and_next (load_schedule sid d, d)
     (\<lambda>s d. if sc_removed_at s \<noteq> None
        then (Inl (Runtime_Error ''removed schedule cannot be edited''), d) else
        and_next (collect_edits parse_iso current (sc_kind s) x, d)
        (\<lambda>edits d. if length edits = 0 then (Inr s, d) else
           and_next (transact (\<lambda>d. case find_schedule d sid of
               None \<Rightarrow> Err (Key_Error ''unknown schedule'')
             | Some row \<Rightarrow>
                 raise_if (sc_removed_at row \<noteq> None)
                   (Runtime_Error ''removed schedule cannot be edited'')
                (let new = (fold (\<lambda>f r. f r) edits row)\<lparr>sc_updated_at := current,
                       sc_revision := sc_revision row + 1\<rparr> in
                 raise_if (\<not> schedule_checks new) (Integrity_Error ''CHECK constraint failed'')
                (and_then (update_task_row (sc_task row) (\<lambda>t. t\<lparr>tk_schedule_expr := Some (sc_expression new),
                    tk_next_run_at := sc_next_run_at new, tk_updated_at := current\<rparr>)
                    (update_schedules (\<lambda>r. sc_id r = sid) (\<lambda>_. new) d))
                 (\<lambda>d'. Ok ((), d'))))) d)
           (\<lambda>_ d'. (load_schedule sid d', d'))))"

definition set_enabled :: "env \<Rightarrow> ident \<Rightarrow> bool \<Rightarrow> db \<Rightarrow> schedule_row result \<times> db" where
  "set_enabled e sid enabled d =
     and_next (load_schedule sid d, d)
     (\<lambda>_ d. and_next (transact (\<lambda>d. case find_schedule d sid of
         None \<Rightarrow> Err (Type_Error ''no row'')
       | Some row \<Rightarrow>
           raise_if (sc_removed_at row \<noteq> None) (Runtime_Error ''removed schedule cannot be resumed'')
          (and_then (update_task_row (sc_task row) (\<lambda>t. t\<lparr>tk_schedule_enabled := enabled, tk_updated_at := now e\<rparr>)
              (update_schedules (\<lambda>r. sc_id r = sid \<and> sc_removed_at r = None)
                (\<lambda>r. r\<lparr>sc_enabled := enabled, sc_revision := sc_revision r + 1, sc_updated_at := now e\<rparr>) d))
           (\<lambda>d'. Ok ((), d')))) d)
     (\<lambda>_ d'. (load_schedule sid d', d')))"

definition run_active :: "schedule_run_row \<Rightarrow> bool" where
  "run_active r = (sr_state r \<in> {R_Claimed, R_Running})"

definition remove_schedule :: "env \<Rightarrow> ident \<Rightarrow> db \<Rightarrow> unit result \<times> db" where
  "remove_schedule e sid d =
     and_next (load_schedule sid d, d)
     (\<lambda>s d. transact (\<lambda>d.
        raise_if (exists_where (\<lambda>r. sr_schedule r = sid \<and> run_active r) (schedule_runs d))
          (Runtime_Error ''cannot remove a schedule with an active run'')
       (and_then (update_task_row (sc_task s) (\<lambda>t. t\<lparr>tk_schedule_kind := None, tk_schedule_expr := None,
            tk_next_run_at := None, tk_schedule_enabled := False, tk_updated_at := now e\<rparr>)
            (update_schedules (\<lambda>r. sc_id r = sid)
              (\<lambda>r. r\<lparr>sc_enabled := False, sc_removed_at := Some (now e), sc_updated_at := now e\<rparr>) d))
        (\<lambda>d'. Ok ((), d')))) d)"

subsection \<open>The scheduler object\<close>

record scheduler =
  sj_max :: int
  sj_conditions :: "(string \<times> (db \<Rightarrow> bool result)) list"
  sj_lease :: time
  sj_owner :: owner

definition new_scheduler ::
    "env \<Rightarrow> int \<Rightarrow> (string \<times> (db \<Rightarrow> bool result)) list \<Rightarrow> time \<Rightarrow> string \<Rightarrow> int \<Rightarrow> scheduler" where
  "new_scheduler e max_concurrency conditions lease token pid =
     \<lparr>sj_max = max 1 max_concurrency, sj_conditions = conditions,
      sj_lease = max (seconds 2) lease, sj_owner = create_owner e token pid\<rparr>"

definition load_run :: "ident \<Rightarrow> db \<Rightarrow> schedule_run_row result" where
  "load_run rid d = (case find_schedule_run d rid of
     None \<Rightarrow> Err (Key_Error ''unknown schedule run'') | Some r \<Rightarrow> Ok r)"

definition list_runs :: "ident option \<Rightarrow> nat \<Rightarrow> db \<Rightarrow> schedule_run_row list" where
  "list_runs sid limit d = take limit (sort_key (\<lambda>r. - sr_claimed_at r)
     (filter (\<lambda>r. sid = None \<or> Some (sr_schedule r) = sid) (schedule_runs d)))"

definition run_metadata :: "ident \<Rightarrow> dict" where
  "run_metadata sid = [(''schedule_id'', JStr sid)]"

definition owner_lost_run :: string where
  "owner_lost_run = ''execution owner was lost; external outcome is ambiguous''"

text \<open>\<^verbatim>\<open>recover\<close>: one running row of the loop, and the loop\<close>

definition recover_run :: "env \<Rightarrow> scheduler \<Rightarrow> schedule_run_row \<Rightarrow> db \<Rightarrow> (bool \<times> db) result" where
  "recover_run e sj row d =
    (let (claimed, d1) = claim_in_transaction e (Schedule_Run, sr_id row) (sj_owner sj) (sj_lease sj)
           (run_metadata (sr_schedule row)) d in
     if \<not> claimed then Ok (False, d1) else
     let P = (\<lambda>r. sr_id r = sr_id row \<and> sr_state r = R_Running) in
     and_then (update_schedule_runs P (\<lambda>r. r\<lparr>sr_state := R_Failed, sr_error := owner_lost_run,
         sr_finished_at := Some (now e)\<rparr>) d1)
     (\<lambda>d2. if count_where P (schedule_runs d1) = 0 then Ok (False, d2) else
        and_then (update_task_row (sr_task row) (\<lambda>t. t\<lparr>tk_last_run_at := Some (now e),
            tk_last_result_status := Some ''failed'', tk_updated_at := now e\<rparr>) d2)
        (\<lambda>d3. Ok (True, drop_lease Schedule_Run (sr_id row) (ow_token (sj_owner sj)) d3))))"

fun recover_runs :: "env \<Rightarrow> scheduler \<Rightarrow> schedule_run_row list \<Rightarrow> nat \<Rightarrow> db \<Rightarrow> (nat \<times> db) result" where
  "recover_runs e sj [] n d = Ok (n, d)"
| "recover_runs e sj (row # rows) n d =
     and_then (recover_run e sj row d)
     (\<lambda>(b, d'). recover_runs e sj rows (if b then Suc n else n) d')"

definition recover :: "env \<Rightarrow> scheduler \<Rightarrow> db \<Rightarrow> nat result \<times> db" where
  "recover e sj = transact (\<lambda>d.
     recover_runs e sj (filter (\<lambda>r. sr_state r = R_Running) (schedule_runs d)) 0 d)"

subsection \<open>Claiming due runs\<close>

definition set_next :: "env \<Rightarrow> schedule_row \<Rightarrow> zstamp option \<Rightarrow> db \<Rightarrow> unit result \<times> db" where
  "set_next e s value = transact (\<lambda>d.
     and_then (update_task_row (sc_task s) (\<lambda>t. t\<lparr>tk_next_run_at := value, tk_updated_at := now e\<rparr>)
         (update_schedules (\<lambda>r. sc_id r = sc_id s)
           (\<lambda>r. r\<lparr>sc_next_run_at := value, sc_updated_at := now e\<rparr>) d))
     (\<lambda>d'. Ok ((), d')))"

text \<open>\<^verbatim>\<open>_condition_due\<close>: due on the rising edge only; the edge is recorded at once.\<close>

definition condition_due :: "env \<Rightarrow> scheduler \<Rightarrow> schedule_row \<Rightarrow> db \<Rightarrow> bool result \<times> db" where
  "condition_due e sj s d = (case map_of (sj_conditions sj) (condition_name (sc_expression s)) of
     None \<Rightarrow> (Inr False, d)
   | Some predicate \<Rightarrow>
       and_next (predicate d, d)
       (\<lambda>current d. (Inr (current \<and> \<not> sc_condition_state s),
          update_schedules (\<lambda>r. sc_id r = sc_id s)
            (\<lambda>r. r\<lparr>sc_condition_state := current, sc_updated_at := now e\<rparr>) d)))"

text \<open>Whether the schedule goes on to be claimed in this round\<close>

definition condition_step ::
    "env \<Rightarrow> scheduler \<Rightarrow> time \<Rightarrow> ident \<Rightarrow> schedule_row \<Rightarrow> time \<Rightarrow> db \<Rightarrow> bool result \<times> db" where
  "condition_step e sj current uuid s first d =
    (if sc_kind s \<noteq> Condition then (Inr True, d) else
     (case condition_due e sj s d of
        (Inl err, d1) \<Rightarrow>
          and_next (append_event (now e) uuid (sc_task s) ''error'' ''Schedule condition evaluation failed''
            None [(''schedule_id'', JStr (sc_id s)), (''error'', JStr (error_text err))] ''normal'' d1)
          (\<lambda>_ d2. and_next (advance s first current, d2) (\<lambda>t d2.
             and_next (set_next e s t d2) (\<lambda>_ d3. (Inr False, d3))))
      | (Inr due, d1) \<Rightarrow>
          if due then (Inr True, d1) else
          and_next (advance s first current, d1) (\<lambda>t d1.
            and_next (set_next e s t d1) (\<lambda>_ d2. (Inr False, d2)))))"

text \<open>The slots of a catch-up schedule that are already due, at most \<^verbatim>\<open>max_catch_up\<close>; \<open>room\<close> is
  how many more the list may take.\<close>

fun more_slots :: "int \<Rightarrow> time \<Rightarrow> nat \<Rightarrow> time \<Rightarrow> time list result" where
  "more_slots step current 0 prev = and_then (plus_seconds prev step) (\<lambda>_. Ok [])"
| "more_slots step current (Suc room) prev =
     and_then (plus_seconds prev step) (\<lambda>next.
       if next \<le> current
       then and_then (more_slots step current room next) (\<lambda>rest. Ok (next # rest))
       else Ok [])"

definition planned_slots :: "schedule_row \<Rightarrow> time \<Rightarrow> time \<Rightarrow> time list result" where
  "planned_slots s first current =
    (if sc_kind s = Recurring \<and> sc_missed_policy s = Catch_Up
     then and_then (interval_seconds (sc_expression s)) (\<lambda>step.
       and_then (more_slots step current (nat (sc_max_catch_up s - 1)) first) (\<lambda>rest. Ok (first # rest)))
     else Ok [first])"

datatype slot_outcome = Slot_Passed | Slot_Full | Slot_Claimed | Slot_Skipped

definition active_runs :: "db \<Rightarrow> nat" where
  "active_runs d = count_where run_active (schedule_runs d)"

definition keyed_runs :: "db \<Rightarrow> string \<Rightarrow> nat" where
  "keyed_runs d key = count_where (\<lambda>r. run_active r \<and>
     (case find_schedule d (sr_schedule r) of None \<Rightarrow> False | Some s \<Rightarrow> sc_concurrency_key s = key))
     (schedule_runs d)"

definition unique_violation :: error where
  "unique_violation = Integrity_Error ''UNIQUE constraint failed''"

definition due_run :: "schedule_row \<Rightarrow> schedule_row \<Rightarrow> time \<Rightarrow> time \<Rightarrow> ident \<Rightarrow> db \<Rightarrow> schedule_run_row" where
  "due_run s row planned current rid d =
    (let skipped = (planned < current \<and> sc_missed_policy s = Skip) in
     \<lparr>sr_id = rid, sr_schedule = sc_id row, sr_task = sc_task row, sr_planned_for = Z planned,
      sr_idempotency_key = (sc_id s, Z planned, sc_revision row),
      sr_state = (if skipped then R_Skipped else R_Claimed), sr_attempt = 1,
      sr_checkpoint = map_option cp_id (latest_checkpoint d (sc_task row)), sr_result = [],
      sr_error = [], sr_claimed_at = current, sr_started_at = None,
      sr_finished_at = (if skipped then Some current else None)\<rparr>)"

text \<open>The transaction of one slot.  \<open>s\<close> is the schedule as listed, \<open>row\<close> as read under the lock.\<close>

definition claim_slot ::
    "env \<Rightarrow> scheduler \<Rightarrow> time \<Rightarrow> schedule_row \<Rightarrow> nat \<Rightarrow> time \<Rightarrow> ident \<Rightarrow> db \<Rightarrow> (slot_outcome \<times> db) result" where
  "claim_slot e sj current s index planned rid d = (case find_schedule d (sc_id s) of
     None \<Rightarrow> Ok (Slot_Passed, d)
   | Some row \<Rightarrow>
       if sc_removed_at row \<noteq> None \<or> \<not> sc_enabled row \<or> sc_revision row \<noteq> sc_revision s \<or>
          (index = 0 \<and> sc_next_run_at row \<noteq> sc_next_run_at s)
       then Ok (Slot_Passed, d)
       else if sj_max sj \<le> int (active_runs d) \<or>
          sc_max_concurrency row \<le> int (keyed_runs d (sc_concurrency_key row))
       then Ok (Slot_Full, d)
       else
         let r = due_run s row planned current rid d in
         (case insert_schedule_run r d of
            Inl err \<Rightarrow> if err = unique_violation then Ok (Slot_Passed, d) else Err err
          | Inr d1 \<Rightarrow>
              and_then (if sr_state r \<noteq> R_Claimed then Ok d1 else
                let (claimed, d2) = claim_in_transaction e (Schedule_Run, rid) (sj_owner sj)
                      (sj_lease sj) (run_metadata (sc_id row)) d1 in
                raise_if (\<not> claimed) (Runtime_Error ''new schedule run could not acquire ownership'') (Ok d2))
              (\<lambda>d2. and_then (advance row planned current)
              (\<lambda>next. and_then (update_task_row (sc_task row)
                  (\<lambda>t. t\<lparr>tk_next_run_at := next, tk_schedule_enabled := next \<noteq> None, tk_updated_at := current\<rparr>)
                  (update_schedules (\<lambda>x. sc_id x = sc_id row)
                    (\<lambda>x. x\<lparr>sc_next_run_at := next, sc_enabled := next \<noteq> None, sc_updated_at := current\<rparr>) d2))
              (\<lambda>d3. Ok (if sr_state r = R_Claimed then Slot_Claimed else Slot_Skipped, d3))))))"

fun claim_slots ::
    "env \<Rightarrow> scheduler \<Rightarrow> time \<Rightarrow> (ident \<Rightarrow> nat \<Rightarrow> ident) \<Rightarrow> (ident \<Rightarrow> nat \<Rightarrow> ident) \<Rightarrow> schedule_row \<Rightarrow> nat \<Rightarrow>
     time list \<Rightarrow> schedule_run_row list \<Rightarrow> db \<Rightarrow> schedule_run_row list result \<times> db" where
  "claim_slots e sj current rids uuids s index [] claimed d = (Inr claimed, d)"
| "claim_slots e sj current rids uuids s index (planned # slots) claimed d =
    (if sj_max sj \<le> int (length claimed) then (Inr claimed, d) else
     and_next (transact (claim_slot e sj current s index planned (rids (sc_id s) index)) d)
     (\<lambda>outcome d1. case outcome of
        Slot_Full \<Rightarrow> (Inr claimed, d1)
      | Slot_Passed \<Rightarrow> claim_slots e sj current rids uuids s (Suc index) slots claimed d1
      | Slot_Claimed \<Rightarrow> and_next (load_run (rids (sc_id s) index) d1, d1) (\<lambda>run d1.
          claim_slots e sj current rids uuids s (Suc index) slots (claimed @ [run]) d1)
      | Slot_Skipped \<Rightarrow> and_next (append_event (now e) (uuids (sc_id s) index) (sc_task s) ''status''
            ''Missed scheduled run skipped'' None
            [(''schedule_id'', JStr (sc_id s)), (''planned_for'', JInt planned)] ''normal'' d1)
          (\<lambda>_ d2. claim_slots e sj current rids uuids s (Suc index) slots claimed d2)))"

fun claim_schedules ::
    "env \<Rightarrow> scheduler \<Rightarrow> time \<Rightarrow> (ident \<Rightarrow> nat \<Rightarrow> ident) \<Rightarrow> (ident \<Rightarrow> nat \<Rightarrow> ident) \<Rightarrow> schedule_row list \<Rightarrow>
     schedule_run_row list \<Rightarrow> db \<Rightarrow> schedule_run_row list result \<times> db" where
  "claim_schedules e sj current rids uuids [] claimed d = (Inr claimed, d)"
| "claim_schedules e sj current rids uuids (s # ss) claimed d =
    (if sj_max sj \<le> int (length claimed) then (Inr claimed, d) else
     (case sc_next_run_at s of
        None \<Rightarrow> (Inr claimed, d)
      | Some z \<Rightarrow>
          if current < instant z then claim_schedules e sj current rids uuids ss claimed d else
          and_next (condition_step e sj current (uuids (sc_id s) 0) s (instant z) d)
          (\<lambda>go d1. if \<not> go then claim_schedules e sj current rids uuids ss claimed d1 else
             and_next (planned_slots s (instant z) current, d1)
             (\<lambda>slots d1. and_next (claim_slots e sj current rids uuids s 0 slots claimed d1)
             (\<lambda>claimed' d2. claim_schedules e sj current rids uuids ss claimed' d2)))))"

definition claim_due ::
    "env \<Rightarrow> scheduler \<Rightarrow> time \<Rightarrow> (ident \<Rightarrow> nat \<Rightarrow> ident) \<Rightarrow> (ident \<Rightarrow> nat \<Rightarrow> ident) \<Rightarrow> db \<Rightarrow>
     schedule_run_row list result \<times> db" where
  "claim_due e sj current rids uuids d =
     claim_schedules e sj current rids uuids (list_schedules (Some True) 100 d) [] d"

subsection \<open>Executing claimed runs\<close>

definition owns_run :: "env \<Rightarrow> scheduler \<Rightarrow> ident \<Rightarrow> db \<Rightarrow> bool" where
  "owns_run e sj rid d = owns_lease e Schedule_Run rid (sj_owner sj) d"

definition run_state_name :: "schedule_run_state \<Rightarrow> string" where
  "run_state_name s = (case s of R_Claimed \<Rightarrow> ''claimed'' | R_Running \<Rightarrow> ''running''
     | R_Succeeded \<Rightarrow> ''succeeded'' | R_Failed \<Rightarrow> ''failed'' | R_Skipped \<Rightarrow> ''skipped''
     | R_Cancelled \<Rightarrow> ''cancelled'')"

definition finish_run ::
    "env \<Rightarrow> scheduler \<Rightarrow> ident \<Rightarrow> ident \<Rightarrow> schedule_run_state \<Rightarrow> dict \<Rightarrow> string \<Rightarrow> ident option \<Rightarrow> db \<Rightarrow>
     unit result \<times> db" where
  "finish_run e sj uuid rid state result error checkpoint d =
     and_next (load_run rid d, d)
     (\<lambda>run d. and_next (transact (\<lambda>d.
         let P = (\<lambda>r. sr_id r = rid \<and> sr_state r = R_Running) in
         raise_if (\<not> owns_run e sj rid d) (Runtime_Error ''scheduler no longer owns run'')
        (and_then (update_schedule_runs P (\<lambda>r. r\<lparr>sr_state := state, sr_result := result,
             sr_error := error, sr_checkpoint := checkpoint, sr_finished_at := Some (now e)\<rparr>) d)
         (\<lambda>d1. raise_if (count_where P (schedule_runs d) \<noteq> 1)
            (Runtime_Error ''schedule run changed concurrently'')
           (and_then (update_task_row (sr_task run) (\<lambda>t. t\<lparr>tk_last_run_at := Some (now e),
               tk_last_result_status := Some (run_state_name state), tk_updated_at := now e\<rparr>) d1)
            (\<lambda>d2. Ok ((), drop_lease Schedule_Run rid (ow_token (sj_owner sj)) d2)))))) d)
     (\<lambda>_ d1. and_next (append_event (now e) uuid (sr_task run)
         (if state = R_Succeeded then ''result'' else ''error'')
         (''Scheduled run '' @ rid @ '' '' @ run_state_name state) None
         [(''schedule_id'', JStr (sr_schedule run)),
          (''checkpoint_id'', case checkpoint of None \<Rightarrow> JNull | Some c \<Rightarrow> JStr c),
          (''error'', JStr error)] ''normal'' d1)
       (\<lambda>_ d2. (Inr (), d2))))"

definition queue_delivery :: "env \<Rightarrow> ident \<Rightarrow> ident \<Rightarrow> db \<Rightarrow> unit result \<times> db" where
  "queue_delivery e did rid d =
     and_next (load_run rid d, d)
     (\<lambda>run d. and_next (load_schedule (sr_schedule run) d, d)
     (\<lambda>s d. transact (\<lambda>d. case insert_delivery \<lparr>dv_id = did, dv_run = rid,
           dv_target = sc_delivery_target s,
           dv_state = (if sc_delivery_target s \<noteq> [] then D_Pending else D_Suppressed),
           dv_attempt = 0, dv_result = [], dv_error = [], dv_updated_at = now e\<rparr> d of
         Inl err \<Rightarrow> if err = unique_violation then Ok ((), d) else Err err
       | Inr d' \<Rightarrow> Ok ((), d')) d))"

type_synonym delivery_callback = "string \<Rightarrow> schedule_run_row \<Rightarrow> db \<Rightarrow> dict result \<times> db"

definition started_delivery :: string where
  "started_delivery = ''delivery started; outcome is ambiguous until completion''"

text \<open>One row of \<^verbatim>\<open>deliver_pending\<close>: it is marked failed before the callback runs, and only the
  owner of a lease that has not expired may correct that.\<close>

definition deliver_row ::
    "env \<Rightarrow> env \<Rightarrow> scheduler \<Rightarrow> delivery_callback \<Rightarrow> delivery_row \<Rightarrow> db \<Rightarrow> nat result \<times> db" where
  "deliver_row e later sj deliver row d =
    (let did = dv_id row; token = ow_token (sj_owner sj);
         claimed = claim e (Schedule_Delivery, did) (sj_owner sj) (sj_lease sj)
           [(''run_id'', JStr (dv_run row)), (''target'', JStr (dv_target row))] d;
         pending = (\<lambda>v. dv_id v = did \<and> dv_state v = D_Pending) in
     if \<not> fst claimed then (Inr 0, snd claimed) else
     and_next (load_run (dv_run row) (snd claimed), snd claimed)
     (\<lambda>run d1.
       if count_where pending (schedule_deliveries d1) \<noteq> 1
       then (Inr 0, snd (release e (Schedule_Delivery, did) (sj_owner sj)
          (update_deliveries pending (\<lambda>v. v\<lparr>dv_state := D_Failed, dv_attempt := dv_attempt v + 1,
             dv_error := started_delivery, dv_updated_at := now e\<rparr>) d1)))
       else
         let (outcome, d2) = deliver (dv_target row) run (update_deliveries pending
               (\<lambda>v. v\<lparr>dv_state := D_Failed, dv_attempt := dv_attempt v + 1, dv_error := started_delivery,
                     dv_updated_at := now e\<rparr>) d1);
             mine = (\<lambda>v. dv_id v = did \<and> dv_state v = D_Failed \<and>
               owns_lease later Schedule_Delivery did (sj_owner sj) d2) in
         and_next (transact (\<lambda>d.
             raise_if (count_where mine (schedule_deliveries d) \<noteq> 1)
               (Runtime_Error ''scheduler no longer owns delivery'')
              (Ok ((), drop_lease Schedule_Delivery did token (update_deliveries mine
                 (\<lambda>v. v\<lparr>dv_state := (case outcome of Inl _ \<Rightarrow> D_Failed | Inr _ \<Rightarrow> D_Delivered),
                      dv_result := (case outcome of Inl _ \<Rightarrow> [] | Inr r \<Rightarrow> r),
                      dv_error := (case outcome of Inl err \<Rightarrow> error_text err | Inr _ \<Rightarrow> []),
                      dv_updated_at := now later\<rparr>) d)))) d2)
         (\<lambda>_ d3. (Inr (case outcome of Inl _ \<Rightarrow> 0 | Inr _ \<Rightarrow> 1), d3))))"

fun deliver_rows ::
    "(ident \<Rightarrow> env \<times> env) \<Rightarrow> scheduler \<Rightarrow> delivery_callback \<Rightarrow> delivery_row list \<Rightarrow> nat \<Rightarrow> db \<Rightarrow>
     nat result \<times> db" where
  "deliver_rows envs sj deliver [] n d = (Inr n, d)"
| "deliver_rows envs sj deliver (row # rows) n d =
     and_next (deliver_row (fst (envs (dv_id row))) (snd (envs (dv_id row))) sj deliver row d)
     (\<lambda>m d'. deliver_rows envs sj deliver rows (n + m) d')"

definition deliver_pending ::
    "(ident \<Rightarrow> env \<times> env) \<Rightarrow> scheduler \<Rightarrow> delivery_callback \<Rightarrow> ident option \<Rightarrow> db \<Rightarrow> nat result \<times> db" where
  "deliver_pending envs sj deliver rid d = deliver_rows envs sj deliver
     (filter (\<lambda>v. dv_state v = D_Pending \<and> (rid = None \<or> rid = Some (dv_run v))) (schedule_deliveries d)) 0 d"

type_synonym executor = "schedule_run_row \<Rightarrow> db \<Rightarrow> dict result \<times> db"

text \<open>One row of \<^verbatim>\<open>execute_claimed\<close>: \<open>None\<close> when the row was not executed.  \<open>start_run\<close> is its
  first transaction; what follows the executor, in the two branches of the \<^verbatim>\<open>try\<close>, is
  \<open>settle_run\<close>.\<close>

definition start_run :: "env \<Rightarrow> scheduler \<Rightarrow> schedule_run_row \<Rightarrow> db \<Rightarrow> bool result \<times> db" where
  "start_run e sj run = transact (\<lambda>d.
     let (claimed, d1) = claim_in_transaction e (Schedule_Run, sr_id run) (sj_owner sj) (sj_lease sj)
           (run_metadata (sr_schedule run)) d;
         P = (\<lambda>r. sr_id r = sr_id run \<and> sr_state r = R_Claimed) in
     if \<not> claimed then Ok (False, d1) else
     and_then (update_schedule_runs P
       (\<lambda>r. r\<lparr>sr_state := R_Running, sr_started_at := Some (now e)\<rparr>) d1)
     (\<lambda>d2. Ok (count_where P (schedule_runs d1) \<noteq> 0, d2)))"

definition settle_run ::
    "env \<Rightarrow> (ident \<Rightarrow> env \<times> env) \<Rightarrow> scheduler \<Rightarrow> (nat \<Rightarrow> ident) \<Rightarrow> delivery_callback option \<Rightarrow> schedule_run_row \<Rightarrow>
     dict result \<Rightarrow> db \<Rightarrow> unit result \<times> db" where
  "settle_run later envs sj ids deliver run outcome d =
    (let rid = sr_id run; checkpoint = map_option cp_id (latest_checkpoint d (sr_task run)) in
     case outcome of
       Inl err \<Rightarrow> finish_run later sj (ids 1) rid R_Failed [] (error_text err) checkpoint d
     | Inr result \<Rightarrow>
         and_next (finish_run later sj (ids 1) rid R_Succeeded result [] checkpoint d)
         (\<lambda>_ d1. and_next (queue_delivery later (ids 2) rid d1)
         (\<lambda>_ d2. case deliver of None \<Rightarrow> (Inr (), d2)
            | Some callback \<Rightarrow> and_next (deliver_pending envs sj callback (Some rid) d2)
                (\<lambda>_ d3. (Inr (), d3)))))"

definition execute_run ::
    "env \<Rightarrow> env \<Rightarrow> (ident \<Rightarrow> env \<times> env) \<Rightarrow> scheduler \<Rightarrow> (nat \<Rightarrow> ident) \<Rightarrow> executor \<Rightarrow> delivery_callback option \<Rightarrow>
     schedule_run_row \<Rightarrow> db \<Rightarrow> schedule_run_row option result \<times> db" where
  "execute_run e later envs sj ids executor deliver run d =
     and_next (start_run e sj run d)
     (\<lambda>started d1. if \<not> started then (Inr None, d1) else
       and_next (append_event (now e) (ids 0) (sr_task run) ''status''
         (''Scheduled run '' @ sr_id run @ '' started'') None
         [(''schedule_id'', JStr (sr_schedule run))] ''normal'' d1)
       (\<lambda>_ d2. let (outcome, d3) = task_execution_scope e later (\<lambda>n. ids (n + 3)) None (sj_owner sj)
                (sj_lease sj) [(''engine'', JStr ''scheduler''), (''schedule_run_id'', JStr (sr_id run))]
                (sr_task run)
                (\<lambda>d. and_next (load_run (sr_id run) d, d) (\<lambda>r d. executor r d)) d2;
              (settled, d4) = settle_run later envs sj ids deliver run outcome d3;
              d5 = snd (release later (Schedule_Run, sr_id run) (sj_owner sj) d4) in
          and_next (settled, d5) (\<lambda>_ d5. and_next (load_run (sr_id run) d5, d5)
            (\<lambda>r d5. (Inr (Some r), d5)))))"

fun execute_runs ::
    "(ident \<Rightarrow> env \<times> env) \<Rightarrow> (ident \<Rightarrow> env \<times> env) \<Rightarrow> scheduler \<Rightarrow> (ident \<Rightarrow> nat \<Rightarrow> ident) \<Rightarrow> executor \<Rightarrow>
     delivery_callback option \<Rightarrow> schedule_run_row list \<Rightarrow> schedule_run_row list \<Rightarrow> db \<Rightarrow>
     schedule_run_row list result \<times> db" where
  "execute_runs clocks envs sj ids executor deliver [] completed d = (Inr completed, d)"
| "execute_runs clocks envs sj ids executor deliver (run # runs) completed d =
     and_next (execute_run (fst (clocks (sr_id run))) (snd (clocks (sr_id run))) envs sj (ids (sr_id run))
       executor deliver run d)
     (\<lambda>r d'. execute_runs clocks envs sj ids executor deliver runs
        (case r of None \<Rightarrow> completed | Some x \<Rightarrow> completed @ [x]) d')"

definition execute_claimed ::
    "(ident \<Rightarrow> env \<times> env) \<Rightarrow> (ident \<Rightarrow> env \<times> env) \<Rightarrow> scheduler \<Rightarrow> (ident \<Rightarrow> nat \<Rightarrow> ident) \<Rightarrow> executor \<Rightarrow>
     delivery_callback option \<Rightarrow> db \<Rightarrow> schedule_run_row list result \<times> db" where
  "execute_claimed clocks envs sj ids executor deliver d =
     execute_runs clocks envs sj ids executor deliver (take (nat (sj_max sj))
       (sort_key sr_planned_for (filter (\<lambda>r. sr_state r = R_Claimed) (schedule_runs d)))) [] d"

subsection \<open>The condition registry\<close>

text \<open>\<^verbatim>\<open>condition_registry\<close>: the predicates a configuration defines.  \<open>str_of\<close> is Python's \<^verbatim>\<open>str\<close>
  on configuration values, \<open>path_exists\<close> the test of the file system on an expanded path.\<close>

definition json_get :: "dict \<Rightarrow> string \<Rightarrow> json \<Rightarrow> json" where
  "json_get m k fallback = (case map_of m k of None \<Rightarrow> fallback | Some v \<Rightarrow> v)"

definition condition_predicate ::
    "(json \<Rightarrow> string) \<Rightarrow> (string \<Rightarrow> bool) \<Rightarrow> json \<Rightarrow> (db \<Rightarrow> bool result) result" where
  "condition_predicate str_of path_exists definition = (case definition of
     JObj m \<Rightarrow>
       let kind = str_of (json_get m ''type'' (JStr [])) in
       if kind = ''path-exists'' then
         let path = str_of (json_get m ''path'' (JStr [])) in
         raise_if (strip path = []) (Value_Error ''condition requires path'')
           (Ok (\<lambda>d. Ok (path_exists path)))
       else if kind = ''task-state'' then
         let tid = strip (str_of (json_get m ''task_id'' (JStr [])));
             expected = strip (str_of (json_get m ''state'' (JStr ''completed''))) in
         raise_if (tid = []) (Value_Error ''condition requires task_id'')
           (Ok (\<lambda>d. and_then (load_task d tid) (\<lambda>t. Ok (task_state_name (tk_state t) = expected))))
       else Err (Value_Error ''condition has unsupported type'')
   | _ \<Rightarrow> Err (Value_Error ''condition must be a table''))"

fun condition_entries ::
    "(json \<Rightarrow> string) \<Rightarrow> (string \<Rightarrow> bool) \<Rightarrow> dict \<Rightarrow> (string \<times> (db \<Rightarrow> bool result)) list \<Rightarrow>
     (string \<times> (db \<Rightarrow> bool result)) list result" where
  "condition_entries str_of path_exists [] acc = Ok acc"
| "condition_entries str_of path_exists ((name, definition) # rest) acc =
     and_then (condition_predicate str_of path_exists definition)
     (\<lambda>p. condition_entries str_of path_exists rest (AList.update name p acc))"

definition condition_registry ::
    "(json \<Rightarrow> string) \<Rightarrow> (string \<Rightarrow> bool) \<Rightarrow> dict \<Rightarrow> (string \<times> (db \<Rightarrow> bool result)) list result" where
  "condition_registry str_of path_exists cfg =
    (let definitions = (case json_get cfg ''scheduler'' (JObj []) of
           JObj m \<Rightarrow> json_get m ''conditions'' (JObj []) | _ \<Rightarrow> JObj []) in
     case definitions of
       JObj m \<Rightarrow> condition_entries str_of path_exists m []
     | _ \<Rightarrow> Err (Value_Error ''scheduler.conditions must be a table''))"

subsection \<open>Waiting\<close>

text \<open>\<^verbatim>\<open>next_wake_seconds\<close>, in microseconds\<close>

definition next_wake :: "time \<Rightarrow> time \<Rightarrow> db \<Rightarrow> time" where
  "next_wake current maximum d =
    (if exists_where (\<lambda>r. sr_state r = R_Claimed) (schedule_runs d) then 0
     else (case List.map_filter sc_next_run_at (list_schedules (Some True) 100 d) of
        [] \<Rightarrow> maximum
      | z # zs \<Rightarrow> max 0 (min maximum (fold min (map (\<lambda>z. instant z - current) zs) (instant z - current)))))"

definition missing_conditions :: "string list \<Rightarrow> db \<Rightarrow> string list" where
  "missing_conditions names d = remdups (filter (\<lambda>n. n \<notin> set names)
     (map (\<lambda>s. condition_name (sc_expression s))
       (filter (\<lambda>s. sc_kind s = Condition) (list_schedules (Some True) 100 d))))"

definition require_condition_support :: "(string \<times> (db \<Rightarrow> bool result)) list \<Rightarrow> db \<Rightarrow> unit result" where
  "require_condition_support conditions d =
     raise_if (missing_conditions (map fst conditions) d \<noteq> [])
       (Runtime_Error ''no predicate for an enabled condition schedule'') (Ok ())"

record scheduler_health =
  hl_ok :: bool
  hl_enabled :: nat
  hl_paused :: nat
  hl_running :: nat
  hl_claimed :: nat
  hl_failed_deliveries :: nat
  hl_missing :: "string list"

definition health :: "string list \<Rightarrow> db \<Rightarrow> scheduler_health" where
  "health names d =
    (let ss = list_schedules None 100 d in
     \<lparr>hl_ok = \<not> list_ex (\<lambda>s. sc_enabled s \<and> sc_kind s = Condition \<and>
        condition_name (sc_expression s) \<notin> set names) ss,
      hl_enabled = length (filter sc_enabled ss),
      hl_paused = length (filter (\<lambda>s. \<not> sc_enabled s) ss),
      hl_running = count_where (\<lambda>r. sr_state r = R_Running) (schedule_runs d),
      hl_claimed = count_where (\<lambda>r. sr_state r = R_Claimed) (schedule_runs d),
      hl_failed_deliveries = count_where (\<lambda>v. dv_state v = D_Failed) (schedule_deliveries d),
      hl_missing = remdups (filter (\<lambda>n. n \<notin> set names)
        (map (\<lambda>s. condition_name (sc_expression s))
          (filter (\<lambda>s. sc_enabled s \<and> sc_kind s = Condition) ss)))\<rparr>)"

end
