(* ===== verification/Scheduler_Safety.thy ===== *)
theory Scheduler_Safety
  imports Scheduler
begin

section \<open>What the scheduler guarantees\<close>

text \<open>
  The table of runs as an abstract machine, \<open>run_move\<close>, and the proof that every operation of the
  scheduler refines it; the invariants of the machine give the bound on concurrent runs, the
  uniqueness of a planned run and the finality of an ended one.  Beside it, the arithmetic of the
  next run, the rounds of \<^verbatim>\<open>claim_due\<close>, recovery and the wait between rounds.
\<close>

subsection \<open>Intervals and the next run\<close>

lemma unit_seconds_pos: "unit_seconds s = Some k \<Longrightarrow> 0 < k"
  by (cases s rule: unit_seconds.cases) (auto split: if_splits)

lemma interval_seconds_pos: "interval_seconds expression = Ok n \<Longrightarrow> 0 < n"
  by (auto simp: interval_seconds_def Let_def split: option.splits if_splits dest!: unit_seconds_pos)

lemma plus_seconds_Ok [simp]: "plus_seconds t n = Ok r \<longleftrightarrow> r = t + seconds n \<and> r \<le> max_instant"
  by (auto simp: plus_seconds_def Let_def)

lemma seconds_pos [simp]: "0 < seconds n \<longleftrightarrow> 0 < n"
  by (simp add: seconds_def)

lemma seconds_mult: "seconds (n * k) = seconds n * k"
  by (simp add: seconds_def)

lemma takeWhile_digits: "takeWhile is_digit (dec n @ s) = dec n @ takeWhile is_digit s"
  and dropWhile_digits: "dropWhile is_digit (dec n @ s) = dropWhile is_digit s"
  using dec_digits [of n] by (simp_all add: takeWhile_append dropWhile_append)

lemma digit_not_space: "is_digit c \<Longrightarrow> \<not> is_space c"
  by (auto simp: is_digit_def is_space_def Let_def)

lemma lower_digit: "is_digit c \<Longrightarrow> lower_char c = c"
  by (auto simp: is_digit_def lower_char_def Let_def)

lemma casefold_dec [simp]: "casefold (dec n) = dec n"
  using dec_digits [of n] by (simp add: map_idI lower_digit)

lemma strip_edges: "s \<noteq> [] \<Longrightarrow> \<not> is_space (hd s) \<Longrightarrow> \<not> is_space (last s) \<Longrightarrow> strip s = s"
proof -
  assume s: "s \<noteq> []" "\<not> is_space (hd s)" "\<not> is_space (last s)"
  then have "dropWhile is_space s = s" by (cases s) auto
  moreover from s have "dropWhile is_space (rev s) = rev s" by (cases "rev s") (auto simp: hd_rev [symmetric])
  ultimately show ?thesis by (simp add: strip_def)
qed

lemma interval_round_trip:
  assumes "0 < n" and "unit_seconds [u] = Some k"
  shows "interval_seconds (''every '' @ dec n @ [u]) = Ok (int n * k)"
proof -
  have u: "u \<in> {CHR ''s'', CHR ''m'', CHR ''h'', CHR ''d''}"
    using assms(2) by (auto split: if_splits)
  then have letter: "\<not> is_space u" "\<not> is_digit u" "lower_char u = u"
    by (auto simp: is_space_def is_digit_def lower_char_def Let_def)
  have "strip (''every '' @ dec n @ [u]) = ''every '' @ dec n @ [u]"
    by (rule strip_edges) (use letter in \<open>simp_all add: is_space_def Let_def\<close>)
  moreover have "casefold (''every '' @ dec n @ [u]) = ''every '' @ dec n @ [u]"
    using letter by (simp add: lower_char_def)
  moreover have "after_interval_prefix (''every '' @ dec n @ [u]) = Some (dec n @ [u])"
  proof -
    obtain c cs where c: "dec n = c # cs" by (cases "dec n") simp_all
    then have "\<not> is_space c" using dec_digits [of n] digit_not_space by simp
    then show ?thesis
      by (simp add: after_interval_prefix_def starts_with_def c) (simp add: is_space_def Let_def)
  qed
  ultimately show ?thesis
    using letter assms
    by (simp only: interval_seconds_def Let_def option.case takeWhile_digits dropWhile_digits)
      (simp add: parse_digits_dec)
qed

text \<open>Where the next run is planned: strictly later than now unless the policy is to catch up, on
  the grid of the schedule for \<^verbatim>\<open>skip\<close>, and then the first grid point after now.\<close>

lemma jump_over:
  assumes "0 < (s::int)" and "c \<le> t"
  shows "t < c + s * ((t - c) div s + 1)" and "c + s * ((t - c) div s + 1) \<le> t + s"
    and "0 \<le> (t - c) div s"
proof -
  let ?q = "(t - c) div s"
  have e: "s * ?q + (t - c) mod s = t - c" by simp
  have m: "0 \<le> (t - c) mod s" "(t - c) mod s < s" using assms by simp_all
  have d: "s * (?q + 1) = s * ?q + s" by (simp add: algebra_simps)
  show "t < c + s * (?q + 1)" "c + s * (?q + 1) \<le> t + s" unfolding d using e m by linarith+
  show "0 \<le> ?q" using assms by (simp add: pos_imp_zdiv_nonneg_iff)
qed

lemma advance_recurring:
  assumes "advance s planned current = Ok (Some z)" and "sc_kind s = Recurring"
  obtains n where "interval_seconds (sc_expression s) = Ok n" and "0 < n"
    and "instant z = (if sc_missed_policy s = Skip \<and> planned + seconds n \<le> current
        then planned + seconds n + seconds n * ((current - (planned + seconds n)) div seconds n + 1)
      else if sc_missed_policy s = Run_Once \<and> planned + seconds n \<le> current then current + seconds n
      else planned + seconds n)"
proof -
  from assms obtain n where "interval_seconds (sc_expression s) = Ok n"
    and "instant z = (if sc_missed_policy s = Skip \<and> planned + seconds n \<le> current
        then planned + seconds n + seconds n * ((current - (planned + seconds n)) div seconds n + 1)
      else if sc_missed_policy s = Run_Once \<and> planned + seconds n \<le> current then current + seconds n
      else planned + seconds n)"
    by (auto simp: advance_def and_then_eq_Ok seconds_mult split: if_splits)
  with that interval_seconds_pos show ?thesis by blast
qed

lemma advance_condition:
  assumes "advance s planned current = Ok (Some z)" and "sc_kind s = Condition"
  shows "current < instant z"
  using assms interval_seconds_pos by (auto simp: advance_def and_then_eq_Ok)

lemma advance_later:
  assumes adv: "advance s planned current = Ok (Some z)"
    and policy: "sc_kind s = Recurring \<longrightarrow> sc_missed_policy s \<noteq> Catch_Up"
  shows "current < instant z"
proof (cases "sc_kind s")
  case One_Shot
  with adv show ?thesis by (simp add: advance_def)
next
  case Condition
  with advance_condition [OF adv] show ?thesis by simp
next
  case Recurring
  from advance_recurring [OF adv Recurring] obtain n where n: "0 < n"
    "instant z = (if sc_missed_policy s = Skip \<and> planned + seconds n \<le> current
        then planned + seconds n + seconds n * ((current - (planned + seconds n)) div seconds n + 1)
      else if sc_missed_policy s = Run_Once \<and> planned + seconds n \<le> current then current + seconds n
      else planned + seconds n)" by metis
  have s: "0 < seconds n" using n(1) by simp
  show ?thesis
    using n(2) jump_over(1) [OF s, of "planned + seconds n" current] s policy Recurring
    by (cases "sc_missed_policy s") (auto split: if_splits)
qed

text \<open>For \<^verbatim>\<open>skip\<close> the next run is the first point of the schedule's grid after now.\<close>

lemma advance_skip_grid:
  assumes adv: "advance s planned current = Ok (Some z)" and kind: "sc_kind s = Recurring" "sc_missed_policy s = Skip"
    and due: "planned \<le> current"
  obtains n k where "interval_seconds (sc_expression s) = Ok n" and "0 < n" "0 < k"
    and "instant z = planned + seconds n * k" and "instant z - seconds n \<le> current"
proof -
  from advance_recurring [OF adv kind(1)] kind(2) obtain n where n: "interval_seconds (sc_expression s) = Ok n" "0 < n"
    "instant z = (if planned + seconds n \<le> current
        then planned + seconds n + seconds n * ((current - (planned + seconds n)) div seconds n + 1)
      else planned + seconds n)" by (metis (full_types) missed_policy.distinct(1))
  have s: "0 < seconds n" using n(2) by simp
  show ?thesis
  proof (cases "planned + seconds n \<le> current")
    case True
    let ?k = "(current - (planned + seconds n)) div seconds n + 2"
    have "instant z = planned + seconds n * ?k" using n(3) True by (simp add: algebra_simps)
    moreover have "0 < ?k" using jump_over(3) [OF s True] by simp
    ultimately show ?thesis
      using that [OF n(1,2), of ?k] jump_over(2) [OF s True] n(3) True by simp
  next
    case False
    with that [OF n(1,2), of 1] n(3) due show ?thesis by simp
  qed
qed

subsection \<open>The life of the runs, abstractly\<close>

definition run_ended :: "schedule_run_state \<Rightarrow> bool" where
  "run_ended s = (s \<in> {R_Succeeded, R_Failed, R_Skipped, R_Cancelled})"

abbreviation run_slot :: "schedule_run_row \<Rightarrow> ident \<times> zstamp" where
  "run_slot r \<equiv> (sr_schedule r, sr_planned_for r)"

text \<open>What the scheduler may do to the table of runs: add a claimed run while fewer than \<open>n\<close> are
  active, add a skipped one, start a claimed run, end a running one.\<close>

inductive run_move :: "int \<Rightarrow> schedule_run_row list \<Rightarrow> schedule_run_row list \<Rightarrow> bool" for n where
  add: "sr_id r \<notin> sr_id ` set t \<Longrightarrow> run_slot r \<notin> run_slot ` set t \<Longrightarrow>
     sr_state r = R_Skipped \<or> sr_state r = R_Claimed \<and> int (count_where run_active t) < n \<Longrightarrow>
     run_move n t (t @ [r])"
| start: "(\<And>r. P r \<Longrightarrow> sr_state r = R_Claimed) \<Longrightarrow> (\<And>r. sr_state (f r) = R_Running) \<Longrightarrow>
     (\<And>r. sr_id (f r) = sr_id r) \<Longrightarrow> (\<And>r. run_slot (f r) = run_slot r) \<Longrightarrow> run_move n t (update_where P f t)"
| settle: "(\<And>r. P r \<Longrightarrow> sr_state r = R_Running) \<Longrightarrow> (\<And>r. run_ended (sr_state (f r))) \<Longrightarrow>
     (\<And>r. sr_id (f r) = sr_id r) \<Longrightarrow> (\<And>r. run_slot (f r) = run_slot r) \<Longrightarrow> run_move n t (update_where P f t)"

inductive_cases run_move_elim: "run_move n t t'"

definition reach :: "int \<Rightarrow> schedule_run_row list \<Rightarrow> db \<Rightarrow> bool" where
  "reach n t d = (run_move n)\<^sup>*\<^sup>* t (schedule_runs d)"

text \<open>Invariants of the abstract machine\<close>

definition runs_unique :: "schedule_run_row list \<Rightarrow> bool" where
  "runs_unique t = (keys_distinct sr_id t \<and> keys_distinct run_slot t)"

lemma run_move_unique: "run_move n t t' \<Longrightarrow> runs_unique t \<Longrightarrow> runs_unique t'"
  by (induction rule: run_move.induct) (auto simp: runs_unique_def map_update_where)

lemma run_move_active:
  "run_move n t t' \<Longrightarrow> int (count_where run_active t) \<le> n \<Longrightarrow> int (count_where run_active t') \<le> n"
proof (induction rule: run_move.induct)
  case (add r t)
  then have "run_active r \<Longrightarrow> int (count_where run_active t) < n" by (auto simp: run_active_def)
  with add.prems show ?case by auto
next
  case (start P f t)
  have "count_where run_active (update_where P f t) \<le> count_where run_active t"
    by (rule count_where_update_le) (use start.hyps in \<open>auto simp: run_active_def\<close>)
  with start.prems show ?case by simp
next
  case (settle P f t)
  have "count_where run_active (update_where P f t) \<le> count_where run_active t"
    by (rule count_where_update_le) (use settle.hyps in \<open>auto simp: run_active_def\<close>)
  with settle.prems show ?case by simp
qed

lemma run_move_ended:
  assumes "run_move n t t'" and "select_one sr_id rid t = Some r" and "run_ended (sr_state r)"
  shows "select_one sr_id rid t' = Some r"
  using assms
proof (induction rule: run_move.induct)
  case (add r' t)
  then show ?case
    using select_one_SomeD [OF add.prems(1)] by (auto simp: select_one_append_new image_iff)
next
  case (start P f t)
  then have "\<not> P r" by (auto simp: run_ended_def)
  with start show ?case by (simp add: select_one_update_where)
next
  case (settle P f t)
  then have "\<not> P r" by (auto simp: run_ended_def)
  with settle show ?case by (simp add: select_one_update_where)
qed

lemma reach_invariants:
  assumes "reach n t d"
  shows "runs_unique t \<Longrightarrow> runs_unique (schedule_runs d)"
    and "int (count_where run_active t) \<le> n \<Longrightarrow> int (active_runs d) \<le> n"
    and "select_one sr_id rid t = Some r \<Longrightarrow> run_ended (sr_state r) \<Longrightarrow> find_schedule_run d rid = Some r"
  using assms unfolding reach_def active_runs_def find_schedule_run_def
  by (induction rule: rtranclp_induct) (auto intro: run_move_unique run_move_active run_move_ended)

subsection \<open>Every operation refines the abstract machine\<close>

lemma reach_refl: "reach n (schedule_runs d) d"
  by (simp add: reach_def)

lemma reach_same: "schedule_runs d' = schedule_runs d \<Longrightarrow> reach n t d' = reach n t d"
  by (simp add: reach_def)

lemma reach_trans: "reach n t d \<Longrightarrow> reach n (schedule_runs d) d' \<Longrightarrow> reach n t d'"
  by (simp add: reach_def)

lemma reach_move: "reach n t d \<Longrightarrow> run_move n (schedule_runs d) (schedule_runs d') \<Longrightarrow> reach n t d'"
  by (simp add: reach_def)

lemma reach_leases [simp]: "reach n t (d\<lparr>resource_leases := l\<rparr>) = reach n t d"
  and reach_schedules [simp]: "reach n t (update_schedules P f d) = reach n t d"
  and reach_deliveries [simp]: "reach n t (update_deliveries P' g d) = reach n t d"
  and reach_drop [simp]: "reach n t (drop_lease rt k w d) = reach n t d"
  by (simp_all add: reach_def update_schedules_def update_deliveries_def drop_lease_def)

lemma reach_claim: "reach n t d \<Longrightarrow> claim_in_transaction e res ow lease metadata d = (b, d') \<Longrightarrow> reach n t d'"
  using claim_frame [of e res ow lease metadata d d'] by (metis reach_leases snd_conv)

lemma ok_post_reach_claim:
  "reach n t d \<Longrightarrow> (\<And>b d1. reach n t d1 \<Longrightarrow> claim_in_transaction e res ow lease metadata d = (b, d1) \<Longrightarrow> ok_post (f b d1) Q) \<Longrightarrow>
     ok_post (case claim_in_transaction e res ow lease metadata d of (b, d1) \<Rightarrow> f b d1) Q"
  by (cases "claim_in_transaction e res ow lease metadata d") (auto dest: reach_claim)

lemma reach_and_then:
  "reach n t d \<Longrightarrow> ok_post r (reach n t) \<Longrightarrow> (\<And>x. reach n t x \<Longrightarrow> ok_post (f x) R) \<Longrightarrow> ok_post (and_then r f) R"
  by (rule ok_post_and_then)

lemma update_task_row_runs: "update_task_row tid f d = Ok d' \<Longrightarrow> schedule_runs d' = schedule_runs d"
  by (auto simp: update_task_row_def tasks_conversation_propagate_def and_then_eq_Ok split: option.splits)

lemma reach_task_row [post]: "reach n t d \<Longrightarrow> ok_post (update_task_row tid f d) (reach n t)"
  by (auto simp: ok_post_def dest!: update_task_row_runs reach_same split: sum.split)

lemma insert_schedule_reach [post]: "reach n t d \<Longrightarrow> ok_post (insert_schedule r d) (reach n t)"
  by (auto simp: ok_post_def insert_schedule_def reach_def split: sum.split)

lemma append_event_reach [simp]:
  "reach n t (snd (append_event stamp uuid tid etype message role payload visibility d)) = reach n t d"
  by (rule reach_same) (auto simp: append_event_def transact_def raise_if_def and_then_def
      insert_task_event_row_def admit_def Let_def split: sum.splits option.splits)

lemma release_reach [simp]: "reach n t (snd (release e res ow d)) = reach n t d"
  by (auto simp: release_def Let_def split: option.split)

lemma claim_reach [simp]: "reach n t d \<Longrightarrow> reach n t (snd (claim e res ow lease metadata d))"
  by (metis claim_def prod.collapse reach_claim)

lemma reach_start:
  assumes "reach n t d" and "\<And>r. P r \<Longrightarrow> sr_state r = R_Claimed" and "\<And>r. sr_state (f r) = R_Running"
    and "\<And>r. sr_id (f r) = sr_id r" and "\<And>r. run_slot (f r) = run_slot r"
  shows "ok_post (update_schedule_runs P f d) (reach n t)"
  using assms(1) run_move.start [of P f n "schedule_runs d", OF assms(2-5)]
  by (auto simp: ok_post_def update_schedule_runs_def and_then_eq_Ok update_rows_eq_Ok
      intro: reach_move split: sum.split)

lemma reach_settle:
  assumes "reach n t d" and "\<And>r. P r \<Longrightarrow> sr_state r = R_Running" and "\<And>r. run_ended (sr_state (f r))"
    and "\<And>r. sr_id (f r) = sr_id r" and "\<And>r. run_slot (f r) = run_slot r"
  shows "ok_post (update_schedule_runs P f d) (reach n t)"
  using assms(1) run_move.settle [of P f n "schedule_runs d", OF assms(2-5)]
  by (auto simp: ok_post_def update_schedule_runs_def and_then_eq_Ok update_rows_eq_Ok
      intro: reach_move split: sum.split)

lemma reach_transact:
  "reach n t d \<Longrightarrow> ok_post (body d) (\<lambda>(x, d'). reach n t d') \<Longrightarrow> reach n t (snd (transact body d))"
  by (rule transact_post [of "reach n t"])

lemmas reach_next = and_next_keeps [of "reach n t" for n t]

lemma reach_if:
  "(b \<Longrightarrow> reach n t (snd x)) \<Longrightarrow> (\<not> b \<Longrightarrow> reach n t (snd y)) \<Longrightarrow> reach n t (snd (if b then x else y))"
  by simp

lemma reach_option:
  "(x = None \<Longrightarrow> reach n t (snd a)) \<Longrightarrow> (\<And>y. x = Some y \<Longrightarrow> reach n t (snd (f y))) \<Longrightarrow>
     reach n t (snd (case x of None \<Rightarrow> a | Some y \<Rightarrow> f y))"
  by (cases x) simp_all

lemmas reach_rules = reach_next reach_transact reach_if reach_option ok_post_reach_claim reach_and_then

lemma reach_create: "reach n t d \<Longrightarrow> reach n t (snd (create_schedule e ids parse_iso current tid ns d))"
  unfolding create_schedule_def Let_def
  by (assumption | rule reach_rules post | (simp; fail))+

lemma reach_edit: "reach n t d \<Longrightarrow> reach n t (snd (edit_schedule parse_iso current x sid d))"
  unfolding edit_schedule_def Let_def
  by (assumption | rule reach_rules post | (simp; fail))+

lemma reach_set_enabled: "reach n t d \<Longrightarrow> reach n t (snd (set_enabled e sid b d))"
  unfolding set_enabled_def Let_def
  by (assumption | rule reach_rules post | (simp; fail))+

lemma reach_remove: "reach n t d \<Longrightarrow> reach n t (snd (remove_schedule e sid d))"
  unfolding remove_schedule_def Let_def
  by (assumption | rule reach_rules post | (simp; fail))+

lemma reach_set_next: "reach n t d \<Longrightarrow> reach n t (snd (set_next e s v d))"
  unfolding set_next_def Let_def
  by (assumption | rule reach_rules post | (simp; fail))+

lemma reach_condition_due: "reach n t d \<Longrightarrow> reach n t (snd (condition_due e sj s d))"
  unfolding condition_due_def
  by (assumption | rule reach_rules | (simp; fail))+

lemma reach_condition_step: "reach n t d \<Longrightarrow> reach n t (snd (condition_step e sj current uuid s first d))"
proof -
  assume start: "reach n t d"
  obtain r d1 where due: "condition_due e sj s d = (r, d1)" by fastforce
  with reach_condition_due [OF start, of e sj s] have d1: "reach n t d1" by simp
  show ?thesis
  proof (cases r)
    case (Inl err)
    show ?thesis
      unfolding condition_step_def due Inl prod.case sum.case
      by (intro reach_if reach_next reach_set_next) (simp_all add: start d1)
  next
    case (Inr due)
    show ?thesis
      unfolding condition_step_def \<open>condition_due e sj s d = (r, d1)\<close> Inr prod.case sum.case
      by (intro reach_if reach_next reach_set_next) (simp_all add: start d1)
  qed
qed

lemma insert_run_reach:
  assumes "reach n t d" and "insert_schedule_run r d = Ok d'"
    and "sr_state r = R_Skipped \<or> sr_state r = R_Claimed \<and> int (active_runs d) < n"
  shows "reach n t d'"
proof (rule reach_move [OF assms(1)])
  show "run_move n (schedule_runs d) (schedule_runs d')"
    using assms(2,3) run_move.add [of r "schedule_runs d" n]
    by (auto simp: insert_schedule_run_def active_runs_def)
qed

lemma ok_post_insert_run:
  assumes "reach n t d" and "sj_max sj \<le> n" and "\<not> sj_max sj \<le> int (active_runs d)"
    and "\<And>d'. reach n t d' \<Longrightarrow> ok_post (g d') Q" and "\<And>err. ok_post (h err) Q"
  shows "ok_post (case insert_schedule_run (due_run s row planned current rid d) d of Inl err \<Rightarrow> h err | Inr d' \<Rightarrow> g d') Q"
proof (cases "insert_schedule_run (due_run s row planned current rid d) d")
  case (Inr d')
  have "sr_state (due_run s row planned current rid d) \<in> {R_Skipped, R_Claimed}"
    by (simp add: due_run_def Let_def)
  with insert_run_reach [OF assms(1) Inr] assms(2,3) have "reach n t d'" by auto
  with Inr assms(4) show ?thesis by simp
qed (use assms(5) in simp)

lemma reach_claim_slot:
  assumes "reach n t d" and "sj_max sj \<le> n"
  shows "ok_post (claim_slot e sj current s index planned rid d) (\<lambda>(x, d'). reach n t d')"
proof -
  have claim: "ok_post (if sr_state r \<noteq> R_Claimed then Ok d1 else
      case claim_in_transaction e (Schedule_Run, rid) (sj_owner sj) (sj_lease sj) metadata d1 of
        (claimed, d2) \<Rightarrow> raise_if (\<not> claimed) err (Ok d2)) (reach n t)" if "reach n t d1" for r d1 metadata err
    using that by (auto simp: raise_if_def dest: reach_claim split: prod.split)
  have tail: "ok_post (and_then (if sr_state r \<noteq> R_Claimed then Ok d1 else
      case claim_in_transaction e (Schedule_Run, rid) (sj_owner sj) (sj_lease sj) metadata d1 of
        (claimed, d2) \<Rightarrow> raise_if (\<not> claimed) err (Ok d2))
      (\<lambda>d2. and_then (advance row planned current) (\<lambda>v. and_then (update_task_row tid (f v)
         (update_schedules P (g v) d2)) (\<lambda>d3. Ok (out, d3))))) (\<lambda>(x, d'). reach n t d')"
    if "reach n t d1" for r d1 metadata err row tid f P g and out :: slot_outcome
  proof (rule ok_post_and_then [OF claim [OF that]])
    fix d2 assume "reach n t d2"
    then show "ok_post (and_then (advance row planned current) (\<lambda>v. and_then (update_task_row tid (f v)
         (update_schedules P (g v) d2)) (\<lambda>d3. Ok (out, d3)))) (\<lambda>(x, d'). reach n t d')"
      by (cases "advance row planned current") (auto intro!: ok_post_and_then [where Q = "reach n t"] reach_task_row)
  qed
  show ?thesis
    unfolding claim_slot_def Let_def
    by (rule post | (simp add: assms(1); fail))+
      (rule ok_post_insert_run [OF assms], blast, rule tail, assumption, simp add: assms(1))
qed

lemma reach_claim_slots:
  "reach n t d \<Longrightarrow> sj_max sj \<le> n \<Longrightarrow>
     reach n t (snd (claim_slots e sj current rids uuids s index slots claimed d))"
proof (induction slots arbitrary: index claimed d)
  case (Cons planned slots)
  note IH = Cons.IH [OF _ Cons.prems(2)]
  show ?case
    unfolding claim_slots.simps
  proof (rule reach_if, simp add: Cons.prems, rule reach_next)
    show "reach n t (snd (transact (claim_slot e sj current s index planned (rids (sc_id s) index)) d))"
      by (rule reach_transact [OF Cons.prems(1)], rule reach_claim_slot [OF Cons.prems])
  next
    fix outcome d1 assume "reach n t d1"
    then show "reach n t (snd (case outcome of
        Slot_Passed \<Rightarrow> claim_slots e sj current rids uuids s (Suc index) slots claimed d1
      | Slot_Full \<Rightarrow> (Inr claimed, d1)
      | Slot_Claimed \<Rightarrow> and_next (load_run (rids (sc_id s) index) d1, d1) (\<lambda>run d1.
          claim_slots e sj current rids uuids s (Suc index) slots (claimed @ [run]) d1)
      | Slot_Skipped \<Rightarrow> and_next (append_event (now e) (uuids (sc_id s) index) (sc_task s) ''status''
            ''Missed scheduled run skipped'' None
            [(''schedule_id'', JStr (sc_id s)), (''planned_for'', JInt planned)] ''normal'' d1)
          (\<lambda>_ d2. claim_slots e sj current rids uuids s (Suc index) slots claimed d2)))"
      using IH by (cases outcome) (auto intro!: reach_next)
  qed
qed simp

lemma reach_claim_schedules:
  "reach n t d \<Longrightarrow> sj_max sj \<le> n \<Longrightarrow>
     reach n t (snd (claim_schedules e sj current rids uuids ss claimed d))"
proof (induction ss arbitrary: claimed d)
  case (Cons s ss)
  note IH = Cons.IH [OF _ Cons.prems(2)]
  show ?case
    unfolding claim_schedules.simps
    by (intro reach_if reach_option reach_next reach_condition_step)
      (use Cons.prems IH reach_claim_slots in \<open>auto intro!: reach_next\<close>)
qed simp

lemma reach_claim_due:
  "reach n t d \<Longrightarrow> sj_max sj \<le> n \<Longrightarrow> reach n t (snd (claim_due e sj current rids uuids d))"
  by (simp add: claim_due_def reach_claim_schedules)

lemma reach_recover_run:
  "reach n t d \<Longrightarrow> ok_post (recover_run e sj row d) (\<lambda>(b, d'). reach n t d')"
  unfolding recover_run_def Let_def
  by (assumption | rule reach_rules reach_settle post | (simp add: run_ended_def; fail))+

lemma reach_recover: "reach n t d \<Longrightarrow> reach n t (snd (recover e sj d))"
proof -
  have "reach n t d \<Longrightarrow> ok_post (recover_runs e sj rows k d) (\<lambda>(b, d'). reach n t d')" for rows k d
  proof (induction rows arbitrary: k d)
    case (Cons row rows)
    show ?case
      unfolding recover_runs.simps
      by (rule ok_post_and_then [OF reach_recover_run [OF Cons.prems]]) (use Cons.IH in auto)
  qed simp
  then show "reach n t d \<Longrightarrow> reach n t (snd (recover e sj d))"
    unfolding recover_def by (intro reach_transact)
qed

lemma reach_start_run: "reach n t d \<Longrightarrow> reach n t (snd (start_run e sj run d))"
  unfolding start_run_def Let_def
  by (assumption | rule reach_rules reach_start post | (simp; fail))+

lemma reach_finish_run:
  "reach n t d \<Longrightarrow> run_ended state \<Longrightarrow> reach n t (snd (finish_run e sj uuid rid state result error checkpoint d))"
  unfolding finish_run_def Let_def
  by (assumption | rule reach_rules reach_settle post | (simp; fail))+

lemma reach_queue_delivery: "reach n t d \<Longrightarrow> reach n t (snd (queue_delivery e did rid d))"
proof -
  have ins: "insert_delivery r d1 = Ok d2 \<Longrightarrow> reach n t d1 \<Longrightarrow> reach n t d2" for r d1 d2
    by (auto simp: insert_delivery_def reach_def)
  show "reach n t d \<Longrightarrow> reach n t (snd (queue_delivery e did rid d))"
    unfolding queue_delivery_def
    by (intro reach_next reach_transact) (auto simp: ok_post_def dest: ins split: sum.split)
qed

datatype sched_op =
    SO_Create env "nat \<Rightarrow> ident" "string \<Rightarrow> time result" time ident new_schedule
  | SO_Edit "string \<Rightarrow> time result" time schedule_edit ident
  | SO_Enable env ident bool
  | SO_Remove env ident
  | SO_Claim_Due env scheduler time "ident \<Rightarrow> nat \<Rightarrow> ident" "ident \<Rightarrow> nat \<Rightarrow> ident"
  | SO_Recover env scheduler
  | SO_Start env scheduler schedule_run_row
  | SO_Settle env scheduler ident ident "dict result" "ident option"
  | SO_Queue env ident ident

fun sched_step :: "sched_op \<Rightarrow> db \<Rightarrow> db" where
  "sched_step (SO_Create e ids parse_iso current tid ns) d = snd (create_schedule e ids parse_iso current tid ns d)"
| "sched_step (SO_Edit parse_iso current x sid) d = snd (edit_schedule parse_iso current x sid d)"
| "sched_step (SO_Enable e sid b) d = snd (set_enabled e sid b d)"
| "sched_step (SO_Remove e sid) d = snd (remove_schedule e sid d)"
| "sched_step (SO_Claim_Due e sj current rids uuids) d = snd (claim_due e sj current rids uuids d)"
| "sched_step (SO_Recover e sj) d = snd (recover e sj d)"
| "sched_step (SO_Start e sj run) d = snd (start_run e sj run d)"
| "sched_step (SO_Settle e sj uuid rid outcome checkpoint) d =
     snd (case outcome of Inl err \<Rightarrow> finish_run e sj uuid rid R_Failed [] (error_text err) checkpoint d
       | Inr result \<Rightarrow> finish_run e sj uuid rid R_Succeeded result [] checkpoint d)"
| "sched_step (SO_Queue e did rid) d = snd (queue_delivery e did rid d)"

fun within_limit :: "int \<Rightarrow> sched_op \<Rightarrow> bool" where
  "within_limit n (SO_Claim_Due e sj current rids uuids) = (sj_max sj \<le> n)"
| "within_limit n op = True"

lemma sched_step_reach:
  assumes "within_limit n op"
  shows "reach n (schedule_runs d) (sched_step op d)"
  using assms reach_refl [of n d]
  by (cases op) (auto simp: run_ended_def reach_create reach_edit reach_set_enabled reach_remove reach_claim_due
      reach_recover reach_start_run reach_finish_run reach_queue_delivery split: sum.split)

lemma sched_run_reach:
  "\<forall>op \<in> set ops. within_limit n op \<Longrightarrow> reach n (schedule_runs d) (fold sched_step ops d)"
proof (induction ops arbitrary: d)
  case Nil
  then show ?case by (simp add: reach_refl)
next
  case (Cons op ops)
  then have "reach n (schedule_runs d) (sched_step op d)"
    and "reach n (schedule_runs (sched_step op d)) (fold sched_step ops (sched_step op d))"
    by (simp_all add: sched_step_reach)
  then show ?case by (simp add: reach_trans)
qed

interpretation sched_runs: lifecycle sched_step "\<lambda>_. True" find_schedule_run "\<lambda>r. run_ended (sr_state r)"
proof
  fix d rid r op assume "find_schedule_run d rid = Some r" "run_ended (sr_state r)"
  moreover have "reach n (schedule_runs d) (sched_step op d)" if "within_limit n op" for n
    using sched_step_reach [OF that] .
  moreover have "\<exists>n. within_limit n op" by (cases op) auto
  ultimately show "find_schedule_run (sched_step op d) rid = Some r"
    using reach_invariants(3) by (metis find_schedule_run_def)
qed simp

subsection \<open>What one round claims\<close>

lemma claim_slots_length:
  "claim_slots e sj current rids uuids s index slots claimed d = (Ok claimed', d') \<Longrightarrow>
     int (length claimed) \<le> sj_max sj \<Longrightarrow> int (length claimed') \<le> sj_max sj"
proof (induction slots arbitrary: index claimed d)
  case (Cons planned slots)
  show ?case
  proof (cases "sj_max sj \<le> int (length claimed)")
    case True
    with Cons.prems show ?thesis by simp
  next
    case False
    obtain r d1 where slot: "transact (claim_slot e sj current s index planned (rids (sc_id s) index)) d = (r, d1)"
      by fastforce
    from Cons.prems False slot obtain outcome where r: "r = Ok outcome" by (cases r) auto
    from Cons.prems(1) False slot r Cons.IH show ?thesis
      by (cases outcome) (auto simp: and_next_def split: sum.splits)
  qed
qed simp

lemma claim_schedules_length:
  "claim_schedules e sj current rids uuids ss claimed d = (Ok claimed', d') \<Longrightarrow>
     int (length claimed) \<le> sj_max sj \<Longrightarrow> int (length claimed') \<le> sj_max sj"
proof (induction ss arbitrary: claimed d)
  case (Cons s ss)
  show ?case
  proof (cases "sj_max sj \<le> int (length claimed) \<or> (case sc_next_run_at s of None \<Rightarrow> True | Some z \<Rightarrow> current < instant z)")
    case True
    with Cons.prems Cons.IH show ?thesis by (auto split: if_splits option.splits)
  next
    case False
    then obtain z where z: "sc_next_run_at s = Some z" "\<not> current < instant z" "\<not> sj_max sj \<le> int (length claimed)"
      by (cases "sc_next_run_at s") auto
    from Cons.prems(1) z obtain go d1 where
      "condition_step e sj current (uuids (sc_id s) 0) s (instant z) d = (Ok go, d1)"
      and body: "(if \<not> go then claim_schedules e sj current rids uuids ss claimed d1 else
             and_next (planned_slots s (instant z) current, d1)
             (\<lambda>slots d1. and_next (claim_slots e sj current rids uuids s 0 slots claimed d1)
             (\<lambda>claimed' d2. claim_schedules e sj current rids uuids ss claimed' d2))) = (Ok claimed', d')"
      by (auto simp: and_next_eq_Ok)
    show ?thesis
    proof (cases go)
      case True
      with body obtain slots cl d2 where "claim_slots e sj current rids uuids s 0 slots claimed d1 = (Ok cl, d2)"
        and "claim_schedules e sj current rids uuids ss cl d2 = (Ok claimed', d')"
        by (auto simp: and_next_eq_Ok)
      with claim_slots_length Cons.prems(2) Cons.IH show ?thesis by blast
    next
      case False
      with body Cons show ?thesis by simp
    qed
  qed
qed simp

lemma claim_due_length:
  "claim_due e sj current rids uuids d = (Ok l, d') \<Longrightarrow> 0 \<le> sj_max sj \<Longrightarrow> int (length l) \<le> sj_max sj"
  using claim_schedules_length [of e sj current rids uuids _ "[]" d l d'] by (simp add: claim_due_def)

subsection \<open>A schedule that cannot be advanced\<close>

lemma claim_slot_poisoned:
  assumes "find_schedule d (sc_id s) = Some s" and "sc_removed_at s = None" "sc_enabled s"
    and "int (active_runs d) < sj_max sj" and "int (keyed_runs d (sc_concurrency_key s)) < sc_max_concurrency s"
    and "\<forall>r \<in> set (schedule_runs d). sr_id r \<noteq> rid \<and> sr_schedule r \<noteq> sc_id s"
    and ids: "\<forall>r \<in> set (schedule_runs d). fst (sr_idempotency_key r) = sr_schedule r"
    and "sc_kind s = Recurring" and bad: "interval_seconds (sc_expression s) = Err err"
  shows "\<exists>err. claim_slot e sj current s 0 planned rid d = Err err"
proof -
  let ?r = "due_run s s planned current rid d"
  have stuck: "\<exists>err. and_then r (\<lambda>d2. and_then (advance s planned current) (g d2)) = Err err" for r :: "db result" and g
    using assms(8) bad by (cases r) (simp_all add: advance_def)
  have notuniq: "insert_schedule_run ?r d \<noteq> Err unique_violation"
  proof -
    have cols: "sr_id ?r = rid" "sr_idempotency_key ?r = (sc_id s, Z planned, sc_revision s)"
      "sr_schedule ?r = sc_id s" by (simp_all add: due_run_def Let_def)
    have "rid \<notin> sr_id ` set (schedule_runs d)" "sc_id s \<notin> sr_schedule ` set (schedule_runs d)"
      using assms(6) by auto
    moreover have "(sc_id s, Z planned, sc_revision s) \<notin> sr_idempotency_key ` set (schedule_runs d)"
      using assms(6) ids by (metis fst_conv imageE)
    ultimately have "fresh sr_id (sr_id ?r) (schedule_runs d) \<and>
        fresh sr_idempotency_key (sr_idempotency_key ?r) (schedule_runs d) \<and>
        fresh (\<lambda>x. (sr_schedule x, sr_planned_for x)) (sr_schedule ?r, sr_planned_for ?r) (schedule_runs d)"
      unfolding cols by auto
    then show ?thesis
      by (simp add: insert_schedule_run_def admit_def raise_if_def unique_violation_def
          schedule_runs_lineage_insert_def abort_unless_def split: option.splits)
  qed
  from assms(1-5) have "claim_slot e sj current s 0 planned rid d = (case insert_schedule_run ?r d of
            Inl err \<Rightarrow> if err = unique_violation then Ok (Slot_Passed, d) else Err err
          | Inr d1 \<Rightarrow>
              and_then (if sr_state ?r \<noteq> R_Claimed then Ok d1 else
                let (claimed, d2) = claim_in_transaction e (Schedule_Run, rid) (sj_owner sj)
                      (sj_lease sj) (run_metadata (sc_id s)) d1 in
                raise_if (\<not> claimed) (Runtime_Error ''new schedule run could not acquire ownership'') (Ok d2))
              (\<lambda>d2. and_then (advance s planned current)
              (\<lambda>next. and_then (update_task_row (sc_task s)
                  (\<lambda>t. t\<lparr>tk_next_run_at := next, tk_schedule_enabled := next \<noteq> None, tk_updated_at := current\<rparr>)
                  (update_schedules (\<lambda>x. sc_id x = sc_id s)
                    (\<lambda>x. x\<lparr>sc_next_run_at := next, sc_enabled := next \<noteq> None, sc_updated_at := current\<rparr>) d2))
              (\<lambda>d3. Ok (if sr_state ?r = R_Claimed then Slot_Claimed else Slot_Skipped, d3)))))"
    by (simp add: claim_slot_def Let_def)
  moreover have "advance s planned current = Err err"
    using assms(8) bad by (simp add: advance_def)
  ultimately show ?thesis
    using notuniq stuck by (cases "insert_schedule_run ?r d") (auto simp del: split_paired_All)
qed

lemma claim_due_poisoned:
  assumes listed: "list_schedules (Some True) 100 d = s # ss" and due: "sc_next_run_at s = Some z" "instant z \<le> current"
    and found: "find_schedule d (sc_id s) = Some s" and state: "sc_removed_at s = None" "sc_enabled s"
    and free: "int (active_runs d) < sj_max sj" "int (keyed_runs d (sc_concurrency_key s)) < sc_max_concurrency s"
      "\<forall>r \<in> set (schedule_runs d). sr_id r \<noteq> rids (sc_id s) 0 \<and> sr_schedule r \<noteq> sc_id s"
      "\<forall>r \<in> set (schedule_runs d). fst (sr_idempotency_key r) = sr_schedule r"
    and kind: "sc_kind s = Recurring" and bad: "interval_seconds (sc_expression s) = Err err"
  shows "\<exists>err. claim_due e sj current rids uuids d = (Inl err, d)"
proof -
  obtain err' where "claim_slot e sj current s 0 (instant z) (rids (sc_id s) 0) d = Err err'"
    using claim_slot_poisoned [OF found state free kind bad] by blast
  moreover have "planned_slots s (instant z) current = Ok [instant z] \<or> (\<exists>err. planned_slots s (instant z) current = Err err)"
    using bad by (simp add: planned_slots_def)
  ultimately show ?thesis
    using listed due kind free(1) by (auto simp: claim_due_def condition_step_def)
qed

subsection \<open>A condition that rises while the scheduler is full\<close>

lemma condition_edge_consumed:
  assumes listed: "list_schedules (Some True) 100 d = [s]" and due: "sc_next_run_at s = Some z" "instant z \<le> current"
    and cond: "sc_kind s = Condition" "\<not> sc_condition_state s"
      "map_of (sj_conditions sj) (condition_name (sc_expression s)) = Some predicate" "predicate d = Ok True"
    and found: "find_schedule d (sc_id s) = Some s" and full: "sj_max sj \<le> int (active_runs d)" "0 < sj_max sj"
    and state: "sc_removed_at s = None" "sc_enabled s"
  shows "\<exists>d' s'. claim_due e sj current rids uuids d = (Ok [], d') \<and> schedule_runs d' = schedule_runs d \<and>
    find_schedule d' (sc_id s) = Some s' \<and> sc_condition_state s' \<and> sc_next_run_at s' = Some z \<and>
    (predicate d' = Ok True \<longrightarrow> fst (condition_due e2 sj s' d') = Ok False)"
proof -
  let ?f = "\<lambda>r :: schedule_row. r\<lparr>sc_condition_state := True, sc_updated_at := now e\<rparr>"
  let ?d = "update_schedules (\<lambda>r. sc_id r = sc_id s) ?f d"
  have go: "condition_step e sj current (uuids (sc_id s) 0) s (instant z) d = (Ok True, ?d)"
    using cond by (simp add: condition_step_def condition_due_def)
  have row: "find_schedule ?d (sc_id s) = Some (?f s)"
    using found by (simp add: find_schedule_def update_schedules_def select_one_update_where)
  have runs: "schedule_runs ?d = schedule_runs d" by (simp add: update_schedules_def)
  have "claim_slot e sj current s 0 (instant z) (rids (sc_id s) 0) ?d = Ok (Slot_Full, ?d)"
    using row state full(1) due by (simp add: claim_slot_def active_runs_def runs)
  with go listed due full(2) cond(1) have "claim_due e sj current rids uuids d = (Ok [], ?d)"
    by (simp add: claim_due_def planned_slots_def)
  with row runs cond due show ?thesis
    by (intro exI [of _ ?d] exI [of _ "?f s"]) (auto simp: condition_due_def)
qed

subsection \<open>Waiting for the next round\<close>

lemma fold_min_le: "fold min xs (x::int) \<le> x \<and> (\<forall>y \<in> set xs. fold min xs x \<le> y)"
proof (induction xs arbitrary: x)
  case (Cons a xs)
  from Cons [of "min a x"] show ?case by auto
qed simp

lemma next_wake_bounds: "0 \<le> maximum \<Longrightarrow> 0 \<le> next_wake current maximum d \<and> next_wake current maximum d \<le> maximum"
  by (auto simp: next_wake_def split: list.splits)

lemma next_wake_not_late:
  assumes "s \<in> set (list_schedules (Some True) 100 d)" and "sc_next_run_at s = Some z" and "current \<le> instant z"
  shows "current + next_wake current maximum d \<le> instant z"
proof -
  let ?l = "List.map_filter sc_next_run_at (list_schedules (Some True) 100 d)"
  have "z \<in> set ?l"
    using assms(1,2) by (force simp: List.map_filter_def)
  then obtain y ys where l: "?l = y # ys" by (cases ?l) auto
  have "fold min (map (\<lambda>z. instant z - current) ys) (instant y - current) \<le> instant z - current"
    using fold_min_le [of "map (\<lambda>z. instant z - current) ys" "instant y - current"] \<open>z \<in> set ?l\<close> l by auto
  then show ?thesis using assms(3) l by (auto simp: next_wake_def)
qed

subsection \<open>Recovery\<close>

definition lost_run :: "env \<Rightarrow> schedule_run_row \<Rightarrow> schedule_run_row" where
  "lost_run e r = r\<lparr>sr_state := R_Failed, sr_error := owner_lost_run, sr_finished_at := Some (now e)\<rparr>"

definition runs_recovered :: "env \<Rightarrow> db \<Rightarrow> db \<Rightarrow> bool" where
  "runs_recovered e d0 d = (\<forall>rid r. find_schedule_run d0 rid = Some r \<longrightarrow> find_schedule_run d rid = Some r \<or>
     sr_state r = R_Running \<and> find_schedule_run d rid = Some (lost_run e r))"

lemma runs_recovered_same:
  "schedule_runs d' = schedule_runs d \<Longrightarrow> runs_recovered e d0 d \<Longrightarrow> runs_recovered e d0 d'"
  by (simp add: runs_recovered_def find_schedule_run_def)

lemma runs_recovered_claim:
  "runs_recovered e d0 d \<Longrightarrow> claim_in_transaction e' res ow lease metadata d = (b, d') \<Longrightarrow> runs_recovered e d0 d'"
  using claim_frame [of e' res ow lease metadata d d']
  by (auto intro: runs_recovered_same) (metis db.select_convs(12) db.surjective db.update_convs(18) runs_recovered_same)

lemma update_schedule_runs_find:
  "update_schedule_runs P f d = Ok d' \<Longrightarrow> (\<And>r. sr_id (f r) = sr_id r) \<Longrightarrow>
     find_schedule_run d' rid = map_option (\<lambda>r. if P r then f r else r) (find_schedule_run d rid)"
  by (auto simp: update_schedule_runs_def and_then_eq_Ok update_rows_eq_Ok find_schedule_run_def select_one_update_where)

lemma recover_run_recovered:
  assumes "runs_recovered e d0 d" and "recover_run e sj row d = Ok (b, d')"
  shows "runs_recovered e d0 d'"
proof -
  let ?P = "\<lambda>r. sr_id r = sr_id row \<and> sr_state r = R_Running"
  obtain c d1 where cl: "claim_in_transaction e (Schedule_Run, sr_id row) (sj_owner sj) (sj_lease sj)
      (run_metadata (sr_schedule row)) d = (c, d1)" by fastforce
  have ok1: "runs_recovered e d0 d1" by (rule runs_recovered_claim [OF assms(1) cl])
  have upd: "runs_recovered e d0 d2" if "update_schedule_runs ?P (lost_run e) d1 = Ok d2" for d2
    unfolding runs_recovered_def
  proof (intro allI impI)
    fix rid r assume "find_schedule_run d0 rid = Some r"
    with ok1 have "find_schedule_run d1 rid = Some r \<or>
        sr_state r = R_Running \<and> find_schedule_run d1 rid = Some (lost_run e r)"
      by (simp add: runs_recovered_def)
    moreover have "find_schedule_run d2 rid = map_option (\<lambda>r. if ?P r then lost_run e r else r) (find_schedule_run d1 rid)"
      by (rule update_schedule_runs_find [OF that]) (simp add: lost_run_def)
    moreover have "\<not> ?P (lost_run e r)" by (simp add: lost_run_def)
    ultimately show "find_schedule_run d2 rid = Some r \<or> sr_state r = R_Running \<and> find_schedule_run d2 rid = Some (lost_run e r)"
      by auto
  qed
  have f: "lost_run e = (\<lambda>r. r\<lparr>sr_state := R_Failed, sr_error := owner_lost_run, sr_finished_at := Some (now e)\<rparr>)"
    by (rule ext) (simp add: lost_run_def)
  show ?thesis
    using assms(2) upd ok1
    by (auto simp: recover_run_def cl Let_def and_then_eq_Ok f [symmetric] split: if_splits
        dest!: update_task_row_runs intro: runs_recovered_same [rotated] simp: drop_lease_def)
qed

lemma recover_runs_recovered:
  "runs_recovered e d0 d \<Longrightarrow> recover_runs e sj rows n d = Ok (m, d') \<Longrightarrow> runs_recovered e d0 d'"
proof (induction rows arbitrary: n d)
  case (Cons row rows)
  then obtain b d1 where "recover_run e sj row d = Ok (b, d1)"
    and "recover_runs e sj rows (if b then Suc n else n) d1 = Ok (m, d')"
    by (auto simp: and_then_eq_Ok)
  with Cons recover_run_recovered show ?case by blast
qed simp

lemma recover_recovered: "runs_recovered e d (snd (recover e sj d))"
  unfolding recover_def
proof (rule transact_post [of "runs_recovered e d"])
  show start: "runs_recovered e d d" by (simp add: runs_recovered_def)
  show "ok_post (recover_runs e sj (filter (\<lambda>r. sr_state r = R_Running) (schedule_runs d)) 0 d)
      (\<lambda>(x, d'). runs_recovered e d d')"
    using recover_runs_recovered [OF start] by (auto simp: ok_post_def split: sum.split)
qed

text \<open>A run whose owner is alive is left to it.\<close>

lemma find_lease_drop:
  "leases_ok d \<Longrightarrow> (t, k) \<noteq> res \<Longrightarrow> find_lease (drop_lease t k w d) res = find_lease d res"
  by (auto simp: drop_lease_def find_lease_delete_where split: option.split dest: find_lease_SomeD)

lemma recover_run_live:
  assumes "leases_ok d" and "find_lease d (Schedule_Run, rid) = Some l" "find_schedule_run d rid = Some r"
    and "lease_owner l \<noteq> sj_owner sj" "\<not> reclaimable e l"
    and "recover_run e sj row d = Ok (b, d')"
  shows "leases_ok d' \<and> find_lease d' (Schedule_Run, rid) = Some l \<and> find_schedule_run d' rid = Some r"
proof -
  let ?res = "(Schedule_Run, sr_id row)"
  obtain c d1 where cl: "claim_in_transaction e ?res (sj_owner sj) (sj_lease sj)
      (run_metadata (sr_schedule row)) d = (c, d1)" by fastforce
  show ?thesis
  proof (cases c)
    case False
    with cl claim_false_unchanged [OF assms(1), of e ?res] assms show ?thesis
      by (auto simp: recover_run_def)
  next
    case True
    then have other: "sr_id row \<noteq> rid"
      using cl assms(2,4,5) by (auto simp: claim_in_transaction_def Let_def)
    have ok1: "leases_ok d1" using claim_leases_ok [OF assms(1)] cl by (metis snd_conv)
    have lease1: "find_lease d1 (Schedule_Run, rid) = Some l"
      using claim_granted(2) [OF assms(1), of e ?res _ _ _ d1 "(Schedule_Run, rid)"] cl True other assms(2) by auto
    have run1: "find_schedule_run d1 rid = Some r"
      using claim_frame [of e ?res "sj_owner sj" "sj_lease sj" "run_metadata (sr_schedule row)" d d1] cl assms(3)
      by (simp add: find_schedule_run_def) (metis db.select_convs(12) db.surjective db.update_convs(18))
    have upd: "find_schedule_run d2 rid = Some r \<and> resource_leases d2 = resource_leases d1"
      if "update_schedule_runs (\<lambda>r. sr_id r = sr_id row \<and> sr_state r = R_Running)
        (\<lambda>r. r\<lparr>sr_state := R_Failed, sr_error := owner_lost_run, sr_finished_at := Some (now e)\<rparr>) d1 = Ok d2" for d2
      using update_schedule_runs_find [OF that, of rid] that run1 other
      by (auto simp: update_schedule_runs_def and_then_eq_Ok find_schedule_run_def dest: select_one_SomeD)
    from assms(6) True obtain d2 where
      d2: "update_schedule_runs (\<lambda>r. sr_id r = sr_id row \<and> sr_state r = R_Running)
        (\<lambda>r. r\<lparr>sr_state := R_Failed, sr_error := owner_lost_run, sr_finished_at := Some (now e)\<rparr>) d1 = Ok d2"
      and rest: "d' = d2 \<or> (\<exists>d3 f. update_task_row (sr_task row) f d2 = Ok d3 \<and>
        d' = drop_lease Schedule_Run (sr_id row) (ow_token (sj_owner sj)) d3)"
      by (auto simp: recover_run_def cl Let_def and_then_eq_Ok split: if_splits)
    have run2: "find_schedule_run d2 rid = Some r" and leases2: "resource_leases d2 = resource_leases d1"
      using upd [OF d2] by simp_all
    have same: "leases_ok d3 \<and> find_lease d3 (Schedule_Run, rid) = Some l"
      if "resource_leases d3 = resource_leases d1" for d3
      using that ok1 lease1 by (simp add: leases_ok_def find_lease_def)
    from rest show ?thesis
    proof
      assume "d' = d2"
      with same [OF leases2] run2 show ?thesis by simp
    next
      assume "\<exists>d3 f. update_task_row (sr_task row) f d2 = Ok d3 \<and>
        d' = drop_lease Schedule_Run (sr_id row) (ow_token (sj_owner sj)) d3"
      then obtain d3 f where d3: "update_task_row (sr_task row) f d2 = Ok d3"
        and d': "d' = drop_lease Schedule_Run (sr_id row) (ow_token (sj_owner sj)) d3" by blast
      have s3: "leases_ok d3" "find_lease d3 (Schedule_Run, rid) = Some l"
        using same [of d3] update_task_row_tables [OF d3] leases2 by simp_all
      have "find_schedule_run d' rid = Some r"
        using update_task_row_runs [OF d3] run2 by (simp add: d' find_schedule_run_def drop_lease_def)
      moreover have "leases_ok d'" using s3(1) by (simp add: d' drop_lease_def leases_ok_delete_where)
      moreover have "find_lease d' (Schedule_Run, rid) = Some l"
        using find_lease_drop [OF s3(1)] other s3(2) by (simp add: d')
      ultimately show ?thesis by simp
    qed
  qed
qed

lemma recover_keeps_live:
  assumes "leases_ok d" and "find_lease d (Schedule_Run, rid) = Some l" "find_schedule_run d rid = Some r"
    and "lease_owner l \<noteq> sj_owner sj" "\<not> reclaimable e l"
  shows "find_schedule_run (snd (recover e sj d)) rid = Some r"
proof -
  let ?J = "\<lambda>d. leases_ok d \<and> find_lease d (Schedule_Run, rid) = Some l \<and> find_schedule_run d rid = Some r"
  have "recover_runs e sj rows n d = Ok (m, d') \<Longrightarrow> ?J d \<Longrightarrow> ?J d'" for rows n d m d'
  proof (induction rows arbitrary: n d)
    case (Cons row rows)
    then obtain b d1 where one: "recover_run e sj row d = Ok (b, d1)"
      and rest: "recover_runs e sj rows (if b then Suc n else n) d1 = Ok (m, d')"
      by (auto simp: and_then_eq_Ok)
    from recover_run_live [OF _ _ _ assms(4,5) one] Cons.prems(2) have "?J d1" by blast
    with rest Cons.IH show ?case by blast
  qed simp
  then have "?J (snd (recover e sj d))"
    unfolding recover_def
    using assms(1-3) by (intro transact_post [of ?J]) (auto simp: ok_post_def split: sum.split)
  then show ?thesis by simp
qed

end
