(* ===== verification/Guarantees_Schedule.thy ===== *)
theory Guarantees_Schedule
  imports Samples Scheduler_Safety
begin

section \<open>Guarantees of the scheduler\<close>

text \<open>
  The properties of schedules and their runs, with the sample schedule they are applied to.
\<close>

definition sample_schedule :: "schedule_kind \<Rightarrow> string \<Rightarrow> missed_policy \<Rightarrow> schedule_row" where
  "sample_schedule kind expression policy = \<lparr>sc_id = ''s'', sc_task = ''t'', sc_kind = kind,
     sc_expression = expression, sc_timezone = ''UTC'', sc_next_run_at = Some (Z 0),
     sc_missed_policy = policy, sc_max_catch_up = 1, sc_enabled = True, sc_concurrency_key = ''default'',
     sc_max_concurrency = 1, sc_delivery_target = [], sc_condition_state = False, sc_revision = 1,
     sc_created_at = 0, sc_updated_at = 0, sc_removed_at = None\<rparr>"

definition scheduled_db :: "schedule_row \<Rightarrow> db" where
  "scheduled_db s = (sample_db T_Pending)\<lparr>schedules := [s]\<rparr>"

definition sample_scheduler :: "(string \<times> (db \<Rightarrow> bool result)) list \<Rightarrow> scheduler" where
  "sample_scheduler conditions = \<lparr>sj_max = 1, sj_conditions = conditions, sj_lease = seconds 30,
     sj_owner = live_owner\<rparr>"

definition sample_run :: "schedule_run_state \<Rightarrow> schedule_run_row" where
  "sample_run state = \<lparr>sr_id = ''r'', sr_schedule = ''x'', sr_task = ''t'', sr_planned_for = Z 0,
     sr_idempotency_key = (''x'', Z 0, 1), sr_state = state, sr_attempt = 1, sr_checkpoint = None,
     sr_result = [], sr_error = [], sr_claimed_at = 0, sr_started_at = None, sr_finished_at = None\<rparr>"

lemmas sched_sample_defs = sample_schedule_def scheduled_db_def sample_scheduler_def sample_run_def

text \<open>C8. The number of runs claimed or running at once never exceeds the limit of the schedulers that
  claim them, whatever schedules are created, edited, paused or removed meanwhile and however
  rounds, starts, ends and recoveries of several schedulers interleave.\<close>

theorem concurrency_bounded:
  assumes "\<forall>op \<in> set ops. within_limit n op" and "int (active_runs d) \<le> n"
  shows "int (active_runs (fold sched_step ops d)) \<le> n"
  using reach_invariants(2) [OF sched_run_reach [OF assms(1)]] assms(2) by (simp add: active_runs_def)

lemma concurrency_bounded_witness:
  "int (active_runs (fold sched_step
     [SO_Claim_Due (sample_env 0) (sample_scheduler []) 0 (\<lambda>s n. ''r'') (\<lambda>s n. ''u''),
      SO_Claim_Due (sample_env 0) (sample_scheduler []) (seconds 60) (\<lambda>s n. ''q'') (\<lambda>s n. ''v'')]
     (scheduled_db (sample_schedule Recurring ''every 60s'' Run_Once)))) \<le> 1"
  by (rule concurrency_bounded) (simp_all add: sched_sample_defs sample_defs active_runs_def del: fold_simps)

text \<open>No planned time of a schedule is run twice: in any history two runs of one schedule never
  have the same planned time, and run ids stay unique.\<close>

theorem planned_time_once:
  assumes "r1 \<in> set (schedule_runs (fold sched_step ops empty_db))"
    and "r2 \<in> set (schedule_runs (fold sched_step ops empty_db))"
    and "sr_id r1 = sr_id r2 \<or> sr_schedule r1 = sr_schedule r2 \<and> sr_planned_for r1 = sr_planned_for r2"
  shows "r1 = r2"
proof -
  have "\<exists>n. \<forall>op \<in> set ops. within_limit n op"
  proof (induction ops)
    case (Cons op ops)
    then obtain n where n: "\<forall>op \<in> set ops. within_limit n op" by blast
    obtain m where m: "within_limit m op" by (cases op) auto
    have "within_limit (max m n) op'" if "within_limit m op' \<or> within_limit n op'" for op'
      using that by (cases op') auto
    with n m show ?case by (metis set_ConsD)
  qed simp
  then obtain n where "\<forall>op \<in> set ops. within_limit n op" by blast
  from reach_invariants(1) [OF sched_run_reach [OF this, of empty_db]]
  have "runs_unique (schedule_runs (fold sched_step ops empty_db))"
    by (simp add: empty_db_def runs_unique_def)
  with assms show ?thesis
    by (auto simp: runs_unique_def distinct_map inj_on_def)
qed

lemma planned_time_once_witness:
  "let d = fold sched_step [SO_Claim_Due (sample_env 0) (sample_scheduler []) 0 (\<lambda>s n. ''r'') (\<lambda>s n. ''u'')] empty_db in
     \<forall>r1 \<in> set (schedule_runs d). \<forall>r2 \<in> set (schedule_runs d). sr_id r1 = sr_id r2 \<longrightarrow> r1 = r2"
  unfolding Let_def by (intro ballI impI, erule planned_time_once) simp_all

text \<open>A run that succeeded, failed, was skipped or cancelled keeps its row for ever: no round,
  start, end or recovery of any scheduler touches it again.\<close>

theorem ended_run_final:
  assumes "find_schedule_run d rid = Some r" and "sr_state r \<in> {R_Succeeded, R_Failed, R_Skipped, R_Cancelled}"
  shows "find_schedule_run (fold sched_step ops d) rid = Some r"
  using sched_runs.terminal_run [of d rid r ops] assms by (simp add: run_ended_def)

lemma ended_run_final_witness:
  "find_schedule_run (fold sched_step [SO_Recover (sample_env 0) (sample_scheduler []),
      SO_Settle (sample_env 0) (sample_scheduler []) ''u'' ''r'' (Ok []) None]
      (empty_db\<lparr>schedule_runs := [sample_run R_Failed]\<rparr>)) ''r'' = Some (sample_run R_Failed)"
  by (rule ended_run_final) (simp_all add: find_schedule_run_def sample_run_def)

text \<open>After a run is claimed the next one lies strictly in the future, unless the policy is to
  catch up: no schedule fires twice for the same moment.\<close>

theorem next_run_in_future:
  assumes "advance s planned current = Ok (Some z)"
    and "\<not> (sc_kind s = Recurring \<and> sc_missed_policy s = Catch_Up)"
  shows "current < instant z"
  using advance_later [OF assms(1)] assms(2) by blast

lemma next_run_in_future_witness: "(65000000 :: int) < instant (Z 120000000)"
proof (rule next_run_in_future)
  show "advance (sample_schedule Recurring ''every 1m'' Skip) 0 65000000 = Ok (Some (Z 120000000))" by code_simp
qed (simp add: sample_schedule_def)

text \<open>Under the policy \<^verbatim>\<open>skip\<close> the next run stays on the schedule's own grid and is the first
  point of it after now: no drift, and no point missed that is still to come.\<close>

theorem skip_keeps_grid:
  assumes "advance s planned current = Ok (Some z)" and "sc_kind s = Recurring" "sc_missed_policy s = Skip"
    and "planned \<le> current"
  shows "\<exists>n k. interval_seconds (sc_expression s) = Ok n \<and> 0 < n \<and> 0 < k \<and>
    instant z = planned + seconds n * k \<and> instant z - seconds n \<le> current \<and> current < instant z"
proof -
  have "current < instant z" using advance_later [OF assms(1)] assms(3) by simp
  with advance_skip_grid [OF assms] show ?thesis by metis
qed

lemma skip_keeps_grid_witness:
  "\<exists>n k. interval_seconds ''every 1m'' = Ok n \<and> 0 < k \<and> (120000000 :: int) = 0 + seconds n * k"
proof -
  have "advance (sample_schedule Recurring ''every 1m'' Skip) 0 65000000 = Ok (Some (Z 120000000))" by code_simp
  from skip_keeps_grid [OF this] show ?thesis by (auto simp: sample_schedule_def)
qed

text \<open>Printing an interval and parsing it back gives the same number of seconds, for every
  positive count and every unit.\<close>

theorem interval_parses_back:
  assumes "0 < n" and "unit_seconds [u] = Some k"
  shows "interval_seconds (''every '' @ dec n @ [u]) = Ok (int n * k)"
  by (rule interval_round_trip [OF assms])

lemma interval_parses_back_witness: "interval_seconds (''every '' @ dec 90 @ ''m'') = Ok (int 90 * 60)"
  by (rule interval_parses_back) simp_all

text \<open>Recovery fails a run only when its owner is provably gone, with the outcome marked
  ambiguous, and never queues it again; a run under a lease that is not reclaimable is left alone.\<close>

theorem recovery_spares_live_runs:
  assumes "find_schedule_run d rid = Some r"
  shows "(find_schedule_run (snd (recover e sj d)) rid = Some r \<or>
      sr_state r = R_Running \<and> find_schedule_run (snd (recover e sj d)) rid =
        Some (r\<lparr>sr_state := R_Failed, sr_error := owner_lost_run, sr_finished_at := Some (now e)\<rparr>)) \<and>
    (leases_ok d \<and> (\<exists>l. find_lease d (Schedule_Run, rid) = Some l \<and> lease_owner l \<noteq> sj_owner sj \<and> \<not> reclaimable e l) \<longrightarrow>
      find_schedule_run (snd (recover e sj d)) rid = Some r)"
  using recover_recovered [of e d sj] assms recover_keeps_live [of d rid _ r sj e]
  by (auto simp: runs_recovered_def lost_run_def)

lemma recovery_spares_live_runs_witness:
  "find_schedule_run (snd (recover (sample_env 0) (sample_scheduler [])
     (empty_db\<lparr>schedule_runs := [sample_run R_Claimed]\<rparr>))) ''r'' = Some (sample_run R_Claimed)"
proof -
  have "find_schedule_run (empty_db\<lparr>schedule_runs := [sample_run R_Claimed]\<rparr>) ''r'' = Some (sample_run R_Claimed)"
    by (simp add: find_schedule_run_def sample_run_def)
  from recovery_spares_live_runs [OF this, of "sample_env 0" "sample_scheduler []"] show ?thesis
    by (simp add: sample_run_def)
qed

text \<open>One round of \<^verbatim>\<open>claim_due\<close> claims at most as many runs as the scheduler may run.\<close>

theorem round_bounded:
  assumes "claim_due e sj current rids uuids d = (Ok l, d')" and "0 \<le> sj_max sj"
  shows "int (length l) \<le> sj_max sj"
  by (rule claim_due_length [OF assms])

lemma round_bounded_witness:
  "\<exists>l d'. claim_due (sample_env 0) (sample_scheduler []) 0 (\<lambda>s n. ''r'') (\<lambda>s n. ''u'')
     (scheduled_db (sample_schedule Recurring ''every 60s'' Run_Once)) = (Ok l, d') \<and> int (length l) \<le> 1"
proof -
  let ?r = "claim_due (sample_env 0) (sample_scheduler []) 0 (\<lambda>s n. ''r'') (\<lambda>s n. ''u'')
     (scheduled_db (sample_schedule Recurring ''every 60s'' Run_Once))"
  have "is_ok (fst ?r)" by code_simp
  then obtain l d' where run: "?r = (Ok l, d')" using is_okD by (metis prod.collapse)
  from round_bounded [OF run] run show ?thesis by (simp add: sample_scheduler_def)
qed

text \<open>C37. The wait between two rounds is within its bounds and never reaches past the next run of an
  enabled schedule the round lists.\<close>

theorem wakes_in_time:
  assumes "0 \<le> maximum"
  shows "0 \<le> next_wake current maximum d \<and> next_wake current maximum d \<le> maximum \<and>
    (\<forall>s \<in> set (list_schedules (Some True) 100 d). \<forall>z. sc_next_run_at s = Some z \<and> current \<le> instant z \<longrightarrow>
       current + next_wake current maximum d \<le> instant z)"
  using next_wake_bounds [OF assms] next_wake_not_late by blast

lemma wakes_in_time_witness:
  "next_wake (- 5) 3600 (scheduled_db (sample_schedule Recurring ''every 60s'' Run_Once)) \<le> 3600"
  using wakes_in_time [of 3600] by simp

text \<open>A recurring schedule with an expression that does not parse stops the whole scheduler:
  once it is the first that is due and there is room, every round raises and rolls back, so no
  schedule is ever claimed again.  (\<^verbatim>\<open>create_schedule\<close> and \<^verbatim>\<open>edit_schedule\<close> accept such an
  expression whenever \<^verbatim>\<open>next_run_at\<close> is given, because only then they do not parse it.)\<close>

theorem malformed_interval_blocks_rounds:
  assumes "list_schedules (Some True) 100 d = s # ss" and "sc_next_run_at s = Some z" "instant z \<le> current"
    and "find_schedule d (sc_id s) = Some s" and "sc_removed_at s = None" "sc_enabled s"
    and "int (active_runs d) < sj_max sj" "int (keyed_runs d (sc_concurrency_key s)) < sc_max_concurrency s"
    and "\<forall>r \<in> set (schedule_runs d). sr_id r \<noteq> rids (sc_id s) 0 \<and> sr_schedule r \<noteq> sc_id s"
    and "\<forall>r \<in> set (schedule_runs d). fst (sr_idempotency_key r) = sr_schedule r"
    and "sc_kind s = Recurring" and "interval_seconds (sc_expression s) = Err err"
  shows "\<exists>err. claim_due e sj current rids uuids d = (Inl err, d)"
  by (rule claim_due_poisoned [where rids = rids]) (fact assms)+

lemma malformed_interval_blocks_rounds_witness:
  "let created = create_schedule (sample_env 0) (\<lambda>n. dec n) (\<lambda>s. Ok 0) 0 ''t'' \<lparr>ns_kind = ''recurring'',
       ns_expression = ''hourly'', ns_next_run_at = Some ''2026-01-01T00:00:00Z'', ns_missed_policy = ''run-once'',
       ns_max_catch_up = 1, ns_timezone = ''UTC'', ns_concurrency_key = ''default'', ns_max_concurrency = 1,
       ns_delivery_target = []\<rparr> (sample_db T_Pending) in
     is_ok (fst created) \<and>
     (\<exists>err. claim_due (sample_env 0) (sample_scheduler []) 0 (\<lambda>s n. ''r'') (\<lambda>s n. ''u'')
        (scheduled_db (sample_schedule Recurring ''hourly'' Run_Once)) =
        (Inl err, scheduled_db (sample_schedule Recurring ''hourly'' Run_Once)))"
  unfolding Let_def
proof (rule conjI)
  show "is_ok (fst (create_schedule (sample_env 0) (\<lambda>n. dec n) (\<lambda>s. Ok 0) 0 ''t'' \<lparr>ns_kind = ''recurring'',
       ns_expression = ''hourly'', ns_next_run_at = Some ''2026-01-01T00:00:00Z'', ns_missed_policy = ''run-once'',
       ns_max_catch_up = 1, ns_timezone = ''UTC'', ns_concurrency_key = ''default'', ns_max_concurrency = 1,
       ns_delivery_target = []\<rparr> (sample_db T_Pending)))" by code_simp
  have bad: "interval_seconds ''hourly'' = Err (Value_Error ''recurring expression must be every N or interval:N'')"
    by code_simp
  show "\<exists>err. claim_due (sample_env 0) (sample_scheduler []) 0 (\<lambda>s n. ''r'') (\<lambda>s n. ''u'')
        (scheduled_db (sample_schedule Recurring ''hourly'' Run_Once)) =
        (Inl err, scheduled_db (sample_schedule Recurring ''hourly'' Run_Once))"
    by (rule malformed_interval_blocks_rounds [where s = "sample_schedule Recurring ''hourly'' Run_Once" and z = "Z 0" and ss = "[]"
        and err = "Value_Error ''recurring expression must be every N or interval:N''"])
      (use bad in \<open>simp_all add: list_schedules_def sched_sample_defs sample_defs find_schedule_def active_runs_def
         keyed_runs_def\<close>)
qed

text \<open>A condition that rises while the scheduler has no free slot is lost: the round records
  the edge but claims nothing, and as long as the condition stays true no later round finds it
  due.\<close>

theorem condition_edge_lost_when_full:
  assumes "list_schedules (Some True) 100 d = [s]" and "sc_next_run_at s = Some z" "instant z \<le> current"
    and "sc_kind s = Condition" "\<not> sc_condition_state s"
    and "map_of (sj_conditions sj) (condition_name (sc_expression s)) = Some predicate" "predicate d = Ok True"
    and "find_schedule d (sc_id s) = Some s" and "sj_max sj \<le> int (active_runs d)" "0 < sj_max sj"
    and "sc_removed_at s = None" "sc_enabled s"
  shows "\<exists>d' s'. claim_due e sj current rids uuids d = (Ok [], d') \<and> schedule_runs d' = schedule_runs d \<and>
    find_schedule d' (sc_id s) = Some s' \<and> sc_condition_state s' \<and> sc_next_run_at s' = Some z \<and>
    (predicate d' = Ok True \<longrightarrow> fst (condition_due e2 sj s' d') = Ok False)"
  by (rule condition_edge_consumed [OF assms])

lemma condition_edge_lost_when_full_witness:
  "\<exists>d'. claim_due (sample_env 0) (sample_scheduler [(''c'', \<lambda>d. Ok True)]) 0 (\<lambda>s n. ''q'') (\<lambda>s n. ''u'')
     ((scheduled_db (sample_schedule Condition ''c@every 60s'' Run_Once))\<lparr>schedule_runs := [sample_run R_Running]\<rparr>) =
       (Ok [], d') \<and> schedule_runs d' = [sample_run R_Running]"
proof -
  let ?s = "sample_schedule Condition ''c@every 60s'' Run_Once"
  let ?d = "(scheduled_db ?s)\<lparr>schedule_runs := [sample_run R_Running]\<rparr>"
  have name: "condition_name ''c@every 60s'' = ''c''" by code_simp
  have "\<exists>d' s'. claim_due (sample_env 0) (sample_scheduler [(''c'', \<lambda>d. Ok True)]) 0 (\<lambda>s n. ''q'') (\<lambda>s n. ''u'') ?d =
      (Ok [], d') \<and> schedule_runs d' = schedule_runs ?d \<and>
    find_schedule d' (sc_id ?s) = Some s' \<and> sc_condition_state s' \<and> sc_next_run_at s' = Some (Z 0) \<and>
    ((\<lambda>d. Ok True) d' = (Ok True :: bool result) \<longrightarrow>
      fst (condition_due (sample_env 0) (sample_scheduler [(''c'', \<lambda>d. Ok True)]) s' d') = Ok False)"
    by (rule condition_edge_lost_when_full)
      (simp_all add: list_schedules_def sched_sample_defs sample_defs find_schedule_def active_runs_def run_active_def name)
  then show ?thesis by auto
qed

end
