(* ===== verification/Evidence.thy ===== *)
theory Evidence
  imports Policy
begin

section \<open>Evidence\<close>

text \<open>
  \<^verbatim>\<open>src/tars/evidence.py\<close>: recording, loading and listing evidence, and the check of an
  artifact's claims against retained evidence.  Reading the artifact from disk is a parameter
  (\<open>content\<close> is what was read or passed); SHA-256 and \<^verbatim>\<open>str\<close> come from \<open>policy_env\<close>.  The lemmas
  show that recording only adds a row and that an artifact counts as verified only when every
  claim of it is in the artifact and supported by stored evidence.
\<close>

definition find_evidence :: "db \<Rightarrow> ident \<Rightarrow> evidence_row option" where
  "find_evidence d eid = select_one ev_id eid (evidence_records d)"

definition load_evidence :: "ident \<Rightarrow> db \<Rightarrow> evidence_row result" where
  "load_evidence eid d = (case find_evidence d eid of
     None \<Rightarrow> Err (Key_Error ''unknown evidence'') | Some v \<Rightarrow> Ok v)"

definition check_event_task :: "db \<Rightarrow> ident option \<Rightarrow> ident option \<Rightarrow> unit result" where
  "check_event_task d event task = (case event of
     None \<Rightarrow> Ok ()
   | Some uuid \<Rightarrow> (case select_one se_uuid uuid (state_events d) of
       None \<Rightarrow> Err (Key_Error ''unknown state event'')
     | Some e \<Rightarrow> raise_if (se_task e \<noteq> task)
         (Permission_Error ''evidence event belongs to another task'') (Ok ())))"

definition record_evidence ::
    "policy_env \<Rightarrow> ident \<Rightarrow> string \<Rightarrow> string \<Rightarrow> string \<Rightarrow> ident option \<Rightarrow> ident option \<Rightarrow> string \<Rightarrow> dict \<Rightarrow>
     db \<Rightarrow> evidence_row result \<times> db" where
  "record_evidence pe eid etype source content task event result_ref metadata d =
     and_next (transact (\<lambda>d.
       and_then (check_event_task d event task) (\<lambda>_.
       and_then (insert_evidence \<lparr>ev_id = eid, ev_task = task, ev_event = event, ev_type = etype,
         ev_source = source, ev_sha256 = sha256 (pe_net pe) content, ev_result_ref = result_ref,
         ev_metadata = object_fields (redact (JObj metadata)), ev_created_at = pe_now pe\<rparr> d)
       (\<lambda>d'. Ok ((), d')))) d)
     (\<lambda>_ d'. (load_evidence eid d', d'))"

definition list_records :: "ident option \<Rightarrow> string \<Rightarrow> nat \<Rightarrow> db \<Rightarrow> evidence_row list" where
  "list_records task etype limit d =
     take limit (sort_key (\<lambda>v. - ev_created_at v) (filter (\<lambda>v.
       (task = None \<or> task = Some [] \<or> ev_task v = task) \<and> (etype = [] \<or> ev_type v = etype))
       (evidence_records d)))"

record claim_check =
  cc_text :: string
  cc_evidence :: ident
  cc_in_artifact :: bool
  cc_supported :: bool

definition claim_verified :: "claim_check \<Rightarrow> bool" where
  "claim_verified c = (cc_in_artifact c \<and> cc_supported c)"

definition check_claim :: "policy_env \<Rightarrow> string \<Rightarrow> db \<Rightarrow> dict \<Rightarrow> claim_check result" where
  "check_claim pe content d claim =
     and_then (item claim ''text'') (\<lambda>text.
     and_then (item claim ''supporting_text'') (\<lambda>supporting.
     and_then (item claim ''evidence_id'') (\<lambda>eid.
     and_then (load_evidence (str_of pe eid) d) (\<lambda>source.
       let chunk = (case map_of (ev_metadata source) ''relevant_chunk'' of
             None \<Rightarrow> [] | Some v \<Rightarrow> str_of pe v) in
       Ok \<lparr>cc_text = str_of pe text, cc_evidence = ev_id source,
           cc_in_artifact = contains (str_of pe text) content,
           cc_supported = (str_of pe supporting \<noteq> [] \<and> contains (str_of pe supporting) chunk)\<rparr>))))"

record verification =
  vf_artifact :: string
  vf_claims :: "claim_check list"
  vf_verified :: bool
  vf_sha256 :: string
  vf_evidence :: ident

definition verify_artifact ::
    "policy_env \<Rightarrow> ident \<Rightarrow> string \<Rightarrow> dict list \<Rightarrow> ident option \<Rightarrow> ident option \<Rightarrow> string \<Rightarrow> db \<Rightarrow>
     verification result \<times> db" where
  "verify_artifact pe eid artifact claims task event content d =
    (case all_ok (check_claim pe content d) claims of
       Inl e \<Rightarrow> (Inl e, d)
     | Inr results \<Rightarrow>
         let verified = (results \<noteq> [] \<and> list_all claim_verified results) in
         and_next (record_evidence pe eid ''artifact_verification'' artifact content task event artifact
           [(''verified'', JBool verified),
            (''source_evidence_ids'', JArr (map (\<lambda>c. JStr (cc_evidence c)) results))] d)
         (\<lambda>v d'. (Ok \<lparr>vf_artifact = artifact, vf_claims = results, vf_verified = verified,
            vf_sha256 = sha256 (pe_net pe) content, vf_evidence = ev_id v\<rparr>, d')))"

subsection \<open>What a verification shows\<close>

lemma record_evidence_Ok:
  assumes "record_evidence pe eid etype source content task event result_ref metadata d = (Ok v, d')"
  shows "\<exists>r. d' = d\<lparr>evidence_records := evidence_records d @ [r]\<rparr> \<and> ev_id r = eid \<and>
    eid \<notin> ev_id ` set (evidence_records d) \<and> v = r"
proof -
  from assms obtain r where "d' = d\<lparr>evidence_records := evidence_records d @ [r]\<rparr>" "ev_id r = eid"
    and new: "eid \<notin> ev_id ` set (evidence_records d)" and "load_evidence eid d' = Ok v"
    by (auto simp: record_evidence_def and_next_eq_Ok transact_eq_Ok and_then_eq_Ok insert_evidence_def)
  moreover from new have "select_one ev_id eid (evidence_records d) = None"
    by (simp add: select_one_None_iff)
  ultimately show ?thesis
    using new by (auto simp: load_evidence_def find_evidence_def select_one_append)
qed

text \<open>Evidence that supports a text: a stored record whose retained chunk contains it\<close>

definition supports :: "policy_env \<Rightarrow> db \<Rightarrow> ident \<Rightarrow> string \<Rightarrow> bool" where
  "supports pe d eid quote = (\<exists>v chunk. find_evidence d eid = Some v \<and>
     map_of (ev_metadata v) ''relevant_chunk'' = Some chunk \<and> quote \<noteq> [] \<and> contains quote (str_of pe chunk))"

definition claim_holds :: "policy_env \<Rightarrow> db \<Rightarrow> string \<Rightarrow> dict \<Rightarrow> bool" where
  "claim_holds pe d content claim = (\<exists>text eid quote. map_of claim ''text'' = Some text \<and>
     map_of claim ''evidence_id'' = Some eid \<and> map_of claim ''supporting_text'' = Some quote \<and>
     contains (str_of pe text) content \<and> supports pe d (str_of pe eid) (str_of pe quote))"

lemma contains_Nil: "contains n [] \<Longrightarrow> n = []"
  by (auto simp: contains_def split: if_splits)

lemma item_eq_Ok [simp]: "item m k = Ok v \<longleftrightarrow> map_of m k = Some v"
  by (simp add: item_def split: option.split)

lemma load_evidence_eq_Ok [simp]: "load_evidence eid d = Ok v \<longleftrightarrow> find_evidence d eid = Some v"
  by (simp add: load_evidence_def split: option.split)

lemma check_claim_Ok:
  assumes "check_claim pe content d claim = Ok c" and "claim_verified c"
  shows "claim_holds pe d content claim"
proof -
  from assms(1) obtain said quote eid v where claim: "map_of claim ''text'' = Some said"
    "map_of claim ''supporting_text'' = Some quote" "map_of claim ''evidence_id'' = Some eid"
    and v: "find_evidence d (str_of pe eid) = Some v"
    and c: "cc_in_artifact c = contains (str_of pe said) content" "cc_supported c = (str_of pe quote \<noteq> [] \<and>
      contains (str_of pe quote) (case map_of (ev_metadata v) ''relevant_chunk'' of None \<Rightarrow> [] | Some x \<Rightarrow> str_of pe x))"
    by (auto simp: check_claim_def Let_def and_then_eq_Ok)
  with assms(2) have "contains (str_of pe said) content" "supports pe d (str_of pe eid) (str_of pe quote)"
    by (auto simp: claim_verified_def supports_def split: option.splits dest: contains_Nil)
  with claim show ?thesis
    by (auto simp: claim_holds_def)
qed

lemma verify_artifact_Ok:
  assumes "verify_artifact pe eid artifact claims task event content d = (Ok v, d')"
  shows "\<exists>r. d' = d\<lparr>evidence_records := evidence_records d @ [r]\<rparr> \<and> vf_evidence v = ev_id r"
    and "vf_verified v \<Longrightarrow> claims \<noteq> [] \<and> (\<forall>c \<in> set claims. claim_holds pe d content c)"
proof -
  from assms obtain results where results: "all_ok (check_claim pe content d) claims = Ok results"
    by (auto simp: verify_artifact_def split: sum.splits)
  with assms obtain r extra where rec: "record_evidence pe eid ''artifact_verification'' artifact content task event
      artifact extra d = (Ok r, d')"
    and v: "vf_verified v = (results \<noteq> [] \<and> list_all claim_verified results)" "vf_evidence v = ev_id r"
    by (auto simp: verify_artifact_def Let_def and_next_eq_Ok)
  from record_evidence_Ok [OF rec] v(2)
  show "\<exists>r. d' = d\<lparr>evidence_records := evidence_records d @ [r]\<rparr> \<and> vf_evidence v = ev_id r"
    by auto
  have "list_all claim_verified results \<Longrightarrow> \<forall>c \<in> set claims. claim_holds pe d content c"
    and "(claims = []) = (results = [])"
    using results by (induction claims arbitrary: results) (auto simp: and_then_eq_Ok dest: check_claim_Ok)
  with v(1) show "vf_verified v \<Longrightarrow> claims \<noteq> [] \<and> (\<forall>c \<in> set claims. claim_holds pe d content c)"
    by simp
qed

end
