(* ===== verification/Delegation.thy ===== *)
theory Delegation
  imports Orchestration Evidence
begin

section \<open>Delegated children\<close>

text \<open>
  \<^verbatim>\<open>src/tars/delegation.py\<close>: the contract of a child task (what it may touch, how long and in
  which workspace), the operations that start, run, cancel, join and accept it, and the check of
  each of its actions.  The caller's executor is a record of state transformers; what the worker
  thread sees of its cancellation event and of its timer is an argument (\<open>observed\<close>), as are the
  clock readings.  Staging and reviewing the memory of a child rest on \<^verbatim>\<open>memory.py\<close> and are
  not modelled.
\<close>

subsection \<open>Contracts\<close>

definition terminal_contract :: "contract_state \<Rightarrow> bool" where
  "terminal_contract s = (s \<in> {K_Completed, K_Failed, K_Cancelled, K_Timed_Out, K_Accepted, K_Rejected})"

definition load_contract :: "db \<Rightarrow> ident \<Rightarrow> contract_row result" where
  "load_contract d did = (case find_contract d did of
     None \<Rightarrow> Err (Key_Error ''unknown delegation contract'') | Some c \<Rightarrow> Ok c)"

definition canonical_paths :: "policy_env \<Rightarrow> string list \<Rightarrow> string list result" where
  "canonical_paths pe values = and_then (all_ok (canonical_path pe) values) (\<lambda>ps. Ok (first_only ps))"

definition path_subset :: "string list \<Rightarrow> string list \<Rightarrow> bool" where
  "path_subset child parent = list_all (\<lambda>v. list_ex (\<lambda>r. v = r \<or> starts_with v (as_prefix r)) parent) child"

text \<open>A missing entry of the authority passed in is an empty list.\<close>

definition normalize_authority :: "policy_env \<Rightarrow> authority \<Rightarrow> authority result" where
  "normalize_authority pe a = and_then (canonical_paths pe (au_paths a)) (\<lambda>ps.
     Ok \<lparr>au_paths = ps, au_effects = sort (remdups (au_effects a)),
         au_network_targets = sort (remdups (au_network_targets a)),
         au_remote_targets = sort (remdups (au_remote_targets a)),
         au_secret_refs = sort (remdups (au_secret_refs a))\<rparr>)"

definition require_subset :: "authority \<Rightarrow> authority \<Rightarrow> string list \<Rightarrow> string list \<Rightarrow> unit result" where
  "require_subset child parent child_tools parent_tools =
     raise_if (\<not> set child_tools \<subseteq> set parent_tools) (Permission_Error ''child tool allowlist exceeds parent authority'')
    (raise_if (\<not> path_subset (au_paths child) (au_paths parent))
       (Permission_Error ''child filesystem scope exceeds parent authority'')
    (raise_if (\<not> set (au_effects child) \<subseteq> set (au_effects parent)) (Permission_Error ''child effects exceeds parent authority'')
    (raise_if (\<not> set (au_network_targets child) \<subseteq> set (au_network_targets parent))
       (Permission_Error ''child network_targets exceeds parent authority'')
    (raise_if (\<not> set (au_remote_targets child) \<subseteq> set (au_remote_targets parent))
       (Permission_Error ''child remote_targets exceeds parent authority'')
    (raise_if (\<not> set (au_secret_refs child) \<subseteq> set (au_secret_refs parent))
       (Permission_Error ''child secret_refs exceeds parent authority'') (Ok ()))))))"

definition authorize_child_action ::
    "policy_env \<Rightarrow> ident \<Rightarrow> string \<Rightarrow> string \<Rightarrow> string \<Rightarrow> db \<Rightarrow> unit result" where
  "authorize_child_action pe did tool effect target d = and_then (load_contract d did) (\<lambda>c.
     raise_if (tool \<notin> set (dc_tools c)) (Permission_Error ''tool is outside child allowlist'')
    (raise_if (effect \<notin> set (au_effects (dc_authority c))) (Permission_Error ''effect is outside child authority'')
    (and_then (if effect \<in> {''read'', ''write'', ''execute'', ''destructive''} \<and> target \<noteq> [] then
        and_then (canonical_path pe target) (\<lambda>path.
          raise_if (\<not> path_subset [path] (au_paths (dc_authority c)))
            (Permission_Error ''target is outside child filesystem authority'') (Ok ()))
        else Ok ()) (\<lambda>_.
     raise_if (effect = ''network'' \<and> target \<notin> set (au_network_targets (dc_authority c)))
       (Permission_Error ''destination is outside child network authority'')
    (raise_if (effect = ''remote'' \<and> target \<notin> set (au_remote_targets (dc_authority c)))
       (Permission_Error ''remote target is outside child authority'') (Ok ()))))))"

definition child_inference_options :: "ident \<Rightarrow> int option \<Rightarrow> string \<Rightarrow> db \<Rightarrow> (int \<times> string) result" where
  "child_inference_options did requested thinking d = and_then (load_contract d did) (\<lambda>c.
     let ceiling = bg_max_tokens (dc_budget c) in
     case requested of
       None \<Rightarrow> Ok (ceiling, thinking)
     | Some n \<Rightarrow> raise_if (ceiling < n)
         (Permission_Error ''child generation request exceeds delegated token budget'') (Ok (n, thinking)))"

text \<open>\<^verbatim>\<open>ChildToolDispatcher.execute\<close>; \<open>dispatch\<close> is the canonical dispatcher it narrows.\<close>

definition execute_child_tool ::
    "policy_env \<Rightarrow> (string \<Rightarrow> dict \<Rightarrow> ident \<Rightarrow> db \<Rightarrow> 'a result \<times> db) \<Rightarrow> ident \<Rightarrow> string \<Rightarrow> dict \<Rightarrow> string \<Rightarrow> string \<Rightarrow>
     db \<Rightarrow> 'a result \<times> db" where
  "execute_child_tool pe dispatch did name arguments effect target d =
     and_next (authorize_child_action pe did name effect target d, d) (\<lambda>_ d.
     and_next (load_delegation d did, d) (\<lambda>g d. dispatch name arguments (dg_child_task g) d))"

subsection \<open>Creating a child\<close>

record budget_request =
  br_max_seconds :: "rat option"
  br_max_iterations :: "int option"
  br_max_tokens :: "int option"
  br_inference :: "bool option"

record workspace_request =
  wr_mode :: "string option"
  wr_access :: "string option"
  wr_root :: string
  wr_exclusive :: "bool option"

record completion_request =
  mr_required_types :: "string list"
  mr_summary_required :: "bool option"

record child_request =
  ch_goal :: string
  ch_role :: "string option"
  ch_capabilities :: "string list"
  ch_tools :: "string list"
  ch_authority :: authority
  ch_parent_authority :: "authority option"
  ch_parent_tools :: "string list option"
  ch_budget :: budget_request
  ch_workspace :: workspace_request
  ch_completion :: completion_request
  ch_constraints :: "string list"
  ch_evidence_refs :: "ident list"

definition normalize_budget :: "budget_request \<Rightarrow> budget" where
  "normalize_budget b = \<lparr>bg_max_seconds = max 1 (or_else (br_max_seconds b) 3600),
     bg_max_iterations = max 1 (or_else (br_max_iterations b) 50),
     bg_max_tokens = max 1 (or_else (br_max_tokens b) 32768),
     bg_inference = or_else (br_inference b) True\<rparr>"

definition require_budget :: "budget \<Rightarrow> budget \<Rightarrow> unit result" where
  "require_budget child parent =
     raise_if (bg_max_seconds parent < bg_max_seconds child) (Permission_Error ''child max_seconds exceeds parent budget'')
    (raise_if (bg_max_iterations parent < bg_max_iterations child) (Permission_Error ''child max_iterations exceeds parent budget'')
    (raise_if (bg_max_tokens parent < bg_max_tokens child) (Permission_Error ''child max_tokens exceeds parent budget'')
       (Ok ())))"

definition normalize_workspace :: "policy_env \<Rightarrow> authority \<Rightarrow> workspace_request \<Rightarrow> workspace_policy result" where
  "normalize_workspace pe child w =
    (let mode = or_else (wr_mode w) ''isolated''; access = or_else (wr_access w) ''read-only'' in
     raise_if (mode \<notin> {''isolated'', ''shared''} \<or> access \<notin> {''read-only'', ''read-write''})
       (Value_Error ''invalid child workspace policy'')
    (and_then (if wr_root w \<noteq> [] then canonical_path pe (wr_root w) else Ok []) (\<lambda>dir.
     raise_if (dir \<noteq> [] \<and> dir \<notin> set (au_paths child) \<and> \<not> path_subset [dir] (au_paths child))
       (Permission_Error ''workspace root is outside child path authority'')
       (Ok \<lparr>wp_mode = mode, wp_access = access, wp_root = dir,
          wp_exclusive = or_else (wr_exclusive w) (access = ''read-write'')\<rparr>))))"

definition normalize_completion :: "completion_request \<Rightarrow> completion" where
  "normalize_completion m = \<lparr>cm_required_types = sort (remdups (mr_required_types m)),
     cm_summary_required = or_else (mr_summary_required m) True\<rparr>"

definition parent_contract :: "db \<Rightarrow> ident \<Rightarrow> contract_row option" where
  "parent_contract d tid = (case find (\<lambda>g. dg_child_task g = tid \<and> find_contract d (dg_id g) \<noteq> None) (delegations d) of
     None \<Rightarrow> None | Some g \<Rightarrow> find_contract d (dg_id g))"

definition authority_dict :: "authority \<Rightarrow> dict" where
  "authority_dict a = [(''paths'', JArr (map JStr (au_paths a))), (''effects'', JArr (map JStr (au_effects a))),
     (''network_targets'', JArr (map JStr (au_network_targets a))),
     (''remote_targets'', JArr (map JStr (au_remote_targets a))),
     (''secret_refs'', JArr (map JStr (au_secret_refs a)))]"

definition completion_dict :: "completion \<Rightarrow> dict" where
  "completion_dict m = [(''required_evidence_types'', JArr (map JStr (cm_required_types m))),
     (''summary_required'', JBool (cm_summary_required m))]"

text \<open>What a child inherits: the authority and the tools of the contract its parent task runs
  under, or those the caller states for a root delegation.\<close>

definition inherited :: "policy_env \<Rightarrow> contract_row option \<Rightarrow> child_request \<Rightarrow> (authority \<times> string list) result" where
  "inherited pe parent q = (case parent of
     Some p \<Rightarrow> Ok (dc_authority p, dc_tools p)
   | None \<Rightarrow> (case (ch_parent_authority q, ch_parent_tools q) of
       (Some a, Some tools) \<Rightarrow> and_then (normalize_authority pe a) (\<lambda>a. Ok (a, tools))
     | _ \<Rightarrow> Err (Value_Error ''root delegation requires explicit parent authority and tools'')))"

definition plan_contract ::
    "policy_env \<Rightarrow> time \<Rightarrow> contract_row option \<Rightarrow> child_request \<Rightarrow> (ident \<Rightarrow> contract_row) result" where
  "plan_contract pe stamp parent q =
     and_then (normalize_authority pe (ch_authority q)) (\<lambda>authority.
     let tools = first_only (ch_tools q); budget = normalize_budget (ch_budget q);
       completion = normalize_completion (ch_completion q) in
     and_then (inherited pe parent q) (\<lambda>(above, above_tools).
     and_then (require_subset authority above tools above_tools) (\<lambda>_.
     and_then (case parent of None \<Rightarrow> Ok () | Some p \<Rightarrow> require_budget budget (dc_budget p)) (\<lambda>_.
     and_then (normalize_workspace pe authority (ch_workspace q)) (\<lambda>workspace.
     Ok (\<lambda>did. \<lparr>dc_delegation = did, dc_parent = map_option dc_delegation parent, dc_tools = tools,
       dc_authority = authority, dc_budget = budget, dc_workspace = workspace,
       dc_completion = completion, dc_state = K_Created, dc_accepted = None,
       dc_acceptance_reason = [], dc_started_at = None, dc_deadline_at = None,
       dc_finished_at = None, dc_updated_at = stamp\<rparr>))))))"

definition create_child ::
    "orchestra \<Rightarrow> policy_env \<Rightarrow> env \<Rightarrow> (nat \<Rightarrow> ident) \<Rightarrow> ident \<Rightarrow> child_request \<Rightarrow> routed \<Rightarrow>
     contract_row result \<times> routed" where
  "create_child oc pe e ids parent q s =
     and_next (load_task (snd s) parent, s) (\<lambda>p s.
     and_next (plan_contract pe (now e) (parent_contract (snd s) parent) q, s) (\<lambda>contract s.
     let planned = contract [] in
     and_next (create_delegation oc e ids parent
       \<lparr>dq_goal = ch_goal q, dq_role = ch_role q, dq_capabilities = ch_capabilities q,
        dq_scope = authority_dict (dc_authority planned), dq_constraints = ch_constraints q,
        dq_permissions = dc_tools planned, dq_evidence_refs = ch_evidence_refs q,
        dq_expected = pe_json pe (JObj (completion_dict (dc_completion planned)))\<rparr> (Some contract) s)
     (\<lambda>r s. (load_contract (snd s) (dg_id r), s))))"

subsection \<open>Guarded moves of a contract\<close>

definition contract_state_name :: "contract_state \<Rightarrow> string" where
  "contract_state_name s = (case s of K_Created \<Rightarrow> ''created'' | K_Scheduled \<Rightarrow> ''scheduled''
     | K_Running \<Rightarrow> ''running'' | K_Cancellation_Requested \<Rightarrow> ''cancellation_requested''
     | K_Completed \<Rightarrow> ''completed'' | K_Failed \<Rightarrow> ''failed'' | K_Cancelled \<Rightarrow> ''cancelled''
     | K_Timed_Out \<Rightarrow> ''timed_out'' | K_Accepted \<Rightarrow> ''accepted'' | K_Rejected \<Rightarrow> ''rejected'')"

definition lease_current :: "env \<Rightarrow> ident \<Rightarrow> owner \<Rightarrow> db \<Rightarrow> bool" where
  "lease_current e did ow d = (case find_lease d (Delegation_Run, did) of None \<Rightarrow> False
     | Some r \<Rightarrow> ls_token r = ow_token ow \<and> now e < ls_expires_at r)"

text \<open>One \<^verbatim>\<open>UPDATE delegation_contracts\<close> that must hit its row\<close>

definition move_contract ::
    "ident \<Rightarrow> contract_state set \<Rightarrow> (contract_row \<Rightarrow> contract_row) \<Rightarrow> db \<Rightarrow> db result" where
  "move_contract did expected f d =
    (let P = (\<lambda>c. dc_delegation c = did \<and> dc_state c \<in> expected) in
     and_then (update_contracts P f d) (\<lambda>d'.
     raise_if (count_where P (delegation_contracts d) \<noteq> 1)
       (Runtime_Error ''delegation changed concurrently'') (Ok d')))"

definition set_contract_state ::
    "env \<Rightarrow> ident \<Rightarrow> contract_state \<Rightarrow> contract_state set \<Rightarrow> owner option \<Rightarrow> (contract_row \<Rightarrow> contract_row) \<Rightarrow>
     db \<Rightarrow> unit result \<times> db" where
  "set_contract_state e did state expected ow others = transact (\<lambda>d.
     raise_if (case ow of None \<Rightarrow> False | Some x \<Rightarrow> \<not> lease_current e did x d)
       (Runtime_Error ''delegation changed concurrently'')
    (and_then (move_contract did expected
       (\<lambda>c. (others c)\<lparr>dc_state := state, dc_updated_at := now e\<rparr>) d) (\<lambda>d'. Ok ((), d'))))"

definition finish_in_transaction ::
    "env \<Rightarrow> owner \<Rightarrow> delegation_row \<Rightarrow> contract_state \<Rightarrow> result_status \<Rightarrow> string \<Rightarrow> dict \<Rightarrow> bool \<Rightarrow> db \<Rightarrow>
     (unit \<times> db) result" where
  "finish_in_transaction e ow g state status summary result update_child d =
    (let did = dg_id g in
     raise_if (\<not> lease_current e did ow d) (Runtime_Error ''delegation is not owned by this executor'')
    (and_then (move_contract did {K_Scheduled, K_Running, K_Cancellation_Requested}
       (\<lambda>c. c\<lparr>dc_state := state, dc_updated_at := now e, dc_finished_at := Some (now e)\<rparr>) d) (\<lambda>d1.
     and_then (record_result (now e) did status summary result
       (Runtime_Error ''delegation result changed concurrently'') d1) (\<lambda>d2.
     and_then (if update_child then end_child e (Some ow) (dg_child_task g) (child_state_of status)
         (''delegation-'' @ contract_state_name state) False d2 else Ok d2) (\<lambda>d3.
     Ok ((), d3\<lparr>resource_leases := delete_where (\<lambda>r. on_lease (Delegation_Run, did) r \<and>
       ls_token r = ow_token ow) (resource_leases d3)\<rparr>))))))"

definition finish_execution ::
    "env \<Rightarrow> ident \<Rightarrow> owner \<Rightarrow> ident \<Rightarrow> contract_state \<Rightarrow> result_status \<Rightarrow> string \<Rightarrow> dict \<Rightarrow> bool \<Rightarrow> db \<Rightarrow>
     contract_row result \<times> db" where
  "finish_execution e uuid ow did state status summary result update_child d =
     and_next (load_delegation d did, d) (\<lambda>g d.
     and_next (transact (finish_in_transaction e ow g state status summary result update_child) d) (\<lambda>_ d.
     and_next (append_event (now e) uuid (dg_child_task g)
       (if status \<in> {Success, Partial} then ''result'' else ''error'') summary None
       [(''delegation_id'', JStr did), (''status'', JStr (result_status_name status))] ''normal'' d) (\<lambda>_ d.
     (load_contract d did, d))))"

subsection \<open>Executors\<close>

text \<open>What the executor is given, and the three protocols.  \<open>invoke\<close> is called once; each
  \<open>next\<close> of an iterator is one entry of \<open>it_next\<close>, numbered from 1.  An executor may change the
  store in any way.\<close>

record child_context =
  cx_delegation :: ident
  cx_task :: ident
  cx_goal :: string
  cx_contract :: contract_row

datatype iteration = Step json bool | Other_Value | Stop_Iteration | Step_Raises error

record iterator =
  it_next :: "nat \<Rightarrow> db \<Rightarrow> iteration \<times> db"
  it_close :: "(db \<Rightarrow> unit result \<times> db) option"

record loop_limits =
  lm_iterations :: int
  lm_seconds :: rat

record loop_outcome =
  lo_state :: string
  lo_reason :: string
  lo_iterations :: int

record agent_loop =
  al_is_loop :: bool
  al_limits :: loop_limits
  al_run :: "db \<Rightarrow> loop_outcome result \<times> db"
  al_close :: "db \<Rightarrow> bool result \<times> db"

datatype child_executor =
    Atomic "child_context \<Rightarrow> db \<Rightarrow> json result \<times> db"
  | Iterative "child_context \<Rightarrow> db \<Rightarrow> iterator option result \<times> db"
  | Agent_Loop "child_context \<Rightarrow> loop_limits \<Rightarrow> db \<Rightarrow> agent_loop result \<times> db"

definition is_atomic :: "child_executor \<Rightarrow> bool" where
  "is_atomic x = (case x of Atomic _ \<Rightarrow> True | _ \<Rightarrow> False)"

definition result_object :: "json \<Rightarrow> dict result" where
  "result_object v = (case v of
     JObj m \<Rightarrow> raise_if (map_of m ''iterations'' \<noteq> None)
       (Type_Error ''child executor must not self-report iteration counts'') (Ok m)
   | _ \<Rightarrow> Err (Type_Error ''child executor result must be an object''))"

text \<open>The loop over the steps: \<open>left\<close> iterations remain, \<open>n\<close> were done, \<open>seen\<close> is what each
  check of the cancellation event finds.\<close>

fun iterate_steps ::
    "(nat \<Rightarrow> db \<Rightarrow> iteration \<times> db) \<Rightarrow> (nat \<Rightarrow> bool) \<Rightarrow> nat \<Rightarrow> nat \<Rightarrow> dict \<Rightarrow> db \<Rightarrow> dict result \<times> db" where
  "iterate_steps step seen 0 n final d =
     (if seen (Suc n) then Ok final else Err (Runtime_Error ''child exceeded delegated iteration budget''), d)"
| "iterate_steps step seen (Suc left) n final d =
     (if seen (Suc n) then (Ok final, d) else
      case step (Suc n) d of
        (Stop_Iteration, d') \<Rightarrow> (Err (Value_Error ''child iterative executor ended without a terminal step''), d')
      | (Other_Value, d') \<Rightarrow> (Err (Type_Error ''child iteration must yield DelegationStep''), d')
      | (Step_Raises x, d') \<Rightarrow> (Err x, d')
      | (Step value done, d') \<Rightarrow> and_next (result_object value, d') (\<lambda>m d'.
          if done then (Ok m, d') else iterate_steps step seen left (Suc n) m d'))"

text \<open>\<^verbatim>\<open>finally: close()\<close>: an error of the loop wins over one of the close.\<close>

definition closing :: "(db \<Rightarrow> unit result \<times> db) option \<Rightarrow> 'a result \<times> db \<Rightarrow> 'a result \<times> db" where
  "closing close r = (case close of None \<Rightarrow> r | Some f \<Rightarrow> (case f (snd r) of (c, d') \<Rightarrow>
     (case fst r of Inl x \<Rightarrow> (Inl x, d') | Inr v \<Rightarrow> (and_then c (\<lambda>_. Ok v), d'))))"

definition loop_summary :: "int \<Rightarrow> bool \<Rightarrow> loop_outcome \<Rightarrow> dict result" where
  "loop_summary maximum quiescent outcome =
     raise_if (\<not> quiescent) (Runtime_Error ''delegated AgentLoop cancellation did not quiesce'')
    (raise_if (maximum < lo_iterations outcome \<or> lo_state outcome = ''paused'' \<and>
         lo_reason outcome = ''iteration budget exhausted'')
       (Runtime_Error ''child exceeded delegated iteration budget'')
    (raise_if (lo_state outcome \<noteq> ''completed'') (Runtime_Error ''delegated AgentLoop stopped'')
       (Ok [(''summary'', JStr (lo_reason outcome)), (''agent_state'', JStr (lo_state outcome)),
            (''execution_iterations'', JInt (lo_iterations outcome))])))"

text \<open>An error of \<^verbatim>\<open>close\<close> replaces the one of \<^verbatim>\<open>run\<close>: it is raised in the \<^verbatim>\<open>finally\<close> block.\<close>

definition run_agent_loop :: "int \<Rightarrow> agent_loop \<Rightarrow> db \<Rightarrow> dict result \<times> db" where
  "run_agent_loop maximum loop d = (case al_run loop d of (finished, d1) \<Rightarrow>
     and_next (al_close loop d1) (\<lambda>quiescent d2.
     (and_then finished (loop_summary maximum quiescent), d2)))"

definition execute_bounded ::
    "child_executor \<Rightarrow> child_context \<Rightarrow> (nat \<Rightarrow> bool) \<Rightarrow> db \<Rightarrow> dict result \<times> db" where
  "execute_bounded x cx seen d =
    (let budget = dc_budget (cx_contract cx); maximum = bg_max_iterations budget in
     if seen 0 then (Ok [], d) else
     case x of
       Atomic invoke \<Rightarrow> and_next (invoke cx d) (\<lambda>v d. (result_object v, d))
     | Agent_Loop build \<Rightarrow>
         (let limits = \<lparr>lm_iterations = maximum, lm_seconds = bg_max_seconds budget\<rparr> in
          and_next (build cx limits d) (\<lambda>loop d.
          if \<not> al_is_loop loop then (Err (Type_Error ''AgentLoop delegation builder must return AgentLoop''), d)
          else if maximum < lm_iterations (al_limits loop) \<or> lm_seconds limits < lm_seconds (al_limits loop)
          then (Err (Permission_Error ''delegated AgentLoop widened its execution budget''), d)
          else run_agent_loop maximum loop d))
     | Iterative invoke \<Rightarrow> and_next (invoke cx d) (\<lambda>it d.
         case it of
           None \<Rightarrow> (Err (Type_Error ''iterative child executor must return a delegation-step iterator''), d)
         | Some i \<Rightarrow> closing (it_close i) (iterate_steps (it_next i) seen (nat maximum) 0 [] d)))"

subsection \<open>Starting a child\<close>

record child_run =
  cr_owner :: owner
  cr_event :: bool

type_synonym child_runs = "(ident \<times> child_run) list"

text \<open>\<^verbatim>\<open>timedelta(seconds=x)\<close>: microseconds, half to even\<close>

definition microseconds :: "rat \<Rightarrow> time" where
  "microseconds x = (let y = x * 1000000; f = floor y in
     if y - of_int f < 1 / 2 then f else if 1 / 2 < y - of_int f then f + 1
     else if even f then f else f + 1)"

definition start_in_transaction ::
    "env \<Rightarrow> owner \<Rightarrow> time \<Rightarrow> ident \<Rightarrow> ident \<Rightarrow> db \<Rightarrow> (bool \<times> db) result" where
  "start_in_transaction e ow deadline did child d = (case find_contract d did of
     None \<Rightarrow> Err (Key_Error ''unknown delegation contract'')
   | Some c \<Rightarrow>
       raise_if (dc_state c \<notin> {K_Created, K_Scheduled, K_Running}) (Runtime_Error ''delegation is already ended'')
      (let claimed = claim_in_transaction e (Delegation_Run, did) ow (seconds 30)
             [(''child_task_id'', JStr child)] d in
       raise_if (\<not> fst claimed) (Runtime_Error ''delegation already has a live executor'')
      (if dc_state c = K_Running then Ok (True, snd claimed)
       else and_then (move_contract did {K_Created, K_Scheduled}
           (\<lambda>c. c\<lparr>dc_state := K_Scheduled, dc_deadline_at := Some deadline, dc_updated_at := now e\<rparr>) (snd claimed))
         (\<lambda>d'. Ok (False, d')))))"

text \<open>\<open>submitted\<close> is the error of \<^verbatim>\<open>_EXECUTOR.submit\<close>, if it raises.\<close>

definition start_child ::
    "env \<Rightarrow> ident \<Rightarrow> owner \<Rightarrow> child_executor \<Rightarrow> error option \<Rightarrow> ident \<Rightarrow> child_runs \<times> db \<Rightarrow> unit result \<times> (child_runs \<times> db)" where
  "start_child e uuid ow x submitted did s =
     and_next (load_contract (snd s) did, s) (\<lambda>contract s.
     if is_atomic x \<and> bg_max_iterations (dc_budget contract) \<noteq> 1
     then (Err (Value_Error ''atomic delegation requires max_iterations=1''), s) else
     and_next (load_delegation (snd s) did, s) (\<lambda>g s.
     and_next (on_db (transact (start_in_transaction e ow
       (now e + microseconds (bg_max_seconds (dc_budget contract))) did (dg_child_task g))) s) (\<lambda>stale s.
     if stale then
       and_next (on_db (finish_execution e uuid ow did K_Failed Status_Failed
         ''previous child execution owner was lost; outcome is ambiguous''
         [(''owner_lost'', JBool True), (''replayed'', JBool False)] True) s) (\<lambda>_ s.
       (Err (Runtime_Error ''stale running delegation was not replayed''), s))
     else (case submitted of
       None \<Rightarrow> (Ok (), (AList.update did \<lparr>cr_owner = ow, cr_event = False\<rparr> (fst s), snd s))
     | Some err \<Rightarrow>
         and_next (on_db (finish_execution e uuid ow did K_Failed Status_Failed (error_text err)
           [(''submission_failed'', JBool True), (''error'', JStr (error_text err))] True) s) (\<lambda>_ s.
         (Err err, s))))))"

subsection \<open>Running a child\<close>

text \<open>What the worker sees: the clock at each operation, the cancellation event before it starts
  (\<open>ob_cancelled\<close>), at the checks of the loop and after it, the timer after the loop and in the
  error handler, and the clock at each attempt to lock the workspace before it gives up.\<close>

record observed =
  ob_env :: "nat \<Rightarrow> env"
  ob_ids :: "nat \<Rightarrow> ident"
  ob_cancelled :: bool
  ob_seen :: "nat \<Rightarrow> bool"
  ob_timed_out :: bool
  ob_cancelled_after :: bool
  ob_expired :: bool
  ob_attempts :: "env list"

definition with_release :: "env \<Rightarrow> resource \<Rightarrow> owner \<Rightarrow> 'a result \<times> db \<Rightarrow> 'a result \<times> db" where
  "with_release e res ow r = (fst r, snd (release e res ow (snd r)))"

fun lock_workspace :: "env list \<Rightarrow> string \<Rightarrow> owner \<Rightarrow> time \<Rightarrow> dict \<Rightarrow> db \<Rightarrow> bool \<times> db" where
  "lock_workspace [] key ow lease metadata d = (False, d)"
| "lock_workspace (e # es) key ow lease metadata d =
    (case claim_workspace e key ow lease metadata d of (got, d') \<Rightarrow>
       if got then (True, d') else lock_workspace es key ow lease metadata d')"

text \<open>The error handler: an open contract is finished as failed or timed out, and a
  \<^verbatim>\<open>RuntimeError\<close> of that is swallowed; the first error goes on.\<close>

definition fail_child :: "observed \<Rightarrow> owner \<Rightarrow> ident \<Rightarrow> bool \<Rightarrow> error \<Rightarrow> db \<Rightarrow> contract_row result \<times> db" where
  "fail_child ob ow did update_child err d =
     and_next (load_contract d did, d) (\<lambda>c d.
     if terminal_contract (dc_state c) then (Err err, d) else
     (case finish_execution (ob_env ob 4) (ob_ids ob 4) ow did (if ob_expired ob then K_Timed_Out else K_Failed)
        Status_Failed (error_text err) [(''error'', JStr (error_text err))] update_child d of
        (Inl (Runtime_Error m), d') \<Rightarrow> (Err err, d')
      | (Inl x, d') \<Rightarrow> (Err x, d')
      | (Inr _, d') \<Rightarrow> (Err err, d')))"

definition guarded :: "observed \<Rightarrow> owner \<Rightarrow> ident \<Rightarrow> contract_row result \<times> db \<Rightarrow> contract_row result \<times> db" where
  "guarded ob ow did r = (case fst r of Inl err \<Rightarrow> fail_child ob ow did True err (snd r) | Inr _ \<Rightarrow> r)"

definition conclude_child ::
    "policy_env \<Rightarrow> observed \<Rightarrow> owner \<Rightarrow> contract_row \<Rightarrow> dict \<Rightarrow> db \<Rightarrow> contract_row result \<times> db" where
  "conclude_child pe ob ow contract result d =
    (let did = dc_delegation contract; finish = finish_execution (ob_env ob 3) (ob_ids ob 3) ow did in
     and_next (if ob_timed_out ob then
         finish K_Timed_Out Status_Failed ''child timed out'' [(''timed_out'', JBool True)] True d
       else if ob_cancelled_after ob then
         finish K_Cancelled Status_Cancelled ''cancelled'' [(''cancelled'', JBool True)] True d
       else
         let summary = (case map_of result ''summary'' of None \<Rightarrow> [] | Some v \<Rightarrow> strip (str_of pe v)) in
         if cm_summary_required (dc_completion contract) \<and> summary = []
         then (Err (Value_Error ''child completion summary is required''), d)
         else finish K_Completed Success summary result True d)
     (\<lambda>_ d. (load_contract d did, d)))"

definition begin_execution :: "observed \<Rightarrow> owner \<Rightarrow> ident \<Rightarrow> ident \<Rightarrow> db \<Rightarrow> unit result \<times> db" where
  "begin_execution ob ow did child d =
    (let e = ob_env ob 2 in
     and_next (set_contract_state e did K_Running {K_Scheduled} (Some ow)
       (\<lambda>c. c\<lparr>dc_started_at := Some (now e)\<rparr>) d) (\<lambda>_ d.
     and_next (update_task e (ob_ids ob) Ok (\<lambda>_. []) None (Some ow)
       (no_update\<lparr>up_state := Some T_Running, up_phase := Some ''delegated-running''\<rparr>) None child d) (\<lambda>_ d.
     (Ok (), d))))"

definition execute_child ::
    "policy_env \<Rightarrow> observed \<Rightarrow> owner \<Rightarrow> child_executor \<Rightarrow> contract_row \<Rightarrow> delegation_row \<Rightarrow> db \<Rightarrow> contract_row result \<times> db" where
  "execute_child pe ob ow x contract g d =
    (let did = dc_delegation contract in
     if ob_cancelled ob then finish_execution (ob_env ob 2) (ob_ids ob 3) ow did K_Cancelled Status_Cancelled
       ''cancelled before execution'' [(''cancelled'', JBool True)] True d
     else
       and_next (begin_execution ob ow did (dg_child_task g) d) (\<lambda>_ d.
       and_next (execute_bounded x \<lparr>cx_delegation = did, cx_task = dg_child_task g, cx_goal = dg_goal g,
         cx_contract = contract\<rparr> (ob_seen ob) d) (\<lambda>result d.
       conclude_child pe ob ow contract result d)))"

definition run_child ::
    "policy_env \<Rightarrow> observed \<Rightarrow> owner \<Rightarrow> child_executor \<Rightarrow> contract_row \<Rightarrow> delegation_row \<Rightarrow> db \<Rightarrow> contract_row result \<times> db" where
  "run_child pe ob ow x contract g d =
    (let did = dc_delegation contract; child = dg_child_task g; w = dc_workspace contract;
       lease = max (seconds 30) (microseconds (bg_max_seconds (dc_budget contract) + 5));
       execute = (\<lambda>d. guarded ob ow did (execute_child pe ob ow x contract g d)) in
     case load_contract d did of
       Inl err \<Rightarrow> fail_child ob ow did True err d
     | Inr current \<Rightarrow>
         if dc_state current = K_Cancellation_Requested then
           guarded ob ow did (finish_execution (ob_env ob 0) (ob_ids ob 3) ow did K_Cancelled Status_Cancelled
             ''cancelled before start'' [(''cancelled'', JBool True)] True d)
         else (case claim (ob_env ob 0) (Task_Execution, child) ow lease
             [(''engine'', JStr ''delegation''), (''delegation_id'', JStr did)] d of (got, d1) \<Rightarrow>
           if \<not> got then fail_child ob ow did False
             (Runtime_Error ''task already has a live execution owner'') d1
           else with_release (ob_env ob 5) (Task_Execution, child) ow
             (if wp_exclusive w \<and> wp_root w \<noteq> [] then
                (case lock_workspace (ob_attempts ob) (wp_root w) ow lease
                    [(''delegation_id'', JStr did)] d1 of (locked, d2) \<Rightarrow>
                  if \<not> locked then fail_child ob ow did True (Timeout_Error ''workspace lock timeout'') d2
                  else with_release (ob_env ob 5) (Workspace, wp_root w) ow (execute d2))
              else execute d1)))"

subsection \<open>Cancelling, joining and accepting\<close>

record cancel_view =
  cv_requested :: bool
  cv_contract_state :: contract_state
  cv_cancelled :: bool

text \<open>A cancellation without a worker in this process takes the executor's lease over.\<close>

definition recover_cancelled ::
    "env \<Rightarrow> ident \<Rightarrow> owner \<Rightarrow> ident \<Rightarrow> string \<Rightarrow> dict \<Rightarrow> db \<Rightarrow> bool result \<times> db" where
  "recover_cancelled e uuid ow did summary result d =
    (case claim e (Delegation_Run, did) ow (seconds 30) [(''cancellation_recovery'', JBool True)] d of (got, d1) \<Rightarrow>
       if got then and_next (finish_execution e uuid ow did K_Cancelled Status_Cancelled summary result True d1)
         (\<lambda>_ d. (Ok True, d))
       else (Ok False, d1))"

definition request_cancellation :: "env \<Rightarrow> ident \<Rightarrow> db \<Rightarrow> nat result \<times> db" where
  "request_cancellation e did = transact (\<lambda>d.
    (let P = (\<lambda>c. dc_delegation c = did \<and> dc_state c \<in> {K_Created, K_Scheduled, K_Running}) in
     and_then (update_contracts P (\<lambda>c. c\<lparr>dc_state := K_Cancellation_Requested, dc_updated_at := now e\<rparr>) d)
     (\<lambda>d'. Ok (count_where P (delegation_contracts d), d'))))"

text \<open>\<open>pending\<close> is what \<^verbatim>\<open>future.cancel()\<close> returns: whether no worker had taken the child yet.\<close>

definition cancel_child ::
    "env \<Rightarrow> ident \<Rightarrow> owner \<Rightarrow> bool \<Rightarrow> ident \<Rightarrow> child_runs \<times> db \<Rightarrow> cancel_view result \<times> (child_runs \<times> db)" where
  "cancel_child e uuid ow pending did s =
     and_next (load_contract (snd s) did, s) (\<lambda>contract s.
     if terminal_contract (dc_state contract)
     then (Ok \<lparr>cv_requested = False, cv_contract_state = dc_state contract,
       cv_cancelled = dc_state contract = K_Cancelled\<rparr>, s) else
     and_next (on_db (request_cancellation e did) s) (\<lambda>changed s.
     let run = map_of (fst s) did; done = \<lparr>cv_requested = True, cv_contract_state = K_Cancelled, cv_cancelled = True\<rparr> in
     if changed = 0 then
       and_next (load_contract (snd s) did, s) (\<lambda>current s.
       and_next (if run = None \<and> dc_state current = K_Cancellation_Requested
         then on_db (recover_cancelled e uuid ow did ''cancelled after execution owner loss''
           [(''cancelled'', JBool True), (''owner_lost'', JBool True)]) s
         else (Ok False, s)) (\<lambda>recovered s.
       (Ok (if recovered then done else \<lparr>cv_requested = dc_state current = K_Cancellation_Requested,
         cv_contract_state = dc_state current, cv_cancelled = dc_state current = K_Cancelled\<rparr>), s)))
     else (case run of
       None \<Rightarrow> and_next (on_db (recover_cancelled e uuid ow did ''cancelled before start''
           [(''cancelled'', JBool True)]) s) (\<lambda>recovered s.
         (Ok (if recovered then done else \<lparr>cv_requested = True, cv_contract_state = K_Cancellation_Requested,
           cv_cancelled = False\<rparr>), s))
     | Some r \<Rightarrow>
         let s1 = (AList.update did (r\<lparr>cr_event := True\<rparr>) (fst s), snd s) in
         if pending then
           and_next (on_db (finish_execution e uuid (cr_owner r) did K_Cancelled Status_Cancelled
             ''cancelled before start'' [(''cancelled'', JBool True)] True) s1) (\<lambda>_ s.
           (Ok done, s))
         else (Ok \<lparr>cv_requested = True, cv_contract_state = K_Cancellation_Requested, cv_cancelled = False\<rparr>, s1))))"

text \<open>What waiting for the worker's future gives: nothing within the time, its cancellation, or
  its outcome.\<close>

datatype waited = Not_Yet | Future_Cancelled | Returned "contract_row result"

definition join_child :: "ident \<Rightarrow> waited option \<Rightarrow> db \<Rightarrow> (contract_state \<times> bool) result" where
  "join_child did run d =
    (let joined = and_then (load_contract d did) (\<lambda>c. Ok (dc_state c, terminal_contract (dc_state c)));
       missed = and_then (load_contract d did) (\<lambda>c. Ok (dc_state c, False)) in
     case run of
       Some Not_Yet \<Rightarrow> missed
     | Some (Returned (Inl (Timeout_Error m))) \<Rightarrow> missed
     | Some (Returned (Inl x)) \<Rightarrow> and_then (load_contract d did) (\<lambda>c.
         if terminal_contract (dc_state c) then joined else Err x)
     | _ \<Rightarrow> joined)"

text \<open>\<^verbatim>\<open>tuple(map(str, result.get("evidence_ids", ())))\<close>\<close>

definition evidence_ids :: "policy_env \<Rightarrow> dict \<Rightarrow> ident list result" where
  "evidence_ids pe result = (case map_of result ''evidence_ids'' of
     None \<Rightarrow> Ok []
   | Some (JArr xs) \<Rightarrow> Ok (map (str_of pe) xs)
   | Some (JStr s) \<Rightarrow> Ok (map (\<lambda>c. [c]) s)
   | Some (JObj m) \<Rightarrow> Ok (map fst m)
   | Some _ \<Rightarrow> Err (Type_Error ''object is not iterable''))"

fun evidence_types :: "db \<Rightarrow> ident \<Rightarrow> ident list \<Rightarrow> string list result" where
  "evidence_types d child [] = Ok []"
| "evidence_types d child (eid # eids) = and_then (load_evidence eid d) (\<lambda>v.
     raise_if (ev_task v \<noteq> Some child)
       (Permission_Error ''child result references evidence owned by another task'')
    (and_then (evidence_types d child eids) (\<lambda>types. Ok (ev_type v # types))))"

definition accept_child ::
    "policy_env \<Rightarrow> env \<Rightarrow> ident \<Rightarrow> bool \<Rightarrow> string \<Rightarrow> ident \<Rightarrow> db \<Rightarrow> contract_row result \<times> db" where
  "accept_child pe e uuid accept reason did d =
     and_next (load_contract d did, d) (\<lambda>contract d.
     and_next (load_delegation d did, d) (\<lambda>g d.
     if dc_state contract \<noteq> K_Completed
     then (Err (Runtime_Error ''only completed child work can be accepted''), d) else
     and_next (evidence_ids pe (dg_result g), d) (\<lambda>eids d.
     and_next (evidence_types d (dg_child_task g) eids, d) (\<lambda>types d.
     if accept \<and> \<not> set (cm_required_types (dc_completion contract)) \<subseteq> set types
     then (Err (Value_Error ''child completion evidence is incomplete''), d)
     else if accept \<and> cm_summary_required (dc_completion contract) \<and> strip (dg_result_summary g) = []
     then (Err (Value_Error ''child completion summary is required''), d) else
     and_next (set_contract_state e did (if accept then K_Accepted else K_Rejected) {K_Completed} None
       (\<lambda>c. c\<lparr>dc_accepted := Some accept, dc_acceptance_reason := reason\<rparr>) d) (\<lambda>_ d.
     and_next (append_event (now e) uuid (dg_parent_task g) ''delegation''
       (''Child result '' @ (if accept then ''accepted'' else ''rejected'') @ '': '' @ did) None
       [(''delegation_id'', JStr did), (''accepted'', JBool accept),
        (''evidence_ids'', JArr (map JStr eids)), (''reason'', JStr reason)] ''normal'' d) (\<lambda>_ d.
     (load_contract d did, d)))))))"

end
