(* ===== verification/Delegation_Safety.thy ===== *)
theory Delegation_Safety
  imports Delegation Samples
begin

section \<open>What delegation guarantees\<close>

text \<open>
  A contract's authority never changes and lies within the contract above it, so that a child can
  do nothing its ancestors may not do; a contract moves only along \<open>contract_moves\<close>, the abstract
  state machine of a child, and stays where it was settled (interpretations of \<open>state_machine\<close>
  and \<open>lifecycle\<close>).  Beside that, what finishing, accepting and bounded iteration establish.
\<close>

subsection \<open>The order of authorities\<close>

definition authority_below :: "authority \<Rightarrow> authority \<Rightarrow> bool" where
  "authority_below a b = (path_subset (au_paths a) (au_paths b) \<and> set (au_effects a) \<subseteq> set (au_effects b) \<and>
     set (au_network_targets a) \<subseteq> set (au_network_targets b) \<and>
     set (au_remote_targets a) \<subseteq> set (au_remote_targets b) \<and> set (au_secret_refs a) \<subseteq> set (au_secret_refs b))"

definition contract_below :: "contract_row \<Rightarrow> contract_row \<Rightarrow> bool" where
  "contract_below c p = (set (dc_tools c) \<subseteq> set (dc_tools p) \<and> authority_below (dc_authority c) (dc_authority p) \<and>
     bg_max_seconds (dc_budget c) \<le> bg_max_seconds (dc_budget p) \<and>
     bg_max_iterations (dc_budget c) \<le> bg_max_iterations (dc_budget p) \<and>
     bg_max_tokens (dc_budget c) \<le> bg_max_tokens (dc_budget p))"

lemma starts_with_append: "starts_with s p \<longleftrightarrow> (\<exists>t. s = p @ t)"
  unfolding starts_with_def by (metis append_eq_conv_conj append_take_drop_id)

lemma starts_with_trans: "starts_with a b \<Longrightarrow> starts_with b c \<Longrightarrow> starts_with a c"
  by (auto simp: starts_with_append)

lemma as_prefix_step: "starts_with r (as_prefix q) \<Longrightarrow> starts_with (as_prefix r) (as_prefix q)"
proof -
  let ?strip = "\<lambda>s. dropWhile (\<lambda>c. c = CHR ''/'') (rev s)"
  assume "starts_with r (as_prefix q)"
  then obtain t where r: "r = as_prefix q @ t" by (auto simp: starts_with_append)
  show ?thesis
  proof (cases "\<forall>c \<in> set t. c = CHR ''/''")
    case True
    then have "?strip r = ?strip q"
      by (simp add: r as_prefix_def rstrip_char_def dropWhile_append)
    then show ?thesis by (simp add: as_prefix_def rstrip_char_def starts_with_append)
  next
    case False
    then have "?strip r = dropWhile (\<lambda>c. c = CHR ''/'') (rev t) @ rev (as_prefix q)"
      by (auto simp: r dropWhile_append1)
    then have "as_prefix r = as_prefix q @ rev (dropWhile (\<lambda>c. c = CHR ''/'') (rev t)) @ ''/''"
      by (simp add: as_prefix_def [of r] rstrip_char_def)
    then show ?thesis by (auto simp: starts_with_append)
  qed
qed

lemma path_subset_iff:
  "path_subset xs ys \<longleftrightarrow> (\<forall>v \<in> set xs. \<exists>r \<in> set ys. v = r \<or> starts_with v (as_prefix r))"
  by (simp add: path_subset_def list_all_iff list_ex_iff)

lemma path_subset_refl [simp]: "path_subset xs xs"
  by (auto simp: path_subset_iff)

lemma path_subset_trans:
  assumes "path_subset xs ys" and "path_subset ys zs"
  shows "path_subset xs zs"
proof -
  have "v = q \<or> starts_with v (as_prefix q)"
    if "v = r \<or> starts_with v (as_prefix r)" and "r = q \<or> starts_with r (as_prefix q)" for v r q
    using that as_prefix_step [of r q] starts_with_trans by blast
  with assms show ?thesis
    unfolding path_subset_iff by meson
qed

lemma authority_below_refl [simp]: "authority_below a a"
  by (simp add: authority_below_def)

lemma authority_below_trans: "authority_below a b \<Longrightarrow> authority_below b c \<Longrightarrow> authority_below a c"
  unfolding authority_below_def using path_subset_trans by blast

lemma contract_below_refl [simp]: "contract_below c c"
  by (simp add: contract_below_def)

lemma contract_below_trans: "contract_below a b \<Longrightarrow> contract_below b c \<Longrightarrow> contract_below a c"
  unfolding contract_below_def using authority_below_trans by fastforce

subsection \<open>How a contract may change\<close>

text \<open>The abstract machine of a child: the states it may be found in later\<close>

fun contract_moves :: "contract_state \<Rightarrow> contract_state set" where
  "contract_moves K_Created = UNIV"
| "contract_moves K_Scheduled = UNIV - {K_Created}"
| "contract_moves K_Running = UNIV - {K_Created, K_Scheduled}"
| "contract_moves K_Cancellation_Requested = UNIV - {K_Created, K_Scheduled, K_Running}"
| "contract_moves K_Completed = {K_Completed, K_Accepted, K_Rejected}"
| "contract_moves s = {s}"

definition settled_contract :: "contract_row \<Rightarrow> bool" where
  "settled_contract c = (dc_state c \<in> {K_Failed, K_Cancelled, K_Timed_Out, K_Accepted, K_Rejected})"

definition contract_advances :: "contract_row \<Rightarrow> contract_row \<Rightarrow> bool" where
  "contract_advances c c' = (dc_delegation c' = dc_delegation c \<and> dc_parent c' = dc_parent c \<and>
     dc_tools c' = dc_tools c \<and> dc_authority c' = dc_authority c \<and> dc_budget c' = dc_budget c \<and>
     dc_workspace c' = dc_workspace c \<and> dc_completion c' = dc_completion c \<and>
     dc_state c' \<in> contract_moves (dc_state c) \<and> (settled_contract c \<longrightarrow> c' = c))"

lemma contract_moves_refl [simp]: "s \<in> contract_moves s"
  by (cases s) auto

lemma contract_moves_trans: "b \<in> contract_moves a \<Longrightarrow> c \<in> contract_moves b \<Longrightarrow> c \<in> contract_moves a"
  by (cases a; cases b; auto)

lemma contract_advances_refl [simp]: "contract_advances c c"
  by (simp add: contract_advances_def)

lemma contract_advances_trans: "contract_advances a b \<Longrightarrow> contract_advances b c \<Longrightarrow> contract_advances a c"
  unfolding contract_advances_def by (auto intro: contract_moves_trans)

lemma contract_below_advances:
  "contract_advances c c' \<Longrightarrow> contract_advances p p' \<Longrightarrow> contract_below c' p' = contract_below c p"
  by (simp add: contract_advances_def contract_below_def)

text \<open>Every contract with a parent lies within it; and what one operation makes of the table\<close>

definition contracts_narrow :: "db \<Rightarrow> bool" where
  "contracts_narrow d = (\<forall>did c p. find_contract d did = Some c \<longrightarrow> dc_parent c = Some p \<longrightarrow>
     (\<exists>a. find_contract d p = Some a \<and> contract_below c a))"

definition contracts_kept :: "db \<Rightarrow> db \<Rightarrow> bool" where
  "contracts_kept d d' =
    ((\<forall>did c. find_contract d did = Some c \<longrightarrow> (\<exists>c'. find_contract d' did = Some c' \<and> contract_advances c c')) \<and>
     (contracts_narrow d \<longrightarrow> contracts_narrow d'))"

lemma contracts_kept_refl [simp]: "contracts_kept d d"
  by (simp add: contracts_kept_def)

lemma contracts_kept_trans: "contracts_kept d d1 \<Longrightarrow> contracts_kept d1 d2 \<Longrightarrow> contracts_kept d d2"
  unfolding contracts_kept_def using contract_advances_trans by meson

lemma contracts_kept_same: "delegation_contracts d2 = delegation_contracts d1 \<Longrightarrow> contracts_kept d1 d2"
  by (simp add: contracts_kept_def contracts_narrow_def find_contract_def)

lemma find_contract_update:
  assumes "\<And>c. dc_delegation (f c) = dc_delegation c"
    and "delegation_contracts d' = update_where P f (delegation_contracts d)"
  shows "find_contract d' did = map_option (\<lambda>c. if P c then f c else c) (find_contract d did)"
  using assms by (simp add: find_contract_def select_one_update_where)

lemma contracts_kept_update:
  assumes adv: "\<And>c. P c \<Longrightarrow> contract_advances c (f c)" and key: "\<And>c. dc_delegation (f c) = dc_delegation c"
    and d': "delegation_contracts d' = update_where P f (delegation_contracts d)"
  shows "contracts_kept d d'"
proof -
  let ?g = "\<lambda>c. if P c then f c else c"
  have g: "contract_advances c (?g c)" for c
    using adv by simp
  have below: "contract_below (?g c) (?g p) = contract_below c p" and par: "dc_parent (?g c) = dc_parent c" for c p
    using contract_below_advances [OF g g, of c p] g [of c] by (simp_all add: contract_advances_def)
  have find: "find_contract d' did = map_option ?g (find_contract d did)" for did
    by (rule find_contract_update [OF key d'])
  have "contracts_narrow d'" if narrow: "contracts_narrow d"
    unfolding contracts_narrow_def
  proof (intro allI impI)
    fix did c' p
    assume "find_contract d' did = Some c'" and parent: "dc_parent c' = Some p"
    then obtain c where c: "find_contract d did = Some c" "c' = ?g c"
      by (auto simp: find)
    with parent par have "dc_parent c = Some p" by metis
    with c narrow obtain a where "find_contract d p = Some a" "contract_below c a"
      unfolding contracts_narrow_def by blast
    then show "\<exists>a. find_contract d' p = Some a \<and> contract_below c' a"
      using below c(2) by (simp add: find del: if_split)
  qed
  with g show ?thesis
    by (auto simp: contracts_kept_def find simp del: if_split)
qed

lemma contracts_kept_insert:
  assumes "insert_contract c d = Ok d'"
    and below: "\<And>p. dc_parent c = Some p \<Longrightarrow> \<exists>a. find_contract d p = Some a \<and> contract_below c a"
  shows "contracts_kept d d'"
proof -
  have fresh: "find_contract d (dc_delegation c) = None"
    using assms(1) by (auto simp: insert_contract_def find_contract_def select_one_None_iff)
  have find: "find_contract d' did = (if did = dc_delegation c then Some c else find_contract d did)" for did
    using assms(1) fresh
    by (auto simp: insert_contract_def find_contract_def select_one_append split: option.splits)
  show ?thesis
    unfolding contracts_kept_def
  proof (intro conjI impI allI)
    fix did x
    assume "find_contract d did = Some x"
    with fresh show "\<exists>c'. find_contract d' did = Some c' \<and> contract_advances x c'"
      by (auto simp: find)
  next
    assume narrow: "contracts_narrow d"
    have "\<exists>a. find_contract d p = Some a \<and> contract_below x a"
      if "find_contract d' did = Some x" "dc_parent x = Some p" for did x p
      using that narrow below unfolding contracts_narrow_def by (auto simp: find split: if_splits)
    with fresh show "contracts_narrow d'"
      unfolding contracts_narrow_def by (metis find option.distinct(1))
  qed
qed

subsection \<open>Every operation keeps the contracts\<close>

abbreviation contracts_of :: "db \<Rightarrow> contract_row list" where
  "contracts_of d \<equiv> delegation_contracts d"

lemma update_task_row_contracts: "update_task_row tid f d = Ok d' \<Longrightarrow> contracts_of d' = contracts_of d"
  by (auto simp: update_task_row_def tasks_conversation_propagate_def and_then_eq_Ok split: option.splits)

lemma append_event_contracts [simp]:
  "contracts_of (snd (append_event t uuid tid etype m role pl v d)) = contracts_of d"
  unfolding append_event_def
  by (rule transact_keeps) (auto simp: Let_def and_then_eq_Ok insert_task_event_row_def split: option.splits)

lemma claim_contracts [simp]:
  "contracts_of (snd (claim_in_transaction e res ow lease m d)) = contracts_of d"
  "contracts_of (snd (claim e res ow lease m d)) = contracts_of d"
  by (auto simp: claim_def claim_in_transaction_def Let_def split: option.split)

lemma sweep_contracts [simp]: "contracts_of (snd (sweep_workspaces e key ow rows d)) = contracts_of d"
  by (induction e key ow rows d rule: sweep_workspaces.induct) auto

lemma claim_workspace_contracts [simp]: "contracts_of (snd (claim_workspace e p ow lease m d)) = contracts_of d"
  by (simp add: claim_workspace_def Let_def)

lemma lock_workspace_contracts [simp]: "contracts_of (snd (lock_workspace es key ow lease m d)) = contracts_of d"
proof (induction es arbitrary: d)
  case Nil
  then show ?case by simp
next
  case (Cons e es)
  have "contracts_of (snd r) = contracts_of d \<Longrightarrow>
      contracts_of (snd (case r of (got, d') \<Rightarrow> if got then (True, d') else lock_workspace es key ow lease m d')) =
        contracts_of d" for r
    using Cons by (cases r) auto
  then show ?case by simp
qed

lemma release_contracts [simp]: "contracts_of (snd (release e res ow d)) = contracts_of d"
  by (auto simp: release_def Let_def split: option.split)

lemma update_task_contracts [simp]:
  "contracts_of (snd (update_task e ids rr dg ambient ow u None tid d)) = contracts_of d"
proof -
  let ?P = "\<lambda>s. contracts_of s = contracts_of d"
  have "?P (snd (transact (write_task_values e x vs tid) s))" if "?P s" for x vs s
    by (rule transact_keeps [of ?P, OF that])
      (use that in \<open>auto simp: write_task_values_def and_then_eq_Ok dest!: update_task_row_contracts\<close>)
  then show ?thesis
    unfolding update_task_def by (auto intro!: and_next_keeps [of ?P])
qed

lemma contracts_kept_frame:
  "contracts_kept d0 d \<Longrightarrow> contracts_of d' = contracts_of d \<Longrightarrow> contracts_kept d0 d'"
  using contracts_kept_same contracts_kept_trans by blast

lemma append_event_keeps:
  "contracts_kept d0 d \<Longrightarrow> contracts_kept d0 (snd (append_event t uuid tid etype m role pl v d))"
  by (erule contracts_kept_frame) simp

lemma contracts_kept_next:
  "contracts_kept d0 (snd r) \<Longrightarrow> (\<And>x s. contracts_kept d0 s \<Longrightarrow> contracts_kept d0 (snd (f x s))) \<Longrightarrow>
     contracts_kept d0 (snd (and_next r f))"
  by (rule and_next_keeps [of "contracts_kept d0"])

lemma contracts_kept_next_routed:
  "contracts_kept d0 (snd (snd r)) \<Longrightarrow> (\<And>x s. contracts_kept d0 (snd s) \<Longrightarrow> contracts_kept d0 (snd (snd (f x s)))) \<Longrightarrow>
     contracts_kept d0 (snd (snd (and_next r f)))"
  by (rule and_next_keeps [of "\<lambda>s. contracts_kept d0 (snd s)"])

lemma move_contract_Ok:
  assumes "move_contract did X f d = Ok d'"
  shows "d' = d\<lparr>delegation_contracts :=
      update_where (\<lambda>c. dc_delegation c = did \<and> dc_state c \<in> X) f (delegation_contracts d)\<rparr>"
    and "count_where (\<lambda>c. dc_delegation c = did \<and> dc_state c \<in> X) (delegation_contracts d) = 1"
  using assms by (simp_all add: move_contract_def Let_def update_contracts_def and_then_eq_Ok update_rows_eq_Ok)

lemma move_contract_keeps:
  assumes "move_contract did X f d = Ok d'" and "contracts_kept d0 d"
    and "\<And>c. dc_state c \<in> X \<Longrightarrow> contract_advances c (f c)" and "\<And>c. dc_delegation (f c) = dc_delegation c"
  shows "contracts_kept d0 d'"
proof -
  have "contracts_kept d d'"
    by (rule contracts_kept_update [where f = f]) (use assms(3,4) move_contract_Ok(1) [OF assms(1)] in auto)
  with assms(2) show ?thesis by (rule contracts_kept_trans)
qed

lemma set_contract_state_keeps:
  assumes "contracts_kept d0 d"
    and "\<And>c stamp. dc_state c \<in> X \<Longrightarrow> contract_advances c ((others c)\<lparr>dc_state := state, dc_updated_at := stamp\<rparr>)"
    and "\<And>c. dc_delegation (others c) = dc_delegation c"
  shows "contracts_kept d0 (snd (set_contract_state e did state X ow others d))"
  unfolding set_contract_state_def
  by (rule transact_keeps [of "contracts_kept d0", OF assms(1)])
    (use assms in \<open>auto simp: and_then_eq_Ok intro: move_contract_keeps\<close>)

lemma record_result_contracts: "record_result t did status s r err d = Ok d' \<Longrightarrow> contracts_of d' = contracts_of d"
  by (auto simp: record_result_def Let_def update_delegations_def and_then_eq_Ok)

lemma end_child_contracts: "end_child e sel child st ph full d = Ok d' \<Longrightarrow> contracts_of d' = contracts_of d"
  by (auto simp: end_child_def and_then_eq_Ok split: option.splits if_splits dest!: update_task_row_contracts)

lemma finish_in_transaction_Ok:
  assumes "finish_in_transaction e ow g state status summary result upd d = Ok (u, d')"
  obtains d1 d2 d3 where "lease_current e (dg_id g) ow d"
    and "move_contract (dg_id g) {K_Scheduled, K_Running, K_Cancellation_Requested}
      (\<lambda>c. c\<lparr>dc_state := state, dc_updated_at := now e, dc_finished_at := Some (now e)\<rparr>) d = Ok d1"
    and "record_result (now e) (dg_id g) status summary result
      (Runtime_Error ''delegation result changed concurrently'') d1 = Ok d2"
    and "(if upd then end_child e (Some ow) (dg_child_task g) (child_state_of status)
      (''delegation-'' @ contract_state_name state) False d2 else Ok d2) = Ok d3"
    and "d' = d3\<lparr>resource_leases := delete_where (\<lambda>r. on_lease (Delegation_Run, dg_id g) r \<and>
       ls_token r = ow_token ow) (resource_leases d3)\<rparr>"
  using assms by (auto simp: finish_in_transaction_def Let_def and_then_eq_Ok)

definition ends_contract :: "contract_state \<Rightarrow> bool" where
  "ends_contract s = (s \<in> {K_Completed, K_Failed, K_Cancelled, K_Timed_Out})"

lemma ends_contract_simps [simp]:
  "ends_contract K_Completed" "ends_contract K_Failed" "ends_contract K_Cancelled" "ends_contract K_Timed_Out"
  by (simp_all add: ends_contract_def)

lemma finish_in_transaction_keeps:
  assumes "finish_in_transaction e ow g state status summary result upd d = Ok (u, d')" "contracts_kept d0 d" "ends_contract state"
  shows "contracts_kept d0 d'"
  using assms(1)
proof (rule finish_in_transaction_Ok)
  fix d1 d2 d3
  assume moved: "move_contract (dg_id g) {K_Scheduled, K_Running, K_Cancellation_Requested}
      (\<lambda>c. c\<lparr>dc_state := state, dc_updated_at := now e, dc_finished_at := Some (now e)\<rparr>) d = Ok d1"
    and "record_result (now e) (dg_id g) status summary result
      (Runtime_Error ''delegation result changed concurrently'') d1 = Ok d2"
    and "(if upd then end_child e (Some ow) (dg_child_task g) (child_state_of status)
      (''delegation-'' @ contract_state_name state) False d2 else Ok d2) = Ok d3"
    and "d' = d3\<lparr>resource_leases := delete_where (\<lambda>r. on_lease (Delegation_Run, dg_id g) r \<and>
       ls_token r = ow_token ow) (resource_leases d3)\<rparr>"
  then have "contracts_of d' = contracts_of d1"
    by (auto dest!: record_result_contracts end_child_contracts split: if_splits)
  moreover have "contracts_kept d0 d1"
    by (rule move_contract_keeps [OF moved assms(2)])
      (use assms(3) in \<open>auto simp: contract_advances_def settled_contract_def ends_contract_def\<close>)
  ultimately show ?thesis by (rule contracts_kept_frame [rotated])
qed

named_theorems contract_keeps

lemma finish_execution_keeps [contract_keeps]:
  assumes "contracts_kept d0 d" and "ends_contract state"
  shows "contracts_kept d0 (snd (finish_execution e uuid ow did state status summary result upd d))"
  unfolding finish_execution_def
  by (intro contracts_kept_next transact_keeps [of "contracts_kept d0"])
    (use assms finish_in_transaction_keeps in \<open>auto intro: contracts_kept_frame\<close>)

lemma fail_child_keeps [contract_keeps]:
  "contracts_kept d0 d \<Longrightarrow> contracts_kept d0 (snd (fail_child ob ow did upd err d))"
proof -
  assume d: "contracts_kept d0 d"
  have pick: "contracts_kept d0 (snd r) \<Longrightarrow> contracts_kept d0 (snd (case r of
      (Inl (Runtime_Error m), d') \<Rightarrow> (Err err, d') | (Inl x, d') \<Rightarrow> (Err x, d') | (Inr _, d') \<Rightarrow> (Err err, d')))"
    for r :: "contract_row result \<times> db"
    by (auto split: prod.split sum.split error.split)
  show ?thesis
    unfolding fail_child_def
    by (rule contracts_kept_next) (use d in \<open>auto intro!: pick finish_execution_keeps simp: ends_contract_def\<close>)
qed

lemma conclude_child_keeps [contract_keeps]:
  "contracts_kept d0 d \<Longrightarrow> contracts_kept d0 (snd (conclude_child pe ob ow contract result d))"
  unfolding conclude_child_def Let_def by (auto intro!: contracts_kept_next finish_execution_keeps)

lemma begin_execution_keeps [contract_keeps]:
  "contracts_kept d0 d \<Longrightarrow> contracts_kept d0 (snd (begin_execution ob ow did child d))"
  unfolding begin_execution_def Let_def
  by (auto intro!: contracts_kept_next set_contract_state_keeps intro: contracts_kept_frame
      simp: contract_advances_def settled_contract_def)

lemma start_in_transaction_keeps:
  assumes "start_in_transaction e ow deadline did child d = Ok (stale, d')" and "contracts_kept d0 d"
  shows "contracts_kept d0 d'"
proof -
  let ?d1 = "snd (claim_in_transaction e (Delegation_Run, did) ow (seconds 30) [(''child_task_id'', JStr child)] d)"
  have d1: "contracts_kept d0 ?d1"
    using assms(2) by (rule contracts_kept_frame) simp
  from assms(1) consider "d' = ?d1"
    | "move_contract did {K_Created, K_Scheduled}
        (\<lambda>c. c\<lparr>dc_state := K_Scheduled, dc_deadline_at := Some deadline, dc_updated_at := now e\<rparr>) ?d1 = Ok d'"
    by (auto simp: start_in_transaction_def Let_def and_then_eq_Ok split: option.splits if_splits)
  then show ?thesis
  proof cases
    case 1
    with d1 show ?thesis by simp
  next
    case 2
    then show ?thesis
      by (rule move_contract_keeps [OF _ d1]) (auto simp: contract_advances_def settled_contract_def)
  qed
qed

lemma start_child_keeps [contract_keeps]:
  assumes "contracts_kept d0 (snd s)"
  shows "contracts_kept d0 (snd (snd (start_child e uuid ow x submitted did s)))"
proof -
  have body: "contracts_kept d0 (snd (transact (start_in_transaction e ow deadline did child) d))"
    if "contracts_kept d0 d" for deadline child d
    by (rule transact_keeps [of "contracts_kept d0", OF that]) (rule start_in_transaction_keeps [OF _ that])
  show ?thesis
    unfolding start_child_def using assms
    by (auto intro!: contracts_kept_next_routed finish_execution_keeps body split: option.split)
qed

lemma request_cancellation_keeps [contract_keeps]:
  assumes "contracts_kept d0 d"
  shows "contracts_kept d0 (snd (request_cancellation e did d))"
  unfolding request_cancellation_def
proof (rule transact_keeps [of "contracts_kept d0", OF assms])
  fix n d'
  let ?P = "\<lambda>c. dc_delegation c = did \<and> dc_state c \<in> {K_Created, K_Scheduled, K_Running}"
  assume "(let P = ?P in and_then (update_contracts P
      (\<lambda>c. c\<lparr>dc_state := K_Cancellation_Requested, dc_updated_at := now e\<rparr>) d)
      (\<lambda>d'. Ok (count_where P (contracts_of d), d'))) = Ok (n, d')"
  then have "contracts_of d' = update_where ?P (\<lambda>c. c\<lparr>dc_state := K_Cancellation_Requested, dc_updated_at := now e\<rparr>)
      (contracts_of d)"
    by (auto simp: Let_def update_contracts_def and_then_eq_Ok update_rows_eq_Ok)
  then have "contracts_kept d d'"
    by (rule contracts_kept_update [rotated 2]) (auto simp: contract_advances_def settled_contract_def)
  with assms show "contracts_kept d0 d'" by (rule contracts_kept_trans)
qed

lemma recover_cancelled_keeps [contract_keeps]:
  assumes "contracts_kept d0 d"
  shows "contracts_kept d0 (snd (recover_cancelled e uuid ow did summary result d))"
proof -
  obtain got d1 where claimed: "claim e (Delegation_Run, did) ow (seconds 30)
      [(''cancellation_recovery'', JBool True)] d = (got, d1)"
    by fastforce
  then have "contracts_of d1 = contracts_of d"
    by (metis claim_contracts(2) snd_conv)
  with assms have "contracts_kept d0 d1"
    by (rule contracts_kept_frame)
  then show ?thesis
    by (auto simp: recover_cancelled_def claimed intro!: contracts_kept_next finish_execution_keeps)
qed

lemma cancel_child_keeps [contract_keeps]:
  "contracts_kept d0 (snd s) \<Longrightarrow> contracts_kept d0 (snd (snd (cancel_child e uuid ow pending did s)))"
  unfolding cancel_child_def Let_def
  by (auto intro!: contracts_kept_next_routed finish_execution_keeps recover_cancelled_keeps
      request_cancellation_keeps split: option.split)

lemma accept_child_keeps [contract_keeps]:
  "contracts_kept d0 d \<Longrightarrow> contracts_kept d0 (snd (accept_child pe e uuid acc reason did d))"
  unfolding accept_child_def
  by (auto intro!: contracts_kept_next set_contract_state_keeps append_event_keeps
      simp: contract_advances_def settled_contract_def)

subsection \<open>A new contract lies within the one above it\<close>

lemma require_subset_Ok:
  "require_subset a b ts us = Ok () \<longleftrightarrow> set ts \<subseteq> set us \<and> authority_below a b"
  by (auto simp: require_subset_def authority_below_def)

lemma plan_contract_below:
  assumes "plan_contract pe stamp (Some p) q = Ok contract"
  shows "contract_below (contract did) p" and "dc_parent (contract did) = Some (dc_delegation p)"
    and "dc_delegation (contract did) = did"
  using assms
  by (auto simp: plan_contract_def Let_def and_then_eq_Ok inherited_def require_subset_Ok require_budget_def
      contract_below_def)

lemma plan_contract_root:
  assumes "plan_contract pe stamp None q = Ok contract"
  shows "dc_parent (contract did) = None"
  using assms by (auto simp: plan_contract_def Let_def and_then_eq_Ok split: prod.splits)

lemma find_contract_key: "find_contract d did = Some c \<Longrightarrow> dc_delegation c = did"
  by (auto simp: find_contract_def dest: select_one_SomeD)

lemma parent_contract_found: "parent_contract d tid = Some p \<Longrightarrow> find_contract d (dc_delegation p) = Some p"
  by (auto simp: parent_contract_def find_contract_key split: option.splits)

lemma insert_contract_keeps:
  assumes plan: "plan_contract pe stamp (parent_contract d0 tid) q = Ok contract"
    and "contracts_kept d0 d" and "insert_contract (contract did) d = Ok d'"
  shows "contracts_kept d0 d'"
proof -
  have "\<exists>a. find_contract d p = Some a \<and> contract_below (contract did) a"
    if parent: "dc_parent (contract did) = Some p" for p
  proof (cases "parent_contract d0 tid")
    case None
    with plan parent show ?thesis
      using plan_contract_root [of pe stamp q contract did] by simp
  next
    case (Some c)
    note plan_c = plan_contract_below [OF plan [unfolded Some], of did]
    with parent have p: "p = dc_delegation c" by simp
    with assms(2) Some obtain c' where "find_contract d p = Some c'" and adv: "contract_advances c c'"
      by (auto simp: contracts_kept_def dest!: parent_contract_found)
    moreover have "contract_below (contract did) c'"
      using contract_below_advances [OF contract_advances_refl adv] plan_c(1) by simp
    ultimately show ?thesis by blast
  qed
  from contracts_kept_insert [OF assms(3) this] assms(2) show ?thesis
    using contracts_kept_trans by blast
qed

lemma create_task_contracts: "create_task_in_transaction t tid n act d = Ok (c, d') \<Longrightarrow> contracts_of d' = contracts_of d"
  by (auto simp: create_task_in_transaction_def insert_task_def set_meta_def and_then_eq_Ok split: option.splits)

lemma create_delegation_transaction_keeps:
  assumes plan: "plan_contract pe stamp (parent_contract d0 tid) q = Ok contract" and "contracts_kept d0 d"
    and "create_delegation_in_transaction e did child parent target dq (Some contract) d = Ok (r, d')"
  shows "contracts_kept d0 d'"
proof -
  from assms(3) obtain d2 where "insert_contract (contract did) d2 = Ok d'" and "contracts_of d2 = contracts_of d"
    by (auto simp: create_delegation_in_transaction_def and_then_eq_Ok insert_delegation_def Let_def
        dest!: create_task_contracts split: option.splits)
  with insert_contract_keeps [OF plan] contracts_kept_frame [OF assms(2)] show ?thesis by blast
qed

lemma delegation_target_contracts [simp]:
  "contracts_of (snd (snd (delegation_target oc e ids parent q s))) = contracts_of (snd s)"
proof -
  let ?P = "\<lambda>s'. contracts_of (snd s') = contracts_of (snd s)"
  have "?P (snd (on_db (\<lambda>d. and_next (append_event t u tid ty m ro pl v d) (\<lambda>_ d. (Ok (), d))) s'))"
    if "?P s'" for t u tid ty m ro pl v s'
  proof -
    have "contracts_of (snd (and_next (append_event t u tid ty m ro pl v d) (\<lambda>_ d. (Ok (), d)))) = contracts_of d" for d
      by (rule and_next_keeps [of "\<lambda>x. contracts_of x = contracts_of d"]) auto
    with that show ?thesis by simp
  qed
  note logged = this
  have route: "?P (snd (route_for_capabilities oc e ids caps task persist s'))" if "?P s'" for caps task persist s'
    unfolding route_for_capabilities_def
    by (intro and_next_keeps [of ?P]) (use that logged in \<open>auto intro!: and_next_keeps [of ?P] split: option.split\<close>)
  show ?thesis
    unfolding delegation_target_def by (auto intro!: and_next_keeps [of ?P] route split: option.split)
qed

lemma create_delegation_keeps:
  assumes plan: "plan_contract pe stamp (parent_contract d0 tid) q = Ok contract" and "contracts_kept d0 (snd s)"
  shows "contracts_kept d0 (snd (snd (create_delegation oc e ids parent dq (Some contract) s)))"
proof -
  have body: "contracts_kept d0 (snd (transact (create_delegation_in_transaction e did child parent target dq
      (Some contract)) d))" if "contracts_kept d0 d" for did child target d
    by (rule transact_keeps [of "contracts_kept d0", OF that])
      (rule create_delegation_transaction_keeps [OF plan that])
  have target: "contracts_kept d0 (snd (snd (delegation_target oc e ids parent dq s')))"
    if "contracts_kept d0 (snd s')" for s'
    using that by (rule contracts_kept_frame) simp
  show ?thesis
    unfolding create_delegation_def using assms(2)
    by (auto intro!: contracts_kept_next_routed contracts_kept_next body target append_event_keeps)
qed

lemma create_child_keeps:
  "contracts_kept (snd s) (snd (snd (create_child oc pe e ids parent q s)))"
proof -
  have "contracts_kept (snd s) (snd (snd (and_next (plan_contract pe (now e) (parent_contract (snd s) parent) q, s)
      (\<lambda>contract s. f contract s))))"
    if "\<And>contract. plan_contract pe (now e) (parent_contract (snd s) parent) q = Ok contract \<Longrightarrow>
      contracts_kept (snd s) (snd (snd (f contract s)))" for f :: "(ident \<Rightarrow> contract_row) \<Rightarrow> routed \<Rightarrow> 'b result \<times> routed"
    using that by (cases "plan_contract pe (now e) (parent_contract (snd s) parent) q") auto
  note plan = this
  show ?thesis
    unfolding create_child_def Let_def
    by (cases "load_task (snd s) parent")
      (auto intro!: plan contracts_kept_next_routed create_delegation_keeps)
qed

subsection \<open>Sequences of operations\<close>

text \<open>What may happen to the store between two moves of a child: any statement of the other
  components, the executor's included\<close>

fun other_write :: "db_write \<Rightarrow> bool" where
  "other_write (Add_Contract c) = False"
| "other_write (Set_Contracts P f) = False"
| "other_write w = True"

lemma other_write_contracts: "apply_write w d = Ok d' \<Longrightarrow> other_write w \<Longrightarrow> contracts_of d' = contracts_of d"
  by (cases w) (auto simp: insert_defs Lineage.update_defs and_then_eq_Ok dest!: update_task_row_contracts)

datatype child_op =
    Create_Child orchestra policy_env env "nat \<Rightarrow> ident" ident child_request
  | Start_Child env ident owner child_executor "error option" child_runs ident
  | Begin_Execution observed owner ident ident
  | Conclude_Child policy_env observed owner contract_row dict
  | Fail_Child observed owner ident bool error
  | Cancel_Before env ident owner ident string
  | Cancel_Child env ident owner bool child_runs ident
  | Accept_Child policy_env env ident bool string ident
  | Other_Write db_write

fun child_step :: "child_op \<Rightarrow> db \<Rightarrow> db" where
  "child_step (Create_Child oc pe e ids parent q) d = snd (snd (create_child oc pe e ids parent q ([], d)))"
| "child_step (Start_Child e uuid ow x sub runs did) d = snd (snd (start_child e uuid ow x sub did (runs, d)))"
| "child_step (Begin_Execution ob ow did child) d = snd (begin_execution ob ow did child d)"
| "child_step (Conclude_Child pe ob ow c result) d = snd (conclude_child pe ob ow c result d)"
| "child_step (Fail_Child ob ow did upd err) d = snd (fail_child ob ow did upd err d)"
| "child_step (Cancel_Before e uuid ow did summary) d = snd (finish_execution e uuid ow did K_Cancelled
     Status_Cancelled summary [(''cancelled'', JBool True)] True d)"
| "child_step (Cancel_Child e uuid ow pending runs did) d = snd (snd (cancel_child e uuid ow pending did (runs, d)))"
| "child_step (Accept_Child pe e uuid acc reason did) d = snd (accept_child pe e uuid acc reason did d)"
| "child_step (Other_Write w) d = (if other_write w then write_step w d else d)"

lemma child_step_keeps: "contracts_kept d (child_step op d)"
proof (cases op)
  case (Create_Child oc pe e ids parent q)
  then show ?thesis using create_child_keeps [of "([], d)"] by simp
next
  case (Other_Write w)
  then show ?thesis
    by (auto simp: write_step_def dest: other_write_contracts split: sum.split intro!: contracts_kept_same)
qed (auto intro!: contract_keeps)

interpretation narrowing: state_machine child_step contracts_narrow
  by unfold_locales (use child_step_keeps in \<open>auto simp: contracts_kept_def\<close>)

interpretation advancing: state_machine child_step "contracts_kept d0" for d0
  by unfold_locales (use child_step_keeps contracts_kept_trans in blast)

interpretation child_life: lifecycle child_step "\<lambda>_. True" find_contract settled_contract
proof unfold_locales
  fix d did c op
  assume "find_contract d did = Some c" and "settled_contract c"
  with child_step_keeps [of d op] show "find_contract (child_step op d) did = Some c"
    by (auto simp: contracts_kept_def contract_advances_def)
qed simp

subsection \<open>A child and its ancestors\<close>

inductive descends :: "db \<Rightarrow> ident \<Rightarrow> ident \<Rightarrow> bool" for d where
  itself: "descends d did did"
| above: "find_contract d did = Some c \<Longrightarrow> dc_parent c = Some p \<Longrightarrow> descends d p a \<Longrightarrow> descends d did a"

inductive_cases descends_cases: "descends d did a"

lemma ancestor_contract:
  assumes "descends d did a" and "contracts_narrow d" and "find_contract d did = Some c"
  shows "\<exists>b. find_contract d a = Some b \<and> contract_below c b"
  using assms(1,3)
proof (induction arbitrary: c)
  case (itself did)
  then show ?case by auto
next
  case (above did c' p a)
  then have "dc_parent c = Some p" by simp
  with assms(2) above.prems obtain b where b: "find_contract d p = Some b" "contract_below c b"
    unfolding contracts_narrow_def by blast
  from above.IH [OF b(1)] b(2) show ?case
    using contract_below_trans by blast
qed

lemma authorize_child_action_Ok:
  "authorize_child_action pe did tool effect target d = Ok () \<longleftrightarrow> (\<exists>c. find_contract d did = Some c \<and>
     tool \<in> set (dc_tools c) \<and> effect \<in> set (au_effects (dc_authority c)) \<and>
     (effect \<in> {''read'', ''write'', ''execute'', ''destructive''} \<and> target \<noteq> [] \<longrightarrow>
       (\<exists>path. canonical_path pe target = Ok path \<and> path_subset [path] (au_paths (dc_authority c)))) \<and>
     (effect = ''network'' \<longrightarrow> target \<in> set (au_network_targets (dc_authority c))) \<and>
     (effect = ''remote'' \<longrightarrow> target \<in> set (au_remote_targets (dc_authority c))))"
proof -
  have check: "and_then (if b then and_then x (\<lambda>p. raise_if (\<not> q p) err (Ok ())) else Ok ()) (\<lambda>_. r) = Ok () \<longleftrightarrow>
      (b \<longrightarrow> (\<exists>p. x = Ok p \<and> q p)) \<and> r = Ok ()" for b err and x :: "string result" and q and r :: "unit result"
    by (cases x) (auto simp: raise_if_def split: if_splits)
  show ?thesis
    by (cases "find_contract d did") (simp_all add: authorize_child_action_def load_contract_def check)
qed

lemma authorize_below:
  assumes "authorize_child_action pe did tool effect target d = Ok ()" and "find_contract d did = Some c"
    and "find_contract d a = Some b" and "contract_below c b"
  shows "authorize_child_action pe a tool effect target d = Ok ()"
proof -
  have paths: "path_subset [p] (au_paths (dc_authority b))" if "path_subset [p] (au_paths (dc_authority c))" for p
    using that assms(4) path_subset_trans unfolding contract_below_def authority_below_def by blast
  have sets: "set (dc_tools c) \<subseteq> set (dc_tools b)" "set (au_effects (dc_authority c)) \<subseteq> set (au_effects (dc_authority b))"
    "set (au_network_targets (dc_authority c)) \<subseteq> set (au_network_targets (dc_authority b))"
    "set (au_remote_targets (dc_authority c)) \<subseteq> set (au_remote_targets (dc_authority b))"
    using assms(4) by (simp_all add: contract_below_def authority_below_def)
  from assms(1,2,3) sets paths show ?thesis
    unfolding authorize_child_action_Ok by (simp add: subset_eq) blast
qed

lemma authorize_ancestor:
  assumes "contracts_narrow d" and "descends d did a" and "authorize_child_action pe did tool effect target d = Ok ()"
  shows "authorize_child_action pe a tool effect target d = Ok ()"
proof -
  from assms(3) obtain c where c: "find_contract d did = Some c"
    unfolding authorize_child_action_Ok by blast
  with ancestor_contract [OF assms(2,1)] obtain b where "find_contract d a = Some b" "contract_below c b"
    by blast
  from authorize_below [OF assms(3) c this] show ?thesis .
qed

subsection \<open>Bounded iteration\<close>

text \<open>The loop asks for at most as many steps as it has left: what an iterator would do later does
  not matter.\<close>

lemma iterate_steps_bounded:
  "(\<And>k. n < k \<Longrightarrow> k \<le> n + left \<Longrightarrow> step k = step' k) \<Longrightarrow>
     iterate_steps step seen left n final d = iterate_steps step' seen left n final d"
proof (induction left arbitrary: n final d)
  case 0
  then show ?case by simp
next
  case (Suc left)
  from Suc.prems have here: "step (Suc n) = step' (Suc n)" by simp
  have later: "iterate_steps step seen left (Suc n) = iterate_steps step' seen left (Suc n)"
    by (intro ext Suc.IH) (use Suc.prems in simp)
  show ?case
    unfolding iterate_steps.simps here later ..
qed

lemma iterate_steps_objects:
  "iterate_steps step seen left n final d = (Ok m, d') \<Longrightarrow> map_of final ''iterations'' = None \<Longrightarrow>
     map_of m ''iterations'' = None"
proof (induction step seen left n final d rule: iterate_steps.induct)
  case (1 step seen n final d)
  then show ?case by (simp split: if_splits)
next
  case (2 step seen left n final d)
  then show ?case
    by (auto simp: and_next_eq_Ok result_object_def split: if_splits prod.splits iteration.splits json.splits)
qed

subsection \<open>Finishing\<close>

text \<open>The primary keys of the two tables\<close>

definition child_keys_ok :: "db \<Rightarrow> bool" where
  "child_keys_ok d = (keys_distinct dc_delegation (delegation_contracts d) \<and> keys_distinct dg_id (delegations d))"

lemma append_event_only:
  "\<exists>ev. snd (append_event t uuid tid etype m role pl v d) = d\<lparr>task_events := ev\<rparr>"
  unfolding append_event_def
  by (rule transact_keeps [of "\<lambda>s. \<exists>ev. s = d\<lparr>task_events := ev\<rparr>"])
    (auto simp: Let_def and_then_eq_Ok insert_task_event_row_def split: option.splits intro: exI [of _ "task_events d"])

lemma count_one_found:
  assumes "count_where (\<lambda>r. key r = k \<and> P r) t = 1" and "keys_distinct key t"
  obtains r where "select_one key k t = Some r" and "P r"
proof -
  from assms(1) have "count_where (\<lambda>r. key r = k \<and> P r) t \<noteq> 0" by simp
  then obtain r where "r \<in> set t" "key r = k" "P r"
    unfolding count_where_zero_iff by blast
  with assms(2) that show ?thesis
    using select_one_eq_SomeI by metis
qed

lemma end_child_Ok:
  assumes "end_child e sel child st ph full d = Ok d'"
  shows "(\<exists>t. find_task d' child = Some t \<and> tk_state t = st) \<and> delegations d' = delegations d"
proof -
  let ?f = "\<lambda>t. t\<lparr>tk_state := st, tk_phase := ph,
      tk_progress := (if full then Some 1 else tk_progress t), tk_updated_at := now e\<rparr>"
  have "delegations d' = delegations d"
    using assms by (auto simp: end_child_def and_then_eq_Ok update_task_row_def
        tasks_conversation_propagate_def split: option.splits if_splits)
  moreover from assms obtain t where "find_task d child = Some t"
    and "terminal_task_state (tk_state t) \<and> tk_state t = st \<and> d' = d \<or> update_task_row child ?f d = Ok d'"
    by (auto simp: end_child_def and_then_eq_Ok split: option.splits if_splits)
  moreover have "update_task_row child ?f d = Ok d' \<Longrightarrow> find_task d' child = map_option ?f (find_task d child)"
    using update_task_row_find [of ?f child d d' child] by simp
  ultimately show ?thesis by auto
qed

text \<open>The contract, the delegation and the child task tell the same outcome.\<close>

definition finished_as :: "db \<Rightarrow> ident \<Rightarrow> contract_state \<Rightarrow> result_status \<Rightarrow> bool" where
  "finished_as d did state status = (\<exists>c g t. find_contract d did = Some c \<and> dc_state c = state \<and>
     find_delegation d did = Some g \<and> dg_state g = delegation_state_of status \<and>
     dg_result_status g = Some status \<and> find_task d (dg_child_task g) = Some t \<and> tk_state t = child_state_of status)"

lemma record_result_Ok:
  assumes "record_result stamp did status summary result err d = Ok d'" and "keys_distinct dg_id (delegations d)"
  obtains g where "find_delegation d did = Some g" and "\<not> delegation_ended (dg_state g)"
    and "find_delegation d' did = Some (g\<lparr>dg_state := delegation_state_of status, dg_result_status := Some status,
      dg_result_summary := summary, dg_result := result, dg_updated_at := stamp, dg_completed_at := Some stamp\<rparr>)"
proof -
  let ?P = "\<lambda>r. dg_id r = did \<and> \<not> delegation_ended (dg_state r)"
  let ?f = "\<lambda>r. r\<lparr>dg_state := delegation_state_of status, dg_result_status := Some status,
      dg_result_summary := summary, dg_result := result, dg_updated_at := stamp, dg_completed_at := Some stamp\<rparr>"
  from assms(1) have d': "d' = d\<lparr>delegations := update_where ?P ?f (delegations d)\<rparr>"
    and one: "count_where ?P (delegations d) = 1"
    by (simp_all add: record_result_def Let_def update_delegations_def and_then_eq_Ok update_rows_eq_Ok)
  from one assms(2) obtain g where g: "find_delegation d did = Some g" "\<not> delegation_ended (dg_state g)"
    unfolding find_delegation_def by (rule count_one_found)
  moreover from g(1) have "dg_id g = did"
    by (auto simp: find_delegation_def dest: select_one_SomeD)
  moreover have "find_delegation d' did = map_option (\<lambda>r. if ?P r then ?f r else r) (find_delegation d did)"
    by (simp add: d' find_delegation_def select_one_update_where)
  ultimately show ?thesis
    using that by simp
qed

lemma move_contract_found:
  assumes "move_contract did X f d = Ok d'" and "keys_distinct dc_delegation (contracts_of d)"
    and "\<And>c. dc_delegation (f c) = dc_delegation c"
  obtains c where "find_contract d did = Some c" and "dc_state c \<in> X" and "find_contract d' did = Some (f c)"
proof -
  let ?P = "\<lambda>c. dc_delegation c = did \<and> dc_state c \<in> X"
  from move_contract_Ok(2) [OF assms(1)] assms(2) obtain c where c: "find_contract d did = Some c" "dc_state c \<in> X"
    unfolding find_contract_def by (rule count_one_found)
  moreover have "find_contract d' did = map_option (\<lambda>c. if ?P c then f c else c) (find_contract d did)"
    by (rule find_contract_update [OF assms(3)]) (simp add: move_contract_Ok(1) [OF assms(1)])
  ultimately show ?thesis
    using that find_contract_key [OF c(1)] by simp
qed

lemma finish_execution_Ok:
  assumes "finish_execution e uuid ow did state status summary result upd d = (Ok c, d')" and "child_keys_ok d"
  shows "lease_current e did ow d"
    and "\<exists>b. find_contract d did = Some b \<and> dc_state b \<in> {K_Scheduled, K_Running, K_Cancellation_Requested}"
    and "find_contract d' did = Some c \<and> dc_state c = state"
    and "upd \<Longrightarrow> finished_as d' did state status"
    and "\<forall>r \<in> set (resource_leases d'). \<not> (on_lease (Delegation_Run, did) r \<and> ls_token r = ow_token ow)"
proof -
  from assms(1) obtain g ds where g: "find_delegation d did = Some g"
    and body: "finish_in_transaction e ow g state status summary result upd d = Ok ((), ds)"
    and d': "d' = snd (append_event (now e) uuid (dg_child_task g)
       (if status \<in> {Success, Partial} then ''result'' else ''error'') summary None
       [(''delegation_id'', JStr did), (''status'', JStr (result_status_name status))] ''normal'' ds)"
    and found: "find_contract d' did = Some c"
    by (auto simp: finish_execution_def and_next_eq_Ok load_delegation_def load_contract_def transact_eq_Ok
        split: option.splits dest!: arg_cong [where f = snd])
  from g have did: "dg_id g = did"
    by (auto simp: find_delegation_def dest: select_one_SomeD)
  from body obtain d1 d2 d3 where lease: "lease_current e did ow d"
    and moved: "move_contract did {K_Scheduled, K_Running, K_Cancellation_Requested}
      (\<lambda>c. c\<lparr>dc_state := state, dc_updated_at := now e, dc_finished_at := Some (now e)\<rparr>) d = Ok d1"
    and recorded: "record_result (now e) did status summary result
      (Runtime_Error ''delegation result changed concurrently'') d1 = Ok d2"
    and ended: "(if upd then end_child e (Some ow) (dg_child_task g) (child_state_of status)
      (''delegation-'' @ contract_state_name state) False d2 else Ok d2) = Ok d3"
    and ds: "ds = d3\<lparr>resource_leases := delete_where (\<lambda>r. on_lease (Delegation_Run, did) r \<and>
       ls_token r = ow_token ow) (resource_leases d3)\<rparr>"
    by (rule finish_in_transaction_Ok) (simp add: did)
  obtain ev where ev: "d' = ds\<lparr>task_events := ev\<rparr>"
    using append_event_only d' by metis
  from assms(2) have keys: "keys_distinct dc_delegation (contracts_of d)" "keys_distinct dg_id (delegations d)"
    by (simp_all add: child_keys_ok_def)
  from moved keys(1) obtain b where b: "find_contract d did = Some b"
      "dc_state b \<in> {K_Scheduled, K_Running, K_Cancellation_Requested}"
    and c1: "find_contract d1 did = Some (b\<lparr>dc_state := state, dc_updated_at := now e, dc_finished_at := Some (now e)\<rparr>)"
    by (rule move_contract_found) auto
  from ended recorded have "contracts_of d' = contracts_of d1"
    by (auto simp: ev ds split: if_splits dest!: end_child_contracts record_result_contracts)
  with c1 found have state: "dc_state c = state"
    by (auto simp: find_contract_def)
  have same: "delegations d1 = delegations d"
    by (simp add: move_contract_Ok(1) [OF moved])
  with recorded keys(2) obtain g2 where g2: "find_delegation d1 did = Some g2"
    and written: "find_delegation d2 did = Some (g2\<lparr>dg_state := delegation_state_of status, dg_result_status := Some status,
      dg_result_summary := summary, dg_result := result, dg_updated_at := now e, dg_completed_at := Some (now e)\<rparr>)"
    using record_result_Ok by metis
  from g2 g same have "g2 = g"
    by (simp add: find_delegation_def)
  with written ended state found show "upd \<Longrightarrow> finished_as d' did state status"
    by (auto simp: finished_as_def ev ds find_delegation_def find_task_def find_contract_def dest!: end_child_Ok)
  show "lease_current e did ow d" by (fact lease)
  show "\<exists>b. find_contract d did = Some b \<and> dc_state b \<in> {K_Scheduled, K_Running, K_Cancellation_Requested}"
    using b by blast
  show "find_contract d' did = Some c \<and> dc_state c = state"
    using found state by blast
  show "\<forall>r \<in> set (resource_leases d'). \<not> (on_lease (Delegation_Run, did) r \<and> ls_token r = ow_token ow)"
    by (simp add: ev ds)
qed

subsection \<open>Acceptance\<close>

lemma evidence_types_Ok:
  "evidence_types d child eids = Ok types \<Longrightarrow>
     \<forall>t \<in> set types. \<exists>eid v. eid \<in> set eids \<and> find_evidence d eid = Some v \<and> ev_task v = Some child \<and> ev_type v = t"
proof (induction eids arbitrary: types)
  case Nil
  then show ?case by simp
next
  case (Cons eid eids)
  then obtain v ts where "find_evidence d eid = Some v" "ev_task v = Some child" "evidence_types d child eids = Ok ts"
    and "types = ev_type v # ts"
    by (auto simp: and_then_eq_Ok load_evidence_def split: option.splits)
  with Cons.IH show ?case by fastforce
qed

lemma accept_child_Ok:
  assumes "accept_child pe e uuid acc reason did d = (Ok c', d')"
  obtains c g eids types where "find_contract d did = Some c" and "dc_state c = K_Completed"
    and "find_delegation d did = Some g" and "evidence_ids pe (dg_result g) = Ok eids"
    and "evidence_types d (dg_child_task g) eids = Ok types"
    and "acc \<Longrightarrow> set (cm_required_types (dc_completion c)) \<subseteq> set types"
    and "acc \<Longrightarrow> cm_summary_required (dc_completion c) \<Longrightarrow> strip (dg_result_summary g) \<noteq> []"
    and "find_contract d' did = Some c'"
  using assms
  by (auto simp: accept_child_def and_next_eq_Ok load_contract_def load_delegation_def
      split: option.splits if_splits)

subsection \<open>Running a child leaves no lease of its task\<close>

text \<open>The worker may still hold the child's execution only when an external process fences it.\<close>

definition lets_go :: "env \<Rightarrow> owner \<Rightarrow> ident \<Rightarrow> db \<Rightarrow> bool" where
  "lets_go e ow child d = (\<forall>r. find_lease d (Task_Execution, child) = Some r \<longrightarrow> owned_by ow r \<longrightarrow>
     fence_processes_alive e r)"

lemma release_lets_go: "lets_go e ow child (snd (release e (Task_Execution, child) ow d))"
proof (cases "find_lease d (Task_Execution, child)")
  case None
  then show ?thesis by (simp add: release_def lets_go_def)
next
  case (Some row)
  show ?thesis
  proof (cases "same_owner (Some row) ow \<and> \<not> fence_processes_alive e row")
    case True
    have "\<not> owned_by ow r" if "find_lease (snd (release e (Task_Execution, child) ow d)) (Task_Execution, child) = Some r" for r
      using that True Some
      by (auto simp: release_def Let_def find_lease_def dest!: select_one_SomeD)
    then show ?thesis by (auto simp: lets_go_def)
  next
    case False
    then have "snd (release e (Task_Execution, child) ow d) = d"
      using Some by (auto simp: release_def)
    with Some False show ?thesis
      by (auto simp: lets_go_def owned_by_def same_owner_def)
  qed
qed

lemma with_release_lets_go: "lets_go e ow child (snd (with_release e (Task_Execution, child) ow r))"
  using release_lets_go by (simp add: with_release_def)

lemma select_one_delete_other:
  "(\<And>r. key r = k \<Longrightarrow> \<not> P r) \<Longrightarrow> select_one key k (delete_where P t) = select_one key k t"
  by (induction t) (auto simp: delete_where_def)

lemma lets_go_same:
  "find_lease d' (Task_Execution, child) = find_lease d (Task_Execution, child) \<Longrightarrow> lets_go e ow child d \<Longrightarrow>
     lets_go e ow child d'"
  by (simp add: lets_go_def)

lemma record_result_leases: "record_result t did status s r err d = Ok d' \<Longrightarrow> resource_leases d' = resource_leases d"
  by (auto simp: record_result_def Let_def update_delegations_def and_then_eq_Ok)

lemma end_child_leases: "end_child e sel child st ph full d = Ok d' \<Longrightarrow> resource_leases d' = resource_leases d"
  by (auto simp: end_child_def and_then_eq_Ok update_task_row_def tasks_conversation_propagate_def
      split: option.splits if_splits)

lemma finish_in_transaction_leases:
  assumes "finish_in_transaction e ow g state status summary result upd d = Ok (u, d')"
  shows "find_lease d' (Task_Execution, child) = find_lease d (Task_Execution, child)"
  using assms
proof (rule finish_in_transaction_Ok)
  fix d1 d2 d3
  assume moved: "move_contract (dg_id g) {K_Scheduled, K_Running, K_Cancellation_Requested}
      (\<lambda>c. c\<lparr>dc_state := state, dc_updated_at := now e, dc_finished_at := Some (now e)\<rparr>) d = Ok d1"
    and "record_result (now e) (dg_id g) status summary result
      (Runtime_Error ''delegation result changed concurrently'') d1 = Ok d2"
    and "(if upd then end_child e (Some ow) (dg_child_task g) (child_state_of status)
      (''delegation-'' @ contract_state_name state) False d2 else Ok d2) = Ok d3"
    and d': "d' = d3\<lparr>resource_leases := delete_where (\<lambda>r. on_lease (Delegation_Run, dg_id g) r \<and>
       ls_token r = ow_token ow) (resource_leases d3)\<rparr>"
  then have "resource_leases d3 = resource_leases d1"
    by (auto dest!: record_result_leases end_child_leases split: if_splits)
  moreover have "resource_leases d1 = resource_leases d"
    by (simp add: move_contract_Ok(1) [OF moved])
  ultimately show ?thesis
    by (simp add: d' find_lease_def) (rule select_one_delete_other, auto)
qed

lemma finish_execution_leases:
  "find_lease (snd (finish_execution e uuid ow did state status summary result upd d)) (Task_Execution, child) =
     find_lease d (Task_Execution, child)"
proof -
  let ?P = "\<lambda>s. find_lease s (Task_Execution, child) = find_lease d (Task_Execution, child)"
  have "?P (snd (append_event t u tid ty m ro pl v s))" if "?P s" for t u tid ty m ro pl v s
    using append_event_only [of t u tid ty m ro pl v s] that by (auto simp: find_lease_def)
  moreover have "?P (snd (transact (finish_in_transaction e ow g state status summary result upd) s))" if "?P s" for g s
    by (rule transact_keeps [of ?P, OF that]) (use that finish_in_transaction_leases in auto)
  ultimately show ?thesis
    unfolding finish_execution_def by (auto intro!: and_next_keeps [of ?P])
qed

lemma fail_child_leases:
  "find_lease (snd (fail_child ob ow did upd err d)) (Task_Execution, child) = find_lease d (Task_Execution, child)"
proof -
  let ?P = "\<lambda>s. find_lease s (Task_Execution, child) = find_lease d (Task_Execution, child)"
  have pick: "?P (snd r) \<Longrightarrow> ?P (snd (case r of
      (Inl (Runtime_Error m), d') \<Rightarrow> (Err err, d') | (Inl x, d') \<Rightarrow> (Err x, d') | (Inr _, d') \<Rightarrow> (Err err, d')))"
    for r :: "contract_row result \<times> db"
    by (auto split: prod.split sum.split error.split)
  have finish: "?P (snd (finish_execution e uuid ow did state status summary result upd s))" if "?P s" for e uuid state status summary result s
    using that finish_execution_leases by simp
  show ?thesis
    unfolding fail_child_def by (auto intro!: and_next_keeps [of ?P] pick finish)
qed

lemma claim_refused_same:
  assumes "claim_in_transaction e res ow lease m d = (False, d')" and "leases_ok d"
  shows "d' = d"
proof (cases "find_lease d res")
  case None
  with assms(1) show ?thesis by (auto simp: claim_in_transaction_def Let_def split: if_splits)
next
  case (Some r)
  let ?P = "\<lambda>x. on_lease res x \<and> ls_token x = ls_token r \<and> ls_pid x = ls_pid r \<and>
    ls_start x = ls_start r \<and> ls_expires_at x = ls_expires_at r"
  from Some have r: "r \<in> set (resource_leases d)" "lease_id r = res"
    by (auto simp: find_lease_def dest: select_one_SomeD)
  then have "count_where ?P (resource_leases d) \<noteq> 0"
    by (auto simp: count_where_zero_iff)
  moreover have "count_where ?P (resource_leases d) \<le> 1"
    using assms(2) unfolding leases_ok_def by (rule count_where_unique [where k = res]) auto
  ultimately have "count_where ?P (resource_leases d) = 1" by simp
  with assms(1) Some show ?thesis
    by (auto simp: claim_in_transaction_def Let_def split: if_splits)
qed

lemma run_child_lets_go:
  assumes "lets_go (ob_env ob 5) ow (dg_child_task g) d" and "leases_ok d"
  shows "lets_go (ob_env ob 5) ow (dg_child_task g) (snd (run_child pe ob ow x contract g d))"
proof -
  let ?goes = "lets_go (ob_env ob 5) ow (dg_child_task g)"
  have fails: "?goes (snd (fail_child ob ow did upd err s))" if "?goes s" for did upd err s
    using fail_child_leases that by (rule lets_go_same)
  have finishes: "?goes (snd (finish_execution e u ow did st ss sm r upd s))" if "?goes s" for e u did st ss sm r upd s
    using finish_execution_leases that by (rule lets_go_same)
  have guards: "?goes (snd (guarded ob ow did r))" if "?goes (snd r)" for did r
    using that by (auto simp: guarded_def intro: fails split: sum.split)
  show ?thesis
  proof (cases "load_contract d (dc_delegation contract)")
    case (Inl err)
    then show ?thesis
      using assms(1) by (simp add: run_child_def fails)
  next
    case (Inr current)
    obtain got d1 where claimed: "claim (ob_env ob 0) (Task_Execution, dg_child_task g) ow
        (max (seconds 30) (microseconds (bg_max_seconds (dc_budget contract) + 5)))
        [(''engine'', JStr ''delegation''), (''delegation_id'', JStr (dc_delegation contract))] d = (got, d1)"
      by fastforce
    then have "\<not> got \<Longrightarrow> d1 = d"
      using claim_refused_same assms(2) by (auto simp: claim_def)
    with Inr claimed show ?thesis
      using assms(1) by (auto simp: run_child_def Let_def intro!: with_release_lets_go fails guards finishes)
  qed
qed

subsection \<open>A lost executor is not replaced\<close>

lemma start_running_child:
  assumes "find_contract d did = Some c" and "dc_state c = K_Running"
  shows "\<exists>err. fst (start_child e uuid ow x submitted did (runs, d)) = Err err"
    and "fst (snd (start_child e uuid ow x submitted did (runs, d))) = runs"
proof -
  have "start_in_transaction e ow deadline did child d = Ok (stale, d') \<Longrightarrow> stale" for deadline child stale d'
    using assms by (auto simp: start_in_transaction_def Let_def)
  then have stale: "transact (start_in_transaction e ow deadline did child) d = (Ok stale, d') \<Longrightarrow> stale"
    for deadline child stale d'
    by (simp add: transact_eq_Ok)
  let ?r = "start_child e uuid ow x submitted did (runs, d)"
  have "(\<exists>err. fst ?r = Err err) \<and> fst (snd ?r) = runs"
  proof (cases "is_atomic x \<and> bg_max_iterations (dc_budget c) \<noteq> 1 \<or> load_delegation d did = Err (Key_Error ''unknown delegation'')")
    case True
    with assms(1) show ?thesis
      by (auto simp: start_child_def load_contract_def)
  next
    case False
    then obtain g where g: "load_delegation d did = Ok g"
      by (auto simp: load_delegation_def split: option.splits)
    let ?t = "transact (start_in_transaction e ow
      (now e + microseconds (bg_max_seconds (dc_budget c))) did (dg_child_task g)) d"
    obtain y d1 where t: "?t = (y, d1)" by fastforce
    show ?thesis
    proof (cases y)
      case (Inl err)
      with False g t assms(1) show ?thesis
        by (auto simp: start_child_def load_contract_def on_db_def)
    next
      case (Inr b)
      let ?f = "finish_execution e uuid ow did K_Failed Status_Failed
        ''previous child execution owner was lost; outcome is ambiguous''
        [(''owner_lost'', JBool True), (''replayed'', JBool False)] True d1"
      from Inr t stale have b by blast
      with Inr False g t assms(1) show ?thesis
        by (cases ?f; cases "fst ?f")
          (auto simp: start_child_def load_contract_def on_db_def)
    qed
  qed
  then show "\<exists>err. fst ?r = Err err" and "fst (snd ?r) = runs"
    by simp_all
qed

subsection \<open>Two limits of the code\<close>

text \<open>Once the delegation has a result, by \<^verbatim>\<open>complete_delegation\<close> for one, no executor can finish its
  contract any more: an open contract stays open.\<close>

lemma ended_delegation_blocks_finish:
  assumes "find_delegation d did = Some g" and "delegation_ended (dg_state g)" and "child_keys_ok d"
  shows "fst (finish_execution e uuid ow did state status summary result upd d) \<noteq> Ok c"
proof
  assume "fst (finish_execution e uuid ow did state status summary result upd d) = Ok c"
  then obtain ds g' where g': "find_delegation d did = Some g'"
    and body: "finish_in_transaction e ow g' state status summary result upd d = Ok ((), ds)"
    by (cases "finish_execution e uuid ow did state status summary result upd d")
      (auto simp: finish_execution_def and_next_eq_Ok load_delegation_def transact_eq_Ok split: option.splits)
  then have "dg_id g' = did"
    by (auto simp: find_delegation_def dest: select_one_SomeD)
  from body obtain d1 d2 where moved: "move_contract did {K_Scheduled, K_Running, K_Cancellation_Requested}
      (\<lambda>c. c\<lparr>dc_state := state, dc_updated_at := now e, dc_finished_at := Some (now e)\<rparr>) d = Ok d1"
    and recorded: "record_result (now e) did status summary result
      (Runtime_Error ''delegation result changed concurrently'') d1 = Ok d2"
    by (rule finish_in_transaction_Ok) (simp add: \<open>dg_id g' = did\<close>)
  have "delegations d1 = delegations d"
    by (simp add: move_contract_Ok(1) [OF moved])
  with recorded assms show False
    by (elim record_result_Ok) (auto simp: child_keys_ok_def find_delegation_def)
qed

text \<open>A child that failed because it could not lock its workspace raises the exception \<^verbatim>\<open>join\<close> takes
  for its own timeout: a waiting \<^verbatim>\<open>join\<close> reports it as still running.\<close>

lemma join_misses_lock_timeout:
  "find_contract d did = Some c \<Longrightarrow>
     join_child did (Some (Returned (Err (Timeout_Error m)))) d = Ok (dc_state c, False)"
  by (simp add: join_child_def load_contract_def)

end
