(* ===== verification/Roles_Safety.thy ===== *)
theory Roles_Safety
  imports Roles "HOL-Library.Multiset"
begin

section \<open>The role registry stays valid\<close>

text \<open>
  What \<^verbatim>\<open>_validate_registry\<close> accepts, independent of the order of the entries; every operation
  keeps it (an interpretation of \<open>state_machine\<close>) and the file keeps its generation discipline
  (of \<open>versioned_file\<close>); in a valid registry names resolve without ambiguity.
\<close>

definition role_names :: "string \<times> role_info \<Rightarrow> string list" where
  "role_names e = map casefold (fst e # rl_aliases (snd e))"

definition role_entry_ok :: "string list \<Rightarrow> string \<times> role_info \<Rightarrow> bool" where
  "role_entry_ok known e = (role_id_ok (fst e) \<and> id_of_length 0 63 (rl_runtime_id (snd e)) \<and>
     (rl_model (snd e) = [] \<or> rl_model (snd e) \<in> set known))"

definition roles_valid :: "string list \<Rightarrow> role_registry \<Rightarrow> bool" where
  "roles_valid known r = (0 \<le> rr_generation r \<and> list_all (role_entry_ok known) (rr_roles r) \<and>
     distinct (concat (map role_names (rr_roles r))) \<and>
     (\<exists>info. (rr_default r, info) \<in> set (rr_roles r) \<and> rl_enabled info))"

lemma claim_names_Ok:
  "claim_names seen names = Ok seen' \<longleftrightarrow>
     distinct (map casefold names) \<and> casefold ` set names \<inter> set seen = {} \<and>
     seen' = rev (map casefold names) @ seen"
  by (induction names arbitrary: seen) auto

lemma claim_role_names:
  "claim_names seen (fst e # rl_aliases (snd e)) = Ok s \<longleftrightarrow>
     distinct (role_names e) \<and> set (role_names e) \<inter> set seen = {} \<and> s = rev (role_names e) @ seen"
  unfolding claim_names_Ok role_names_def by simp

lemma validate_roles_Ok:
  "validate_roles known seen roles = Ok () \<longleftrightarrow>
     list_all (role_entry_ok known) roles \<and> distinct (concat (map role_names roles)) \<and>
     set (concat (map role_names roles)) \<inter> set seen = {}"
proof (induction roles arbitrary: seen)
  case Nil
  then show ?case by simp
next
  case (Cons e roles)
  obtain rid info where e: "e = (rid, info)" by (cases e)
  have "validate_roles known seen (e # roles) = Ok () \<longleftrightarrow> role_entry_ok known e \<and>
      (\<exists>s. claim_names seen (fst e # rl_aliases (snd e)) = Ok s \<and> validate_roles known s roles = Ok ())"
    by (auto simp: e and_then_eq_Ok role_entry_ok_def validate_runtime_id_def)
  then show ?case
    unfolding claim_role_names Cons.IH by auto
qed

lemma role_names_nonempty: "casefold (fst e) \<in> set (role_names e)"
  by (simp add: role_names_def)

lemma distinct_role_ids:
  "distinct (concat (map role_names l)) \<Longrightarrow> distinct (map fst l)"
proof (induction l)
  case Nil
  then show ?case by simp
next
  case (Cons e l)
  have "fst e \<noteq> fst x" if "x \<in> set l" for x
    using Cons.prems that role_names_nonempty [of e] role_names_nonempty [of x] by auto
  with Cons show ?case by (auto simp: image_iff)
qed

lemma validate_registry_Ok: "validate_registry known r = Ok () \<longleftrightarrow> roles_valid known r"
proof (cases "distinct (concat (map role_names (rr_roles r)))")
  case True
  then have "map_of (rr_roles r) k = Some info \<longleftrightarrow> (k, info) \<in> set (rr_roles r)" for k info
    using distinct_role_ids by simp
  then have "(\<exists>info. (rr_default r, info) \<in> set (rr_roles r) \<and> rl_enabled info) \<longleftrightarrow>
      (\<exists>info. map_of (rr_roles r) (rr_default r) = Some info \<and> rl_enabled info)"
    by simp
  then show ?thesis
    using map_of_SomeD by (cases "map_of (rr_roles r) (rr_default r)")
      (force simp: validate_registry_def roles_valid_def validate_roles_Ok)+
next
  case False
  then show ?thesis
    by (auto simp: validate_registry_def roles_valid_def validate_roles_Ok split: option.splits)
qed

lemma roles_valid_sorted:
  assumes "roles_valid known r" and "0 \<le> n"
  shows "roles_valid known (r\<lparr>rr_generation := n, rr_roles := sort_key fst (rr_roles r)\<rparr>)"
proof -
  have "mset (concat (map role_names (sort_key fst l))) = mset (concat (map role_names l))" for l :: "(string \<times> role_info) list"
    by (simp add: mset_concat flip: sum_mset_sum_list)
  then have "distinct (concat (map role_names (sort_key fst l))) = distinct (concat (map role_names l))" for l :: "(string \<times> role_info) list"
    by (rule mset_eq_imp_distinct_iff)
  with assms show ?thesis
    by (simp add: roles_valid_def list_all_iff)
qed

subsection \<open>Every operation keeps it\<close>

definition role_file_ok :: "string list \<Rightarrow> role_file \<Rightarrow> bool" where
  "role_file_ok known file = (\<forall>r. file = Some r \<longrightarrow> roles_valid known r)"

lemma load_roles_Ok: "load_roles known r = Ok r' \<longleftrightarrow> r' = r \<and> roles_valid known r"
  by (auto simp: load_roles_def and_then_eq_Ok validate_registry_Ok)

lemma save_role_registry_Ok:
  assumes "save_role_registry known x file = Ok (x', file')"
  shows "roles_valid known x" and "\<exists>w. file' = Some w \<and> roles_valid known w \<and> rr_generation w = rr_generation x' \<and>
      rr_default w = rr_default x \<and> set (rr_roles w) = set (rr_roles x)"
    and "file = Some current \<Longrightarrow> rr_generation x = rr_generation current \<and> rr_generation x' = rr_generation current + 1"
proof -
  from assms obtain n where x: "roles_valid known x" and n: "0 \<le> n" "x' = x\<lparr>rr_generation := n\<rparr>"
    and stored: "file' = Some (x\<lparr>rr_generation := n, rr_roles := sort_key fst (rr_roles x)\<rparr>)"
    and gen: "\<And>current. file = Some current \<Longrightarrow> rr_generation x = rr_generation current \<and> n = rr_generation current + 1"
    by (auto simp: save_role_registry_def Let_def and_then_eq_Ok validate_registry_Ok load_roles_Ok
        roles_valid_def split: option.splits)
  then show "roles_valid known x" "file = Some current \<Longrightarrow> rr_generation x = rr_generation current \<and> rr_generation x' = rr_generation current + 1"
    by simp_all
  show "\<exists>w. file' = Some w \<and> roles_valid known w \<and> rr_generation w = rr_generation x' \<and>
      rr_default w = rr_default x \<and> set (rr_roles w) = set (rr_roles x)"
    using roles_valid_sorted [OF x n(1)] n(2) by (auto simp: stored)
qed

interpretation role_files: versioned_file "save_role_registry known" rr_generation for known
proof unfold_locales
  fix x current x' f'
  assume "save_role_registry known x (Some current) = Ok (x', f')"
  from save_role_registry_Ok(2) [OF this] save_role_registry_Ok(3) [OF this refl]
  show "rr_generation x = rr_generation current \<and>
      (\<exists>w. f' = Some w \<and> rr_generation w = rr_generation current + 1 \<and> rr_generation x' = rr_generation w)"
    by auto
qed

lemma ensure_roles_keeps: "role_file_ok known file \<Longrightarrow> role_file_ok known (snd (ensure_roles known file))"
  unfolding ensure_roles_def
  by (rule transact_keeps)
    (auto simp: and_then_eq_Ok role_file_ok_def load_roles_Ok split: option.splits dest!: save_role_registry_Ok(2))

lemma edit_roles_keeps: "role_file_ok known file \<Longrightarrow> role_file_ok known (snd (edit_roles known edit file))"
proof -
  assume ok: "role_file_ok known file"
  have save: "role_file_ok known (snd (transact (save_role_registry known x) f))" if "role_file_ok known f" for x f
    by (rule transact_keeps [of "role_file_ok known", OF that]) (auto simp: role_file_ok_def dest!: save_role_registry_Ok(2))
  show ?thesis
    unfolding edit_roles_def
    by (rule and_next_keeps, rule ensure_roles_keeps [OF ok])
      (auto intro!: and_next_keeps [of "role_file_ok known"] save split: prod.split)
qed

datatype role_op =
    Ensure_Roles
  | Create_Role string new_role
  | Remove_Role string
  | Enable_Role string bool
  | Default_Role string
  | Bind_Model string string
  | Profile_Role string string

fun role_step :: "string list \<Rightarrow> role_op \<Rightarrow> role_file \<Rightarrow> role_file" where
  "role_step known Ensure_Roles f = snd (ensure_roles known f)"
| "role_step known (Create_Role name n) f = snd (create_role known name n f)"
| "role_step known (Remove_Role name) f = snd (remove_role known name f)"
| "role_step known (Enable_Role name b) f = snd (set_role_enabled known name b f)"
| "role_step known (Default_Role name) f = snd (set_default_role known name f)"
| "role_step known (Bind_Model name alias) f = snd (bind_model known name alias f)"
| "role_step known (Profile_Role name profile) f = snd (set_role_profile known name profile f)"

interpretation role_registry: state_machine "role_step known" "role_file_ok known" for known
proof unfold_locales
  fix f op
  assume "role_file_ok known f"
  then show "role_file_ok known (role_step known op f)"
    by (cases op) (simp_all add: ensure_roles_keeps create_role_def remove_role_def set_role_enabled_def
        set_default_role_def bind_model_def set_role_profile_def Let_def edit_roles_keeps)
qed

subsection \<open>Names resolve without ambiguity\<close>

lemma names_disjoint:
  "distinct (concat (map f l)) \<Longrightarrow> a \<in> set l \<Longrightarrow> b \<in> set l \<Longrightarrow> x \<in> set (f a) \<Longrightarrow> x \<in> set (f b) \<Longrightarrow> a = b"
proof (induction l)
  case Nil
  then show ?case by simp
next
  case (Cons c l)
  then show ?case by (auto 4 4)
qed

lemma lower_char_small: "\<not> is_upper c \<Longrightarrow> lower_char c = c"
  by (auto simp: lower_char_def is_upper_def Let_def)

lemma id_char_not_upper: "id_char c \<Longrightarrow> \<not> is_upper c" "is_lower c \<Longrightarrow> \<not> is_upper c"
  by (auto simp: id_char_def is_lower_def is_upper_def is_digit_def Let_def)

lemma id_lower: "id_of_length lo hi s \<Longrightarrow> casefold s = s"
  by (cases s) (auto simp: id_of_length_def list_all_iff intro!: map_idI lower_char_small dest: id_char_not_upper)

lemma role_id_lower: "role_id_ok rid \<Longrightarrow> casefold rid = rid"
proof -
  have nl: "lower_char (char_of (10 :: nat)) = char_of (10 :: nat)" by code_simp
  assume "role_id_ok rid"
  then consider "id_of_length 1 31 rid" | "rid \<noteq> []" "last rid = char_of (10 :: nat)" "id_of_length 1 31 (butlast rid)"
    by (auto simp: role_id_ok_def)
  then show ?thesis
  proof cases
    case 1
    then show ?thesis by (rule id_lower)
  next
    case 2
    then have "casefold (butlast rid @ [last rid]) = butlast rid @ [last rid]"
      using id_lower nl by (simp del: append_butlast_last_id)
    with 2(1) show ?thesis by simp
  qed
qed

lemma resolve_own_id:
  "roles_valid known r \<Longrightarrow> (rid, info) \<in> set (rr_roles r) \<Longrightarrow> strip rid = rid \<Longrightarrow>
     resolve_role_id_from r rid = Ok rid"
proof -
  assume "roles_valid known r" and mem: "(rid, info) \<in> set (rr_roles r)" and strip: "strip rid = rid"
  then have "casefold rid = rid"
    by (force simp: roles_valid_def list_all_iff role_entry_ok_def dest!: bspec intro: role_id_lower)
  moreover from mem have "rid \<in> fst ` set (rr_roles r)"
    by (simp add: image_iff Bex_def) blast
  ultimately show ?thesis
    by (simp add: resolve_role_id_from_def Let_def strip)
qed

lemma resolve_alias:
  assumes valid: "roles_valid known r" and mem: "(rid, info) \<in> set (rr_roles r)"
    and known_alias: "a \<in> set (rl_aliases info)" "strip a = a" "casefold a \<notin> fst ` set legacy_role_aliases"
  shows "resolve_role_id_from r a = Ok rid"
proof -
  let ?P = "\<lambda>(rid, info). casefold a \<in> set (map casefold (rl_aliases info))"
  have names: "distinct (concat (map role_names (rr_roles r)))"
    using valid by (simp add: roles_valid_def)
  have mine: "casefold a \<in> set (role_names (rid, info))" "?P (rid, info)"
    using known_alias by (auto simp: role_names_def)
  have "casefold a \<notin> fst ` set (rr_roles r)"
  proof
    assume "casefold a \<in> fst ` set (rr_roles r)"
    then obtain i where i: "(casefold a, i) \<in> set (rr_roles r)" by auto
    then have lower: "casefold (casefold a) = casefold a"
      using valid by (auto simp: roles_valid_def list_all_iff role_entry_ok_def dest!: role_id_lower)
    then have "casefold a \<in> set (role_names (casefold a, i))"
      by (simp add: role_names_def)
    with names_disjoint [OF names i mem] mine have same: "(casefold a, i) = (rid, info)" by blast
    from names mem have "distinct (role_names (rid, info))"
      by (auto dest!: split_list)
    with known_alias(1) same lower show False
      by (auto simp: role_names_def image_iff)
  qed
  note key = this
  have legacy: "map_of legacy_role_aliases (casefold a) = None"
    using known_alias by (simp add: map_of_eq_None_iff)
  obtain e where e: "find ?P (rr_roles r) = Some e"
    using mem mine by (cases "find ?P (rr_roles r)") (auto simp: find_None_iff)
  from e have "e \<in> set (rr_roles r)" "?P e"
    by (metis (lifting) find_Some_iff nth_mem)+
  moreover from \<open>?P e\<close> have "casefold a \<in> set (role_names e)"
    by (cases e) (simp add: role_names_def)
  ultimately have "e = (rid, info)"
    using names_disjoint [OF names _ mem, of e "casefold a"] mine by auto
  with e key legacy show ?thesis
    using known_alias(2) by (simp add: resolve_role_id_from_def Let_def)
qed

end
