(* ===== verification/Orchestration_Safety.thy ===== *)
theory Orchestration_Safety
  imports Orchestration Roles_Safety
begin

section \<open>What routing and handoffs guarantee\<close>

text \<open>
  A routing decision names an eligible role of least preference key; a handoff happens only
  between runs and leaves a checkpoint of the task as it was.
\<close>

subsection \<open>Routing\<close>

text \<open>A role the router may choose: enabled, bound to a model that is ready, and covering\<close>

definition eligible :: "orchestra \<Rightarrow> string set \<Rightarrow> role_record \<Rightarrow> bool" where
  "eligible oc required role = (rl_enabled (rc_info role) \<and> rl_model (rc_info role) \<noteq> [] \<and>
     model_ready oc (rl_model (rc_info role)) = Ok True \<and> required \<subseteq> set (rl_capabilities (rc_info role)))"

definition registered :: "orchestra \<Rightarrow> role_record \<Rightarrow> bool" where
  "registered oc role = (\<exists>(rid, info) \<in> set (rr_roles (oc_roles oc)). role_from_info rid info = Ok role)"

definition surplus :: "string set \<Rightarrow> role_record \<Rightarrow> nat" where
  "surplus required role = card (set (rl_capabilities (rc_info role)) - required)"

lemma role_records_Ok:
  "role_records l = Ok roles \<Longrightarrow> role \<in> set roles \<longleftrightarrow> (\<exists>(rid, info) \<in> set l. role_from_info rid info = Ok role)"
proof (induction l arbitrary: roles)
  case Nil
  then show ?case by simp
next
  case (Cons e l)
  then obtain rid info x xs where "e = (rid, info)" "role_from_info rid info = Ok x" "role_records l = Ok xs"
    and "roles = x # xs"
    by (cases e) (auto simp: and_then_eq_Ok)
  with Cons.IH show ?case by auto
qed

lemma roles_listed_Ok:
  "roles_listed (oc_roles oc) False = Ok roles \<Longrightarrow> role \<in> set roles \<longleftrightarrow> registered oc role \<and> rl_enabled (rc_info role)"
proof -
  assume "roles_listed (oc_roles oc) False = Ok roles"
  then obtain l where "role_records (rr_roles (oc_roles oc)) = Ok l"
    and "roles = filter (\<lambda>x. rl_enabled (rc_info x)) (sort_key rc_id l)"
    by (auto simp: roles_listed_def and_then_eq_Ok Let_def)
  then show ?thesis
    using role_records_Ok [of "rr_roles (oc_roles oc)" l role] unfolding registered_def by simp
qed

lemma candidates_of_Ok:
  "candidates_of oc required roles = Ok found \<Longrightarrow>
     set found = {c. \<exists>role \<in> set roles. rl_model (rc_info role) \<noteq> [] \<and>
       model_ready oc (rl_model (rc_info role)) = Ok True \<and> role_candidate required role = Some c}"
proof (induction roles arbitrary: found)
  case Nil
  then show ?case by simp
next
  case (Cons role roles)
  show ?case
  proof (cases "rl_model (rc_info role) = []")
    case True
    with Cons show ?thesis by auto
  next
    case False
    with Cons.prems obtain ready rest where ready: "model_ready oc (rl_model (rc_info role)) = Ok ready"
      and rest: "candidates_of oc required roles = Ok rest"
      and found: "found = (if \<not> ready then rest else
         (case role_candidate required role of None \<Rightarrow> rest | Some c \<Rightarrow> c # rest))"
      by (auto simp: and_then_eq_Ok)
    have "set found = (if ready then set_option (role_candidate required role) else {}) \<union> set rest"
      by (auto simp: found split: option.splits)
    with Cons.IH [OF rest] ready False show ?thesis by auto
  qed
qed

lemma routing_candidates_Ok:
  assumes "routing_candidates oc required = Ok found"
  shows "c \<in> set found \<longleftrightarrow> (\<exists>role. registered oc role \<and> eligible oc (set required) role \<and>
    role_candidate (set required) role = Some c)"
proof -
  from assms obtain roles where roles: "roles_listed (oc_roles oc) False = Ok roles"
    and found: "candidates_of oc (set required) roles = Ok found"
    by (auto simp: routing_candidates_def and_then_eq_Ok)
  have "role_candidate (set required) role = Some c \<Longrightarrow> set required \<subseteq> set (rl_capabilities (rc_info role))" for role
    by (auto simp: role_candidate_def Let_def split: if_splits)
  then show ?thesis
    unfolding eligible_def candidates_of_Ok [OF found] mem_Collect_eq Bex_def roles_listed_Ok [OF roles] by blast
qed

lemma role_candidate_Some [simp]:
  "eligible oc required role \<Longrightarrow> \<exists>c. role_candidate required role = Some c"
  by (simp add: role_candidate_def Let_def eligible_def)

lemma role_candidate_key:
  "role_candidate required role = Some c \<Longrightarrow> ca_role c = rc_id role \<and> ca_extra c = surplus required role"
  by (auto simp: role_candidate_def Let_def surplus_def split: if_splits)

lemma choose_route_Ok:
  assumes "choose_route oc stamp rid task capabilities = Ok decision"
  obtains role where "registered oc role" and "eligible oc (set (required_capabilities capabilities)) role"
    and "rc_id role = rt_selected decision"
    and "\<And>other. registered oc other \<Longrightarrow> eligible oc (set (required_capabilities capabilities)) other \<Longrightarrow>
      surplus (set (required_capabilities capabilities)) role \<le> surplus (set (required_capabilities capabilities)) other"
proof -
  let ?need = "set (required_capabilities capabilities)"
  let ?key = "candidate_key (rr_default (oc_roles oc))"
  from assms obtain found where found: "routing_candidates oc (required_capabilities capabilities) = Ok found"
    by (cases "routing_candidates oc (required_capabilities capabilities)") (simp_all add: choose_route_def)
  with assms obtain best rest where sorted: "sort_key ?key found = best # rest"
    and selected: "rt_selected decision = ca_role best"
    by (cases "sort_key ?key found") (auto simp: choose_route_def Let_def)
  have elems: "set (best # rest) = set found"
    by (metis sorted set_sort)
  then obtain role where role: "registered oc role" "eligible oc ?need role" "role_candidate ?need role = Some best"
    using routing_candidates_Ok [OF found] by (metis list.set_intros(1))
  have "surplus ?need role \<le> surplus ?need other" if other: "registered oc other" "eligible oc ?need other" for other
  proof -
    from other(2) obtain c where c: "role_candidate ?need other = Some c"
      using role_candidate_Some by blast
    with other have "c \<in> set (best # rest)"
      unfolding elems using routing_candidates_Ok [OF found] by blast
    moreover have "sorted (map ?key (best # rest))"
      unfolding sorted [symmetric] by (rule sorted_sort_key)
    ultimately have "?key best \<le> ?key c" by auto
    then show ?thesis
      using role_candidate_key [OF c] role_candidate_key [OF role(3)] by (auto simp: candidate_key_def)
  qed
  with role selected that role_candidate_key [OF role(3)] show ?thesis by simp
qed

subsection \<open>Handoffs\<close>

lemma require_available_role_Ok:
  "require_available_role oc name = Ok role \<Longrightarrow> rl_enabled (rc_info role) \<and> rl_model (rc_info role) \<noteq> []"
  by (auto simp: require_available_role_def and_then_eq_Ok)

lemma event_frame:
  "find_task (snd (append_event t uuid x etype m role pl v d)) y = find_task d y \<and>
   latest_checkpoint (snd (append_event t uuid x etype m role pl v d)) y = latest_checkpoint d y \<and>
   handoffs (snd (append_event t uuid x etype m role pl v d)) = handoffs d"
  unfolding append_event_def
  by (rule transact_keeps) (auto simp: Let_def and_then_eq_Ok insert_task_event_row_def find_task_def
      latest_checkpoint_def split: option.splits)

lemma handoff_in_transaction_Ok:
  assumes "handoff_in_transaction e digest ambient hid cid task target reason d = Ok (h, d')"
  obtains cp where "\<not> exists_where (\<lambda>r. tr_task r = tk_id task \<and> open_run r) (task_runs d)"
    and "\<exists>row. find_task d (tk_id task) = Some row \<and> tk_owner_role row = tk_owner_role task \<and>
      \<not> terminal_task_state (tk_state row) \<and> tk_epoch row = cp_epoch cp \<and> cp_owner_role cp = tk_owner_role row \<and>
      find_task d' (tk_id task) = Some (row\<lparr>tk_owner_role := target, tk_phase := ''handoff-complete'',
        tk_epoch := tk_epoch row + 1, tk_updated_at := now e\<rparr>)"
    and "latest_checkpoint d' (tk_id task) = Some cp" and "cp_id cp = ho_checkpoint h"
    and "ho_to_role h = target" and "ho_from_role h = tk_owner_role task" and "h \<in> set (handoffs d')"
proof -
  let ?f = "\<lambda>t. t\<lparr>tk_owner_role := target, tk_phase := ''handoff-complete'', tk_epoch := tk_epoch t + 1,
      tk_updated_at := now e\<rparr>"
  from assms obtain row cp d1 d2 where row: "find_task d (tk_id task) = Some row"
      "tk_owner_role row = tk_owner_role task" "\<not> terminal_task_state (tk_state row)"
      "\<not> exists_where (\<lambda>r. tr_task r = tk_id task \<and> open_run r) (task_runs d)"
    and cp: "create_checkpoint_in_transaction e digest ambient cid (tk_id task) None
      (''pre-handoff '' @ tk_owner_role task @ '' -> '' @ target @ '': '' @ reason) None False d = Ok (cp, d1)"
    and h: "h = \<lparr>ho_id = hid, ho_task = tk_id task, ho_from_role = tk_owner_role task, ho_to_role = target,
      ho_checkpoint = cp_id cp, ho_reason = reason, ho_created_at = now e\<rparr>"
    and d2: "insert_handoff h d1 = Ok d2" and d': "update_task_row (tk_id task) ?f d2 = Ok d'"
    by (auto simp: handoff_in_transaction_def Let_def and_then_eq_Ok split: option.splits prod.splits)
  from d2 have d2: "d2 = d1\<lparr>handoffs := handoffs d1 @ [h]\<rparr>"
    by (auto simp: insert_handoff_def)
  have "find_task d2 (tk_id task) = Some row"
    using create_checkpoint_in_transaction_find [OF cp] row(1) by (simp add: d2 find_task_def)
  then have after: "find_task d' (tk_id task) = Some (?f row)"
    using update_task_row_find [OF _ d'] by simp
  have same: "checkpoints d' = checkpoints d2 \<and> handoffs d' = handoffs d2"
    using d' by (auto simp: update_task_row_def tasks_conversation_propagate_def and_then_eq_Ok split: option.splits)
  with checkpoint_is_latest(1) [OF cp] have "latest_checkpoint d' (tk_id task) = Some cp"
    by (simp add: latest_checkpoint_def d2)
  moreover obtain t where "find_task d (tk_id task) = Some t" "cp_epoch cp = tk_epoch t"
    using checkpoint_inserted [OF cp] by metis
  moreover have "cp_owner_role cp = tk_owner_role row"
    using cp row(1) by (auto simp: create_checkpoint_in_transaction_def Let_def and_then_eq_Ok require_task_write_Ok)
  ultimately show ?thesis
    using row after same by (intro that [of cp]) (auto simp: h d2)
qed

lemma handoff_task_Ok:
  assumes "handoff_task oc e digest ambient ids tid to_role reason d = (Ok h, d')"
  obtains row cp where "find_task d tid = Some row" and "\<not> terminal_task_state (tk_state row)"
    and "\<not> exists_where (\<lambda>r. tr_task r = tid \<and> open_run r) (task_runs d)"
    and "\<exists>role :: role_record. rc_id role = ho_to_role h \<and> rl_enabled (rc_info role) \<and> rl_model (rc_info role) \<noteq> []"
    and "ho_from_role h = tk_owner_role row" and "ho_to_role h \<noteq> tk_owner_role row" and "h \<in> set (handoffs d')"
    and "find_task d' tid = Some (row\<lparr>tk_owner_role := ho_to_role h, tk_phase := ''handoff-complete'',
      tk_epoch := tk_epoch row + 1, tk_updated_at := now e\<rparr>)"
    and "latest_checkpoint d' tid = Some cp" and "cp_id cp = ho_checkpoint h"
    and "cp_epoch cp = tk_epoch row" and "cp_owner_role cp = tk_owner_role row"
proof -
  from assms obtain task where task: "find_task d tid = Some task"
    by (auto simp: handoff_task_def load_task_def split: option.splits)
  let ?target = "and_then (resolve_role_id_from (oc_roles oc) to_role) (require_available_role oc)"
  from assms task obtain target where avail: "?target = Ok target"
    by (cases ?target) (auto simp: handoff_task_def load_task_def)
  let ?body = "transact (handoff_in_transaction e digest ambient (ids 0) (ids 1) task (rc_id target) reason) d"
  obtain y d1 where run: "?body = (y, d1)" by fastforce
  with assms task avail obtain h1 where y: "y = Ok h1" and other: "tk_owner_role task \<noteq> rc_id target"
    by (cases y) (auto simp: handoff_task_def load_task_def split: if_splits)
  let ?event = "append_event (now e) (ids 2) tid ''handoff''
       (''Ownership handed off '' @ tk_owner_role task @ '' -> '' @ rc_id target) (Some (rc_id target))
       [(''handoff_id'', JStr (ho_id h1)), (''from_role'', JStr (tk_owner_role task)),
        (''to_role'', JStr (rc_id target)), (''checkpoint_id'', JStr (ho_checkpoint h1)),
        (''reason'', JStr reason)] ''normal'' d1"
  from assms task avail run y have "and_next ?event (\<lambda>_ d. (Ok h1, d)) = (Ok h, d')"
    by (simp add: handoff_task_def load_task_def split: if_splits)
  then have h: "h1 = h" and d': "d' = snd ?event"
    by (cases ?event; cases "fst ?event"; simp)+
  from run y h have body: "handoff_in_transaction e digest ambient (ids 0) (ids 1) task (rc_id target) reason d = Ok (h, d1)"
    by (simp add: transact_eq_Ok)
  from avail have target: "rl_enabled (rc_info target) \<and> rl_model (rc_info target) \<noteq> []"
    using require_available_role_Ok by (auto simp: and_then_eq_Ok)
  from task have tid: "tk_id task = tid"
    by (auto simp: find_task_def dest: select_one_SomeD)
  from body show ?thesis
  proof (rule handoff_in_transaction_Ok)
    fix cp
    assume "\<not> exists_where (\<lambda>r. tr_task r = tk_id task \<and> open_run r) (task_runs d)"
      and "\<exists>row. find_task d (tk_id task) = Some row \<and> tk_owner_role row = tk_owner_role task \<and>
        \<not> terminal_task_state (tk_state row) \<and> tk_epoch row = cp_epoch cp \<and> cp_owner_role cp = tk_owner_role row \<and>
        find_task d1 (tk_id task) = Some (row\<lparr>tk_owner_role := rc_id target, tk_phase := ''handoff-complete'',
          tk_epoch := tk_epoch row + 1, tk_updated_at := now e\<rparr>)"
      and "latest_checkpoint d1 (tk_id task) = Some cp" and "cp_id cp = ho_checkpoint h"
      and "ho_to_role h = rc_id target" and "ho_from_role h = tk_owner_role task" and "h \<in> set (handoffs d1)"
    then show ?thesis
      using task target other by (intro that [of task cp]) (auto simp: tid d' event_frame intro: exI [of _ target])
  qed
qed

end
