(* ===== verification/Policy_Safety.thy ===== *)
theory Policy_Safety
  imports Policy
begin

section \<open>What an allowed action is allowed by\<close>

text \<open>
  The lemmas behind the guarantees of the policy: containment of paths, the decomposition of an
  evaluation that allows, the choice of the rule, and redaction.
\<close>

subsection \<open>Paths\<close>

lemma relative_to_refl [simp]: "relative_to p p"
  by (simp add: relative_to_def)

lemma relative_to_trans:
  assumes "relative_to p q" and "relative_to q s"
  shows "relative_to p s"
proof -
  have q: "take (length (path_names q)) (path_names p) = path_names q"
    and s: "take (length (path_names s)) (path_names q) = path_names s"
    and same: "path_root p = path_root q" "path_root q = path_root s"
    using assms by (simp_all add: relative_to_def)
  from s have "length (path_names s) \<le> length (path_names q)"
    by (metis length_take min.absorb_iff2 min.commute)
  then have "take (length (path_names s)) (path_names p) =
      take (length (path_names s)) (take (length (path_names q)) (path_names p))"
    by (simp add: min_absorb1)
  with q s same show ?thesis
    by (simp add: relative_to_def)
qed

lemma path_within_Ok:
  "path_within pe path dirs = Ok True \<Longrightarrow>
     \<exists>raw \<in> set dirs. \<exists>dir. canonical_path pe raw = Ok dir \<and> relative_to path dir"
  by (induction dirs) (auto simp: and_then_eq_Ok split: if_splits)

subsection \<open>The chosen rule\<close>

lemma first_match_Some:
  assumes "first_match pe eff target r rows = Ok (Some row)"
  shows "\<exists>before after metadata. rows = before @ row # after \<and> ru_metadata row = Some metadata \<and>
     rule_target_matches pe eff target row metadata = Ok True \<and>
     authority_matches pe eff target r row metadata = Ok True \<and>
     (\<forall>x \<in> set before. \<forall>m. ru_metadata x = Some m \<longrightarrow>
        rule_target_matches pe eff target x m = Ok False \<or>
        rule_target_matches pe eff target x m = Ok True \<and> authority_matches pe eff target r x m = Ok False)"
  using assms
proof (induction rows)
  case Nil
  then show ?case by simp
next
  case (Cons x rows)
  show ?case
  proof (cases "first_match pe eff target r rows = Ok (Some row) \<and> (\<forall>m. ru_metadata x = Some m \<longrightarrow>
      rule_target_matches pe eff target x m = Ok False \<or>
      rule_target_matches pe eff target x m = Ok True \<and> authority_matches pe eff target r x m = Ok False)")
    case True
    with Cons.IH obtain before after metadata where
      "rows = before @ row # after" "ru_metadata row = Some metadata"
      "rule_target_matches pe eff target row metadata = Ok True"
      "authority_matches pe eff target r row metadata = Ok True"
      "\<forall>y \<in> set before. \<forall>m. ru_metadata y = Some m \<longrightarrow>
        rule_target_matches pe eff target y m = Ok False \<or>
        rule_target_matches pe eff target y m = Ok True \<and> authority_matches pe eff target r y m = Ok False"
      by blast
    with True show ?thesis
      by (intro exI [of _ "x # before"] exI [of _ after] exI [of _ metadata]) auto
  next
    case False
    with Cons.prems have "x = row" and "\<exists>m. ru_metadata row = Some m \<and>
        rule_target_matches pe eff target row m = Ok True \<and> authority_matches pe eff target r row m = Ok True"
      by (auto simp: and_then_eq_Ok split: option.splits if_splits)
    then show ?thesis
      by (metis append_Nil empty_iff empty_set)
  qed
qed

text \<open>The rule that applies is a live rule for the effect, and every rule that comes before it in
  the order of the query (those with a target first, then the newest) does not apply.\<close>

lemma matching_rule_Some:
  assumes "matching_rule pe eff target r d = Ok (Some row)"
  obtains metadata where "row \<in> set (policy_rules d)" "ru_effect row = eff" "rule_live pe row"
    and "ru_metadata row = Some metadata" "rule_target_matches pe eff target row metadata = Ok True"
    and "authority_matches pe eff target r row metadata = Ok True"
    and "\<And>x m. x \<in> set (policy_rules d) \<Longrightarrow> ru_effect x = eff \<Longrightarrow> rule_live pe x \<Longrightarrow>
      rule_order x < rule_order row \<Longrightarrow> ru_metadata x = Some m \<Longrightarrow>
      rule_target_matches pe eff target x m \<noteq> Ok True \<or> authority_matches pe eff target r x m \<noteq> Ok True"
proof -
  let ?rows = "sort_key rule_order (filter (\<lambda>row. ru_effect row = eff \<and> rule_live pe row) (policy_rules d))"
  from assms obtain before after metadata where split: "?rows = before @ row # after"
    and row: "ru_metadata row = Some metadata" "rule_target_matches pe eff target row metadata = Ok True"
      "authority_matches pe eff target r row metadata = Ok True"
    and before: "\<forall>x \<in> set before. \<forall>m. ru_metadata x = Some m \<longrightarrow>
        rule_target_matches pe eff target x m = Ok False \<or>
        rule_target_matches pe eff target x m = Ok True \<and> authority_matches pe eff target r x m = Ok False"
    unfolding matching_rule_def by (blast dest: first_match_Some)
  have in_rows: "x \<in> set ?rows \<longleftrightarrow> x \<in> set (policy_rules d) \<and> ru_effect x = eff \<and> rule_live pe x" for x
    by auto
  have "sorted (map rule_order ?rows)"
    by simp
  then have later: "rule_order row \<le> rule_order x" if "x \<in> set after" for x
    using that by (simp add: split sorted_append)
  have "row \<in> set ?rows"
    by (simp add: split)
  with row show ?thesis
  proof (rule_tac that)
    fix x m assume x: "x \<in> set (policy_rules d)" "ru_effect x = eff" "rule_live pe x"
      "rule_order x < rule_order row" "ru_metadata x = Some m"
    then have "x \<in> set before"
      using in_rows [of x] later [of x] by (auto simp: split)
    with before x(5) show "rule_target_matches pe eff target x m \<noteq> Ok True \<or>
        authority_matches pe eff target r x m \<noteq> Ok True"
      by auto
  qed (use in_rows in auto)
qed

subsection \<open>An evaluation that allows\<close>

lemma allowed_simps [simp]:
  "\<not> allowed (deny_with pe r risk eff target reason)"
  "pd_rule (deny_with pe r risk eff target reason) = None"
  by (simp_all add: allowed_def deny_with_def)

definition refuses :: "decision + 'a \<Rightarrow> bool" where
  "refuses c = (case c of Inl x \<Rightarrow> \<not> allowed x | Inr y \<Rightarrow> True)"

lemma refuses_simps [simp]: "refuses (Inl x) = (\<not> allowed x)" "refuses (Inr y)"
  by (simp_all add: refuses_def)

lemma ok_post_any [post]: "ok_post r (\<lambda>_. True)"
  by (simp add: ok_post_def split: sum.split)

lemma ok_post_sum [post]:
  "(\<And>a. c = Inl a \<Longrightarrow> ok_post (f a) Q) \<Longrightarrow> (\<And>b. c = Inr b \<Longrightarrow> ok_post (g b) Q) \<Longrightarrow>
     ok_post (case c of Inl a \<Rightarrow> f a | Inr b \<Rightarrow> g b) Q"
  by (cases c) simp_all

lemma checks_refuse: "ok_post (check_path pe r eff) refuses" "ok_post (check_network pe r eff path) refuses"
  unfolding check_path_def check_network_def Let_def
  by (assumption | rule ok_post_any post | (simp; fail))+

lemma evaluate_allowed:
  assumes "evaluate pe r d = Ok p" and "allowed p"
  obtains base path missing where "parse_effect (rq_effect r) = Some base"
    and "pd_effect p = effect_text (request_effect r base)"
    and "pd_risk p = risk_by_effect (request_effect r base)"
    and "check_path pe r (request_effect r base) = Ok (Inr (path, missing))"
    and "check_network pe r (request_effect r base) path = Ok (Inr (pd_target p))"
    and "missing \<Longrightarrow> pd_rule p \<noteq> None"
    and "pd_rule p = None \<Longrightarrow> default_action (request_effect r base) = Allow"
    and "\<And>rid. pd_rule p = Some rid \<Longrightarrow> \<exists>row. ru_id row = rid \<and> ru_action row = Allow \<and>
      matching_rule pe (request_effect r base) (pd_target p) r d = Ok (Some row)"
proof -
  from assms obtain base where base: "parse_effect (rq_effect r) = Some base"
    by (auto simp: evaluate_def split: option.splits)
  let ?eff = "request_effect r base"
  have deny: "check_path pe r ?eff = Ok (Inl x) \<Longrightarrow> \<not> allowed x"
    "check_network pe r ?eff path = Ok (Inl x) \<Longrightarrow> \<not> allowed x" for x path
    using checks_refuse(1) [of pe r ?eff] checks_refuse(2) [of pe r ?eff path] by (auto simp: ok_post_def)
  from assms(1) base obtain checked where "check_path pe r ?eff = Ok checked"
    by (auto simp: evaluate_def Let_def and_then_eq_Ok)
  with assms base deny(1) obtain path missing where path: "check_path pe r ?eff = Ok (Inr (path, missing))"
    by (cases checked) (auto simp: evaluate_def Let_def)
  from assms(1) base path obtain checked where "check_network pe r ?eff path = Ok checked"
    by (auto simp: evaluate_def Let_def and_then_eq_Ok)
  with assms base path deny(2) obtain target where target: "check_network pe r ?eff path = Ok (Inr target)"
    by (cases checked) (auto simp: evaluate_def Let_def)
  from assms(1) base path target obtain rule where rule: "matching_rule pe ?eff target r d = Ok rule"
    and p: "p = rule_decision pe r ?eff target missing rule"
    by (auto simp: evaluate_def Let_def and_then_eq_Ok)
  from assms(2) base path target rule show ?thesis
    by (intro that [of base path missing]) (auto simp: p rule_decision_def allowed_def deny_with_def split: option.splits if_splits)
qed

lemma check_path_target:
  assumes "check_path pe r eff = Ok (Inr (path, missing))" and "path_request r" and "rq_target r \<noteq> []"
  shows "canonical_path pe (rq_target r) = Ok path" and "missing = (rq_allowed_paths r = [])"
    and "rq_allowed_paths r \<noteq> [] \<Longrightarrow>
      \<exists>raw \<in> set (rq_allowed_paths r). \<exists>dir. canonical_path pe raw = Ok dir \<and> relative_to path dir"
proof -
  from assms obtain caught where "catch_os_value (canonical_path pe (rq_target r)) = Ok caught"
    by (auto simp: check_path_def Let_def and_then_eq_Ok)
  with assms have "canonical_path pe (rq_target r) = Ok path \<and> missing = (rq_allowed_paths r = []) \<and>
      (rq_allowed_paths r \<noteq> [] \<longrightarrow> path_within pe path (rq_allowed_paths r) = Ok True)"
    by (cases caught) (auto simp: check_path_def Let_def and_then_eq_Ok catch_os_value_Inr split: if_splits)
  then show "canonical_path pe (rq_target r) = Ok path" "missing = (rq_allowed_paths r = [])"
    "rq_allowed_paths r \<noteq> [] \<Longrightarrow>
      \<exists>raw \<in> set (rq_allowed_paths r). \<exists>dir. canonical_path pe raw = Ok dir \<and> relative_to path dir"
    by (auto dest: path_within_Ok)
qed

text \<open>A caught error denies.\<close>

lemma passed_catch:
  "and_then (catch_value q) (\<lambda>c. case c of Inl m \<Rightarrow> Ok (Inl (g m)) | Inr y \<Rightarrow> h y) = Ok (Inr z) \<longleftrightarrow>
     (\<exists>y. q = Ok y \<and> h y = Ok (Inr z))"
  by (cases q rule: catch_value.cases) auto

lemma check_network_target:
  assumes "check_network pe r eff path = Ok (Inr url)" and "rq_effect r \<in> {''network'', ''remote''}"
  shows "\<exists>host origin scopes.
     (if rq_effect r = ''remote'' then normalize_remote_target pe path else normalize_network_target pe path)
       = Ok (url, host) \<and> normalized_origin pe url = Ok origin \<and>
     all_ok (normalize_network_scope pe) (rq_allowed_hosts r) = Ok scopes \<and>
     (scopes = [] \<or> ''origin:'' @ origin \<in> set scopes \<or> ''host:'' @ host \<in> set scopes)"
proof -
  let ?first = "if rq_effect r = ''remote'' then normalize_remote_target pe path
    else normalize_network_target pe path"
  from assms(1) have "\<exists>x. ?first = Ok x \<and> (\<exists>y. and_then (normalized_origin pe (fst x)) (\<lambda>origin.
      and_then (all_ok (normalize_network_scope pe) (rq_allowed_hosts r)) (\<lambda>scopes.
      Ok (origin, scopes))) = Ok y \<and> url = fst x \<and>
     (snd y = [] \<or> ''origin:'' @ fst y \<in> set (snd y) \<or> ''host:'' @ snd x \<in> set (snd y)))"
    by (simp only: check_network_def Let_def assms(2) not_True_eq_False if_False passed_catch case_prod_unfold)
      (force split: if_split_asm)
  then show ?thesis
    by (auto simp: and_then_eq_Ok)
qed

lemma check_network_other:
  "rq_effect r \<notin> {''network'', ''remote''} \<Longrightarrow> check_network pe r eff path = Ok (Inr path)"
  by (simp add: check_network_def)

lemma all_ok_eq_Ok: "all_ok f xs = Ok ys \<longleftrightarrow> map f xs = map Ok ys"
  by (induction xs arbitrary: ys) (auto simp: and_then_eq_Ok Cons_eq_map_conv map_eq_Cons_conv)

text \<open>The intent depends on the decision only through its effect, risk and target.\<close>

lemma canonical_intent_cong:
  "pd_effect p = pd_effect q \<Longrightarrow> pd_risk p = pd_risk q \<Longrightarrow> pd_target p = pd_target q \<Longrightarrow>
     canonical_intent pe r p = canonical_intent pe r q"
  by (simp add: canonical_intent_def)

text \<open>A rule that names an approval, or carries an authority, applies only to its intent.\<close>

lemma authority_matches_bound:
  assumes "authority_matches pe eff target r row m = Ok True"
    and "truthy (get m ''approval_id'') \<or> get m ''authority_intent'' \<noteq> JNull"
    and "pd_effect p = effect_text eff" "pd_risk p = risk_by_effect eff" "pd_target p = target"
  shows "\<exists>i. canonical_intent pe r p = Ok i \<and>
    get (object_fields (get m ''authority_intent'')) ''sha256'' = JStr (in_sha256 i)"
proof -
  let ?q = "\<lparr>pd_action = ru_action row, pd_risk = risk_by_effect eff,
         pd_effect = effect_text eff, pd_target = target, pd_reason = ''persistent authority candidate'',
         pd_rule = None, pd_arguments = redact_arguments pe (rq_arguments r)\<rparr>"
  have "canonical_intent pe r p = canonical_intent pe r ?q"
    using assms(3-5) by (intro canonical_intent_cong) simp_all
  moreover have "\<exists>i. canonical_intent pe r ?q = Ok i \<and>
      get (object_fields (get m ''authority_intent'')) ''sha256'' = JStr (in_sha256 i)"
    using assms(1,2) by (auto simp: authority_matches_def Let_def and_then_eq_Ok has_digest_def split: if_splits)
  ultimately show ?thesis by simp
qed

subsection \<open>Redaction\<close>

text \<open>\<open>no_secrets v\<close>: no sensitive key of \<open>v\<close>, at any depth, has its value.\<close>

fun no_secrets :: "json \<Rightarrow> bool" where
  "no_secrets (JObj kvs) = list_all (\<lambda>(k, v). if sensitive_key k then v = JStr redacted else no_secrets v) kvs"
| "no_secrets (JArr vs) = list_all no_secrets vs"
| "no_secrets v = True"

lemma redact_no_secrets: "no_secrets (redact v)"
  by (induction v rule: redact.induct) (auto simp: list_all_iff)

lemma redact_idem: "no_secrets v \<Longrightarrow> redact v = v"
proof (induction v rule: redact.induct)
  case (1 kvs)
  then show ?case
    by (auto simp: list_all_iff intro!: map_idI split: if_splits)
next
  case (2 xs)
  then show ?case by (auto simp: list_all_iff intro!: map_idI)
qed simp_all

end
