(* ===== verification/Approvals_Safety.thy ===== *)
theory Approvals_Safety
  imports Approvals Policy_Safety
begin

section \<open>The life of an approval\<close>

text \<open>
  An approval that was denied, expired or consumed never changes again, whatever operations of
  the broker follow (an interpretation of the locale \<open>lifecycle\<close>); what \<^verbatim>\<open>authorize\<close> and
  \<^verbatim>\<open>decide\<close> require when they return normally.
\<close>

definition settled_approval :: "approval_row \<Rightarrow> bool" where
  "settled_approval a = (ap_state a \<in> {A_Denied, A_Expired, A_Consumed})"

text \<open>How one row may change: what was asked for stays, a decided approval never becomes pending
  again and keeps the reason of its decision, a settled one stays as it is.\<close>

definition advances :: "approval_row \<Rightarrow> approval_row \<Rightarrow> bool" where
  "advances a a' =
    (ap_id a' = ap_id a \<and> ap_risk_class a' = ap_risk_class a \<and> ap_tool a' = ap_tool a \<and>
     ap_target a' = ap_target a \<and> ap_request a' = ap_request a \<and> ap_scope a' = ap_scope a \<and>
     ap_task a' = ap_task a \<and> ap_session a' = ap_session a \<and> ap_created_at a' = ap_created_at a \<and>
     ap_expires_at a' = ap_expires_at a \<and> (settled_approval a \<longrightarrow> a' = a) \<and>
     (ap_state a \<noteq> A_Pending \<longrightarrow> ap_state a' \<noteq> A_Pending \<and> ap_decision_reason a' = ap_decision_reason a))"

lemma advances_refl [simp]: "advances a a"
  by (simp add: advances_def)

lemma advances_trans: "advances a b \<Longrightarrow> advances b c \<Longrightarrow> advances a c"
  by (auto simp: advances_def)

definition approvals_kept :: "db \<Rightarrow> db \<Rightarrow> bool" where
  "approvals_kept d d' =
    ((keys_distinct ap_id (approvals d) \<longrightarrow> keys_distinct ap_id (approvals d')) \<and>
     (\<forall>aid a. find_approval d aid = Some a \<longrightarrow> (\<exists>a'. find_approval d' aid = Some a' \<and> advances a a')))"

lemma approvals_kept_refl [simp]: "approvals_kept d d"
  by (simp add: approvals_kept_def)

lemma approvals_kept_trans: "approvals_kept d d1 \<Longrightarrow> approvals_kept d1 d2 \<Longrightarrow> approvals_kept d d2"
  unfolding approvals_kept_def using advances_trans by meson

lemma approvals_kept_same: "approvals d2 = approvals d1 \<Longrightarrow> approvals_kept d1 d2"
  by (simp add: approvals_kept_def find_approval_def)

lemma approvals_kept_other [simp]:
  "approvals_kept d0 (d\<lparr>state_events := l\<rparr>) = approvals_kept d0 d"
  "approvals_kept d0 (d\<lparr>policy_rules := m\<rparr>) = approvals_kept d0 d"
  by (simp_all add: approvals_kept_def find_approval_def)

lemma update_approvals_Ok:
  "update_approvals P f d = Ok d' \<Longrightarrow> d' = d\<lparr>approvals := update_where P f (approvals d)\<rparr>"
  by (auto simp: update_approvals_def and_then_eq_Ok update_rows_eq_Ok)

lemma update_approvals_kept:
  assumes "update_approvals P f d = Ok d'" and "\<And>a. P a \<Longrightarrow> advances a (f a)" and "\<And>a. ap_id (f a) = ap_id a"
  shows "approvals_kept d d'"
  using assms(2,3) update_approvals_Ok [OF assms(1)]
  by (auto simp: approvals_kept_def find_approval_def select_one_update_where keys_distinct_update_where)

lemma insert_approval_kept: "insert_approval r d = Ok d' \<Longrightarrow> approvals_kept d d'"
  by (auto simp: approvals_kept_def find_approval_def insert_approval_def select_one_append)

subsection \<open>Every operation keeps settled approvals\<close>

text \<open>What a body of a transaction that returned leaves behind, for any earlier state \<open>d0\<close>\<close>

named_theorems kept_post

abbreviation keeps :: "db \<Rightarrow> 'a \<times> db \<Rightarrow> bool" where
  "keeps d0 \<equiv> \<lambda>(_, d). approvals_kept d0 d"

lemma update_approvals_post [kept_post]:
  assumes "approvals_kept d0 d" and "\<And>a. P a \<Longrightarrow> advances a (f a)" and "\<And>a. ap_id (f a) = ap_id a"
  shows "ok_post (update_approvals P f d) (approvals_kept d0)"
  using assms approvals_kept_trans update_approvals_kept by (fastforce simp: ok_post_def split: sum.split)

lemma insert_approval_post [kept_post]:
  "approvals_kept d0 d \<Longrightarrow> ok_post (insert_approval r d) (approvals_kept d0)"
  using approvals_kept_trans insert_approval_kept by (fastforce simp: ok_post_def split: sum.split)

lemma insert_state_event_post [kept_post]:
  "approvals_kept d0 d \<Longrightarrow> ok_post (insert_state_event t uuid ty m s c tk ro pl v d) (keeps d0)"
  by (auto simp: ok_post_def dest!: insert_state_event_Ok split: sum.split)

lemma add_rule_Ok:
  "add_rule_in_transaction pe rid e action target scope expires metadata kind d = Ok (x, d') \<Longrightarrow>
     \<exists>eff act normalized m. x = rid \<and> parse_effect e = Some eff \<and> map_of action_names action = Some act \<and>
       rule_target pe eff target kind metadata = Ok (normalized, m) \<and>
       d' = d\<lparr>policy_rules := policy_rules d @ [\<lparr>ru_id = rid, ru_effect = eff, ru_action = act,
         ru_target = normalized, ru_scope = scope, ru_created_at = pe_now pe, ru_expires_at = expires,
         ru_metadata = Some (object_fields (redact (JObj m)))\<rparr>]\<rparr>"
  by (auto simp: add_rule_in_transaction_def and_then_eq_Ok split: option.splits prod.splits)

lemma add_rule_post [kept_post]:
  "approvals_kept d0 d \<Longrightarrow>
     ok_post (add_rule_in_transaction pe rid e action target scope expires metadata kind d) (keeps d0)"
  by (auto simp: ok_post_def dest!: add_rule_Ok split: sum.split)

lemma persistent_rule_approvals: "persistent_rule pe rid a reason d = Ok (x, d') \<Longrightarrow> approvals d' = approvals d"
  by (auto simp: persistent_rule_def and_then_eq_Ok dest!: add_rule_Ok split: if_splits)

lemma persistent_rule_post [kept_post]:
  "approvals_kept d0 d \<Longrightarrow> ok_post (persistent_rule pe rid a reason d) (keeps d0)"
  unfolding persistent_rule_def by (assumption | rule ok_post_any kept_post post)+

lemma maybe_rule_post [kept_post]:
  assumes "approvals_kept d0 d"
  shows "ok_post (if b then and_then (persistent_rule pe rid a reason d) (\<lambda>(_, d2). Ok d2) else Ok d)
    (approvals_kept d0)"
proof -
  have "ok_post (and_then (persistent_rule pe rid a reason d) (\<lambda>(_, d2). Ok d2)) (approvals_kept d0)"
    by (rule ok_post_and_then [OF persistent_rule_post [OF assms]]) auto
  with assms show ?thesis by simp
qed

lemma decide_post:
  "approvals_kept d0 d \<Longrightarrow> ok_post (decide_in_transaction pe rid uuid a approve reason d) (keeps d0)"
  unfolding decide_in_transaction_def Let_def
  by (assumption | rule kept_post post | (simp add: advances_def settled_approval_def decided_state_def; fail))+

lemma keeps_transact:
  "approvals_kept d0 d \<Longrightarrow> (\<And>x. approvals_kept d0 x \<Longrightarrow> ok_post (body x) (keeps d0)) \<Longrightarrow>
     approvals_kept d0 (snd (transact body d))"
  by (rule transact_post) auto

lemma expire_approvals_kept: "approvals_kept d0 d \<Longrightarrow> approvals_kept d0 (snd (expire_approvals pe d))"
  unfolding expire_approvals_def
  by (rule keeps_transact)
    (assumption | rule kept_post post | (simp add: advances_def settled_approval_def expire_row_def; fail)
      | (auto simp: advances_def settled_approval_def expire_row_def; fail))+

lemmas kept_next = and_next_keeps [of "approvals_kept d0" for d0]

lemma load_approval_kept: "approvals_kept d0 d \<Longrightarrow> approvals_kept d0 (snd (load_approval pe aid d))"
  unfolding load_approval_def by (rule kept_next) (simp_all add: expire_approvals_kept)

lemma list_approvals_kept: "approvals_kept d0 d \<Longrightarrow> approvals_kept d0 (snd (list_approvals pe state limit d))"
  unfolding list_approvals_def by (rule kept_next) (simp_all add: expire_approvals_kept)

lemma request_approval_kept:
  assumes "approvals_kept d0 d"
  shows "approvals_kept d0 (snd (request_approval pe aid uuid r p scope expires d))"
proof -
  have "approvals_kept d0 (snd (transact (\<lambda>d. and_then (insert_approval row d) (\<lambda>d1.
      and_then (insert_state_event t uuid ty m s c tk ro pl v d1) (\<lambda>(_, d2). Ok ((), d2)))) d))"
    for row t ty m s c tk ro pl v
    by (rule keeps_transact [OF assms]) (assumption | rule kept_post post | (simp; fail))+
  then show ?thesis
    using assms by (auto simp: request_approval_def split: option.split sum.split
        intro!: kept_next load_approval_kept)
qed

lemma decide_approval_kept:
  "approvals_kept d0 d \<Longrightarrow> approvals_kept d0 (snd (decide_approval pe rid uuid aid approve reason task session d))"
  unfolding decide_approval_def
  by (auto intro!: kept_next load_approval_kept keeps_transact decide_post)

lemma consume_approval_kept: "approvals_kept d0 d \<Longrightarrow> approvals_kept d0 (snd (consume_approval pe aid d))"
  unfolding consume_approval_def Let_def
  by (rule keeps_transact) (assumption | rule kept_post post | (simp add: advances_def settled_approval_def decided_state_def; fail))+

lemma find_matching_kept: "approvals_kept d0 d \<Longrightarrow> approvals_kept d0 (snd (find_matching pe r p d))"
  unfolding find_matching_def by (rule kept_next) (simp_all add: list_approvals_kept)

lemma chosen_approval_kept:
  "approvals_kept d0 d \<Longrightarrow> approvals_kept d0 (snd (chosen_approval pe r p aid d))"
  by (auto simp: chosen_approval_def intro!: kept_next load_approval_kept find_matching_kept)

lemma authorize_kept:
  assumes "approvals_kept d0 d"
  shows "approvals_kept d0 (snd (authorize pe r p aid consume d))"
  unfolding authorize_def
  by (cases "pd_action p"; simp only: policy_action.case)
    (use assms in \<open>auto intro!: kept_next chosen_approval_kept consume_approval_kept
      split: option.split sum.split bool.split\<close>)

datatype approval_op =
    Request_Op policy_env ident ident scope_request decision string "time option"
  | Decide_Op policy_env ident ident ident bool string "ident option" "ident option"
  | Authorize_Op policy_env scope_request decision "ident option" bool
  | Load_Op policy_env ident
  | List_Op policy_env "approval_state option" nat

fun approval_step :: "approval_op \<Rightarrow> db \<Rightarrow> db" where
  "approval_step (Request_Op pe aid uuid r p scope expires) d =
     snd (request_approval pe aid uuid r p scope expires d)"
| "approval_step (Decide_Op pe rid uuid aid approve reason task session) d =
     snd (decide_approval pe rid uuid aid approve reason task session d)"
| "approval_step (Authorize_Op pe r p aid consume) d = snd (authorize pe r p aid consume d)"
| "approval_step (Load_Op pe aid) d = snd (load_approval pe aid d)"
| "approval_step (List_Op pe state limit) d = snd (list_approvals pe state limit d)"

lemma approval_step_kept: "approvals_kept d (approval_step op d)"
  by (cases op) (simp_all add: request_approval_kept decide_approval_kept authorize_kept
      load_approval_kept list_approvals_kept)

interpretation approval_life:
  lifecycle approval_step "\<lambda>d. keys_distinct ap_id (approvals d)" find_approval settled_approval
  by unfold_locales (use approval_step_kept in \<open>auto simp: approvals_kept_def advances_def\<close>)

definition decision_made :: "db \<Rightarrow> ident \<Rightarrow> bool option" where
  "decision_made d aid = map_option (\<lambda>a. ap_state a \<noteq> A_Pending) (find_approval d aid)"

interpretation decided_life:
  lifecycle approval_step "\<lambda>d. keys_distinct ap_id (approvals d)" decision_made "\<lambda>b. b"
proof unfold_locales
  fix d aid b op
  assume "decision_made d aid = Some b" and b
  then obtain a where a: "find_approval d aid = Some a" "ap_state a \<noteq> A_Pending" "b = True"
    by (auto simp: decision_made_def)
  then obtain a' where "find_approval (approval_step op d) aid = Some a'" "advances a a'"
    using approval_step_kept [of d op] unfolding approvals_kept_def by blast
  with a show "decision_made (approval_step op d) aid = Some b"
    by (simp add: decision_made_def advances_def)
qed

lemma approval_content_stays:
  "find_approval d aid = Some a \<Longrightarrow> \<exists>a'. find_approval (fold approval_step ops d) aid = Some a' \<and> advances a a'"
proof (induction ops arbitrary: d a)
  case Nil
  then show ?case by simp
next
  case (Cons op ops)
  then obtain a1 where a1: "find_approval (approval_step op d) aid = Some a1" "advances a a1"
    using approval_step_kept [of d op] unfolding approvals_kept_def by blast
  from Cons.IH [OF a1(1)] a1(2) show ?case
    by (auto intro: advances_trans)
qed

subsection \<open>What an operation that returned required\<close>

lemma find_approvalD: "find_approval d aid = Some a \<Longrightarrow> a \<in> set (approvals d) \<and> ap_id a = aid"
  by (auto simp: find_approval_def dest: select_one_SomeD)

lemma find_approvalI: "keys_distinct ap_id (approvals d) \<Longrightarrow> a \<in> set (approvals d) \<Longrightarrow> find_approval d (ap_id a) = Some a"
  by (simp add: find_approval_def select_one_eq_SomeI)

definition unexpired :: "policy_env \<Rightarrow> approval_row \<Rightarrow> bool" where
  "unexpired pe a = (\<forall>t. ap_expires_at a = Some t \<longrightarrow> pe_now pe < t)"

lemma expire_approvals_Ok:
  assumes "expire_approvals pe d = (Ok u, d1)" and "find_approval d1 aid = Some a"
  shows "ap_state a = A_Expired \<or> find_approval d aid = Some a \<and> (ap_state a \<in> {A_Pending, A_Approved} \<longrightarrow> unexpired pe a)"
proof -
  from assms(1) have "d1 = d\<lparr>approvals := update_where (expire_row pe) (\<lambda>a. a\<lparr>ap_state := A_Expired,
         ap_decided_at := (case ap_decided_at a of None \<Rightarrow> Some (pe_now pe) | Some t \<Rightarrow> Some t)\<rparr>) (approvals d)\<rparr>"
    by (auto simp: expire_approvals_def transact_eq_Ok and_then_eq_Ok dest!: update_approvals_Ok)
  with assms(2) obtain z where z: "find_approval d aid = Some z"
    and "a = (if expire_row pe z then z\<lparr>ap_state := A_Expired,
         ap_decided_at := (case ap_decided_at z of None \<Rightarrow> Some (pe_now pe) | Some t \<Rightarrow> Some t)\<rparr> else z)"
    by (auto simp: find_approval_def select_one_update_where)
  then show ?thesis
    by (cases "expire_row pe z") (auto simp: expire_row_def unexpired_def)
qed

lemma expire_approvals_distinct:
  "expire_approvals pe d = (Ok u, d1) \<Longrightarrow> keys_distinct ap_id (approvals d) \<Longrightarrow> keys_distinct ap_id (approvals d1)"
  using expire_approvals_kept [of d d pe] by (simp add: approvals_kept_def)

lemma load_approval_Ok:
  assumes "load_approval pe aid d = (Ok a, d1)"
  shows "find_approval d1 aid = Some a" and "ap_id a = aid"
    and "ap_state a \<noteq> A_Expired \<Longrightarrow> find_approval d aid = Some a"
    and "ap_state a \<in> {A_Pending, A_Approved} \<Longrightarrow> unexpired pe a"
  using assms expire_approvals_Ok [of pe d _ d1 aid a]
  by (auto simp: load_approval_def and_next_eq_Ok split: option.splits dest: find_approvalD)

lemma first_approval_Some:
  "first_approval pe r p l = Ok (Some a) \<Longrightarrow> a \<in> set l \<and> approval_matches pe a r p = Ok True"
  by (induction l) (auto simp: and_then_eq_Ok split: if_splits)

lemma chosen_approval_Ok:
  assumes "chosen_approval pe r p aid d = (Ok (Some a), d1)" and "keys_distinct ap_id (approvals d)"
    and "ap_state a = A_Approved"
  shows "find_approval d1 (ap_id a) = Some a" and "find_approval d (ap_id a) = Some a" and "unexpired pe a"
proof -
  have "find_approval d1 (ap_id a) = Some a \<and> find_approval d (ap_id a) = Some a \<and> unexpired pe a"
  proof (cases "missing_id aid")
    case True
    with assms(1) obtain u where e: "expire_approvals pe d = (Ok u, d1)" and "a \<in> set (approvals d1)"
      by (auto simp: chosen_approval_def find_matching_def list_approvals_def and_next_eq_Ok
          dest!: first_approval_Some in_set_takeD)
    then have "find_approval d1 (ap_id a) = Some a"
      using assms(2) by (auto intro: find_approvalI expire_approvals_distinct)
    with expire_approvals_Ok [OF e this] assms(3) show ?thesis by simp
  next
    case False
    with assms(1) have "load_approval pe (the aid) d = (Ok a, d1)"
      by (auto simp: chosen_approval_def and_next_eq_Ok)
    from load_approval_Ok [OF this] assms(3) show ?thesis by auto
  qed
  then show "find_approval d1 (ap_id a) = Some a" "find_approval d (ap_id a) = Some a" "unexpired pe a"
    by auto
qed

definition covers :: "policy_env \<Rightarrow> approval_row \<Rightarrow> scope_request \<Rightarrow> decision \<Rightarrow> bool" where
  "covers pe a r p = (ap_tool a = rq_tool r \<and> ap_target a = pd_target p \<and>
     get (ap_request a) ''effect'' = JStr (pd_effect p) \<and>
     (ap_scope a = Task_Scope \<longrightarrow> ap_task a = rq_task r) \<and>
     (ap_scope a = Session_Scope \<longrightarrow> ap_session a = rq_session r) \<and>
     (ap_scope a \<noteq> Target_Scope \<longrightarrow> (\<exists>i. canonical_intent pe r p = Ok i \<and>
        get_of (get (ap_request a) ''intent'') ''sha256'' = Ok (JStr (in_sha256 i)))))"

lemma approval_matches_covers: "approval_matches pe a r p = Ok True \<Longrightarrow> covers pe a r p"
  by (cases "ap_scope a = Target_Scope")
    (auto simp: approval_matches_def covers_def Let_def and_then_eq_Ok split: if_splits)

lemma authorize_matched:
  assumes "authorize pe r p aid consume d = (Ok (Some a), d')" and "keys_distinct ap_id (approvals d)"
  obtains row where "find_approval d a = Some row" "ap_state row = A_Approved" "unexpired pe row"
    and "approval_matches pe row r p = Ok True" "pd_action p = Ask"
    and "ap_scope row = Call_Scope \<and> consume \<Longrightarrow> find_approval d' a =
      Some (row\<lparr>ap_state := A_Consumed, ap_consumed_at := Some (pe_now pe)\<rparr>)"
proof -
  from assms(1) have ask: "pd_action p = Ask"
    by (auto simp: authorize_def split: policy_action.splits)
  from assms(1) ask obtain found d1 where found: "chosen_approval pe r p aid d = (Ok found, d1)"
    unfolding authorize_def by (auto simp: and_next_eq_Ok)
  from assms(1) ask found obtain row where row: "found = Some row" and approved: "ap_state row = A_Approved"
    by (auto simp: authorize_def split: option.splits if_splits)
  from assms(1) ask found row approved have matches: "approval_matches pe row r p = Ok True"
    by (auto simp: authorize_def split: sum.splits bool.splits)
  from assms(1) ask found row approved matches have a: "ap_id row = a"
    and consumed: "ap_scope row = Call_Scope \<and> consume \<Longrightarrow> \<exists>n. consume_approval pe a d1 = (Ok n, d')"
    by (auto simp: authorize_def and_next_eq_Ok split: if_splits)
  note found = found [unfolded row]
  note chosen = chosen_approval_Ok [OF found assms(2) approved, unfolded a]
  have "find_approval d' a = Some (row\<lparr>ap_state := A_Consumed, ap_consumed_at := Some (pe_now pe)\<rparr>)"
    if "ap_scope row = Call_Scope \<and> consume"
    using consumed [OF that] chosen(1) a approved
    by (auto simp: consume_approval_def Let_def transact_eq_Ok and_then_eq_Ok find_approval_def
        select_one_update_where dest!: update_approvals_Ok)
  with chosen ask approved matches show ?thesis
    by (intro that [of row]) auto
qed

lemma authorize_Ok:
  assumes "authorize pe r p aid consume d = (Ok (Some a), d')" and "keys_distinct ap_id (approvals d)"
  obtains row where "find_approval d a = Some row" "ap_state row = A_Approved" "unexpired pe row"
    and "covers pe row r p" "pd_action p = Ask"
    and "ap_scope row = Call_Scope \<and> consume \<Longrightarrow> find_approval d' a =
      Some (row\<lparr>ap_state := A_Consumed, ap_consumed_at := Some (pe_now pe)\<rparr>)"
  using authorize_matched [OF assms] approval_matches_covers by metis

subsection \<open>The intent an approval was requested for\<close>

lemma request_approval_Ok:
  assumes "request_approval pe aid uuid r p scope expires d = (Ok a, d')"
  obtains i sc row where "canonical_intent pe r p = Ok i" and "map_of scope_names scope = Some sc"
    and "find_approval d' aid = Some row" and "ap_tool row = rq_tool r" and "ap_target row = pd_target p"
    and "ap_request row = approval_payload p i" and "ap_scope row = sc"
proof -
  from assms obtain sc i u d2 where sc: "map_of scope_names scope = Some sc" and i: "canonical_intent pe r p = Ok i"
    and tx: "transact (\<lambda>d. and_then (insert_approval (pending_row pe aid r p sc expires i) d) (\<lambda>d1.
          and_then (insert_state_event (pe_now pe) uuid ''approval''
            (rq_tool r @ '': approval requested'') (rq_session r) None (rq_task r) None
            [(''approval_id'', JStr aid), (''state'', JStr ''pending''), (''scope'', JStr scope),
             (''risk_class'', JStr (pd_risk p)), (''target'', JStr (pd_target p))] ''normal'' d1)
          (\<lambda>(_, d2). Ok ((), d2)))) d = (Ok u, d2)"
    and load: "load_approval pe aid d2 = (Ok a, d')"
    by (auto simp: request_approval_def and_next_eq_Ok split: if_splits option.splits sum.splits)
  from tx have "approvals d2 = approvals d @ [pending_row pe aid r p sc expires i]" "aid \<notin> ap_id ` set (approvals d)"
    by (auto simp: transact_eq_Ok and_then_eq_Ok insert_approval_def pending_row_def fresh_def dest!: insert_state_event_Ok)
  then have "find_approval d2 aid = Some (pending_row pe aid r p sc expires i)"
    by (simp add: find_approval_def select_one_append_new pending_row_def)
  moreover have "approvals_kept d2 d'"
    using load_approval_kept [of d2 d2 pe aid] load by simp
  ultimately obtain row where "find_approval d' aid = Some row" "advances (pending_row pe aid r p sc expires i) row"
    unfolding approvals_kept_def by blast
  with sc i show ?thesis by (intro that [of i sc row]) (simp_all add: advances_def pending_row_def)
qed

text \<open>What the stored intent says of a column that is not redacted\<close>

definition same_column :: "string \<Rightarrow> intent \<Rightarrow> intent \<Rightarrow> bool" where
  "same_column k i i0 = (map_of (in_value i) k = map_of (in_value i0) k)"

definition plain_columns :: "string list" where
  "plain_columns = [''tool'', ''effect'', ''risk_class'', ''target'', ''task_id'', ''session_id'', ''allowed_paths'',
     ''allowed_hosts'', ''destructive'', ''elevated'', ''sandbox_escape'']"

lemma plain_columns_shown: "list_all (\<lambda>k. \<not> sensitive_key k \<and> k \<noteq> ''arguments'') plain_columns"
  "\<not> sensitive_key ''intent''" "\<not> sensitive_key ''version''" "\<not> sensitive_key ''sha256''" "\<not> sensitive_key ''value''"
  by code_simp+

lemma map_of_redacted:
  "\<not> sensitive_key k \<Longrightarrow> map_of (map (\<lambda>(k, v). (k, if sensitive_key k then JStr redacted else redact v)) m) k =
     map_option redact (map_of m k)"
  by (induction m) auto

lemma get_Cons: "get ((k', v) # m) k = (if k' = k then v else get m k)"
  by (simp add: get_def)

lemma payload_intent: "get (approval_payload p i) ''intent'' = JObj [(''version'', JInt 1), (''sha256'', JStr (in_sha256 i)),
    (''value'', JObj (map (\<lambda>(k, v). (k, if sensitive_key k then JStr redacted else redact v)) (in_value i)))]"
  by (simp add: approval_payload_def get_Cons intent_json_def plain_columns_shown)

lemma intent_column_values:
  assumes "canonical_intent pe r p = Ok i"
  shows "map_of (in_value i) ''tool'' = Some (JStr (rq_tool r))" "map_of (in_value i) ''effect'' = Some (JStr (pd_effect p))"
    "map_of (in_value i) ''risk_class'' = Some (JStr (pd_risk p))" "map_of (in_value i) ''target'' = Some (JStr (pd_target p))"
    "map_of (in_value i) ''task_id'' = Some (opt_str (rq_task r))" "map_of (in_value i) ''session_id'' = Some (opt_str (rq_session r))"
    "map_of (in_value i) ''destructive'' = Some (JBool (rq_destructive r))"
    "map_of (in_value i) ''elevated'' = Some (JBool (rq_elevated r))"
    "map_of (in_value i) ''sandbox_escape'' = Some (JBool (rq_escape r))"
    "map_of (in_value i) ''arguments'' = Some (intent_value pe False (JObj (rq_arguments r)))"
    "\<exists>l. map_of (in_value i) ''allowed_paths'' = Some (JArr (map JStr l))"
    "\<exists>l. map_of (in_value i) ''allowed_hosts'' = Some (JArr (map JStr l))"
  using assms by (auto simp: canonical_intent_def Let_def and_then_eq_Ok)

lemma opt_str_inject [simp]: "opt_str x = opt_str y \<longleftrightarrow> x = y" "redact (opt_str x) = opt_str x"
  by (auto simp: opt_str_def split: option.splits)

lemma plain_column_redacted:
  assumes "canonical_intent pe r p = Ok i" and "k \<in> set plain_columns"
  shows "map_option redact (map_of (in_value i) k) = map_of (in_value i) k"
proof -
  note columns = intent_column_values [OF assms(1)]
  from columns(11,12) obtain l l' where "map_of (in_value i) ''allowed_paths'' = Some (JArr (map JStr l))"
    "map_of (in_value i) ''allowed_hosts'' = Some (JArr (map JStr l'))" by blast
  moreover have "map redact (map JStr m) = map JStr m" for m by (induction m) simp_all
  ultimately have "list_all (\<lambda>k. map_option redact (map_of (in_value i) k) = map_of (in_value i) k) plain_columns"
    by (simp add: plain_columns_def columns(1-9) del: map_map list.map_comp)
  with assms(2) show ?thesis by (simp add: list_all_iff)
qed

lemma same_dictD:
  assumes "same_dict a b"
  shows "map_of a k = map_of b k"
proof (cases "k \<in> fst ` set (a @ b)")
  case True
  then obtain v where "(k, v) \<in> set (a @ b)" by (metis fst_conv imageE prod.collapse)
  with assms show ?thesis by (fastforce simp: same_dict_def list_all_iff)
next
  case False
  then have "map_of a k = None" "map_of b k = None" by (auto simp: map_of_eq_None_iff)
  then show ?thesis by simp
qed

lemma approval_matches_columns:
  assumes "approval_matches pe a r p = Ok True" and "ap_request a = approval_payload p0 i0"
    and i0: "canonical_intent pe0 r0 p0 = Ok i0"
    and no_collision: "\<And>i. canonical_intent pe r p = Ok i \<Longrightarrow> in_sha256 i = in_sha256 i0 \<Longrightarrow> in_value i = in_value i0"
  obtains i where "canonical_intent pe r p = Ok i" and "list_all (\<lambda>k. same_column k i i0) plain_columns"
    and "ap_scope a \<noteq> Target_Scope \<Longrightarrow> in_value i = in_value i0"
proof -
  let ?stored = "map (\<lambda>(k, v). (k, if sensitive_key k then JStr redacted else redact v)) (in_value i0)"
  from assms(1) obtain i where i: "canonical_intent pe r p = Ok i"
    and scope: "if ap_scope a = Target_Scope
      then same_dict (AList.delete ''arguments'' ?stored) (AList.delete ''arguments'' (in_value i))
      else in_sha256 i0 = in_sha256 i"
    by (auto simp: approval_matches_def Let_def and_then_eq_Ok assms(2) payload_intent get_Cons split: if_splits)
  show ?thesis
  proof (cases "ap_scope a = Target_Scope")
    case False
    with scope no_collision [OF i] have "in_value i = in_value i0" by simp
    with i that [of i] show ?thesis by (simp add: same_column_def list_all_iff)
  next
    case True
    have "same_column k i i0" if k: "k \<in> set plain_columns" for k
    proof -
      from k plain_columns_shown(1) have shown: "\<not> sensitive_key k" "k \<noteq> ''arguments''" by (auto simp: list_all_iff)
      from scope True have "map_of (AList.delete ''arguments'' ?stored) k = map_of (AList.delete ''arguments'' (in_value i)) k"
        by (intro same_dictD) simp
      then have "map_of ?stored k = map_of (in_value i) k" using shown by (simp add: delete_conv')
      then show ?thesis
        using plain_column_redacted [OF i0 k] shown by (simp add: same_column_def map_of_redacted)
    qed
    with i True that [of i] show ?thesis by (simp add: list_all_iff)
  qed
qed

lemma intent_columns:
  assumes "canonical_intent pe r p = Ok i" and "canonical_intent pe0 r0 p0 = Ok i0"
    and "list_all (\<lambda>k. same_column k i i0) plain_columns"
  shows "rq_tool r = rq_tool r0" "pd_effect p = pd_effect p0" "pd_risk p = pd_risk p0" "pd_target p = pd_target p0"
    "rq_task r = rq_task r0" "rq_session r = rq_session r0" "rq_destructive r = rq_destructive r0"
    "rq_elevated r = rq_elevated r0" "rq_escape r = rq_escape r0"
  using assms(3) by (simp_all add: plain_columns_def same_column_def intent_column_values [OF assms(1)]
      intent_column_values [OF assms(2)])

lemma intent_arguments:
  assumes "canonical_intent pe r p = Ok i" and "canonical_intent pe0 r0 p0 = Ok i0" and "in_value i = in_value i0"
  shows "intent_value pe False (JObj (rq_arguments r)) = intent_value pe0 False (JObj (rq_arguments r0))"
  using assms(3) intent_column_values(10) [OF assms(1)] intent_column_values(10) [OF assms(2)] by simp

lemma decide_in_transaction_Ok:
  assumes "decide_in_transaction pe rid uuid a approve reason d = Ok (x, d')"
  obtains d1 where "update_approvals (\<lambda>x. ap_id x = ap_id a \<and> ap_state x = A_Pending)
       (\<lambda>x. x\<lparr>ap_state := decided_state approve, ap_decision_reason := reason,
          ap_decided_at := Some (pe_now pe)\<rparr>) d = Ok d1" and "approvals d' = approvals d1"
    and "approve \<Longrightarrow> ap_scope a = Persistent_Scope \<Longrightarrow>
       \<exists>y d2. persistent_rule pe rid a reason d1 = Ok (y, d2) \<and> policy_rules d' = policy_rules d2"
proof (cases "approve \<and> ap_scope a = Persistent_Scope")
  case True
  with assms obtain d1 d2 y where "update_approvals (\<lambda>x. ap_id x = ap_id a \<and> ap_state x = A_Pending)
       (\<lambda>x. x\<lparr>ap_state := decided_state approve, ap_decision_reason := reason,
          ap_decided_at := Some (pe_now pe)\<rparr>) d = Ok d1"
    and rule: "persistent_rule pe rid a reason d1 = Ok (y, d2)"
    and "approvals d' = approvals d2" "policy_rules d' = policy_rules d2"
    by (auto simp: decide_in_transaction_def Let_def and_then_eq_Ok dest!: insert_state_event_Ok)
  with persistent_rule_approvals [OF rule] show ?thesis
    by (intro that [of d1]) auto
next
  case False
  then have skip: "(if approve \<and> ap_scope a = Persistent_Scope then x else y) = y" for x y :: "db result"
    by auto
  from assms obtain d1 where "update_approvals (\<lambda>x. ap_id x = ap_id a \<and> ap_state x = A_Pending)
       (\<lambda>x. x\<lparr>ap_state := decided_state approve, ap_decision_reason := reason,
          ap_decided_at := Some (pe_now pe)\<rparr>) d = Ok d1"
    and "approvals d' = approvals d1"
    unfolding decide_in_transaction_def Let_def skip by (auto simp: and_then_eq_Ok dest!: insert_state_event_Ok)
  with False show ?thesis
    by (intro that [of d1]) auto
qed

lemma decide_approval_Ok:
  assumes "decide_approval pe rid uuid aid approve reason task session d = (Ok a, d')"
  obtains row d1 d2 where "find_approval d aid = Some row" "ap_state row = A_Pending" "unexpired pe row"
    and "task \<noteq> None \<Longrightarrow> ap_task row = task" "session \<noteq> None \<Longrightarrow> ap_session row = session"
    and "a = row\<lparr>ap_state := decided_state approve, ap_decision_reason := reason,
      ap_decided_at := Some (pe_now pe)\<rparr>" "find_approval d' aid = Some a"
    and "decide_in_transaction pe rid uuid row approve reason d1 = Ok ((), d2)"
    and "policy_rules d' = policy_rules d2"
proof -
  from assms obtain row d1 where load: "load_approval pe aid d = (Ok row, d1)"
    and pending: "ap_state row = A_Pending"
    and claims: "task \<noteq> None \<longrightarrow> ap_task row = task" "session \<noteq> None \<longrightarrow> ap_session row = session"
    and rest: "and_next (transact (decide_in_transaction pe rid uuid row approve reason) d1)
      (\<lambda>_ d2. load_approval pe aid d2) = (Ok a, d')"
    by (auto simp: decide_approval_def and_next_eq_Ok [where r = "load_approval pe aid d"] split: if_splits)
  from rest obtain d2 where body: "decide_in_transaction pe rid uuid row approve reason d1 = Ok ((), d2)"
    and reload: "load_approval pe aid d2 = (Ok a, d')"
    by (auto simp: and_next_eq_Ok transact_eq_Ok)
  note row = load_approval_Ok [OF load]
  have table: "find_approval d2 aid = Some (row\<lparr>ap_state := decided_state approve,
      ap_decision_reason := reason, ap_decided_at := Some (pe_now pe)\<rparr>)"
  proof -
    obtain d3 where "update_approvals (\<lambda>x. ap_id x = ap_id row \<and> ap_state x = A_Pending)
       (\<lambda>x. x\<lparr>ap_state := decided_state approve, ap_decision_reason := reason,
          ap_decided_at := Some (pe_now pe)\<rparr>) d1 = Ok d3" and "approvals d2 = approvals d3"
      using body by (rule decide_in_transaction_Ok)
    then show ?thesis
      using row(1,2) pending by (auto simp: find_approval_def select_one_update_where dest!: update_approvals_Ok)
  qed
  have "unexpired pe row"
    using row(4) pending by simp
  have a: "a = row\<lparr>ap_state := decided_state approve, ap_decision_reason := reason,
      ap_decided_at := Some (pe_now pe)\<rparr>"
    using reload table \<open>unexpired pe row\<close>
    by (auto simp: load_approval_def and_next_eq_Ok expire_approvals_def transact_eq_Ok and_then_eq_Ok
        find_approval_def select_one_update_where expire_row_def unexpired_def dest!: update_approvals_Ok
        split: option.splits)
  have rules: "policy_rules d' = policy_rules d2"
    using reload by (auto simp: load_approval_def and_next_eq_Ok expire_approvals_def transact_eq_Ok
        and_then_eq_Ok dest!: update_approvals_Ok)
  from row pending claims load_approval_Ok(1) [OF reload] a body rules \<open>unexpired pe row\<close> show ?thesis
    by (intro that [of row d1 d2]) auto
qed

subsection \<open>The rule a persistent approval leaves\<close>

lemma plain_keys [simp]:
  "\<not> sensitive_key ''approval_id''" "\<not> sensitive_key ''reason''" "\<not> sensitive_key ''authority_intent''"
  "\<not> sensitive_key ''target_kind''" "\<not> sensitive_key ''version''" "\<not> sensitive_key ''sha256''"
  by code_simp+

lemma rule_target_metadata:
  "ok_post (rule_target pe eff target kind metadata)
     (\<lambda>(_, m). m = metadata \<or> (\<exists>v. m = AList.update ''target_kind'' v metadata))"
  unfolding rule_target_def
  by (rule ok_post_any post | (auto split: option.split; fail))+

lemma persistent_rule_Ok:
  assumes "persistent_rule pe rid a reason d = Ok (x, d')"
  shows "\<exists>rule m digest. policy_rules d' = policy_rules d @ [rule] \<and> ru_id rule = rid \<and>
     ru_action rule = Allow \<and> ru_expires_at rule = ap_expires_at a \<and> ru_metadata rule = Some m \<and>
     get m ''approval_id'' = JStr (ap_id a) \<and>
     get_of (get (ap_request a) ''intent'') ''sha256'' = Ok digest \<and>
     get (object_fields (get m ''authority_intent'')) ''sha256'' = redact digest"
proof -
  from assms obtain intent version digest eff kind where item: "item (ap_request a) ''intent'' = Ok intent"
    and digest: "get_of intent ''sha256'' = Ok digest"
    and rule: "add_rule_in_transaction pe rid eff ''allow'' (ap_target a) ''persistent'' (ap_expires_at a)
       [(''approval_id'', JStr (ap_id a)), (''reason'', JStr reason),
        (''authority_intent'', JObj [(''version'', version), (''sha256'', digest)])] kind d = Ok (x, d')"
    unfolding persistent_rule_def and_then_eq_Ok by blast
  from item have intent: "get (ap_request a) ''intent'' = intent"
    by (auto simp: item_def get_def split: option.splits)
  from add_rule_Ok [OF rule] obtain e act normalized m where act: "map_of action_names ''allow'' = Some act"
    and target: "rule_target pe e (ap_target a) kind [(''approval_id'', JStr (ap_id a)), (''reason'', JStr reason),
        (''authority_intent'', JObj [(''version'', version), (''sha256'', digest)])] = Ok (normalized, m)"
    and d': "d' = d\<lparr>policy_rules := policy_rules d @ [\<lparr>ru_id = rid, ru_effect = e, ru_action = act,
         ru_target = normalized, ru_scope = ''persistent'', ru_created_at = pe_now pe,
         ru_expires_at = ap_expires_at a, ru_metadata = Some (object_fields (redact (JObj m)))\<rparr>]\<rparr>"
    by blast
  let ?m = "object_fields (redact (JObj m))"
  from ok_postD [OF rule_target_metadata target]
  have "get ?m ''approval_id'' = JStr (ap_id a)"
    and "get (object_fields (get ?m ''authority_intent'')) ''sha256'' = redact digest"
    by (auto simp: get_def)
  moreover from act have "act = Allow"
    by (simp add: action_names_def)
  ultimately show ?thesis
    using intent digest by (auto simp: d')
qed

end
