(* ===== verification/Guarantees_Policy.thy ===== *)
theory Guarantees_Policy
  imports Approvals_Safety Evidence Samples
begin

section \<open>Guarantees of the policy and of approvals\<close>

text \<open>
  The properties of \<^verbatim>\<open>policy.py\<close> and \<^verbatim>\<open>approvals.py\<close>, each with the sample state it is applied
  to.  The sample library splits the two URLs the samples use and leaves paths as they are.
\<close>

definition sample_url :: url_parts where
  "sample_url = \<lparr>url_scheme = ''https'', url_username = [], url_password = [],
     url_hostname = ''example.com'', url_port = Ok None, url_path = ''/'', url_query = [], url_fragment = []\<rparr>"

definition sample_net :: net where
  "sample_net = \<lparr>urlsplit = (\<lambda>s. if starts_with s ''https://example.com'' then Ok sample_url
        else Err (Value_Error ''invalid'')),
     urlunsplit = (\<lambda>scheme authority path query. scheme @ ''://'' @ authority @ path),
     parse_qsl = (\<lambda>_. []), urlencode = (\<lambda>_. []), idna = Ok, ip_address = (\<lambda>_. None),
     inet_aton = (\<lambda>_. None), getaddrinfo = (\<lambda>_ _. Ok []), sha256 = (\<lambda>s. s)\<rparr>"

definition sample_policy :: "time \<Rightarrow> policy_env" where
  "sample_policy t = \<lparr>pe_net = sample_net, pe_resolve = Ok, pe_str = (\<lambda>_. ''value''),
     pe_json = (\<lambda>_. ''json''), pe_now = t\<rparr>"

definition sample_request :: "string \<Rightarrow> string \<Rightarrow> string \<Rightarrow> scope_request" where
  "sample_request tool eff target = \<lparr>rq_tool = tool, rq_effect = eff, rq_target = target,
     rq_arguments = [], rq_task = None, rq_session = None, rq_allowed_paths = [], rq_allowed_hosts = [],
     rq_destructive = False, rq_elevated = False, rq_escape = False\<rparr>"

definition sample_rule :: "effect \<Rightarrow> string \<Rightarrow> dict \<Rightarrow> rule_row" where
  "sample_rule eff target metadata = \<lparr>ru_id = ''r'', ru_effect = eff, ru_action = Allow, ru_target = target,
     ru_scope = ''persistent'', ru_created_at = 0, ru_expires_at = None, ru_metadata = Some metadata\<rparr>"

definition rules_db :: "rule_row list \<Rightarrow> db" where
  "rules_db l = empty_db\<lparr>policy_rules := l\<rparr>"

text \<open>The decision of an evaluation that returned, and whether it allows\<close>

fun allows :: "decision result \<Rightarrow> bool" where
  "allows (Inl e) = False"
| "allows (Inr p) = allowed p"

lemma allowsD: "allows x \<Longrightarrow> \<exists>p. x = Ok p \<and> allowed p"
  by (cases x) auto

subsection \<open>What an allowed action needs\<close>

text \<open>C20. Policy allows an action only for a reason: either the request is a plain read, for which the
  default is to allow, or a live rule of the store that allows its effect applies.  An unknown
  effect, an elevated or destructive action or an escape from the sandbox is never allowed
  without such a rule.\<close>

theorem allowed_action_authorized:
  assumes "evaluate pe r d = Ok p" and "allowed p"
  shows "\<exists>base. parse_effect (rq_effect r) = Some base \<and>
    pd_effect p = effect_text (request_effect r base) \<and>
    (request_effect r base = Read_Effect \<and> base = Read_Effect \<and> pd_rule p = None \<or>
     (\<exists>row \<in> set (policy_rules d). pd_rule p = Some (ru_id row) \<and> ru_action row = Allow \<and>
        ru_effect row = request_effect r base \<and> rule_live pe row))"
  using assms
proof (rule evaluate_allowed)
  fix base path missing
  assume base: "parse_effect (rq_effect r) = Some base" "pd_effect p = effect_text (request_effect r base)"
    and none: "pd_rule p = None \<Longrightarrow> default_action (request_effect r base) = Allow"
    and some: "\<And>rid. pd_rule p = Some rid \<Longrightarrow> \<exists>row. ru_id row = rid \<and> ru_action row = Allow \<and>
      matching_rule pe (request_effect r base) (pd_target p) r d = Ok (Some row)"
  have plain: "request_effect r base = Read_Effect \<and> base = Read_Effect" if "pd_rule p = None"
    using none [OF that] by (cases "request_effect r base") (auto simp: request_effect_def split: if_splits)
  show ?thesis
  proof (cases "pd_rule p")
    case None
    with base plain show ?thesis by auto
  next
    case (Some rid)
    from some [OF this] obtain row where "ru_id row = rid" "ru_action row = Allow"
      and match: "matching_rule pe (request_effect r base) (pd_target p) r d = Ok (Some row)"
      by blast
    from match have "row \<in> set (policy_rules d)" "ru_effect row = request_effect r base" "rule_live pe row"
      by (auto elim: matching_rule_Some)
    with base Some \<open>ru_id row = rid\<close> \<open>ru_action row = Allow\<close> show ?thesis by auto
  qed
qed

definition shell_request :: scope_request where
  "shell_request = sample_request ''shell'' ''execute'' ''ls''"

definition shell_rules :: db where
  "shell_rules = rules_db [sample_rule Execute ''ls'' []]"

lemma shell_allowed: "allows (evaluate (sample_policy 5) shell_request shell_rules)"
  by code_simp

lemma allowed_action_authorized_witness:
  "\<exists>p. evaluate (sample_policy 5) shell_request shell_rules = Ok p \<and>
     (\<exists>row \<in> set (policy_rules shell_rules). pd_rule p = Some (ru_id row) \<and> ru_effect row = Execute)"
proof -
  obtain p where p: "evaluate (sample_policy 5) shell_request shell_rules = Ok p" "allowed p"
    using shell_allowed allowsD by blast
  moreover have "parse_effect (rq_effect shell_request) = Some Execute" "request_effect shell_request Execute = Execute"
    by code_simp+
  ultimately show ?thesis
    using allowed_action_authorized [OF p] by auto
qed

text \<open>C33. An allowed action on a file stays inside its scope: the target it was decided for is the
  canonical form of the requested path (before any normalization of a network target) and lies
  under the canonical form of one of the authorized directories; with no authorized directory
  the action needs a rule.\<close>

theorem allowed_path_confined:
  assumes "evaluate pe r d = Ok p" and "allowed p" and "path_request r" and "rq_target r \<noteq> []"
    and "rq_effect r \<notin> {''network'', ''remote''}"
  shows "canonical_path pe (rq_target r) = Ok (pd_target p) \<and>
    (if rq_allowed_paths r = [] then pd_rule p \<noteq> None
     else \<exists>raw \<in> set (rq_allowed_paths r). \<exists>dir. canonical_path pe raw = Ok dir \<and> relative_to (pd_target p) dir)"
  using assms(1,2)
proof (rule evaluate_allowed)
  fix base path missing
  assume path: "check_path pe r (request_effect r base) = Ok (Inr (path, missing))"
    and target: "check_network pe r (request_effect r base) path = Ok (Inr (pd_target p))"
    and rule: "missing \<Longrightarrow> pd_rule p \<noteq> None"
  from target assms(5) have "pd_target p = path"
    by (simp add: check_network_other)
  with check_path_target [OF path assms(3,4)] rule show ?thesis
    by auto
qed

definition file_request :: scope_request where
  "file_request = (sample_request ''fs.read'' ''read'' ''/work/src/a.py'')\<lparr>rq_allowed_paths := [''/home'', ''/work'']\<rparr>"

lemma allowed_path_confined_witness:
  "\<exists>p. evaluate (sample_policy 0) file_request empty_db = Ok p \<and>
     canonical_path (sample_policy 0) ''/work/src/a.py'' = Ok (pd_target p)"
proof -
  have "allows (evaluate (sample_policy 0) file_request empty_db)"
    by code_simp
  then obtain p where p: "evaluate (sample_policy 0) file_request empty_db = Ok p" "allowed p"
    using allowsD by blast
  have "path_request file_request" "rq_target file_request \<noteq> []" "rq_effect file_request \<notin> {''network'', ''remote''}"
    and target: "rq_target file_request = ''/work/src/a.py''"
    by code_simp+
  with allowed_path_confined [OF p] p(1) show ?thesis
    by (simp only: target) blast
qed

text \<open>C34. An allowed network action goes to an authorized, public destination: the target it was decided
  for is the policy form of a destination with an HTTP(S) scheme, a port in range and no address
  literal outside the public ranges, and when the request names authorized hosts the destination's
  exact origin or exact host is among them.  The destination is that of the requested target or, when
  the request also has a path scope, of the target's canonical path, which then lies under one of the
  authorized directories, or needs a rule where there is none.\<close>

theorem allowed_network_confined:
  assumes "evaluate pe r d = Ok p" and "allowed p" and "rq_effect r = ''network''"
  shows "\<exists>path dest scopes origin.
    (if path_request r \<and> rq_target r \<noteq> []
     then canonical_path pe (rq_target r) = Ok path \<and> (if rq_allowed_paths r = [] then pd_rule p \<noteq> None
       else \<exists>raw \<in> set (rq_allowed_paths r). \<exists>dir. canonical_path pe raw = Ok dir \<and> relative_to path dir)
     else path = rq_target r) \<and>
    network_destination (pe_net pe) False False path = Ok dest \<and>
    pd_target p = nd_policy_url dest \<and> normalized_origin pe (pd_target p) = Ok origin \<and>
    (\<forall>a \<in> set (nd_addresses dest). ip_global a) \<and> 1 \<le> nd_port dest \<and> nd_port dest \<le> 65535 \<and>
    nd_scheme dest \<in> {''http'', ''https''} \<and>
    all_ok (normalize_network_scope pe) (rq_allowed_hosts r) = Ok scopes \<and>
    (rq_allowed_hosts r = [] \<or> ''origin:'' @ origin \<in> set scopes \<or> ''host:'' @ nd_host dest \<in> set scopes)"
  using assms(1,2)
proof (rule evaluate_allowed)
  fix base path missing
  assume checked: "check_path pe r (request_effect r base) = Ok (Inr (path, missing))"
    and target: "check_network pe r (request_effect r base) path = Ok (Inr (pd_target p))"
    and rule: "missing \<Longrightarrow> pd_rule p \<noteq> None"
  have path: "if path_request r \<and> rq_target r \<noteq> []
     then canonical_path pe (rq_target r) = Ok path \<and> (if rq_allowed_paths r = [] then pd_rule p \<noteq> None
       else \<exists>raw \<in> set (rq_allowed_paths r). \<exists>dir. canonical_path pe raw = Ok dir \<and> relative_to path dir)
     else path = rq_target r"
  proof (cases "path_request r \<and> rq_target r \<noteq> []")
    case True
    with check_path_target [OF checked] rule show ?thesis by auto
  next
    case False
    with checked show ?thesis by (auto simp: check_path_def Let_def)
  qed
  from check_network_target [OF target] assms(3) obtain host origin scopes where
    "normalize_network_target pe path = Ok (pd_target p, host)" and origin: "normalized_origin pe (pd_target p) = Ok origin"
    and scopes: "all_ok (normalize_network_scope pe) (rq_allowed_hosts r) = Ok scopes"
      "scopes = [] \<or> ''origin:'' @ origin \<in> set scopes \<or> ''host:'' @ host \<in> set scopes"
    by auto
  then obtain dest where dest: "network_destination (pe_net pe) False False path = Ok dest"
    and "pd_target p = nd_policy_url dest" "host = nd_host dest"
    by (auto simp: normalize_network_target_def and_then_eq_Ok)
  moreover from scopes(1) have "scopes = [] \<longleftrightarrow> rq_allowed_hosts r = []"
    by (auto simp: all_ok_eq_Ok)
  ultimately show ?thesis
    using path origin scopes destination_checked [OF dest] by (intro exI [of _ path] exI [of _ dest]) auto
qed

definition fetch_request :: scope_request where
  "fetch_request = (sample_request ''web.fetch'' ''network'' ''https://example.com'')\<lparr>rq_allowed_hosts := [''example.com'']\<rparr>"

definition fetch_rules :: db where
  "fetch_rules = rules_db [sample_rule Network_Effect ''example.com'' [(''target_kind'', JStr ''host'')]]"

lemma allowed_network_confined_witness:
  "\<exists>p (dest :: destination). evaluate (sample_policy 0) fetch_request fetch_rules = Ok p \<and> pd_target p = nd_policy_url dest \<and>
     nd_port dest \<le> 65535"
proof -
  have "allows (evaluate (sample_policy 0) fetch_request fetch_rules)"
    by code_simp
  then obtain p where p: "evaluate (sample_policy 0) fetch_request fetch_rules = Ok p" "allowed p"
    using allowsD by blast
  have "rq_effect fetch_request = ''network''"
    by code_simp
  from allowed_network_confined [OF p this] obtain dest :: destination
    where "pd_target p = nd_policy_url dest" "nd_port dest \<le> 65535"
    by (elim exE conjE) (rule that)
  with p(1) show ?thesis by blast
qed

text \<open>A rule that stems from an approval only ever allows what was approved: when an evaluation
  allows an action by a rule whose metadata name an approval, the canonical intent of the request
  has the digest the approval was given for.\<close>

theorem approval_rule_bound:
  assumes "evaluate pe r d = Ok p" and "allowed p" and "keys_distinct ru_id (policy_rules d)"
    and "row \<in> set (policy_rules d)" and "pd_rule p = Some (ru_id row)"
    and "ru_metadata row = Some m" and "truthy (get m ''approval_id'')"
  shows "\<exists>i. canonical_intent pe r p = Ok i \<and>
    get (object_fields (get m ''authority_intent'')) ''sha256'' = JStr (in_sha256 i)"
  using assms(1,2)
proof (rule evaluate_allowed)
  fix base path missing
  assume p: "pd_effect p = effect_text (request_effect r base)" "pd_risk p = risk_by_effect (request_effect r base)"
    and rule: "\<And>rid. pd_rule p = Some rid \<Longrightarrow> \<exists>x. ru_id x = rid \<and> ru_action x = Allow \<and>
      matching_rule pe (request_effect r base) (pd_target p) r d = Ok (Some x)"
  from rule [OF assms(5)] obtain x where x: "ru_id x = ru_id row"
    "matching_rule pe (request_effect r base) (pd_target p) r d = Ok (Some x)"
    by blast
  from x(2) obtain m' where m': "x \<in> set (policy_rules d)" "ru_metadata x = Some m'"
    "authority_matches pe (request_effect r base) (pd_target p) r x m' = Ok True"
    by (rule matching_rule_Some)
  with x(1) assms(3,4) have "x = row"
    by (metis distinct_map inj_onD)
  with m' assms(6) have "authority_matches pe (request_effect r base) (pd_target p) r row m = Ok True"
    by simp
  then show ?thesis
    by (rule authority_matches_bound) (use assms(7) p in auto)
qed

definition bound_rules :: db where
  "bound_rules = rules_db [sample_rule Execute ''ls''
     [(''approval_id'', JStr ''a''), (''authority_intent'', JObj [(''sha256'', JStr ''json'')])]]"

lemma approval_rule_bound_witness:
  "\<exists>p i. evaluate (sample_policy 5) shell_request bound_rules = Ok p \<and>
     canonical_intent (sample_policy 5) shell_request p = Ok i \<and> JStr ''json'' = JStr (in_sha256 i)"
proof -
  let ?row = "hd (policy_rules bound_rules)"
  have "case evaluate (sample_policy 5) shell_request bound_rules of Inl e \<Rightarrow> False
      | Inr p \<Rightarrow> allowed p \<and> pd_rule p = Some (ru_id ?row)"
    by code_simp
  then obtain p where p: "evaluate (sample_policy 5) shell_request bound_rules = Ok p" "allowed p"
    and rule: "pd_rule p = Some (ru_id ?row)"
    by (auto split: sum.splits)
  have "keys_distinct ru_id (policy_rules bound_rules)" "?row \<in> set (policy_rules bound_rules)"
    and m: "ru_metadata ?row = Some [(''approval_id'', JStr ''a''), (''authority_intent'', JObj [(''sha256'', JStr ''json'')])]"
    by (simp_all add: bound_rules_def rules_db_def sample_rule_def)
  from approval_rule_bound [OF p this(1,2) rule m] p(1) show ?thesis
    by (auto simp: get_def)
qed

text \<open>Redaction hides every sensitive value: in its result no key that names a secret, at any depth,
  has its value, and redacting again changes nothing.\<close>

theorem redaction_hides_secrets: "no_secrets (redact v) \<and> redact (redact v) = redact v"
  using redact_no_secrets redact_idem by blast

subsection \<open>Approvals\<close>

definition approval_request :: dict where
  "approval_request = [(''effect'', JStr ''execute''),
     (''intent'', JObj [(''version'', JInt 1), (''sha256'', JStr ''json''), (''value'', JObj [])])]"

definition sample_approval :: "approval_scope \<Rightarrow> approval_state \<Rightarrow> approval_row" where
  "sample_approval scope state = \<lparr>ap_id = ''a'', ap_state = state, ap_risk_class = ''execute'',
     ap_tool = ''shell'', ap_target = ''ls'', ap_request = approval_request, ap_scope = scope, ap_task = None,
     ap_session = None, ap_decision_reason = [], ap_created_at = 0, ap_decided_at = None,
     ap_expires_at = Some 100, ap_consumed_at = None\<rparr>"

definition approvals_db :: "approval_scope \<Rightarrow> approval_state \<Rightarrow> db" where
  "approvals_db scope state = empty_db\<lparr>approvals := [sample_approval scope state]\<rparr>"

definition ask_shell :: decision where
  "ask_shell = \<lparr>pd_action = Ask, pd_risk = ''execute'', pd_effect = ''execute'', pd_target = ''ls'',
     pd_reason = ''default policy'', pd_rule = None, pd_arguments = JObj []\<rparr>"

lemma approvals_db_distinct [simp]: "keys_distinct ap_id (approvals (approvals_db scope state))"
  by (simp add: approvals_db_def)

lemma sample_approval_found [simp]:
  "find_approval (approvals_db scope state) ''a'' = Some (sample_approval scope state)"
  by (simp add: approvals_db_def find_approval_def sample_approval_def)

lemma shell_authorized:
  "authorize (sample_policy 5) shell_request ask_shell (Some ''a'') True (approvals_db Call_Scope A_Approved) =
     (Ok (Some ''a''), empty_db\<lparr>approvals :=
        [(sample_approval Call_Scope A_Approved)\<lparr>ap_state := A_Consumed, ap_consumed_at := Some 5\<rparr>]\<rparr>)"
  by code_simp

text \<open>\<^verbatim>\<open>authorize\<close> accepts an action under an approval only when that approval was granted, has not
  expired and is for this tool, target and effect, and, unless it was given for the target as a
  whole, for exactly this intent; an approval given for a task or a session only serves that task
  or session.  A one-call approval is consumed by the call.\<close>

theorem authorized_action_approved:
  assumes "authorize pe r p aid consume d = (Ok (Some a), d')" and "keys_distinct ap_id (approvals d)"
  shows "pd_action p = Ask \<and>
    (\<exists>row. find_approval d a = Some row \<and> ap_state row = A_Approved \<and> unexpired pe row \<and> covers pe row r p \<and>
      (ap_scope row = Call_Scope \<and> consume \<longrightarrow> find_approval d' a =
        Some (row\<lparr>ap_state := A_Consumed, ap_consumed_at := Some (pe_now pe)\<rparr>)))"
  using assms by (rule authorize_Ok) auto

lemma authorized_action_approved_witness:
  "covers (sample_policy 5) (sample_approval Call_Scope A_Approved) shell_request ask_shell"
  using authorized_action_approved [OF shell_authorized] by simp

text \<open>C19. An approval stays inside the boundary it was requested for, whatever its scope: after any
  operations of the broker it authorizes only an action of the same tool, effect and target, in the
  same task and session, with the same flags, and, unless it was requested for the target as a whole,
  with the same arguments, provided the digests of the two intents do not collide.\<close>

theorem approval_stays_in_bounds:
  assumes "request_approval pe0 aid uuid r0 p0 scope expires d = (Ok a, d1)" and "keys_distinct ap_id (approvals d)"
    and "authorize pe r p chosen consume (fold approval_step ops d1) = (Ok (Some aid), d2)"
    and "\<And>i i0. canonical_intent pe r p = Ok i \<Longrightarrow> canonical_intent pe0 r0 p0 = Ok i0 \<Longrightarrow>
      in_sha256 i = in_sha256 i0 \<Longrightarrow> in_value i = in_value i0"
  shows "rq_tool r = rq_tool r0 \<and> pd_effect p = pd_effect p0 \<and> pd_target p = pd_target p0 \<and>
    rq_task r = rq_task r0 \<and> rq_session r = rq_session r0 \<and> rq_destructive r = rq_destructive r0 \<and>
    rq_elevated r = rq_elevated r0 \<and> rq_escape r = rq_escape r0 \<and>
    (scope \<noteq> ''target'' \<longrightarrow> intent_value pe False (JObj (rq_arguments r)) = intent_value pe0 False (JObj (rq_arguments r0)))"
proof -
  obtain i0 sc row0 where i0: "canonical_intent pe0 r0 p0 = Ok i0" and sc: "map_of scope_names scope = Some sc"
    and row0: "find_approval d1 aid = Some row0" "ap_request row0 = approval_payload p0 i0" "ap_scope row0 = sc"
    using assms(1) by (rule request_approval_Ok)
  obtain row1 where row1: "find_approval (fold approval_step ops d1) aid = Some row1" "advances row0 row1"
    using approval_content_stays [OF row0(1)] by blast
  have "keys_distinct ap_id (approvals d1)"
    using request_approval_kept [of d d pe0 aid uuid r0 p0 scope expires] assms(1,2) by (simp add: approvals_kept_def)
  then have "keys_distinct ap_id (approvals (fold approval_step ops d1))" by (rule approval_life.run_inv)
  with assms(3) row1(1) have "approval_matches pe row1 r p = Ok True" by (elim authorize_matched) auto
  moreover have "ap_request row1 = approval_payload p0 i0" and "ap_scope row1 = sc"
    using row0(2,3) row1(2) by (simp_all add: advances_def)
  ultimately obtain i where i: "canonical_intent pe r p = Ok i" "list_all (\<lambda>k. same_column k i i0) plain_columns"
    and arguments: "ap_scope row1 \<noteq> Target_Scope \<Longrightarrow> in_value i = in_value i0"
    using approval_matches_columns [OF _ _ i0] assms(4) [OF _ i0] by metis
  have "sc = Target_Scope" if "in_value i \<noteq> in_value i0" using that arguments \<open>ap_scope row1 = sc\<close> by blast
  moreover have "scope = ''target''" if "sc = Target_Scope"
    using sc that by (auto simp: scope_names_def split: if_splits)
  ultimately show ?thesis
    using intent_columns [OF i(1) i0 i(2)] intent_arguments [OF i(1) i0] by blast
qed

text \<open>A policy whose JSON text tells the tasks apart, an approval given for no task, and the same action
  of a task\<close>

definition task_policy :: "time \<Rightarrow> policy_env" where
  "task_policy t = (sample_policy t)\<lparr>pe_json := (\<lambda>v. case v of
     JObj m \<Rightarrow> (case get m ''task_id'' of JStr s \<Rightarrow> s | _ \<Rightarrow> ''none'') | _ \<Rightarrow> [])\<rparr>"

definition requested :: "approval_row result \<times> db" where
  "requested = request_approval (task_policy 5) ''a'' ''u'' shell_request ask_shell ''persistent'' None empty_db"

definition approving :: "approval_op list" where
  "approving = [Decide_Op (task_policy 6) ''rule'' ''v'' ''a'' True ''fine'' None None]"

definition authorized_for :: "ident option \<Rightarrow> ident option result \<times> db" where
  "authorized_for task = authorize (task_policy 7) (shell_request\<lparr>rq_task := task\<rparr>) ask_shell (Some ''a'') False
     (fold approval_step approving (snd requested))"

lemma approval_stays_in_bounds_witness:
  "fst (authorized_for None) = Ok (Some ''a'') \<and> fst (authorized_for (Some ''t'')) \<noteq> Ok (Some ''a'')"
proof
  show "fst (authorized_for None) = Ok (Some ''a'')" by code_simp
  have "is_ok (fst requested)" by code_simp
  then obtain a where "requested = (Ok a, snd requested)" by (cases "fst requested") (simp_all add: prod_eq_iff)
  note run = this [unfolded requested_def]
  show "fst (authorized_for (Some ''t'')) \<noteq> Ok (Some ''a'')"
  proof
    assume "fst (authorized_for (Some ''t'')) = Ok (Some ''a'')"
    then obtain d2 where "authorize (task_policy 7) (shell_request\<lparr>rq_task := Some ''t''\<rparr>) ask_shell (Some ''a'') False
       (fold approval_step approving (snd requested)) = (Ok (Some ''a''), d2)"
      by (metis authorized_for_def prod.collapse)
    note auth = this [unfolded requested_def]
    have "case canonical_intent (task_policy 7) (shell_request\<lparr>rq_task := Some ''t''\<rparr>) ask_shell of Inl err \<Rightarrow> False | Inr i \<Rightarrow> in_sha256 i = ''t''"
      "case canonical_intent (task_policy 5) shell_request ask_shell of Inl err \<Rightarrow> False | Inr i \<Rightarrow> in_sha256 i = ''none''"
      by code_simp+
    then have "rq_task (shell_request\<lparr>rq_task := Some ''t''\<rparr>) = rq_task shell_request"
      by (intro approval_stays_in_bounds [OF run _ auth, THEN conjunct2, THEN conjunct2, THEN conjunct2, THEN conjunct1])
        (auto simp: empty_db_def split: sum.splits)
    then show False by (simp add: shell_request_def sample_request_def)
  qed
qed

text \<open>A one-call approval authorizes one call: once \<^verbatim>\<open>authorize\<close> has consumed it, no sequence of
  operations of the broker makes it authorize another action.\<close>

theorem one_call_once:
  assumes "authorize pe r p aid True d = (Ok (Some a), d1)" and "keys_distinct ap_id (approvals d)"
    and "find_approval d a = Some row" and "ap_scope row = Call_Scope"
  shows "fst (authorize pe' r' p' aid' consume (fold approval_step ops d1)) \<noteq> Ok (Some a)"
proof
  let ?d2 = "fold approval_step ops d1"
  let ?row = "row\<lparr>ap_state := A_Consumed, ap_consumed_at := Some (pe_now pe)\<rparr>"
  assume again: "fst (authorize pe' r' p' aid' consume ?d2) = Ok (Some a)"
  have distinct: "keys_distinct ap_id (approvals d1)"
    using authorize_kept [of d d pe r p aid True] assms(1,2) by (simp add: approvals_kept_def)
  from assms have "find_approval d1 a = Some ?row"
    by (elim authorize_Ok) auto
  with distinct have used: "find_approval ?d2 a = Some ?row"
    by (rule approval_life.terminal_run) (simp add: settled_approval_def)
  from distinct have "keys_distinct ap_id (approvals ?d2)"
    by (rule approval_life.run_inv)
  with again obtain x where "find_approval ?d2 a = Some x" "ap_state x = A_Approved"
    by (metis authorize_Ok prod.collapse)
  with used show False by simp
qed

lemma one_call_once_witness:
  "fst (authorize (sample_policy 6) shell_request ask_shell (Some ''a'') True (fold approval_step []
     (snd (authorize (sample_policy 5) shell_request ask_shell (Some ''a'') True (approvals_db Call_Scope A_Approved)))))
   \<noteq> Ok (Some ''a'')"
  unfolding shell_authorized snd_conv
  by (rule one_call_once [OF shell_authorized, where row = "sample_approval Call_Scope A_Approved"])
    (simp_all add: sample_approval_def)

text \<open>An approval is decided at most once, and only while it is pending and unexpired, by a caller of
  its own task and session: after \<^verbatim>\<open>decide\<close> returned, no later \<^verbatim>\<open>decide\<close> of the same approval
  returns, whatever operations of the broker come in between.\<close>

theorem decided_once:
  assumes "decide_approval pe rid uuid aid approve reason task session d = (Ok a, d1)"
    and "keys_distinct ap_id (approvals d)"
  shows "(\<exists>row. find_approval d aid = Some row \<and> ap_state row = A_Pending \<and> unexpired pe row \<and>
      (task \<noteq> None \<longrightarrow> ap_task row = task) \<and> (session \<noteq> None \<longrightarrow> ap_session row = session)) \<and>
    ap_state a = decided_state approve \<and> ap_decision_reason a = reason \<and>
    (\<forall>b. fst (decide_approval pe' rid' uuid' aid approve' reason' task' session' (fold approval_step ops d1)) \<noteq> Ok b)"
  using assms(1)
proof (rule decide_approval_Ok)
  fix row d2 d3
  assume row: "find_approval d aid = Some row" "ap_state row = A_Pending" "unexpired pe row"
    "task \<noteq> None \<Longrightarrow> ap_task row = task" "session \<noteq> None \<Longrightarrow> ap_session row = session"
    and a: "a = row\<lparr>ap_state := decided_state approve, ap_decision_reason := reason,
      ap_decided_at := Some (pe_now pe)\<rparr>" and found: "find_approval d1 aid = Some a"
  have distinct: "keys_distinct ap_id (approvals d1)"
    using decide_approval_kept [of d d pe rid uuid aid approve reason task session] assms
    by (simp add: approvals_kept_def)
  have "decision_made d1 aid = Some True"
    using found a by (simp add: decision_made_def decided_state_def)
  with distinct have "decision_made (fold approval_step ops d1) aid = Some True"
    by (rule decided_life.terminal_run) simp
  then have over: "\<not> (\<exists>x. find_approval (fold approval_step ops d1) aid = Some x \<and> ap_state x = A_Pending)"
    by (auto simp: decision_made_def)
  have "fst (decide_approval pe' rid' uuid' aid approve' reason' task' session' (fold approval_step ops d1)) \<noteq> Ok b" for b
  proof
    assume "fst (decide_approval pe' rid' uuid' aid approve' reason' task' session' (fold approval_step ops d1)) = Ok b"
    then have "decide_approval pe' rid' uuid' aid approve' reason' task' session' (fold approval_step ops d1) =
        (Ok b, snd (decide_approval pe' rid' uuid' aid approve' reason' task' session' (fold approval_step ops d1)))"
      by (simp add: prod_eq_iff)
    then show False
      by (rule decide_approval_Ok) (use over in blast)
  qed
  with row a show ?thesis by simp
qed

definition persistent_decided :: "approval_row result \<times> db" where
  "persistent_decided = decide_approval (sample_policy 5) ''rule'' ''event'' ''a'' True ''fine'' None None
     (approvals_db Persistent_Scope A_Pending)"

lemma persistent_decided_Ok:
  "decide_approval (sample_policy 5) ''rule'' ''event'' ''a'' True ''fine'' None None
     (approvals_db Persistent_Scope A_Pending) = (Ok ((sample_approval Persistent_Scope A_Approved)
        \<lparr>ap_decision_reason := ''fine'', ap_decided_at := Some 5\<rparr>), snd persistent_decided)"
proof -
  have "fst persistent_decided = Ok ((sample_approval Persistent_Scope A_Approved)
      \<lparr>ap_decision_reason := ''fine'', ap_decided_at := Some 5\<rparr>)"
    by code_simp
  then show ?thesis
    by (simp add: persistent_decided_def prod_eq_iff)
qed

lemma decided_once_witness:
  "\<forall>b. fst (decide_approval (sample_policy 6) ''rule2'' ''event2'' ''a'' False ''no'' None None
     (fold approval_step [] (snd persistent_decided))) \<noteq> Ok b"
  using decided_once [OF persistent_decided_Ok, of "sample_policy 6" "''rule2''" "''event2''" False "''no''" None None "[]"]
  by simp

text \<open>Granting a persistent approval leaves a rule that allows, expires with the approval, names
  the approval and carries the digest of the intent that was approved, so that the rule is bound
  to that intent.\<close>

theorem persistent_approval_rule:
  assumes "decide_approval pe rid uuid aid True reason task session d = (Ok a, d')"
    and "ap_scope a = Persistent_Scope"
  shows "\<exists>rule m digest. rule \<in> set (policy_rules d') \<and> ru_id rule = rid \<and> ru_action rule = Allow \<and>
    ru_expires_at rule = ap_expires_at a \<and> ru_metadata rule = Some m \<and> get m ''approval_id'' = JStr aid \<and>
    get_of (get (ap_request a) ''intent'') ''sha256'' = Ok digest \<and>
    get (object_fields (get m ''authority_intent'')) ''sha256'' = redact digest"
  using assms(1)
proof (rule decide_approval_Ok)
  fix row d1 d2
  assume row: "find_approval d aid = Some row"
    and a: "a = row\<lparr>ap_state := decided_state True, ap_decision_reason := reason, ap_decided_at := Some (pe_now pe)\<rparr>"
    and body: "decide_in_transaction pe rid uuid row True reason d1 = Ok ((), d2)"
    and rules: "policy_rules d' = policy_rules d2"
  from body obtain d3 y d4 where rule: "persistent_rule pe rid row reason d3 = Ok (y, d4)"
    and "policy_rules d2 = policy_rules d4"
    using assms(2) a by (elim decide_in_transaction_Ok) auto
  with persistent_rule_Ok [OF rule] rules a find_approvalD [OF row] show ?thesis
    by auto
qed

lemma persistent_approval_rule_witness:
  "\<exists>rule m. rule \<in> set (policy_rules (snd persistent_decided)) \<and> ru_metadata rule = Some m \<and>
     get (object_fields (get m ''authority_intent'')) ''sha256'' = JStr ''json''"
  using persistent_approval_rule [OF persistent_decided_Ok]
  by (auto simp: sample_approval_def approval_request_def get_def)

subsection \<open>Evidence\<close>

text \<open>An artifact counts as verified only when it makes at least one claim and every claim of it
  occurs in the artifact and quotes a text that the retained chunk of a stored evidence record
  contains; the verification itself is recorded as new evidence and changes nothing else.\<close>

theorem verified_artifact_supported:
  assumes "verify_artifact pe eid artifact claims task event content d = (Ok v, d')"
  shows "(vf_verified v \<longrightarrow> claims \<noteq> [] \<and> (\<forall>c \<in> set claims. claim_holds pe d content c)) \<and>
    (\<exists>r. d' = d\<lparr>evidence_records := evidence_records d @ [r]\<rparr> \<and> vf_evidence v = ev_id r)"
  using verify_artifact_Ok [OF assms] by blast

definition evidence_db :: db where
  "evidence_db = empty_db\<lparr>evidence_records := [\<lparr>ev_id = ''e'', ev_task = None, ev_event = None,
     ev_type = ''tool_result'', ev_source = ''shell'', ev_sha256 = ''h'', ev_result_ref = [],
     ev_metadata = [(''relevant_chunk'', JStr ''12 tests passed'')], ev_created_at = 0\<rparr>]\<rparr>"

definition sample_claim :: dict where
  "sample_claim = [(''text'', JStr ''tests pass''), (''supporting_text'', JStr ''12 tests''), (''evidence_id'', JStr ''e'')]"

lemma verified_artifact_supported_witness:
  "claim_holds (sample_policy 0) evidence_db ''All tests pass.'' sample_claim"
proof -
  let ?run = "verify_artifact (sample_policy 0) ''v'' ''report'' [sample_claim] None None ''All tests pass.'' evidence_db"
  have "case fst ?run of Inl e \<Rightarrow> False | Inr v \<Rightarrow> vf_verified v"
    by code_simp
  then obtain v where v: "fst ?run = Ok v" "vf_verified v"
    by (auto split: sum.splits)
  then have "?run = (Ok v, snd ?run)"
    by (simp add: prod_eq_iff)
  from verified_artifact_supported [OF this] v(2) show ?thesis
    by simp
qed

end
