(* ===== verification/Guarantees_Delegation.thy ===== *)
theory Guarantees_Delegation
  imports Delegation_Safety Orchestration_Safety Guarantees_Policy
begin

section \<open>Guarantees of roles, orchestration and delegation\<close>

text \<open>
  The properties of the role registry, of routing and handoffs, and of delegated children, each
  with a witness on a small state: a task \<open>t\<close> that delegated to a child \<open>u\<close>, and a grandchild.
\<close>

subsection \<open>Sample states\<close>

definition sample_orchestra :: orchestra where
  "sample_orchestra = \<lparr>oc_roles = default_roles, oc_models = default_models (\<lambda>p. p), oc_expand = (\<lambda>p. p),
     oc_backend = \<lparr>be_artifact_matches = (\<lambda>_. True),
       be_calibration = (\<lambda>a. map_option (\<lambda>m. (''ready'', mi_sha256 m)) (map_of (mr_models (default_models (\<lambda>p. p))) a)),
       be_runtime_matches = (\<lambda>_. True), be_is_file = (\<lambda>_. True)\<rparr>\<rparr>"

definition sample_known :: "string list" where
  "sample_known = map fst (mr_models (default_models (\<lambda>p. p)))"

definition sample_authority :: "string list \<Rightarrow> authority" where
  "sample_authority targets = \<lparr>au_paths = [], au_effects = [''network''], au_network_targets = targets,
     au_remote_targets = [], au_secret_refs = []\<rparr>"

definition sample_contract :: "ident \<Rightarrow> ident option \<Rightarrow> string list \<Rightarrow> contract_state \<Rightarrow> contract_row" where
  "sample_contract did parent targets state = \<lparr>dc_delegation = did, dc_parent = parent, dc_tools = [''fetch''],
     dc_authority = sample_authority targets,
     dc_budget = \<lparr>bg_max_seconds = 60, bg_max_iterations = 2, bg_max_tokens = 100, bg_inference = True\<rparr>,
     dc_workspace = \<lparr>wp_mode = ''isolated'', wp_access = ''read-only'', wp_root = [], wp_exclusive = False\<rparr>,
     dc_completion = \<lparr>cm_required_types = [''log''], cm_summary_required = True\<rparr>, dc_state = state,
     dc_accepted = None, dc_acceptance_reason = [], dc_started_at = None, dc_deadline_at = None,
     dc_finished_at = None, dc_updated_at = 0\<rparr>"

definition sample_delegation :: "ident \<Rightarrow> ident \<Rightarrow> ident \<Rightarrow> delegation_row" where
  "sample_delegation did parent child = \<lparr>dg_id = did, dg_parent_task = parent, dg_child_task = child,
     dg_requested_role = ''general'', dg_state = Dg_Requested, dg_goal = ''g'', dg_scope = [],
     dg_constraints = [], dg_permissions = [''fetch''], dg_evidence_refs = [], dg_expected = [],
     dg_result_status = None, dg_result_summary = ''done'',
     dg_result = [(''evidence_ids'', JArr [JStr ''e''])], dg_created_at = 0, dg_updated_at = 0, dg_completed_at = None\<rparr>"

definition sample_log :: evidence_row where
  "sample_log = \<lparr>ev_id = ''e'', ev_task = Some ''u'', ev_event = None, ev_type = ''log'', ev_source = ''s'',
     ev_sha256 = ''h'', ev_result_ref = [], ev_metadata = [], ev_created_at = 0\<rparr>"

definition delegated_db :: "contract_state \<Rightarrow> db" where
  "delegated_db state = empty_db\<lparr>tasks := [sample_task ''t'' T_Running, (sample_task ''u'' T_Running)\<lparr>tk_parent := Some ''t''\<rparr>,
       (sample_task ''v'' T_Running)\<lparr>tk_parent := Some ''u''\<rparr>],
     evidence_records := [sample_log],
     resource_leases := [sample_lease (Delegation_Run, ''D'') live_owner],
     delegations := [sample_delegation ''D'' ''t'' ''u'', sample_delegation ''E'' ''u'' ''v''],
     delegation_contracts := [sample_contract ''D'' None [''a'', ''b''] state,
       sample_contract ''E'' (Some ''D'') [''a''] K_Created]\<rparr>"

lemma delegated_narrow: "contracts_narrow (delegated_db state)"
  by (auto simp: contracts_narrow_def delegated_db_def find_contract_def sample_contract_def contract_below_def
      authority_below_def sample_authority_def path_subset_def split: if_splits)

lemma delegated_find [simp]:
  "find_contract (delegated_db state) ''D'' = Some (sample_contract ''D'' None [''a'', ''b''] state)"
  "find_contract (delegated_db state) ''E'' = Some (sample_contract ''E'' (Some ''D'') [''a''] K_Created)"
  by (simp_all add: delegated_db_def find_contract_def sample_contract_def)

subsection \<open>Delegated children\<close>

text \<open>C13. A child never may do what its ancestors may not: whatever operations create, run and
  settle children, an action the contract of a child authorizes (tool, effect, path, network or
  remote target) is authorized by the contract of every delegation above it.\<close>

theorem child_within_ancestors:
  assumes "contracts_narrow d" and "descends (fold child_step ops d) did anc"
    and "authorize_child_action pe did tool effect target (fold child_step ops d) = Ok ()"
  shows "authorize_child_action pe anc tool effect target (fold child_step ops d) = Ok ()"
  using authorize_ancestor [OF narrowing.run_inv [OF assms(1)] assms(2,3)] .

lemma child_within_ancestors_witness:
  "authorize_child_action (sample_policy 5) ''D'' ''fetch'' ''network'' ''a''
     (fold child_step [Other_Write (Set_Leases (\<lambda>l. []))] (delegated_db K_Running)) = Ok ()"
proof (rule child_within_ancestors [OF delegated_narrow])
  let ?d = "fold child_step [Other_Write (Set_Leases (\<lambda>l. []))] (delegated_db K_Running)"
  have find: "find_contract ?d x = find_contract (delegated_db K_Running) x" for x
    by (simp add: write_step_def find_contract_def)
  have "find_contract ?d ''E'' = Some (sample_contract ''E'' (Some ''D'') [''a''] K_Created)"
    unfolding find by simp
  then show "descends ?d ''E'' ''D''"
    by (rule descends.above [OF _ _ descends.itself]) (simp add: sample_contract_def)
  show "authorize_child_action (sample_policy 5) ''E'' ''fetch'' ''network'' ''a'' ?d = Ok ()"
    unfolding authorize_child_action_Ok find by (simp add: sample_contract_def sample_authority_def)
qed

text \<open>C31. The life of a child refines its abstract machine: over any sequence of operations a
  contract keeps its tools, authority, budget, workspace and completion terms, its state only
  moves along \<open>contract_moves\<close>, and a failed, cancelled, timed out, accepted or rejected contract
  never changes again.\<close>

theorem contract_moves_forward:
  assumes "find_contract d did = Some c"
  shows "\<exists>c'. find_contract (fold child_step ops d) did = Some c' \<and> contract_advances c c'"
  using advancing.run_inv [OF contracts_kept_refl, of d ops] assms by (simp add: contracts_kept_def)

lemma contract_moves_forward_witness:
  "\<exists>c'. find_contract (fold child_step [Cancel_Child (sample_env 1) ''u'' live_owner False [] ''E'']
      (delegated_db K_Running)) ''E'' = Some c' \<and> contract_advances (sample_contract ''E'' (Some ''D'') [''a''] K_Created) c'"
  by (rule contract_moves_forward) simp

text \<open>When \<^verbatim>\<open>_finish_execution\<close> returns, the caller held the delegation's lease and the contract was
  open; the contract, the delegation record and the child task then tell the same outcome, and
  the caller's lease is gone.\<close>

theorem finished_child_agrees:
  assumes "finish_execution e uuid ow did state status summary result True d = (Ok c, d')" and "child_keys_ok d"
  shows "lease_current e did ow d \<and> finished_as d' did state status \<and>
    (\<exists>b. find_contract d did = Some b \<and> dc_state b \<in> {K_Scheduled, K_Running, K_Cancellation_Requested}) \<and>
    (\<forall>r \<in> set (resource_leases d'). \<not> (on_lease (Delegation_Run, did) r \<and> ls_token r = ow_token ow))"
  using finish_execution_Ok [OF assms] by blast

lemma finished_child_agrees_witness:
  "\<exists>c d'. finish_execution (sample_env 1) ''x'' live_owner ''D'' K_Completed Success ''ok'' [] True (delegated_db K_Running) = (Ok c, d') \<and>
     finished_as d' ''D'' K_Completed Success"
proof -
  let ?r = "finish_execution (sample_env 1) ''x'' live_owner ''D'' K_Completed Success ''ok'' [] True (delegated_db K_Running)"
  have "is_ok (fst ?r)" by code_simp
  then obtain c d' where r: "?r = (Ok c, d')"
    by (cases ?r; cases "fst ?r") auto
  have "child_keys_ok (delegated_db K_Running)" by code_simp
  from finished_child_agrees [OF r this] r show ?thesis by blast
qed

text \<open>A child's result is accepted only when its contract was completed, every type of evidence
  the contract requires is backed by a stored record of the child's own task that the result
  names, and a required summary is there.\<close>

theorem accepted_child_has_evidence:
  assumes "accept_child pe e uuid True reason did d = (Ok c', d')"
  shows "\<exists>c g. find_contract d did = Some c \<and> dc_state c = K_Completed \<and> find_delegation d did = Some g \<and>
    (\<forall>t \<in> set (cm_required_types (dc_completion c)). \<exists>eids eid v. evidence_ids pe (dg_result g) = Ok eids \<and>
       eid \<in> set eids \<and> find_evidence d eid = Some v \<and> ev_task v = Some (dg_child_task g) \<and> ev_type v = t) \<and>
    (cm_summary_required (dc_completion c) \<longrightarrow> strip (dg_result_summary g) \<noteq> [])"
proof -
  from assms obtain c g eids types where "find_contract d did = Some c" "dc_state c = K_Completed"
    "find_delegation d did = Some g" "evidence_ids pe (dg_result g) = Ok eids"
    and types: "evidence_types d (dg_child_task g) eids = Ok types"
    and "set (cm_required_types (dc_completion c)) \<subseteq> set types"
    and "cm_summary_required (dc_completion c) \<Longrightarrow> strip (dg_result_summary g) \<noteq> []"
    by (rule accept_child_Ok) auto
  with evidence_types_Ok [OF types] show ?thesis by blast
qed

lemma accepted_child_has_evidence_witness:
  "\<exists>v. find_evidence (delegated_db K_Completed) ''e'' = Some v \<and> ev_task v = Some ''u'' \<and> ev_type v = ''log''"
proof -
  let ?r = "accept_child (sample_policy 5) (sample_env 1) ''x'' True ''fine'' ''D'' (delegated_db K_Completed)"
  have "is_ok (fst ?r)" by code_simp
  then obtain c d' where r: "?r = (Ok c, d')"
    by (cases ?r; cases "fst ?r") auto
  have "find_delegation (delegated_db K_Completed) ''D'' = Some (sample_delegation ''D'' ''t'' ''u'')"
    "evidence_ids (sample_policy 5) (dg_result (sample_delegation ''D'' ''t'' ''u'')) = Ok [''e'']"
    by code_simp+
  with accepted_child_has_evidence [OF r] show ?thesis
    by (auto simp: sample_contract_def sample_delegation_def)
qed

text \<open>An iterative child is bounded by its contract: steps an executor would produce after
  \<open>max_iterations\<close> of them have no influence on the result or the store.\<close>

theorem child_iterations_bounded:
  assumes "\<forall>k. 1 \<le> k \<and> k \<le> nat (bg_max_iterations (dc_budget (cx_contract cx))) \<longrightarrow> it_next i k = it_next j k"
    and "it_close i = it_close j"
  shows "execute_bounded (Iterative (\<lambda>cx d. (Ok (Some i), open_it cx d))) cx seen d =
    execute_bounded (Iterative (\<lambda>cx d. (Ok (Some j), open_it cx d))) cx seen d"
proof -
  let ?n = "nat (bg_max_iterations (dc_budget (cx_contract cx)))"
  have "iterate_steps (it_next i) seen ?n 0 [] x = iterate_steps (it_next j) seen ?n 0 [] x" for x
    by (rule iterate_steps_bounded) (use assms(1) in auto)
  then show ?thesis
    using assms(2) by (simp add: execute_bounded_def Let_def)
qed

definition two_steps :: "json \<Rightarrow> iterator" where
  "two_steps later = \<lparr>it_next = (\<lambda>k d. (Step (if k \<le> 2 then JObj [] else later) False, d)), it_close = None\<rparr>"

lemma child_iterations_bounded_witness:
  "execute_bounded (Iterative (\<lambda>cx d. (Ok (Some (two_steps JNull)), d)))
     \<lparr>cx_delegation = ''D'', cx_task = ''u'', cx_goal = ''g'', cx_contract = sample_contract ''D'' None [] K_Running\<rparr>
     (\<lambda>_. False) empty_db =
   execute_bounded (Iterative (\<lambda>cx d. (Ok (Some (two_steps (JObj []))), d)))
     \<lparr>cx_delegation = ''D'', cx_task = ''u'', cx_goal = ''g'', cx_contract = sample_contract ''D'' None [] K_Running\<rparr>
     (\<lambda>_. False) empty_db"
  by (rule child_iterations_bounded) (auto simp: two_steps_def sample_contract_def fun_eq_iff)

text \<open>However a child's run ends, with any executor, its worker does not keep the execution
  lease of the child's task, unless external processes still fence it.\<close>

theorem child_run_lets_go:
  assumes "lets_go (ob_env ob 5) ow (dg_child_task g) d" and "leases_ok d"
  shows "lets_go (ob_env ob 5) ow (dg_child_task g) (snd (run_child pe ob ow x contract g d))"
  using assms by (rule run_child_lets_go)

definition sample_observed :: observed where
  "sample_observed = \<lparr>ob_env = (\<lambda>n. sample_env (int n)), ob_ids = (\<lambda>n. dec n), ob_cancelled = False, ob_seen = (\<lambda>_. False),
     ob_timed_out = False, ob_cancelled_after = False, ob_expired = False, ob_attempts = []\<rparr>"

lemma child_run_lets_go_witness:
  "lets_go (sample_env 5) live_owner ''u'' (snd (run_child (sample_policy 5) sample_observed live_owner
     (Atomic (\<lambda>cx d. (Ok (JObj []), d))) (sample_contract ''D'' None [] K_Scheduled)
     (sample_delegation ''D'' ''t'' ''u'') (delegated_db K_Scheduled)))"
proof -
  have "lets_go (ob_env sample_observed 5) live_owner (dg_child_task (sample_delegation ''D'' ''t'' ''u''))
      (delegated_db K_Scheduled)" "leases_ok (delegated_db K_Scheduled)"
    by (simp_all add: lets_go_def find_lease_def delegated_db_def sample_lease_def claimed_row_def leases_ok_def
        sample_delegation_def)
  from child_run_lets_go [OF this] show ?thesis
    by (simp add: sample_observed_def sample_delegation_def)
qed

subsection \<open>Roles\<close>

text \<open>C38. Whatever operations are applied to the role registry, its default role exists and is
  enabled, and its names resolve without ambiguity, blanks at either end apart: every role whose id has
  none answers to its id, and to each of its aliases that has none and is not one of the two legacy
  names.  (Names are stripped before they are looked up, and an id that ends in a newline, which the
  pattern of ids lets through, does not answer to itself.)\<close>

theorem role_names_resolve:
  assumes "role_file_ok known file" and "fold (role_step known) ops file = Some r"
  shows "(\<exists>info. (rr_default r, info) \<in> set (rr_roles r) \<and> rl_enabled info) \<and>
    (\<forall>(rid, info) \<in> set (rr_roles r). (strip rid = rid \<longrightarrow> resolve_role_id_from r rid = Ok rid) \<and>
       (\<forall>a \<in> set (rl_aliases info). strip a = a \<and> casefold a \<notin> fst ` set legacy_role_aliases \<longrightarrow>
          resolve_role_id_from r a = Ok rid))"
proof -
  from role_registry.run_inv [OF assms(1), of ops] assms(2) have valid: "roles_valid known r"
    by (simp add: role_file_ok_def)
  then show ?thesis
    using resolve_own_id [OF valid] resolve_alias [OF valid] by (auto simp: roles_valid_def)
qed

lemma sample_roles_ok: "role_file_ok sample_known (Some default_roles)"
proof -
  have "validate_registry sample_known default_roles = Ok ()" by code_simp
  then show ?thesis by (simp add: role_file_ok_def validate_registry_Ok)
qed

lemma role_names_resolve_witness:
  "resolve_role_id_from default_roles ''general'' = Ok ''general''"
proof -
  have "''general'' \<in> fst ` set (rr_roles default_roles)" "strip ''general'' = ''general''" by code_simp+
  then obtain info where "(''general'', info) \<in> set (rr_roles default_roles)" "strip ''general'' = ''general''"
    by fastforce
  with role_names_resolve [OF sample_roles_ok, of "[]" default_roles] show ?thesis by fastforce
qed

text \<open>No lost update of the role registry: once a save made from a generation succeeded, every
  other save made from that generation is refused.\<close>

theorem stale_roles_refused:
  assumes "save_role_registry known x (Some current) = Ok (x', Some w)" and "rr_generation y = rr_generation current"
  shows "save_role_registry known y (Some w) \<noteq> Ok r"
  using assms by (rule role_files.stale_save_refused)

lemma stale_roles_refused_witness:
  "\<exists>w. (\<exists>x'. save_role_registry sample_known default_roles (Some default_roles) = Ok (x', Some w)) \<and>
     save_role_registry sample_known default_roles (Some w) \<noteq> Ok (default_roles, None)"
proof -
  have "is_ok (save_role_registry sample_known default_roles (Some default_roles))" by code_simp
  then obtain x' f where saved: "save_role_registry sample_known default_roles (Some default_roles) = Ok (x', f)"
    by (cases "save_role_registry sample_known default_roles (Some default_roles)") auto
  from save_role_registry_Ok(2) [OF saved] obtain w where "f = Some w" by blast
  with saved stale_roles_refused [of sample_known default_roles default_roles x' w default_roles] show ?thesis
    by auto
qed

subsection \<open>Routing and handoffs\<close>

text \<open>Routing names an enabled role, bound to a model that is ready, that has every required
  capability, and no other such role has fewer capabilities beside them.\<close>

theorem route_is_narrowest:
  assumes "choose_route oc stamp rid task capabilities = Ok decision"
  shows "\<exists>role. registered oc role \<and> eligible oc (set (required_capabilities capabilities)) role \<and>
    rc_id role = rt_selected decision \<and>
    (\<forall>other. registered oc other \<and> eligible oc (set (required_capabilities capabilities)) other \<longrightarrow>
      surplus (set (required_capabilities capabilities)) role \<le> surplus (set (required_capabilities capabilities)) other)"
proof -
  from assms obtain role where "registered oc role" "eligible oc (set (required_capabilities capabilities)) role"
    "rc_id role = rt_selected decision"
    "\<And>other. registered oc other \<Longrightarrow> eligible oc (set (required_capabilities capabilities)) other \<Longrightarrow>
      surplus (set (required_capabilities capabilities)) role \<le> surplus (set (required_capabilities capabilities)) other"
    by (rule choose_route_Ok) blast
  then show ?thesis by blast
qed

lemma route_is_narrowest_witness:
  "\<exists>decision role. choose_route sample_orchestra 0 ''r'' None [''code''] = Ok decision \<and>
     rc_id role = rt_selected decision \<and> eligible sample_orchestra {''code''} role"
proof -
  have "is_ok (choose_route sample_orchestra 0 ''r'' None [''code''])" by code_simp
  then obtain decision where chosen: "choose_route sample_orchestra 0 ''r'' None [''code''] = Ok decision"
    by (cases "choose_route sample_orchestra 0 ''r'' None [''code'']") auto
  have "required_capabilities [''code''] = [''code'']" by code_simp
  with route_is_narrowest [OF chosen] chosen show ?thesis by auto
qed

text \<open>A handoff happens only on a task that has not ended and has no open run, to an enabled
  role with a model other than its owner; it leaves, as the task's latest checkpoint, one of the
  task under the old owner and epoch, and moves the task to the next epoch.\<close>

theorem handoff_leaves_checkpoint:
  assumes "handoff_task oc e digest ambient ids tid to_role reason d = (Ok h, d')"
  shows "\<exists>row cp. find_task d tid = Some row \<and> \<not> terminal_task_state (tk_state row) \<and>
    \<not> exists_where (\<lambda>r. tr_task r = tid \<and> open_run r) (task_runs d) \<and>
    (\<exists>role :: role_record. rc_id role = ho_to_role h \<and> rl_enabled (rc_info role) \<and> rl_model (rc_info role) \<noteq> []) \<and>
    ho_to_role h \<noteq> tk_owner_role row \<and> latest_checkpoint d' tid = Some cp \<and> cp_id cp = ho_checkpoint h \<and>
    cp_owner_role cp = tk_owner_role row \<and> cp_epoch cp = tk_epoch row \<and>
    find_task d' tid = Some (row\<lparr>tk_owner_role := ho_to_role h, tk_phase := ''handoff-complete'',
      tk_epoch := tk_epoch row + 1, tk_updated_at := now e\<rparr>)"
proof (rule handoff_task_Ok [OF assms])
  fix row cp
  assume "find_task d tid = Some row" "\<not> terminal_task_state (tk_state row)"
    "\<not> exists_where (\<lambda>r. tr_task r = tid \<and> open_run r) (task_runs d)"
    "\<exists>role :: role_record. rc_id role = ho_to_role h \<and> rl_enabled (rc_info role) \<and> rl_model (rc_info role) \<noteq> []"
    "ho_to_role h \<noteq> tk_owner_role row"
    "find_task d' tid = Some (row\<lparr>tk_owner_role := ho_to_role h, tk_phase := ''handoff-complete'',
      tk_epoch := tk_epoch row + 1, tk_updated_at := now e\<rparr>)"
    "latest_checkpoint d' tid = Some cp" "cp_id cp = ho_checkpoint h" "cp_epoch cp = tk_epoch row"
    "cp_owner_role cp = tk_owner_role row"
  then show ?thesis by blast
qed

lemma handoff_leaves_checkpoint_witness:
  "\<exists>cp d'. latest_checkpoint d' ''t'' = Some cp \<and> cp_owner_role cp = ''primary'' \<and>
     (\<exists>h. handoff_task sample_orchestra (sample_env 1) (\<lambda>_. ''h'') None dec ''t'' ''builder'' ''r'' (sample_db T_Paused) = (Ok h, d'))"
proof -
  let ?r = "handoff_task sample_orchestra (sample_env 1) (\<lambda>_. ''h'') None dec ''t'' ''builder'' ''r'' (sample_db T_Paused)"
  have "is_ok (fst ?r)" by code_simp
  then obtain h d' where r: "?r = (Ok h, d')"
    by (cases ?r; cases "fst ?r") auto
  have "tk_owner_role (sample_task ''t'' T_Paused) = ''primary''" by (simp add: sample_task_def)
  with handoff_leaves_checkpoint [OF r] r show ?thesis
    by (metis option.inject sample_find_task)
qed

end
