(* ===== verification/Context_Epochs.thy ===== *)
theory Context_Epochs
  imports Conversations
begin

section \<open>Context epochs\<close>

text \<open>
  \<^verbatim>\<open>src/tars/context_epochs.py\<close>.  When the context of a task fills up, \<^verbatim>\<open>rollover\<close> checkpoints
  the task, takes the older messages out of the context and advances the epoch, in one
  transaction.  Messages from the newest of the user on, controls and unresolved tool messages
  stay.  \<open>digest\<close> is SHA-256 of the JSON text of the state and \<open>selected\<close> the ambient execution
  owner.  \<^verbatim>\<open>search_transcript\<close> rests on SQLite's \<^verbatim>\<open>LIKE\<close>, which is modelled with its escape
  character; its bound on the length of a pattern is not.
\<close>

subsection \<open>What stays in the context\<close>

definition control_message :: "message_row \<Rightarrow> bool" where
  "control_message m = (ms_kind m \<in> {''control'', ''pending_control''})"

definition unresolved_tool :: "message_row \<Rightarrow> bool" where
  "unresolved_tool m =
     (ms_role m = ''tool'' \<and> map_of (ms_metadata m) ''unresolved'' = Some (JBool True))"

definition latest_user_seq :: "message_row list \<Rightarrow> int" where
  "latest_user_seq rows = (case map ms_seq (filter (\<lambda>m. ms_role m = ''user'') rows) of
     [] \<Rightarrow> 0 | x # xs \<Rightarrow> fold max xs x)"

definition protected_message :: "int \<Rightarrow> message_row \<Rightarrow> bool" where
  "protected_message latest_user m =
     (latest_user \<le> ms_seq m \<or> control_message m \<or> unresolved_tool m)"

definition context_item_of :: "message_row \<Rightarrow> context_item" where
  "context_item_of m = \<lparr>ci_id = ms_id m, ci_seq = ms_seq m, ci_role = ms_role m,
     ci_content = ms_content m, ci_kind = ms_kind m, ci_metadata = ms_metadata m\<rparr>"

text \<open>The loop over the rows: the archived ones and the unresolved ones\<close>

fun sort_out :: "int \<Rightarrow> message_row list \<Rightarrow> message_row list \<times> message_row list" where
  "sort_out latest_user [] = ([], [])"
| "sort_out latest_user (m # rows) = (let (archived, unresolved) = sort_out latest_user rows in
     if protected_message latest_user m
     then (archived, if ms_role m = ''tool'' \<or> control_message m then m # unresolved else unresolved)
     else (m # archived, unresolved))"

definition context_rows :: "ident \<Rightarrow> db \<Rightarrow> message_row list" where
  "context_rows conv d = sort_key ms_seq
     (filter (\<lambda>m. ms_conversation m = conv \<and> ms_include m) (messages d))"

subsection \<open>Rollover\<close>

definition lowest :: "int list \<Rightarrow> int" where
  "lowest xs = (case xs of [] \<Rightarrow> 0 | y # ys \<Rightarrow> fold min ys y)"

definition highest :: "int list \<Rightarrow> int" where
  "highest xs = (case xs of [] \<Rightarrow> 0 | y # ys \<Rightarrow> fold max ys y)"

text \<open>The statements after the rows are sorted out\<close>

definition write_rollover ::
    "env \<Rightarrow> (dict \<Rightarrow> string) \<Rightarrow> (nat \<Rightarrow> ident) \<Rightarrow> string \<Rightarrow> task_row \<Rightarrow> ident \<Rightarrow> dict \<Rightarrow>
     message_row list \<Rightarrow> message_row list \<Rightarrow> db \<Rightarrow> ((task_row \<times> epoch_row) \<times> db) result" where
  "write_rollover e digest ids reason task conv state archived unresolved d =
    (let tid = tk_id task; seqs = map ms_seq archived;
       epoch = \<lparr>ce_id = ids 1, ce_conversation = conv, ce_task = tid, ce_epoch = tk_epoch task,
         ce_from_seq = lowest seqs, ce_through_seq = highest seqs,
         ce_archived = map context_item_of archived, ce_checkpoint = ids 0,
         ce_unresolved = map context_item_of unresolved, ce_created_at = now e\<rparr> in
     and_then (insert_checkpoint \<lparr>cp_id = ids 0, cp_task = tid, cp_epoch = tk_epoch task,
       cp_seq = next_seq cp_seq (\<lambda>c. cp_task c = tid) (checkpoints d), cp_created_at = now e,
       cp_owner_role = tk_owner_role task, cp_reason = reason, cp_state = state,
       cp_evidence_refs = tk_evidence_refs task, cp_sha256 = digest state\<rparr> d) (\<lambda>d1.
     and_then (update_messages (\<lambda>m. ms_conversation m = conv \<and> ms_seq m \<in> set seqs)
       (\<lambda>m. m\<lparr>ms_include := False\<rparr>) d1) (\<lambda>d2.
     and_then (update_task_row tid
       (\<lambda>t. t\<lparr>tk_epoch := tk_epoch t + 1, tk_updated_at := now e\<rparr>) d2) (\<lambda>d3.
     and_then (insert_epoch epoch d3) (\<lambda>d4. Ok ((task, epoch), d4))))))"

definition rollover_in_transaction ::
    "env \<Rightarrow> (dict \<Rightarrow> string) \<Rightarrow> owner option \<Rightarrow> (nat \<Rightarrow> ident) \<Rightarrow> string \<Rightarrow> ident \<Rightarrow> db \<Rightarrow>
     ((task_row \<times> epoch_row) \<times> db) result" where
  "rollover_in_transaction e digest selected ids reason tid d =
     and_then (require_task_write_in_transaction e selected False [Ch_Epoch None] tid d) (\<lambda>task.
     case tk_conversation task of
       None \<Rightarrow> Err (Runtime_Error ''context rollover requires a task conversation'')
     | Some conv \<Rightarrow>
         raise_if (conv = []) (Runtime_Error ''context rollover requires a task conversation'')
        (let rows = context_rows conv d;
             (archived, unresolved) = sort_out (latest_user_seq rows) rows in
         raise_if (archived = [])
           (Runtime_Error ''no older context is eligible for epoch rollover'')
           (write_rollover e digest ids reason task conv (canonical_task_state_from_row task d)
             archived unresolved d)))"

definition rollover ::
    "env \<Rightarrow> (dict \<Rightarrow> string) \<Rightarrow> owner option \<Rightarrow> (nat \<Rightarrow> ident) \<Rightarrow> string \<Rightarrow> ident \<Rightarrow> db \<Rightarrow>
     epoch_row result \<times> db" where
  "rollover e digest selected ids reason tid d =
     and_next (transact (rollover_in_transaction e digest selected ids reason tid) d)
     (\<lambda>(task, epoch) d1. and_next (append_event (now e) (ids 2) tid ''checkpoint''
         (''Context epoch '' @ dec (nat (tk_epoch task)) @ '' archived'') (Some (tk_owner_role task))
         [(''context_epoch_id'', JStr (ce_id epoch)), (''checkpoint_id'', JStr (ce_checkpoint epoch)),
          (''archived_messages'', JInt (int (length (ce_archived epoch)))),
          (''next_epoch'', JInt (tk_epoch task + 1))] ''verbose'' d1)
     (\<lambda>_ d2. (Ok epoch, d2)))"

definition list_epochs :: "ident \<Rightarrow> nat \<Rightarrow> db \<Rightarrow> epoch_row list" where
  "list_epochs tid limit d = take limit
     (sort_key (\<lambda>x. - ce_epoch x) (filter (\<lambda>x. ce_task x = tid) (context_epochs d)))"

subsection \<open>Searching the transcript\<close>

datatype like_token = Lit char | Any_One | Any_Many

text \<open>The pattern after its escapes; a pattern that ends with the escape character matches
  nothing.\<close>

fun like_tokens :: "char \<Rightarrow> string \<Rightarrow> like_token list option" where
  "like_tokens esc [] = Some []"
| "like_tokens esc (c # cs) =
    (if c = esc then (case cs of [] \<Rightarrow> None
       | x # xs \<Rightarrow> map_option ((#) (Lit x)) (like_tokens esc xs))
     else map_option ((#) (if c = CHR ''%'' then Any_Many else if c = CHR ''_'' then Any_One else Lit c))
       (like_tokens esc cs))"

text \<open>Letters are compared without case, as SQLite does over ASCII.\<close>

fun like_match :: "like_token list \<Rightarrow> string \<Rightarrow> bool" where
  "like_match [] s = (s = [])"
| "like_match (Any_Many # ts) [] = like_match ts []"
| "like_match (Any_Many # ts) (c # cs) = (like_match ts (c # cs) \<or> like_match (Any_Many # ts) cs)"
| "like_match (t # ts) [] = False"
| "like_match (Any_One # ts) (c # cs) = like_match ts cs"
| "like_match (Lit x # ts) (c # cs) = (lower_char x = lower_char c \<and> like_match ts cs)"

definition like :: "char \<Rightarrow> string \<Rightarrow> string \<Rightarrow> bool" where
  "like esc pattern s = (case like_tokens esc pattern of None \<Rightarrow> False | Some ts \<Rightarrow> like_match ts s)"

text \<open>\<^verbatim>\<open>s.replace(c, "\\" + c)\<close> for one character\<close>

definition backslash :: char where
  "backslash = char_of (92 :: nat)"

definition escape_char :: "char \<Rightarrow> string \<Rightarrow> string" where
  "escape_char c s = concat (map (\<lambda>x. if x = c then [backslash, c] else [x]) s)"

definition search_pattern :: "string \<Rightarrow> string" where
  "search_pattern query = ''%'' @ escape_char (CHR ''_'') (escape_char (CHR ''%'') query) @ ''%''"

definition search_transcript :: "ident \<Rightarrow> string \<Rightarrow> nat \<Rightarrow> db \<Rightarrow> message_row list" where
  "search_transcript conv query limit d = rev (take limit (sort_key (\<lambda>m. - ms_seq m)
     (filter (\<lambda>m. ms_conversation m = conv \<and> like backslash (search_pattern query) (ms_content m))
       (messages d))))"

end
