(* ===== verification/Conversations_Safety.thy ===== *)
theory Conversations_Safety
  imports Context_Epochs
begin

section \<open>The transcript only grows\<close>

text \<open>
  The messages of a conversation are numbered from 1 without a gap, and no operation on
  conversations, sessions, tasks or epochs changes, reorders or removes one that was written:
  what a rollover takes out of the context stays in the transcript.  The interpretation of
  \<open>state_machine\<close> carries this over any sequence of operations.
\<close>

definition transcript :: "db \<Rightarrow> ident \<Rightarrow> message_row list" where
  "transcript d conv = filter (\<lambda>m. ms_conversation m = conv) (messages d)"

text \<open>A message without its place in the context\<close>

definition message_text :: "message_row \<Rightarrow> message_row" where
  "message_text m = m\<lparr>ms_include := False\<rparr>"

definition numbered :: "db \<Rightarrow> bool" where
  "numbered d = (\<forall>c. map ms_seq (transcript d c) = map int [1..<Suc (length (transcript d c))])"

definition transcript_kept :: "db \<Rightarrow> db \<Rightarrow> bool" where
  "transcript_kept d d' = ((numbered d \<longrightarrow> numbered d') \<and>
     (\<forall>c. \<exists>new. map message_text (transcript d' c) = map message_text (transcript d c) @ new))"

lemma transcript_kept_refl: "transcript_kept d d"
  by (simp add: transcript_kept_def)

lemma transcript_kept_trans:
  assumes "transcript_kept a b" and "transcript_kept b c"
  shows "transcript_kept a c"
proof -
  have "\<exists>new. map message_text (transcript c x) = map message_text (transcript a x) @ new" for x
    using assms by (simp add: transcript_kept_def) (metis append_assoc)
  with assms show ?thesis by (simp add: transcript_kept_def)
qed

lemma transcript_kept_same: "messages d' = messages d \<Longrightarrow> transcript_kept d d'"
  by (simp add: transcript_kept_def transcript_def numbered_def)

lemma ms_seq_message_text: "map ms_seq l = map ms_seq (map message_text l)"
  by (simp add: message_text_def)

text \<open>A change of the context leaves the texts alone.\<close>

lemma transcript_kept_texts:
  assumes "map message_text (messages d') = map message_text (messages d)"
  shows "transcript_kept d d'"
proof -
  have conv: "ms_conversation (message_text m) = ms_conversation m" for m
    by (simp add: message_text_def)
  have "map message_text (transcript x c) = filter (\<lambda>m. ms_conversation m = c) (map message_text (messages x))" for x c
    by (simp add: transcript_def filter_map comp_def conv)
  then have same: "map message_text (transcript d' c) = map message_text (transcript d c)" for c
    using assms by simp
  then have "map ms_seq (transcript d' c) = map ms_seq (transcript d c)"
    and "length (transcript d' c) = length (transcript d c)" for c
    by (metis ms_seq_message_text, metis length_map)
  with same show ?thesis by (simp add: transcript_kept_def numbered_def)
qed

lemma fold_max_upto: "fold max (map int [2..<n]) 1 = (if n \<le> 2 then 1 else int n - 1)"
proof (induction n)
  case 0
  then show ?case by simp
next
  case (Suc n)
  then show ?case by (cases "2 \<le> n") (auto simp: max_def)
qed

lemma next_seq_numbered:
  assumes "numbered d"
  shows "next_seq ms_seq (\<lambda>m. ms_conversation m = c) (messages d) = int (length (transcript d c)) + 1"
proof -
  let ?n = "length (transcript d c)"
  have seqs: "map ms_seq (filter (\<lambda>m. ms_conversation m = c) (messages d)) = map int [1..<Suc ?n]"
    using assms unfolding numbered_def transcript_def by blast
  show ?thesis
  proof (cases ?n)
    case 0
    then show ?thesis by (simp add: next_seq_def seqs)
  next
    case (Suc k)
    have "map int [1..<Suc ?n] = 1 # map int [2..<Suc ?n]"
      using Suc by (subst upt_conv_Cons) (simp_all add: numeral_2_eq_2)
    with Suc show ?thesis
      unfolding next_seq_def seqs by (simp add: fold_max_upto del: upt_Suc)
  qed
qed

lemma transcript_kept_append:
  assumes "messages d' = messages d @ [r]"
    and "ms_seq r = next_seq ms_seq (\<lambda>m. ms_conversation m = ms_conversation r) (messages d)"
  shows "transcript_kept d d'"
proof -
  have t: "transcript d' c = transcript d c @ (if ms_conversation r = c then [r] else [])" for c
    by (simp add: transcript_def assms(1))
  moreover have "numbered d'" if "numbered d"
    using that next_seq_numbered [OF that, of "ms_conversation r"] assms(2)
    by (simp add: numbered_def t)
  ultimately show ?thesis by (auto simp: transcript_kept_def)
qed

lemmas transcript_next = and_next_keeps [of "transcript_kept d" for d]

lemmas transcript_transact = transact_keeps [of "transcript_kept d" for d]

subsection \<open>Each operation keeps it\<close>

lemma update_task_row_messages: "update_task_row tid f d = Ok d' \<Longrightarrow> messages d' = messages d"
  by (auto simp: update_task_row_def tasks_conversation_propagate_def and_then_eq_Ok split: option.splits)

lemma append_event_messages [frame]:
  "messages (snd (append_event t uuid tid etype message role payload visibility d)) = messages d"
  by (auto simp: append_event_def transact_def raise_if_def and_then_def insert_task_event_row_def
      admit_def Let_def split: sum.splits option.splits)

lemma append_event_transcript:
  "transcript_kept a d \<Longrightarrow>
     transcript_kept a (snd (append_event t uuid tid etype message role payload visibility d))"
  by (rule transcript_kept_trans) (auto intro: transcript_kept_same simp: append_event_messages)

lemma transcript_step_same: "transcript_kept a d \<Longrightarrow> messages d' = messages d \<Longrightarrow> transcript_kept a d'"
  using transcript_kept_trans transcript_kept_same by blast

lemma set_meta_messages [simp]: "messages (set_meta k v d) = messages d"
  by (simp add: set_meta_def)

lemma create_conversation_kept:
  assumes "transcript_kept a d"
  shows "transcript_kept a (snd (create_conversation e cid title source md active d))"
  unfolding create_conversation_def
  by (intro transcript_next transcript_transact)
    (use assms in \<open>auto simp: and_then_eq_Ok insert_conversation_def intro: transcript_step_same\<close>)

lemma set_active_conversation_kept:
  assumes "transcript_kept a d"
  shows "transcript_kept a (snd (set_active_conversation cid d))"
  using assms by (cases cid) (auto simp: set_active_conversation_def intro!: transcript_next
      intro: transcript_step_same)

lemma add_message_Ok:
  assumes "add_message_in_transaction stamp mid uuid conv m d = Ok (r, d')"
  shows "messages d' = messages d @ [r]" and "ms_conversation r = conv" and "ms_id r = mid"
    and "ms_seq r = next_seq ms_seq (\<lambda>x. ms_conversation x = conv) (messages d)"
    and "ms_role r = nm_role m" and "ms_content r = nm_content m" and "ms_kind r = nm_kind m"
    and "ms_include r = nm_include m" and "tasks d' = tasks d"
  using assms
  by (auto simp: add_message_in_transaction_def Let_def and_then_eq_Ok insert_message_def
      update_conversations_def split: if_splits dest!: insert_state_event_Ok)

lemma add_message_kept:
  assumes "transcript_kept a d"
  shows "transcript_kept a (snd (add_message e mid uuid conv m d))"
  unfolding add_message_def
proof (rule transcript_transact [OF assms])
  fix r d' assume "add_message_in_transaction (now e) mid uuid conv m d = Ok (r, d')"
  note ok = add_message_Ok(1,2,4) [OF this]
  have "transcript_kept d d'"
    by (rule transcript_kept_append [OF ok(1)]) (unfold ok(2), rule ok(3))
  with assms show "transcript_kept a d'"
    by (rule transcript_kept_trans)
qed

lemma insert_session_messages: "insert_session r d = Ok d' \<Longrightarrow> messages d' = messages d"
  by (auto simp: insert_session_def)

lemma update_sessions_messages: "update_sessions P f d = Ok d' \<Longrightarrow> messages d' = messages d"
  by (auto simp: update_sessions_def and_then_eq_Ok)

lemma create_session_kept:
  assumes "transcript_kept a d"
  shows "transcript_kept a (snd (create_session e later ids rr conv role mode md d))"
  unfolding create_session_def
proof (intro transcript_next transcript_transact)
  fix d1 assume "transcript_kept a d1"
  then show "transcript_kept a (snd (case conv of
      None \<Rightarrow> and_next (create_conversation e (ids 0) [] ''session'' [] True d1) (\<lambda>c d. (Ok (cv_id c), d))
    | Some c \<Rightarrow> and_next (load_conversation d1 c, d1) (\<lambda>_ d. (Ok c, d))))"
    by (cases conv) (auto intro!: transcript_next create_conversation_kept)
qed (use assms in \<open>auto simp: and_then_eq_Ok intro: transcript_step_same
  dest!: insert_state_event_Ok insert_session_messages\<close>)

lemma close_session_kept:
  assumes "transcript_kept a d"
  shows "transcript_kept a (snd (close_session e uuid sid d))"
  unfolding close_session_def
proof (intro transcript_next transcript_transact, goal_cases)
  case (3 s d1 x d2)
  from 3(2) [unfolded and_then_eq_Ok] obtain d3 where d3: "update_sessions (\<lambda>s. ss_id s = sid)
      (\<lambda>s. s\<lparr>ss_state := ''closed'', ss_updated_at := now e, ss_ended_at := Some (now e)\<rparr>) d1 = Ok d3"
    and rest: "(case find_session d3 sid of None \<Rightarrow> Err (Type_Error ''no such row'')
      | Some row \<Rightarrow> and_then (insert_state_event (now e) uuid ''session_end'' ''session closed''
          (Some sid) (Some (ss_conversation row)) None (Some (ss_role row))
          [(''mode'', JStr (ss_mode row))] ''normal'' d3) (\<lambda>(_, d2). Ok ((), d2))) = Ok (x, d2)"
    by (auto simp only: and_then_eq_Ok)
  from rest have "messages d2 = messages d3"
    by (cases "find_session d3 sid") (auto simp: and_then_eq_Ok dest!: insert_state_event_Ok)
  with update_sessions_messages [OF d3] have "messages d2 = messages d1" by simp
  with 3(1) show ?case by (rule transcript_step_same)
qed (use assms in simp_all)

text \<open>What a rollover that returned did to the tables\<close>

lemma write_rollover_Ok:
  assumes "write_rollover e digest ids reason task conv state archived unresolved d = Ok ((t, ep), d')"
  shows "messages d' = update_where (\<lambda>m. ms_conversation m = conv \<and> ms_seq m \<in> set (map ms_seq archived))
      (\<lambda>m. m\<lparr>ms_include := False\<rparr>) (messages d)"
    and "t = task" and "ce_task ep = tk_id task" and "ce_epoch ep = tk_epoch task"
    and "ce_archived ep = map context_item_of archived"
    and "ce_unresolved ep = map context_item_of unresolved"
    and "find_task d' x = (if x = tk_id task
      then map_option (\<lambda>t. t\<lparr>tk_epoch := tk_epoch t + 1, tk_updated_at := now e\<rparr>) (find_task d x)
      else find_task d x)"
    and "\<exists>c :: checkpoint_row. checkpoints d' = checkpoints d @ [c] \<and> cp_id c = ce_checkpoint ep \<and>
      cp_task c = tk_id task \<and> cp_epoch c = tk_epoch task \<and> cp_state c = state \<and> cp_sha256 c = digest state \<and>
      cp_id c \<notin> cp_id ` set (checkpoints d)"
proof -
  let ?f = "\<lambda>t :: task_row. t\<lparr>tk_epoch := tk_epoch t + 1, tk_updated_at := now e\<rparr>"
  have f: "tk_id (?f r) = tk_id r" for r by simp
  have cps: "update_task_row tid f a = Ok b \<Longrightarrow> checkpoints b = checkpoints a" for tid f a b
    by (auto simp: update_task_row_def tasks_conversation_propagate_def and_then_eq_Ok split: option.splits)
  from assms obtain cp d1 d2 d3 where
    cp: "insert_checkpoint cp d = Ok d1" "cp_id cp = ids 0" "cp_task cp = tk_id task"
      "cp_epoch cp = tk_epoch task" "cp_state cp = state" "cp_sha256 cp = digest state"
    and ms: "update_messages (\<lambda>m. ms_conversation m = conv \<and> ms_seq m \<in> set (map ms_seq archived))
        (\<lambda>m. m\<lparr>ms_include := False\<rparr>) d1 = Ok d2"
    and tk: "update_task_row (tk_id task) ?f d2 = Ok d3"
    and ep: "insert_epoch ep d3 = Ok d'" and "t = task" "ce_checkpoint ep = ids 0"
      "ce_task ep = tk_id task" "ce_epoch ep = tk_epoch task"
      "ce_archived ep = map context_item_of archived" "ce_unresolved ep = map context_item_of unresolved"
    by (auto simp: write_rollover_def Let_def and_then_eq_Ok)
  show "t = task" "ce_task ep = tk_id task" "ce_epoch ep = tk_epoch task"
    "ce_archived ep = map context_item_of archived" "ce_unresolved ep = map context_item_of unresolved"
    by fact+
  have m1: "messages d1 = messages d" and c1: "checkpoints d1 = checkpoints d @ [cp]"
    and t1: "tasks d1 = tasks d" and new: "cp_id cp \<notin> cp_id ` set (checkpoints d)"
    using cp(1) by (auto simp: insert_checkpoint_def)
  have m2: "messages d2 = update_where (\<lambda>m. ms_conversation m = conv \<and> ms_seq m \<in> set (map ms_seq archived))
      (\<lambda>m. m\<lparr>ms_include := False\<rparr>) (messages d1)" and "tasks d2 = tasks d1" "checkpoints d2 = checkpoints d1"
    using ms by (auto simp: update_messages_def and_then_eq_Ok update_rows_eq_Ok)
  moreover have "messages d' = messages d3" "tasks d' = tasks d3" "checkpoints d' = checkpoints d3"
    using ep by (auto simp: insert_epoch_def)
  ultimately show "messages d' = update_where (\<lambda>m. ms_conversation m = conv \<and> ms_seq m \<in> set (map ms_seq archived))
      (\<lambda>m. m\<lparr>ms_include := False\<rparr>) (messages d)"
    and "find_task d' x = (if x = tk_id task then map_option ?f (find_task d x) else find_task d x)"
    and "\<exists>c :: checkpoint_row. checkpoints d' = checkpoints d @ [c] \<and> cp_id c = ce_checkpoint ep \<and>
      cp_task c = tk_id task \<and> cp_epoch c = tk_epoch task \<and> cp_state c = state \<and> cp_sha256 c = digest state \<and>
      cp_id c \<notin> cp_id ` set (checkpoints d)"
    using update_task_row_messages [OF tk] update_task_row_find [OF f tk, of x] cps [OF tk] m1 t1 c1 cp new
      \<open>ce_checkpoint ep = ids 0\<close>
    by (simp_all add: find_task_def)
qed

lemma rollover_in_transaction_Ok:
  assumes "rollover_in_transaction e digest ow ids reason tid d = Ok ((t, ep), d')"
  obtains conv archived unresolved where "find_task d tid = Some t" and "tk_conversation t = Some conv"
    and "sort_out (latest_user_seq (context_rows conv d)) (context_rows conv d) = (archived, unresolved)"
    and "archived \<noteq> []" and "\<not> terminal_task_state (tk_state t)"
    and "write_rollover e digest ids reason t conv (canonical_task_state_from_row t d) archived unresolved d
      = Ok ((t, ep), d')"
proof -
  obtain task where task: "find_task d tid = Some task" "\<not> terminal_task_state (tk_state task)"
    and rest: "(case tk_conversation task of
       None \<Rightarrow> Err (Runtime_Error ''context rollover requires a task conversation'')
     | Some conv \<Rightarrow>
         raise_if (conv = []) (Runtime_Error ''context rollover requires a task conversation'')
        (let rows = context_rows conv d;
             (archived, unresolved) = sort_out (latest_user_seq rows) rows in
         raise_if (archived = [])
           (Runtime_Error ''no older context is eligible for epoch rollover'')
           (write_rollover e digest ids reason task conv (canonical_task_state_from_row task d)
             archived unresolved d))) = Ok ((t, ep), d')"
    using assms by (auto simp: rollover_in_transaction_def and_then_eq_Ok require_task_write_Ok)
  from rest obtain conv where conv: "tk_conversation task = Some conv"
    by (cases "tk_conversation task") simp_all
  obtain archived unresolved where out:
    "sort_out (latest_user_seq (context_rows conv d)) (context_rows conv d) = (archived, unresolved)"
    by fastforce
  from rest conv out have w: "archived \<noteq> []"
    "write_rollover e digest ids reason task conv (canonical_task_state_from_row task d) archived unresolved d
      = Ok ((t, ep), d')"
    by (simp_all add: Let_def)
  from write_rollover_Ok(2) [OF w(2)] task conv out w that show ?thesis by simp
qed

lemma rollover_kept:
  assumes "transcript_kept a d"
  shows "transcript_kept a (snd (rollover e digest ow ids reason tid d))"
  unfolding rollover_def
proof (intro transcript_next transcript_transact, goal_cases)
  case (2 x d')
  obtain t ep where x: "x = (t, ep)" by fastforce
  from rollover_in_transaction_Ok [OF 2 [unfolded x]] obtain conv archived unresolved where
    "write_rollover e digest ids reason t conv (canonical_task_state_from_row t d) archived unresolved d
      = Ok ((t, ep), d')" by metis
  from write_rollover_Ok(1) [OF this] have "map message_text (messages d') = map message_text (messages d)"
    by (simp add: map_update_where message_text_def)
  then show ?case
    by (rule transcript_kept_trans [OF assms transcript_kept_texts])
next
  case (3 x d1)
  then show ?case
    by (auto intro!: transcript_next append_event_transcript split: prod.split)
qed (use assms in simp_all)

subsection \<open>Sequences of operations\<close>

lemma task_step_messages: "messages (task_step rr dg op d) = messages d"
proof -
  note frames = and_next_keeps [of "\<lambda>s. messages s = M" for M] transact_keeps [of "\<lambda>s. messages s = M" for M]
  have cp: "messages (snd (create_checkpoint e dg ow cid uuid tid state reason refs advance d)) = messages d"
    for e ow cid uuid tid state reason refs advance d
    unfolding create_checkpoint_def
    by (intro frames) (auto simp: append_event_messages create_checkpoint_in_transaction_def Let_def and_then_eq_Ok
        insert_checkpoint_def dest: update_task_row_messages split: if_splits)
  show ?thesis
  proof (cases op)
    case (TO_Create e ids conv n active)
    then show ?thesis
      by (cases "rr (nt_owner_role n)") (auto simp: create_task_def create_task_in_transaction_def
          and_then_eq_Ok insert_task_def append_event_messages intro!: frames)
  next
    case (TO_Update e ids ambient ow u cp tid)
    have w: "write_task_values e sel vs tid s = Ok (x, s') \<Longrightarrow> messages s' = messages s" for sel vs s s' x
      by (auto simp: write_task_values_def and_then_eq_Ok dest: update_task_row_messages)
    show ?thesis
      unfolding TO_Update task_step.simps update_task_def
      by (intro frames) (auto simp: append_event_messages cp intro!: frames dest: w split: option.split)
  next
    case (TO_Recover e uuid phase tid)
    show ?thesis
      unfolding TO_Recover task_step.simps recover_task_def
      by (intro frames) (auto simp: append_event_messages and_then_eq_Ok dest: update_task_row_messages
          split: option.splits)
  next
    case (TO_Attach e ow tid cid)
    show ?thesis
      unfolding TO_Attach task_step.simps attach_conversation_def
      by (auto simp: and_then_eq_Ok intro!: frames dest: update_task_row_messages)
  qed (simp_all add: cp append_event_messages)
qed

datatype conversation_op =
    VO_Create env ident string string dict bool
  | VO_Active "ident option"
  | VO_Message env ident ident ident new_message
  | VO_Open env env "nat \<Rightarrow> ident" "ident option" string string dict
  | VO_Close env ident ident
  | VO_Rollover env "owner option" "nat \<Rightarrow> ident" string ident
  | VO_Task task_op

fun conversation_step ::
    "(string \<Rightarrow> string result) \<Rightarrow> (dict \<Rightarrow> string) \<Rightarrow> conversation_op \<Rightarrow> db \<Rightarrow> db" where
  "conversation_step rr dg (VO_Create e cid title source md active) d =
     snd (create_conversation e cid title source md active d)"
| "conversation_step rr dg (VO_Active cid) d = snd (set_active_conversation cid d)"
| "conversation_step rr dg (VO_Message e mid uuid conv m) d = snd (add_message e mid uuid conv m d)"
| "conversation_step rr dg (VO_Open e later ids conv role mode md) d =
     snd (create_session e later ids rr conv role mode md d)"
| "conversation_step rr dg (VO_Close e uuid sid) d = snd (close_session e uuid sid d)"
| "conversation_step rr dg (VO_Rollover e ow ids reason tid) d = snd (rollover e dg ow ids reason tid d)"
| "conversation_step rr dg (VO_Task op) d = task_step rr dg op d"

lemma conversation_step_kept: "transcript_kept a d \<Longrightarrow> transcript_kept a (conversation_step rr dg op d)"
  by (cases op) (auto simp: create_conversation_kept set_active_conversation_kept add_message_kept
      create_session_kept close_session_kept rollover_kept task_step_messages intro: transcript_step_same)

interpretation transcripts: state_machine "conversation_step rr dg" "transcript_kept a" for rr dg a
  by unfold_locales (rule conversation_step_kept)

lemma numbered_nth:
  assumes "numbered d" and "i < length (transcript d c)"
  shows "ms_seq (transcript d c ! i) = int i + 1"
proof -
  have "ms_seq (transcript d c ! i) = map ms_seq (transcript d c) ! i"
    using assms(2) by simp
  also have "\<dots> = map int [1..<Suc (length (transcript d c))] ! i"
    using assms(1) by (simp only: numbered_def)
  finally show ?thesis using assms(2) by (simp add: nth_map del: upt_Suc)
qed

subsection \<open>What a rollover takes out\<close>

lemma sort_out_filters:
  "sort_out u rows = (filter (\<lambda>m. \<not> protected_message u m) rows,
     filter (\<lambda>m. protected_message u m \<and> (ms_role m = ''tool'' \<or> control_message m)) rows)"
  by (induction rows) auto

lemma fold_max_mem: "fold max xs (x :: int) \<in> insert x (set xs)"
proof (induction xs arbitrary: x)
  case Nil
  then show ?case by simp
next
  case (Cons a xs)
  from Cons [of "max a x"] show ?case by (auto simp: max_def split: if_splits)
qed

lemma latest_user_protected:
  "m \<in> set rows \<Longrightarrow> ms_role m = ''user'' \<Longrightarrow> \<forall>x \<in> set rows. ms_role x = ''user'' \<longrightarrow> ms_seq x \<le> ms_seq m \<Longrightarrow>
     protected_message (latest_user_seq rows) m"
proof -
  assume m: "m \<in> set rows" "ms_role m = ''user''"
    and top: "\<forall>x \<in> set rows. ms_role x = ''user'' \<longrightarrow> ms_seq x \<le> ms_seq m"
  let ?users = "map ms_seq (filter (\<lambda>m. ms_role m = ''user'') rows)"
  from m have "ms_seq m \<in> set ?users" by auto
  then obtain y ys where ys: "?users = y # ys" by (cases ?users) auto
  have "fold max ys y \<in> set ?users" unfolding ys using fold_max_mem [of ys y] by simp
  then have "fold max ys y \<le> ms_seq m" using top by auto
  with ys show ?thesis by (simp add: protected_message_def latest_user_seq_def)
qed

lemma update_where_cong:
  "(\<And>r. r \<in> set t \<Longrightarrow> (P r \<and> f r \<noteq> r) = (Q r \<and> f r \<noteq> r)) \<Longrightarrow> update_where P f t = update_where Q f t"
  unfolding update_where_def by (rule map_cong) (auto, metis+)

text \<open>The messages whose number is archived are the archived ones, since a number is given once in a
  conversation.\<close>

lemma rollover_messages:
  assumes "numbered d" and conv: "context_rows conv d = rows"
    and arch: "archived = filter (\<lambda>m. \<not> protected_message u m) rows"
  shows "update_where (\<lambda>m. ms_conversation m = conv \<and> ms_seq m \<in> set (map ms_seq archived))
      (\<lambda>m. m\<lparr>ms_include := False\<rparr>) (messages d) =
    update_where (\<lambda>m. ms_conversation m = conv \<and> ms_include m \<and> \<not> protected_message u m)
      (\<lambda>m. m\<lparr>ms_include := False\<rparr>) (messages d)"
proof (rule update_where_cong)
  fix m assume m: "m \<in> set (messages d)"
  have "inj_on ms_seq (set (transcript d conv))"
  proof -
    have "distinct (map ms_seq (transcript d conv))"
      using assms(1) by (simp only: numbered_def) (simp add: distinct_map inj_on_def del: upt_Suc)
    then show ?thesis by (simp add: distinct_map)
  qed
  then have same: "x = m" if "ms_conversation m = conv" "x \<in> set archived" "ms_seq x = ms_seq m" for x
    using that m by (auto simp: arch conv [symmetric] context_rows_def transcript_def inj_on_def)
  show "((ms_conversation m = conv \<and> ms_seq m \<in> set (map ms_seq archived)) \<and> m\<lparr>ms_include := False\<rparr> \<noteq> m) =
    ((ms_conversation m = conv \<and> ms_include m \<and> \<not> protected_message u m) \<and> m\<lparr>ms_include := False\<rparr> \<noteq> m)"
    using m same by (fastforce simp: arch conv [symmetric] context_rows_def)
qed

subsection \<open>Searching\<close>

lemma backslash_simps [simp]: "backslash \<noteq> CHR ''%''" "CHR ''%'' \<noteq> backslash" "backslash \<noteq> CHR ''_''"
    "CHR ''_'' \<noteq> backslash"
  by (simp_all add: backslash_def char_of_def)

lemma like_tokens_pattern:
  assumes "backslash \<notin> set q"
  shows "like_tokens backslash (escape_char (CHR ''_'') (escape_char (CHR ''%'') q) @ ''%'') =
    Some (map Lit q @ [Any_Many])"
  using assms
proof (induction q)
  case Nil
  then show ?case by (simp add: escape_char_def)
next
  case (Cons x q)
  then show ?case by (auto simp: escape_char_def)
qed

lemma like_tail: "like_match [Any_Many] s"
  by (induction s) auto

lemma like_prefix:
  "like_match (map Lit q @ [Any_Many]) s = starts_with (casefold s) (casefold q)"
proof (induction q arbitrary: s)
  case Nil
  then show ?case by (simp add: like_tail starts_with_def)
next
  case (Cons x q)
  then show ?case by (cases s) (auto simp: starts_with_def)
qed

lemma like_anywhere:
  "like_match (Any_Many # map Lit q @ [Any_Many]) s = contains (casefold q) (casefold s)"
proof (induction s)
  case Nil
  then show ?case by (cases q) simp_all
next
  case (Cons c s)
  then show ?case by (simp add: like_prefix [simplified] del: map_append)
qed

lemma like_search: "backslash \<notin> set q \<Longrightarrow>
    like backslash (search_pattern q) s = contains (casefold q) (casefold s)"
  by (simp add: like_def search_pattern_def like_tokens_pattern like_anywhere)

end
