(* ===== verification/Projection_Safety.thy ===== *)
theory Projection_Safety
  imports Projection "HOL-Library.Sublist"
begin

section \<open>What a projection keeps\<close>

text \<open>
  Every way of shortening the history leaves a part of it that still has its protected messages
  and its newest one (\<open>keeps_core\<close>); the token count of a projection is the count of the very
  prompt it holds and leaves room for the reserved output; the tokenizer is called at most 13
  times.
\<close>

subsection \<open>Shortening the history\<close>

definition keeps_core :: "history_item list \<Rightarrow> history_item list \<Rightarrow> bool" where
  "keeps_core hs kept = (subseq kept hs \<and> filter hi_protected kept = filter hi_protected hs \<and>
     (hs \<noteq> [] \<longrightarrow> kept \<noteq> [] \<and> last kept = last hs))"

lemma keeps_core_refl [intro, simp]: "keeps_core hs hs"
  by (simp add: keeps_core_def)

lemma keeps_core_trans: "keeps_core a b \<Longrightarrow> keeps_core b c \<Longrightarrow> keeps_core a c"
  unfolding keeps_core_def by (metis subseq_order.trans)

lemma keeps_core_length: "keeps_core hs kept \<Longrightarrow> length kept \<le> length hs"
  by (auto simp: keeps_core_def dest: list_emb_length)

lemma keeps_core_Cons: "keeps_core (g # hs) kept \<Longrightarrow> keeps_core (h # g # hs) (h # kept)"
  by (auto simp: keeps_core_def)

lemma keeps_core_drop: "keeps_core (g # hs) kept \<Longrightarrow> \<not> hi_protected h \<Longrightarrow> keeps_core (h # g # hs) kept"
  by (auto simp: keeps_core_def)

lemma drop_oldest_core: "drop_oldest k hs = (rest, n) \<Longrightarrow> keeps_core hs rest"
  by (induction k hs arbitrary: rest n rule: drop_oldest.induct)
    (auto simp: keeps_core_Cons keeps_core_drop split: if_splits prod.splits)

lemma drop_oldest_none:
  "drop_oldest (Suc k) hs = (rest, 0) \<Longrightarrow> rest = hs \<and> (\<forall>h \<in> set (butlast hs). hi_protected h)"
  by (induction "Suc k" hs arbitrary: rest rule: drop_oldest.induct) (auto split: if_splits prod.splits)

lemma normalize_history_core: "keeps_core hs (normalize_history hs)"
  by (induction hs rule: normalize_history.induct) (auto simp: keeps_core_drop)

lemma normalize_selected_core: "keeps_core hs (normalize_selected hs omitted)"
  by (simp add: normalize_selected_def normalize_history_core)

lemma pre_prune_core: "keeps_core selected (pre_prune ly target selected)"
proof (induction ly target selected rule: pre_prune.induct)
  case (1 ly target selected)
  obtain rest removed where d: "drop_oldest (max 1 (length selected div 8)) selected = (rest, removed)"
    by fastforce
  from drop_oldest_core [OF d] have "keeps_core selected rest" .
  with 1 [OF _ d [symmetric] refl] d show ?case
    by (subst pre_prune.simps) (auto intro: keeps_core_trans)
qed

text \<open>The loop ends when the estimate fits or when nothing more may be dropped.\<close>

definition nothing_to_drop :: "history_item list \<Rightarrow> bool" where
  "nothing_to_drop hs = (\<forall>h \<in> set (butlast hs). hi_protected h)"

lemma pre_prune_done:
  "estimate_messages_tokens (candidate_messages ly (pre_prune ly target selected)) \<le> target \<or>
     nothing_to_drop (pre_prune ly target selected)"
proof (induction ly target selected rule: pre_prune.induct)
  case (1 ly target selected)
  obtain rest removed where d: "drop_oldest (max 1 (length selected div 8)) selected = (rest, removed)"
    by fastforce
  have short: "nothing_to_drop selected" if "length selected \<le> 1"
    using that by (cases selected) (auto simp: nothing_to_drop_def)
  have none: "nothing_to_drop rest" if "removed = 0"
  proof -
    obtain k where "max 1 (length selected div 8) = Suc k"
      by (cases "max 1 (length selected div 8)") simp_all
    with drop_oldest_none d that show ?thesis by (auto simp: nothing_to_drop_def)
  qed
  have step: "pre_prune ly target selected =
    (if 1 < length selected \<and> target < estimate_messages_tokens (candidate_messages ly selected)
     then if removed = 0 then rest else pre_prune ly target rest else selected)"
    by (subst pre_prune.simps) (simp add: d del: One_nat_def)
  show ?case
    using 1 [OF _ d [symmetric] refl] short none by (auto simp: step not_less)
qed

lemma drop_count_pos: "\<exists>k. drop_count usable tokens selected = Suc k"
  by (cases "drop_count usable tokens selected") (auto simp: drop_count_def Let_def)

lemma tighten_step:
  assumes d: "drop_oldest (drop_count usable tokens selected) selected = (rest, removed)"
  shows "tighten count ly usable (Suc left) n selected prompt tokens =
    (if usable < tokens \<and> 1 < length selected \<and> removed \<noteq> 0 then
       (case count n (candidate_messages ly (normalize_selected rest True)) of
          Inl err \<Rightarrow> (normalize_selected rest True, candidate_messages ly (normalize_selected rest True),
            estimate_messages_tokens (candidate_messages ly (normalize_selected rest True)), Some (error_text err))
        | Inr t \<Rightarrow> tighten count ly usable left (Suc n) (normalize_selected rest True)
            (candidate_messages ly (normalize_selected rest True)) t)
     else (selected, prompt, tokens, None))"
proof -
  have "removed = 0 \<Longrightarrow> rest = selected"
    using drop_oldest_none d drop_count_pos [of usable tokens selected] by fastforce
  then show ?thesis by (simp add: d Let_def split: sum.split)
qed

lemma tighten_Ok:
  assumes "tighten count ly usable left n selected prompt tokens = (kept, prompt', tokens', err)"
    and "prompt = candidate_messages ly selected" and "count m prompt = Ok tokens" and "m < n"
  shows "keeps_core selected kept" and "prompt' = candidate_messages ly kept"
    and "case err of None \<Rightarrow> \<exists>i < n + left. count i prompt' = Ok tokens'
      | Some _ \<Rightarrow> tokens' = estimate_messages_tokens prompt'"
proof -
  have "keeps_core selected kept \<and> prompt' = candidate_messages ly kept \<and>
    (case err of None \<Rightarrow> \<exists>i < n + left. count i prompt' = Ok tokens'
      | Some _ \<Rightarrow> tokens' = estimate_messages_tokens prompt')"
    using assms
  proof (induction left arbitrary: n m selected prompt tokens)
    case 0
    then show ?case by auto
  next
    case (Suc left)
    obtain rest removed where d: "drop_oldest (drop_count usable tokens selected) selected = (rest, removed)"
      by fastforce
    let ?kept = "normalize_selected rest True"
    have core: "keeps_core selected ?kept"
      using drop_oldest_core [OF d] normalize_selected_core by (rule keeps_core_trans)
    show ?case
    proof (cases "usable < tokens \<and> 1 < length selected \<and> removed \<noteq> 0")
      case False
      with Suc.prems(1) [unfolded tighten_step [OF d]]
      have "kept = selected" "prompt' = prompt" "tokens' = tokens" "err = None"
        by (simp_all only: if_False prod.inject)
      with Suc.prems(2-) show ?thesis by (auto intro: exI [of _ m])
    next
      case True
      note run = Suc.prems(1) [unfolded tighten_step [OF d] if_P [OF True]]
      show ?thesis
      proof (cases "count n (candidate_messages ly ?kept)")
        case (Inl x)
        with run core show ?thesis by (simp add: option.case_eq_if) (auto simp: Inl)
      next
        case (Inr t)
        with run have
          "tighten count ly usable left (Suc n) ?kept (candidate_messages ly ?kept) t = (kept, prompt', tokens', err)"
          by simp
        from Suc.IH [OF this refl Inr] core show ?thesis
          by (auto intro: keeps_core_trans split: option.splits)
      qed
    qed
  qed
  then show "keeps_core selected kept" and "prompt' = candidate_messages ly kept"
    and "case err of None \<Rightarrow> \<exists>i < n + left. count i prompt' = Ok tokens'
      | Some _ \<Rightarrow> tokens' = estimate_messages_tokens prompt'" by auto
qed

lemma count_exactly_Ok:
  assumes "count_exactly count ly usable exact selected = (kept, prompt, tokens, counted, err)"
  shows "keeps_core selected kept \<and> prompt = candidate_messages ly kept \<and>
    (if counted then \<exists>i < 13. count i prompt = Ok tokens else tokens = estimate_messages_tokens prompt)"
proof (cases "exact \<and> (\<exists>t. count 0 (candidate_messages ly selected) = Ok t)")
  case False
  with assms show ?thesis
    by (cases "count 0 (candidate_messages ly selected)") (auto simp: count_exactly_def Let_def split: if_splits)
next
  case True
  then obtain t where t: "count 0 (candidate_messages ly selected) = Ok t" and exact by auto
  obtain k p u x where tight: "tighten count ly usable 12 1 selected (candidate_messages ly selected) t = (k, p, u, x)"
    by (metis surj_pair)
  from tighten_Ok [OF tight refl t] assms t tight \<open>exact\<close> show ?thesis
    by (auto simp: count_exactly_def Let_def split: option.splits)
qed

text \<open>Only the first 13 answers of the tokenizer matter.\<close>

lemma tighten_cong:
  "(\<And>i ms. i < n + left \<Longrightarrow> count i ms = count' i ms) \<Longrightarrow>
    tighten count ly usable left n selected prompt tokens = tighten count' ly usable left n selected prompt tokens"
proof (induction left arbitrary: n selected prompt tokens)
  case 0
  then show ?case by simp
next
  case (Suc left)
  have "tighten count ly usable left (Suc n) s p t = tighten count' ly usable left (Suc n) s p t" for s p t
    using Suc.prems by (intro Suc.IH) simp
  moreover obtain rest removed where "drop_oldest (drop_count usable tokens selected) selected = (rest, removed)"
    by fastforce
  ultimately show ?case
    using Suc.prems [of n] by (simp add: tighten_step del: tighten.simps split: sum.split)
qed

lemma count_exactly_cong:
  "(\<And>i ms. i < 13 \<Longrightarrow> count i ms = count' i ms) \<Longrightarrow>
    count_exactly count ly usable exact selected = count_exactly count' ly usable exact selected"
  using tighten_cong [of 1 12 count count']
  by (simp add: count_exactly_def Let_def del: One_nat_def split: sum.split)

subsection \<open>A projection that was built\<close>

lemma fit_projection_Ok:
  assumes "fit_projection x stamp pid conv q role plan task fixed past = Ok p"
  obtains kept ly where
    "keeps_core (fst past) kept" and "ly_original ly = length (fst past)" and "ly_suffix ly = prompt_suffix q"
    and "px_messages p = candidate_messages ly kept" and "px_included p = length kept"
    and "px_omitted p = length (fst past) - length kept" and "px_through p = snd past"
    and "px_budget p = context_budget_of role plan" and "px_tokens p \<le> gb_usable plan"
    and "if px_exact p then \<exists>i < 13. xe_count x (rc_id role) i (px_messages p) = Ok (px_tokens p)
      else px_tokens p = estimate_messages_tokens (px_messages p)"
    and "generation_ceiling plan (px_tokens p) = Ok (px_generation_limit p)"
    and "px_requested p = bq_output q"
proof -
  let ?ly = "\<lparr>ly_prefix = fixed, ly_suffix = prompt_suffix q, ly_original = length (fst past)\<rparr>"
  let ?pruned = "pre_prune ?ly \<lfloor>of_int (gb_usable plan) * (94 / 100 :: rat)\<rfloor> (fst past)"
  let ?selected = "normalize_selected ?pruned (length ?pruned < length (fst past))"
  obtain kept prompt tokens exact err where c:
    "count_exactly (xe_count x (rc_id role)) ?ly (gb_usable plan) (bq_exact q) ?selected = (kept, prompt, tokens, exact, err)"
    by (metis surj_pair)
  have core: "keeps_core (fst past) kept"
    using keeps_core_trans [OF keeps_core_trans [OF pre_prune_core normalize_selected_core]] count_exactly_Ok [OF c]
    by blast
  from assms [unfolded fit_projection_def Let_def c prod.case] have "tokens \<le> gb_usable plan"
    "px_messages p = prompt" "px_tokens p = tokens" "px_exact p = exact"
    "px_included p = length kept" "px_omitted p = length (fst past) - length kept" "px_through p = snd past"
    "px_budget p = context_budget_of role plan" "generation_ceiling plan tokens = Ok (px_generation_limit p)"
    "px_requested p = bq_output q"
    by (auto simp: and_then_eq_Ok)
  note fields = this
  have "px_messages p = candidate_messages ?ly kept"
    using count_exactly_Ok [OF c] fields by blast
  moreover have "if px_exact p then \<exists>i < 13. xe_count x (rc_id role) i (px_messages p) = Ok (px_tokens p)
      else px_tokens p = estimate_messages_tokens (px_messages p)"
    using count_exactly_Ok [OF c] unfolding fields(2,3,4) by blast
  ultimately show ?thesis
    using core fields by (intro that [of kept ?ly]) simp_all
qed

lemma fit_projection_lineage:
  assumes "fit_projection x stamp pid conv q role plan task fixed past = Ok p"
  shows "px_task p = task" and "px_conversation p = conv"
proof -
  let ?ly = "\<lparr>ly_prefix = fixed, ly_suffix = prompt_suffix q, ly_original = length (fst past)\<rparr>"
  let ?pruned = "pre_prune ?ly \<lfloor>of_int (gb_usable plan) * (94 / 100 :: rat)\<rfloor> (fst past)"
  obtain kept prompt tokens exact err where c: "count_exactly (xe_count x (rc_id role)) ?ly (gb_usable plan) (bq_exact q)
      (normalize_selected ?pruned (length ?pruned < length (fst past))) = (kept, prompt, tokens, exact, err)"
    by (metis surj_pair)
  from assms [unfolded fit_projection_def Let_def c prod.case] show "px_task p = task" "px_conversation p = conv"
    by (auto simp: and_then_eq_Ok)
qed

lemma build_projection_fit:
  assumes "build_projection x stamp pid conv role_name q d = Ok p"
  obtains role plan task fixed where "budget_for_role x role_name (bq_output q) = Ok (role, plan)"
    and "fit_projection x stamp pid conv q role plan task fixed
      (history_messages d conv (history_limit x)) = Ok p"
proof -
  from assms have "and_then (budget_for_role x role_name (bq_output q)) (\<lambda>(role, plan).
     and_then (should_include_task d (rc_id role) (bq_mode q) (bq_task q)) (\<lambda>task.
     and_then (prompt_prefix x d role (bq_mode q) task) (\<lambda>fixed.
     fit_projection x stamp pid conv q role plan task fixed (history_messages d conv (history_limit x))))) = Ok p"
    by (simp only: build_projection_def raise_if_eq_Ok)
  then show ?thesis
    by (elim and_thenE) (auto intro: that elim!: and_thenE)
qed

lemma budget_for_role_Ok:
  assumes "budget_for_role x name requested = Ok (role, plan)"
  shows "gb_usable plan = gb_window plan - gb_reserve plan - gb_safety plan" and "0 < gb_reserve plan"
    and "0 \<le> gb_safety plan" and "gb_ceiling plan = requested"
    and "requested = Some n \<Longrightarrow> gb_reserve plan = n" and "0 < gb_usable plan"
  using assms by (auto simp: budget_for_role_def generation_budget_for_def and_then_eq_Ok Let_def)

text \<open>A projection leaves the reserve for the output.\<close>

lemma projection_room:
  assumes "build_projection x stamp pid conv role_name q d = Ok p"
  shows "px_tokens p \<le> xb_usable (px_budget p)" and "0 < px_generation_limit p"
    and "px_tokens p + px_generation_limit p + xb_safety (px_budget p) \<le> xb_window (px_budget p)"
    and "px_generation_limit p = generation_limit p"
proof -
  obtain role plan task fixed where b: "budget_for_role x role_name (bq_output q) = Ok (role, plan)"
    and "fit_projection x stamp pid conv q role plan task fixed (history_messages d conv (history_limit x)) = Ok p"
    using assms by (rule build_projection_fit)
  from this(2) have p: "px_budget p = context_budget_of role plan \<and> px_tokens p \<le> gb_usable plan \<and>
      generation_ceiling plan (px_tokens p) = Ok (px_generation_limit p) \<and> px_requested p = bq_output q"
    by (rule fit_projection_Ok) simp
  note plan = budget_for_role_Ok [OF b]
  show "px_tokens p \<le> xb_usable (px_budget p)" and "0 < px_generation_limit p"
    and "px_tokens p + px_generation_limit p + xb_safety (px_budget p) \<le> xb_window (px_budget p)"
    and "px_generation_limit p = generation_limit p"
    using plan p
    by (cases "bq_output q"; auto simp: context_budget_of_def generation_ceiling_def generation_limit_def Let_def
        split: if_splits)+
qed

end
