(* ===== verification/Guarantees_Context.thy ===== *)
theory Guarantees_Context
  imports Conversations_Safety Projection_Safety Guarantees_Delegation
begin

section \<open>Guarantees of conversations and context\<close>

text \<open>
  The properties of the transcript, of rollovers and of projections, each with a witness on a
  conversation \<open>c\<close> of three messages whose task is \<open>t\<close>.
\<close>

subsection \<open>Sample states\<close>

definition sample_message :: "int \<Rightarrow> string \<Rightarrow> string \<Rightarrow> message_row" where
  "sample_message n role content = \<lparr>ms_id = dec (nat n), ms_conversation = ''c'', ms_seq = n, ms_role = role,
     ms_content = content, ms_kind = ''message'', ms_include = True, ms_related_task = None,
     ms_metadata = [], ms_created_at = 0\<rparr>"

definition sample_conversation :: "ident \<Rightarrow> conversation_row" where
  "sample_conversation cid = \<lparr>cv_id = cid, cv_title = ''t'', cv_state = ''open'', cv_source = ''chat'',
     cv_created_at = 0, cv_updated_at = 0, cv_last_message_at = None, cv_metadata = []\<rparr>"

definition chat_db :: db where
  "chat_db = empty_db\<lparr>conversations := [sample_conversation ''c'', sample_conversation ''d''],
     messages := [sample_message 1 ''user'' ''first'', sample_message 2 ''assistant'' ''second'',
       sample_message 3 ''user'' ''third''],
     tasks := [(sample_task ''t'' T_Running)\<lparr>tk_conversation := Some ''c''\<rparr>]\<rparr>"

subsection \<open>The transcript\<close>

text \<open>C10. The transcript is append-only: whatever conversations, messages, sessions, task updates and
  rollovers follow, the i-th message of a conversation stays the i-th, with its number and its
  content; only whether it belongs to the context can change.\<close>

theorem transcript_only_grows:
  assumes "numbered d" and "i < length (transcript d c)" and "d' = fold (conversation_step rr dg) ops d"
  shows "i < length (transcript d' c) \<and> message_text (transcript d' c ! i) = message_text (transcript d c ! i) \<and>
    ms_seq (transcript d' c ! i) = int i + 1 \<and> numbered d'"
proof -
  have kept: "transcript_kept d d'"
    unfolding assms(3) by (rule transcripts.run_inv [OF transcript_kept_refl])
  then obtain new where new: "map message_text (transcript d' c) = map message_text (transcript d c) @ new"
    by (auto simp: transcript_kept_def)
  from kept assms(1) have n: "numbered d'" by (simp add: transcript_kept_def)
  from arg_cong [OF new, of length] assms(2) have i: "i < length (transcript d' c)" by simp
  from arg_cong [OF new, of "\<lambda>l. l ! i"] i assms(2)
  have "message_text (transcript d' c ! i) = message_text (transcript d c ! i)" by (simp add: nth_append)
  with n i numbered_nth [OF n i] show ?thesis by simp
qed

lemma chat_numbered: "numbered chat_db"
proof -
  have "transcript chat_db c = (if c = ''c'' then messages chat_db else [])" for c
    by (simp add: transcript_def chat_db_def sample_message_def)
  then show ?thesis by (simp add: numbered_def chat_db_def sample_message_def upt_rec)
qed

lemma transcript_only_grows_witness:
  "let d' = fold (conversation_step (\<lambda>r. Ok r) (\<lambda>s. ''h'')) [VO_Rollover (sample_env 1) None dec ''r'' ''t''] chat_db in
     message_text (transcript d' ''c'' ! 0) = message_text (sample_message 1 ''user'' ''first'')"
proof -
  have "0 < length (transcript chat_db ''c'')" "transcript chat_db ''c'' ! 0 = sample_message 1 ''user'' ''first''"
    by (simp_all add: transcript_def chat_db_def sample_message_def)
  with transcript_only_grows [OF chat_numbered this(1) refl] show ?thesis by (simp only: Let_def)
qed

text \<open>C27. A rollover archives exactly the messages in the context that are older than the newest of
  the user and are neither controls nor unresolved tool messages, records them in the new epoch,
  checkpoints the task as it was under the old epoch, and moves the task to the next.\<close>

theorem rollover_keeps_protected:
  assumes "rollover e digest ow ids reason tid d = (Ok epoch, d')" and "numbered d"
  shows "\<exists>t conv. find_task d tid = Some t \<and> tk_conversation t = Some conv \<and>
    (let rows = context_rows conv d; older = (\<lambda>m. \<not> protected_message (latest_user_seq rows) m) in
     messages d' = update_where (\<lambda>m. ms_conversation m = conv \<and> ms_include m \<and> older m)
       (\<lambda>m. m\<lparr>ms_include := False\<rparr>) (messages d) \<and>
     ce_archived epoch = map context_item_of (filter older rows) \<and> ce_archived epoch \<noteq> []) \<and>
    (\<exists>c \<in> set (checkpoints d'). cp_id c = ce_checkpoint epoch \<and> cp_state c = canonical_task_state_from_row t d \<and>
       cp_epoch c = tk_epoch t \<and> cp_sha256 c = digest (cp_state c)) \<and>
    map_option tk_epoch (find_task d' tid) = Some (tk_epoch t + 1)"
proof -
  from assms(1) obtain t ep d1 ev where tx: "rollover_in_transaction e digest ow ids reason tid d = Ok ((t, ep), d1)"
    and ev: "append_event (now e) (ids 2) tid ''checkpoint'' (''Context epoch '' @ dec (nat (tk_epoch t)) @ '' archived'')
        (Some (tk_owner_role t)) [(''context_epoch_id'', JStr (ce_id epoch)), (''checkpoint_id'', JStr (ce_checkpoint epoch)),
          (''archived_messages'', JInt (int (length (ce_archived epoch)))),
          (''next_epoch'', JInt (tk_epoch t + 1))] ''verbose'' d1 = (Ok ev, d')" and ep: "ep = epoch"
    unfolding rollover_def by (elim and_nextE) (auto simp: transact_eq_Ok elim!: and_nextE split: prod.splits)
  from rollover_in_transaction_Ok [OF tx [unfolded ep]] obtain conv archived unresolved where
    t: "find_task d tid = Some t" "tk_conversation t = Some conv"
    and out: "sort_out (latest_user_seq (context_rows conv d)) (context_rows conv d) = (archived, unresolved)"
    and "archived \<noteq> []"
    and w: "write_rollover e digest ids reason t conv (canonical_task_state_from_row t d) archived unresolved d
      = Ok ((t, epoch), d1)" by metis
  from out have arch: "archived = filter (\<lambda>m. \<not> protected_message (latest_user_seq (context_rows conv d)) m) (context_rows conv d)"
    by (simp add: sort_out_filters)
  have tid: "tk_id t = tid" using t(1) by (auto simp: find_task_def dest: select_one_SomeD)
  have cps: "checkpoints (snd (append_event x u i ety m r pl v s)) = checkpoints s" for x u i ety m r pl v s
    by (auto simp: append_event_def transact_def raise_if_def and_then_def insert_task_event_row_def
        admit_def Let_def split: sum.splits option.splits)
  have after: "messages d' = messages d1" "checkpoints d' = checkpoints d1" "find_task d' tid = find_task d1 tid"
    using ev by (metis append_event_messages snd_conv, metis cps snd_conv, metis append_event_find snd_conv)
  have "messages d' = update_where (\<lambda>m. ms_conversation m = conv \<and> ms_include m \<and>
        \<not> protected_message (latest_user_seq (context_rows conv d)) m) (\<lambda>m. m\<lparr>ms_include := False\<rparr>) (messages d)"
    unfolding after write_rollover_Ok(1) [OF w] by (rule rollover_messages [OF assms(2) refl arch])
  moreover have "ce_archived epoch = map context_item_of archived" by (rule write_rollover_Ok(5) [OF w])
  moreover have "map_option tk_epoch (find_task d' tid) = Some (tk_epoch t + 1)"
    unfolding after write_rollover_Ok(7) [OF w] by (simp add: tid t(1))
  moreover have "\<exists>c \<in> set (checkpoints d'). cp_id c = ce_checkpoint epoch \<and> cp_state c = canonical_task_state_from_row t d \<and>
       cp_epoch c = tk_epoch t \<and> cp_sha256 c = digest (cp_state c)"
    using write_rollover_Ok(8) [OF w] after(2) by (metis in_set_conv_decomp)
  ultimately show ?thesis
    using t arch \<open>archived \<noteq> []\<close> unfolding Let_def
    by (intro exI [of _ t] exI [of _ conv] conjI) simp_all
qed

lemma rollover_keeps_protected_witness:
  "\<exists>epoch d'. rollover (sample_env 1) (\<lambda>s. ''h'') None dec ''r'' ''t'' chat_db = (Ok epoch, d') \<and>
     ce_archived epoch = map context_item_of [sample_message 1 ''user'' ''first'', sample_message 2 ''assistant'' ''second'']"
proof -
  let ?r = "rollover (sample_env 1) (\<lambda>s. ''h'') None dec ''r'' ''t'' chat_db"
  have "is_ok (fst ?r)" by code_simp
  then obtain epoch d' where r: "?r = (Ok epoch, d')"
    by (cases ?r; cases "fst ?r") auto
  have "find_task chat_db ''t'' = Some ((sample_task ''t'' T_Running)\<lparr>tk_conversation := Some ''c''\<rparr>)"
    by (simp add: find_task_def chat_db_def sample_task_def)
  moreover have "context_rows ''c'' chat_db = messages chat_db"
    by (simp add: context_rows_def chat_db_def sample_message_def)
  moreover have "filter (\<lambda>m. \<not> protected_message (latest_user_seq (messages chat_db)) m) (messages chat_db) =
      [sample_message 1 ''user'' ''first'', sample_message 2 ''assistant'' ''second'']" by code_simp
  ultimately show ?thesis
    using rollover_keeps_protected [OF r chat_numbered] r by (auto simp: Let_def)
qed

text \<open>C39. Searching a transcript for a text without a backslash finds exactly the messages that contain
  it, whatever the case of its letters and whatever wildcards it holds; the newest \<open>limit\<close> of them
  come in the order of the conversation.\<close>

theorem search_is_substring:
  assumes "backslash \<notin> set query"
  shows "search_transcript conv query limit d = rev (take limit (sort_key (\<lambda>m. - ms_seq m)
    (filter (\<lambda>m. ms_conversation m = conv \<and> contains (casefold query) (casefold (ms_content m))) (messages d))))"
  by (simp add: search_transcript_def like_search [OF assms])

lemma search_is_substring_witness:
  "map ms_seq (search_transcript ''c'' ''IR'' 50 chat_db) = [1, 3]"
proof -
  have plain: "backslash \<notin> set ''IR''" by code_simp
  have "map ms_seq (rev (take 50 (sort_key (\<lambda>m. - ms_seq m)
    (filter (\<lambda>m. ms_conversation m = ''c'' \<and> contains (casefold ''IR'') (casefold (ms_content m))) (messages chat_db))))) = [1, 3]"
    by code_simp
  then show ?thesis unfolding search_is_substring [OF plain] .
qed

subsection \<open>Projections\<close>

definition sample_projector :: "int \<Rightarrow> projector" where
  "sample_projector per = \<lparr>xe_roles = default_roles,
     xe_generation = \<lparr>gc_output_tokens = None, gc_output_reserve = Some 100, gc_safety_margin = Some 10\<rparr>,
     xe_window = (\<lambda>_. Ok 1000), xe_history_limit = None, xe_json = (\<lambda>_. ''state''),
     xe_count = (\<lambda>_ n ms. Ok (int (length ms) * per))\<rparr>"

definition main_request :: build_request where
  "main_request = \<lparr>bq_mode = ''main'', bq_question = None, bq_task = None, bq_instruction = None,
     bq_output = None, bq_exact = True\<rparr>"

text \<open>C28. A projection that is built fits: its tokens are within the usable input of the role's budget,
  and the room it leaves for the answer is positive and never runs over the context window less
  the safety margin, nor over a ceiling that was asked for.\<close>

theorem projection_fits:
  assumes "build_projection x stamp pid conv role_name q d = Ok p"
  shows "px_tokens p \<le> xb_usable (px_budget p) \<and> 0 < px_generation_limit p \<and>
    px_tokens p + px_generation_limit p + xb_safety (px_budget p) \<le> xb_window (px_budget p) \<and>
    px_generation_limit p = generation_limit p"
  using projection_room [OF assms] by blast

lemma projection_fits_witness:
  "\<exists>p. build_projection (sample_projector 250) 0 ''p'' (Some ''c'') ''general'' main_request chat_db = Ok p \<and>
     px_tokens p + px_generation_limit p + xb_safety (px_budget p) \<le> xb_window (px_budget p)"
proof -
  have "is_ok (build_projection (sample_projector 250) 0 ''p'' (Some ''c'') ''general'' main_request chat_db)" by code_simp
  then obtain p where p: "build_projection (sample_projector 250) 0 ''p'' (Some ''c'') ''general'' main_request chat_db = Ok p"
    using is_okD by fast
  with projection_fits [OF p] show ?thesis by blast
qed

text \<open>What a projection drops of the history is neither protected nor the newest message: the
  prompt ends with a subsequence of the history that keeps both, followed by the instruction,
  and the record counts what was kept and what was dropped.\<close>

theorem projection_keeps_newest:
  assumes "build_projection x stamp pid conv role_name q d = Ok p"
    and "hs = fst (history_messages d conv (history_limit x))"
  shows "\<exists>front kept. px_messages p = front @ map prompt_of kept @ prompt_suffix q \<and> subseq kept hs \<and>
    filter hi_protected kept = filter hi_protected hs \<and> (hs = [] \<or> kept \<noteq> [] \<and> last kept = last hs) \<and>
    px_included p = length kept \<and> px_included p + px_omitted p = length hs"
proof -
  from build_projection_fit [OF assms(1)] obtain role plan task fixed where
    "fit_projection x stamp pid conv q role plan task fixed (history_messages d conv (history_limit x)) = Ok p" by metis
  then obtain kept ly where core: "keeps_core hs kept" and "ly_suffix ly = prompt_suffix q"
    and "px_messages p = candidate_messages ly kept" and "px_included p = length kept"
    and "px_omitted p = length hs - length kept"
    unfolding assms(2) by (rule fit_projection_Ok)
  with keeps_core_length [OF core] show ?thesis
    by (intro exI [of _ "ly_prefix ly @ (if ly_original ly - length kept = 0 then [] else [omission_marker (ly_original ly - length kept)])"]
        exI [of _ kept]) (auto simp: keeps_core_def candidate_messages_def Let_def)
qed

lemma projection_keeps_newest_witness:
  "\<exists>p front kept. build_projection (sample_projector 250) 0 ''p'' (Some ''c'') ''general'' main_request chat_db = Ok p \<and>
     px_messages p = front @ map prompt_of kept \<and> kept \<noteq> [] \<and> hi_content (last kept) = ''third''"
proof -
  have "is_ok (build_projection (sample_projector 250) 0 ''p'' (Some ''c'') ''general'' main_request chat_db)" by code_simp
  then obtain p where p: "build_projection (sample_projector 250) 0 ''p'' (Some ''c'') ''general'' main_request chat_db = Ok p"
    using is_okD by fast
  let ?hs = "fst (history_messages chat_db (Some ''c'') (history_limit (sample_projector 250)))"
  have "?hs \<noteq> []" "hi_content (last ?hs) = ''third''" "prompt_suffix main_request = []" by code_simp+
  with projection_keeps_newest [OF p refl] p show ?thesis by (metis append_Nil2)
qed

text \<open>Building a projection ends after at most 13 calls of the tokenizer: two tokenizers that agree
  on the first 13 calls give the same projection, and the cheap pruning before them stops with a
  prompt within its target or with nothing left that may be dropped.\<close>

theorem tightening_bounded:
  assumes "\<And>r i ms. i < 13 \<Longrightarrow> xe_count x r i ms = tok r i ms"
  shows "build_projection (x\<lparr>xe_count := tok\<rparr>) stamp pid conv role_name q d =
      build_projection x stamp pid conv role_name q d \<and>
    (estimate_messages_tokens (candidate_messages ly (pre_prune ly target hs)) \<le> target \<or>
      nothing_to_drop (pre_prune ly target hs))"
proof -
  have same: "count_exactly (tok r) ly' usable exact hs' = count_exactly (xe_count x r) ly' usable exact hs'"
    for r ly' usable exact hs'
    by (rule count_exactly_cong) (simp add: assms)
  have fit: "fit_projection (x\<lparr>xe_count := tok\<rparr>) stamp pid conv q role plan task fixed past =
      fit_projection x stamp pid conv q role plan task fixed past" for role plan task fixed past
    by (simp add: fit_projection_def same history_limit_def)
  have task: "task_system_message (x\<lparr>xe_count := tok\<rparr>) = task_system_message x"
    by (simp add: fun_eq_iff task_system_message_def)
  have rest: "budget_for_role (x\<lparr>xe_count := tok\<rparr>) = budget_for_role x"
    "history_limit (x\<lparr>xe_count := tok\<rparr>) = history_limit x"
    by (simp_all add: fun_eq_iff budget_for_role_def history_limit_def)
  have prefix_same: "prompt_prefix (x\<lparr>xe_count := tok\<rparr>) = prompt_prefix x"
    by (intro ext) (unfold prompt_prefix_def task, rule refl)
  show ?thesis
    using pre_prune_done by (simp add: build_projection_def fit rest prefix_same)
qed

lemma tightening_bounded_witness:
  "build_projection ((sample_projector 250)\<lparr>xe_count := \<lambda>r i ms. if i < 13 then Ok (int (length ms) * 250) else Ok 0\<rparr>)
     0 ''p'' (Some ''c'') ''general'' main_request chat_db =
   build_projection (sample_projector 250) 0 ''p'' (Some ''c'') ''general'' main_request chat_db"
  by (rule tightening_bounded [THEN conjunct1]) (simp add: sample_projector_def)

text \<open>While the active task belongs to another conversation, no projection for its role can be
  stored in this one: the task is taken into the prompt, and the trigger on the table then
  rejects the row, so that every turn of the chat fails.\<close>

theorem foreign_task_blocks_chat:
  assumes "active_task d = Some t" and "tk_conversation t \<noteq> Some conv"
    and "bq_mode q = ''main''" "bq_task q = None"
    and "budget_for_role x role_name (bq_output q) = Ok (role, plan)" "rc_id role = tk_owner_role t"
  shows "\<exists>err. build x e pid (Some conv) role_name q True (log', d) = (Err err, (log', d))"
proof (cases "build_projection x (now e) pid (Some conv) role_name q d")
  case (Inl err)
  then show ?thesis by (simp add: build_def)
next
  case (Inr p)
  have found: "find_task d (tk_id t) = Some t"
    using assms(1) by (auto simp: active_task_def find_task_def split: option.splits if_splits dest: select_one_SomeD)
  have "should_include_task d (rc_id role) (bq_mode q) (bq_task q) = Ok (Some (tk_id t))"
    using assms by (simp add: should_include_task_def stated_def)
  with Inr assms(5) obtain fixed where
    "fit_projection x (now e) pid (Some conv) q role plan (Some (tk_id t)) fixed
       (history_messages d (Some conv) (history_limit x)) = Ok p"
    by (auto simp: build_projection_def and_then_eq_Ok)
  from fit_projection_lineage [OF this] have "projections_lineage_insert d p \<noteq> None"
    using found assms(2) by (simp add: projections_lineage_insert_def abort_unless_def)
  with Inr show ?thesis by (auto simp: build_def insert_projection_def)
qed

lemma foreign_task_blocks_chat_witness:
  "let d = chat_db\<lparr>tasks := [(sample_task ''t'' T_Running)\<lparr>tk_conversation := Some ''d'', tk_owner_role := ''general''\<rparr>],
       meta := [(''active_task_id'', ''t'')]\<rparr> in
   \<exists>err. build (sample_projector 1) (sample_env 1) ''p'' (Some ''c'') ''general'' main_request True ([], d) = (Err err, ([], d))"
proof -
  let ?d = "chat_db\<lparr>tasks := [(sample_task ''t'' T_Running)\<lparr>tk_conversation := Some ''d'', tk_owner_role := ''general''\<rparr>],
       meta := [(''active_task_id'', ''t'')]\<rparr>"
  let ?t = "(sample_task ''t'' T_Running)\<lparr>tk_conversation := Some ''d'', tk_owner_role := ''general''\<rparr>"
  have "is_ok (budget_for_role (sample_projector 1) ''general'' (bq_output main_request))" by code_simp
  then obtain role plan where b: "budget_for_role (sample_projector 1) ''general'' (bq_output main_request) = Ok (role, plan)"
    by (cases "budget_for_role (sample_projector 1) ''general'' (bq_output main_request)") auto
  have "map_sum id (\<lambda>(r, _). rc_id r) (budget_for_role (sample_projector 1) ''general'' (bq_output main_request)) = Inr ''general''"
    by code_simp
  with b have "rc_id role = tk_owner_role ?t" by simp
  moreover have "active_task ?d = Some ?t"
    by (simp add: active_task_def get_meta_def find_task_def sample_task_def)
  moreover have "tk_conversation ?t \<noteq> Some ''c''" "bq_mode main_request = ''main''" "bq_task main_request = None"
    by (simp_all add: main_request_def)
  ultimately show ?thesis
    unfolding Let_def by (intro foreign_task_blocks_chat [OF _ _ _ _ b])
qed

end
