(* ===== verification/Agent_Controls.thy ===== *)
theory Agent_Controls
  imports Projection Approvals Execution
begin

section \<open>The controls of an agent loop\<close>

text \<open>
  The part of \<^verbatim>\<open>src/tars/agent_loop.py\<close> that takes controls: \<^verbatim>\<open>submit_control\<close>, which may start a
  worker that cancels the running tool, the outcomes such workers leave, \<^verbatim>\<open>_apply_controls\<close>, which
  applies what is pending at a boundary of the loop, and \<^verbatim>\<open>close\<close>.  The state is the outcomes not
  yet reconciled and the log of projections beside the database.  What a worker thread saw (the
  answer of the callback, whether it is still alive) is an argument.  An \<open>engine\<close> supplies the
  clock and the fresh identifiers of every call; a call site is the list of numbers that leads to
  it.  The loop that applies controls ends because each turn takes one pending control; the number
  of pending controls bounds its recursion, and the theorems show that the bound is never reached.
\<close>

subsection \<open>Clocks, identifiers and the ambient owner\<close>

record engine =
  en_env :: "nat list \<Rightarrow> env"
  en_ids :: "nat list \<Rightarrow> nat \<Rightarrow> ident"
  en_resolve :: "string \<Rightarrow> string result"
  en_digest :: "dict \<Rightarrow> string"
  en_policy :: policy_env
  en_owner :: owner
  en_ambient :: "owner option"

definition sub :: "nat \<Rightarrow> engine \<Rightarrow> engine" where
  "sub k g = g\<lparr>en_env := (\<lambda>p. en_env g (k # p)), en_ids := (\<lambda>p. en_ids g (k # p))\<rparr>"

definition here :: "engine \<Rightarrow> env" where
  "here g = en_env g []"

definition draw :: "engine \<Rightarrow> nat \<Rightarrow> ident" where
  "draw g n = en_ids g [] n"

text \<open>The calls the loop and the runner make with the keywords they give\<close>

definition change_task :: "engine \<Rightarrow> task_update \<Rightarrow> ident \<Rightarrow> db \<Rightarrow> task_row result \<times> db" where
  "change_task g u tid d =
     update_task (here g) (draw g) (en_resolve g) (en_digest g) (en_ambient g) None u None tid d"

definition emit ::
    "engine \<Rightarrow> ident \<Rightarrow> string \<Rightarrow> string \<Rightarrow> string \<Rightarrow> dict \<Rightarrow> string \<Rightarrow> db \<Rightarrow> task_event_row result \<times> db" where
  "emit g tid etype message role payload visibility d =
     append_event (now (here g)) (draw g 0) tid etype message (Some role) payload visibility d"

definition say :: "engine \<Rightarrow> ident \<Rightarrow> new_message \<Rightarrow> db \<Rightarrow> message_row result \<times> db" where
  "say g conv m d = add_message (here g) (draw g 0) (draw g 1) conv m d"

definition write_checkpoint ::
    "engine \<Rightarrow> ident \<Rightarrow> dict \<Rightarrow> string \<Rightarrow> ident list \<Rightarrow> bool \<Rightarrow> db \<Rightarrow> checkpoint_row result \<times> db" where
  "write_checkpoint g tid state reason refs advance d =
     create_checkpoint (here g) (en_digest g) (en_ambient g) (draw g 0) (draw g 1) tid (Some state)
       reason (Some refs) advance d"

subsection \<open>Outcomes of cancellation workers\<close>

record cancel_outcome =
  co_control :: ident
  co_result :: json
  co_error :: string
  co_ambiguous :: bool

type_synonym looped = "(cancel_outcome list \<times> projection list) \<times> db"

text \<open>What the callback of the tool did: the value it returned, or the name of the exception\<close>

datatype callback = Returned json | Raised string

definition callback_outcome :: "ident \<Rightarrow> callback \<Rightarrow> cancel_outcome" where
  "callback_outcome cid c = (case c of
     Raised name \<Rightarrow> \<lparr>co_control = cid, co_result = JNull, co_error = take 128 name, co_ambiguous = True\<rparr>
   | Returned v \<Rightarrow>
       let value = (case v of JObj m \<Rightarrow> (case map_of m ''requested'' of None \<Rightarrow> JNull | Some x \<Rightarrow> x) | _ \<Rightarrow> v) in
       \<lparr>co_control = cid, co_result = (case value of JBool b \<Rightarrow> JBool b | _ \<Rightarrow> JBool True),
        co_error = [], co_ambiguous = False\<rparr>)"

definition forget_outcome :: "ident \<Rightarrow> cancel_outcome list \<Rightarrow> cancel_outcome list" where
  "forget_outcome cid os = filter (\<lambda>o'. co_control o' \<noteq> cid) os"

text \<open>\<^verbatim>\<open>_retry_cancellation_reconciliations\<close>, over a snapshot of the outcomes\<close>

fun retry_reconciliations :: "engine \<Rightarrow> cancel_outcome list \<Rightarrow> looped \<Rightarrow> looped" where
  "retry_reconciliations g [] s = s"
| "retry_reconciliations g (o' # os) s =
    (let (r, d) = reconcile_cancellation (here (sub 0 g)) (draw (sub 0 g) 0) (en_owner g) (co_result o')
           (co_error o') (co_ambiguous o') (co_control o') (snd s);
         settled = (case r of Inr _ \<Rightarrow> True
           | Inl _ \<Rightarrow> (case find_cancellation d (co_control o') of
               None \<Rightarrow> False | Some x \<Rightarrow> cancellation_ready (cx_state x)));
         kept = (if settled then forget_outcome (co_control o') (fst (fst s)) else fst (fst s)) in
     retry_reconciliations (sub 1 g) os ((kept, snd (fst s)), d))"

definition retry_all :: "engine \<Rightarrow> looped \<Rightarrow> looped" where
  "retry_all g s = retry_reconciliations g (fst (fst s)) s"

definition attempt_cancellation :: "engine \<Rightarrow> ident \<Rightarrow> callback \<Rightarrow> looped \<Rightarrow> looped" where
  "attempt_cancellation g cid c s =
     retry_all g ((forget_outcome cid (fst (fst s)) @ [callback_outcome cid c], snd (fst s)), snd s)"

subsection \<open>Submitting a control\<close>

text \<open>The tool being run, as the loop's own fields name it\<close>

record active_tool =
  at_tool :: string
  at_operation :: string
  at_cancellable :: bool
  at_effect :: cancellation_effect

definition queued_message :: string where
  "queued_message = ''Message queued for submission after the next tool call.''"

text \<open>\<^verbatim>\<open>type(exc).__name__\<close>\<close>

fun error_name :: "error \<Rightarrow> string" where
  "error_name (Key_Error m) = ''KeyError''"
| "error_name (Value_Error m) = ''ValueError''"
| "error_name (Runtime_Error m) = ''RuntimeError''"
| "error_name (Permission_Error m) = ''PermissionError''"
| "error_name (Type_Error m) = ''TypeError''"
| "error_name (Lookup_Error m) = ''LookupError''"
| "error_name (Integrity_Error m) = ''IntegrityError''"
| "error_name (Budget_Error m) = ''GenerationBudgetError''"
| "error_name (Overflow_Error m) = ''OverflowError''"
| "error_name (Attribute_Error m) = ''AttributeError''"
| "error_name (OS_Error m) = ''OSError''"
| "error_name (Timeout_Error m) = ''TimeoutError''"

text \<open>\<open>starts\<close> says whether the worker thread could be started; the last component of the value
  whether it was.\<close>

definition launch_cancellation ::
    "engine \<Rightarrow> bool \<Rightarrow> control_row \<Rightarrow> looped \<Rightarrow> (control_row \<times> string \<times> bool) result \<times> looped" where
  "launch_cancellation g starts c s =
    (if map_option cx_state (find_cancellation (snd s) (ct_id c)) \<noteq> Some X_Intent
     then (Ok (c, ''Control queued.'', False), s) else
     let (begun, d) = begin_cancellation (here (sub 0 g)) (en_owner g) (seconds 30) (ct_id c) (snd s) in
     case begun of
       Inl err \<Rightarrow>
         let (resolved, d') = resolve_unattempted_cancellation (here (sub 1 g)) (en_owner g)
               ''attempt-start-failed'' (error_name err) (ct_id c) d in
         (case resolved of
            Inl _ \<Rightarrow> (Err (Runtime_Error ''cancellation intent is durable but attempt start is unresolved''),
              (fst s, d'))
          | Inr _ \<Rightarrow> (Ok (c, ''Control queued.'', False), (fst s, d')))
     | Inr _ \<Rightarrow>
         if starts then (Ok (c, ''Control queued.'', True), (fst s, d))
         else (Ok (c, ''Control queued.'', False), retry_all (sub 2 g)
           ((forget_outcome (ct_id c) (fst (fst s)) @ [\<lparr>co_control = ct_id c, co_result = JBool False,
              co_error = ''cancellation-worker-start-failed'', co_ambiguous = False\<rparr>], snd (fst s)), d)))"

definition submit_control ::
    "engine \<Rightarrow> bool \<Rightarrow> active_tool option \<Rightarrow> bool \<Rightarrow> ident \<Rightarrow> string \<Rightarrow> string \<Rightarrow> ident option \<Rightarrow> dict \<Rightarrow>
     looped \<Rightarrow> (control_row \<times> string \<times> bool) result \<times> looped" where
  "submit_control g closing active starts tid kind message session payload s =
    (if closing then (Err (Runtime_Error ''agent loop is closing''), s) else
     let cancel = (\<lambda>tool cancellable eff operation ow ready outcome. on_db (enqueue_cancellation (here g) (draw g)
           tid (casefold kind) message session payload tool cancellable eff operation ow ready outcome) s);
         queued = (\<lambda>r. and_next r (\<lambda>c s. (Ok (c, ''Control queued.'', False), s))) in
     if casefold kind \<notin> {''interrupt'', ''cancel''} then
       and_next (on_db (enqueue (here g) (draw g) tid (casefold kind) message session payload None) s)
         (\<lambda>c s. (Ok (c, if casefold kind = ''message'' \<and> active \<noteq> None then queued_message
            else ''Control queued.'', False), s))
     else (case active of
       None \<Rightarrow> queued (cancel [] False Execute_Effect [] None True ''no-active-tool'')
     | Some a \<Rightarrow>
         if \<not> at_cancellable a
         then queued (cancel (at_tool a) False Execute_Effect (at_operation a) None True ''not-cancellable'')
         else if at_effect a = Destructive_Effect
         then queued (cancel (at_tool a) True Destructive_Effect (at_operation a) None True
           ''requires-explicit-destructive-authority'')
         else and_next (cancel (at_tool a) True (at_effect a) (at_operation a) (Some (en_owner g)) False [])
           (launch_cancellation (sub 0 g) starts)))"

text \<open>\<^verbatim>\<open>submit_task_control\<close>: \<open>local\<close> is the loop of this process that runs the task, as its closing
  flag and its active tool.\<close>

definition submit_task_control ::
    "engine \<Rightarrow> (bool \<times> active_tool option) option \<Rightarrow> bool \<Rightarrow> ident \<Rightarrow> string \<Rightarrow> string \<Rightarrow> ident option \<Rightarrow> dict \<Rightarrow>
     looped \<Rightarrow> (control_row \<times> string \<times> bool) result \<times> looped" where
  "submit_task_control g local starts tid kind message session payload s = (case local of
     Some (closing, active) \<Rightarrow>
       submit_control g closing active starts tid (casefold kind) message session payload s
   | None \<Rightarrow>
       and_next (if casefold kind \<in> {''interrupt'', ''cancel''}
         then on_db (enqueue_cancellation (here g) (draw g) tid (casefold kind) message session payload
           [] False Execute_Effect [] None True ''no-local-active-binding'') s
         else on_db (enqueue (here g) (draw g) tid (casefold kind) message session payload None) s)
       (\<lambda>c s. (Ok (c, if casefold kind = ''message'' then queued_message
          else ''Control queued for the next safe boundary.'', False), s)))"

definition is_task_loop_active :: "env \<Rightarrow> bool \<Rightarrow> ident \<Rightarrow> db \<Rightarrow> bool" where
  "is_task_loop_active e local tid d =
     (local \<or> active_in_transaction e (Task_Execution, tid) d \<or> task_execution_fenced d tid)"

subsection \<open>Applying controls at a boundary\<close>

text \<open>The body of the \<^verbatim>\<open>try\<close> up to \<^verbatim>\<open>finish_control\<close>: the state the loop must stop in, if any\<close>

definition apply_control :: "engine \<Rightarrow> ident \<Rightarrow> control_row \<Rightarrow> db \<Rightarrow> task_state option result \<times> db" where
  "apply_control g tid c d = and_next (load_task d tid, d) (\<lambda>task d.
     let halt = (\<lambda>st ph. and_next (change_task g (no_update\<lparr>up_state := Some st, up_phase := Some ph\<rparr>) tid d)
           (\<lambda>_ d. (Ok (Some st), d))) in
     if map_of (ct_payload c) ''cancellation_phase'' = Some (JStr ''ambiguous'')
     then halt T_Failed recovery_phase
     else (case ct_kind c of
       Approval \<Rightarrow>
         let aid = get (ct_payload c) ''approval_id'' in
         if \<not> truthy aid \<or> map_of (ct_payload c) ''approve'' = None
         then (Err (Value_Error ''approval control requires approval_id and approve''), d)
         else and_next (decide_approval (en_policy g) (draw g 0) (draw g 1) (str_of (en_policy g) aid)
             (truthy (get (ct_payload c) ''approve'')) (ct_message c) (Some tid) None d)
           (\<lambda>_ d. (Ok None, d))
     | Cancel \<Rightarrow> halt T_Cancelled ''cancelled''
     | Pause \<Rightarrow> halt T_Paused ''paused''
     | Resume \<Rightarrow>
         if tk_state task = T_Paused
         then and_next (change_task g (no_update\<lparr>up_state := Some T_Running, up_phase := Some ''agent-loop''\<rparr>) tid d)
           (\<lambda>_ d. (Ok None, d))
         else (Ok None, d)
     | _ \<Rightarrow> (case tk_conversation task of
         None \<Rightarrow> (Ok None, d)
       | Some conv \<Rightarrow> if conv = [] then (Ok None, d) else
           and_next (say g conv \<lparr>nm_role = ''user'', nm_content = ct_message c, nm_kind = ''control'',
             nm_include = True, nm_related_task = Some tid,
             nm_metadata = [(''control_id'', JStr (ct_id c)), (''kind'', JStr (control_kind_name (ct_kind c)))],
             nm_session = ct_session c\<rparr> d) (\<lambda>_ d. (Ok None, d)))))"

text \<open>Applying and finishing one claimed control; a failure is recorded on it and raised again.\<close>

definition settle_control :: "engine \<Rightarrow> ident \<Rightarrow> control_row \<Rightarrow> db \<Rightarrow> task_state option result \<times> db" where
  "settle_control g tid c d =
    (let (r, d') = and_next (apply_control (sub 0 g) tid c d) (\<lambda>stop d.
           and_next (finish (here (sub 1 g)) (draw (sub 1 g) 0) (en_owner g) True
             [(''applied_at_boundary'', JBool True)] (ct_id c) d) (\<lambda>_ d. (Ok stop, d))) in
     case r of
       Inr stop \<Rightarrow> (Ok stop, d')
     | Inl err \<Rightarrow> and_next (finish (here (sub 2 g)) (draw (sub 2 g) 0) (en_owner g) False
         [(''error'', JStr (error_text err))] (ct_id c) d') (\<lambda>_ d. (Err err, d)))"

fun drain_controls ::
    "nat \<Rightarrow> engine \<Rightarrow> ident \<Rightarrow> control_row list \<Rightarrow> db \<Rightarrow>
     (control_row list \<times> task_state option \<times> bool) result \<times> db" where
  "drain_controls 0 g tid applied d = (Ok (applied, None, False), d)"
| "drain_controls (Suc left) g tid applied d =
     and_next (claim_next (here g) (en_owner g) (seconds 30) tid d) (\<lambda>claimed d. case claimed of
       None \<Rightarrow> (Ok (applied, None, True), d)
     | Some c \<Rightarrow> and_next (settle_control (sub 0 g) tid c d) (\<lambda>stop d.
         if stop = None then drain_controls left (sub 1 g) tid (applied @ [c]) d
         else (Ok (applied @ [c], stop, True), d)))"

definition pending_controls :: "ident \<Rightarrow> db \<Rightarrow> nat" where
  "pending_controls tid d =
     count_where (\<lambda>c. ct_task c = tid \<and> ct_state c = C_Pending) (task_controls d)"

record applied_controls =
  ac_applied :: "control_row list"
  ac_stop :: "task_state option"
  ac_blocked :: "control_row option"

text \<open>\<open>waited\<close> is what other threads and processes do while the loop waits for a cancellation.\<close>

definition apply_controls ::
    "engine \<Rightarrow> (looped \<Rightarrow> looped) \<Rightarrow> ident \<Rightarrow> looped \<Rightarrow> applied_controls result \<times> looped" where
  "apply_controls g waited tid s =
    (let s1 = retry_all (sub 0 g) s;
         s2 = (if unreconciled_cancellation (snd s1) tid = None then s1
               else retry_all (sub 1 g) (waited s1));
         blocked = (if unreconciled_cancellation (snd s1) tid = None then None
               else unreconciled_cancellation (snd s2) tid) in
     if blocked \<noteq> None
     then (Ok \<lparr>ac_applied = [], ac_stop = None, ac_blocked = blocked\<rparr>, s2)
     else and_next (on_db (drain_controls (Suc (pending_controls tid (snd s2))) (sub 2 g) tid []) s2)
       (\<lambda>(applied, stop, _) s. (Ok \<lparr>ac_applied = applied, ac_stop = stop, ac_blocked = None\<rparr>, s)))"

subsection \<open>Closing\<close>

text \<open>\<open>alive\<close>: the controls whose worker is still running when the wait is over\<close>

fun abandon_all :: "engine \<Rightarrow> ident list \<Rightarrow> db \<Rightarrow> db" where
  "abandon_all g [] d = d"
| "abandon_all g (cid # cids) d = abandon_all (sub 1 g) cids
     (snd (abandon_cancellation (here (sub 0 g)) (draw (sub 0 g) 0) (en_owner g)
       ''shutdown-not-quiescent'' cid d))"

definition close_loop :: "engine \<Rightarrow> ident list \<Rightarrow> ident \<Rightarrow> looped \<Rightarrow> bool \<times> looped" where
  "close_loop g alive tid s =
    (let d1 = abandon_all (sub 0 g) (filter (\<lambda>c. c \<noteq> []) alive) (snd s);
         d2 = snd (recover_cancellations (here (sub 1 g)) (draw (sub 1 g)) (en_owner g) (seconds 30) tid d1);
         s2 = retry_all (sub 2 g) (fst s, d2) in
     (alive = [] \<and> fst (fst s2) = [] \<and> unreconciled_cancellation (snd s2) tid = None, s2))"

end
