(* ===== verification/Agent_Loop.thy ===== *)
theory Agent_Loop
  imports Agent_Controls Evidence
begin

section \<open>The agent loop\<close>

text \<open>
  \<^verbatim>\<open>src/tars/agent_loop.py\<close>: the decisions of the model, the tools it may call, the contract that
  says when a task is complete, and the loop that alternates between them under its guards.  The
  model, the tools and their hooks are state transformers: what other threads and processes
  commit while one runs is part of what it does.  \<open>ag_clock i\<close> is the time that has passed at the
  start of iteration \<open>i\<close>; \<^verbatim>\<open>json.loads\<close>, \<^verbatim>\<open>json.dumps\<close>, \<^verbatim>\<open>str\<close> and the SHA-256 signature of a
  call are parameters.  Python leaves the order of a set of strings open; the evidence of a
  completion is checked in the order it is named.
\<close>

subsection \<open>Decisions\<close>

datatype decision_kind = Call_Tool | Finish_Task | Go_On

record model_decision =
  dn_kind :: decision_kind
  dn_tool :: string
  dn_arguments :: dict
  dn_summary :: string
  dn_evidence :: "ident list"

datatype raw_decision = Parsed model_decision | Raw json

fun parse_decision_kind :: "string \<Rightarrow> decision_kind option" where
  "parse_decision_kind s = (if s = ''tool'' then Some Call_Tool else if s = ''finish'' then Some Finish_Task
     else if s = ''continue'' then Some Go_On else None)"

text \<open>\<^verbatim>\<open>a or b\<close> on values read from a dict\<close>

definition json_or :: "json \<Rightarrow> json \<Rightarrow> json" where
  "json_or a b = (if truthy a then a else b)"

text \<open>What iterating over a value yields\<close>

definition iterated :: "json \<Rightarrow> json list result" where
  "iterated v = (case v of JArr xs \<Rightarrow> Ok xs | JStr s \<Rightarrow> Ok (map (\<lambda>c. JStr [c]) s)
     | JObj m \<Rightarrow> Ok (map (\<lambda>(k, _). JStr k) m) | _ \<Rightarrow> Err (Type_Error ''object is not iterable''))"

text \<open>\<open>loads\<close> is \<^verbatim>\<open>json.loads\<close>, \<open>None\<close> when it raises.\<close>

definition parse_decision ::
    "(string \<Rightarrow> json option) \<Rightarrow> policy_env \<Rightarrow> raw_decision \<Rightarrow> model_decision result" where
  "parse_decision loads pe raw = (case raw of Parsed dn \<Rightarrow> Ok dn | Raw v \<Rightarrow>
     and_then (case v of JStr s \<Rightarrow> (case loads s of
         None \<Rightarrow> Err (Value_Error ''model decision must be a JSON object'') | Some x \<Rightarrow> Ok x)
       | _ \<Rightarrow> Ok v) (\<lambda>value. case value of
       JObj m \<Rightarrow>
         (let kind = casefold (str_of pe (json_or (get m ''type'') (json_or (get m ''kind'') (JStr []))));
              arguments = json_or (get m ''arguments'') (JObj []);
              summary = str_of pe (json_or (get m ''summary'') (json_or (get m ''message'') (JStr []))) in
          case parse_decision_kind kind of
            None \<Rightarrow> Err (Value_Error ''unsupported model decision'')
          | Some k \<Rightarrow> (case arguments of
              JObj args \<Rightarrow> and_then (iterated (json_or (get m ''evidence_ids'') (JArr []))) (\<lambda>ids.
                Ok \<lparr>dn_kind = k, dn_tool = str_of pe (json_or (get m ''tool'') (JStr [])),
                  dn_arguments = args, dn_summary = summary, dn_evidence = map (str_of pe) ids\<rparr>)
            | _ \<Rightarrow> Err (Value_Error ''tool arguments must be an object'')))
     | _ \<Rightarrow> Err (Type_Error ''model decision must be a mapping'')))"

subsection \<open>Tools\<close>

record tool_result =
  to_tool :: string
  to_state :: string
  to_data :: dict
  to_error :: string
  to_actions :: "ident list"
  to_evidence :: "ident list"

definition succeeded :: "tool_result \<Rightarrow> bool" where
  "succeeded r = (to_state r = ''succeeded'')"

text \<open>A callable and whether it has a parameter \<^verbatim>\<open>task_id\<close>; \<open>None\<close> is a value that is no
  \<^verbatim>\<open>ToolResult\<close>.\<close>

record callable =
  ca_call :: "dict \<Rightarrow> looped \<Rightarrow> tool_result option result \<times> looped"
  ca_takes_task :: bool

record tool_binding =
  tb_execute :: callable
  tb_before :: "callable option"
  tb_cancellable :: bool
  tb_effect :: cancellation_effect
  tb_retry_safe :: bool
  tb_provenance :: string
  tb_trusted :: bool

type_synonym tool_table = "(string \<times> tool_binding) list"

definition register_tool :: "string \<Rightarrow> tool_binding \<Rightarrow> tool_table \<Rightarrow> tool_table result" where
  "register_tool name b tools =
     raise_if (tb_provenance b = ''third-party'' \<and> \<not> tb_trusted b)
       (Permission_Error ''untrusted in-process tool extensions cannot be registered'')
       (Ok (AList.update name b tools))"

definition model_arguments :: "dict \<Rightarrow> dict" where
  "model_arguments args = filter (\<lambda>(k, v). k \<notin> {''task_id'', ''session_id'', ''principal_id''}) args"

definition call_tool :: "callable \<Rightarrow> dict \<Rightarrow> ident \<Rightarrow> looped \<Rightarrow> tool_result result \<times> looped" where
  "call_tool c args tid s =
     and_next (ca_call c (if ca_takes_task c then AList.update ''task_id'' (JStr tid) (model_arguments args)
       else model_arguments args) s) (\<lambda>r s. case r of
       None \<Rightarrow> (Err (Type_Error ''tools must return a real ToolResult''), s) | Some x \<Rightarrow> (Ok x, s))"

subsection \<open>The completion contract\<close>

record completion_contract =
  cn_tools :: "string list"
  cn_types :: "string list"
  cn_require_evidence :: bool

fun completion_types :: "db \<Rightarrow> ident \<Rightarrow> ident list \<Rightarrow> string + string list" where
  "completion_types d tid [] = Inr []"
| "completion_types d tid (eid # eids) = (case find_evidence d eid of
     None \<Rightarrow> Inl ''unknown completion evidence''
   | Some v \<Rightarrow> if ev_task v \<noteq> Some tid then Inl ''evidence belongs to another task''
       else (case completion_types d tid eids of Inl m \<Rightarrow> Inl m | Inr ts \<Rightarrow> Inr (ev_type v # ts)))"

definition claimed_evidence :: "model_decision \<Rightarrow> tool_result list \<Rightarrow> ident list" where
  "claimed_evidence dn results = first_only (dn_evidence dn @ concat (map to_evidence (filter succeeded results)))"

text \<open>\<^verbatim>\<open>CompletionContract.verify\<close>: whether it holds, and the reason\<close>

definition verify_completion ::
    "completion_contract \<Rightarrow> model_decision \<Rightarrow> tool_result list \<Rightarrow> ident \<Rightarrow> db \<Rightarrow> bool \<times> string" where
  "verify_completion cn dn results tid d =
    (if \<not> set (cn_tools cn) \<subseteq> to_tool ` set (filter succeeded results)
     then (False, ''required tool result is missing'')
     else if cn_require_evidence cn \<and> claimed_evidence dn results = []
     then (False, ''completion evidence is required'')
     else (case completion_types d tid (claimed_evidence dn results) of
       Inl m \<Rightarrow> (False, m)
     | Inr ts \<Rightarrow> if \<not> set (cn_types cn) \<subseteq> set ts then (False, ''required evidence type is missing'')
         else (True, ''completion contract satisfied'')))"

subsection \<open>The loop's parameters, variables and outcome\<close>

record agent_limits =
  gl_iterations :: nat
  gl_seconds :: rat
  gl_repetitions :: nat
  gl_no_progress :: nat
  gl_tool_failures :: nat
  gl_pressure :: rat

type_synonym pending = "(ident \<times> int \<times> control_kind \<times> string \<times> dict) list"

record agent =
  ag_task :: ident
  ag_limits :: agent_limits
  ag_contract :: completion_contract
  ag_tools :: tool_table
  ag_model :: "nat \<Rightarrow> task_row \<Rightarrow> pending \<Rightarrow> looped \<Rightarrow> (raw_decision \<times> rat) result \<times> looped"
  ag_waited :: "nat \<Rightarrow> looped \<Rightarrow> looped"
  ag_clock :: "nat \<Rightarrow> rat"
  ag_loads :: "string \<Rightarrow> json option"
  ag_json :: "json \<Rightarrow> string"
  ag_signature :: "string \<Rightarrow> dict \<Rightarrow> string"

record loop_vars =
  lv_results :: "tool_result list"
  lv_repetitions :: "(string \<times> nat) list"
  lv_no_progress :: nat
  lv_tool_failures :: nat
  lv_checkpoint :: json

record agent_outcome =
  ou_state :: task_state
  ou_reason :: string
  ou_iterations :: nat
  ou_results :: "tool_result list"
  ou_checkpoint :: json

datatype turn = Ended agent_outcome | Turns loop_vars

subsection \<open>Stopping\<close>

definition stop_loop ::
    "agent \<Rightarrow> engine \<Rightarrow> task_state \<Rightarrow> string \<Rightarrow> nat \<Rightarrow> loop_vars \<Rightarrow> json \<Rightarrow> looped \<Rightarrow> turn result \<times> looped" where
  "stop_loop ag g state reason iterations v checkpoint s = on_db (\<lambda>d.
     and_next (load_task d (ag_task ag), d) (\<lambda>task d.
     and_next (change_task (sub 0 g) (no_update\<lparr>up_state := Some state, up_phase := Some reason,
         up_failures := Some (if state = T_Failed then tk_failures task @ [reason] else tk_failures task)\<rparr>)
         (tk_id task) d) (\<lambda>_ d.
     and_next (emit (sub 1 g) (tk_id task) (if state = T_Paused then ''status'' else ''error'') reason
         (tk_owner_role task) [(''guard'', JStr reason)] ''normal'' d) (\<lambda>_ d.
     (Ok (Ended \<lparr>ou_state = state, ou_reason = reason, ou_iterations = iterations,
        ou_results = lv_results v, ou_checkpoint = checkpoint\<rparr>), d))))) s"

definition ended ::
    "task_state \<Rightarrow> string \<Rightarrow> nat \<Rightarrow> loop_vars \<Rightarrow> json \<Rightarrow> looped \<Rightarrow> turn result \<times> looped" where
  "ended state reason iterations v checkpoint s =
     (Ok (Ended \<lparr>ou_state = state, ou_reason = reason, ou_iterations = iterations,
        ou_results = lv_results v, ou_checkpoint = checkpoint\<rparr>), s)"

text \<open>\<^verbatim>\<open>try: x = ... except Exception\<close>, with what follows the \<^verbatim>\<open>try\<close>\<close>

definition attempt ::
    "'a result \<times> looped \<Rightarrow> (error \<Rightarrow> looped \<Rightarrow> 'b result \<times> looped) \<Rightarrow> ('a \<Rightarrow> looped \<Rightarrow> 'b result \<times> looped) \<Rightarrow>
     'b result \<times> looped" where
  "attempt r handler rest = (case fst r of Inl err \<Rightarrow> handler err (snd r) | Inr x \<Rightarrow> rest x (snd r))"

definition by_user :: "task_state \<Rightarrow> string" where
  "by_user st = task_state_name st @ '' by user control''"

definition at_boundary :: "task_state \<Rightarrow> string" where
  "at_boundary st = task_state_name st @ '' at safe tool boundary''"

abbreviation reconciliation_pending :: string where
  "reconciliation_pending \<equiv> ''cancellation reconciliation pending''"

subsection \<open>A tool decision\<close>

definition add_refs :: "engine \<Rightarrow> ident \<Rightarrow> ident list \<Rightarrow> string \<Rightarrow> db \<Rightarrow> ident list result \<times> db" where
  "add_refs g tid new phase d = and_next (load_task d tid, d) (\<lambda>task d.
     let refs = first_only (tk_evidence_refs task @ new) in
     and_next (change_task g (no_update\<lparr>up_evidence_refs := Some refs, up_phase := Some phase\<rparr>) tid d)
       (\<lambda>_ d. (Ok refs, d)))"

definition state_checkpoint ::
    "engine \<Rightarrow> ident \<Rightarrow> string \<Rightarrow> ident list \<Rightarrow> db \<Rightarrow> checkpoint_row result \<times> db" where
  "state_checkpoint g tid reason refs d = and_next (canonical_task_state d tid, d)
     (\<lambda>state d. write_checkpoint g tid state reason refs False d)"

text \<open>A failure of a tool, counted; \<open>stuck\<close> says whether it also counts as no progress.\<close>

definition tool_failed :: "agent \<Rightarrow> engine \<Rightarrow> nat \<Rightarrow> bool \<Rightarrow> loop_vars \<Rightarrow> looped \<Rightarrow> turn result \<times> looped" where
  "tool_failed ag g i stuck v s =
    (let v' = v\<lparr>lv_tool_failures := lv_tool_failures v + 1,
         lv_no_progress := lv_no_progress v + (if stuck then 1 else 0)\<rparr> in
     if gl_tool_failures (ag_limits ag) \<le> lv_tool_failures v'
     then stop_loop ag g T_Paused ''tool failure guard'' i v' (lv_checkpoint v') s
     else (Ok (Turns v'), s))"

text \<open>The hook before the tool.  \<open>Turns\<close> means that the tool may run.\<close>

definition hook_failed ::
    "agent \<Rightarrow> engine \<Rightarrow> nat \<Rightarrow> task_row \<Rightarrow> model_decision \<Rightarrow> loop_vars \<Rightarrow> error \<Rightarrow> looped \<Rightarrow> turn result \<times> looped" where
  "hook_failed ag g i task dn v err s =
     and_next (on_db (emit (sub 0 g) (tk_id task) ''error'' (''Workspace checkpoint failed: '' @ error_text err)
       (tk_owner_role task) [(''tool'', JStr (dn_tool dn))] ''normal'') s) (\<lambda>_ s.
     stop_loop ag (sub 1 g) T_Paused ''workspace checkpoint failed'' i v (lv_checkpoint v) s)"

definition before_tool ::
    "agent \<Rightarrow> engine \<Rightarrow> nat \<Rightarrow> task_row \<Rightarrow> model_decision \<Rightarrow> tool_binding \<Rightarrow> loop_vars \<Rightarrow> looped \<Rightarrow>
     turn result \<times> looped" where
  "before_tool ag g i task dn b v s = (case tb_before b of None \<Rightarrow> (Ok (Turns v), s) | Some hook \<Rightarrow>
     attempt (call_tool hook (dn_arguments dn) (tk_id task) s) (hook_failed ag (sub 0 g) i task dn v)
     (\<lambda>r s. if \<not> succeeded r
       then attempt (stop_loop ag (sub 1 g) T_Paused ''workspace checkpoint failed'' i v (lv_checkpoint v) s)
         (hook_failed ag (sub 2 g) i task dn v) (\<lambda>t s. (Ok t, s))
       else
         let v1 = v\<lparr>lv_results := lv_results v @ [r]\<rparr> in
         attempt (on_db (add_refs (sub 3 g) (tk_id task) (to_evidence r) ''workspace-checkpointed'') s)
           (hook_failed ag (sub 4 g) i task dn v1)
           (\<lambda>_ s. (Ok (Turns (v1\<lparr>lv_checkpoint := get (to_data r) ''checkpoint_id''\<rparr>)), s))))"

definition tool_message :: "agent \<Rightarrow> tool_result \<Rightarrow> string" where
  "tool_message ag r = take 64000 (ag_json ag (JObj [(''tool'', JStr (to_tool r)), (''state'', JStr (to_state r)),
     (''data'', JObj (to_data r)), (''error'', JStr (to_error r)),
     (''evidence_ids'', JArr (map JStr (to_evidence r)))]))"

definition say_if_bound ::
    "engine \<Rightarrow> task_row \<Rightarrow> string \<Rightarrow> string \<Rightarrow> string \<Rightarrow> dict \<Rightarrow> db \<Rightarrow> unit result \<times> db" where
  "say_if_bound g task role content kind metadata d = (case tk_conversation task of
     None \<Rightarrow> (Ok (), d)
   | Some conv \<Rightarrow> if conv = [] then (Ok (), d) else
       and_next (say g conv \<lparr>nm_role = role, nm_content = content, nm_kind = kind, nm_include = True,
         nm_related_task = Some (tk_id task), nm_metadata = metadata, nm_session = None\<rparr> d)
       (\<lambda>_ d. (Ok (), d)))"

text \<open>The controls applied at the safe boundary after a tool, whose errors are not caught here, and
  the state they or another process left the task in\<close>

definition final_boundary ::
    "agent \<Rightarrow> engine \<Rightarrow> nat \<Rightarrow> task_row \<Rightarrow> loop_vars \<Rightarrow> looped \<Rightarrow> turn result \<times> looped" where
  "final_boundary ag g i task v s =
     and_next (apply_controls (sub 0 g) (ag_waited ag i) (ag_task ag) s) (\<lambda>ac s.
     if ac_blocked ac \<noteq> None then stop_loop ag (sub 1 g) T_Paused reconciliation_pending i v (lv_checkpoint v) s
     else (case ac_stop ac of
       Some st \<Rightarrow> ended st (at_boundary st) i v (lv_checkpoint v) s
     | None \<Rightarrow> and_next (on_db (\<lambda>d. (load_task d (tk_id task), d)) s) (\<lambda>current s.
         if tk_state current \<in> {T_Paused, T_Cancelled}
         then ended (tk_state current) (at_boundary (tk_state current)) i v (lv_checkpoint v) s
         else (Ok (Turns v), s))))"

definition record_tool_result ::
    "agent \<Rightarrow> engine \<Rightarrow> task_row \<Rightarrow> model_decision \<Rightarrow> tool_result \<Rightarrow> db \<Rightarrow> unit result \<times> db" where
  "record_tool_result ag g task dn r d =
     and_next (emit (sub 0 g) (tk_id task) ''tool'' (dn_tool dn @ '': '' @ to_state r) (tk_owner_role task)
       [(''tool'', JStr (to_tool r)), (''state'', JStr (to_state r)), (''error'', JStr (to_error r)),
        (''evidence_ids'', JArr (map JStr (to_evidence r)))] ''normal'' d) (\<lambda>_ d.
     say_if_bound (sub 1 g) task ''tool'' (tool_message ag r) ''tool-result''
       [(''unresolved'', JBool False)] d)"

text \<open>Everything after the tool returned a result\<close>

definition tool_returned ::
    "agent \<Rightarrow> engine \<Rightarrow> nat \<Rightarrow> task_row \<Rightarrow> model_decision \<Rightarrow> tool_binding \<Rightarrow> tool_result \<Rightarrow> loop_vars \<Rightarrow> looped \<Rightarrow>
     turn result \<times> looped" where
  "tool_returned ag g i task dn b r v s =
    (let v1 = v\<lparr>lv_results := lv_results v @ [r]\<rparr> in
     and_next (on_db (record_tool_result ag (sub 0 g) task dn r) s) (\<lambda>_ s.
     attempt (apply_controls (sub 1 g) (ag_waited ag i) (ag_task ag) s)
       (\<lambda>err. stop_loop ag (sub 2 g) T_Failed (''control application failed: '' @ error_text err) i v1 (lv_checkpoint v1))
     (\<lambda>ac s.
     if ac_blocked ac \<noteq> None then stop_loop ag (sub 3 g) T_Paused reconciliation_pending i v1 (lv_checkpoint v1) s
     else (case ac_stop ac of
       Some st \<Rightarrow> ended st (by_user st) i v1 (lv_checkpoint v1) s
     | None \<Rightarrow>
       and_next (on_db (add_refs (sub 4 g) (tk_id task) (to_evidence r) ''verifying-progress'') s) (\<lambda>refs s.
       and_next (on_db (state_checkpoint (sub 5 g) (tk_id task) (''agent boundary after '' @ dn_tool dn) refs) s)
         (\<lambda>cp s.
       let v2 = v1\<lparr>lv_checkpoint := JStr (cp_id cp)\<rparr> in
       if succeeded r then final_boundary ag (sub 6 g) i task (v2\<lparr>lv_no_progress := 0\<rparr>) s
       else
         let v3 = v2\<lparr>lv_tool_failures := lv_tool_failures v2 + 1, lv_no_progress := lv_no_progress v2 + 1\<rparr> in
         if \<not> tb_retry_safe b then stop_loop ag (sub 7 g) T_Paused ''unsafe retry guard'' i v3 (lv_checkpoint v3) s
         else if gl_tool_failures (ag_limits ag) \<le> lv_tool_failures v3
         then stop_loop ag (sub 8 g) T_Paused ''tool failure guard'' i v3 (lv_checkpoint v3) s
         else final_boundary ag (sub 9 g) i task v3 s))))))"

definition count_call :: "agent \<Rightarrow> model_decision \<Rightarrow> loop_vars \<Rightarrow> nat \<times> loop_vars" where
  "count_call ag dn v =
    (let sig = ag_signature ag (dn_tool dn) (dn_arguments dn);
         n = (case map_of (lv_repetitions v) sig of None \<Rightarrow> 1 | Some k \<Rightarrow> k + 1) in
     (n, v\<lparr>lv_repetitions := AList.update sig n (lv_repetitions v)\<rparr>))"

definition tool_turn ::
    "agent \<Rightarrow> engine \<Rightarrow> nat \<Rightarrow> task_row \<Rightarrow> model_decision \<Rightarrow> loop_vars \<Rightarrow> looped \<Rightarrow> turn result \<times> looped" where
  "tool_turn ag g i task dn v s =
    (if dn_tool dn = [] then stop_loop ag (sub 0 g) T_Failed ''tool decision omitted tool name'' i v JNull s else
     let (n, v1) = count_call ag dn v in
     if gl_repetitions (ag_limits ag) < n then stop_loop ag (sub 1 g) T_Paused ''repetition guard'' i v1 JNull s else
     and_next (on_db (emit (sub 2 g) (tk_id task) ''tool'' (''Proposed '' @ dn_tool dn) (tk_owner_role task)
       [(''tool'', JStr (dn_tool dn)), (''arguments'', JObj (dn_arguments dn))] ''normal'') s) (\<lambda>_ s.
     case map_of (ag_tools ag) (dn_tool dn) of
       None \<Rightarrow>
         and_next (on_db (emit (sub 3 g) (tk_id task) ''error'' ''unregistered tool'' (tk_owner_role task)
           [(''tool'', JStr (dn_tool dn))] ''normal'') s) (\<lambda>_ s.
         tool_failed ag (sub 4 g) i False v1 s)
     | Some b \<Rightarrow>
         and_next (before_tool ag (sub 5 g) i task dn b v1 s) (\<lambda>t s. case t of
           Ended out \<Rightarrow> (Ok (Ended out), s)
         | Turns v2 \<Rightarrow>
             attempt (call_tool (tb_execute b) (dn_arguments dn) (tk_id task) s)
               (\<lambda>err s. and_next (on_db (emit (sub 6 g) (tk_id task) ''error'' (dn_tool dn @ '': '' @ error_text err)
                   (tk_owner_role task) [(''tool'', JStr (dn_tool dn)), (''exception'', JStr (error_name err))]
                   ''normal'') s) (\<lambda>_ s. tool_failed ag (sub 7 g) i True v2 s))
               (\<lambda>r s. tool_returned ag (sub 8 g) i task dn b r v2 s))))"

subsection \<open>Continuing and finishing\<close>

definition progress_guard :: "agent \<Rightarrow> engine \<Rightarrow> nat \<Rightarrow> loop_vars \<Rightarrow> looped \<Rightarrow> turn result \<times> looped" where
  "progress_guard ag g i v s =
    (if gl_no_progress (ag_limits ag) \<le> lv_no_progress v
     then stop_loop ag g T_Paused ''no-progress guard'' i v (lv_checkpoint v) s
     else (Ok (Turns v), s))"

definition continue_turn ::
    "agent \<Rightarrow> engine \<Rightarrow> nat \<Rightarrow> task_row \<Rightarrow> model_decision \<Rightarrow> loop_vars \<Rightarrow> looped \<Rightarrow> turn result \<times> looped" where
  "continue_turn ag g i task dn v s =
     and_next (if dn_summary dn = [] then (Ok (), s)
       else on_db (say_if_bound (sub 0 g) task ''assistant'' (dn_summary dn) ''agent-progress'' []) s) (\<lambda>_ s.
     progress_guard ag (sub 1 g) i (v\<lparr>lv_no_progress := lv_no_progress v + 1\<rparr>) s)"

definition complete_task ::
    "engine \<Rightarrow> task_row \<Rightarrow> model_decision \<Rightarrow> string \<Rightarrow> db \<Rightarrow> checkpoint_row result \<times> db" where
  "complete_task g task dn reason d = and_next (load_task d (tk_id task), d) (\<lambda>current d.
     let refs = first_only (tk_evidence_refs current @ dn_evidence dn) in
     and_next (change_task (sub 0 g) (no_update\<lparr>up_state := Some T_Completed, up_phase := Some ''completed'',
       up_progress := Some 1, up_evidence_refs := Some refs\<rparr>) (tk_id task) d) (\<lambda>_ d.
     and_next (state_checkpoint (sub 1 g) (tk_id task) ''verified completion'' refs d) (\<lambda>cp d.
     and_next (emit (sub 2 g) (tk_id task) ''result'' (dn_summary dn) (tk_owner_role task)
       [(''verified'', JBool True), (''reason'', JStr reason),
        (''evidence_ids'', JArr (map JStr refs))] ''normal'' d) (\<lambda>_ d. (Ok cp, d)))))"

definition finish_turn ::
    "agent \<Rightarrow> engine \<Rightarrow> nat \<Rightarrow> task_row \<Rightarrow> model_decision \<Rightarrow> loop_vars \<Rightarrow> looped \<Rightarrow> turn result \<times> looped" where
  "finish_turn ag g i task dn v s =
    (let (verified, reason) = verify_completion (ag_contract ag) dn (lv_results v) (tk_id task) (snd s) in
     if verified
     then and_next (on_db (complete_task (sub 0 g) task dn reason) s) (\<lambda>cp s.
       ended T_Completed reason i v (JStr (cp_id cp)) s)
     else and_next (on_db (\<lambda>d. and_next (emit (sub 1 g) (tk_id task) ''status'' ''Completion rejected''
         (tk_owner_role task) [(''verified'', JBool False), (''reason'', JStr reason)] ''normal'' d) (\<lambda>_ d.
         say_if_bound (sub 2 g) task ''tool'' (''Completion rejected: '' @ reason) ''tool-result''
           [(''unresolved'', JBool True)] d)) s) (\<lambda>_ s.
       progress_guard ag (sub 3 g) i (v\<lparr>lv_no_progress := lv_no_progress v + 1\<rparr>) s))"

subsection \<open>One iteration\<close>

definition act_on_decision ::
    "agent \<Rightarrow> engine \<Rightarrow> nat \<Rightarrow> task_row \<Rightarrow> model_decision \<Rightarrow> loop_vars \<Rightarrow> looped \<Rightarrow> turn result \<times> looped" where
  "act_on_decision ag g i task dn v s =
     attempt (apply_controls (sub 0 g) (ag_waited ag i) (ag_task ag) s)
       (\<lambda>err. stop_loop ag (sub 1 g) T_Failed (''control application failed: '' @ error_text err) i v (lv_checkpoint v))
     (\<lambda>ac s.
     if ac_blocked ac \<noteq> None then stop_loop ag (sub 2 g) T_Paused reconciliation_pending i v (lv_checkpoint v) s
     else (case ac_stop ac of
       Some st \<Rightarrow> ended st (by_user st) (i - 1) v (lv_checkpoint v) s
     | None \<Rightarrow>
       if ac_applied ac \<noteq> [] then
         and_next (on_db (emit (sub 3 g) (tk_id task) ''status'' ''Model decision superseded by user control''
           (tk_owner_role task) [(''controls'', JArr (map (\<lambda>c. JStr (ct_id c)) (ac_applied ac)))] ''verbose'') s)
           (\<lambda>_ s. (Ok (Turns v), s))
       else
         let kind = (case dn_kind dn of Call_Tool \<Rightarrow> ''tool'' | Finish_Task \<Rightarrow> ''finish'' | Go_On \<Rightarrow> ''continue'') in
         and_next (on_db (append_state_event (now (here (sub 4 g))) (draw (sub 4 g) 0) ''model_invocation'' kind
           None None (Some (tk_id task)) (Some (tk_owner_role task))
           [(''iteration'', JInt (int i)), (''decision'', JStr kind), (''tool'', JStr (dn_tool dn))] ''normal'') s)
         (\<lambda>_ s. case dn_kind dn of
           Call_Tool \<Rightarrow> tool_turn ag (sub 5 g) i task dn v s
         | Go_On \<Rightarrow> continue_turn ag (sub 6 g) i task dn v s
         | Finish_Task \<Rightarrow> finish_turn ag (sub 7 g) i task dn v s)))"

definition ask_model ::
    "agent \<Rightarrow> engine \<Rightarrow> nat \<Rightarrow> loop_vars \<Rightarrow> looped \<Rightarrow> turn result \<times> looped" where
  "ask_model ag g i v s =
     and_next (on_db (\<lambda>d. (load_task d (ag_task ag), d)) s) (\<lambda>task s.
     attempt (ag_model ag i task (pending_context (tk_id task) (snd s)) s)
       (\<lambda>err. stop_loop ag (sub 0 g) T_Failed (''model invocation failed: '' @ error_text err) (i - 1) v (lv_checkpoint v))
     (\<lambda>(raw, p) s.
     if gl_pressure (ag_limits ag) \<le> p then stop_loop ag (sub 1 g) T_Paused ''context pressure guard'' (i - 1) v JNull s
     else (case parse_decision (ag_loads ag) (en_policy g) raw of
       Inl err \<Rightarrow> stop_loop ag (sub 2 g) T_Failed (''invalid model decision: '' @ error_text err) i v (lv_checkpoint v) s
     | Inr dn \<Rightarrow> act_on_decision ag (sub 3 g) i task dn v s)))"

definition agent_round :: "agent \<Rightarrow> engine \<Rightarrow> nat \<Rightarrow> loop_vars \<Rightarrow> looped \<Rightarrow> turn result \<times> looped" where
  "agent_round ag g i v s =
    (if gl_seconds (ag_limits ag) < ag_clock ag i
     then stop_loop ag (sub 0 g) T_Paused ''time budget exhausted'' (i - 1) v JNull s else
     attempt (apply_controls (sub 1 g) (ag_waited ag i) (ag_task ag) s)
       (\<lambda>err. stop_loop ag (sub 2 g) T_Failed (''control application failed: '' @ error_text err) (i - 1) v (lv_checkpoint v))
     (\<lambda>ac s.
     if ac_blocked ac \<noteq> None
     then stop_loop ag (sub 3 g) T_Paused reconciliation_pending (i - 1) v (lv_checkpoint v) s
     else (case ac_stop ac of
       Some st \<Rightarrow> ended st (by_user st) (i - 1) v JNull s
     | None \<Rightarrow> ask_model ag (sub 4 g) i v s)))"

subsection \<open>Running\<close>

text \<open>\<open>left\<close> iterations remain; \<open>i\<close> is the number of the next one.\<close>

fun agent_rounds :: "agent \<Rightarrow> engine \<Rightarrow> nat \<Rightarrow> nat \<Rightarrow> loop_vars \<Rightarrow> looped \<Rightarrow> agent_outcome result \<times> looped" where
  "agent_rounds ag g 0 i v s =
     and_next (stop_loop ag (sub 0 g) T_Paused ''iteration budget exhausted'' (gl_iterations (ag_limits ag)) v
       (lv_checkpoint v) s) (\<lambda>t s. case t of
       Ended out \<Rightarrow> (Ok out, s) | Turns _ \<Rightarrow> (Err (Runtime_Error []), s))"
| "agent_rounds ag g (Suc left) i v s =
     and_next (agent_round ag (sub 1 g) i v s) (\<lambda>t s. case t of
       Ended out \<Rightarrow> (Ok out, s) | Turns v' \<Rightarrow> agent_rounds ag (sub 2 g) left (Suc i) v' s)"

definition start_vars :: loop_vars where
  "start_vars = \<lparr>lv_results = [], lv_repetitions = [], lv_no_progress = 0, lv_tool_failures = 0,
     lv_checkpoint = JNull\<rparr>"

definition run_registered :: "agent \<Rightarrow> engine \<Rightarrow> looped \<Rightarrow> agent_outcome result \<times> looped" where
  "run_registered ag g s =
     and_next (on_db (change_task (sub 0 g) (no_update\<lparr>up_state := Some T_Running,
       up_phase := Some ''agent-loop''\<rparr>) (ag_task ag)) s) (\<lambda>_ s.
     agent_rounds ag (sub 1 g) (gl_iterations (ag_limits ag)) 1 start_vars s)"

definition runnable :: "ident \<Rightarrow> db \<Rightarrow> task_row result" where
  "runnable tid d = and_then (load_task d tid) (\<lambda>task.
     raise_if (tk_phase task = recovery_phase)
       (Runtime_Error ''task requires explicit recovery after ambiguous cancellation'')
    (raise_if (terminal_task_state (tk_state task)) (Runtime_Error ''task is terminal'') (Ok task)))"

text \<open>The body of the execution scope; \<open>registered\<close> says whether this process already runs a loop for
  the task.\<close>

definition run_scoped :: "agent \<Rightarrow> engine \<Rightarrow> bool \<Rightarrow> bool \<Rightarrow> looped \<Rightarrow> agent_outcome result \<times> looped" where
  "run_scoped ag g registered inherited s =
     and_next (on_db (\<lambda>d. (runnable (ag_task ag) d, d)) s) (\<lambda>task s.
     and_next (on_db (recover_processing (here (sub 0 g)) (en_owner g) (seconds 30) (tk_id task)) s) (\<lambda>_ s.
     and_next (on_db (recover_cancellations (here (sub 1 g)) (draw (sub 1 g)) (en_owner g) (seconds 30) (tk_id task)) s)
       (\<lambda>_ s.
     if tk_state task = T_Running \<and> \<not> inherited then
       and_next (on_db (change_task (sub 2 g) (no_update\<lparr>up_state := Some T_Failed,
         up_phase := Some ''execution-owner-lost'',
         up_failures := Some (tk_failures task @ [''previous execution outcome is ambiguous''])\<rparr>) (tk_id task)) s)
         (\<lambda>_ s. (Err (Runtime_Error ''task lost its previous execution owner''), s))
     else if registered then (Err (Runtime_Error ''task already has an active agent loop''), s)
     else run_registered ag (sub 3 g) s)))"

text \<open>\<^verbatim>\<open>task_execution_scope\<close> around a body that also keeps what is beside the database\<close>

definition in_execution_scope ::
    "engine \<Rightarrow> owner option \<Rightarrow> dict \<Rightarrow> ident \<Rightarrow> ('r \<times> db \<Rightarrow> 'a result \<times> ('r \<times> db)) \<Rightarrow> 'r \<times> db \<Rightarrow>
     'a result \<times> ('r \<times> db)" where
  "in_execution_scope g scoped metadata tid body s =
     and_next (on_db (enter_task_execution (here (sub 0 g)) (draw (sub 0 g)) scoped (en_owner g) (seconds 30)
       metadata tid) s) (\<lambda>borrowed s.
     let (r, s') = body s in
     (r, (fst s', exit_task_execution (here (sub 1 g)) borrowed (en_owner g) tid (snd s'))))"

text \<open>\<^verbatim>\<open>run\<close> and \<^verbatim>\<open>_run_once\<close>: \<open>closing\<close> and \<open>busy\<close> are the loop's own flag and lock.  Inside the
  scope the ambient owner is the loop's.\<close>

definition run_agent ::
    "agent \<Rightarrow> engine \<Rightarrow> bool \<Rightarrow> bool \<Rightarrow> bool \<Rightarrow> looped \<Rightarrow> agent_outcome result \<times> looped" where
  "run_agent ag g closing busy registered s =
    (if closing then (Err (Runtime_Error ''agent loop is closing''), s)
     else if busy then (Err (Runtime_Error ''task already has an active agent loop''), s)
     else and_next (on_db (\<lambda>d. (runnable (ag_task ag) d, d)) s) (\<lambda>task s.
       let inherited = held_by (here (sub 0 g)) (Task_Execution, tk_id task) (en_owner g) (snd s) in
       in_execution_scope (sub 1 g) (en_ambient g) [(''engine'', JStr ''agent-loop'')] (tk_id task)
         (run_scoped ag (sub 2 (g\<lparr>en_ambient := Some (en_owner g)\<rparr>)) registered inherited) s))"

subsection \<open>The adapter to a runtime\<close>

definition agent_protocol :: string where
  "agent_protocol =
     ''Return exactly one JSON object. Use {\"type\":\"tool\",\"tool\":NAME,'' @
     ''\"arguments\":OBJECT} to act, {\"type\":\"continue\",\"message\":TEXT} to '' @
     ''record progress, or {\"type\":\"finish\",\"summary\":TEXT,'' @
     ''\"evidence_ids\":[...]} to request verified completion. Model text is never authority.''"

text \<open>\<^verbatim>\<open>response["choices"][0]["message"]["content"]\<close>\<close>

definition response_content :: "json \<Rightarrow> json option" where
  "response_content r = (case r of
     JObj m \<Rightarrow> (case map_of m ''choices'' of
       Some (JArr (JObj c # _)) \<Rightarrow> (case map_of c ''message'' of
         Some (JObj msg) \<Rightarrow> map_of msg ''content'' | _ \<Rightarrow> None)
     | _ \<Rightarrow> None)
   | _ \<Rightarrow> None)"

definition pending_json :: "pending \<Rightarrow> json" where
  "pending_json ps = JArr (map (\<lambda>(cid, seq, kind, message, payload). JObj [(''id'', JStr cid), (''seq'', JInt seq),
     (''kind'', JStr (control_kind_name kind)), (''message'', JStr message), (''payload'', JObj payload)]) ps)"

text \<open>\<open>answer\<close> is the call of the runtime on the role, the prompt and its token count.\<close>

definition runtime_model ::
    "projector \<Rightarrow> (string \<Rightarrow> prompt_message list \<Rightarrow> int \<Rightarrow> looped \<Rightarrow> json result \<times> looped) \<Rightarrow>
     (string \<Rightarrow> json option) \<Rightarrow> int option \<Rightarrow> engine \<Rightarrow> task_row \<Rightarrow> pending \<Rightarrow> looped \<Rightarrow>
     (raw_decision \<times> rat) result \<times> looped" where
  "runtime_model x answer loads max_tokens g task controls s =
    (let (built, log', d) = build x (here g) (draw g 0) (tk_conversation task) (tk_owner_role task)
           \<lparr>bq_mode = ''task'', bq_question = None, bq_task = Some (tk_id task), bq_instruction = None,
            bq_output = max_tokens, bq_exact = True\<rparr> True (snd (fst s), snd s) in
     and_next (built, ((fst (fst s), log'), d)) (\<lambda>p s.
     let prompt = (''system'', agent_protocol) # px_messages p @ (if controls = [] then [] else
           [(''system'', ''Pending controls:'' @ [char_of (10 :: nat)] @ xe_json x (pending_json controls))]) in
     and_next (answer (tk_owner_role task) prompt (px_tokens p) s) (\<lambda>response s.
     case response_content response of
       None \<Rightarrow> (Err (Runtime_Error ''runtime returned no agent decision content''), s)
     | Some content \<Rightarrow> and_next (parse_decision loads (en_policy g) (Raw content), s)
         (\<lambda>dn s. (Ok (Parsed dn, pressure p), s)))))"

end
