(* ===== verification/Runner.thy ===== *)
theory Runner
  imports Agent_Loop Context_Epochs
begin

section \<open>Task runs\<close>

text \<open>
  \<^verbatim>\<open>src/tars/runner.py\<close> and \<^verbatim>\<open>src/tars/context_engine.py\<close>.  A run is one reasoning epoch of a
  task: it is queued, runs under the task's execution lease, streams one answer of the model and
  promotes it into the conversation, or is paused, cancelled or failed.  The stream is the list of
  its events, each with what other processes commit before the next; an event may be an
  exception of the stream or of \<^verbatim>\<open>on_stream\<close>.
\<close>

subsection \<open>Runs\<close>

definition run_open :: "run_state \<Rightarrow> bool" where
  "run_open s = (s \<in> {Run_Queued, Run_Running, Run_Paused})"

definition task_run_state_name :: "run_state \<Rightarrow> string" where
  "task_run_state_name s = (case s of Run_Queued \<Rightarrow> ''queued'' | Run_Running \<Rightarrow> ''running''
     | Run_Paused \<Rightarrow> ''paused'' | Run_Completed \<Rightarrow> ''completed'' | Run_Failed \<Rightarrow> ''failed''
     | Run_Cancelled \<Rightarrow> ''cancelled'')"

definition load_task_run :: "db \<Rightarrow> ident \<Rightarrow> task_run_row result" where
  "load_task_run d rid = (case find_run d rid of
     None \<Rightarrow> Err (Key_Error ''unknown run'') | Some r \<Rightarrow> Ok r)"

definition list_task_runs :: "ident option \<Rightarrow> nat \<Rightarrow> db \<Rightarrow> task_run_row list" where
  "list_task_runs tid limit d = take limit (sort_key (\<lambda>r. - tr_created_at r)
     (filter (\<lambda>r. \<not> stated tid \<or> Some (tr_task r) = tid) (task_runs d)))"

definition active_run :: "ident \<Rightarrow> db \<Rightarrow> task_run_row option" where
  "active_run tid d = select_first (\<lambda>r. - tr_created_at r)
     (\<lambda>r. tr_task r = tid \<and> run_open (tr_state r)) (task_runs d)"

subsection \<open>Creating a run\<close>

text \<open>An open run that is found: it lost its owner when it was running, and refuses a new one otherwise\<close>

definition fail_lost_run :: "env \<Rightarrow> task_run_row option \<Rightarrow> db \<Rightarrow> db result" where
  "fail_lost_run e existing d = (case existing of
     None \<Rightarrow> Ok d
   | Some x \<Rightarrow>
       raise_if (tr_state x \<noteq> Run_Running) (Runtime_Error ''task already has an active run'')
       (update_task_runs (\<lambda>r. tr_id r = tr_id x \<and> tr_state r = Run_Running)
         (\<lambda>r. r\<lparr>tr_state := Run_Failed, tr_finished_at := Some (now e),
            tr_finish_reason := Some ''owner-lost'',
            tr_error := Some ''previous execution outcome is ambiguous''\<rparr>) d))"

text \<open>The selected open run is the first by rowid; there is at most one.\<close>

definition create_run_in_transaction ::
    "env \<Rightarrow> owner \<Rightarrow> ident \<Rightarrow> ident \<Rightarrow> ident \<Rightarrow> db \<Rightarrow> ((task_run_row \<times> task_row) \<times> db) result" where
  "create_run_in_transaction e ow rid tid conv d = (case find_task d tid of
     None \<Rightarrow> Err (Key_Error ''unknown task'')
   | Some current \<Rightarrow>
       raise_if (terminal_task_state (tk_state current)) (Runtime_Error ''task is terminal'')
      (raise_if (\<not> conversation_exists d conv) (Key_Error ''unknown conversation'')
      (raise_if (tk_conversation current \<notin> {None, Some conv})
        (Runtime_Error ''run conversation does not match task provenance'')
      (let existing = find (\<lambda>r. tr_task r = tid \<and> run_open (tr_state r)) (task_runs d);
           borrowed = (case find_lease d (Task_Execution, tid) of None \<Rightarrow> False
             | Some l \<Rightarrow> ls_token l = ow_token ow \<and> now e < ls_expires_at l);
           (claimed, d1) = (if borrowed then (True, d) else claim_in_transaction e (Task_Execution, tid) ow
             (seconds 30) [(''operation'', JStr ''create-run'')] d);
           unclaim = (\<lambda>d. if borrowed then d else drop_lease Task_Execution tid (ow_token ow) d) in
       raise_if (\<not> claimed) (Runtime_Error ''task already has a live execution owner'')
      (and_then (require_task_write_in_transaction e (Some ow) False [Ch_Conversation (Some conv)] tid d1) (\<lambda>_.
       and_then (if tk_conversation current = None
         then update_task_row tid (\<lambda>t. t\<lparr>tk_conversation := Some conv, tk_updated_at := now e\<rparr>) d1
         else Ok d1) (\<lambda>d2.
       and_then (fail_lost_run e existing d2) (\<lambda>d3.
       let row = \<lparr>tr_id = rid, tr_task = tid, tr_conversation = Some conv,
             tr_role = tk_owner_role current, tr_state = Run_Queued, tr_control_request = [],
             tr_epoch = tk_epoch current, tr_created_at = now e, tr_started_at = None,
             tr_heartbeat_at = None, tr_finished_at = None, tr_finish_reason = None, tr_error = None,
             tr_output_message = None, tr_metadata = []\<rparr> in
       and_then (insert_task_run row (unclaim d3)) (\<lambda>d4. Ok ((row, current), d4))))))))))"

text \<open>The conversation of the run: the one given, the task's, the active one or a new one\<close>

definition run_conversation :: "engine \<Rightarrow> ident option \<Rightarrow> task_row \<Rightarrow> db \<Rightarrow> ident result \<times> db" where
  "run_conversation g chosen task d = (case (chosen, tk_conversation task) of
     (Some c, _) \<Rightarrow> (Ok c, d)
   | (None, Some c) \<Rightarrow> (Ok c, d)
   | (None, None) \<Rightarrow> (case active_conversation d of
       Some c \<Rightarrow> (Ok (cv_id c), d)
     | None \<Rightarrow> and_next (create_conversation (here g) (draw g 0) (''Task '' @ tk_id task) ''task-runner'' []
         False d) (\<lambda>c d. (Ok (cv_id c), d))))"

definition create_run :: "engine \<Rightarrow> ident option \<Rightarrow> ident \<Rightarrow> db \<Rightarrow> task_run_row result \<times> db" where
  "create_run g chosen tid d =
     and_next (load_task d tid, d) (\<lambda>task d.
     if terminal_task_state (tk_state task) then (Err (Runtime_Error ''task is terminal''), d) else
     and_next (run_conversation (sub 0 g) chosen task d) (\<lambda>conv d.
     and_next (transact (create_run_in_transaction (here (sub 1 g)) (or_else (en_ambient g) (en_owner g))
       (draw (sub 1 g) 0) tid conv) d) (\<lambda>(row, current) d.
     and_next (emit (sub 2 g) tid ''status'' (''Runner queued '' @ tr_id row) (tk_owner_role current)
       [(''run_id'', JStr (tr_id row)), (''state'', JStr ''queued'')] ''verbose'' d) (\<lambda>_ d. (Ok row, d)))))"

subsection \<open>Changing a run\<close>

definition set_run :: "env \<Rightarrow> ident \<Rightarrow> (task_run_row \<Rightarrow> task_run_row) \<Rightarrow> db \<Rightarrow> task_run_row result \<times> db" where
  "set_run e rid f d =
     and_next (transact (\<lambda>d. and_then (update_task_runs (\<lambda>r. tr_id r = rid)
       (\<lambda>r. (f r)\<lparr>tr_heartbeat_at := Some (now e)\<rparr>) d) (\<lambda>d'. Ok ((), d'))) d)
     (\<lambda>_ d. (load_task_run d rid, d))"

definition pending_control :: "ident \<Rightarrow> db \<Rightarrow> string result" where
  "pending_control rid d = and_then (load_task_run d rid) (\<lambda>r. Ok (tr_control_request r))"

definition request_task_state :: "engine \<Rightarrow> task_state \<Rightarrow> string \<Rightarrow> ident \<Rightarrow> db \<Rightarrow> task_row result \<times> db" where
  "request_task_state g state phase tid d =
     change_task g (no_update\<lparr>up_state := Some state, up_phase := Some phase\<rparr>) tid d"

definition without_run :: "'a result \<times> 's \<Rightarrow> task_run_row option result \<times> 's" where
  "without_run r = and_next r (\<lambda>_ s. (Ok None, s))"

text \<open>\<open>local\<close> is the agent loop of this process, for \<^verbatim>\<open>submit_task_control\<close>.\<close>

definition request_control ::
    "engine \<Rightarrow> (bool \<times> active_tool option) option \<Rightarrow> bool \<Rightarrow> ident \<Rightarrow> string \<Rightarrow> looped \<Rightarrow>
     task_run_row option result \<times> looped" where
  "request_control g local starts tid kind s =
    (let action = casefold (strip kind); d = snd s;
         execution = active_metadata (here g) (Task_Execution, tid) d;
         engine_name = (case execution of None \<Rightarrow> JNull | Some m \<Rightarrow> get m ''engine'');
         run = active_run tid d;
         loaded = (\<lambda>rid s. (map_sum id Some (load_task_run (snd s) rid), s)) in
     if action \<notin> {''pause'', ''resume'', ''cancel''}
     then (Err (Value_Error ''control action must be pause, resume or cancel''), s)
     else if execution \<noteq> None \<and> \<not> truthy engine_name
     then (Err (Runtime_Error ''live execution engine is not identifiable''), s)
     else if truthy engine_name \<and> engine_name \<noteq> JStr ''reasoning-epoch''
     then without_run (submit_task_control (sub 0 g) local starts tid action [] None [] s)
     else if engine_name = JStr ''reasoning-epoch'' \<and> map_option tr_state run \<noteq> Some Run_Running
     then (Err (Runtime_Error ''reasoning executor without a matching running run''), s)
     else (case run of
       None \<Rightarrow> without_run (on_db (if action = ''pause'' then request_task_state (sub 1 g) T_Paused ''paused'' tid
           else if action = ''resume'' then request_task_state (sub 1 g) T_Pending ''resume-requested'' tid
           else request_task_state (sub 1 g) T_Cancelled ''cancelled'' tid) s)
     | Some r \<Rightarrow>
         if action = ''resume'' then
           if tr_state r = Run_Paused then
             and_next (on_db (set_run (here (sub 2 g)) (tr_id r) (\<lambda>x. x\<lparr>tr_state := Run_Completed,
               tr_control_request := [], tr_finished_at := Some (or_else (tr_finished_at r) (now (here (sub 2 g)))),
               tr_finish_reason := Some (given_text (tr_finish_reason r) ''paused'')\<rparr>)) s) (\<lambda>_ s.
             and_next (on_db (request_task_state (sub 3 g) T_Pending ''resume-requested'' tid) s) (\<lambda>_ s.
             and_next (on_db (emit (sub 4 g) tid ''status'' ''Resume requested; task is ready for a new runner epoch''
               (tr_role r) [(''previous_run_id'', JStr (tr_id r))] ''normal'') s) (\<lambda>_ s. loaded (tr_id r) s)))
           else (Err (Runtime_Error ''task already has a run''), s)
         else
           and_next (on_db (set_run (here (sub 5 g)) (tr_id r) (\<lambda>x. x\<lparr>tr_control_request := action\<rparr>)) s) (\<lambda>_ s.
           and_next (on_db (emit (sub 6 g) tid ''status'' (action @ '' requested; will apply at the next safe boundary'')
             (tr_role r) [(''run_id'', JStr (tr_id r)), (''control_request'', JStr action)] ''normal'') s) (\<lambda>_ s.
           loaded (tr_id r) s))))"

definition apply_boundary_control :: "engine \<Rightarrow> task_run_row \<Rightarrow> db \<Rightarrow> task_run_row result \<times> db" where
  "apply_boundary_control g run d =
     and_next (pending_control (tr_id run) d, d) (\<lambda>request d.
     let halt = (\<lambda>rs ts reason note.
       and_next (set_run (here (sub 0 g)) (tr_id run) (\<lambda>x. x\<lparr>tr_state := rs, tr_control_request := [],
         tr_finished_at := Some (now (here (sub 0 g))), tr_finish_reason := Some reason\<rparr>) d) (\<lambda>_ d.
       and_next (request_task_state (sub 1 g) ts reason (tr_task run) d) (\<lambda>_ d.
       and_next (emit (sub 2 g) (tr_task run) ''status'' note (tr_role run) [] ''normal'' d) (\<lambda>_ d.
       (load_task_run d (tr_id run), d))))) in
     if request = ''cancel'' then halt Run_Cancelled T_Cancelled ''cancelled'' ''Task cancelled at safe boundary''
     else if request = ''pause'' then halt Run_Paused T_Paused ''paused'' ''Task paused at safe boundary''
     else (Ok run, d))"

subsection \<open>Streaming\<close>

record chunk =
  ck_content :: string
  ck_reasoning :: string
  ck_finish :: "string option"
  ck_usage :: json

datatype stream_event = Chunk chunk | Stream_Raises error

type_synonym stream = "(stream_event \<times> (projected \<Rightarrow> projected)) list"

record heard =
  hd_content :: string
  hd_reasoning :: string
  hd_finish :: "string option"
  hd_usage :: json

definition hear :: "chunk \<Rightarrow> heard \<Rightarrow> heard" where
  "hear c h = \<lparr>hd_content = hd_content h @ ck_content c, hd_reasoning = hd_reasoning h @ ck_reasoning c,
     hd_finish = (if ck_finish c = None then hd_finish h else ck_finish c),
     hd_usage = (if truthy (ck_usage c) then ck_usage c else hd_usage h)\<rparr>"

fun listen :: "engine \<Rightarrow> ident \<Rightarrow> heard \<Rightarrow> stream \<Rightarrow> projected \<Rightarrow> heard result \<times> projected" where
  "listen g rid h [] s = (Ok h, s)"
| "listen g rid h ((Stream_Raises err, others) # events) s = (Err err, others s)"
| "listen g rid h ((Chunk c, others) # events) s =
     and_next (on_db (set_run (here g) rid id) s) (\<lambda>_ s. listen (sub 0 g) rid (hear c h) events (others s))"

subsection \<open>One reasoning epoch\<close>

record epoch_outcome =
  eo_run :: task_run_row
  eo_content :: string
  eo_reasoning :: string
  eo_finish :: "string option"
  eo_projection :: "projection option"
  eo_checkpoint :: "checkpoint_row option"

definition or_json :: "(string \<Rightarrow> json) \<Rightarrow> string option \<Rightarrow> json" where
  "or_json f x = (case x of None \<Rightarrow> JNull | Some s \<Rightarrow> f s)"

text \<open>The cancellation that arrived while the answer was streamed\<close>

definition discard_output ::
    "engine \<Rightarrow> task_row \<Rightarrow> ident \<Rightarrow> projection \<Rightarrow> string \<Rightarrow> string \<Rightarrow> db \<Rightarrow> epoch_outcome result \<times> db" where
  "discard_output g task rid p final reasoning d =
     and_next (set_run (here (sub 0 g)) rid (\<lambda>x. x\<lparr>tr_state := Run_Cancelled, tr_control_request := [],
       tr_finished_at := Some (now (here (sub 0 g))), tr_finish_reason := Some ''cancelled-at-boundary'',
       tr_metadata := [(''discarded_output_chars'', JInt (int (length final))),
         (''reasoning_chars'', JInt (int (length reasoning)))]\<rparr>) d) (\<lambda>_ d.
     and_next (request_task_state (sub 1 g) T_Cancelled ''cancelled'' (tk_id task) d) (\<lambda>_ d.
     and_next (emit (sub 2 g) (tk_id task) ''status''
       ''Cancellation applied at inference boundary; generated output was not promoted''
       (tk_owner_role task) [(''run_id'', JStr rid)] ''normal'' d) (\<lambda>_ d.
     and_next (load_task_run d rid, d) (\<lambda>run d.
     (Ok \<lparr>eo_run = run, eo_content = [], eo_reasoning = reasoning,
        eo_finish = Some ''cancelled-at-boundary'', eo_projection = Some p, eo_checkpoint = None\<rparr>, d)))))"

text \<open>Promoting the answer: the message, the event, a checkpoint that advances the epoch, and the end
  of the run\<close>

definition promote_output ::
    "engine \<Rightarrow> task_row \<Rightarrow> task_run_row \<Rightarrow> projection \<Rightarrow> heard \<Rightarrow> string \<Rightarrow> db \<Rightarrow> epoch_outcome result \<times> db" where
  "promote_output g task run p h final d =
     and_next (say (sub 0 g) (or_else (tr_conversation run) []) \<lparr>nm_role = ''assistant'', nm_content = final,
       nm_kind = ''task-run'', nm_include = True, nm_related_task = Some (tk_id task),
       nm_metadata = [(''role_id'', JStr (tk_owner_role task)), (''run_id'', JStr (tr_id run)),
         (''context_projection_id'', JStr (px_id p)), (''finish_reason'', or_json JStr (hd_finish h)),
         (''prompt_tokens'', JInt (px_tokens p)), (''prompt_tokens_exact'', JBool (px_exact p))],
       nm_session = None\<rparr> d) (\<lambda>message d.
     and_next (emit (sub 1 g) (tk_id task) ''result'' final (tk_owner_role task)
       [(''run_id'', JStr (tr_id run)), (''epoch'', JInt (tk_epoch task)),
        (''finish_reason'', or_json JStr (hd_finish h)),
        (''reasoning_chars'', JInt (int (length (hd_reasoning h)))),
        (''usage'', json_or (hd_usage h) (JObj []))] ''normal'' d) (\<lambda>_ d.
     and_next (canonical_task_state d (tk_id task), d) (\<lambda>state d.
     and_next (write_checkpoint (sub 2 g) (tk_id task) (AList.update ''last_runner_result''
         (JObj [(''run_id'', JStr (tr_id run)), (''message_id'', JStr (ms_id message)),
           (''finish_reason'', or_json JStr (hd_finish h))]) state)
       (''runner epoch '' @ dec (nat (tk_epoch task)) @ '' complete'') (tk_evidence_refs task) True d) (\<lambda>cp d.
     and_next (request_task_state (sub 3 g) T_Paused ''epoch-complete'' (tk_id task) d) (\<lambda>_ d.
     and_next (set_run (here (sub 4 g)) (tr_id run) (\<lambda>x. x\<lparr>tr_state := Run_Completed, tr_control_request := [],
       tr_finished_at := Some (now (here (sub 4 g))),
       tr_finish_reason := Some (given_text (hd_finish h) ''stop''), tr_output_message := Some (ms_id message),
       tr_metadata := [(''reasoning_chars'', JInt (int (length (hd_reasoning h)))),
         (''usage'', json_or (hd_usage h) (JObj []))]\<rparr>) d) (\<lambda>run d.
     (Ok \<lparr>eo_run = run, eo_content = final, eo_reasoning = hd_reasoning h, eo_finish = hd_finish h,
        eo_projection = Some p, eo_checkpoint = Some cp\<rparr>, d)))))))"

definition final_text :: "heard \<Rightarrow> string" where
  "final_text h = (if hd_content h \<noteq> [] then hd_content h
     else ''[no final content '' @ [CHR 0xB7] @ '' '' @ given_text (hd_finish h) ''unknown'' @ '']'')"

definition conclude_stream ::
    "engine \<Rightarrow> task_row \<Rightarrow> task_run_row \<Rightarrow> projection \<Rightarrow> heard \<Rightarrow> db \<Rightarrow> epoch_outcome result \<times> db" where
  "conclude_stream g task run p h d =
    (if hd_finish h = Some ''length'' \<and> hd_content h = []
     then (Err (Runtime_Error ''generation exhausted its ceiling before final content''), d) else
     and_next (pending_control (tr_id run) d, d) (\<lambda>request d.
     if request = ''cancel'' then discard_output (sub 0 g) task (tr_id run) p (final_text h) (hd_reasoning h) d
     else promote_output (sub 1 g) task run p h (final_text h) d))"

text \<open>\<^verbatim>\<open>except Exception\<close>: the run and the task fail, and the error is raised again.\<close>

definition fail_epoch ::
    "engine \<Rightarrow> task_row \<Rightarrow> ident \<Rightarrow> error \<Rightarrow> db \<Rightarrow> 'a result \<times> db" where
  "fail_epoch g task rid err d =
     and_next (set_run (here (sub 0 g)) rid (\<lambda>x. x\<lparr>tr_state := Run_Failed,
       tr_finished_at := Some (now (here (sub 0 g))), tr_error := Some (error_text err),
       tr_finish_reason := Some ''error''\<rparr>) d) (\<lambda>_ d.
     and_next (change_task (sub 1 g) (no_update\<lparr>up_state := Some T_Failed, up_phase := Some ''runner-error'',
       up_failures := Some (tk_failures task @ [error_text err])\<rparr>) (tk_id task) d) (\<lambda>_ d.
     and_next (emit (sub 2 g) (tk_id task) ''error'' (error_text err) (tk_owner_role task)
       [(''run_id'', JStr rid)] ''quiet'' d) (\<lambda>_ d. (Err err, d))))"

definition start_run_epoch :: "projector \<Rightarrow> engine \<Rightarrow> ident \<Rightarrow> db \<Rightarrow> (task_row \<times> task_run_row) result \<times> db" where
  "start_run_epoch x g rid d =
     and_next (load_task_run d rid, d) (\<lambda>run d.
     and_next (load_task d (tr_task run), d) (\<lambda>task d.
     and_next (role_of (xe_roles x) (tk_owner_role task), d) (\<lambda>role d.
     if tr_state run \<notin> {Run_Queued, Run_Paused} then (Err (Runtime_Error ''run cannot start''), d) else
     and_next (set_run (here (sub 0 g)) rid (\<lambda>r. r\<lparr>tr_state := Run_Running, tr_control_request := [],
       tr_started_at := Some (or_else (tr_started_at run) (now (here (sub 0 g)))), tr_finished_at := None,
       tr_finish_reason := None, tr_error := None\<rparr>) d) (\<lambda>run d.
     and_next (request_task_state (sub 1 g) T_Running ''reasoning-epoch'' (tk_id task) d) (\<lambda>_ d.
     and_next (emit (sub 2 g) (tk_id task) ''progress'' (rl_display_name (rc_info role) @ '' reasoning epoch '' @
         dec (nat (tk_epoch task)) @ '' started'') (tk_owner_role task)
       [(''run_id'', JStr rid), (''epoch'', JInt (tk_epoch task))] ''normal'' d) (\<lambda>_ d.
     (Ok (task, run), d)))))))"

text \<open>\<^verbatim>\<open>_run_task_epoch\<close>; \<open>others\<close> is what other processes commit before the boundary check, \<open>answer\<close>
  the stream for the prompt.\<close>

definition run_epoch ::
    "projector \<Rightarrow> (projection \<Rightarrow> stream) \<Rightarrow> (db \<Rightarrow> db) \<Rightarrow> int option \<Rightarrow> engine \<Rightarrow> ident \<Rightarrow> projected \<Rightarrow>
     epoch_outcome result \<times> projected" where
  "run_epoch x answer others max_tokens g rid s =
     and_next (on_db (start_run_epoch x (sub 0 g) rid) s) (\<lambda>(task, run) s.
     and_next (on_db (\<lambda>d. let d = others d in and_next (load_task_run d rid, d) (apply_boundary_control (sub 1 g))) s)
       (\<lambda>controlled s.
     if tr_state controlled \<in> {Run_Paused, Run_Cancelled}
     then (Ok \<lparr>eo_run = controlled, eo_content = [], eo_reasoning = [], eo_finish = tr_finish_reason controlled,
       eo_projection = None, eo_checkpoint = None\<rparr>, s) else
     and_next (build x (here (sub 2 g)) (draw (sub 2 g) 0) (tr_conversation run) (tk_owner_role task)
       \<lparr>bq_mode = ''task'', bq_question = None, bq_task = Some (tk_id task), bq_instruction = None,
        bq_output = max_tokens, bq_exact = True\<rparr> True s) (\<lambda>p s.
     let r = and_next (listen (sub 3 g) rid
           \<lparr>hd_content = [], hd_reasoning = [], hd_finish = None, hd_usage = JNull\<rparr> (answer p) s)
           (\<lambda>h s. on_db (conclude_stream (sub 4 g) task run p h) s) in
     case fst r of Inr out \<Rightarrow> r | Inl err \<Rightarrow> on_db (fail_epoch (sub 5 g) task rid err) (snd r))))"

definition lose_run :: "engine \<Rightarrow> task_run_row \<Rightarrow> db \<Rightarrow> 'a result \<times> db" where
  "lose_run g run d =
     and_next (set_run (here (sub 0 g)) (tr_id run) (\<lambda>x. x\<lparr>tr_state := Run_Failed,
       tr_finished_at := Some (now (here (sub 0 g))), tr_finish_reason := Some ''owner-lost'',
       tr_error := Some ''previous execution outcome is ambiguous''\<rparr>) d) (\<lambda>_ d.
     and_next (request_task_state (sub 1 g) T_Failed ''execution-owner-lost'' (tr_task run) d) (\<lambda>_ d.
     (Err (Runtime_Error ''run lost its previous owner; automatic replay is unsafe''), d)))"

text \<open>Inside the scope the ambient owner is the owner of the scope.\<close>

definition run_task_epoch ::
    "projector \<Rightarrow> (projection \<Rightarrow> stream) \<Rightarrow> (db \<Rightarrow> db) \<Rightarrow> int option \<Rightarrow> engine \<Rightarrow> ident \<Rightarrow> projected \<Rightarrow>
     epoch_outcome result \<times> projected" where
  "run_task_epoch x answer others max_tokens g rid s =
     and_next (on_db (\<lambda>d. (load_task_run d rid, d)) s) (\<lambda>run s.
     let ow = or_else (en_ambient g) (en_owner g);
         g' = g\<lparr>en_owner := ow, en_ambient := Some ow\<rparr> in
     in_execution_scope (sub 0 g') (en_ambient g)
       [(''engine'', JStr ''reasoning-epoch''), (''run_id'', JStr (tr_id run))] (tr_task run) (\<lambda>s.
         and_next (on_db (\<lambda>d. (load_task_run d rid, d)) s) (\<lambda>run s.
         if tr_state run = Run_Running then on_db (lose_run (sub 1 g') run) s
         else run_epoch x answer others max_tokens (sub 2 g') rid s)) s)"

subsection \<open>Watching the pressure\<close>

record watermarks =
  wm_soft :: rat
  wm_hard :: rat
  wm_emergency :: rat

definition pressure_level :: "watermarks \<Rightarrow> projection \<Rightarrow> string result" where
  "pressure_level w p =
     raise_if (\<not> (0 < wm_soft w \<and> wm_soft w < wm_hard w \<and> wm_hard w < wm_emergency w \<and> wm_emergency w \<le> 1))
       (Value_Error ''context watermarks must satisfy 0 < soft < hard < emergency <= 1'')
     (Ok (if wm_emergency w \<le> pressure p then ''emergency'' else if wm_hard w \<le> pressure p then ''hard''
        else if wm_soft w \<le> pressure p then ''soft'' else ''normal''))"

definition prepare_context ::
    "projector \<Rightarrow> watermarks \<Rightarrow> engine \<Rightarrow> ident \<Rightarrow> string \<Rightarrow> ident option \<Rightarrow> bool \<Rightarrow> int option \<Rightarrow> bool \<Rightarrow>
     projected \<Rightarrow> (projection \<times> string \<times> epoch_row option) result \<times> projected" where
  "prepare_context x w g conv role_name task exact requested auto s =
    (let project = (\<lambda>g mode. build x (here g) (draw g 0) (Some conv) role_name \<lparr>bq_mode = mode, bq_question = None,
           bq_task = task, bq_instruction = None, bq_output = requested, bq_exact = exact\<rparr> True) in
     and_next (project (sub 0 g) (if stated task then ''task'' else ''main'') s) (\<lambda>p s.
     and_next (pressure_level w p, s) (\<lambda>level s.
     if \<not> (auto \<and> stated task \<and> level \<in> {''hard'', ''emergency''}) then (Ok (p, level, None), s) else
     and_next (on_db (rollover (here (sub 1 g)) (en_digest g) (en_ambient g) (draw (sub 1 g))
       (''context '' @ level @ '' watermark'') (the task)) s) (\<lambda>epoch s.
     and_next (project (sub 2 g) ''task'' s) (\<lambda>p' s.
     and_next (pressure_level w p', s) (\<lambda>level' s. (Ok (p', level', Some epoch), s)))))))"

end
