(* ===== verification/Agent_Safety.thy ===== *)
theory Agent_Safety
  imports Agent_Loop Conversations_Safety Approvals_Safety
begin

section \<open>What the agent loop guarantees\<close>

text \<open>
  The theorems about \<open>Agent_Controls\<close> and \<open>Agent_Loop\<close>.  Applying controls ends when no control
  can be claimed or one stops the task, within as many turns as controls were pending.  Whatever
  the model and the tools do, a run that returns leaves the task in the state it reports, after at
  most its number of iterations and within its guards, and reports completion only when the
  completion contract holds of the evidence in the store.  The last part is one Hoare-style
  argument: \<open>turn_post\<close> with a rule for each form the turns are written in.
\<close>

subsection \<open>Tables the loop's own steps leave alone\<close>

text \<open>The runs up to the conversation, which a trigger fills in when their task is attached to one\<close>

abbreviation runs_of :: "db \<Rightarrow> task_run_row list" where
  "runs_of d \<equiv> map (\<lambda>r. r\<lparr>tr_conversation := None\<rparr>) (task_runs d)"

definition side :: "db \<Rightarrow> control_row list \<times> evidence_row list \<times> task_run_row list" where
  "side d = (task_controls d, evidence_records d, runs_of d)"

lemmas side_next = and_next_keeps [of "\<lambda>s. side s = S" for S]

lemmas side_transact = transact_keeps [of "\<lambda>s. side s = S" for S]

lemma side_event [simp]: "side (snd (append_event t uuid tid etype message role payload visibility d)) = side d"
  by (auto simp: append_event_def transact_def raise_if_def and_then_def insert_task_event_row_def
      admit_def Let_def side_def split: sum.splits option.splits)

lemma side_update_task_row: "update_task_row tid f d = Ok d' \<Longrightarrow> side d' = side d"
  by (auto simp: update_task_row_def tasks_conversation_propagate_def and_then_eq_Ok side_def
      update_rows_eq_Ok map_update_where split: option.splits)

lemma side_create_in_transaction:
  "create_checkpoint_in_transaction e dg ow cid tid state reason refs advance d = Ok (r, d') \<Longrightarrow> side d' = side d"
  by (auto simp: create_checkpoint_in_transaction_def Let_def and_then_eq_Ok insert_checkpoint_def side_def
      split: if_splits dest!: side_update_task_row [unfolded side_def])

lemma side_create_checkpoint [simp]:
  "side (snd (create_checkpoint e dg ow cid uuid tid state reason refs advance d)) = side d"
  unfolding create_checkpoint_def
  by (intro side_next side_transact) (auto dest: side_create_in_transaction)

lemma side_write_task_values: "write_task_values e sel vs tid d = Ok (x, d') \<Longrightarrow> side d' = side d"
  by (auto simp: write_task_values_def and_then_eq_Ok dest: side_update_task_row)

lemma side_update_task [simp]: "side (snd (update_task e ids rr dg ambient ow u cp tid d)) = side d"
  unfolding update_task_def
  by (intro side_next)
    (auto intro!: side_next side_transact dest: side_write_task_values split: option.split)

lemma side_add_message [simp]: "side (snd (add_message e mid uuid conv m d)) = side d"
  unfolding add_message_def
  by (intro side_transact)
    (auto simp: add_message_in_transaction_def Let_def and_then_eq_Ok insert_message_def side_def
      update_conversations_def split: if_splits dest!: insert_state_event_Ok)

text \<open>Deciding an approval touches approvals, rules and the state log only.\<close>

lemma decide_others:
  assumes "decide_in_transaction pe rid uuid a approve reason d = Ok (x, d')"
  shows "side d' = side d"
proof -
  have rule: "persistent_rule pe rid a reason s = Ok (y, s') \<Longrightarrow> side s' = side s" for s y s'
    by (auto simp: persistent_rule_def and_then_eq_Ok side_def dest!: add_rule_Ok split: if_splits)
  have maybe: "(if b then and_then (persistent_rule pe rid a reason s) (\<lambda>(_, d2). Ok d2) else Ok s) = Ok s' \<Longrightarrow>
      side s' = side s" for b s s'
    by (cases b) (auto simp: and_then_eq_Ok dest: rule)
  from assms show ?thesis
    unfolding decide_in_transaction_def Let_def
    by (elim and_thenE) (auto simp: side_def update_approvals_def and_then_eq_Ok
        dest!: maybe [unfolded side_def] insert_state_event_Ok)
qed

lemma side_expire_approvals [simp]: "side (snd (expire_approvals pe d)) = side d"
  unfolding expire_approvals_def
  by (intro side_transact) (auto simp: and_then_eq_Ok update_approvals_def side_def)

lemma side_load_approval [simp]: "side (snd (load_approval pe aid d)) = side d"
  unfolding load_approval_def by (intro side_next) simp_all

lemma side_decide_approval [simp]:
  "side (snd (decide_approval pe rid uuid aid approve reason task session d)) = side d"
  unfolding decide_approval_def
  by (intro side_next) (auto intro!: side_next side_transact dest: decide_others)

subsection \<open>Applying controls ends\<close>

lemma count_where_update_less:
  assumes "r \<in> set t" "P r" "Q r" and "\<And>x. x \<in> set t \<Longrightarrow> Q x \<Longrightarrow> \<not> P (f x)"
  shows "count_where P (update_where Q f t) < count_where P t"
  using assms
proof (induction t)
  case (Cons x xs)
  have le: "count_where P (update_where Q f xs) \<le> count_where P xs"
    by (rule count_where_update_le) (use Cons.prems in auto)
  from Cons le show ?case
    by (cases "r = x") (auto simp: less_Suc_eq_le)
qed simp

lemma pending_side: "side d' = side d \<Longrightarrow> pending_controls tid d' = pending_controls tid d"
  by (simp add: pending_controls_def side_def)

lemma claim_next_takes:
  assumes "claim_next e ow lease tid d = (Ok (Some c), d')"
  shows "pending_controls tid d' < pending_controls tid d" and "evidence_records d' = evidence_records d"
proof -
  let ?Q = "\<lambda>c. ct_task c = tid \<and> ct_state c = C_Pending"
  from assms obtain c0 where c0: "select_first control_order ?Q (task_controls d) = Some c0"
    by (cases "select_first control_order ?Q (task_controls d)") (auto simp: claim_next_def)
  let ?P = "\<lambda>y. ct_id y = ct_id c0 \<and> ct_state y = C_Pending"
  let ?f = "\<lambda>y :: control_row. y\<lparr>ct_state := C_Processing\<rparr>"
  obtain b d1 where cl: "claim_in_transaction e (Task_Control, ct_id c0) ow lease [(''task_id'', JStr tid)] d = (b, d1)"
    by fastforce
  from claim_frame [of e "(Task_Control, ct_id c0)" ow lease "[(''task_id'', JStr tid)]" d] cl
  have same: "side d1 = side d" by (simp add: side_def) (metis db.select_convs db.surjective db.update_convs)
  from assms [unfolded claim_next_def] obtain d2 where d2: "update_controls ?P ?f d1 = Ok d2" "d' = d2"
    by (auto simp: transact_eq_Ok c0 cl Let_def and_then_eq_Ok split: if_splits)
  then have tables: "task_controls d' = update_where ?P ?f (task_controls d)"
    "evidence_records d' = evidence_records d"
    using same by (auto simp: update_controls_def and_then_eq_Ok update_rows_eq_Ok side_def)
  from select_first_SomeD [OF c0] have "c0 \<in> set (task_controls d)" "?Q c0" by auto
  then show "pending_controls tid d' < pending_controls tid d"
    unfolding pending_controls_def tables by (intro count_where_update_less [of c0]) auto
  show "evidence_records d' = evidence_records d" by fact
qed

lemma drop_lease_others [simp]:
  "task_controls (drop_lease t k w d) = task_controls d" "evidence_records (drop_lease t k w d) = evidence_records d"
  "tasks (drop_lease t k w d) = tasks d"
  by (simp_all add: drop_lease_def)

lemma finish_others:
  shows "pending_controls tid (snd (finish e uuid ow success payload cid d)) \<le> pending_controls tid d"
    and "evidence_records (snd (finish e uuid ow success payload cid d)) = evidence_records d"
    and "tasks (snd (finish e uuid ow success payload cid d)) = tasks d"
proof -
  let ?K = "\<lambda>s. pending_controls tid s \<le> pending_controls tid d \<and> evidence_records s = evidence_records d \<and>
    tasks s = tasks d"
  have "?K (snd (finish e uuid ow success payload cid d))"
  proof (cases "list_ex (\<lambda>(k, v). is_cancellation_key k) payload")
    case False
    then show ?thesis
      unfolding finish_def if_not_P [OF False]
    proof (intro transact_keeps [of ?K], goal_cases)
      case (2 c d')
      then obtain f d1 where up: "update_controls (\<lambda>y. ct_id y = cid \<and> ct_state y = C_Processing) f d = Ok d1"
        and f: "\<And>y. ct_state (f y) \<noteq> C_Pending"
        and "task_controls d' = task_controls d1" "evidence_records d' = evidence_records d1" "tasks d' = tasks d1"
        by (auto simp: Let_def and_then_eq_Ok split: option.splits dest!: insert_state_event_Ok
            split: if_splits)
      then show ?case
        by (auto simp: update_controls_def and_then_eq_Ok update_rows_eq_Ok pending_controls_def
            intro!: count_where_update_le)
    qed simp
  qed (simp add: finish_def)
  then show "pending_controls tid (snd (finish e uuid ow success payload cid d)) \<le> pending_controls tid d"
    and "evidence_records (snd (finish e uuid ow success payload cid d)) = evidence_records d"
    and "tasks (snd (finish e uuid ow success payload cid d)) = tasks d" by simp_all
qed

lemma side_change_task [simp]: "side (snd (change_task g u tid d)) = side d"
  by (simp add: change_task_def)

lemma side_emit [simp]: "side (snd (emit g tid etype message role payload visibility d)) = side d"
  by (simp add: emit_def)

lemma side_say [simp]: "side (snd (say g conv m d)) = side d"
  by (simp add: say_def)

lemma side_write_checkpoint [simp]: "side (snd (write_checkpoint g tid state reason refs advance d)) = side d"
  by (simp add: write_checkpoint_def)

lemma side_apply_control [simp]: "side (snd (apply_control g tid c d)) = side d"
  unfolding apply_control_def Let_def
  by (intro side_next) (auto intro!: side_next split: control_kind.split option.split)

lemma settle_control_pending:
  "pending_controls tid (snd (settle_control g tid' c d)) \<le> pending_controls tid d"
  "evidence_records (snd (settle_control g tid' c d)) = evidence_records d"
proof -
  let ?K = "\<lambda>s. pending_controls tid s \<le> pending_controls tid d \<and> evidence_records s = evidence_records d"
  have finish: "?K (snd (finish e uuid ow success payload cid s))" if "?K s" for e uuid ow success payload cid s
    using that finish_others(1) [of tid e uuid ow success payload cid s] finish_others(2) [of e uuid ow success payload cid s] by simp
  have applied: "?K (snd (apply_control (sub 0 g) tid' c d))"
    using pending_side [OF side_apply_control] side_apply_control [of "sub 0 g" tid' c d] by (simp add: side_def)
  obtain r d' where r: "and_next (apply_control (sub 0 g) tid' c d) (\<lambda>stop d.
       and_next (finish (here (sub 1 g)) (draw (sub 1 g) 0) (en_owner g) True
         [(''applied_at_boundary'', JBool True)] (ct_id c) d) (\<lambda>_ d. (Ok stop, d))) = (r, d')" by fastforce
  have "?K (snd (and_next (apply_control (sub 0 g) tid' c d) (\<lambda>stop d.
       and_next (finish (here (sub 1 g)) (draw (sub 1 g) 0) (en_owner g) True
         [(''applied_at_boundary'', JBool True)] (ct_id c) d) (\<lambda>_ d. (Ok stop, d)))))"
    by (intro and_next_keeps [of ?K] applied finish) simp_all
  then have d': "?K d'" by (simp only: r snd_conv)
  then have "?K (snd (settle_control g tid' c d))"
    unfolding settle_control_def r
    by (cases r) (auto intro!: and_next_keeps [of ?K] finish simp del: One_nat_def)
  then show "pending_controls tid (snd (settle_control g tid' c d)) \<le> pending_controls tid d"
    "evidence_records (snd (settle_control g tid' c d)) = evidence_records d" by simp_all
qed

lemma drain_controls_ends:
  assumes "drain_controls left g tid applied d = (Ok (cs, stop, over), d')"
    and "pending_controls tid d < left"
  shows "over \<and> (stop = None \<longrightarrow> (\<exists>g' d0. claim_next (here g') (en_owner g) (seconds 30) tid d0 = (Ok None, d')))"
  using assms
proof (induction left g tid applied d rule: drain_controls.induct)
  case (2 left g tid applied d)
  from 2(2) obtain claimed d1 where cl: "claim_next (here g) (en_owner g) (seconds 30) tid d = (Ok claimed, d1)"
    and rest: "(case claimed of
       None \<Rightarrow> (Ok (applied, None, True), d1)
     | Some c \<Rightarrow> and_next (settle_control (sub 0 g) tid c d1) (\<lambda>stop d.
         if stop = None then drain_controls left (sub 1 g) tid (applied @ [c]) d
         else (Ok (applied @ [c], stop, True), d))) = (Ok (cs, stop, over), d')"
    by (auto elim: and_nextE)
  show ?case
  proof (cases claimed)
    case None
    with rest cl show ?thesis by auto
  next
    case (Some c)
    with rest obtain halt d2 where settle: "settle_control (sub 0 g) tid c d1 = (Ok halt, d2)"
      and more: "(if halt = None then drain_controls left (sub 1 g) tid (applied @ [c]) d2
         else (Ok (applied @ [c], halt, True), d2)) = (Ok (cs, stop, over), d')"
      by (auto elim: and_nextE)
    from claim_next_takes(1) [OF cl [unfolded Some]] settle_control_pending(1) [of tid "sub 0 g" tid c d1] settle 2(3)
    have fewer: "pending_controls tid d2 < left" by simp
    show ?thesis
    proof (cases halt)
      case None
      with more have "drain_controls left (sub 1 g) tid (applied @ [c]) d2 = (Ok (cs, stop, over), d')" by simp
      from 2(1) [OF Some None this fewer] show ?thesis by (simp add: sub_def)
    next
      case (Some st)
      with more show ?thesis by auto
    qed
  qed
qed simp

text \<open>A draining that returned was not stopped by its turns; unless a control stopped the task, its last
  look at the queue found nothing to take.\<close>

definition drained :: "owner \<Rightarrow> ident \<Rightarrow> (control_row list \<times> task_state option \<times> bool) result \<times> db \<Rightarrow> bool" where
  "drained ow tid r = (case r of (Inl _, _) \<Rightarrow> True
     | (Inr (cs, stop, over), d') \<Rightarrow> over \<and>
         (stop = None \<longrightarrow> (\<exists>e d0. claim_next e ow (seconds 30) tid d0 = (Ok None, d'))))"

lemma drain_controls_drained:
  "pending_controls tid d < left \<Longrightarrow> drained (en_owner g) tid (drain_controls left g tid applied d)"
  by (auto simp: drained_def split: prod.splits sum.splits) (metis drain_controls_ends)+

lemma drain_controls_enough:
  assumes "pending_controls tid d < m" and "pending_controls tid d < n"
  shows "drain_controls m g tid applied d = drain_controls n g tid applied d"
  using assms
proof (induction m arbitrary: n g applied d)
  case (Suc m)
  then obtain k where n: "n = Suc k" by (cases n) auto
  have step: "drain_controls m (sub 1 g) tid (applied @ [c]) (snd (settle_control (sub 0 g) tid c d1)) =
      drain_controls k (sub 1 g) tid (applied @ [c]) (snd (settle_control (sub 0 g) tid c d1))"
    if "claim_next (here g) (en_owner g) (seconds 30) tid d = (Ok (Some c), d1)" for c d1
  proof -
    from claim_next_takes(1) [OF that] settle_control_pending(1) [of tid "sub 0 g" tid c d1]
    have "pending_controls tid (snd (settle_control (sub 0 g) tid c d1)) < pending_controls tid d" by simp
    with Suc.prems n show ?thesis by (intro Suc.IH) auto
  qed
  show ?case
  proof (cases "claim_next (here g) (en_owner g) (seconds 30) tid d")
    case (Pair r d1)
    show ?thesis
    proof (cases "\<exists>c. r = Ok (Some c)")
      case True
      with Pair obtain c where cl: "claim_next (here g) (en_owner g) (seconds 30) tid d = (Ok (Some c), d1)" by auto
      show ?thesis
        unfolding n by (cases "settle_control (sub 0 g) tid c d1"; cases "fst (settle_control (sub 0 g) tid c d1)")
          (use step [OF cl] in \<open>simp_all add: cl\<close>)
    next
      case False
      with Pair n show ?thesis by (cases r) (auto split: option.splits)
    qed
  qed
qed simp

subsection \<open>The state a task is left in\<close>

lemma fold_assign_state: "(\<And>x. Ch_State x \<notin> set cs) \<Longrightarrow> tk_state (fold assign_column cs r) = tk_state r"
proof (induction cs arbitrary: r)
  case (Cons c cs)
  then show ?case by (cases c) (auto split: option.splits)
qed simp

lemma collected_state:
  assumes "collect_values rr u = Ok vs" and "up_state u = Some st"
  shows "vs \<noteq> []" and "tk_state (assign_columns (vs @ [Ch_Updated t]) r) = st"
proof -
  have this_one: "given Ch_State (Some st) = [Ch_State st]" by (simp add: given_def)
  have others: "(\<And>z. f z \<noteq> Ch_State x) \<Longrightarrow> Ch_State x \<notin> set (given f y)"
    for f :: "'z \<Rightarrow> task_change" and x y
    by (auto simp: given_def split: option.splits) (metis)
  from assms obtain rest where "vs = Ch_State st # rest" and "\<And>x. Ch_State x \<notin> set rest"
    by (auto simp: collect_values_def and_then_eq_Ok this_one others)
  then show "vs \<noteq> []" and "tk_state (assign_columns (vs @ [Ch_Updated t]) r) = st"
    by (simp_all add: assign_columns_def fold_assign_state)
qed

lemma change_task_state:
  assumes "change_task g u tid d = (Ok t, d')" and "up_state u = Some st"
  shows "task_status d' tid = Some st"
proof -
  let ?e = "here g"
  let ?rest = "\<lambda>d1. and_next (load_task d1 tid, d1) (\<lambda>task d2. and_next (append_event (now ?e) (draw g 2) tid ''status''
        (''Task state updated: '' @ task_state_name (tk_state task)) (Some (tk_owner_role task))
        [(''state'', JStr (task_state_name (tk_state task))), (''phase'', JStr (tk_phase task)),
         (''progress'', opt_json JReal (tk_progress task)), (''epoch'', JInt (tk_epoch task))] ''normal'' d2)
       (\<lambda>_ d3. (Ok task, d3)))"
  have rest: "task_status (snd (?rest d1)) tid = task_status d1 tid" for d1
    by (intro and_next_keeps [of "\<lambda>s. task_status s tid = task_status d1 tid"]) simp_all
  from assms(1) obtain row vs where row: "load_task d tid = Ok row"
    and vs: "collect_values (en_resolve g) u = Ok vs"
    by (auto simp: change_task_def update_task_def elim!: and_nextE)
  let ?all = "vs @ [Ch_Updated (now ?e)]"
  have "and_next (transact (write_task_values ?e (en_ambient g) ?all tid) d) (\<lambda>_. ?rest) = (Ok t, d')"
    using assms(1) collected_state(1) [OF vs assms(2)]
    by (simp only: change_task_def update_task_def row vs and_next_simps option.case if_False if_True refl)
  then obtain d1 where w: "write_task_values ?e (en_ambient g) ?all tid d = Ok ((), d1)" and d': "?rest d1 = (Ok t, d')"
    by (elim and_nextE) (simp add: transact_eq_Ok)
  from w have "update_task_row tid (assign_columns ?all) d = Ok d1"
    by (auto simp: write_task_values_def and_then_eq_Ok)
  from update_task_row_find [OF _ this, of tid] row collected_state(2) [OF vs assms(2)]
  have "task_status d1 tid = Some st"
    by (auto simp: task_status_def load_task_def split: option.splits)
  with rest [of d1] d' show ?thesis by simp
qed

definition halted :: "task_state \<Rightarrow> bool" where
  "halted st = (st \<in> {T_Paused, T_Failed, T_Cancelled})"

lemma apply_control_stop:
  assumes "apply_control g tid c d = (Ok (Some st), d')"
  shows "task_status d' tid = Some st \<and> halted st"
proof -
  have halt: "task_status d' tid = Some st \<and> halted st"
    if "and_next (change_task g (no_update\<lparr>up_state := Some x, up_phase := Some ph\<rparr>) tid d)
      (\<lambda>_ d. (Ok (Some x), d)) = (Ok (Some st), d')" "halted x" for x ph
    using that by (elim and_nextE) (auto dest: change_task_state)
  have no: "and_next r (\<lambda>_ d. (Ok None, d)) \<noteq> (Ok (Some st), d')" for r :: "'a result \<times> db"
    by (auto elim: and_nextE)
  from assms obtain task where row: "load_task d tid = Ok task"
    by (auto simp: apply_control_def elim: and_nextE)
  note body = assms [unfolded apply_control_def row Let_def and_next_simps]
  show ?thesis
  proof (cases "map_of (ct_payload c) ''cancellation_phase'' = Some (JStr ''ambiguous'')")
    case True
    from body [unfolded if_P [OF True]] show ?thesis by (rule halt) (simp add: halted_def)
  next
    case False
    note body' = body [unfolded if_not_P [OF False]]
    show ?thesis
    proof (cases "ct_kind c")
      case Cancel
      from body' [unfolded Cancel control_kind.case] show ?thesis by (rule halt) (simp add: halted_def)
    next
      case Pause
      from body' [unfolded Pause control_kind.case] show ?thesis by (rule halt) (simp add: halted_def)
    qed (use body' in \<open>auto simp: no split: if_splits option.splits\<close>)
  qed
qed

lemma same_status: "tasks d' = tasks d \<Longrightarrow> task_status d' x = task_status d x"
  by (simp add: task_status_def find_task_def)

lemma settle_control_stop:
  assumes "settle_control g tid c d = (Ok (Some st), d')"
  shows "task_status d' tid = Some st \<and> halted st"
proof -
  obtain r d1 where r: "and_next (apply_control (sub 0 g) tid c d) (\<lambda>stop d.
       and_next (finish (here (sub 1 g)) (draw (sub 1 g) 0) (en_owner g) True
         [(''applied_at_boundary'', JBool True)] (ct_id c) d) (\<lambda>_ d. (Ok stop, d))) = (r, d1)" by fastforce
  from assms [unfolded settle_control_def r Let_def prod.case] have "r = Ok (Some st)" "d1 = d'"
    by (cases r; auto elim: and_nextE)+
  with r obtain d2 c' where "apply_control (sub 0 g) tid c d = (Ok (Some st), d2)"
    and "finish (here (sub 1 g)) (draw (sub 1 g) 0) (en_owner g) True
         [(''applied_at_boundary'', JBool True)] (ct_id c) d2 = (Ok c', d')"
    by (auto elim!: and_nextE)
  with apply_control_stop [of "sub 0 g" tid c d st d2] finish_others(3) [of "here (sub 1 g)" "draw (sub 1 g) 0" "en_owner g" True
      "[(''applied_at_boundary'', JBool True)]" "ct_id c" d2]
  show ?thesis by (metis same_status snd_conv)
qed

lemma drain_controls_stop:
  assumes "drain_controls left g tid applied d = (Ok (cs, Some st, over), d')"
  shows "task_status d' tid = Some st \<and> halted st"
  using assms
proof (induction left g tid applied d rule: drain_controls.induct)
  case (2 left g tid applied d)
  from 2(2) obtain claimed d1 where rest: "(case claimed of
       None \<Rightarrow> (Ok (applied, None, True), d1)
     | Some c \<Rightarrow> and_next (settle_control (sub 0 g) tid c d1) (\<lambda>stop d.
         if stop = None then drain_controls left (sub 1 g) tid (applied @ [c]) d
         else (Ok (applied @ [c], stop, True), d))) = (Ok (cs, Some st, over), d')"
    by (auto elim: and_nextE)
  then obtain c halt d2 where c: "claimed = Some c" and settle: "settle_control (sub 0 g) tid c d1 = (Ok halt, d2)"
      and more: "(if halt = None then drain_controls left (sub 1 g) tid (applied @ [c]) d2
         else (Ok (applied @ [c], halt, True), d2)) = (Ok (cs, Some st, over), d')"
    by (auto split: option.splits elim: and_nextE)
  show ?case
  proof (cases halt)
    case None
    with more have "drain_controls left (sub 1 g) tid (applied @ [c]) d2 = (Ok (cs, Some st, over), d')" by simp
    from 2(1) [OF c None this] show ?thesis .
  next
    case (Some x)
    with more settle settle_control_stop show ?thesis by auto
  qed
qed simp

lemma apply_controls_stop:
  assumes "apply_controls g waited tid s = (Ok ac, s')" and "ac_stop ac = Some st"
  shows "task_status (snd s') tid = Some st \<and> halted st"
proof -
  have drained: "task_status (snd s') tid = Some st \<and> halted st"
    if "and_next (on_db (drain_controls n g' tid []) s2)
       (\<lambda>(applied, stop, _) s. (Ok \<lparr>ac_applied = applied, ac_stop = stop, ac_blocked = None\<rparr>, s)) = (Ok ac, s')"
    for n g' and s2 :: looped
    using that assms(2)
    by (elim and_nextE) (auto simp: on_db_def split: prod.splits dest: drain_controls_stop)
  from assms show ?thesis
    unfolding apply_controls_def Let_def by (auto split: if_splits dest: drained)
qed

subsection \<open>Rules for a turn\<close>

text \<open>\<open>P\<close> holds of the outcome and the database of a turn that ends the run, \<open>Q\<close> of the variables
  of one that goes on.\<close>

definition turn_post :: "(agent_outcome \<Rightarrow> db \<Rightarrow> bool) \<Rightarrow> (loop_vars \<Rightarrow> bool) \<Rightarrow> turn result \<times> looped \<Rightarrow> bool" where
  "turn_post P Q r = (case fst r of Inl _ \<Rightarrow> True
     | Inr (Ended out) \<Rightarrow> P out (snd (snd r)) | Inr (Turns v) \<Rightarrow> Q v)"

named_theorems turns \<open>introduction rules for turn_post\<close>

lemma turn_post_simps [simp]:
  "turn_post P Q (Inl err, s)"
  "turn_post P Q (Ok (Ended out), s) = P out (snd s)"
  "turn_post P Q (Ok (Turns v), s) = Q v"
  by (simp_all add: turn_post_def)

lemma turn_post_next [turns]:
  "(\<And>x s. r = (Ok x, s) \<Longrightarrow> turn_post P Q (f x s)) \<Longrightarrow> turn_post P Q (and_next r f)"
  by (cases r; cases "fst r") auto

lemma turn_post_attempt [turns]:
  "(\<And>err s. r = (Err err, s) \<Longrightarrow> turn_post P Q (handler err s)) \<Longrightarrow>
     (\<And>x s. r = (Ok x, s) \<Longrightarrow> turn_post P Q (rest x s)) \<Longrightarrow> turn_post P Q (attempt r handler rest)"
  by (cases r; cases "fst r") (auto simp: attempt_def)

lemma turn_post_if [turns]:
  "(b \<Longrightarrow> turn_post P Q x) \<Longrightarrow> (\<not> b \<Longrightarrow> turn_post P Q y) \<Longrightarrow> turn_post P Q (if b then x else y)"
  by simp

lemma turn_post_option [turns]:
  "(z = None \<Longrightarrow> turn_post P Q x) \<Longrightarrow> (\<And>y. z = Some y \<Longrightarrow> turn_post P Q (f y)) \<Longrightarrow>
     turn_post P Q (case z of None \<Rightarrow> x | Some y \<Rightarrow> f y)"
  by (cases z) simp_all

lemma turn_post_sum [turns]:
  "(\<And>y. z = Inl y \<Longrightarrow> turn_post P Q (f y)) \<Longrightarrow> (\<And>y. z = Inr y \<Longrightarrow> turn_post P Q (h y)) \<Longrightarrow>
     turn_post P Q (case z of Inl y \<Rightarrow> f y | Inr y \<Rightarrow> h y)"
  by (cases z) simp_all

lemma turn_post_prod [turns]:
  "(\<And>a b. z = (a, b) \<Longrightarrow> turn_post P Q (f a b)) \<Longrightarrow> turn_post P Q (case z of (a, b) \<Rightarrow> f a b)"
  by (cases z) simp

lemma turn_post_pair [turns]:
  "(\<And>a b. z = (a, b) \<Longrightarrow> turn_post P Q (f a b s)) \<Longrightarrow> turn_post P Q ((case z of (a, b) \<Rightarrow> f a b) s)"
  by (cases z) simp

lemma turn_post_turn [turns]:
  "(\<And>out. t = Ended out \<Longrightarrow> turn_post P Q (f out)) \<Longrightarrow> (\<And>v. t = Turns v \<Longrightarrow> turn_post P Q (h v)) \<Longrightarrow>
     turn_post P Q (case t of Ended out \<Rightarrow> f out | Turns v \<Rightarrow> h v)"
  by (cases t) simp_all

lemma turn_post_kind [turns]:
  "(k = Call_Tool \<Longrightarrow> turn_post P Q x) \<Longrightarrow> (k = Finish_Task \<Longrightarrow> turn_post P Q y) \<Longrightarrow> (k = Go_On \<Longrightarrow> turn_post P Q z) \<Longrightarrow>
     turn_post P Q (case k of Call_Tool \<Rightarrow> x | Finish_Task \<Rightarrow> y | Go_On \<Rightarrow> z)"
  by (cases k) simp_all

lemma turn_postD:
  "turn_post P Q r \<Longrightarrow> r = (Ok (Ended out), s) \<Longrightarrow> P out (snd s)"
  "turn_post P Q r \<Longrightarrow> r = (Ok (Turns v), s) \<Longrightarrow> Q v"
  by simp_all

subsection \<open>What holds of an outcome and of the loop's variables\<close>

definition completed_by :: "completion_contract \<Rightarrow> ident \<Rightarrow> tool_result list \<Rightarrow> string \<Rightarrow> db \<Rightarrow> bool" where
  "completed_by cn tid results reason d =
     (\<exists>dn. dn_kind dn = Finish_Task \<and> verify_completion cn dn results tid d = (True, reason))"

definition outcome_holds :: "agent \<Rightarrow> nat \<Rightarrow> agent_outcome \<Rightarrow> db \<Rightarrow> bool" where
  "outcome_holds ag i out d = (task_status d (ag_task ag) = Some (ou_state out) \<and>
     ou_iterations out \<le> i \<and> length (ou_results out) \<le> 2 * i \<and>
     (halted (ou_state out) \<or> ou_state out = T_Completed \<and>
       completed_by (ag_contract ag) (ag_task ag) (ou_results out) (ou_reason out) d))"

text \<open>The guards hold, and the tools and their hooks returned at most \<open>n\<close> results.\<close>

definition within_guards :: "agent \<Rightarrow> nat \<Rightarrow> loop_vars \<Rightarrow> bool" where
  "within_guards ag n v = (length (lv_results v) \<le> n \<and>
     (lv_tool_failures v = 0 \<or> lv_tool_failures v < gl_tool_failures (ag_limits ag)) \<and>
     lv_no_progress v \<le> gl_no_progress (ag_limits ag) - 1 + lv_tool_failures v \<and>
     list_all (\<lambda>(_, k). k \<le> gl_repetitions (ag_limits ag)) (lv_repetitions v))"

lemma within_guards_start: "within_guards ag 0 start_vars"
  by (simp add: within_guards_def start_vars_def)

lemma load_task_id: "load_task d tid = Ok t \<Longrightarrow> tk_id t = tid"
  by (auto simp: load_task_def find_task_def split: option.splits dest: select_one_SomeD)

lemma emit_status: "emit g tid etype message role payload visibility d = (r, d') \<Longrightarrow> task_status d' = task_status d"
  unfolding emit_def by (rule ext) (metis snd_conv task_status_event)

lemma stop_loop_post [turns]:
  assumes "halted state" and "n \<le> i" and "length (lv_results v) \<le> 2 * i"
  shows "turn_post (outcome_holds ag i) Q (stop_loop ag g state reason n v cp s)"
proof -
  have "outcome_holds ag i out (snd s')" if "stop_loop ag g state reason n v cp s = (Ok (Ended out), s')" for out s'
  proof -
    have out: "out = \<lparr>ou_state = state, ou_reason = reason, ou_iterations = n,
        ou_results = lv_results v, ou_checkpoint = cp\<rparr>" and "task_status (snd s') (ag_task ag) = Some state"
      using that unfolding stop_loop_def on_db_def
      by (auto elim!: and_nextE split: prod.splits dest!: change_task_state load_task_id emit_status)
    with assms show ?thesis by (simp add: outcome_holds_def)
  qed
  moreover have "stop_loop ag g state reason n v cp s \<noteq> (Ok (Turns w), s')" for w s'
    unfolding stop_loop_def on_db_def by (auto elim!: and_nextE split: prod.splits)
  ultimately show ?thesis
    by (cases "stop_loop ag g state reason n v cp s") (metis turn.exhaust turn_post_simps sum.exhaust)
qed

lemma ended_post [turns]:
  assumes "task_status (snd s) (ag_task ag) = Some st" and "halted st" and "n \<le> i" and "length (lv_results v) \<le> 2 * i"
  shows "turn_post (outcome_holds ag i) Q (ended st reason n v cp s)"
  using assms by (simp add: ended_def outcome_holds_def)

lemma within_guards_results: "within_guards ag n v \<Longrightarrow> n \<le> m \<Longrightarrow> length (lv_results v) \<le> m"
  by (simp add: within_guards_def)

lemma within_guards_cong [simp]:
  "within_guards ag n (v\<lparr>lv_checkpoint := c\<rparr>) = within_guards ag n v"
  by (simp add: within_guards_def)

lemma within_guards_result: "within_guards ag n v \<Longrightarrow> within_guards ag (Suc n) (v\<lparr>lv_results := lv_results v @ [r]\<rparr>)"
  by (simp add: within_guards_def)

lemma within_guards_mono: "within_guards ag n v \<Longrightarrow> n \<le> m \<Longrightarrow> within_guards ag m v"
  by (simp add: within_guards_def)

lemma halted_simps [simp]: "halted T_Paused" "halted T_Failed" "halted T_Cancelled"
  by (simp_all add: halted_def)

lemma tool_failed_post [turns]:
  assumes "within_guards ag n v" and "n \<le> 2 * i"
  shows "turn_post (outcome_holds ag i) (within_guards ag n) (tool_failed ag g i stuck v s)"
  unfolding tool_failed_def Let_def
  by (rule turns)+ (use assms in \<open>auto simp: within_guards_def\<close>)

lemma progress_guard_post [turns]:
  assumes "within_guards ag n v" and "n \<le> 2 * i"
  shows "turn_post (outcome_holds ag i) (within_guards ag n)
    (progress_guard ag g i (v\<lparr>lv_no_progress := lv_no_progress v + 1\<rparr>) s)"
  unfolding progress_guard_def
  by (rule turns)+ (use assms in \<open>auto simp: within_guards_def\<close>)

lemma hook_failed_post [turns]:
  assumes "within_guards ag n v" and "n \<le> 2 * i"
  shows "turn_post (outcome_holds ag i) Q (hook_failed ag g i task dn v err s)"
  unfolding hook_failed_def
  by (rule turns)+ (use assms in \<open>auto simp: within_guards_def\<close>)

lemma before_tool_post:
  assumes "within_guards ag n v" and "n < 2 * i"
  shows "turn_post (outcome_holds ag i) (within_guards ag (Suc n)) (before_tool ag g i task dn b v s)"
proof (cases "tb_before b")
  case None
  with assms show ?thesis by (simp add: before_tool_def within_guards_mono [of ag n v "Suc n"])
next
  case (Some hook)
  have one: "within_guards ag (Suc n) (v\<lparr>lv_results := lv_results v @ [r]\<rparr>)" "within_guards ag n v" "n \<le> 2 * i" "Suc n \<le> 2 * i" for r
    using within_guards_result [OF assms(1)] assms by auto
  have shown: "turn_post (outcome_holds ag i) (within_guards ag (Suc n)) (Ok t, s')"
    if "stop_loop ag g' T_Paused ''workspace checkpoint failed'' i v cp s = (Ok t, s')" for t s' g' cp and s :: looped
    using stop_loop_post [of T_Paused i i v ag "within_guards ag (Suc n)" g' "''workspace checkpoint failed''" cp s] one that
    by (auto simp: within_guards_def)
  show ?thesis
    unfolding before_tool_def Some option.case Let_def
    by ((simp add: one; fail) | rule one | rule turns | (rule shown, assumption))+
qed

lemma loaded_status:
  "on_db (\<lambda>d. (load_task d tid, d)) s = (Ok t, s') \<Longrightarrow> task_status (snd s') tid = Some (tk_state t) \<and> tk_id t = tid"
  by (auto simp: on_db_def task_status_def load_task_def find_task_def split: option.splits dest: select_one_SomeD)

lemma final_boundary_post [turns]:
  assumes "within_guards ag n v" and "n \<le> 2 * i" and "tk_id task = ag_task ag"
  shows "turn_post (outcome_holds ag i) (within_guards ag n) (final_boundary ag g i task v s)"
  unfolding final_boundary_def
  by (intro turns) (use assms in \<open>auto simp: within_guards_def halted_def dest: loaded_status
      apply_controls_stop [unfolded halted_def]\<close>)

lemma tool_returned_post [turns]:
  assumes "within_guards ag n v" and "Suc n \<le> 2 * i" and "tk_id task = ag_task ag"
  shows "turn_post (outcome_holds ag i) (within_guards ag (Suc n)) (tool_returned ag g i task dn b r v s)"
  unfolding tool_returned_def Let_def
  by (intro turns) (use assms in \<open>auto simp: within_guards_def dest: apply_controls_stop\<close>)

lemma list_all_update: "list_all P al \<Longrightarrow> P (k, x) \<Longrightarrow> list_all P (AList.update k x al)"
  by (induction al) auto

lemma count_call_guarded:
  assumes "within_guards ag n v" and "count_call ag dn v = (k, v')" and "k \<le> gl_repetitions (ag_limits ag)"
  shows "within_guards ag n v'"
  using assms by (auto simp: count_call_def Let_def within_guards_def intro!: list_all_update)

lemma tool_turn_post [turns]:
  assumes "within_guards ag n v" and "Suc (Suc n) \<le> 2 * i" and "tk_id task = ag_task ag"
  shows "turn_post (outcome_holds ag i) (within_guards ag (Suc (Suc n))) (tool_turn ag g i task dn v s)"
proof -
  obtain k v1 where call: "count_call ag dn v = (k, v1)" by fastforce
  have len: "length (lv_results v) \<le> n" "length (lv_results v1) \<le> n"
    using assms(1) call by (auto simp: within_guards_def count_call_def Let_def)
  have hook: "turn_post (outcome_holds ag i) (within_guards ag (Suc n)) (before_tool ag g' i task dn b v1 s1)"
    if "k \<le> gl_repetitions (ag_limits ag)" for g' b s1
    by (rule before_tool_post [OF count_call_guarded [OF assms(1) call that]]) (use assms(2) in simp)
  have went: "before_tool ag g' i task dn b v1 s1 = (Ok (Turns v2), s2) \<Longrightarrow> k \<le> gl_repetitions (ag_limits ag) \<Longrightarrow>
      within_guards ag (Suc n) v2 \<and> within_guards ag (Suc (Suc n)) v2" for g' b s1 v2 s2
    using turn_postD(2) [OF hook] within_guards_mono [of ag "Suc n" v2 "Suc (Suc n)"] by simp
  have stopped: "before_tool ag g' i task dn b v1 s1 = (Ok (Ended out), s2) \<Longrightarrow> k \<le> gl_repetitions (ag_limits ag) \<Longrightarrow>
      outcome_holds ag i out (snd s2)" for g' b s1 out s2
    using turn_postD(1) [OF hook] by simp
  show ?thesis
    unfolding tool_turn_def Let_def call prod.case
    by (intro turns) (use assms len in \<open>auto simp: not_less dest: went stopped
      intro: within_guards_mono [OF count_call_guarded [OF assms(1) call]]\<close>)
qed

lemma continue_turn_post [turns]:
  assumes "within_guards ag n v" and "n \<le> 2 * i"
  shows "turn_post (outcome_holds ag i) (within_guards ag n) (continue_turn ag g i task dn v s)"
  unfolding continue_turn_def by (intro turns) (use assms in simp_all)

lemma verify_completion_cong:
  "evidence_records d' = evidence_records d \<Longrightarrow> verify_completion cn dn results tid d' = verify_completion cn dn results tid d"
proof -
  assume "evidence_records d' = evidence_records d"
  then have "find_evidence d' = find_evidence d" by (auto simp: find_evidence_def)
  then have "completion_types d' tid eids = completion_types d tid eids" for eids
    by (induction eids) (simp_all cong: option.case_cong if_cong)
  then show ?thesis by (simp add: verify_completion_def)
qed

lemma completion_types_own:
  assumes "completion_types d tid eids = Inr ts"
  shows "set ts \<subseteq> ev_type ` set (filter (\<lambda>v. ev_task v = Some tid) (evidence_records d)) \<and> length ts = length eids"
  using assms
proof (induction eids arbitrary: ts)
  case (Cons eid eids)
  then obtain v us where v: "v \<in> set (evidence_records d)" "ev_task v = Some tid"
      and "completion_types d tid eids = Inr us" and ts: "ts = ev_type v # us"
    by (auto simp: find_evidence_def split: option.splits if_splits sum.splits dest!: select_one_SomeD)
  note Cons.IH [OF this(3)]
  moreover from v have "ev_type v \<in> ev_type ` set (filter (\<lambda>v. ev_task v = Some tid) (evidence_records d))" by auto
  ultimately show ?case by (simp add: ts)
qed simp

lemma verify_completion_sound:
  assumes "verify_completion cn dn results tid d = (True, reason)"
  shows "set (cn_tools cn) \<subseteq> to_tool ` set (filter succeeded results) \<and>
    set (cn_types cn) \<subseteq> ev_type ` set (filter (\<lambda>v. ev_task v = Some tid) (evidence_records d)) \<and>
    (cn_require_evidence cn \<longrightarrow> filter (\<lambda>v. ev_task v = Some tid) (evidence_records d) \<noteq> [])"
proof -
  from assms obtain ts where "completion_types d tid (claimed_evidence dn results) = Inr ts" "set (cn_types cn) \<subseteq> set ts"
    and some: "cn_require_evidence cn \<longrightarrow> claimed_evidence dn results \<noteq> []"
    and "set (cn_tools cn) \<subseteq> to_tool ` set (filter succeeded results)"
    by (auto simp: verify_completion_def split: if_splits sum.splits)
  moreover note own = completion_types_own [OF this(1)]
  moreover have "filter (\<lambda>v. ev_task v = Some tid) (evidence_records d) \<noteq> []" if "cn_require_evidence cn"
  proof -
    from some that own have "ts \<noteq> []" by auto
    with own have "ev_type ` set (filter (\<lambda>v. ev_task v = Some tid) (evidence_records d)) \<noteq> {}" by (cases ts) auto
    then show ?thesis by (metis image_empty list.set(1))
  qed
  ultimately show ?thesis by blast
qed

lemma complete_task_Ok:
  assumes "complete_task g task dn reason d = (Ok cp, d')"
  shows "task_status d' (tk_id task) = Some T_Completed" and "evidence_records d' = evidence_records d"
proof -
  have "side (snd (complete_task g task dn reason d)) = side d"
    unfolding complete_task_def Let_def state_checkpoint_def by (intro side_next) simp_all
  with assms show "evidence_records d' = evidence_records d" by (simp add: side_def)
  have cp: "task_status (snd (state_checkpoint g' tid reason' refs d)) x = Some st"
    if "task_status d x = Some st" for g' tid reason' refs d x st
    unfolding state_checkpoint_def write_checkpoint_def
    by (intro status_next create_checkpoint_status) (simp_all add: that)
  from assms obtain current where row: "load_task d (tk_id task) = Ok current"
    by (auto simp: complete_task_def elim: and_nextE)
  from assms [unfolded complete_task_def row Let_def and_next_simps]
  obtain t d1 cp' d2 x where "change_task (sub 0 g) (no_update\<lparr>up_state := Some T_Completed,
        up_phase := Some ''completed'', up_progress := Some 1,
        up_evidence_refs := Some (first_only (tk_evidence_refs current @ dn_evidence dn))\<rparr>) (tk_id task) d = (Ok t, d1)"
    and wrote: "state_checkpoint (sub 1 g) (tk_id task) ''verified completion''
        (first_only (tk_evidence_refs current @ dn_evidence dn)) d1 = (Ok cp', d2)"
    and event: "emit (sub 2 g) (tk_id task) ''result'' (dn_summary dn) (tk_owner_role task)
       [(''verified'', JBool True), (''reason'', JStr reason), (''evidence_ids'',
         JArr (map JStr (first_only (tk_evidence_refs current @ dn_evidence dn))))] ''normal'' d2 = (Ok x, d')"
    by (elim and_nextE) simp
  then have "task_status d1 (tk_id task) = Some T_Completed" by (auto dest: change_task_state)
  from cp [OF this] wrote have "task_status d2 (tk_id task) = Some T_Completed" by (metis snd_conv)
  with emit_status [OF event] show "task_status d' (tk_id task) = Some T_Completed" by simp
qed

lemma finish_turn_post [turns]:
  assumes "within_guards ag n v" and "n \<le> 2 * i" and "tk_id task = ag_task ag" and "dn_kind dn = Finish_Task"
  shows "turn_post (outcome_holds ag i) (within_guards ag n) (finish_turn ag g i task dn v s)"
proof -
  obtain verified reason where ver:
    "verify_completion (ag_contract ag) dn (lv_results v) (ag_task ag) (snd s) = (verified, reason)" by fastforce
  have complete: "turn_post (outcome_holds ag i) (within_guards ag n) (ended T_Completed reason i v cp s')"
    if "on_db (complete_task g' task dn reason) s = (Ok x, s')" and "verified" for g' x s' cp
  proof -
    from that(1) have "task_status (snd s') (ag_task ag) = Some T_Completed" "evidence_records (snd s') = evidence_records (snd s)"
      using complete_task_Ok [of g' task dn reason "snd s"] assms(3) by (auto simp: on_db_def split: prod.splits)
    with that(2) ver verify_completion_cong [of "snd s'" "snd s"] assms within_guards_results [OF assms(1,2)]
    show ?thesis by (auto simp: ended_def outcome_holds_def completed_by_def)
  qed
  show ?thesis
    unfolding finish_turn_def assms(3) ver Let_def prod.case
    by (intro turn_post_if turn_post_next progress_guard_post) (use assms in \<open>auto intro: complete\<close>)
qed

lemma act_on_decision_post [turns]:
  assumes "within_guards ag n v" and "Suc (Suc n) \<le> 2 * i" and "tk_id task = ag_task ag"
  shows "turn_post (outcome_holds ag i) (within_guards ag (Suc (Suc n))) (act_on_decision ag g i task dn v s)"
  unfolding act_on_decision_def Let_def
  by (intro turns) (use assms within_guards_mono [OF assms(1), of "Suc (Suc n)"] in \<open>auto simp: within_guards_def dest: apply_controls_stop\<close>)

lemma ask_model_post [turns]:
  assumes "within_guards ag n v" and "Suc (Suc n) \<le> 2 * i"
  shows "turn_post (outcome_holds ag i) (within_guards ag (Suc (Suc n))) (ask_model ag g i v s)"
  unfolding ask_model_def
  by (intro turns) (use assms in \<open>auto simp: within_guards_def dest: loaded_status\<close>)

lemma agent_round_post [turns]:
  assumes "within_guards ag n v" and "Suc (Suc n) \<le> 2 * i"
  shows "turn_post (outcome_holds ag i) (within_guards ag (Suc (Suc n))) (agent_round ag g i v s)"
  unfolding agent_round_def
  by (intro turns) (use assms in \<open>auto simp: within_guards_def dest: apply_controls_stop\<close>)

subsection \<open>Whole runs\<close>

lemma outcome_holds_mono: "outcome_holds ag i out d \<Longrightarrow> i \<le> j \<Longrightarrow> outcome_holds ag j out d"
  by (auto simp: outcome_holds_def)

lemma agent_rounds_post:
  assumes "agent_rounds ag g left i v s = (Ok out, s')" and "within_guards ag (2 * (i - 1)) v"
    and "1 \<le> i" and "left + i = Suc (gl_iterations (ag_limits ag))"
  shows "outcome_holds ag (gl_iterations (ag_limits ag)) out (snd s')"
  using assms
proof (induction left arbitrary: g i v s)
  case 0
  let ?n = "gl_iterations (ag_limits ag)"
  from 0(1) obtain t s1 where "stop_loop ag (sub 0 g) T_Paused ''iteration budget exhausted'' ?n v (lv_checkpoint v) s = (Ok t, s1)"
    and "(case t of Ended out \<Rightarrow> (Ok out, s1) | Turns _ \<Rightarrow> (Err (Runtime_Error []), s1)) = (Ok out, s')"
    by (auto elim: and_nextE)
  moreover have "turn_post (outcome_holds ag ?n) (\<lambda>_. False)
      (stop_loop ag (sub 0 g) T_Paused ''iteration budget exhausted'' ?n v (lv_checkpoint v) s)"
    by (rule stop_loop_post) (use 0 in \<open>auto simp: within_guards_def\<close>)
  ultimately show ?case by (cases t) auto
next
  case (Suc left)
  let ?n = "gl_iterations (ag_limits ag)"
  from Suc(2) obtain t s1 where round: "agent_round ag (sub 1 g) i v s = (Ok t, s1)"
    and rest: "(case t of Ended out \<Rightarrow> (Ok out, s1) | Turns v' \<Rightarrow> agent_rounds ag (sub 2 g) left (Suc i) v' s1)
      = (Ok out, s')"
    by (auto elim: and_nextE)
  have post: "turn_post (outcome_holds ag i) (within_guards ag (Suc (Suc (2 * (i - 1))))) (agent_round ag (sub 1 g) i v s)"
    by (rule agent_round_post) (use Suc.prems in auto)
  show ?case
  proof (cases t)
    case (Ended x)
    with rest round post Suc.prems(4) show ?thesis by (auto intro: outcome_holds_mono)
  next
    case (Turns v')
    with rest have "agent_rounds ag (sub 2 g) left (Suc i) v' s1 = (Ok out, s')" by simp
    moreover from post round Turns Suc.prems(3) have "within_guards ag (2 * (Suc i - 1)) v'"
      by (cases i) auto
    ultimately show ?thesis
      by (rule Suc.IH) (use Suc.prems in auto)
  qed
qed

lemma run_registered_post:
  assumes "run_registered ag g s = (Ok out, s')"
  shows "outcome_holds ag (gl_iterations (ag_limits ag)) out (snd s')"
proof -
  from assms obtain s1 where "agent_rounds ag (sub 1 g) (gl_iterations (ag_limits ag)) 1 start_vars s1 = (Ok out, s')"
    unfolding run_registered_def by (elim and_nextE)
  then show ?thesis by (rule agent_rounds_post) (simp_all add: within_guards_start)
qed

lemma never_Ok: "and_next r (\<lambda>_ s. (Err err, s)) \<noteq> (Ok x, s')"
  by (auto elim: and_nextE)

lemma run_scoped_post:
  assumes "run_scoped ag g registered inherited s = (Ok out, s')"
  shows "outcome_holds ag (gl_iterations (ag_limits ag)) out (snd s')"
  using assms unfolding run_scoped_def
  by (elim and_nextE) (simp add: never_Ok run_registered_post split: if_splits)

lemma outcome_holds_same:
  "tasks d' = tasks d \<Longrightarrow> evidence_records d' = evidence_records d \<Longrightarrow> outcome_holds ag i out d' = outcome_holds ag i out d"
  by (simp add: outcome_holds_def completed_by_def same_status [of d' d] verify_completion_cong [of d' d])

lemma exit_task_execution_others:
  "tasks (exit_task_execution e b ow tid d) = tasks d"
  "evidence_records (exit_task_execution e b ow tid d) = evidence_records d"
  by (simp_all add: exit_task_execution_def release_def Let_def split: option.split)

lemma in_execution_scope_Ok:
  assumes "in_execution_scope g scoped metadata tid body s = (Ok x, s')"
  obtains borrowed s1 s2 where
    "on_db (enter_task_execution (here (sub 0 g)) (draw (sub 0 g)) scoped (en_owner g) (seconds 30) metadata tid) s
       = (Ok borrowed, s1)"
    and "body s1 = (Ok x, s2)"
    and "s' = (fst s2, exit_task_execution (here (sub 1 g)) borrowed (en_owner g) tid (snd s2))"
  using assms unfolding in_execution_scope_def by (elim and_nextE) (auto simp: Let_def split: prod.splits)

lemma run_agent_post:
  assumes "run_agent ag g closing busy registered s = (Ok out, s')"
  shows "outcome_holds ag (gl_iterations (ag_limits ag)) out (snd s')"
proof -
  from assms have "\<not> closing" by (auto simp: run_agent_def)
  with assms have "\<not> busy" by (auto simp: run_agent_def)
  with \<open>\<not> closing\<close> assms obtain task :: task_row and s0 where "in_execution_scope (sub 1 g) (en_ambient g) [(''engine'', JStr ''agent-loop'')] (tk_id task)
      (run_scoped ag (sub 2 (g\<lparr>en_ambient := Some (en_owner g)\<rparr>)) registered
        (held_by (here (sub 0 g)) (Task_Execution, tk_id task) (en_owner g) (snd s0))) s0 = (Ok out, s')"
    unfolding run_agent_def Let_def by (simp only: if_False) (elim and_nextE, erule that)
  from this show ?thesis
    by (rule in_execution_scope_Ok) (simp add: run_scoped_post
      outcome_holds_same [OF exit_task_execution_others])
qed

end
