(* ===== verification/Runner_Safety.thy ===== *)
theory Runner_Safety
  imports Runner Agent_Safety
begin

section \<open>What task runs guarantee\<close>

text \<open>
  The theorems about \<open>Runner\<close>.  A created run is the only open run of its task; a run found
  running then has lost its owner and fails.  An epoch that returns closes its run, or pauses it,
  and leaves its task paused or cancelled, never completed; a cancellation that arrives while the
  model answers discards the answer.  A request stored on a queued run does not survive its
  start.
\<close>

subsection \<open>Open runs\<close>

definition open_runs :: "db \<Rightarrow> ident \<Rightarrow> task_run_row list" where
  "open_runs d tid = filter (\<lambda>r. tr_task r = tid \<and> run_open (tr_state r)) (task_runs d)"

lemma runs_of_mem:
  assumes "runs_of d' = runs_of d" and "r \<in> set (task_runs d')"
  obtains r0 where "r0 \<in> set (task_runs d)" and "tr_id r0 = tr_id r" "tr_task r0 = tr_task r" "tr_state r0 = tr_state r"
proof -
  from assms have "r\<lparr>tr_conversation := None\<rparr> \<in> set (runs_of d)" by (metis image_eqI set_map)
  then obtain r0 where "r0 \<in> set (task_runs d)" "r\<lparr>tr_conversation := None\<rparr> = r0\<lparr>tr_conversation := None\<rparr>" by auto
  moreover from this(2) have "tr_id r0 = tr_id r" "tr_task r0 = tr_task r" "tr_state r0 = tr_state r"
    by (metis task_run_row.select_convs task_run_row.surjective task_run_row.update_convs)+
  ultimately show ?thesis using that by blast
qed

lemma update_task_runs_Ok:
  "update_task_runs P f d = Ok d' \<Longrightarrow> task_runs d' = update_where P f (task_runs d) \<and> tasks d' = tasks d \<and>
     messages d' = messages d \<and> checkpoints d' = checkpoints d"
  by (auto simp: update_task_runs_def and_then_eq_Ok update_rows_eq_Ok)

lemma runs_of_claim: "claim_in_transaction e res ow lease metadata d = (b, d') \<Longrightarrow> runs_of d' = runs_of d"
  using claim_frame [of e res ow lease metadata d d'] by (metis db.select_convs db.surjective db.update_convs snd_conv)

lemma find_None_filter: "find P l = None \<Longrightarrow> filter P l = []"
  by (simp add: find_None_iff filter_empty_conv)

text \<open>The end of the transaction, after the task may have been attached to the conversation\<close>

lemma replace_open_run:
  assumes one: "length (open_runs d tid) \<le> 1" and same: "runs_of d2 = runs_of d"
    and replaced: "fail_lost_run e (find (\<lambda>r. tr_task r = tid \<and> run_open (tr_state r)) (task_runs d)) d2 = Ok d3"
  shows "open_runs d3 tid = []"
    and "x \<in> set (open_runs d tid) \<Longrightarrow> tr_state x = Run_Running \<and> (\<exists>y\<in>set (task_runs d3). tr_id y = tr_id x \<and>
      tr_state y = Run_Failed \<and> tr_finish_reason y = Some ''owner-lost'')"
proof -
  let ?open = "\<lambda>r. tr_task r = tid \<and> run_open (tr_state r)"
  have "open_runs d3 tid = [] \<and> (\<forall>x\<in>set (open_runs d tid). tr_state x = Run_Running \<and>
    (\<exists>y\<in>set (task_runs d3). tr_id y = tr_id x \<and> tr_state y = Run_Failed \<and> tr_finish_reason y = Some ''owner-lost''))"
  proof (cases "find ?open (task_runs d)")
    case None
    then have none: "open_runs d tid = []" by (simp add: open_runs_def find_None_filter)
    have "\<not> ?open r" if r: "r \<in> set (task_runs d2)" for r
    proof
      assume "?open r"
      moreover from runs_of_mem [OF same r] obtain r0 where "r0 \<in> set (task_runs d)"
        and "tr_id r0 = tr_id r" "tr_task r0 = tr_task r" "tr_state r0 = tr_state r" .
      ultimately have "r0 \<in> set (open_runs d tid)" by (simp add: open_runs_def)
      with none show False by simp
    qed
    moreover from None replaced have "d3 = d2" by (simp add: fail_lost_run_def)
    ultimately show ?thesis using none by (simp add: open_runs_def)
  next
    case (Some x)
    then have x: "x \<in> set (task_runs d)" "?open x" by (auto simp: find_Some_iff)
    then have mem: "x \<in> set (open_runs d tid)" by (simp add: open_runs_def)
    with one have only: "open_runs d tid = [x]" by (cases "open_runs d tid") auto
    let ?P = "\<lambda>r. tr_id r = tr_id x \<and> tr_state r = Run_Running"
    let ?f = "\<lambda>r :: task_run_row. r\<lparr>tr_state := Run_Failed, tr_finished_at := Some (now e), tr_finish_reason := Some ''owner-lost'',
               tr_error := Some ''previous execution outcome is ambiguous''\<rparr>"
    from replaced Some have run: "tr_state x = Run_Running" and up: "update_task_runs ?P ?f d2 = Ok d3"
      by (simp_all add: fail_lost_run_def)
    from update_task_runs_Ok [OF up] have runs: "task_runs d3 = update_where ?P ?f (task_runs d2)" by simp
    have shut: "\<not> ?open (if ?P r then ?f r else r)" if "r \<in> set (task_runs d2)" for r
    proof
      assume o': "?open (if ?P r then ?f r else r)"
      then have "\<not> ?P r" by (auto simp: run_open_def split: if_splits)
      with o' have "?open r" by simp
      moreover from runs_of_mem [OF same that] obtain r0 where "r0 \<in> set (task_runs d)"
        and eq: "tr_id r0 = tr_id r" "tr_task r0 = tr_task r" "tr_state r0 = tr_state r" .
      ultimately have "r0 \<in> set (open_runs d tid)" by (simp add: open_runs_def)
      with only have "r0 = x" by simp
      with eq run \<open>\<not> ?P r\<close> show False by simp
    qed
    have "\<not> ?open y" if "y \<in> set (task_runs d3)" for y
    proof -
      from that obtain r where "r \<in> set (task_runs d2)" and "y = (if ?P r then ?f r else r)"
        unfolding runs set_update_where by blast
      with shut [OF this(1)] show ?thesis by simp
    qed
    then have closed: "open_runs d3 tid = []" by (simp add: open_runs_def filter_empty_conv)
    have "x\<lparr>tr_conversation := None\<rparr> \<in> set (runs_of d2)" using x same by auto
    then obtain y where y: "y \<in> set (task_runs d2)" "x\<lparr>tr_conversation := None\<rparr> = y\<lparr>tr_conversation := None\<rparr>" by auto
    from y(2) have "?P y" using run
      by (metis task_run_row.select_convs task_run_row.surjective task_run_row.update_convs)
    with y(1) have "?f y \<in> set (task_runs d3)" by (force simp: runs set_update_where)
    with \<open>?P y\<close> closed run only show ?thesis by (auto intro!: bexI [of _ "?f y"])
  qed
  then show "open_runs d3 tid = []"
    and "x \<in> set (open_runs d tid) \<Longrightarrow> tr_state x = Run_Running \<and> (\<exists>y\<in>set (task_runs d3). tr_id y = tr_id x \<and>
      tr_state y = Run_Failed \<and> tr_finish_reason y = Some ''owner-lost'')" by auto
qed

lemma create_run_in_transaction_Ok:
  assumes one: "length (open_runs d tid) \<le> 1"
    and res: "create_run_in_transaction e ow rid tid conv d = Ok ((row, task), d')"
  shows "open_runs d' tid = [row]" and "tr_state row = Run_Queued" and "tr_id row = rid"
    and "x \<in> set (open_runs d tid) \<Longrightarrow> tr_state x = Run_Running \<and> (\<exists>y\<in>set (task_runs d'). tr_id y = tr_id x \<and>
      tr_state y = Run_Failed \<and> tr_finish_reason y = Some ''owner-lost'')"
proof -
  let ?b = "case find_lease d (Task_Execution, tid) of None \<Rightarrow> False
     | Some l \<Rightarrow> ls_token l = ow_token ow \<and> now e < ls_expires_at l"
  obtain c d1 where cl: "(if ?b then (True, d) else claim_in_transaction e (Task_Execution, tid) ow
     (seconds 30) [(''operation'', JStr ''create-run'')] d) = (c, d1)" by fastforce
  then have r1: "runs_of d1 = runs_of d" by (auto split: if_splits dest: runs_of_claim)
  from res obtain current where cur: "find_task d tid = Some current"
    by (auto simp: create_run_in_transaction_def split: option.splits)
  let ?unclaim = "\<lambda>d. if ?b then d else drop_lease Task_Execution tid (ow_token ow) d"
  have unclaim: "task_runs (?unclaim s) = task_runs s" for s by (simp add: drop_lease_def)
  from res [unfolded create_run_in_transaction_def Let_def cur option.case(2) cl prod.case]
  obtain d2 d3 where d2: "(if tk_conversation current = None
         then update_task_row tid (\<lambda>t. t\<lparr>tk_conversation := Some conv, tk_updated_at := now e\<rparr>) d1 else Ok d1) = Ok d2"
    and d3: "fail_lost_run e (find (\<lambda>r. tr_task r = tid \<and> run_open (tr_state r)) (task_runs d)) d2 = Ok d3"
    and ins: "insert_task_run row (?unclaim d3) = Ok d'" and row: "tr_id row = rid" "tr_task row = tid" "tr_state row = Run_Queued"
    by (simp only: raise_if_eq_Ok) (elim conjE and_thenE, rule that, assumption+, auto)
  from d2 r1 have r2: "runs_of d2 = runs_of d"
    by (auto split: if_splits dest!: side_update_task_row simp: side_def)
  note closed = replace_open_run [OF one r2 d3]
  from ins have runs: "task_runs d' = task_runs d3 @ [row]"
    using unclaim by (auto simp: insert_task_run_def)
  with closed(1) row show "open_runs d' tid = [row]" by (simp add: open_runs_def run_open_def)
  show "tr_state row = Run_Queued" "tr_id row = rid" by fact+
  show "x \<in> set (open_runs d tid) \<Longrightarrow> tr_state x = Run_Running \<and> (\<exists>y\<in>set (task_runs d'). tr_id y = tr_id x \<and>
      tr_state y = Run_Failed \<and> tr_finish_reason y = Some ''owner-lost'')"
    using closed(2) runs by auto
qed

lemma side_create_conversation: "side (snd (create_conversation e cid title source md active d)) = side d"
  unfolding create_conversation_def
  by (intro side_next side_transact) (auto simp: and_then_eq_Ok insert_conversation_def set_meta_def side_def)

lemma run_conversation_side: "run_conversation g chosen task d = (r, d') \<Longrightarrow> side d' = side d"
proof -
  have "side (snd (run_conversation g chosen task d)) = side d"
    by (auto simp: run_conversation_def side_create_conversation intro!: side_next split: option.split)
  then show "run_conversation g chosen task d = (r, d') \<Longrightarrow> side d' = side d" by simp
qed

lemma append_event_runs [simp]:
  "task_runs (snd (append_event t uuid tid etype message role payload visibility d)) = task_runs d"
  by (auto simp: append_event_def transact_def raise_if_def and_then_def insert_task_event_row_def
      admit_def Let_def split: sum.splits option.splits)

lemma run_conversation_runs: "task_runs (snd (run_conversation g chosen task d)) = task_runs d"
proof -
  have "task_runs (snd (create_conversation e cid title source md active s)) = task_runs s" for e cid title source md active s
    unfolding create_conversation_def
    by (intro and_next_keeps [of "\<lambda>x. task_runs x = task_runs s"] transact_keeps [of "\<lambda>x. task_runs x = task_runs s"])
      (auto simp: and_then_eq_Ok insert_conversation_def set_meta_def)
  then show ?thesis
    by (auto simp: run_conversation_def intro!: and_next_keeps [of "\<lambda>x. task_runs x = task_runs d"] split: option.split)
qed

lemma create_run_Ok:
  assumes one: "length (open_runs d tid) \<le> 1" and res: "create_run g chosen tid d = (Ok row, d')"
  shows "open_runs d' tid = [row]" and "tr_state row = Run_Queued"
    and "x \<in> set (open_runs d tid) \<Longrightarrow> tr_state x = Run_Running \<and> (\<exists>y\<in>set (task_runs d'). tr_id y = tr_id x \<and>
      tr_state y = Run_Failed \<and> tr_finish_reason y = Some ''owner-lost'')"
proof -
  from res obtain task where task: "load_task d tid = Ok task" "\<not> terminal_task_state (tk_state task)"
    by (auto simp: create_run_def elim!: and_nextE split: if_splits)
  from res [unfolded create_run_def task(1) and_next_simps if_not_P [OF task(2)]]
  obtain conv d1 current d2 ev where conv: "run_conversation (sub 0 g) chosen task d = (Ok conv, d1)"
    and tx: "create_run_in_transaction (here (sub 1 g)) (or_else (en_ambient g) (en_owner g))
       (draw (sub 1 g) 0) tid conv d1 = Ok ((row, current), d2)"
    and ev: "emit (sub 2 g) tid ''status'' (''Runner queued '' @ tr_id row) (tk_owner_role current)
       [(''run_id'', JStr (tr_id row)), (''state'', JStr ''queued'')] ''verbose'' d2 = (Ok ev, d')"
    by (auto elim!: and_nextE simp: transact_eq_Ok)
  from run_conversation_runs [of "sub 0 g" chosen task d] conv have "task_runs d1 = task_runs d" by simp
  then have before: "open_runs d1 tid = open_runs d tid" by (simp add: open_runs_def)
  from ev have after: "task_runs d' = task_runs d2" unfolding emit_def by (metis append_event_runs snd_conv)
  note ok = create_run_in_transaction_Ok [OF one [folded before] tx]
  show "open_runs d' tid = [row]" using ok(1) after by (simp add: open_runs_def)
  show "tr_state row = Run_Queued" by (rule ok(2))
  show "x \<in> set (open_runs d tid) \<Longrightarrow> tr_state x = Run_Running \<and> (\<exists>y\<in>set (task_runs d'). tr_id y = tr_id x \<and>
      tr_state y = Run_Failed \<and> tr_finish_reason y = Some ''owner-lost'')"
    using ok(4) before after by simp
qed

subsection \<open>Requests on a run\<close>

lemma find_run_runs_of:
  assumes "runs_of d' = runs_of d"
  shows "map_option (\<lambda>r. r\<lparr>tr_conversation := None\<rparr>) (find_run d' rid) =
    map_option (\<lambda>r. r\<lparr>tr_conversation := None\<rparr>) (find_run d rid)"
proof -
  have view: "map_option (\<lambda>r. r\<lparr>tr_conversation := None\<rparr>) (select_one tr_id rid t) =
      select_one tr_id rid (map (\<lambda>r. r\<lparr>tr_conversation := None\<rparr>) t)" for t
    by (induction t) auto
  show ?thesis unfolding find_run_def view assms ..
qed

lemma find_run_view:
  assumes "runs_of d' = runs_of d"
  shows "map_option tr_control_request (find_run d' rid) = map_option tr_control_request (find_run d rid)"
    and "map_option tr_state (find_run d' rid) = map_option tr_state (find_run d rid)"
  using arg_cong [OF find_run_runs_of [OF assms, of rid], of "map_option tr_control_request"]
    arg_cong [OF find_run_runs_of [OF assms, of rid], of "map_option tr_state"]
  by (simp_all add: option.map_comp comp_def)

lemma set_run_Ok:
  assumes "set_run e rid f d = (Ok r, d')" and "\<And>x. tr_id (f x) = tr_id x"
  shows "\<exists>x. find_run d rid = Some x \<and> r = (f x)\<lparr>tr_heartbeat_at := Some (now e)\<rparr> \<and> find_run d' rid = Some r"
    and "tasks d' = tasks d" and "messages d' = messages d" and "checkpoints d' = checkpoints d"
proof -
  from assms(1) have up: "update_task_runs (\<lambda>r. tr_id r = rid) (\<lambda>r. (f r)\<lparr>tr_heartbeat_at := Some (now e)\<rparr>) d = Ok d'"
    and found: "find_run d' rid = Some r"
    by (auto simp: set_run_def transact_eq_Ok and_then_eq_Ok load_task_run_def elim!: and_nextE split: option.splits)
  note eqs = update_task_runs_Ok [OF up]
  then show "tasks d' = tasks d" "messages d' = messages d" "checkpoints d' = checkpoints d" by simp_all
  from found eqs show "\<exists>x. find_run d rid = Some x \<and> r = (f x)\<lparr>tr_heartbeat_at := Some (now e)\<rparr> \<and> find_run d' rid = Some r"
    using select_one_update_where [of tr_id "\<lambda>r. (f r)\<lparr>tr_heartbeat_at := Some (now e)\<rparr>" rid "\<lambda>r. tr_id r = rid" "task_runs d"]
      select_one_SomeD [of tr_id rid "task_runs d"] assms(2)
    by (auto simp: find_run_def)
qed

lemma change_task_runs: "change_task g u tid d = (r, d') \<Longrightarrow> runs_of d' = runs_of d"
  using side_change_task [of g u tid d] by (simp add: side_def)

lemma emit_runs: "emit g tid etype message role payload visibility d = (r, d') \<Longrightarrow> runs_of d' = runs_of d"
  using side_emit [of g tid etype message role payload visibility d] by (simp add: side_def)

lemma pending_control_find: "pending_control rid d = Ok c \<longleftrightarrow> map_option tr_control_request (find_run d rid) = Some c"
  by (auto simp: pending_control_def load_task_run_def split: option.splits)

lemma start_run_epoch_Ok:
  assumes "start_run_epoch x g rid d = (Ok (task, run), d')"
  shows "pending_control rid d' = Ok []" and "map_option tr_state (find_run d' rid) = Some Run_Running"
    and "task_status d' (tk_id task) = Some T_Running"
proof -
  from assms obtain r0 :: task_run_row and d1 t d2 ev and role :: role_record where
    set_run: "set_run (here (sub 0 g)) rid (\<lambda>r. r\<lparr>tr_state := Run_Running, tr_control_request := [],
       tr_started_at := Some (or_else (tr_started_at r0) (now (here (sub 0 g)))), tr_finished_at := None,
       tr_finish_reason := None, tr_error := None\<rparr>) d = (Ok run, d1)"
    and task: "request_task_state (sub 1 g) T_Running ''reasoning-epoch'' (tk_id task) d1 = (Ok t, d2)"
    and ev: "emit (sub 2 g) (tk_id task) ''progress'' (rl_display_name (rc_info role) @ '' reasoning epoch '' @
         dec (nat (tk_epoch task)) @ '' started'') (tk_owner_role task)
       [(''run_id'', JStr rid), (''epoch'', JInt (tk_epoch task))] ''normal'' d2 = (Ok ev, d')"
    unfolding start_run_epoch_def by (elim and_nextE) (simp split: if_splits, elim and_nextE conjE, simp)
  have runs: "runs_of d' = runs_of d1"
    using emit_runs [OF ev] change_task_runs [OF task [unfolded request_task_state_def]] by simp
  from set_run_Ok(1) [OF set_run] obtain y where run: "find_run d1 rid = Some run"
    "tr_state run = Run_Running" "tr_control_request run = []" by auto
  show "pending_control rid d' = Ok []" and "map_option tr_state (find_run d' rid) = Some Run_Running"
    using find_run_view [OF runs, of rid] run by (simp_all add: pending_control_find)
  have "task_status d2 (tk_id task) = Some T_Running"
    by (rule change_task_state [OF task [unfolded request_task_state_def]]) simp
  with emit_status [OF ev] show "task_status d' (tk_id task) = Some T_Running" by simp
qed

subsection \<open>What an epoch leaves behind\<close>

definition written :: "db \<Rightarrow> message_row list \<times> checkpoint_row list" where
  "written d = (messages d, checkpoints d)"

lemmas written_next = and_next_keeps [of "\<lambda>s. written s = W" for W]

lemma written_event [simp]: "written (snd (append_event t uuid tid etype message role payload visibility d)) = written d"
  by (auto simp: append_event_def transact_def raise_if_def and_then_def insert_task_event_row_def
      admit_def Let_def written_def split: sum.splits option.splits)

lemma written_change_task [simp]: "written (snd (change_task g u tid d)) = written d"
proof -
  have w: "write_task_values e sel vs tid s = Ok (x, s') \<Longrightarrow> written s' = written s" for e sel vs s s' x
    by (auto simp: write_task_values_def and_then_eq_Ok update_task_row_def tasks_conversation_propagate_def
        written_def split: option.splits)
  show ?thesis
    unfolding change_task_def update_task_def option.case
    by (intro written_next) (auto intro!: transact_keeps [of "\<lambda>s. written s = written d"] dest: w)
qed

lemma written_emit [simp]: "written (snd (emit g tid etype message role payload visibility d)) = written d"
  by (simp add: emit_def)

lemma set_run_others:
  "written (snd (set_run e rid f d)) = written d" "tasks (snd (set_run e rid f d)) = tasks d"
proof -
  let ?K = "\<lambda>s. written s = written d \<and> tasks s = tasks d"
  have "?K (snd (set_run e rid f d))"
    unfolding set_run_def
    by (intro and_next_keeps [of ?K] transact_keeps [of ?K])
      (auto simp: and_then_eq_Ok written_def dest!: update_task_runs_Ok)
  then show "written (snd (set_run e rid f d)) = written d" "tasks (snd (set_run e rid f d)) = tasks d" by simp_all
qed

lemma discard_output_Ok:
  assumes "discard_output g task rid p final reasoning d = (Ok out, d')"
  shows "written d' = written d" and "eo_content out = []" and "eo_checkpoint out = None"
    and "tr_state (eo_run out) = Run_Cancelled" and "task_status d' (tk_id task) = Some T_Cancelled"
proof -
  have "written (snd (discard_output g task rid p final reasoning d)) = written d"
    unfolding discard_output_def request_task_state_def
    by (intro written_next) (simp_all add: set_run_others)
  with assms show "written d' = written d" by simp
  from assms obtain r d1 t d2 ev run where
    set_run: "set_run (here (sub 0 g)) rid (\<lambda>x. x\<lparr>tr_state := Run_Cancelled, tr_control_request := [],
       tr_finished_at := Some (now (here (sub 0 g))), tr_finish_reason := Some ''cancelled-at-boundary'',
       tr_metadata := [(''discarded_output_chars'', JInt (int (length final))),
         (''reasoning_chars'', JInt (int (length reasoning)))]\<rparr>) d = (Ok r, d1)"
    and task: "request_task_state (sub 1 g) T_Cancelled ''cancelled'' (tk_id task) d1 = (Ok t, d2)"
    and ev: "emit (sub 2 g) (tk_id task) ''status''
       ''Cancellation applied at inference boundary; generated output was not promoted''
       (tk_owner_role task) [(''run_id'', JStr rid)] ''normal'' d2 = (Ok ev, d')"
    and run: "find_run d' rid = Some run"
    and out: "out = \<lparr>eo_run = run, eo_content = [], eo_reasoning = reasoning,
        eo_finish = Some ''cancelled-at-boundary'', eo_projection = Some p, eo_checkpoint = None\<rparr>"
    unfolding discard_output_def by (elim and_nextE) (auto simp: load_task_run_def split: option.splits)
  from out show "eo_content out = []" "eo_checkpoint out = None" by simp_all
  have "runs_of d' = runs_of d1"
    using emit_runs [OF ev] change_task_runs [OF task [unfolded request_task_state_def]] by simp
  from find_run_view(2) [OF this, of rid] set_run_Ok(1) [OF set_run] run out
  show "tr_state (eo_run out) = Run_Cancelled" by auto
  have "task_status d2 (tk_id task) = Some T_Cancelled"
    by (rule change_task_state [OF task [unfolded request_task_state_def]]) simp
  with emit_status [OF ev] show "task_status d' (tk_id task) = Some T_Cancelled" by simp
qed

lemma promote_output_Ok:
  assumes "promote_output g task run p h final d = (Ok out, d')"
  shows "tr_state (eo_run out) = Run_Completed" and "task_status d' (tk_id task) = Some T_Paused"
    and "eo_content out = final"
proof -
  from assms obtain message :: message_row and cp t d1 d2 r where
    task: "request_task_state (sub 3 g) T_Paused ''epoch-complete'' (tk_id task) d1 = (Ok t, d2)"
    and set_run: "set_run (here (sub 4 g)) (tr_id run) (\<lambda>x. x\<lparr>tr_state := Run_Completed, tr_control_request := [],
       tr_finished_at := Some (now (here (sub 4 g))),
       tr_finish_reason := Some (given_text (hd_finish h) ''stop''), tr_output_message := Some (ms_id message),
       tr_metadata := [(''reasoning_chars'', JInt (int (length (hd_reasoning h)))),
         (''usage'', json_or (hd_usage h) (JObj []))]\<rparr>) d2 = (Ok r, d')"
    and out: "out = \<lparr>eo_run = r, eo_content = final, eo_reasoning = hd_reasoning h, eo_finish = hd_finish h,
        eo_projection = Some p, eo_checkpoint = Some cp\<rparr>"
    unfolding promote_output_def by (elim and_nextE) auto
  from set_run_Ok(1) [OF set_run] out show "tr_state (eo_run out) = Run_Completed" by auto
  from out show "eo_content out = final" by simp
  have "task_status d2 (tk_id task) = Some T_Paused"
    by (rule change_task_state [OF task [unfolded request_task_state_def]]) simp
  moreover have "tasks d' = tasks d2" by (rule set_run_Ok(2) [OF set_run]) simp
  ultimately show "task_status d' (tk_id task) = Some T_Paused" by (metis same_status)
qed

text \<open>The model was asked exactly when the outcome has a projection; \<open>listen\<close> and what other processes
  do in the meantime are arbitrary.\<close>

lemma conclude_stream_Ok:
  assumes "conclude_stream g task run p h d = (Ok out, d')"
  shows "tr_state (eo_run out) = Run_Completed \<and> task_status d' (tk_id task) = Some T_Paused \<or>
    tr_state (eo_run out) = Run_Cancelled \<and> task_status d' (tk_id task) = Some T_Cancelled \<and>
    eo_content out = [] \<and> eo_checkpoint out = None"
    and "pending_control (tr_id run) d = Ok ''cancel'' \<Longrightarrow> written d' = written d \<and> eo_content out = [] \<and>
      tr_state (eo_run out) = Run_Cancelled \<and> task_status d' (tk_id task) = Some T_Cancelled"
proof -
  from assms obtain request where request: "pending_control (tr_id run) d = Ok request"
    and rest: "(if request = ''cancel'' then discard_output (sub 0 g) task (tr_id run) p (final_text h) (hd_reasoning h) d
      else promote_output (sub 1 g) task run p h (final_text h) d) = (Ok out, d')"
    by (auto simp: conclude_stream_def split: if_splits elim: and_nextE)
  show "tr_state (eo_run out) = Run_Completed \<and> task_status d' (tk_id task) = Some T_Paused \<or>
    tr_state (eo_run out) = Run_Cancelled \<and> task_status d' (tk_id task) = Some T_Cancelled \<and>
    eo_content out = [] \<and> eo_checkpoint out = None"
  proof (cases "request = ''cancel''")
    case True
    with rest have "discard_output (sub 0 g) task (tr_id run) p (final_text h) (hd_reasoning h) d = (Ok out, d')" by simp
    from discard_output_Ok [OF this] show ?thesis by simp
  next
    case False
    with rest have "promote_output (sub 1 g) task run p h (final_text h) d = (Ok out, d')" by simp
    from promote_output_Ok [OF this] show ?thesis by simp
  qed
  show "written d' = written d \<and> eo_content out = [] \<and> tr_state (eo_run out) = Run_Cancelled \<and>
      task_status d' (tk_id task) = Some T_Cancelled" if "pending_control (tr_id run) d = Ok ''cancel''"
  proof -
    from that request rest
    have "discard_output (sub 0 g) task (tr_id run) p (final_text h) (hd_reasoning h) d = (Ok out, d')" by simp
    from discard_output_Ok [OF this] show ?thesis by simp
  qed
qed

text \<open>An epoch that returned after asking the model\<close>

lemma start_run_epoch_task:
  assumes "start_run_epoch x g rid d = (Ok (task, run), d')" and "find_run d rid = Some r"
  shows "tk_id task = tr_task r"
  using assms by (auto simp: start_run_epoch_def load_task_run_def elim!: and_nextE split: if_splits
      dest!: load_task_id)

lemma pair_nextE:
  assumes "and_next r (\<lambda>(a, b). f a b) = (Ok y, s)"
  obtains a b s1 where "r = (Ok (a, b), s1)" and "f a b s1 = (Ok y, s)"
  using assms by (elim and_nextE) (auto split: prod.splits)

lemma run_epoch_Ok:
  assumes "run_epoch x answer others n g rid s = (Ok out, s')" and "eo_projection out \<noteq> None"
    and "find_run (snd s) rid = Some r"
  shows "tr_state (eo_run out) = Run_Completed \<and> task_status (snd s') (tr_task r) = Some T_Paused \<or>
    tr_state (eo_run out) = Run_Cancelled \<and> task_status (snd s') (tr_task r) = Some T_Cancelled \<and>
    eo_content out = [] \<and> eo_checkpoint out = None"
proof -
  from assms(1) obtain task run s1 where started: "on_db (start_run_epoch x (sub 0 g) rid) s = (Ok (task, run), s1)"
    and rest: "and_next (on_db (\<lambda>d. let d = others d in and_next (load_task_run d rid, d) (apply_boundary_control (sub 1 g))) s1)
       (\<lambda>controlled s.
     if tr_state controlled \<in> {Run_Paused, Run_Cancelled}
     then (Ok \<lparr>eo_run = controlled, eo_content = [], eo_reasoning = [], eo_finish = tr_finish_reason controlled,
       eo_projection = None, eo_checkpoint = None\<rparr>, s) else
     and_next (build x (here (sub 2 g)) (draw (sub 2 g) 0) (tr_conversation run) (tk_owner_role task)
       \<lparr>bq_mode = ''task'', bq_question = None, bq_task = Some (tk_id task), bq_instruction = None,
        bq_output = n, bq_exact = True\<rparr> True s) (\<lambda>p s.
     let r = and_next (listen (sub 3 g) rid
           \<lparr>hd_content = [], hd_reasoning = [], hd_finish = None, hd_usage = JNull\<rparr> (answer p) s)
           (\<lambda>h s. on_db (conclude_stream (sub 4 g) task run p h) s) in
     case fst r of Inr out \<Rightarrow> r | Inl err \<Rightarrow> on_db (fail_epoch (sub 5 g) task rid err) (snd r))) = (Ok out, s')"
    unfolding run_epoch_def by (elim pair_nextE)
  from started have "fst (start_run_epoch x (sub 0 g) rid (snd s)) = Ok (task, run)"
    by (metis fst_conv snd_on_db(2))
  with start_run_epoch_task [OF _ assms(3)] have tid: "tk_id task = tr_task r" by (metis prod.collapse)
  have failed: "fst (fail_epoch g' task rid err d :: epoch_outcome result \<times> db) \<noteq> Ok out" for g' err d
    unfolding fail_epoch_def by (auto simp: and_next_def split: sum.splits)
  let ?stream = "\<lambda>p s. and_next (listen (sub 3 g) rid
           \<lparr>hd_content = [], hd_reasoning = [], hd_finish = None, hd_usage = JNull\<rparr> (answer p) s)
           (\<lambda>h s. on_db (conclude_stream (sub 4 g) task run p h) s)"
  from rest obtain controlled s2 where "(if tr_state controlled \<in> {Run_Paused, Run_Cancelled}
     then (Ok \<lparr>eo_run = controlled, eo_content = [], eo_reasoning = [], eo_finish = tr_finish_reason controlled,
       eo_projection = None, eo_checkpoint = None\<rparr>, s2) else
     and_next (build x (here (sub 2 g)) (draw (sub 2 g) 0) (tr_conversation run) (tk_owner_role task)
       \<lparr>bq_mode = ''task'', bq_question = None, bq_task = Some (tk_id task), bq_instruction = None,
        bq_output = n, bq_exact = True\<rparr> True s2) (\<lambda>p s.
     let r = ?stream p s in
     case fst r of Inr out \<Rightarrow> r | Inl err \<Rightarrow> on_db (fail_epoch (sub 5 g) task rid err) (snd r))) = (Ok out, s')"
    by (rule and_nextE)
  with assms(2) have "and_next (build x (here (sub 2 g)) (draw (sub 2 g) 0) (tr_conversation run) (tk_owner_role task)
       \<lparr>bq_mode = ''task'', bq_question = None, bq_task = Some (tk_id task), bq_instruction = None,
        bq_output = n, bq_exact = True\<rparr> True s2) (\<lambda>p s.
     let r = ?stream p s in
     case fst r of Inr out \<Rightarrow> r | Inl err \<Rightarrow> on_db (fail_epoch (sub 5 g) task rid err) (snd r)) = (Ok out, s')"
    by (auto split: if_splits)
  then obtain p s3 where streamed: "(let r = ?stream p s3 in
     case fst r of Inr out \<Rightarrow> r | Inl err \<Rightarrow> on_db (fail_epoch (sub 5 g) task rid err) (snd r)) = (Ok out, s')"
    by (rule and_nextE)
  have "?stream p s3 = (Ok out, s')"
  proof (cases "fst (?stream p s3)")
    case (Inl err)
    with streamed have "fst (fail_epoch (sub 5 g) task rid err (snd (snd (?stream p s3)))) = Ok out"
      by (simp add: Let_def flip: snd_on_db(2))
    with failed show ?thesis by blast
  next
    case (Inr y)
    with streamed show ?thesis by (simp add: Let_def)
  qed
  then obtain h s4 where "on_db (conclude_stream (sub 4 g) task run p h) s4 = (Ok out, s')"
    by (rule and_nextE)
  then have "conclude_stream (sub 4 g) task run p h (snd s4) = (Ok out, snd s')"
    by (auto simp: on_db_def split: prod.splits)
  from conclude_stream_Ok(1) [OF this] tid show ?thesis by simp
qed

end
