(* ===== verification/Agent_Samples.thy ===== *)
theory Agent_Samples
  imports Runner_Safety Guarantees_Context
begin

section \<open>A sample run of the agent loop\<close>

text \<open>
  The concrete run that the witnesses of the agent loop apply their theorems to: the task \<open>t\<close>,
  bound to the conversation \<open>c\<close>, whose model asks at once to finish on the evidence \<open>e\<close>.  The run
  is evaluated one transaction at a time, each on the database the one before it left.
\<close>

definition sample_engine :: engine where
  "sample_engine = \<lparr>en_env = (\<lambda>p. sample_env 1),
     en_ids = (\<lambda>p n. concat (map (\<lambda>k. dec k @ ''.'') (n # p))), en_resolve = (\<lambda>r. Ok r),
     en_digest = (\<lambda>_. ''h''), en_policy = sample_policy 5, en_owner = live_owner, en_ambient = None\<rparr>"

definition finishing_agent :: agent where
  "finishing_agent = \<lparr>ag_task = ''t'',
     ag_limits = \<lparr>gl_iterations = 3, gl_seconds = 100, gl_repetitions = 3, gl_no_progress = 4,
       gl_tool_failures = 3, gl_pressure = 95 / 100\<rparr>,
     ag_contract = \<lparr>cn_tools = [], cn_types = [''log''], cn_require_evidence = True\<rparr>,
     ag_tools = [], ag_model = (\<lambda>i task controls s. (Ok (Parsed \<lparr>dn_kind = Finish_Task, dn_tool = [],
       dn_arguments = [], dn_summary = ''done'', dn_evidence = [''e'']\<rparr>, 0), s)),
     ag_waited = (\<lambda>i s. s), ag_clock = (\<lambda>i. 0), ag_loads = (\<lambda>_. None), ag_json = (\<lambda>_. []),
     ag_signature = (\<lambda>tool args. tool)\<rparr>"

definition working_db :: db where
  "working_db = empty_db\<lparr>conversations := [sample_conversation ''c''],
     tasks := [(sample_task ''t'' T_Pending)\<lparr>tk_conversation := Some ''c''\<rparr>],
     evidence_records := [sample_log\<lparr>ev_task := Some ''t''\<rparr>]\<rparr>"

text \<open>A loop with no control waiting passes its boundaries as they are.\<close>

lemma idle_controls:
  assumes "task_controls (snd s) = []" and "fst (fst s) = []"
  shows "apply_controls g waited tid s = (Ok \<lparr>ac_applied = [], ac_stop = None, ac_blocked = None\<rparr>, s)"
  using assms by (cases s) (simp add: apply_controls_def retry_all_def unreconciled_cancellation_def select_first_def
    pending_controls_def count_where_def claim_next_def transact_def on_db_def Let_def)

lemma nothing_to_recover:
  assumes "task_controls d = []"
  shows "recover_processing e ow lease tid d = (Ok 0, d)" "recover_cancellations e ids ow lease tid d = (Ok 0, d)"
  using assms by (simp_all add: recover_processing_def recover_cancellations_def transact_def)

definition finish_decision :: model_decision where
  "finish_decision = \<lparr>dn_kind = Finish_Task, dn_tool = [], dn_arguments = [], dn_summary = ''done'',
     dn_evidence = [''e'']\<rparr>"

definition scoped_engine :: engine where
  "scoped_engine = sub 2 (sample_engine\<lparr>en_ambient := Some live_owner\<rparr>)"

definition entered_db :: db where
  "entered_db = snd (enter_task_execution (here (sub 0 (sub 1 sample_engine))) (draw (sub 0 (sub 1 sample_engine)))
     None live_owner (seconds 30) [(''engine'', JStr ''agent-loop'')] ''t'' working_db)"

definition started_db :: db where
  "started_db = snd (change_task (sub 0 (sub 3 scoped_engine)) (no_update\<lparr>up_state := Some T_Running,
     up_phase := Some ''agent-loop''\<rparr>) ''t'' entered_db)"

definition round_engine :: engine where
  "round_engine = sub 3 (sub 4 (sub 1 (sub 1 (sub 3 scoped_engine))))"

definition decided_db :: db where
  "decided_db = snd (append_state_event (now (here (sub 4 round_engine))) (draw (sub 4 round_engine) 0)
     ''model_invocation'' ''finish'' None None (Some ''t'') (Some ''primary'')
     [(''iteration'', JInt 1), (''decision'', JStr ''finish''), (''tool'', JStr [])] ''normal'' started_db)"

lemma entered: "is_ok (fst (enter_task_execution (here (sub 0 (sub 1 sample_engine))) (draw (sub 0 (sub 1 sample_engine)))
     None live_owner (seconds 30) [(''engine'', JStr ''agent-loop'')] ''t'' working_db))"
  by code_simp

lemma entered_facts:
  "task_controls entered_db = []" "is_ok (runnable ''t'' entered_db)"
  "map_option tk_state (find_task entered_db ''t'') = Some T_Pending"
  by code_simp+

lemma started: "is_ok (fst (change_task (sub 0 (sub 3 scoped_engine)) (no_update\<lparr>up_state := Some T_Running,
     up_phase := Some ''agent-loop''\<rparr>) ''t'' entered_db))"
  by code_simp

lemma started_facts:
  "task_controls started_db = []"
  "map_option (\<lambda>t. (tk_owner_role t, tk_conversation t)) (find_task started_db ''t'') = Some (''primary'', Some ''c'')"
  by code_simp+

lemma decided:
  "is_ok (fst (append_state_event (now (here (sub 4 round_engine))) (draw (sub 4 round_engine) 0)
     ''model_invocation'' ''finish'' None None (Some ''t'') (Some ''primary'')
     [(''iteration'', JInt 1), (''decision'', JStr ''finish''), (''tool'', JStr [])] ''normal'' started_db))"
  by code_simp

lemma decided_facts:
  "verify_completion (ag_contract finishing_agent) finish_decision [] ''t'' decided_db = (True, ''completion contract satisfied'')"
  "map_option tk_evidence_refs (find_task decided_db ''t'') = Some []"
  by code_simp+

definition completed_db :: db where
  "completed_db = snd (change_task (sub 0 (sub 0 (sub 7 round_engine))) (no_update\<lparr>up_state := Some T_Completed,
     up_phase := Some ''completed'', up_progress := Some 1, up_evidence_refs := Some [''e'']\<rparr>) ''t'' decided_db)"

lemma completed: "is_ok (fst (change_task (sub 0 (sub 0 (sub 7 round_engine))) (no_update\<lparr>up_state := Some T_Completed,
     up_phase := Some ''completed'', up_progress := Some 1, up_evidence_refs := Some [''e'']\<rparr>) ''t'' decided_db))"
  by code_simp

definition saved_db :: db where
  "saved_db = snd (state_checkpoint (sub 1 (sub 0 (sub 7 round_engine))) ''t'' ''verified completion'' [''e''] completed_db)"

lemma saved: "is_ok (fst (state_checkpoint (sub 1 (sub 0 (sub 7 round_engine))) ''t'' ''verified completion'' [''e''] completed_db))"
  by code_simp

lemma reported: "is_ok (fst (emit (sub 2 (sub 0 (sub 7 round_engine))) ''t'' ''result'' ''done'' ''primary''
  [(''verified'', JBool True), (''reason'', JStr ''completion contract satisfied''),
        (''evidence_ids'', JArr [JStr ''e''])] ''normal'' saved_db))"
  by code_simp

lemma is_ok_pair: "is_ok (fst r) \<Longrightarrow> \<exists>x. r = (Ok x, snd r)"
  by (cases r; cases "fst r") auto

lemma completes:
  assumes "tk_id task = ''t''" and "tk_owner_role task = ''primary''"
  shows "\<exists>cp d'. complete_task (sub 0 (sub 7 round_engine)) task finish_decision
    ''completion contract satisfied'' decided_db = (Ok cp, d')"
proof -
  from decided_facts(2) obtain current where "load_task decided_db ''t'' = Ok current" "tk_evidence_refs current = []"
    by (auto simp: load_task_def)
  moreover from is_ok_pair [OF completed] obtain c where "change_task (sub 0 (sub 0 (sub 7 round_engine))) (no_update\<lparr>up_state := Some T_Completed,
     up_phase := Some ''completed'', up_progress := Some 1, up_evidence_refs := Some [''e'']\<rparr>) ''t'' decided_db = (Ok c, completed_db)"
    unfolding completed_db_def by blast
  moreover from is_ok_pair [OF saved] obtain cp where
    "state_checkpoint (sub 1 (sub 0 (sub 7 round_engine))) ''t'' ''verified completion'' [''e''] completed_db = (Ok cp, saved_db)"
    unfolding saved_db_def by blast
  moreover from is_ok_pair [OF reported] obtain ev d' where
    "emit (sub 2 (sub 0 (sub 7 round_engine))) ''t'' ''result'' ''done'' ''primary''
      [(''verified'', JBool True), (''reason'', JStr ''completion contract satisfied''),
        (''evidence_ids'', JArr [JStr ''e''])] ''normal'' saved_db = (Ok ev, d')" by blast
  moreover have "first_only [''e''] = [''e'']" by code_simp
  ultimately show ?thesis
    using assms by (simp add: complete_task_def finish_decision_def)
qed

text \<open>The round up to its last part, for any completion contract\<close>

lemma round_to_finish:
  obtains task where
    "agent_round (finishing_agent\<lparr>ag_contract := cn\<rparr>) (sub 1 (sub 1 (sub 3 scoped_engine))) 1 start_vars (([], []), started_db) =
      finish_turn (finishing_agent\<lparr>ag_contract := cn\<rparr>) (sub 7 round_engine) 1 task finish_decision start_vars (([], []), decided_db)"
    and "tk_id task = ''t''" "tk_owner_role task = ''primary''" "tk_conversation task = Some ''c''"
proof -
  let ?ag = "finishing_agent\<lparr>ag_contract := cn\<rparr>"
  from started_facts(2) obtain task where task: "find_task started_db ''t'' = Some task"
      "tk_owner_role task = ''primary''" "tk_conversation task = Some ''c''" "tk_id task = ''t''"
    by (auto simp: find_task_def dest: select_one_SomeD)
  then have load: "load_task started_db ''t'' = Ok task" by (simp add: load_task_def)
  from is_ok_pair [OF decided] obtain ev where ev: "append_state_event (now (here (sub 4 round_engine))) (draw (sub 4 round_engine) 0)
     ''model_invocation'' ''finish'' None None (Some ''t'') (Some ''primary'')
     [(''iteration'', JInt 1), (''decision'', JStr ''finish''), (''tool'', JStr [])] ''normal'' started_db = (Ok ev, decided_db)"
    unfolding decided_db_def by blast
  have "act_on_decision ?ag round_engine 1 task finish_decision start_vars (([], []), started_db) =
      finish_turn ?ag (sub 7 round_engine) 1 task finish_decision start_vars (([], []), decided_db)"
    using ev task started_facts(1)
    by (simp add: act_on_decision_def idle_controls attempt_def finish_decision_def on_db_def)
  then have "ask_model ?ag (sub 4 (sub 1 (sub 1 (sub 3 scoped_engine)))) 1 start_vars (([], []), started_db) =
      finish_turn ?ag (sub 7 round_engine) 1 task finish_decision start_vars (([], []), decided_db)"
    using load by (simp add: ask_model_def attempt_def finishing_agent_def on_db_def parse_decision_def
        round_engine_def finish_decision_def)
  then have "agent_round ?ag (sub 1 (sub 1 (sub 3 scoped_engine))) 1 start_vars (([], []), started_db) =
      finish_turn ?ag (sub 7 round_engine) 1 task finish_decision start_vars (([], []), decided_db)"
    using started_facts(1) by (simp add: agent_round_def idle_controls attempt_def finishing_agent_def)
  from that [OF this] task show ?thesis by simp
qed

lemma finishing_round:
  "\<exists>out s'. agent_round finishing_agent (sub 1 (sub 1 (sub 3 scoped_engine))) 1 start_vars (([], []), started_db) = (Ok (Ended out), s') \<and>
     ou_state out = T_Completed"
proof -
  obtain task where round: "agent_round finishing_agent (sub 1 (sub 1 (sub 3 scoped_engine))) 1 start_vars (([], []), started_db) =
      finish_turn finishing_agent (sub 7 round_engine) 1 task finish_decision start_vars (([], []), decided_db)"
    and task: "tk_id task = ''t''" "tk_owner_role task = ''primary''"
    using round_to_finish [of "ag_contract finishing_agent"] by auto
  from completes [OF task] obtain cp d' where "complete_task (sub 0 (sub 7 round_engine)) task finish_decision
    ''completion contract satisfied'' decided_db = (Ok cp, d')" by blast
  with decided_facts(1) task(1) show ?thesis
    unfolding round by (simp add: finish_turn_def start_vars_def on_db_def ended_def)
qed

text \<open>A contract that asks for a tool that did not run: the completion is rejected and the run goes on.\<close>

definition strict_contract :: completion_contract where
  "strict_contract = \<lparr>cn_tools = [''x''], cn_types = [], cn_require_evidence = True\<rparr>"

definition rejected_db :: db where
  "rejected_db = snd (emit (sub 1 (sub 7 round_engine)) ''t'' ''status'' ''Completion rejected'' ''primary''
     [(''verified'', JBool False), (''reason'', JStr ''required tool result is missing'')] ''normal'' decided_db)"

lemma rejected:
  "is_ok (fst (emit (sub 1 (sub 7 round_engine)) ''t'' ''status'' ''Completion rejected'' ''primary''
     [(''verified'', JBool False), (''reason'', JStr ''required tool result is missing'')] ''normal'' decided_db))"
  by code_simp

lemma rejection_said:
  "is_ok (fst (say (sub 2 (sub 7 round_engine)) ''c'' \<lparr>nm_role = ''tool'',
     nm_content = ''Completion rejected: required tool result is missing'', nm_kind = ''tool-result'',
     nm_include = True, nm_related_task = Some ''t'', nm_metadata = [(''unresolved'', JBool True)],
     nm_session = None\<rparr> rejected_db))"
  by code_simp

lemma refused_round:
  obtains v' s' where "agent_round (finishing_agent\<lparr>ag_contract := strict_contract\<rparr>) (sub 1 (sub 1 (sub 3 scoped_engine)))
     1 start_vars (([], []), started_db) = (Ok (Turns v'), s')"
proof -
  let ?ag = "finishing_agent\<lparr>ag_contract := strict_contract\<rparr>"
  obtain task where round: "agent_round ?ag (sub 1 (sub 1 (sub 3 scoped_engine))) 1 start_vars (([], []), started_db) =
      finish_turn ?ag (sub 7 round_engine) 1 task finish_decision start_vars (([], []), decided_db)"
    and task: "tk_id task = ''t''" "tk_owner_role task = ''primary''" "tk_conversation task = Some ''c''"
    by (rule round_to_finish)
  from is_ok_pair [OF rejected] obtain ev where "emit (sub 1 (sub 7 round_engine)) ''t'' ''status'' ''Completion rejected'' ''primary''
     [(''verified'', JBool False), (''reason'', JStr ''required tool result is missing'')] ''normal'' decided_db = (Ok ev, rejected_db)"
    unfolding rejected_db_def by blast
  moreover from is_ok_pair [OF rejection_said] obtain m d' where "say (sub 2 (sub 7 round_engine)) ''c'' \<lparr>nm_role = ''tool'',
     nm_content = ''Completion rejected: required tool result is missing'', nm_kind = ''tool-result'',
     nm_include = True, nm_related_task = Some ''t'', nm_metadata = [(''unresolved'', JBool True)],
     nm_session = None\<rparr> rejected_db = (Ok m, d')" by blast
  moreover have "verify_completion strict_contract finish_decision [] ''t'' decided_db = (False, ''required tool result is missing'')"
    by (simp add: verify_completion_def strict_contract_def)
  ultimately have "finish_turn ?ag (sub 7 round_engine) 1 task finish_decision start_vars (([], []), decided_db) =
      (Ok (Turns (start_vars\<lparr>lv_no_progress := 1\<rparr>)), (([], []), d'))"
    using task by (simp add: finish_turn_def start_vars_def on_db_def say_if_bound_def progress_guard_def finishing_agent_def)
  with round show ?thesis using that by simp
qed

lemma finishing_run:
  obtains out s' where "run_agent finishing_agent sample_engine False False False (([], []), working_db) = (Ok out, s')"
    and "ou_state out = T_Completed"
proof -
  from entered_facts obtain task where task: "runnable ''t'' entered_db = Ok task" "tk_state task = T_Pending" "tk_id task = ''t''"
    by (cases "runnable ''t'' entered_db") (auto simp: runnable_def load_task_def and_then_def raise_if_def find_task_def
        split: sum.splits option.splits if_splits dest: select_one_SomeD)
  from is_ok_pair [OF started] obtain st where st: "change_task (sub 0 (sub 3 scoped_engine)) (no_update\<lparr>up_state := Some T_Running,
     up_phase := Some ''agent-loop''\<rparr>) ''t'' entered_db = (Ok st, started_db)" unfolding started_db_def by blast
  from finishing_round obtain out s1 where round: "agent_round finishing_agent (sub 1 (sub 1 (sub 3 scoped_engine))) 1 start_vars
    (([], []), started_db) = (Ok (Ended out), s1)" "ou_state out = T_Completed" by blast
  have agent: "ag_task finishing_agent = ''t''" "gl_iterations (ag_limits finishing_agent) = Suc 2"
    by (simp_all add: finishing_agent_def)
  have "agent_rounds finishing_agent (sub 1 (sub 3 scoped_engine)) (Suc 2) 1 start_vars (([], []), started_db) = (Ok out, s1)"
    using round(1) by (simp only: agent_rounds.simps and_next_simps turn.case)
  then have "run_registered finishing_agent (sub 3 scoped_engine) (([], []), entered_db) = (Ok out, s1)"
    using st by (simp add: run_registered_def agent on_db_def)
  then have scoped: "run_scoped finishing_agent scoped_engine False i (([], []), entered_db) = (Ok out, s1)" for i
    using task entered_facts(1) by (simp add: run_scoped_def agent on_db_def nothing_to_recover)
  from is_ok_pair [OF entered] obtain b where "enter_task_execution (here (sub 0 (sub 1 sample_engine))) (draw (sub 0 (sub 1 sample_engine)))
     None live_owner (seconds 30) [(''engine'', JStr ''agent-loop'')] ''t'' working_db = (Ok b, entered_db)"
    unfolding entered_db_def by blast
  moreover have "map_sum id tk_id (runnable ''t'' working_db) = Inr ''t''" by code_simp
  then obtain t0 where "runnable ''t'' working_db = Ok t0" "tk_id t0 = ''t''"
    by (cases "runnable ''t'' working_db") auto
  moreover have "en_owner sample_engine = live_owner" "en_ambient sample_engine = None" "en_owner (sub k g) = en_owner g" for k g
    by (simp_all add: sample_engine_def sub_def)
  ultimately have "fst (run_agent finishing_agent sample_engine False False False (([], []), working_db)) = Ok out"
    using scoped by (simp add: run_agent_def in_execution_scope_def on_db_def agent scoped_engine_def Let_def)
  then show ?thesis
    using that round(2) by (cases "run_agent finishing_agent sample_engine False False False (([], []), working_db)") auto
qed

end
