(* ===== verification/Runner_Samples.thy ===== *)
theory Runner_Samples
  imports Agent_Samples
begin

section \<open>Sample task runs\<close>

text \<open>
  The runs that the witnesses of the runner apply their theorems to: a run \<open>r\<close> of the task \<open>t\<close> that
  waits, runs or is asked to cancel, and a whole epoch whose stream ends at once.
\<close>

definition sample_run :: "run_state \<Rightarrow> string \<Rightarrow> task_run_row" where
  "sample_run state request = \<lparr>tr_id = ''r'', tr_task = ''t'', tr_conversation = Some ''c'', tr_role = ''general'',
     tr_state = state, tr_control_request = request, tr_epoch = 1, tr_created_at = 0, tr_started_at = None,
     tr_heartbeat_at = None, tr_finished_at = None, tr_finish_reason = None, tr_error = None,
     tr_output_message = None, tr_metadata = []\<rparr>"

definition run_db :: "task_state \<Rightarrow> run_state \<Rightarrow> string \<Rightarrow> db" where
  "run_db ts state request = working_db\<lparr>tasks := [(sample_task ''t'' ts)\<lparr>tk_conversation := Some ''c'', tk_owner_role := ''general''\<rparr>],
     task_runs := [sample_run state request]\<rparr>"

definition sample_heard :: heard where
  "sample_heard = \<lparr>hd_content = ''answer'', hd_reasoning = [], hd_finish = Some ''stop'', hd_usage = JNull\<rparr>"

subsection \<open>Replacing a lost run\<close>

lemma queued_over_lost: "is_ok (fst (create_run sample_engine None ''t'' (run_db T_Running Run_Running [])))"
  by code_simp

subsection \<open>One epoch\<close>

definition begun_db :: db where
  "begun_db = snd (start_run_epoch (sample_projector 1) (sub 0 sample_engine) ''r'' (run_db T_Pending Run_Queued ''cancel''))"

definition begun_task :: task_row where
  "begun_task = (case fst (start_run_epoch (sample_projector 1) (sub 0 sample_engine) ''r''
     (run_db T_Pending Run_Queued ''cancel'')) of Inr (task, _) \<Rightarrow> task | Inl _ \<Rightarrow> sample_task ''t'' T_Pending)"

definition begun_run :: task_run_row where
  "begun_run = (case fst (start_run_epoch (sample_projector 1) (sub 0 sample_engine) ''r''
     (run_db T_Pending Run_Queued ''cancel'')) of Inr (_, run) \<Rightarrow> run | Inl _ \<Rightarrow> sample_run Run_Queued [])"

definition epoch_request :: build_request where
  "epoch_request = \<lparr>bq_mode = ''task'', bq_question = None, bq_task = Some ''t'', bq_instruction = None,
     bq_output = None, bq_exact = True\<rparr>"

definition built :: "projection result \<times> projected" where
  "built = build (sample_projector 1) (here (sub 2 sample_engine)) (draw (sub 2 sample_engine) 0) (Some ''c'') ''general''
     epoch_request True ([], begun_db)"

lemma begun: "is_ok (fst (start_run_epoch (sample_projector 1) (sub 0 sample_engine) ''r'' (run_db T_Pending Run_Queued ''cancel'')))"
  by code_simp

lemma begun_facts:
  "map_option (\<lambda>r. (tr_control_request r, tr_state r)) (find_run begun_db ''r'') = Some ([], Run_Running)"
  "(tr_id begun_run, tr_conversation begun_run, tr_state begun_run) = (''r'', Some ''c'', Run_Running)"
  "(tk_id begun_task, tk_owner_role begun_task) = (''t'', ''general'')"
  by code_simp+

lemma begun_loads: obtains r where "load_task_run begun_db ''r'' = Ok r" "tr_id r = ''r''" "tr_control_request r = []"
proof -
  from begun_facts(1) obtain r where r: "find_run begun_db ''r'' = Some r" "tr_control_request r = []" by auto
  then have "load_task_run begun_db ''r'' = Ok r" "tr_id r = ''r''"
    by (auto simp: load_task_run_def find_run_def dest: select_one_SomeD)
  with r(2) that show ?thesis by blast
qed

lemma built_ok: "is_ok (fst built)"
  by code_simp

text \<open>What another process commits while the answer is streamed: the cancellation\<close>

definition cancel_requested :: "projected \<Rightarrow> projected" where
  "cancel_requested s = (fst s, (snd s)\<lparr>task_runs := map (\<lambda>r. r\<lparr>tr_control_request := ''cancel''\<rparr>) (task_runs (snd s))\<rparr>)"

definition streamed :: "heard result \<times> projected" where
  "streamed = listen (sub 3 sample_engine) ''r'' \<lparr>hd_content = [], hd_reasoning = [], hd_finish = None, hd_usage = JNull\<rparr>
     [(Chunk \<lparr>ck_content = ''answer'', ck_reasoning = [], ck_finish = None, ck_usage = JNull\<rparr>, cancel_requested)] (snd built)"

definition heard_answer :: heard where
  "heard_answer = \<lparr>hd_content = ''answer'', hd_reasoning = [], hd_finish = None, hd_usage = JNull\<rparr>"

lemma streamed_facts:
  "fst streamed = Ok heard_answer" "map_option tr_control_request (find_run (snd (snd streamed)) ''r'') = Some ''cancel''"
  by code_simp+

text \<open>The answer is discarded.\<close>

definition discard_engine :: engine where
  "discard_engine = sub 0 (sub 4 sample_engine)"

definition discarded_run :: "task_run_row \<Rightarrow> task_run_row" where
  "discarded_run x = x\<lparr>tr_state := Run_Cancelled, tr_control_request := [],
     tr_finished_at := Some (now (here (sub 0 discard_engine))), tr_finish_reason := Some ''cancelled-at-boundary'',
     tr_metadata := [(''discarded_output_chars'', JInt 6), (''reasoning_chars'', JInt 0)]\<rparr>"

definition discarded_db :: db where
  "discarded_db = snd (set_run (here (sub 0 discard_engine)) ''r'' discarded_run (snd (snd streamed)))"

definition cancelled_db :: db where
  "cancelled_db = snd (request_task_state (sub 1 discard_engine) T_Cancelled ''cancelled'' ''t'' discarded_db)"

lemma discarded: "is_ok (fst (set_run (here (sub 0 discard_engine)) ''r'' discarded_run (snd (snd streamed))))"
  by code_simp

lemma cancelled: "is_ok (fst (request_task_state (sub 1 discard_engine) T_Cancelled ''cancelled'' ''t'' discarded_db))"
  by code_simp

definition announced :: "task_event_row result \<times> db" where
  "announced = emit (sub 2 discard_engine) ''t'' ''status''
     ''Cancellation applied at inference boundary; generated output was not promoted''
     ''general'' [(''run_id'', JStr ''r'')] ''normal'' cancelled_db"

lemma announced_facts: "is_ok (fst announced)" "is_ok (load_task_run (snd announced) ''r'')"
  by code_simp+

lemma cancelled_stream:
  "\<exists>out. conclude_stream (sub 4 sample_engine) begun_task begun_run p heard_answer (snd (snd streamed)) =
     (Ok out, snd announced) \<and> eo_projection out = Some p"
proof -
  from is_ok_pair [OF discarded] obtain r where
    "set_run (here (sub 0 discard_engine)) ''r'' discarded_run (snd (snd streamed)) = (Ok r, discarded_db)"
    unfolding discarded_db_def by blast
  moreover from is_ok_pair [OF cancelled] obtain t where
    "request_task_state (sub 1 discard_engine) T_Cancelled ''cancelled'' ''t'' discarded_db = (Ok t, cancelled_db)"
    unfolding cancelled_db_def by blast
  moreover from is_ok_pair [OF announced_facts(1)] obtain ev d' where an: "announced = (Ok ev, d')" by blast
  moreover from announced_facts(2) obtain run where "load_task_run d' ''r'' = Ok run"
    by (cases "load_task_run (snd announced) ''r''") (auto simp: an)
  ultimately have "\<exists>out. discard_output discard_engine begun_task ''r'' p ''answer'' [] (snd (snd streamed)) =
      (Ok out, snd announced) \<and> eo_projection out = Some p"
    using begun_facts(3) an [unfolded announced_def]
    by (simp add: an discard_output_def discarded_run_def [abs_def])
  moreover from streamed_facts(2) have "pending_control ''r'' (snd (snd streamed)) = Ok ''cancel''"
    by (auto simp: pending_control_find)
  ultimately show ?thesis
    using begun_facts(2) by (simp add: conclude_stream_def heard_answer_def final_text_def discard_engine_def)
qed

lemma cancelled_epoch:
  obtains out where "run_epoch (sample_projector 1) (\<lambda>p. [(Chunk \<lparr>ck_content = ''answer'', ck_reasoning = [], ck_finish = None,
      ck_usage = JNull\<rparr>, cancel_requested)]) id None sample_engine ''r'' ([], run_db T_Pending Run_Queued ''cancel'') =
      (Ok out, (fst (snd streamed), snd announced))"
    and "eo_projection out \<noteq> None"
proof -
  from is_ok_pair [OF begun] obtain x where
    "start_run_epoch (sample_projector 1) (sub 0 sample_engine) ''r'' (run_db T_Pending Run_Queued ''cancel'') = (Ok x, begun_db)"
    unfolding begun_db_def by blast
  then have start: "start_run_epoch (sample_projector 1) (sub 0 sample_engine) ''r'' (run_db T_Pending Run_Queued ''cancel'') =
      (Ok (begun_task, begun_run), begun_db)"
    unfolding begun_task_def begun_run_def by (cases x) simp
  from is_ok_pair [OF built_ok] obtain p s1 where p: "built = (Ok p, s1)" by blast
  from streamed_facts(1) obtain s2 where heard: "streamed = (Ok heard_answer, s2)"
    by (metis prod.collapse)
  from cancelled_stream [of p] obtain out where
    "conclude_stream (sub 4 sample_engine) begun_task begun_run p heard_answer (snd (snd streamed)) = (Ok out, snd announced)"
    and out: "eo_projection out = Some p" by blast
  moreover obtain r where r: "load_task_run begun_db ''r'' = Ok r" "tr_id r = ''r''" "tr_control_request r = []"
    by (rule begun_loads)
  moreover from begun_facts(1) r(1) have "tr_state r = Run_Running" by (auto simp: load_task_run_def)
  moreover have "apply_boundary_control (sub 1 sample_engine) r begun_db = (Ok r, begun_db)"
    using r by (simp add: apply_boundary_control_def pending_control_def)
  ultimately have "run_epoch (sample_projector 1) (\<lambda>p. [(Chunk \<lparr>ck_content = ''answer'', ck_reasoning = [], ck_finish = None,
      ck_usage = JNull\<rparr>, cancel_requested)]) id None sample_engine ''r'' ([], run_db T_Pending Run_Queued ''cancel'') =
      (Ok out, (fst (snd streamed), snd announced))"
    using start heard [unfolded streamed_def p snd_conv] p [unfolded built_def epoch_request_def] begun_facts(2,3)
    unfolding heard snd_conv
    by (simp add: run_epoch_def on_db_def Let_def del: listen.simps)
  from that [OF this] out show ?thesis by simp
qed

end
