(* ===== verification/Guarantees_Agent.thy ===== *)
theory Guarantees_Agent
  imports Runner_Samples
begin

section \<open>Guarantees of the agent loop and of task runs\<close>

text \<open>
  The properties of the agent loop and of the runner, each with a witness on the runs of
  \<open>Agent_Samples\<close> and \<open>Runner_Samples\<close>.
\<close>

subsection \<open>The agent loop\<close>

text \<open>C9. Whatever the model and the tools of an agent do, a run that returns has left its task in the
  state it reports: paused, failed or cancelled, or completed.\<close>

theorem outcome_is_durable:
  assumes "run_agent ag g ending busy again s = (Ok out, s')"
  shows "task_status (snd s') (ag_task ag) = Some (ou_state out) \<and>
    ou_state out \<in> {T_Paused, T_Failed, T_Cancelled, T_Completed}"
  using run_agent_post [OF assms] by (auto simp: outcome_holds_def halted_def)

lemma outcome_is_durable_witness:
  "task_status (snd (snd (run_agent finishing_agent sample_engine False False False (([], []), working_db)))) ''t'' = Some T_Completed"
proof -
  obtain out s' where run: "run_agent finishing_agent sample_engine False False False (([], []), working_db) = (Ok out, s')"
    and "ou_state out = T_Completed" by (rule finishing_run)
  with outcome_is_durable [OF run] show ?thesis by (simp add: finishing_agent_def)
qed

text \<open>C3. A run reports completion only when the contract of the agent holds in the store it leaves:
  every required tool succeeded in this run, every required type of evidence has a record that
  belongs to the task, and there is some evidence of the task when the contract asks for it.\<close>

theorem completed_only_verified:
  assumes "run_agent ag g ending busy again s = (Ok out, s')" and "ou_state out = T_Completed"
    and "own = filter (\<lambda>v. ev_task v = Some (ag_task ag)) (evidence_records (snd s'))"
  shows "set (cn_tools (ag_contract ag)) \<subseteq> to_tool ` set (filter succeeded (ou_results out)) \<and>
    set (cn_types (ag_contract ag)) \<subseteq> ev_type ` set own \<and>
    (cn_require_evidence (ag_contract ag) \<longrightarrow> own \<noteq> [])"
proof -
  from run_agent_post [OF assms(1)] assms(2)
  have "completed_by (ag_contract ag) (ag_task ag) (ou_results out) (ou_reason out) (snd s')"
    by (simp add: outcome_holds_def halted_def)
  then obtain dn where "verify_completion (ag_contract ag) dn (ou_results out) (ag_task ag) (snd s') = (True, ou_reason out)"
    by (auto simp: completed_by_def)
  from verify_completion_sound [OF this] show ?thesis unfolding assms(3) by blast
qed

lemma completed_only_verified_witness:
  "''log'' \<in> ev_type ` set (filter (\<lambda>v. ev_task v = Some ''t'') (evidence_records
     (snd (snd (run_agent finishing_agent sample_engine False False False (([], []), working_db))))))"
proof -
  obtain out s' where run: "run_agent finishing_agent sample_engine False False False (([], []), working_db) = (Ok out, s')"
    and st: "ou_state out = T_Completed" by (rule finishing_run)
  from completed_only_verified [OF run st refl] run show ?thesis by (auto simp: finishing_agent_def)
qed

text \<open>A run asks the model at most as often as the agent's limits allow iterations, and takes at
  most two results of tools and their hooks in each.\<close>

theorem loop_bounded:
  assumes "run_agent ag g ending busy again s = (Ok out, s')"
  shows "ou_iterations out \<le> gl_iterations (ag_limits ag) \<and>
    length (ou_results out) \<le> 2 * gl_iterations (ag_limits ag)"
  using run_agent_post [OF assms] by (simp add: outcome_holds_def)

lemma loop_bounded_witness:
  "\<exists>out. fst (run_agent finishing_agent sample_engine False False False (([], []), working_db)) = Ok out \<and> ou_iterations out \<le> 3"
proof -
  obtain out s' where run: "run_agent finishing_agent sample_engine False False False (([], []), working_db) = (Ok out, s')"
    by (rule finishing_run)
  with loop_bounded [OF run] show ?thesis by (simp add: finishing_agent_def)
qed

text \<open>C25. The guards of the loop are an invariant of its iterations: as long as it goes on, fewer tools
  have failed than the limit, no call was repeated more often than the limit, and the turns
  without progress stay below theirs, apart from those that failures of tools added.\<close>

theorem guards_hold:
  assumes "agent_round ag g i v s = (Ok (Turns v'), s')" and "within_guards ag (2 * n) v" and "n < i"
  shows "within_guards ag (2 * Suc n) v'"
  using agent_round_post [of ag "2 * n" v i g s] assms by (simp add: turn_post_def)

lemma guards_hold_witness:
  "\<exists>v' s'. agent_round (finishing_agent\<lparr>ag_contract := strict_contract\<rparr>)
      (sub 1 (sub 1 (sub 3 scoped_engine))) 1 start_vars (([], []), started_db) = (Ok (Turns v'), s') \<and>
    within_guards (finishing_agent\<lparr>ag_contract := strict_contract\<rparr>) 2 v'"
proof -
  let ?ag = "finishing_agent\<lparr>ag_contract := strict_contract\<rparr>"
  obtain v' s' where round: "agent_round ?ag (sub 1 (sub 1 (sub 3 scoped_engine))) 1 start_vars (([], []), started_db) = (Ok (Turns v'), s')"
    by (rule refused_round)
  from guards_hold [OF round, of 0] round show ?thesis by (simp add: within_guards_start)
qed

subsection \<open>Applying controls\<close>

text \<open>C26. Draining the controls of a task at a boundary ends: more turns than one per pending control
  change nothing, and the turns given are never what stops it.\<close>

theorem controls_drained:
  assumes "pending_controls tid d < left"
  shows "drain_controls left g tid applied d = drain_controls (Suc (pending_controls tid d)) g tid applied d \<and>
    drained (en_owner g) tid (drain_controls left g tid applied d)"
  by (intro conjI drain_controls_enough drain_controls_drained) (use assms in auto)

lemma controls_drained_witness:
  "let d = working_db\<lparr>task_controls := [sample_control ''a'' Message 1 C_Pending, sample_control ''b'' Pause 2 C_Pending]\<rparr> in
   drain_controls 9 sample_engine ''t'' [] d = drain_controls 3 sample_engine ''t'' [] d \<and>
   drained live_owner ''t'' (drain_controls 9 sample_engine ''t'' [] d)"
proof -
  let ?d = "working_db\<lparr>task_controls := [sample_control ''a'' Message 1 C_Pending, sample_control ''b'' Pause 2 C_Pending]\<rparr>"
  have n: "pending_controls ''t'' ?d = 2" by (simp add: pending_controls_def count_where_def sample_control_def)
  then have "pending_controls ''t'' ?d < 9" by simp
  moreover have "en_owner sample_engine = live_owner" and "Suc 2 = 3" by (simp_all add: sample_engine_def)
  ultimately show ?thesis
    using controls_drained [of "''t''" ?d 9 sample_engine "[]"] unfolding Let_def n by metis
qed

subsection \<open>Task runs\<close>

text \<open>C29. A run is created alone: when a task had at most one open run, the queued one is its only open
  run afterwards, and an earlier one that was running without an owner is marked failed with the
  reason, not silently replaced.\<close>

theorem created_run_alone:
  assumes "length (open_runs d tid) \<le> 1" and "create_run g chosen tid d = (Ok row, d')"
  shows "open_runs d' tid = [row] \<and> tr_state row = Run_Queued \<and>
    (\<forall>x\<in>set (open_runs d tid). tr_state x = Run_Running \<and> (\<exists>y\<in>set (task_runs d'). tr_id y = tr_id x \<and>
      tr_state y = Run_Failed \<and> tr_finish_reason y = Some ''owner-lost''))"
  using create_run_Ok [OF assms] by blast

lemma created_run_alone_witness:
  "\<exists>row d'. create_run sample_engine None ''t'' (run_db T_Running Run_Running []) = (Ok row, d') \<and>
    open_runs d' ''t'' = [row]"
proof -
  from is_ok_pair [OF queued_over_lost] obtain row d'
    where run: "create_run sample_engine None ''t'' (run_db T_Running Run_Running []) = (Ok row, d')" by blast
  have "length (open_runs (run_db T_Running Run_Running []) ''t'') \<le> 1"
    by (simp add: open_runs_def run_db_def sample_run_def)
  from created_run_alone [OF this run] run show ?thesis by blast
qed

text \<open>C30. A cancellation that is requested while the model answers keeps the answer out of the
  conversation: no message and no checkpoint is written, and the run and the task end cancelled.\<close>

theorem cancelled_output_discarded:
  assumes "conclude_stream g task run p h d = (Ok out, d')" and "pending_control (tr_id run) d = Ok ''cancel''"
  shows "messages d' = messages d \<and> checkpoints d' = checkpoints d \<and> eo_content out = [] \<and>
    tr_state (eo_run out) = Run_Cancelled \<and> task_status d' (tk_id task) = Some T_Cancelled"
  using conclude_stream_Ok(2) [OF assms] by (simp add: written_def)

lemma cancelled_output_discarded_witness:
  "\<forall>p. \<exists>out d'. conclude_stream (sub 4 sample_engine) begun_task begun_run p heard_answer (snd (snd streamed)) = (Ok out, d') \<and>
    messages d' = messages (snd (snd streamed)) \<and> eo_content out = []"
proof
  fix p
  obtain out where fin: "conclude_stream (sub 4 sample_engine) begun_task begun_run p heard_answer (snd (snd streamed)) =
      (Ok out, snd announced)" using cancelled_stream by blast
  have "pending_control (tr_id begun_run) (snd (snd streamed)) = Ok ''cancel''"
    using streamed_facts(2) begun_facts(2) by (simp add: pending_control_find)
  from cancelled_output_discarded [OF fin this] fin
  show "\<exists>out d'. conclude_stream (sub 4 sample_engine) begun_task begun_run p heard_answer (snd (snd streamed)) = (Ok out, d') \<and>
    messages d' = messages (snd (snd streamed)) \<and> eo_content out = []" by blast
qed

text \<open>An epoch that asked the model and returned either completed its run and paused the task, for the
  operator to look at, or cancelled both without promoting anything.  It never completes the task.\<close>

theorem epoch_never_completes_task:
  assumes "run_epoch x answer others n g rid s = (Ok out, s')" and "eo_projection out \<noteq> None"
    and "find_run (snd s) rid = Some r"
  shows "task_status (snd s') (tr_task r) =
      Some (if tr_state (eo_run out) = Run_Completed then T_Paused else T_Cancelled) \<and>
    (tr_state (eo_run out) = Run_Completed \<or>
      tr_state (eo_run out) = Run_Cancelled \<and> eo_content out = [] \<and> eo_checkpoint out = None)"
  using run_epoch_Ok [OF assms] by auto

lemma epoch_never_completes_task_witness:
  "task_status (snd announced) ''t'' \<in> {Some T_Paused, Some T_Cancelled}"
proof -
  obtain out where run: "run_epoch (sample_projector 1) (\<lambda>p. [(Chunk \<lparr>ck_content = ''answer'', ck_reasoning = [], ck_finish = None,
      ck_usage = JNull\<rparr>, cancel_requested)]) id None sample_engine ''r'' ([], run_db T_Pending Run_Queued ''cancel'') =
      (Ok out, (fst (snd streamed), snd announced))"
    and asked: "eo_projection out \<noteq> None" by (rule cancelled_epoch)
  have "find_run (snd ([], run_db T_Pending Run_Queued ''cancel'')) ''r'' = Some (sample_run Run_Queued ''cancel'')"
    by (simp add: find_run_def run_db_def sample_run_def)
  from epoch_never_completes_task [OF run asked this] show ?thesis by (simp add: sample_run_def)
qed

text \<open>Starting a queued or paused run forgets the control that was requested for it: the boundary check
  that follows sees none, so that a cancellation or a pause requested while the run was waiting is
  lost and the epoch goes on to the model.\<close>

theorem queued_cancel_lost:
  assumes "start_run_epoch x g rid d = (Ok (task, run), d')" and "load_task_run d' rid = Ok r"
  shows "apply_boundary_control g' r d' = (Ok r, d') \<and> tr_state r = Run_Running"
proof -
  from start_run_epoch_Ok(1,2) [OF assms(1)] assms(2)
  have "tr_control_request r = []" "tr_state r = Run_Running" "tr_id r = rid"
    by (auto simp: pending_control_def load_task_run_def find_run_def split: option.splits dest: select_one_SomeD)
  with assms(2) show ?thesis by (simp add: apply_boundary_control_def pending_control_def)
qed

lemma queued_cancel_lost_witness:
  "map_option tr_control_request (find_run (run_db T_Pending Run_Queued ''cancel'') ''r'') = Some ''cancel'' \<and>
   (\<exists>r. apply_boundary_control sample_engine r begun_db = (Ok r, begun_db) \<and> tr_id r = ''r'' \<and> tr_state r = Run_Running)"
proof -
  from is_ok_pair [OF begun] obtain task run where start:
    "start_run_epoch (sample_projector 1) (sub 0 sample_engine) ''r'' (run_db T_Pending Run_Queued ''cancel'') = (Ok (task, run), begun_db)"
    unfolding begun_db_def by (metis surj_pair)
  obtain r where "load_task_run begun_db ''r'' = Ok r" "tr_id r = ''r''" by (rule begun_loads)
  with queued_cancel_lost [OF start this(1), of sample_engine] show ?thesis
    by (auto simp: find_run_def run_db_def sample_run_def)
qed

end
