(* ===== verification/Tool_Runtime.thy ===== *)
theory Tool_Runtime
  imports Journal Evidence
begin

section \<open>Authorizing and finishing a group of actions\<close>

text \<open>
  \<^verbatim>\<open>ToolRuntime\<close> of \<^verbatim>\<open>src/tars/tool_core.py\<close>: a tool asks for all its actions at once; either all
  of them begin, with the workspaces they touch leased to their owner, or those that began are
  cancelled and the leases are let go.  Each transaction reads its own clock and draws its own
  identifiers: \<open>step k\<close> gives those of the \<open>k\<close>-th.  \<open>lost\<close> is the error with which the heartbeats
  of the group end, if one of them failed; \<open>None\<close> when all leases were renewed.
\<close>

record tool_step =
  st_env :: env
  st_ids :: "nat \<Rightarrow> ident"

type_synonym tool_clock = "nat \<Rightarrow> tool_step"

record evaluated =
  vl_key :: string
  vl_request :: scope_request
  vl_decision :: decision

text \<open>The workspaces: the canonical targets of what is not denied and confined to paths, sorted\<close>

fun workspace_targets :: "policy_env \<Rightarrow> evaluated list \<Rightarrow> string list result" where
  "workspace_targets pe [] = Ok []"
| "workspace_targets pe (v # vs) = (if rq_allowed_paths (vl_request v) \<noteq> [] \<and> pd_action (vl_decision v) \<noteq> Deny \<and>
       pd_target (vl_decision v) \<noteq> []
     then and_then (canonical_path pe (pd_target (vl_decision v))) (\<lambda>p. and_then (workspace_targets pe vs) (\<lambda>ps. Ok (p # ps)))
     else workspace_targets pe vs)"

definition workspace_keys :: "policy_env \<Rightarrow> evaluated list \<Rightarrow> string list result" where
  "workspace_keys pe vs = and_then (workspace_targets pe vs) (\<lambda>ps. Ok (remdups (sort ps)))"

fun evaluate_all :: "policy_env \<Rightarrow> db \<Rightarrow> (string \<times> scope_request) list \<Rightarrow> evaluated list result" where
  "evaluate_all pe d [] = Ok []"
| "evaluate_all pe d ((key, r) # rs) = and_then (evaluate pe r d) (\<lambda>p. and_then (evaluate_all pe d rs) (\<lambda>vs.
     Ok (\<lparr>vl_key = key, vl_request = r, vl_decision = p\<rparr> # vs)))"

text \<open>What was claimed and begun before an error, with the error\<close>

type_synonym progress = "string list \<times> (action_row \<times> string option) list"

fun claim_workspaces ::
    "tool_clock \<Rightarrow> nat \<Rightarrow> owner \<Rightarrow> string \<Rightarrow> string list \<Rightarrow> string list \<Rightarrow> db \<Rightarrow> (error option \<times> string list) \<times> db" where
  "claim_workspaces step k ow tool [] claimed d = ((None, claimed), d)"
| "claim_workspaces step k ow tool (key # keys) claimed d =
    (let borrowed = held_by (st_env (step k)) (Workspace, key) ow d;
         (got, d1) = claim_workspace (st_env (step (k + 1))) key ow (seconds 86400) [(''tool'', JStr tool)] d in
     if \<not> got then ((Some (Runtime_Error ''workspace is exclusively owned by another executor''), claimed), d1)
     else claim_workspaces step (k + 2) ow tool keys (if borrowed then claimed else claimed @ [key]) d1)"

fun begin_actions ::
    "tool_clock \<Rightarrow> nat \<Rightarrow> policy_env \<Rightarrow> owner \<Rightarrow> (string \<Rightarrow> ident option) \<Rightarrow> evaluated list \<Rightarrow>
     (action_row \<times> string option) list \<Rightarrow> journaled \<Rightarrow>
     (error option \<times> (action_row \<times> string option) list) \<times> journaled" where
  "begin_actions step k pe ow named [] begun s = ((None, begun), s)"
| "begin_actions step k pe ow named (v # vs) begun s =
    (case begin_action (st_env (step k)) pe (st_ids (step k) 0) (st_ids (step k) 1) ow (vl_request v)
         (vl_decision v) (named (vl_key v)) (Some ow) s of
       (Inl err, s) \<Rightarrow> ((Some err, begun), s)
     | (Inr a, s) \<Rightarrow> begin_actions step (k + 1) pe ow named vs (begun @ [a]) s)"

fun cancel_actions ::
    "tool_clock \<Rightarrow> nat \<Rightarrow> owner \<Rightarrow> owner \<Rightarrow> (action_row \<times> string option) list \<Rightarrow> journaled \<Rightarrow> unit result \<times> journaled" where
  "cancel_actions step k caller ow [] s = (Ok (), s)"
| "cancel_actions step k caller ow (a # as) s =
     and_next (finish_action (st_env (step k)) (st_ids (step k) 0) caller (aj_id (fst a)) Act_Cancelled
       (error_result ''a required policy check failed'') (Some (ow_token ow)) s) (\<lambda>_ s.
     cancel_actions step (k + 1) caller ow as s)"

fun release_workspaces :: "tool_clock \<Rightarrow> nat \<Rightarrow> owner \<Rightarrow> string list \<Rightarrow> db \<Rightarrow> db" where
  "release_workspaces step k ow [] d = d"
| "release_workspaces step k ow (key # keys) d =
     release_workspaces step (k + 1) ow keys (snd (release (st_env (step k)) (Workspace, key) ow d))"

text \<open>\<^verbatim>\<open>except Exception\<close> of \<^verbatim>\<open>authorize\<close>: an error while undoing replaces the first one and leaves the
  rest undone.\<close>

definition undo_group ::
    "tool_clock \<Rightarrow> nat \<Rightarrow> owner \<Rightarrow> owner \<Rightarrow> error option \<Rightarrow> string list \<Rightarrow> (action_row \<times> string option) list \<Rightarrow>
     error \<Rightarrow> journaled \<Rightarrow> 'a result \<times> journaled" where
  "undo_group step k caller ow lost claimed begun err s =
     and_next (cancel_actions step k caller ow begun s) (\<lambda>_ s. case lost of
       Some e \<Rightarrow> (Err e, s)
     | None \<Rightarrow> (Err err, (fst s, release_workspaces step (k + length begun) ow (rev claimed) (snd s))))"

definition use_thread :: "nat \<Rightarrow> owner \<Rightarrow> journal \<Rightarrow> journal" where
  "use_thread thread ow j = j\<lparr>jn_threads := AList.update thread
     (ow, (case map_of (jn_threads j) thread of None \<Rightarrow> 0 | Some (_, n) \<Rightarrow> n) + 1) (jn_threads j)\<rparr>"

text \<open>\<open>scoped\<close> is the owner of the enclosing scope, \<open>own\<close> the one a process without one creates;
  \<open>named\<close> gives the approval of each request.\<close>

definition tool_owner :: "owner option \<Rightarrow> nat \<Rightarrow> owner \<Rightarrow> journal \<Rightarrow> owner" where
  "tool_owner scoped thread own j = (case scoped of Some ow \<Rightarrow> ow
     | None \<Rightarrow> (case map_of (jn_threads j) thread of Some (ow, _) \<Rightarrow> ow | None \<Rightarrow> own))"

definition authorize_actions ::
    "tool_clock \<Rightarrow> policy_env \<Rightarrow> owner \<Rightarrow> owner option \<Rightarrow> nat \<Rightarrow> owner \<Rightarrow> error option \<Rightarrow>
     (string \<Rightarrow> ident option) \<Rightarrow> (string \<times> scope_request) list \<Rightarrow> journaled \<Rightarrow>
     (action_row \<times> string option) list result \<times> journaled" where
  "authorize_actions step pe caller scoped thread own lost named requests s =
    (case and_then (evaluate_all pe (snd s) requests) (\<lambda>vs. and_then (workspace_keys pe vs) (\<lambda>keys. Ok (vs, keys))) of
       Inl err \<Rightarrow> (Inl err, s)
     | Inr (vs, keys) \<Rightarrow>
       let ow = tool_owner scoped thread own (fst s);
           tool = (case vs of [] \<Rightarrow> [] | v # _ \<Rightarrow> rq_tool (vl_request v));
           ((failed, claimed), d) = claim_workspaces step 0 ow tool keys [] (snd s);
           k = 2 * length keys in
       (case failed of
          Some err \<Rightarrow> undo_group step k caller ow lost claimed [] err (fst s, d)
        | None \<Rightarrow>
          let ((failed, begun), s1) = begin_actions step k pe ow named vs [] (fst s, d);
              k = k + length vs in
          (case failed of
             Some err \<Rightarrow> undo_group step k caller ow lost claimed begun err s1
           | None \<Rightarrow>
             if begun = [] then (Ok [], s1) else
             let j = (if scoped = None then use_thread thread ow (fst s1) else fst s1) in
             (Ok begun, (j\<lparr>jn_groups := jn_groups j @ [\<lparr>lg_waiting = map (aj_id \<circ> fst) begun, lg_keys = claimed,
                lg_owner = ow, lg_thread = (if scoped = None then Some thread else None)\<rparr>]\<rparr>, snd s1)))))"

subsection \<open>Letting a group go\<close>

definition leave_thread :: "lease_group \<Rightarrow> journal \<Rightarrow> journal" where
  "leave_thread grp j = (case lg_thread grp of None \<Rightarrow> j
   | Some thread \<Rightarrow>
       let groups = (case map_of (jn_threads j) thread of None \<Rightarrow> 1 | Some (_, n) \<Rightarrow> n) - 1 in
       j\<lparr>jn_threads := (if groups = 0 then AList.delete thread (jn_threads j)
          else AList.update thread (lg_owner grp, groups) (jn_threads j))\<rparr>)"

text \<open>The action leaves its group; with the last one the workspaces are released.\<close>

definition release_action_lease :: "tool_clock \<Rightarrow> nat \<Rightarrow> error option \<Rightarrow> ident \<Rightarrow> journaled \<Rightarrow> unit result \<times> journaled" where
  "release_action_lease step k lost aid s =
    (case find (\<lambda>grp. aid \<in> set (lg_waiting grp)) (jn_groups (fst s)) of
       None \<Rightarrow> (Ok (), s)
     | Some grp \<Rightarrow>
       let left = remove1 aid (lg_waiting grp) in
       if left \<noteq> [] then (Ok (), ((fst s)\<lparr>jn_groups := map (\<lambda>x. if x = grp then x\<lparr>lg_waiting := left\<rparr> else x)
           (jn_groups (fst s))\<rparr>, snd s))
       else ((case lost of None \<Rightarrow> Ok () | Some err \<Rightarrow> Err err),
          (leave_thread grp ((fst s)\<lparr>jn_groups := removeAll grp (jn_groups (fst s))\<rparr>),
           release_workspaces step k (lg_owner grp) (rev (lg_keys grp)) (snd s))))"

text \<open>\<^verbatim>\<open>finish\<close>: an action that cannot be finished is let go, and its error ends the loop.\<close>

fun finish_actions ::
    "tool_clock \<Rightarrow> nat \<Rightarrow> owner \<Rightarrow> error option \<Rightarrow> action_state \<Rightarrow> json \<Rightarrow> (action_row \<times> string option) list \<Rightarrow>
     journaled \<Rightarrow> unit result \<times> journaled" where
  "finish_actions step k caller lost st result [] s = (Ok (), s)"
| "finish_actions step k caller lost st result (a # as) s =
    (let (finished, s1) = finish_action (st_env (step k)) (st_ids (step k) 0) caller (aj_id (fst a)) st result (snd a) s;
         (released, s2) = release_action_lease step (k + 1) lost (aj_id (fst a)) s1 in
     case released of
       Inl err \<Rightarrow> (Err err, s2)
     | Inr _ \<Rightarrow> (case finished of Inl err \<Rightarrow> (Err err, s2)
         | Inr _ \<Rightarrow> finish_actions step (k + 2) caller lost st result as s2))"

definition tool_evidence ::
    "policy_env \<Rightarrow> ident \<Rightarrow> string \<Rightarrow> string \<Rightarrow> string \<Rightarrow> ident option \<Rightarrow> ident option \<Rightarrow> string \<Rightarrow> dict \<Rightarrow>
     db \<Rightarrow> evidence_row result \<times> db" where
  "tool_evidence pe eid etype source content task event result_ref metadata d =
     record_evidence pe eid etype source content task event result_ref metadata d"

end
