(* ===== verification/Journal_Safety.thy ===== *)
theory Journal_Safety
  imports Journal Approvals_Safety Lease_Facts
begin

section \<open>What the action journal guarantees\<close>

text \<open>
  Over any sequence of operations of the journal, the broker and the leases: an action that ended
  stays as it was recorded, and a one-call approval starts one action at most (interpretations of
  \<open>lifecycle\<close> and \<open>state_machine\<close>).  Then what holds when an action begins, and which actions the
  recovery touches.
\<close>

subsection \<open>How the journal may change\<close>

abbreviation entries :: "journaled \<Rightarrow> action_row list" where
  "entries s \<equiv> jn_actions (fst s)"

text \<open>The actions that were started under an approval\<close>

definition uses :: "journaled \<Rightarrow> ident \<Rightarrow> nat" where
  "uses s aid = count_where (\<lambda>r. aj_approval r = Some aid) (entries s)"

definition calls_ok :: "journaled \<Rightarrow> bool" where
  "calls_ok s = (\<forall>aid. aid \<noteq> [] \<longrightarrow> (case find_approval (snd s) aid of None \<Rightarrow> uses s aid = 0
     | Some a \<Rightarrow> ap_scope a = Call_Scope \<longrightarrow> uses s aid \<le> (if ap_state a = A_Consumed then 1 else 0)))"

definition journal_ok :: "journaled \<Rightarrow> bool" where
  "journal_ok s = (keys_distinct aj_id (entries s) \<and> keys_distinct ap_id (approvals (snd s)) \<and> calls_ok s)"

text \<open>What an action was asked to do and under which authority, without how it went\<close>

definition asked :: "action_row \<Rightarrow> action_row" where
  "asked r = r\<lparr>aj_state := Act_Proposed, aj_result := None, aj_completed_at := None\<rparr>"

definition goes_on :: "action_row \<Rightarrow> action_row \<Rightarrow> bool" where
  "goes_on r r' = (asked r' = asked r \<and> (action_final (aj_state r) \<longrightarrow> r' = r))"

lemma asked_update [simp]: "asked (r\<lparr>aj_state := st, aj_result := x, aj_completed_at := t\<rparr>) = asked r"
  by (simp add: asked_def)

lemma asked_fields:
  assumes "asked r' = asked r"
  shows "aj_id r' = aj_id r" and "aj_approval r' = aj_approval r"
  using arg_cong [OF assms, of aj_id] arg_cong [OF assms, of aj_approval] by (simp_all add: asked_def)

definition evolves :: "journaled \<Rightarrow> journaled \<Rightarrow> bool" where
  "evolves s s' = (journal_ok s \<longrightarrow> journal_ok s' \<and>
     (\<forall>aid r. find_action s aid = Some r \<longrightarrow> (\<exists>r'. find_action s' aid = Some r' \<and> goes_on r r')))"

lemma goes_on_refl [simp]: "goes_on r r"
  by (simp add: goes_on_def)

lemma goes_on_trans: "goes_on a b \<Longrightarrow> goes_on b c \<Longrightarrow> goes_on a c"
  by (auto simp: goes_on_def)

lemma evolves_refl [simp]: "evolves s s"
  by (simp add: evolves_def)

lemma evolves_trans [trans]: "evolves s s1 \<Longrightarrow> evolves s1 s2 \<Longrightarrow> evolves s s2"
  unfolding evolves_def by (meson goes_on_trans)

lemma calls_ok_kept:
  assumes "calls_ok s" and "approvals_kept (snd s) (snd s')" and "entries s' = entries s"
  shows "calls_ok s'"
  unfolding calls_ok_def
proof (intro allI impI)
  fix aid :: ident
  assume "aid \<noteq> []"
  with assms(1) have ok: "case find_approval (snd s) aid of None \<Rightarrow> uses s aid = 0
     | Some a \<Rightarrow> ap_scope a = Call_Scope \<longrightarrow> uses s aid \<le> (if ap_state a = A_Consumed then 1 else 0)"
    by (simp add: calls_ok_def)
  have same: "uses s' aid = uses s aid" by (simp add: uses_def assms(3))
  show "case find_approval (snd s') aid of None \<Rightarrow> uses s' aid = 0
     | Some a \<Rightarrow> ap_scope a = Call_Scope \<longrightarrow> uses s' aid \<le> (if ap_state a = A_Consumed then 1 else 0)"
  proof (cases "find_approval (snd s) aid")
    case None
    with ok same show ?thesis by (auto split: option.split)
  next
    case (Some a)
    with assms(2) obtain a' where "find_approval (snd s') aid = Some a'" "advances a a'"
      unfolding approvals_kept_def by blast
    with ok Some same show ?thesis by (auto simp: advances_def settled_approval_def split: if_splits)
  qed
qed

lemma evolves_quiet:
  assumes "approvals_kept (snd s) (snd s')" and "entries s' = entries s"
  shows "evolves s s'"
  using assms calls_ok_kept [OF _ assms]
  by (auto simp: evolves_def journal_ok_def approvals_kept_def find_action_def)

lemma evolves_db: "approvals_kept (snd s) (snd (f (snd s))) \<Longrightarrow> evolves s (snd (on_db f s))"
  by (rule evolves_quiet) simp_all

lemmas evolves_next = and_next_keeps [of "evolves s0" for s0]

lemma evolves_transact:
  assumes "evolves s0 s" and "\<And>x s'. body s = Ok (x, s') \<Longrightarrow> evolves s s'"
  shows "evolves s0 (snd (transact body s))"
  using assms by (cases "body s") (auto intro: evolves_trans)

lemma insert_action_Ok:
  "insert_action r s = Ok s' \<longleftrightarrow> s' = ((fst s)\<lparr>jn_actions := entries s @ [r]\<rparr>, snd s) \<and>
     action_lineage (snd s) r = None \<and> aj_id r \<notin> aj_id ` set (entries s) \<and> action_refs (snd s) r"
  by (auto simp: insert_action_def and_then_eq_Ok)

lemma update_actions_Ok:
  "update_actions P f s = Ok s' \<Longrightarrow> s' = ((fst s)\<lparr>jn_actions := update_where P f (entries s)\<rparr>, snd s)"
  by (auto simp: update_actions_def and_then_eq_Ok update_rows_eq_Ok)

lemma uses_update_where:
  assumes "\<And>r. aj_approval (f r) = aj_approval r"
  shows "uses ((fst s)\<lparr>jn_actions := update_where P f (entries s)\<rparr>, d) aid = uses s aid"
proof -
  have "count_where (\<lambda>r. aj_approval r = Some aid) (update_where P f t) = count_where (\<lambda>r. aj_approval r = Some aid) t" for t
    using assms by (induction t) auto
  then show ?thesis by (simp add: uses_def)
qed

text \<open>An update that ends running actions\<close>

lemma evolves_ended:
  assumes "update_actions P f s = Ok s'" and "\<And>r. P r \<Longrightarrow> aj_state r = Act_Running"
    and "\<And>r. asked (f r) = asked r"
  shows "evolves s s'"
proof -
  note s' = update_actions_Ok [OF assms(1)]
  have same: "aj_id (f r) = aj_id r" "aj_approval (f r) = aj_approval r" for r
    by (rule asked_fields [OF assms(3)])+
  have moved: "goes_on r (if P r then f r else r)" for r
    using assms(2) [of r] assms(3) [of r] by (auto simp: goes_on_def action_final_def)
  have "calls_ok s' = calls_ok s"
    unfolding s' calls_ok_def uses_update_where [of f, OF same(2)] snd_conv ..
  with moved show ?thesis
    by (auto simp: evolves_def journal_ok_def s' keys_distinct_update_where [of aj_id f, OF same(1)]
        find_action_def select_one_update_where [of aj_id f, OF same(1)])
qed


subsection \<open>Beginning an action\<close>

lemma consume_Ok:
  assumes "consume_in_transaction stamp approval d = Ok d1"
  shows "approvals_kept d d1" and "d1 = d\<lparr>approvals := approvals d1\<rparr>"
  using assms
  by (auto simp: consume_in_transaction_def and_then_eq_Ok Let_def advances_def settled_approval_def
      split: if_splits option.splits intro: update_approvals_kept dest: update_approvals_Ok)

lemma consume_call:
  assumes "consume_in_transaction stamp (Some aid) d = Ok d1" and "aid \<noteq> []" and "keys_distinct ap_id (approvals d)"
    and "find_approval d aid = Some a" and "ap_scope a = Call_Scope"
  shows "ap_state a = A_Approved" and "find_approval d1 aid = Some (a\<lparr>ap_state := A_Consumed, ap_consumed_at := Some stamp\<rparr>)"
proof -
  let ?P = "\<lambda>x. ap_id x = aid \<and> ap_state x = A_Approved"
  from assms(1,2,4,5) have one: "count_where ?P (approvals d) = 1"
    and d1: "d1 = d\<lparr>approvals := update_where ?P (\<lambda>x. x\<lparr>ap_state := A_Consumed, ap_consumed_at := Some stamp\<rparr>) (approvals d)\<rparr>"
    by (auto simp: consume_in_transaction_def and_then_eq_Ok Let_def missing_id_def dest!: update_approvals_Ok)
  from one obtain x where "x \<in> set (approvals d)" "?P x"
    using count_where_zero_iff [of ?P "approvals d"] by auto
  with find_approvalI [OF assms(3) this(1)] assms(4) show "ap_state a = A_Approved" by auto
  with assms(4) show "find_approval d1 aid = Some (a\<lparr>ap_state := A_Consumed, ap_consumed_at := Some stamp\<rparr>)"
    by (auto simp: d1 find_approval_def select_one_update_where dest: select_one_SomeD)
qed

lemma new_action_fields [simp]:
  "aj_id (new_action stamp aid uuid r p approval st result) = aid"
  "aj_approval (new_action stamp aid uuid r p approval st result) = approval"
  "aj_state (new_action stamp aid uuid r p approval st result) = st"
  "aj_task (new_action stamp aid uuid r p approval st result) = rq_task r"
  "aj_session (new_action stamp aid uuid r p approval st result) = rq_session r"
  by (simp_all add: new_action_def)

lemma lease_action_Ok:
  assumes "lease_action e aid r ow d = Ok d'"
  shows "d' = d\<lparr>resource_leases := resource_leases d'\<rparr>"
    and "leases_ok d \<Longrightarrow> find_lease d' (on_action aid) = Some (claimed_row e (on_action aid) ow (seconds 86400)
      [(''tool'', JStr (rq_tool r)), (''task_id'', opt_text (rq_task r))])"
    and "leases_ok d \<Longrightarrow> other \<noteq> on_action aid \<Longrightarrow> find_lease d' other = find_lease d other"
proof -
  let ?m = "[(''tool'', JStr (rq_tool r)), (''task_id'', opt_text (rq_task r))]"
  from assms have c: "claim_in_transaction e (on_action aid) ow (seconds 86400) ?m d = (True, d')"
    by (auto simp: lease_action_def Let_def split: prod.splits)
  show "d' = d\<lparr>resource_leases := resource_leases d'\<rparr>" using claim_frame [of e "on_action aid" ow "seconds 86400" ?m d d'] c by simp
  show "leases_ok d \<Longrightarrow> find_lease d' (on_action aid) = Some (claimed_row e (on_action aid) ow (seconds 86400) ?m)"
    by (rule claim_granted(1) [OF _ c])
  show "leases_ok d \<Longrightarrow> other \<noteq> on_action aid \<Longrightarrow> find_lease d' other = find_lease d other"
    by (rule claim_granted(2) [OF _ c])
qed

text \<open>What the transaction did when it returned\<close>

lemma create_action_in_transaction_Ok:
  assumes "create_action_in_transaction e aid uuid r p approval st result ow s = Ok (u, s')"
  obtains d1 ev d2 where "consume_in_transaction (now e) approval (snd s) = Ok d1"
    and "action_event (now e) uuid aid r p approval st d1 = Ok (ev, d2)" and "d2 = d1\<lparr>state_events := state_events d1 @ [ev]\<rparr>"
    and "action_refs d2 (new_action (now e) aid (se_uuid ev) r p approval st result)"
    and "action_lineage d2 (new_action (now e) aid (se_uuid ev) r p approval st result) = None"
    and "aid \<notin> aj_id ` set (entries s)"
    and "fst s' = (fst s)\<lparr>jn_actions := entries s @ [new_action (now e) aid (se_uuid ev) r p approval st result]\<rparr>"
    and "snd s' = d2\<lparr>resource_leases := resource_leases (snd s')\<rparr>"
    and "st = Act_Running \<Longrightarrow> lease_action e aid r ow d2 = Ok (snd s')" and "st \<noteq> Act_Running \<Longrightarrow> snd s' = d2"
proof -
  from assms obtain d1 ev d2 s3 d4 where consume: "consume_in_transaction (now e) approval (snd s) = Ok d1"
    and event: "action_event (now e) uuid aid r p approval st d1 = Ok (ev, d2)"
    and ins: "insert_action (new_action (now e) aid (se_uuid ev) r p approval st result) (fst s, d2) = Ok s3"
    and lease: "(if st = Act_Running then lease_action e aid r ow (snd s3) else Ok (snd s3)) = Ok d4"
    and s': "s' = (fst s3, d4)"
    unfolding create_action_in_transaction_def by (auto elim!: and_thenE)
  from ins have s3: "s3 = ((fst s)\<lparr>jn_actions := entries s @ [new_action (now e) aid (se_uuid ev) r p approval st result]\<rparr>, d2)"
    and refs: "action_refs d2 (new_action (now e) aid (se_uuid ev) r p approval st result)" "aid \<notin> aj_id ` set (entries s)"
      "action_lineage d2 (new_action (now e) aid (se_uuid ev) r p approval st result) = None"
    by (auto simp: insert_action_Ok)
  have "d4 = d2\<lparr>resource_leases := resource_leases d4\<rparr>"
    using lease lease_action_Ok(1) [of e aid r ow d2 d4] by (cases "st = Act_Running") (simp_all add: s3)
  with consume event insert_state_event_Ok [OF event [unfolded action_event_def]] refs lease show ?thesis
    by (intro that [of d1 ev d2]) (simp_all add: s3 s')
qed

lemma evolves_create:
  assumes "create_action_in_transaction e aid uuid r p approval st result ow s = Ok (u, s')"
  shows "evolves s s'"
  using assms
proof (rule create_action_in_transaction_Ok)
  fix d1 d2 :: db and ev :: state_event_row
  let ?r = "new_action (now e) aid (se_uuid ev) r p approval st result"
  assume consume: "consume_in_transaction (now e) approval (snd s) = Ok d1"
    and d2: "d2 = d1\<lparr>state_events := state_events d1 @ [ev]\<rparr>" and refs: "action_refs d2 ?r"
    and new: "aid \<notin> aj_id ` set (entries s)" and j: "fst s' = (fst s)\<lparr>jn_actions := entries s @ [?r]\<rparr>"
    and d': "snd s' = d2\<lparr>resource_leases := resource_leases (snd s')\<rparr>"
  have apps: "approvals (snd s') = approvals d1"
    using arg_cong [OF d', of approvals] by (simp add: d2)
  then have same: "find_approval (snd s') k = find_approval d1 k" for k by (simp add: find_approval_def)
  note kept = consume_Ok(1) [OF consume]
  have grown: "uses s' k = uses s k + (if approval = Some k then 1 else 0)" for k
    by (simp add: uses_def j)
  have "calls_ok s'" if ok: "journal_ok s"
    unfolding calls_ok_def
  proof (intro allI impI)
    fix k :: ident
    assume k: "k \<noteq> []"
    have calls_ok1: "calls_ok (fst s, d1)"
      by (rule calls_ok_kept [of s]) (use ok kept in \<open>simp_all add: journal_ok_def\<close>)
    show "case find_approval (snd s') k of None \<Rightarrow> uses s' k = 0
       | Some a \<Rightarrow> ap_scope a = Call_Scope \<longrightarrow> uses s' k \<le> (if ap_state a = A_Consumed then 1 else 0)"
    proof (cases "approval = Some k")
      case False
      then have used: "uses s' k = uses (fst s, d1) k" using grown [of k] by (simp add: uses_def)
      show ?thesis
        using mp [OF spec [OF calls_ok1 [unfolded calls_ok_def], of k] k] unfolding same used snd_conv .
    next
      case True
      with refs have "find_approval d2 k \<noteq> None" by (simp add: action_refs_def)
      then obtain a1 where a1: "find_approval d1 k = Some a1" by (auto simp: d2 find_approval_def)
      have "find_approval (snd s) k \<noteq> None"
      proof
        assume none: "find_approval (snd s) k = None"
        with consume k have "d1 = snd s" by (simp add: True consume_in_transaction_def missing_id_def)
        with none a1 show False by simp
      qed
      then obtain a where a: "find_approval (snd s) k = Some a" by auto
      with kept a1 have adv: "advances a a1" unfolding approvals_kept_def by force
      show ?thesis
      proof (cases "ap_scope a = Call_Scope")
        case call: True
        from ok have "keys_distinct ap_id (approvals (snd s))" by (simp add: journal_ok_def)
        note spent = consume_call [OF consume [unfolded True] k this a call]
        from ok have "calls_ok s" by (simp add: journal_ok_def)
        from mp [OF spec [OF this [unfolded calls_ok_def], of k] k] a call spent(1) have "uses s k = 0" by simp
        with spent(2) grown [of k] show ?thesis by (simp add: same True)
      next
        case False
        with adv a1 show ?thesis by (simp add: same advances_def)
      qed
    qed
  qed
  with kept new show ?thesis
    unfolding evolves_def
    by (auto simp: journal_ok_def j apps approvals_kept_def find_action_def select_one_append split: option.split)
qed


subsection \<open>Every operation\<close>

lemma load_approval_evolves: "evolves s s' \<Longrightarrow> evolves s (snd (load_action aid s', s'))"
  by simp

lemma create_action_evolves: "evolves s0 s \<Longrightarrow> evolves s0 (snd (create_action e aid uuid own r p approval st result ow s))"
  unfolding create_action_def
  by (intro evolves_next evolves_transact) (auto dest: evolves_create)

lemma begin_action_evolves:
  "evolves s (snd (begin_action e pe aid uuid own r p approval ow s))"
proof -
  have "evolves s (snd (on_db (authorize pe r p approval False) s))"
    by (rule evolves_db) (simp add: authorize_kept)
  then show ?thesis
    by (auto simp: begin_action_def record_denied_def split: sum.split error.split prod.split
        intro!: evolves_next create_action_evolves)
qed

lemma drop_lease_approvals [simp]: "approvals (drop_lease ty k token d) = approvals d"
  by (simp add: drop_lease_def)

lemma with_db_event_quiet:
  assumes "with_db (insert_state_event t uuid ty m s c tk ro pl v d) j = Ok (x, s')"
  shows "evolves (j, d) s'" and "evolves (j, d) (fst s', drop_lease lt lk token (snd s'))"
  using assms
  by (auto simp: with_db_def and_then_eq_Ok intro!: evolves_quiet approvals_kept_same dest!: insert_state_event_Ok)

lemma finish_in_transaction_evolves:
  assumes "finish_action_in_transaction e uuid caller row st x token s = Ok (u, s')"
  shows "evolves s s'"
proof -
  from assms obtain s2 ev s3 where up: "update_actions (\<lambda>y. aj_id y = aj_id row \<and> aj_state y = Act_Running)
      (\<lambda>y. y\<lparr>aj_state := st, aj_result := Some x, aj_completed_at := Some (now e)\<rparr>) s = Ok s2"
    and ev: "with_db (insert_state_event (now e) uuid ''tool_result'' (aj_tool row @ '': '' @ action_state_name st)
       (aj_session row) None (aj_task row) None
       [(''action_id'', JStr (aj_id row)), (''state'', JStr (action_state_name st)), (''result'', x)] ''normal'' (snd s2))
       (fst s2) = Ok (ev, s3)"
    and s': "s' = (fst s3, drop_lease (Other_Resource ''action'') (aj_id row) (the token) (snd s3))"
    unfolding finish_action_in_transaction_def Let_def by (auto elim!: and_thenE split: if_splits)
  have "evolves s s2" by (rule evolves_ended [OF up]) simp_all
  also have "evolves s2 s'" unfolding s' using with_db_event_quiet(2) [OF ev] by simp
  finally show ?thesis .
qed

lemma finish_action_evolves: "evolves s0 s \<Longrightarrow> evolves s0 (snd (finish_action e uuid caller aid st result token s))"
  unfolding finish_action_def
  by (auto intro!: evolves_next evolves_transact dest: finish_in_transaction_evolves)

lemma claim_quiet: "evolves s (fst s, snd (claim_in_transaction e res ow lease metadata (snd s)))"
  using claim_frame [of e res ow lease metadata "snd s"]
  by (intro evolves_quiet approvals_kept_same) (auto dest: arg_cong [of _ _ approvals])

lemma recover_action_evolves:
  assumes "recover_action e ow uuid row s = Ok (hit, s')"
  shows "evolves s s'"
proof -
  let ?P = "\<lambda>x. aj_id x = aj_id row \<and> aj_state x = Act_Running"
  let ?f = "\<lambda>x. x\<lparr>aj_state := Act_Unknown, aj_result := Some lost_result, aj_completed_at := Some (now e)\<rparr>"
  obtain claimed d where claim: "claim_in_transaction e (on_action (aj_id row)) ow (seconds 30)
      [(''recovery'', JBool True)] (snd s) = (claimed, d)" by (meson surj_pair)
  then have claimed: "evolves s (fst s, d)" using claim_quiet by (metis snd_conv)
  show ?thesis
  proof (cases claimed)
    case False
    with assms claim claimed show ?thesis by (simp add: recover_action_def)
  next
    case True
    with assms claim obtain s1 s2 where up: "update_actions ?P ?f (fst s, d) = Ok s1"
      and ev: "(if count_where ?P (entries s) = 0 then Ok s1 else
         and_then (with_db (insert_state_event (now e) uuid ''tool_result'' (aj_tool row @ '': unknown'')
           (aj_session row) None (aj_task row) None
           [(''action_id'', JStr (aj_id row)), (''state'', JStr ''unknown''), (''result'', lost_result)] ''normal'' (snd s1))
           (fst s1)) (\<lambda>(_, s2). Ok s2)) = Ok s2"
      and s': "s' = (fst s2, drop_lease (Other_Resource ''action'') (aj_id row) (ow_token ow) (snd s2))"
      by (auto simp: recover_action_def Let_def elim!: and_thenE)
    note claimed
    also have "evolves (fst s, d) s1" by (rule evolves_ended [OF up]) simp_all
    also have "evolves s1 s2"
    proof (cases "count_where ?P (entries s) = 0")
      case False
      with ev obtain x where "with_db (insert_state_event (now e) uuid ''tool_result'' (aj_tool row @ '': unknown'')
           (aj_session row) None (aj_task row) None
           [(''action_id'', JStr (aj_id row)), (''state'', JStr ''unknown''), (''result'', lost_result)] ''normal'' (snd s1))
           (fst s1) = Ok (x, s2)"
        unfolding if_not_P [OF False] by (elim and_thenE) (auto split: prod.splits)
      from with_db_event_quiet(1) [OF this] show ?thesis by simp
    qed (use ev in simp)
    also have "evolves s2 s'" unfolding s' by (rule evolves_quiet) (simp_all add: approvals_kept_same)
    finally show ?thesis .
  qed
qed

lemma recover_actions_evolves: "recover_actions e ow ids rows n s = Ok (m, s') \<Longrightarrow> evolves s s'"
proof (induction e ow ids rows n s rule: recover_actions.induct)
  case (2 e ow ids row rows n s)
  from 2(2) obtain hit s1 where step: "recover_action e ow (ids 0) row s = Ok (hit, s1)"
    and rest: "recover_actions e ow (\<lambda>k. ids (Suc k)) rows (if hit then n + 1 else n) s1 = Ok (m, s')"
    by (auto elim!: and_thenE)
  from recover_action_evolves [OF step] 2(1) [OF rest] show ?case by (rule evolves_trans)
qed simp

lemma recover_interrupted_evolves: "evolves s (snd (recover_interrupted_actions e ow ids s))"
  unfolding recover_interrupted_actions_def
  by (rule evolves_transact) (auto intro: recover_actions_evolves)

datatype journal_op =
    J_Begin env policy_env ident ident owner scope_request decision "ident option" "owner option"
  | J_Denied env ident ident owner scope_request decision
  | J_Finish env ident owner ident action_state json "string option"
  | J_Recover env owner "nat \<Rightarrow> ident"
  | J_Broker approval_op
  | J_Lease lease_op

fun journal_step :: "journal_op \<Rightarrow> journaled \<Rightarrow> journaled" where
  "journal_step (J_Begin e pe aid uuid own r p approval ow) s = snd (begin_action e pe aid uuid own r p approval ow s)"
| "journal_step (J_Denied e aid uuid own r p) s = snd (record_denied e aid uuid own r p s)"
| "journal_step (J_Finish e uuid caller aid st result token) s = snd (finish_action e uuid caller aid st result token s)"
| "journal_step (J_Recover e ow ids) s = snd (recover_interrupted_actions e ow ids s)"
| "journal_step (J_Broker op) s = (fst s, approval_step op (snd s))"
| "journal_step (J_Lease op) s = (fst s, lease_step op (snd s))"

lemma claim_approvals [simp]: "approvals (snd (claim_in_transaction e res ow lease metadata d)) = approvals d"
  using claim_frame [of e res ow lease metadata d] by (auto dest: arg_cong [of _ _ approvals])

lemma sweep_approvals [simp]: "approvals (snd (sweep_workspaces e key ow rows d)) = approvals d"
  using sweep_frame [of e key ow rows d] by auto

lemma lease_step_approvals: "approvals (lease_step op d) = approvals d"
  by (cases op) (auto simp: claim_def claim_workspace_def Let_def heartbeat_def update_external_process_fence_def
      and_then_def raise_if_def release_def split: sum.splits option.splits)

lemma journal_step_evolves: "evolves s (journal_step op s)"
proof (cases op)
  case (J_Broker op')
  then show ?thesis by (simp add: evolves_quiet approval_step_kept)
next
  case (J_Lease op')
  then show ?thesis by (simp add: evolves_quiet approvals_kept_same lease_step_approvals)
qed (simp_all add: begin_action_evolves record_denied_def create_action_evolves finish_action_evolves
    recover_interrupted_evolves)

interpretation journal_machine: state_machine journal_step journal_ok
  by unfold_locales (use journal_step_evolves in \<open>auto simp: evolves_def\<close>)

interpretation action_life: lifecycle journal_step journal_ok find_action "\<lambda>r. action_final (aj_state r)"
  by unfold_locales (use journal_step_evolves in \<open>force simp: evolves_def goes_on_def\<close>)


subsection \<open>What it takes to begin an action\<close>

lemmas leases_next = and_next_keeps [of "\<lambda>d. resource_leases d = L" for L]

lemmas leases_transact = transact_keeps [of "\<lambda>d. resource_leases d = L" for L]

lemma expire_leases [simp]: "resource_leases (snd (expire_approvals pe d)) = resource_leases d"
  unfolding expire_approvals_def
  by (rule leases_transact) (auto simp: and_then_eq_Ok dest!: update_approvals_Ok)

lemma authorize_leases [simp]: "resource_leases (snd (authorize pe r p aid False d)) = resource_leases d"
proof -
  have load: "resource_leases (snd (load_approval pe x d)) = resource_leases d" for x d
    unfolding load_approval_def by (rule leases_next) simp_all
  moreover have "resource_leases (snd (find_matching pe r p d)) = resource_leases d"
    unfolding find_matching_def list_approvals_def by (intro leases_next) simp_all
  ultimately have "resource_leases (snd (chosen_approval pe r p aid d)) = resource_leases d"
    unfolding chosen_approval_def by (auto intro!: leases_next)
  then show ?thesis
    unfolding authorize_def
    by (auto split: policy_action.split sum.split bool.split option.split intro!: leases_next)
qed

lemma create_action_Ok:
  assumes "create_action e aid uuid own r p approval Act_Running result ow s = (Ok (row, token), s')"
    and "leases_ok (snd s)"
  shows "find_action s' aid = Some row" and "aj_state row = Act_Running" and "aj_approval row = approval"
    and "aj_task row = rq_task r" and "aj_session row = rq_session r" and "token = Some (ow_token (or_else ow own))"
    and "map_option lease_owner (find_lease (snd s') (on_action aid)) = Some (or_else ow own)"
    and "\<And>a. approval = Some k \<Longrightarrow> k \<noteq> [] \<Longrightarrow> keys_distinct ap_id (approvals (snd s)) \<Longrightarrow>
      find_approval (snd s) k = Some a \<Longrightarrow> ap_scope a = Call_Scope \<Longrightarrow>
      find_approval (snd s') k = Some (a\<lparr>ap_state := A_Consumed, ap_consumed_at := Some (now e)\<rparr>)"
proof -
  from assms(1) obtain u where tx: "create_action_in_transaction e aid uuid r p approval Act_Running result (or_else ow own) s = Ok (u, s')"
    and load: "load_action aid s' = Ok row" and token: "token = Some (ow_token (or_else ow own))"
    by (auto simp: create_action_def transact_eq_Ok elim!: and_nextE)
  from tx obtain d1 d2 :: db and ev :: state_event_row where
      consume: "consume_in_transaction (now e) approval (snd s) = Ok d1"
    and d2: "d2 = d1\<lparr>state_events := state_events d1 @ [ev]\<rparr>"
    and new: "aid \<notin> aj_id ` set (entries s)"
    and j: "fst s' = (fst s)\<lparr>jn_actions := entries s @ [new_action (now e) aid (se_uuid ev) r p approval Act_Running result]\<rparr>"
    and d': "snd s' = d2\<lparr>resource_leases := resource_leases (snd s')\<rparr>"
    and lease: "lease_action e aid r (or_else ow own) d2 = Ok (snd s')"
    by (rule create_action_in_transaction_Ok) blast
  let ?r = "new_action (now e) aid (se_uuid ev) r p approval Act_Running result"
  have "find_action s' aid = Some ?r"
    using new by (auto simp: find_action_def j select_one_append select_one_None_iff split: option.split dest: select_one_SomeD)
  with load have row: "find_action s' aid = Some row" "row = ?r" by (simp_all add: load_action_def)
  then show "find_action s' aid = Some row" and "aj_state row = Act_Running" and "aj_approval row = approval"
    and "aj_task row = rq_task r" and "aj_session row = rq_session r" by (simp_all only: new_action_fields)
  show "token = Some (ow_token (or_else ow own))" by (rule token)
  have "leases_ok d2"
    using assms(2) arg_cong [OF consume_Ok(2) [OF consume], of resource_leases] by (simp add: leases_ok_def d2)
  with lease_action_Ok(2) [OF lease]
  show "map_option lease_owner (find_lease (snd s') (on_action aid)) = Some (or_else ow own)"
    by (simp add: claimed_row_def lease_owner_def)
  show "find_approval (snd s') k = Some (a\<lparr>ap_state := A_Consumed, ap_consumed_at := Some (now e)\<rparr>)"
    if "approval = Some k" "k \<noteq> []" "keys_distinct ap_id (approvals (snd s))"
      "find_approval (snd s) k = Some a" "ap_scope a = Call_Scope" for a
    using consume_call(2) [OF consume [unfolded that(1)] that(2-5)] arg_cong [OF d', of approvals]
    by (simp add: d2 find_approval_def)
qed

text \<open>What the broker had found, when an action begins\<close>

definition authorized_by :: "policy_env \<Rightarrow> scope_request \<Rightarrow> decision \<Rightarrow> db \<Rightarrow> approval_row \<Rightarrow> bool" where
  "authorized_by pe r p d a = (find_approval d (ap_id a) = Some a \<and> ap_state a = A_Approved \<and> unexpired pe a \<and> covers pe a r p)"

lemma begin_action_Ok:
  assumes "begin_action e pe aid uuid own r p approval ow s = (Ok (row, token), s')"
    and "leases_ok (snd s)" and "keys_distinct ap_id (approvals (snd s))"
  shows "pd_action p \<noteq> Deny" and "find_action s' aid = Some row" and "aj_state row = Act_Running"
    and "token = Some (ow_token (or_else ow own))"
    and "map_option lease_owner (find_lease (snd s') (on_action aid)) = Some (or_else ow own)"
    and "pd_action p = Ask \<Longrightarrow> \<exists>a. aj_approval row = Some (ap_id a) \<and> authorized_by pe r p (snd s) a \<and>
      (ap_scope a = Call_Scope \<longrightarrow> ap_id a \<noteq> [] \<longrightarrow>
        map_option ap_state (find_approval (snd s') (ap_id a)) = Some A_Consumed)"
proof -
  from assms(1) show deny: "pd_action p \<noteq> Deny"
    by (auto simp: begin_action_def elim!: and_nextE)
  obtain res s1 where auth: "on_db (authorize pe r p approval False) s = (res, s1)" by (meson surj_pair)
  with assms(1) deny obtain authorization where res: "res = Ok authorization"
    and create: "create_action e aid uuid own r p authorization Act_Running None ow s1 = (Ok (row, token), s')"
    by (cases res; cases "projl res") (auto simp: begin_action_def elim!: and_nextE)
  from auth res have au: "authorize pe r p approval False (snd s) = (Ok authorization, snd s1)"
    by (auto simp: on_db_def split: prod.splits)
  have ok: "leases_ok (snd s1)"
    using assms(2) authorize_leases [of pe r p approval "snd s"] au by (simp add: leases_ok_def)
  note made = create_action_Ok [OF create ok]
  show "find_action s' aid = Some row" and "aj_state row = Act_Running"
    and "token = Some (ow_token (or_else ow own))"
    and "map_option lease_owner (find_lease (snd s') (on_action aid)) = Some (or_else ow own)"
    by (rule made)+
  assume ask: "pd_action p = Ask"
  with au obtain k where k: "authorization = Some k"
    by (auto simp: authorize_def elim!: and_nextE split: option.splits if_splits sum.splits bool.splits)
  from au [unfolded k] assms(3) obtain a where a: "find_approval (snd s) k = Some a" "ap_state a = A_Approved" "unexpired pe a" "covers pe a r p"
    by (rule authorize_Ok)
  then have id: "ap_id a = k" by (simp add: find_approvalD)
  have kept: "approvals_kept (snd s) (snd s1)"
    using authorize_kept [of "snd s" "snd s" pe r p approval False] au by simp
  with a(1) obtain a' where a': "find_approval (snd s1) k = Some a'" "ap_scope a' = ap_scope a"
    unfolding approvals_kept_def advances_def by blast
  from kept assms(3) have "keys_distinct ap_id (approvals (snd s1))" by (simp add: approvals_kept_def)
  from made(8) [OF k _ this a'(1)] a'(2)
  have "map_option ap_state (find_approval (snd s') k) = Some A_Consumed" if "ap_scope a = Call_Scope" "k \<noteq> []"
    using that by simp
  with a id made(3) k show "\<exists>a. aj_approval row = Some (ap_id a) \<and> authorized_by pe r p (snd s) a \<and>
      (ap_scope a = Call_Scope \<longrightarrow> ap_id a \<noteq> [] \<longrightarrow>
        map_option ap_state (find_approval (snd s') (ap_id a)) = Some A_Consumed)"
    by (intro exI [of _ a]) (simp add: authorized_by_def)
qed

subsection \<open>Which actions the recovery touches\<close>

text \<open>Nobody holds the lease of the action, or it may be taken over.\<close>

definition abandoned :: "env \<Rightarrow> owner \<Rightarrow> db \<Rightarrow> ident \<Rightarrow> bool" where
  "abandoned e ow d aid = (case find_lease d (on_action aid) of None \<Rightarrow> True
     | Some l \<Rightarrow> lease_owner l = ow \<or> reclaimable e l)"

definition lost_action :: "env \<Rightarrow> action_row \<Rightarrow> action_row" where
  "lost_action e r = r\<lparr>aj_state := Act_Unknown, aj_result := Some lost_result, aj_completed_at := Some (now e)\<rparr>"

lemma claim_action_iff:
  assumes "leases_ok d" and "claim_in_transaction e (on_action aid) ow lease metadata d = (claimed, d')"
  shows "claimed = abandoned e ow d aid" and "leases_ok d'"
    and "res \<noteq> on_action aid \<Longrightarrow> find_lease d' res = find_lease d res"
  using claim_free_iff [OF assms(1) _ assms(2)] by (simp_all add: abandoned_def free_for_def)

lemma update_where_eq: "(\<And>r. r \<in> set t \<Longrightarrow> P r = Q r) \<Longrightarrow> update_where P f t = update_where Q f t"
  by (simp add: update_where_def)

lemma update_where_twice:
  "(\<And>r. P r \<Longrightarrow> \<not> Q (f r)) \<Longrightarrow> update_where Q f (update_where P f t) = update_where (\<lambda>r. P r \<or> Q r) f t"
  by (simp add: update_where_def)

lemma recover_action_exact:
  assumes "recover_action e ow uuid row s = Ok (hit, s')" and "leases_ok (snd s)"
  shows "entries s' = update_where (\<lambda>r. aj_state r = Act_Running \<and> aj_id r = aj_id row \<and> abandoned e ow (snd s) (aj_id r))
      (lost_action e) (entries s)" and "leases_ok (snd s')"
    and "res \<noteq> on_action (aj_id row) \<Longrightarrow> find_lease (snd s') res = find_lease (snd s) res"
proof -
  let ?P = "\<lambda>x. aj_id x = aj_id row \<and> aj_state x = Act_Running"
  let ?Q = "\<lambda>r. aj_state r = Act_Running \<and> aj_id r = aj_id row \<and> abandoned e ow (snd s) (aj_id r)"
  obtain claimed d where claim: "claim_in_transaction e (on_action (aj_id row)) ow (seconds 30)
      [(''recovery'', JBool True)] (snd s) = (claimed, d)" by (meson surj_pair)
  note c = claim_action_iff [OF assms(2) claim]
  have "entries s' = update_where ?Q (lost_action e) (entries s) \<and> leases_ok (snd s') \<and>
      (\<forall>res. res \<noteq> on_action (aj_id row) \<longrightarrow> find_lease (snd s') res = find_lease (snd s) res)"
  proof (cases claimed)
    case False
    with assms(1) claim have "s' = (fst s, d)" by (simp add: recover_action_def)
    moreover have "update_where ?Q (lost_action e) (entries s) = entries s"
      by (rule update_where_idle) (use c(1) False in auto)
    ultimately show ?thesis using c by simp
  next
    case True
    with assms(1) claim obtain s1 s2 where up: "update_actions ?P (\<lambda>x. x\<lparr>aj_state := Act_Unknown, aj_result := Some lost_result, aj_completed_at := Some (now e)\<rparr>) (fst s, d) = Ok s1"
      and ev: "(if count_where ?P (entries s) = 0 then Ok s1 else
         and_then (with_db (insert_state_event (now e) uuid ''tool_result'' (aj_tool row @ '': unknown'')
           (aj_session row) None (aj_task row) None
           [(''action_id'', JStr (aj_id row)), (''state'', JStr ''unknown''), (''result'', lost_result)] ''normal'' (snd s1))
           (fst s1)) (\<lambda>(_, s2). Ok s2)) = Ok s2"
      and s': "s' = (fst s2, drop_lease (Other_Resource ''action'') (aj_id row) (ow_token ow) (snd s2))"
      by (auto simp: recover_action_def Let_def elim!: and_thenE)
    have s1: "s1 = ((fst s)\<lparr>jn_actions := update_where ?P (lost_action e) (entries s)\<rparr>, d)"
      using update_actions_Ok [OF up] by (simp add: lost_action_def [abs_def])
    have "fst s2 = fst s1 \<and> resource_leases (snd s2) = resource_leases d"
      using ev by (cases "count_where ?P (entries s) = 0")
        (auto simp: s1 with_db_def elim!: and_thenE dest!: insert_state_event_Ok)
    then have s2: "fst s2 = fst s1" "leases_ok (snd s2)" "find_lease (snd s2) res = find_lease d res" for res
      using c(2) by (simp_all add: leases_ok_def find_lease_def)
    have "entries s' = update_where ?Q (lost_action e) (entries s)"
      using s2(1) c(1) True by (auto simp: s' s1 intro!: update_where_eq)
    with drop_lease_facts [OF s2(2)] s2(3) c(3) show ?thesis by (auto simp: s')
  qed
  then show "entries s' = update_where ?Q (lost_action e) (entries s)" and "leases_ok (snd s')"
    and "res \<noteq> on_action (aj_id row) \<Longrightarrow> find_lease (snd s') res = find_lease (snd s) res" by blast+
qed

lemma recover_actions_exact:
  assumes "recover_actions e ow ids rows n s = Ok (m, s')" and "leases_ok (snd s)" and "distinct (map aj_id rows)"
  shows "entries s' = update_where (\<lambda>r. aj_state r = Act_Running \<and> aj_id r \<in> aj_id ` set rows \<and> abandoned e ow (snd s) (aj_id r))
      (lost_action e) (entries s)"
  using assms
proof (induction e ow ids rows n s rule: recover_actions.induct)
  case (1 e ow ids n s)
  then show ?case by (simp add: update_where_idle)
next
  case (2 e ow ids row rows n s)
  from 2(2) obtain hit s1 where step: "recover_action e ow (ids 0) row s = Ok (hit, s1)"
    and rest: "recover_actions e ow (\<lambda>k. ids (Suc k)) rows (if hit then n + 1 else n) s1 = Ok (m, s')"
    by (auto elim!: and_thenE)
  note one = recover_action_exact [OF step 2(3)]
  let ?P = "\<lambda>r. aj_state r = Act_Running \<and> aj_id r = aj_id row \<and> abandoned e ow (snd s) (aj_id r)"
  let ?Q = "\<lambda>d r. aj_state r = Act_Running \<and> aj_id r \<in> aj_id ` set rows \<and> abandoned e ow d (aj_id r)"
  from 2(4) have "distinct (map aj_id rows)" by simp
  from 2(1) [OF rest one(2) this] have "entries s' = update_where (?Q (snd s1)) (lost_action e) (update_where ?P (lost_action e) (entries s))"
    by (simp only: one(1))
  also have "?Q (snd s1) = ?Q (snd s)"
  proof -
    have "abandoned e ow (snd s1) k = abandoned e ow (snd s) k" if "k \<in> aj_id ` set rows" for k
    proof -
      have "k \<noteq> aj_id row"
      proof
        assume "k = aj_id row"
        with that 2(4) show False by simp
      qed
      then have "on_action k \<noteq> on_action (aj_id row)" by simp
      from one(3) [OF this] show ?thesis by (simp add: abandoned_def)
    qed
    then show ?thesis by (auto simp: fun_eq_iff)
  qed
  also have "update_where (?Q (snd s)) (lost_action e) (update_where ?P (lost_action e) (entries s)) =
      update_where (\<lambda>r. aj_state r = Act_Running \<and> aj_id r \<in> aj_id ` set (row # rows) \<and> abandoned e ow (snd s) (aj_id r))
        (lost_action e) (entries s)"
    by (subst update_where_twice, simp add: lost_action_def, rule update_where_eq)
      (simp only: list.set image_insert insert_iff, blast)
  finally show ?case .
qed

lemma recover_interrupted_exact:
  assumes "recover_interrupted_actions e ow ids s = (Ok n, s')" and "leases_ok (snd s)" and "keys_distinct aj_id (entries s)"
  shows "entries s' = update_where (\<lambda>r. aj_state r = Act_Running \<and> abandoned e ow (snd s) (aj_id r)) (lost_action e) (entries s)"
proof -
  let ?rows = "filter (\<lambda>r. aj_state r = Act_Running) (entries s)"
  from assms(1) have run: "recover_actions e ow ids ?rows 0 s = Ok (n, s')"
    by (simp add: recover_interrupted_actions_def transact_eq_Ok)
  have "distinct (map aj_id ?rows)" using assms(3) by (simp add: distinct_map_filter)
  from recover_actions_exact [OF run assms(2) this] show ?thesis
    by (auto intro!: update_where_eq)
qed

end
