(* ===== verification/Tool_Safety.thy ===== *)
theory Tool_Safety
  imports Tool_Runtime Journal_Safety
begin

section \<open>A group of actions begins whole or not at all\<close>

text \<open>
  When \<^verbatim>\<open>authorize\<close> returns, every request has a running action whose lease the group's owner
  holds; when it raises, every action it added to the journal has ended, unless the error is that
  of ending one.
\<close>

subsection \<open>What beginning one action adds\<close>

definition begun_by :: "owner \<Rightarrow> journaled \<Rightarrow> action_row \<times> string option \<Rightarrow> bool" where
  "begun_by ow s a = (find_action s (aj_id (fst a)) = Some (fst a) \<and> aj_state (fst a) = Act_Running \<and>
     map_option lease_owner (find_lease (snd s) (on_action (aj_id (fst a)))) = Some ow \<and>
     snd a = Some (ow_token ow))"

lemma create_transaction_adds:
  assumes "create_action_in_transaction e aid uuid r p approval st result ow s = Ok (u, s')"
  shows "\<exists>row. entries s' = entries s @ [row] \<and> aj_id row = aid \<and> aj_state row = st" and "aid \<notin> aj_id ` set (entries s)"
    and "leases_ok (snd s) \<Longrightarrow> leases_ok (snd s')"
    and "leases_ok (snd s) \<Longrightarrow> other \<noteq> on_action aid \<Longrightarrow> find_lease (snd s') other = find_lease (snd s) other"
proof -
  from assms obtain d1 d2 :: db and ev :: state_event_row where
      consume: "consume_in_transaction (now e) approval (snd s) = Ok d1"
    and d2: "d2 = d1\<lparr>state_events := state_events d1 @ [ev]\<rparr>"
    and new: "aid \<notin> aj_id ` set (entries s)"
    and j: "fst s' = (fst s)\<lparr>jn_actions := entries s @ [new_action (now e) aid (se_uuid ev) r p approval st result]\<rparr>"
    and lease: "st = Act_Running \<Longrightarrow> lease_action e aid r ow d2 = Ok (snd s')" "st \<noteq> Act_Running \<Longrightarrow> snd s' = d2"
    by (rule create_action_in_transaction_Ok) blast
  show "aid \<notin> aj_id ` set (entries s)" by (rule new)
  show "\<exists>row. entries s' = entries s @ [row] \<and> aj_id row = aid \<and> aj_state row = st" by (simp add: j)
  have same: "resource_leases d2 = resource_leases (snd s)"
    using arg_cong [OF consume_Ok(2) [OF consume], of resource_leases] by (simp add: d2)
  show "leases_ok (snd s')" if "leases_ok (snd s)"
  proof (cases "st = Act_Running")
    case True
    from that same have "leases_ok d2" by (simp add: leases_ok_def)
    from claim_leases_ok [OF this] lease(1) [OF True] show ?thesis
      by (auto simp: lease_action_def Let_def split: prod.splits) (metis snd_conv)
  qed (use that same lease in \<open>simp add: leases_ok_def\<close>)
  show "find_lease (snd s') other = find_lease (snd s) other" if "leases_ok (snd s)" "other \<noteq> on_action aid"
  proof (cases "st = Act_Running")
    case True
    from that same have "leases_ok d2" by (simp add: leases_ok_def)
    from lease_action_Ok(3) [OF lease(1) [OF True] this that(2)] same show ?thesis by (simp add: find_lease_def)
  qed (use same lease in \<open>simp add: find_lease_def\<close>)
qed

text \<open>Beginning an action adds it to the journal, or adds a denied one, or adds nothing.\<close>

definition adds :: "ident \<Rightarrow> action_state \<Rightarrow> journaled \<Rightarrow> journaled \<Rightarrow> bool" where
  "adds aid st s s' = ((\<exists>row. entries s' = entries s @ [row] \<and> aj_id row = aid \<and> aj_state row = st) \<and>
     aid \<notin> aj_id ` set (entries s))"

definition lets_be :: "ident \<Rightarrow> journaled \<Rightarrow> journaled \<Rightarrow> bool" where
  "lets_be aid s s' = (leases_ok (snd s) \<longrightarrow> leases_ok (snd s') \<and>
     (\<forall>other. other \<noteq> on_action aid \<longrightarrow> find_lease (snd s') other = find_lease (snd s) other))"

lemma create_action_adds:
  assumes "create_action e aid uuid own r p approval st result ow s = (x, s')"
  shows "s' = s \<or> adds aid st s s'" and "lets_be aid s s'" and "x = Ok y \<Longrightarrow> adds aid st s s'"
    and "x = Err err \<Longrightarrow> s' = s"
proof -
  have "(s' = s \<or> adds aid st s s') \<and> lets_be aid s s' \<and> ((\<exists>y. x = Ok y) \<longrightarrow> adds aid st s s') \<and> ((\<exists>err. x = Err err) \<longrightarrow> s' = s)"
  proof (cases "create_action_in_transaction e aid uuid r p approval st result (or_else ow own) s")
    case (Inl err)
    with assms show ?thesis by (auto simp: create_action_def lets_be_def)
  next
    case (Inr z)
    then obtain u s1 where tx: "create_action_in_transaction e aid uuid r p approval st result (or_else ow own) s = Ok (u, s1)"
      by (cases z) auto
    with assms have "s' = s1"
      by (auto simp: create_action_def and_next_def transact_def split: sum.splits)
    from create_transaction_adds(1,2) [OF tx] obtain row where "find_action s1 aid = Some row"
      by (auto simp: find_action_def select_one_append_new)
    with assms tx have "\<exists>y. x = Ok y"
      by (auto simp: create_action_def and_next_def transact_def load_action_def)
    with \<open>s' = s1\<close> create_transaction_adds [OF tx] show ?thesis by (auto simp: adds_def lets_be_def)
  qed
  then show "s' = s \<or> adds aid st s s'" and "lets_be aid s s'" and "x = Ok y \<Longrightarrow> adds aid st s s'"
    and "x = Err err \<Longrightarrow> s' = s" by auto
qed

lemma lets_be_same: "resource_leases (snd s') = resource_leases (snd s) \<Longrightarrow> lets_be aid s s'"
  by (simp add: lets_be_def leases_ok_def find_lease_def)

lemma lets_be_trans: "lets_be aid s s1 \<Longrightarrow> lets_be aid s1 s2 \<Longrightarrow> lets_be aid s s2"
  by (simp add: lets_be_def)

lemma begin_action_adds:
  assumes "begin_action e pe aid uuid own r p approval ow s = (x, s')"
  shows "entries s' = entries s \<or> adds aid Act_Denied s s' \<or> adds aid Act_Running s s'" and "lets_be aid s s'"
    and "x = Ok y \<Longrightarrow> adds aid Act_Running s s'"
    and "x = Err err \<Longrightarrow> entries s' = entries s \<and> resource_leases (snd s') = resource_leases (snd s) \<or> adds aid Act_Denied s s'"
proof -
  obtain res s1 where auth: "on_db (authorize pe r p approval False) s = (res, s1)" by (meson surj_pair)
  then have j: "fst s1 = fst s" and leases: "resource_leases (snd s1) = resource_leases (snd s)"
    using fst_on_db [of "authorize pe r p approval False" s] snd_on_db(1) [of "authorize pe r p approval False" s] by auto
  then have same: "adds aid st s1 s' = adds aid st s s'" "lets_be aid s s1" for st
    by (simp_all add: adds_def lets_be_same)
  let ?goal = "(case x of Inr _ \<Rightarrow> adds aid Act_Running s s' | Inl _ \<Rightarrow> entries s' = entries s \<and> resource_leases (snd s') = resource_leases (snd s) \<or>
    adds aid Act_Denied s s') \<and> lets_be aid s s'"
  have ?goal
  proof (cases "pd_action p = Deny")
    case True
    obtain x1 s2 where c: "create_action e aid uuid own r p None Act_Denied (Some (error_result (pd_reason p))) None s = (x1, s2)"
      by (meson surj_pair)
    with assms True have "s' = s2" "\<exists>err. x = Err err" by (auto simp: begin_action_def record_denied_def and_next_def split: sum.splits)
    with create_action_adds(1,2) [OF c] show ?thesis by (cases x) auto
  next
    case False
    note begun = assms [unfolded begin_action_def if_not_P [OF False] auth]
    show ?thesis
    proof (cases res)
      case (Inr authorization)
      with begun have c: "create_action e aid uuid own r p authorization Act_Running None ow s1 = (x, s')" by simp
      note made = create_action_adds [OF c]
      from made(2) same(2) lets_be_trans have "lets_be aid s s'" by blast
      with made(3,4) j leases same(1) show ?thesis by (cases x) simp_all
    next
      case (Inl err)
      show ?thesis
      proof (cases "\<exists>m. err = Permission_Error m")
        case True
        then obtain m where m: "err = Permission_Error m" by blast
        obtain x1 s2 where c: "create_action e aid uuid own r p None Act_Denied (Some (error_result m)) None s1 = (x1, s2)"
          by (meson surj_pair)
        with begun Inl m have "s' = s2" "\<exists>err. x = Err err" by (auto simp: and_next_def split: sum.splits)
        with create_action_adds(1,2) [OF c] same lets_be_trans j leases show ?thesis by (cases x) auto
      next
        case False
        with begun Inl have "s' = s1" "x = Err err" by (auto split: error.splits)
        with j same leases show ?thesis by simp
      qed
    qed
  qed
  then show "entries s' = entries s \<or> adds aid Act_Denied s s' \<or> adds aid Act_Running s s'" and "lets_be aid s s'"
    and "x = Ok y \<Longrightarrow> adds aid Act_Running s s'"
    and "x = Err err \<Longrightarrow> entries s' = entries s \<and> resource_leases (snd s') = resource_leases (snd s) \<or> adds aid Act_Denied s s'"
    by (auto split: sum.splits)
qed

subsection \<open>Beginning all of them\<close>

lemma adds_find: "adds aid st s s' \<Longrightarrow> find_action s k = Some r \<Longrightarrow> find_action s' k = Some r"
  by (auto simp: adds_def find_action_def select_one_append)

lemma adds_new: "adds aid st s s' \<Longrightarrow> find_action s k = None \<Longrightarrow> find_action s' k = Some r \<Longrightarrow> k = aid \<and> aj_state r = st"
  by (auto simp: adds_def find_action_def select_one_append split: if_splits)

lemma begun_by_stays:
  assumes "begun_by ow s a" and "adds aid st s s'" and "lets_be aid s s'" and "leases_ok (snd s)"
  shows "begun_by ow s' a"
proof -
  from assms(1) have "aj_id (fst a) \<in> aj_id ` set (entries s)"
    by (auto simp: begun_by_def find_action_def dest: select_one_SomeD)
  with assms(2) have "aj_id (fst a) \<noteq> aid" by (auto simp: adds_def)
  with assms show ?thesis by (auto simp: begun_by_def lets_be_def intro: adds_find)
qed

text \<open>Every action that is new since \<open>s0\<close> is in the list, or has ended.\<close>

definition accounted :: "journaled \<Rightarrow> (action_row \<times> string option) list \<Rightarrow> journaled \<Rightarrow> bool" where
  "accounted s0 begun s = (\<forall>k r. find_action s0 k = None \<longrightarrow> find_action s k = Some r \<longrightarrow>
     k \<in> (aj_id \<circ> fst) ` set begun \<or> action_final (aj_state r))"

lemma accounted_step:
  assumes "accounted s0 begun s" and "adds aid st s s'"
    and "st = Act_Running \<Longrightarrow> aid \<in> (aj_id \<circ> fst) ` set begun'" and "st = Act_Running \<or> action_final st"
    and "set begun \<subseteq> set begun'"
  shows "accounted s0 begun' s'"
  unfolding accounted_def
proof (intro allI impI)
  fix k r
  assume k: "find_action s0 k = None" "find_action s' k = Some r"
  show "k \<in> (aj_id \<circ> fst) ` set begun' \<or> action_final (aj_state r)"
  proof (cases "find_action s k")
    case None
    from adds_new [OF assms(2) None k(2)] assms(3,4) show ?thesis by auto
  next
    case (Some r0)
    from adds_find [OF assms(2) Some] k(2) have "r0 = r" by simp
    with assms(1,5) Some k(1) show ?thesis unfolding accounted_def by (meson image_mono subsetD)
  qed
qed

lemma begin_actions_adds:
  assumes "begin_actions step k pe ow named vs begun s = ((failed, begun'), s')"
    and "accounted s0 begun s" and "\<forall>a\<in>set begun. begun_by ow s a" and "leases_ok (snd s)" and "journal_ok s"
  shows "accounted s0 begun' s' \<and> journal_ok s' \<and> (\<forall>a\<in>set begun'. begun_by ow s' a) \<and>
    (failed = None \<longrightarrow> length begun' = length begun + length vs \<and> (\<forall>v\<in>set vs. pd_action (vl_decision v) \<noteq> Deny))"
  using assms
proof (induction step k pe ow named vs begun s rule: begin_actions.induct)
  case (2 step k pe ow named v vs begun s)
  let ?aid = "st_ids (step k) 0"
  obtain x s1 where b: "begin_action (st_env (step k)) pe ?aid (st_ids (step k) 1) ow (vl_request v)
      (vl_decision v) (named (vl_key v)) (Some ow) s = (x, s1)" by (meson surj_pair)
  note add = begin_action_adds [OF b]
  from begin_action_evolves [of s] b 2(6) have ok: "journal_ok s1" unfolding evolves_def by (metis snd_conv)
  show ?case
  proof (cases x)
    case (Inl err)
    with 2(2) b have out: "failed = Some err" "begun' = begun" "s' = s1" by simp_all
    have "accounted s0 begun s1 \<and> (\<forall>a\<in>set begun. begun_by ow s1 a)"
    proof (cases "adds ?aid Act_Denied s s1")
      case True
      with 2(3,4,5) add(2) show ?thesis
        by (auto intro: begun_by_stays accounted_step simp: action_final_def)
    next
      case False
      with add(4) [OF Inl] have "find_action s1 = find_action s" "find_lease (snd s1) = find_lease (snd s)"
        by (simp_all add: fun_eq_iff find_action_def find_lease_def)
      with 2(3,4) show ?thesis by (simp add: accounted_def begun_by_def)
    qed
    with out ok show ?thesis by simp
  next
    case (Inr a)
    with 2(2) b have rest: "begin_actions step (k + 1) pe ow named vs (begun @ [a]) s1 = ((failed, begun'), s')" by simp
    obtain row token where a: "a = (row, token)" by (cases a)
    from 2(6) have "keys_distinct ap_id (approvals (snd s))" by (simp add: journal_ok_def)
    note new = begin_action_Ok [OF b [unfolded Inr a] 2(5) this]
    then have id: "aj_id row = ?aid" by (auto simp: find_action_def dest: select_one_SomeD)
    with new have "begun_by ow s1 a" by (simp add: begun_by_def a)
    moreover have "\<forall>y\<in>set begun. begun_by ow s1 y"
      using 2(4,5) add(2) add(3) [OF Inr] by (auto intro: begun_by_stays)
    moreover have "accounted s0 (begun @ [a]) s1"
      by (rule accounted_step [OF 2(3) add(3) [OF Inr]]) (auto simp: a id)
    moreover have "leases_ok (snd s1)" using add(2) 2(5) by (simp add: lets_be_def)
    ultimately have "accounted s0 begun' s' \<and> journal_ok s' \<and> (\<forall>a\<in>set begun'. begun_by ow s' a) \<and>
        (failed = None \<longrightarrow> length begun' = length (begun @ [a]) + length vs \<and> (\<forall>v\<in>set vs. pd_action (vl_decision v) \<noteq> Deny))"
      by (intro "2.IH" [OF b [unfolded Inr, symmetric] _ rest]) (use ok in auto)
    with new(1) show ?thesis by auto
  qed
qed simp

subsection \<open>Ending them again\<close>

definition refusal :: "error \<Rightarrow> bool" where
  "refusal err = (\<exists>m. err = Permission_Error m)"

lemma insert_event_no_refusal: "insert_state_event t uuid ty m s c tk ro pl v d = Err err \<Longrightarrow> \<not> refusal err"
  by (auto simp: refusal_def insert_state_event_def insert_state_event_row_def resolve_lineage_in_transaction_def
      admit_def raise_if_def and_then_def Let_def split: sum.splits option.splits if_splits)

lemma update_actions_no_refusal: "update_actions P f s = Err err \<Longrightarrow> \<not> refusal err"
  by (auto simp: refusal_def update_actions_def update_rows_def and_then_def split: option.splits sum.splits)

lemma and_then_ErrE:
  assumes "and_then r f = Err err"
  obtains "r = Err err" | x where "r = Ok x" and "f x = Err err"
  using assms by (cases r) auto

lemma finish_in_transaction_no_refusal:
  assumes "finish_action_in_transaction e uuid caller row st x token s = Err err"
  shows "\<not> refusal err"
  using assms unfolding finish_action_in_transaction_def Let_def raise_if_def with_db_def
  by (auto elim!: and_then_ErrE simp: refusal_def dest: insert_event_no_refusal update_actions_no_refusal split: if_splits)
    (auto dest: insert_event_no_refusal update_actions_no_refusal simp: refusal_def)

lemma finish_in_transaction_ends:
  assumes "finish_action_in_transaction e uuid caller row st x token s = Ok (u, s')" and "aj_state row = Act_Running"
  shows "aj_id ` set (entries s') = aj_id ` set (entries s)"
    and "find_action s (aj_id row) = Some row \<Longrightarrow> map_option aj_state (find_action s' (aj_id row)) = Some st"
proof -
  let ?P = "\<lambda>y. aj_id y = aj_id row \<and> aj_state y = Act_Running"
  let ?f = "\<lambda>y. y\<lparr>aj_state := st, aj_result := Some x, aj_completed_at := Some (now e)\<rparr>"
  from assms(1) obtain s2 where up: "update_actions ?P ?f s = Ok s2" and s1: "fst s' = fst s2"
    unfolding finish_action_in_transaction_def Let_def by (auto simp: with_db_def elim!: and_thenE split: if_splits)
  from up have rows: "entries s' = update_where ?P ?f (entries s)"
    using s1 update_actions_Ok by fastforce
  then have "map aj_id (entries s') = map aj_id (entries s)" by (simp add: update_where_def)
  then show "aj_id ` set (entries s') = aj_id ` set (entries s)" by (metis list.set_map)
  assume "find_action s (aj_id row) = Some row"
  with rows assms(2) show "map_option aj_state (find_action s' (aj_id row)) = Some st"
    by (simp add: find_action_def select_one_update_where)
qed

lemma finish_action_ends:
  assumes "finish_action e uuid caller aid st x token s = (res, s')"
  shows "aj_id ` set (entries s') = aj_id ` set (entries s)" and "res = Err err \<Longrightarrow> \<not> refusal err"
    and "res = Ok row \<Longrightarrow> find_action s' aid = Some row \<and> aj_state row = st \<and> action_final st"
proof -
  let ?body = "\<lambda>row. finish_action_in_transaction e uuid caller row st (redact x) token"
  have "aj_id ` set (entries s') = aj_id ` set (entries s) \<and> (case res of Inl err \<Rightarrow> \<not> refusal err
      | Inr row \<Rightarrow> find_action s' aid = Some row \<and> aj_state row = st \<and> action_final st)"
  proof (cases "action_final st \<and> st \<noteq> Act_Denied")
    case False
    with assms show ?thesis by (auto simp: finish_action_def refusal_def split: if_splits)
  next
    case final: True
    show ?thesis
    proof (cases "find_action s aid")
      case None
      with assms final show ?thesis by (auto simp: finish_action_def load_action_def refusal_def)
    next
      case (Some row)
      then have id: "aj_id row = aid" by (auto simp: find_action_def dest: select_one_SomeD)
      show ?thesis
      proof (cases "aj_state row = Act_Running")
        case False
        with assms final Some show ?thesis by (auto simp: finish_action_def load_action_def refusal_def)
      next
        case running: True
        show ?thesis
        proof (cases "?body row s")
          case (Inl err)
          with assms final Some running have "res = Err err" "s' = s"
            by (simp_all add: finish_action_def load_action_def transact_def)
          with finish_in_transaction_no_refusal [OF Inl] show ?thesis by simp
        next
          case (Inr y)
          then obtain u s1 where tx: "?body row s = Ok (u, s1)" by (cases y) simp
          with assms final Some running have "(res, s') = (load_action aid s1, s1)"
            by (auto simp: finish_action_def load_action_def transact_def)
          with finish_in_transaction_ends [OF tx running] Some id final show ?thesis
            by (auto simp: load_action_def)
        qed
      qed
    qed
  qed
  then show "aj_id ` set (entries s') = aj_id ` set (entries s)" and "res = Err err \<Longrightarrow> \<not> refusal err"
    and "res = Ok row \<Longrightarrow> find_action s' aid = Some row \<and> aj_state row = st \<and> action_final st" by auto
qed

lemma known_action: "find_action s k = None \<longleftrightarrow> k \<notin> aj_id ` set (entries s)"
  by (simp add: find_action_def select_one_None_iff)

lemma cancel_actions_ends:
  assumes "cancel_actions step k caller ow begun s = (res, s')" and "journal_ok s"
  shows "(\<forall>err. res = Err err \<longrightarrow> \<not> refusal err) \<and> aj_id ` set (entries s') = aj_id ` set (entries s) \<and>
    (\<forall>aid r. find_action s aid = Some r \<longrightarrow> (\<exists>r'. find_action s' aid = Some r' \<and> goes_on r r')) \<and>
    (res = Ok () \<longrightarrow> (\<forall>a\<in>set begun. \<exists>r. find_action s' (aj_id (fst a)) = Some r \<and> action_final (aj_state r)))"
  using assms
proof (induction step k caller ow begun s rule: cancel_actions.induct)
  case (2 step k caller ow a as s)
  obtain x s1 where fin: "finish_action (st_env (step k)) (st_ids (step k) 0) caller (aj_id (fst a)) Act_Cancelled
      (error_result ''a required policy check failed'') (Some (ow_token ow)) s = (x, s1)" by (meson surj_pair)
  note one = finish_action_ends [OF fin]
  from finish_action_evolves [OF evolves_refl] fin have "evolves s s1" by (metis snd_conv)
  with 2(3) have ok: "journal_ok s1" and go: "\<forall>aid r. find_action s aid = Some r \<longrightarrow> (\<exists>r'. find_action s1 aid = Some r' \<and> goes_on r r')"
    by (auto simp: evolves_def)
  show ?case
  proof (cases x)
    case (Inl err)
    with 2(2) fin have "res = Err err" "s' = s1" by simp_all
    with one(1,2) Inl go show ?thesis by auto
  next
    case (Inr row)
    with 2(2) fin have rest: "cancel_actions step (k + 1) caller ow as s1 = (res, s')" by simp
    note ih = 2(1) [OF rest ok]
    from one(3) [OF Inr] ih obtain r' where "find_action s' (aj_id (fst a)) = Some r'" "goes_on row r'" by blast
    with one(3) [OF Inr] have "\<exists>r. find_action s' (aj_id (fst a)) = Some r \<and> action_final (aj_state r)"
      by (auto simp: goes_on_def)
    moreover have "\<exists>r'. find_action s' aid = Some r' \<and> goes_on r r'" if "find_action s aid = Some r" for aid r
      using that go ih goes_on_trans by meson
    ultimately show ?thesis using ih one(1) by auto
  qed
qed auto

subsection \<open>The whole group\<close>

lemma evaluate_all_length: "evaluate_all pe d rs = Ok vs \<Longrightarrow> length vs = length rs"
  by (induction pe d rs arbitrary: vs rule: evaluate_all.induct) (auto elim!: and_thenE)

lemma claim_workspaces_keeps:
  assumes "claim_workspaces step k ow tool keys claimed d = (r, d')" and "leases_ok d"
  shows "leases_ok d' \<and> approvals d' = approvals d"
  using assms
proof (induction step k ow tool keys claimed d rule: claim_workspaces.induct)
  case (2 step k ow tool key keys claimed d)
  obtain got d1 where c: "claim_workspace (st_env (step (k + 1))) key ow (seconds 86400) [(''tool'', JStr tool)] d = (got, d1)"
    by (meson surj_pair)
  let ?op = "L_Workspace (st_env (step (k + 1))) key ow (seconds 86400) [(''tool'', JStr tool)]"
  from c have d1: "d1 = lease_step ?op d" by simp
  then have "leases_ok d1" "approvals d1 = approvals d"
    using lease_step_leases_ok [of d ?op] 2(3) lease_step_approvals [of ?op d] by simp_all
  with 2(1) [OF refl c [symmetric] refl] 2(2) c show ?case
    by (auto simp: Let_def split: if_splits)
qed simp

lemma undo_group_ends:
  assumes "undo_group step k caller ow None claimed begun err s = (res, s')" and "journal_ok s"
  obtains err' where "res = Err err'"
    and "refusal err' \<Longrightarrow> accounted s0 begun s \<Longrightarrow> find_action s0 aid = None \<Longrightarrow> find_action s' aid = Some r \<Longrightarrow>
      action_final (aj_state r)"
proof -
  obtain x s1 where c: "cancel_actions step k caller ow begun s = (x, s1)" by (meson surj_pair)
  note ends = cancel_actions_ends [OF c assms(2)]
  show ?thesis
  proof (cases x)
    case (Inl e)
    with assms(1) c have "res = Err e" by (simp add: undo_group_def)
    with ends Inl that show ?thesis by blast
  next
    case (Inr u)
    with assms(1) c have "res = Err err" "fst s' = fst s1" by (auto simp: undo_group_def)
    moreover have "action_final (aj_state r)"
      if "accounted s0 begun s" "find_action s0 aid = None" "find_action s' aid = Some r"
    proof -
      from that(3) \<open>fst s' = fst s1\<close> have now: "find_action s1 aid = Some r" by (simp add: find_action_def)
      with ends obtain r0 where r0: "find_action s aid = Some r0" "goes_on r0 r"
        by (metis known_action option.exhaust option.sel)
      from that(1,2) r0(1) have "aid \<in> (aj_id \<circ> fst) ` set begun \<or> action_final (aj_state r0)"
        unfolding accounted_def by blast
      with ends Inr now r0(2) show ?thesis by (auto simp: goes_on_def)
    qed
    ultimately show ?thesis by (intro that)
  qed
qed

lemma authorize_actions_group:
  assumes "authorize_actions step pe caller scoped thread own None named requests s = (res, s')"
    and "journal_ok s" and "leases_ok (snd s)"
  shows "(\<forall>begun. res = Ok begun \<longrightarrow> length begun = length requests \<and>
      (\<forall>a\<in>set begun. begun_by (tool_owner scoped thread own (fst s)) s' a)) \<and>
    (\<forall>err. res = Err err \<longrightarrow> refusal err \<longrightarrow> (\<forall>aid r. find_action s aid = None \<longrightarrow> find_action s' aid = Some r \<longrightarrow>
      action_final (aj_state r)))"
proof (cases "and_then (evaluate_all pe (snd s) requests) (\<lambda>vs. and_then (workspace_keys pe vs) (\<lambda>keys. Ok (vs, keys)))")
  case (Inl err)
  with assms(1) have "s' = s" "res = Err err" by (simp_all add: authorize_actions_def)
  then show ?thesis by simp
next
  case (Inr y)
  then obtain vs keys where y: "y = (vs, keys)" and vs: "evaluate_all pe (snd s) requests = Ok vs"
    by (auto elim!: and_thenE)
  let ?ow = "tool_owner scoped thread own (fst s)"
  let ?tool = "case vs of [] \<Rightarrow> [] | v # _ \<Rightarrow> rq_tool (vl_request v)"
  obtain failed claimed d where c: "claim_workspaces step 0 ?ow ?tool keys [] (snd s) = ((failed, claimed), d)"
    by (metis surj_pair)
  note kept = claim_workspaces_keeps [OF c assms(3)]
  have ok: "journal_ok (fst s, d)"
    using assms(2) kept evolves_quiet [of s "(fst s, d)"] by (auto simp: evolves_def approvals_kept_same)
  have start: "accounted s [] (fst s, d)" by (simp add: accounted_def find_action_def)
  show ?thesis
  proof (cases failed)
    case (Some err)
    with assms(1) Inr y c have "undo_group step (2 * length keys) caller ?ow None claimed [] err (fst s, d) = (res, s')"
      by (simp add: authorize_actions_def Let_def)
    from undo_group_ends [OF this ok] start show ?thesis by (metis Inl_Inr_False sum.sel(1))
  next
    case None
    obtain failed' begun s1 where b: "begin_actions step (2 * length keys) pe ?ow named vs [] (fst s, d) = ((failed', begun), s1)"
      by (metis surj_pair)
    from begin_actions_adds [OF b start _ _ ok] kept
    have g: "accounted s begun s1" "journal_ok s1" "\<forall>a\<in>set begun. begun_by ?ow s1 a"
      "failed' = None \<Longrightarrow> length begun = length requests"
      by (simp_all add: evaluate_all_length [OF vs])
    show ?thesis
    proof (cases failed')
      case (Some err)
      with assms(1) Inr y c None b have "undo_group step (2 * length keys + length vs) caller ?ow None claimed begun err s1 = (res, s')"
        by (simp add: authorize_actions_def Let_def)
      from undo_group_ends [OF this g(2)] g(1) show ?thesis by (metis Inl_Inr_False sum.sel(1))
    next
      case all: None
      with assms(1) Inr y c None b have "res = Ok begun" "entries s' = entries s1" "snd s' = snd s1"
        by (auto simp: authorize_actions_def Let_def use_thread_def split: if_splits)
      with g all show ?thesis by (simp add: begun_by_def find_action_def)
    qed
  qed
qed

end
