(* ===== verification/Journal_Rows.thy ===== *)
theory Journal_Rows
  imports Journal_Safety
begin

section \<open>The columns of an action agree with its state\<close>

text \<open>
  The table checks the state column alone.  That the other columns fit it is the doing of the code:
  an action has a time of completion and a result when, and only when, it ended, and it has a
  time of its start unless it was denied.  Every operation keeps this, which makes it an
  invariant of \<open>state_machine\<close>.
\<close>

definition row_typed :: "action_row \<Rightarrow> bool" where
  "row_typed r = ((aj_state r = Act_Running \<or> action_final (aj_state r)) \<and>
     (aj_completed_at r \<noteq> None) = action_final (aj_state r) \<and> (aj_result r \<noteq> None) = action_final (aj_state r) \<and>
     (aj_started_at r = None) = (aj_state r = Act_Denied))"

definition rows_typed :: "journaled \<Rightarrow> bool" where
  "rows_typed s = list_all row_typed (entries s)"

lemma rows_typed_same: "rows_typed (fst s, d) = rows_typed s"
  by (simp add: rows_typed_def)

lemmas typed_next = and_next_keeps [of rows_typed]

lemma typed_transact:
  assumes "rows_typed s" and "\<And>x s'. body s = Ok (x, s') \<Longrightarrow> rows_typed s'"
  shows "rows_typed (snd (transact body s))"
  using assms by (cases "body s") auto

lemma new_action_typed:
  "row_typed (new_action stamp aid uuid r p approval Act_Running None)"
  "row_typed (new_action stamp aid uuid r p approval Act_Denied (Some x))"
  by (simp_all add: row_typed_def new_action_def action_final_def)

lemma create_action_typed:
  assumes "rows_typed s" and "st = Act_Running \<and> result = None \<or> st = Act_Denied \<and> result \<noteq> None"
  shows "rows_typed (snd (create_action e aid uuid own r p approval st result ow s))"
proof -
  have "rows_typed s'" if "create_action_in_transaction e aid uuid r p approval st result ow' s = Ok (u, s')" for ow' u s'
  proof -
    from that obtain ev :: state_event_row where
      "fst s' = (fst s)\<lparr>jn_actions := entries s @ [new_action (now e) aid (se_uuid ev) r p approval st result]\<rparr>"
      by (rule create_action_in_transaction_Ok) blast
    with assms new_action_typed show ?thesis by (auto simp: rows_typed_def)
  qed
  with assms(1) show ?thesis
    unfolding create_action_def by (intro typed_next typed_transact) auto
qed

lemma begin_action_typed:
  assumes "rows_typed s"
  shows "rows_typed (snd (begin_action e pe aid uuid own r p approval ow s))"
proof (cases "pd_action p = Deny")
  case True
  with assms show ?thesis
    by (simp add: begin_action_def record_denied_def) (intro typed_next create_action_typed, auto)
next
  case False
  obtain res s1 where auth: "on_db (authorize pe r p approval False) s = (res, s1)" by (meson surj_pair)
  then have "fst s1 = fst s" using fst_on_db [of "authorize pe r p approval False" s] by simp
  with assms have ok: "rows_typed s1" by (simp add: rows_typed_def)
  show ?thesis
  proof (cases res)
    case (Inr authorization)
    with False auth ok show ?thesis by (simp add: begin_action_def create_action_typed)
  next
    case (Inl err)
    have "rows_typed (snd (and_next (create_action e aid uuid own r p None Act_Denied (Some (error_result m)) None s1)
        (\<lambda>_ s. (Err (Permission_Error m), s))))" for m
      by (intro typed_next create_action_typed) (use ok in auto)
    with False auth Inl ok show ?thesis by (cases err) (simp_all add: begin_action_def)
  qed
qed

lemma update_actions_typed:
  assumes "update_actions P f s = Ok s'" and "rows_typed s" and "\<And>r. P r \<Longrightarrow> row_typed r \<Longrightarrow> row_typed (f r)"
  shows "rows_typed s'"
  using assms(2,3) by (auto simp: update_actions_Ok [OF assms(1)] rows_typed_def list_all_iff update_where_def)

lemma ended_typed:
  "row_typed r \<Longrightarrow> aj_state r = Act_Running \<Longrightarrow> action_final st \<Longrightarrow> st \<noteq> Act_Denied \<Longrightarrow>
     row_typed (r\<lparr>aj_state := st, aj_result := Some x, aj_completed_at := Some t\<rparr>)"
  by (auto simp: row_typed_def action_final_def)

lemma with_db_fst: "with_db r j = Ok (x, s') \<Longrightarrow> fst s' = j"
  by (auto simp: with_db_def elim!: and_thenE)

lemma finish_action_typed:
  assumes "rows_typed s"
  shows "rows_typed (snd (finish_action e uuid caller aid st x token s))"
proof (cases "action_final st \<and> st \<noteq> Act_Denied")
  case True
  have body: "rows_typed s'" if "finish_action_in_transaction e uuid caller row st y token s0 = Ok (u, s')" "rows_typed s0" for row y u s0 s'
  proof -
    from that(1) obtain s2 where up: "update_actions (\<lambda>y. aj_id y = aj_id row \<and> aj_state y = Act_Running)
        (\<lambda>z. z\<lparr>aj_state := st, aj_result := Some y, aj_completed_at := Some (now e)\<rparr>) s0 = Ok s2" and s': "fst s' = fst s2"
      unfolding finish_action_in_transaction_def Let_def by (auto elim!: and_thenE dest!: with_db_fst split: if_splits)
    have "rows_typed s2" by (rule update_actions_typed [OF up that(2)]) (use True ended_typed in auto)
    with s' show ?thesis by (simp add: rows_typed_def)
  qed
  with assms True show ?thesis
    unfolding finish_action_def by (auto intro!: typed_next typed_transact intro: body)
qed (use assms in \<open>auto simp: finish_action_def\<close>)

lemma recover_action_typed:
  assumes "recover_action e ow uuid row s = Ok (hit, s')" and "rows_typed s"
  shows "rows_typed s'"
proof -
  obtain claimed d where claim: "claim_in_transaction e (on_action (aj_id row)) ow (seconds 30)
      [(''recovery'', JBool True)] (snd s) = (claimed, d)" by (meson surj_pair)
  show ?thesis
  proof (cases claimed)
    case False
    with assms claim show ?thesis by (auto simp: recover_action_def rows_typed_def)
  next
    case True
    let ?P = "\<lambda>x. aj_id x = aj_id row \<and> aj_state x = Act_Running"
    from True assms(1) claim obtain s1 where up: "update_actions ?P (\<lambda>x. x\<lparr>aj_state := Act_Unknown,
        aj_result := Some lost_result, aj_completed_at := Some (now e)\<rparr>) (fst s, d) = Ok s1" and s': "fst s' = fst s1"
      by (auto simp: recover_action_def Let_def elim!: and_thenE dest!: with_db_fst split: if_splits)
    have "rows_typed s1"
      by (rule update_actions_typed [OF up]) (use assms(2) ended_typed in \<open>auto simp: rows_typed_def action_final_def\<close>)
    with s' show ?thesis by (simp add: rows_typed_def)
  qed
qed

lemma recover_actions_typed: "recover_actions e ow ids rows n s = Ok (m, s') \<Longrightarrow> rows_typed s \<Longrightarrow> rows_typed s'"
  by (induction e ow ids rows n s rule: recover_actions.induct)
    (auto elim!: and_thenE dest: recover_action_typed split: if_splits)

lemma journal_step_typed:
  assumes "rows_typed s"
  shows "rows_typed (journal_step op s)"
proof (cases op)
  case (J_Recover e ow ids)
  with assms show ?thesis
    by (simp add: recover_interrupted_actions_def) (rule typed_transact, auto dest: recover_actions_typed)
qed (use assms in \<open>simp_all add: begin_action_typed record_denied_def create_action_typed finish_action_typed rows_typed_same\<close>)

interpretation typed_journal: state_machine journal_step rows_typed
  by unfold_locales (rule journal_step_typed)

end
