(* ===== verification/Guarantees_Journal.thy ===== *)
theory Guarantees_Journal
  imports Tool_Safety Journal_Rows Guarantees_Agent
begin

section \<open>Guarantees of the action journal and of the tools that write it\<close>

text \<open>
  The properties of \<^verbatim>\<open>action_journal.py\<close> and of the group authorization in \<^verbatim>\<open>tool_core.py\<close>, each with a
  witness: a journal whose only approval is \<open>a\<close>, for the tool \<open>shell\<close> on the target \<open>ls\<close>.
\<close>

definition blank_journal :: journal where
  "blank_journal = \<lparr>jn_actions = [], jn_groups = [], jn_threads = []\<rparr>"

definition sample_action :: "ident \<Rightarrow> action_state \<Rightarrow> action_row" where
  "sample_action aid st = (new_action 0 aid ''v'' (sample_request ''shell'' ''execute'' ''ls'') ask_shell None
     Act_Running None)\<lparr>aj_state := st\<rparr>"

definition sample_journal :: "action_row list \<Rightarrow> approval_scope \<Rightarrow> journaled" where
  "sample_journal rows scope = (blank_journal\<lparr>jn_actions := rows\<rparr>, approvals_db scope A_Approved)"

lemma sample_journal_ok:
  assumes "keys_distinct aj_id rows" and "\<And>r. r \<in> set rows \<Longrightarrow> aj_approval r = None"
  shows "journal_ok (sample_journal rows scope)"
proof -
  have "uses (sample_journal rows scope) aid = 0" for aid
    using assms(2) by (auto simp: uses_def sample_journal_def count_where_zero_iff blank_journal_def)
  with assms(1) show ?thesis
    by (simp add: journal_ok_def calls_ok_def sample_journal_def blank_journal_def split: option.split)
qed

text \<open>The shell request, begun under the approval \<open>a\<close> as the action \<open>aid\<close> at the time \<open>t\<close>\<close>

definition begin_shell :: "time \<Rightarrow> ident \<Rightarrow> ident \<Rightarrow> scope_request \<Rightarrow> journaled \<Rightarrow>
    (action_row \<times> string option) result \<times> journaled" where
  "begin_shell t aid uuid r = begin_action (sample_env t) (sample_policy t) aid uuid live_owner r ask_shell (Some ''a'') None"

subsection \<open>What an approval authorizes\<close>

text \<open>C7. A one-call approval starts at most one action: whatever operations of the journal, of the
  broker and of the leases run, in any order and from any processes, at most one action is ever
  recorded under it.\<close>

theorem one_call_one_action:
  assumes "journal_ok s" and "find_approval (snd (fold journal_step ops s)) aid = Some a" and "ap_scope a = Call_Scope"
    and "aid \<noteq> []"
  shows "count_where (\<lambda>r. aj_approval r = Some aid) (jn_actions (fst (fold journal_step ops s))) \<le> 1"
proof -
  from journal_machine.run_inv [OF assms(1)] have "calls_ok (fold journal_step ops s)" by (simp add: journal_ok_def)
  with assms(2-4) show ?thesis by (fastforce simp: calls_ok_def uses_def split: if_splits)
qed

lemma one_call_one_action_witness:
  "count_where (\<lambda>r. aj_approval r = Some ''a'') (jn_actions (fst (fold journal_step []
     (sample_journal [sample_action ''x'' Act_Running] Call_Scope)))) \<le> 1"
proof (rule one_call_one_action)
  show "journal_ok (sample_journal [sample_action ''x'' Act_Running] Call_Scope)"
    by (rule sample_journal_ok) (simp_all add: sample_action_def)
  show "find_approval (snd (fold journal_step [] (sample_journal [sample_action ''x'' Act_Running] Call_Scope))) ''a'' =
      Some (sample_approval Call_Scope A_Approved)"
    by (simp add: sample_journal_def)
qed (simp_all add: sample_approval_def)

text \<open>C15. An action begins only when policy does not deny it and, where policy asks, under an approval
  that was granted, is unexpired and covers the request; a one-call approval is consumed in the
  same transaction.  Then the action is recorded as running under a lease of its owner.\<close>

theorem begun_action_authorized:
  assumes "begin_action e pe aid uuid own r p approval ow s = (Ok (row, token), s')"
    and "leases_ok (snd s)" and "keys_distinct ap_id (approvals (snd s))"
  shows "pd_action p \<noteq> Deny \<and> find_action s' aid = Some row \<and> aj_state row = Act_Running \<and>
    map_option lease_owner (find_lease (snd s') (on_action aid)) = Some (or_else ow own) \<and>
    (pd_action p = Ask \<longrightarrow> (\<exists>a. aj_approval row = Some (ap_id a) \<and> find_approval (snd s) (ap_id a) = Some a \<and>
       ap_state a = A_Approved \<and> unexpired pe a \<and> covers pe a r p \<and>
       (ap_scope a = Call_Scope \<and> ap_id a \<noteq> [] \<longrightarrow>
          map_option ap_state (find_approval (snd s') (ap_id a)) = Some A_Consumed)))"
  using begin_action_Ok [OF assms] unfolding authorized_by_def by blast

definition shell_begun :: "(action_row \<times> string option) result \<times> journaled" where
  "shell_begun = begin_shell 5 ''x'' ''v'' shell_request (sample_journal [] Call_Scope)"

lemma shell_begun_Ok: "is_ok (fst shell_begun)"
  by code_simp

lemma sample_approval_unique: "find_approval (approvals_db scope st) k = Some a \<Longrightarrow> k = ''a'' \<and> a = sample_approval scope st"
  by (auto simp: approvals_db_def find_approval_def sample_approval_def split: if_splits)

lemma sample_leases_ok: "leases_ok (snd (sample_journal rows scope))"
  by (simp add: sample_journal_def approvals_db_def leases_ok_def empty_db_def)

lemma begun_action_authorized_witness:
  "\<exists>row. find_action (snd shell_begun) ''x'' = Some row \<and> aj_approval row = Some ''a'' \<and>
     map_option ap_state (find_approval (snd (snd shell_begun)) ''a'') = Some A_Consumed"
proof -
  obtain row token where run: "shell_begun = (Ok (row, token), snd shell_begun)"
    using is_ok_pair [OF shell_begun_Ok] by auto
  have "keys_distinct ap_id (approvals (snd (sample_journal [] Call_Scope)))"
    by (simp add: sample_journal_def)
  note held = begun_action_authorized [OF run [unfolded shell_begun_def begin_shell_def] sample_leases_ok this,
      folded begin_shell_def, folded shell_begun_def]
  have "pd_action ask_shell = Ask" by (simp add: ask_shell_def)
  with held obtain a :: approval_row where a: "aj_approval row = Some (ap_id a)"
      "find_approval (snd (sample_journal [] Call_Scope)) (ap_id a) = Some a"
    and used: "ap_scope a = Call_Scope \<and> ap_id a \<noteq> [] \<longrightarrow>
      map_option ap_state (find_approval (snd (snd shell_begun)) (ap_id a)) = Some A_Consumed"
    by blast
  from a(2) have "a = sample_approval Call_Scope A_Approved" "ap_id a = ''a''"
    using sample_approval_unique [of Call_Scope A_Approved "ap_id a" a] unfolding sample_journal_def snd_conv by blast+
  with a(1) used held show ?thesis by (simp add: sample_approval_def)
qed

subsection \<open>The record of an action\<close>

text \<open>C18. In a journal that started empty the columns of every action agree with its state: it is running
  or it ended, it has a time of completion and a result exactly when it ended, and it has a time of
  its start unless it was denied.  The table itself only checks the name of the state.\<close>

theorem action_columns_fit:
  "list_all (\<lambda>r. (aj_state r = Act_Running \<or> action_final (aj_state r)) \<and>
      (aj_completed_at r \<noteq> None) = action_final (aj_state r) \<and> (aj_result r \<noteq> None) = action_final (aj_state r) \<and>
      (aj_started_at r = None) = (aj_state r = Act_Denied))
    (jn_actions (fst (fold journal_step ops (j\<lparr>jn_actions := []\<rparr>, d))))"
proof -
  have "rows_typed (fold journal_step ops (j\<lparr>jn_actions := []\<rparr>, d))"
    by (rule typed_journal.run_inv) (simp add: rows_typed_def)
  then show ?thesis by (simp add: rows_typed_def row_typed_def [abs_def])
qed

subsection \<open>Actions that ended, and actions whose owner is lost\<close>

text \<open>C17. The record of an action that ended is final: no operation of the journal, the broker or the
  leases changes any column of it.\<close>

theorem ended_action_final:
  assumes "journal_ok s" and "find_action s aid = Some r" and "action_final (aj_state r)"
  shows "find_action (fold journal_step ops s) aid = Some r"
  using assms by (rule action_life.terminal_run)

definition cancelled_action :: action_row where
  "cancelled_action = sample_action ''x'' Act_Cancelled"

lemma ended_action_final_witness:
  "find_action (fold journal_step [J_Recover (sample_env 9) live_owner (\<lambda>_. ''w'')]
     (sample_journal [cancelled_action] Call_Scope)) ''x'' = Some cancelled_action"
proof (rule ended_action_final)
  show "journal_ok (sample_journal [cancelled_action] Call_Scope)"
    by (rule sample_journal_ok) (simp_all add: cancelled_action_def sample_action_def)
qed (simp_all add: sample_journal_def find_action_def cancelled_action_def sample_action_def action_final_def blank_journal_def)

text \<open>C16. Recovery marks exactly the running actions whose lease nobody holds, whose lease belongs to the
  recovering owner itself, or whose lease may be taken over because its owner and every process fenced
  with it are gone (a live owner keeps its action even after the lease has expired), and leaves the
  rest of the journal as it was: the outcome of a lost action is recorded as unknown, never as a
  failure or a success.\<close>

theorem recovery_only_abandoned:
  assumes "recover_interrupted_actions e ow ids s = (Ok n, s')" and "leases_ok (snd s)" and "keys_distinct aj_id (jn_actions (fst s))"
  shows "jn_actions (fst s') = map (\<lambda>r. if aj_state r = Act_Running \<and> abandoned e ow (snd s) (aj_id r)
     then r\<lparr>aj_state := Act_Unknown, aj_result := Some lost_result, aj_completed_at := Some (now e)\<rparr> else r)
     (jn_actions (fst s))"
  using recover_interrupted_exact [OF assms] by (simp add: update_where_def lost_action_def)

text \<open>Two running actions: \<open>x\<close> belongs to a live process, nobody holds \<open>y\<close>.\<close>

definition two_running :: journaled where
  "two_running = (blank_journal\<lparr>jn_actions := [sample_action ''x'' Act_Running, sample_action ''y'' Act_Running]\<rparr>,
     empty_db\<lparr>resource_leases := [sample_lease (on_action ''x'') live_owner],
       state_events := [\<lparr>se_id = 1, se_uuid = ''v'', se_session = None, se_conversation = None, se_task = None,
         se_timestamp = 0, se_type = ''tool_execution'', se_role = None, se_message = [], se_payload = [],
         se_visibility = ''normal''\<rparr>]\<rparr>)"

definition recovered :: "nat result \<times> journaled" where
  "recovered = recover_interrupted_actions (sample_env 5) gone_owner (\<lambda>n. dec n) two_running"

lemma recovery_only_abandoned_witness:
  "\<exists>n. fst recovered = Ok n \<and> map (\<lambda>r. (aj_id r, aj_state r)) (jn_actions (fst (snd recovered))) =
     [(''x'', Act_Running), (''y'', Act_Unknown)]"
proof -
  have "is_ok (fst recovered)"
    by code_simp
  then obtain n where run: "recovered = (Ok n, snd recovered)"
    using is_ok_pair by blast
  have ok: "leases_ok (snd two_running)" "keys_distinct aj_id (jn_actions (fst two_running))"
    by (simp_all add: two_running_def leases_ok_def sample_action_def blank_journal_def empty_db_def)
  have "abandoned (sample_env 5) gone_owner (snd two_running) ''y''" "\<not> abandoned (sample_env 5) gone_owner (snd two_running) ''x''"
    by code_simp+
  moreover have "jn_actions (fst two_running) = [sample_action ''x'' Act_Running, sample_action ''y'' Act_Running]"
    by (simp add: two_running_def)
  ultimately have "map (\<lambda>r. (aj_id r, aj_state r)) (jn_actions (fst (snd recovered))) = [(''x'', Act_Running), (''y'', Act_Unknown)]"
    using recovery_only_abandoned [OF run [unfolded recovered_def] ok] by (simp add: recovered_def sample_action_def)
  with run show ?thesis by (metis fst_conv)
qed

subsection \<open>All actions of a group, or none\<close>








end
