(* ===== verification/Guarantees_Routing.thy ===== *)
theory Guarantees_Routing
  imports Routing Guarantees_Delegation
begin

section \<open>Guarantees of runtime routes\<close>

text \<open>
  What a route that says it is ready stands for, and what the table of routes gives back; the
  witnesses route the default role to its model with a backend that has everything asked for.
\<close>

subsection \<open>What resolving does\<close>

lemma model_scopeE:
  assumes "model_execution_scope e attempts later existing own lease operation metadata lost body s = (Ok x, s')"
  obtains ow s1 s2 where "fst s1 = fst s" and "body ow s1 = (Ok x, s2)" and "fst s' = fst s2"
proof (cases existing)
  case (Some ow)
  with assms that [of s ow s'] show ?thesis
    by (auto simp: model_execution_scope_def split: if_splits)
next
  case None
  obtain got d where a: "acquire attempts model_slot own lease (dict_update [(''operation'', JStr operation)] metadata) (snd s) = (got, d)"
    by (meson surj_pair)
  obtain y s2 where b: "body own (fst s, d) = (y, s2)" by (meson surj_pair)
  from assms None a b have "got" "y = Ok x" "fst s' = fst s2"
    by (auto simp: model_execution_scope_def Let_def split: if_splits sum.splits option.splits)
  with that [of "(fst s, d)" own s2] b show ?thesis by simp
qed

lemma persist_route_Ok:
  assumes "persist_route stamp uuid r s = (Ok u, s')"
  shows "fst s' = fst s @ [r] \<and> ro_id r \<notin> ro_id ` set (fst s)"
  using assms by (auto simp: persist_route_def and_then_eq_Ok on_db_def fresh_def transact_eq_Ok elim!: and_nextE
      split: if_splits prod.splits)

lemma resolve_ownedE:
  assumes "resolve_owned rt e ids name task q persist s = (Ok r, s')"
  obtains role reasons b where "role_of (oc_roles (lr_orchestra rt)) name = Ok role"
    and "role_reasons role task (snd s) (rn_capabilities (requested_of q)) = Ok reasons" and "b = bind_role rt role"
    and "r = route_of (now e) (ids 0) role task (requested_of q) (reasons @ bi_reasons b @ lifecycle_reasons role b (requested_of q)) b"
    and "persist \<Longrightarrow> fst s' = fst s @ [r] \<and> ro_id r \<notin> ro_id ` set (fst s)"
proof -
  from assms obtain role reasons s1 where role: "role_of (oc_roles (lr_orchestra rt)) name = Ok role"
      "role_reasons role task (snd s) (rn_capabilities (requested_of q)) = Ok reasons"
    and rest: "(let b = bind_role rt role;
           route = route_of (now e) (ids 0) role task (requested_of q) (reasons @ bi_reasons b @ lifecycle_reasons role b (requested_of q)) b in
       if \<not> persist then (Ok route, s) else
       and_next (persist_route (now e) (ids 1) route s) (\<lambda>_ s. (Ok route, s))) = (Ok r, s')"
    unfolding resolve_owned_def Let_def by (auto elim!: and_nextE)
  let ?b = "bind_role rt role"
  let ?r = "route_of (now e) (ids 0) role task (requested_of q) (reasons @ bi_reasons ?b @ lifecycle_reasons role ?b (requested_of q)) ?b"
  have "r = ?r \<and> (persist \<longrightarrow> fst s' = fst s @ [r] \<and> ro_id r \<notin> ro_id ` set (fst s))"
  proof (cases persist)
    case True
    from rest obtain s2 where "persist_route (now e) (ids 1) ?r s = (Ok (), s2)" "r = ?r" "s' = s2"
      unfolding Let_def using True by (auto elim!: and_nextE)
    with persist_route_Ok show ?thesis by blast
  qed (use rest in \<open>simp add: Let_def\<close>)
  with that role show ?thesis by blast
qed

text \<open>No reason against the backend: it exists, and every answer of it was good.\<close>

lemma backend_answers_good:
  assumes "backend_answers runtime made = (failed, b, st, rc, mc)" and "failed = []"
    and "bs_available st" and "bs_healthy st"
  obtains bk where "made = Ok bk" and "b = Some bk" and "bk_model bk runtime = Ok mc"
  using assms by (auto simp: backend_answers_def Let_def not_inspected_def split: sum.splits if_splits)

lemma status_reasons_none: "status_reasons m st = [] \<longleftrightarrow> bs_available st \<and> bs_healthy st"
  by (simp add: status_reasons_def Let_def)

lemma bind_role_none:
  assumes "bi_reasons (bind_role rt role) = []" and "rl_model (rc_info role) \<noteq> []"
  obtains m b st rc mc n where "model_of (lr_orchestra rt) (rl_model (rc_info role)) = Ok m" and "lr_factory rt m = Ok b"
    and "model_reasons rt m = []" and "backend_policy m (Ok b) = []" and "bs_available st" and "bs_healthy st"
    and "lr_profile_context rt (md_alias m) (rl_profile (rc_info role)) = Ok n"
    and "bk_model b (rl_runtime_id (rc_info role)) = Ok mc"
    and "bind_role rt role = \<lparr>bi_reasons = [], bi_model = Some m, bi_profile_context = n, bi_backend = Some b,
      bi_status = st, bi_runtime = rc, bi_caps = mc\<rparr>"
proof (cases "model_of (lr_orchestra rt) (rl_model (rc_info role))")
  case (Inl err)
  with assms show ?thesis by (simp add: bind_role_def no_binding_def)
next
  case (Inr m)
  obtain failed b st rc mc where a: "backend_answers (rl_runtime_id (rc_info role)) (lr_factory rt m) = (failed, b, st, rc, mc)"
    by (metis surj_pair)
  have eq: "bind_role rt role = \<lparr>bi_reasons = model_reasons rt m @
       (case lr_profile_context rt (md_alias m) (rl_profile (rc_info role)) of Inr _ \<Rightarrow> [] | Inl err \<Rightarrow>
          [''runtime profile '' @ rl_profile (rc_info role) @ '' is unavailable: '' @ error_text err]) @
       backend_policy m (lr_factory rt m) @ failed @ status_reasons m st, bi_model = Some m,
       bi_profile_context = (case lr_profile_context rt (md_alias m) (rl_profile (rc_info role)) of Inr n \<Rightarrow> n | Inl _ \<Rightarrow> 0),
       bi_backend = b, bi_status = st, bi_runtime = rc, bi_caps = mc\<rparr>"
    using assms(2) by (simp add: bind_role_def Inr a Let_def)
  with assms(1) obtain n where n: "lr_profile_context rt (md_alias m) (rl_profile (rc_info role)) = Ok n"
    and good: "model_reasons rt m = []" "backend_policy m (lr_factory rt m) = []" "failed = []" "status_reasons m st = []"
    by (auto split: sum.splits)
  from good(4) have st: "bs_available st" "bs_healthy st" by (simp_all add: status_reasons_none)
  from backend_answers_good [OF a good(3) st] obtain bk where bk: "lr_factory rt m = Ok bk" "b = Some bk"
    "bk_model bk (rl_runtime_id (rc_info role)) = Ok mc" by blast
  show ?thesis
    by (rule that [OF Inr bk(1) good(1) good(2) [unfolded bk(1)] st n bk(3)]) (use eq n good bk in simp)
qed

lemma set_sorted_set [simp]: "set (sorted_set xs) = set xs" "sorted_set xs = [] \<longleftrightarrow> xs = []"
proof -
  show "set (sorted_set xs) = set xs" by (simp add: sorted_set_def)
  then show "sorted_set xs = [] \<longleftrightarrow> xs = []" by (metis set_empty)
qed

lemma requirements_met:
  assumes "requirement_reasons n mc c reasoning tools modalities = []"
  shows "(0 < c \<longrightarrow> c \<le> n \<and> c \<le> mk_context mc) \<and> set modalities \<subseteq> set (mk_input mc) \<and>
    (reasoning \<longrightarrow> mk_reasoning mc = Some True) \<and> (tools \<longrightarrow> mk_tool_calls mc = Some True)"
  using assms by (auto simp: requirement_reasons_def Let_def filter_empty_conv split: if_splits)

subsection \<open>What a ready route stands for\<close>

text \<open>C14. A route that is ready stands for exactly what the role names: the role is enabled, its model is
  verified, compatible, bound to its backend, and its artifact is there; the backend is the model's
  own, local and without idle processes; and the profile and the model the backend reports cover the
  context, the modalities and the capabilities that were asked for.  A ready route names no other
  role, model or backend.\<close>

theorem ready_route_fits:
  assumes "resolve_route rt e attempts later ids existing own lost name task q persist s = (Ok r, s')" and "ro_ready r"
  shows "\<exists>role m b. role_of (oc_roles (lr_orchestra rt)) name = Ok role \<and> rl_enabled (rc_info role) \<and>
    ro_asked_role r = rc_id role \<and> ro_selected_role r = rc_id role \<and>
    set (rn_capabilities q) \<subseteq> set (rl_capabilities (rc_info role)) \<and>
    model_of (lr_orchestra rt) (rl_model (rc_info role)) = Ok m \<and> ro_model r = md_alias m \<and> ro_backend r = md_backend m \<and>
    md_integrity_verified m \<and> md_runtime_compatible m \<and> be_is_file (oc_backend (lr_orchestra rt)) (md_path m) \<and>
    backend_binding_ready (oc_backend (lr_orchestra rt)) m \<and>
    lr_factory rt m = Ok b \<and> ro_instance r = Some b \<and> bk_local_only b \<and> bk_zero_idle b \<and> bk_identity b = md_backend m \<and>
    bk_model b (ro_runtime r) = Ok (ro_model_caps r) \<and>
    (0 < rn_context q \<longrightarrow> rn_context q \<le> ro_profile_context r \<and> rn_context q \<le> mk_context (ro_model_caps r)) \<and>
    set (rn_modalities q) \<subseteq> set (mk_input (ro_model_caps r)) \<and>
    (rn_reasoning q \<longrightarrow> mk_reasoning (ro_model_caps r) = Some True) \<and>
    (rn_tools q \<longrightarrow> mk_tool_calls (ro_model_caps r) = Some True)"
proof -
  from assms(1) obtain s1 s2 where "resolve_owned rt e ids name task q persist s1 = (Ok r, s2)"
    unfolding resolve_route_def by (rule model_scopeE)
  then obtain role reasons b where role: "role_of (oc_roles (lr_orchestra rt)) name = Ok role"
    "role_reasons role task (snd s1) (rn_capabilities (requested_of q)) = Ok reasons" "b = bind_role rt role"
    and r: "r = route_of (now e) (ids 0) role task (requested_of q) (reasons @ bi_reasons b @ lifecycle_reasons role b (requested_of q)) b"
    by (rule resolve_ownedE)
  from assms(2) r have none: "reasons = []" "bi_reasons b = []" "lifecycle_reasons role b (requested_of q) = []"
    by (simp_all add: route_of_def)
  from role(2) none(1) have free: "rl_enabled (rc_info role)" "rl_model (rc_info role) \<noteq> []"
    and caps: "filter (\<lambda>x. x \<notin> set (rl_capabilities (rc_info role))) (rn_capabilities (requested_of q)) = []"
    by (auto simp: role_reasons_def Let_def elim!: and_thenE split: if_splits)
  from caps have "set (rn_capabilities q) \<subseteq> set (rl_capabilities (rc_info role))"
    by (auto simp: requested_of_def filter_empty_conv)
  moreover have "requirement_reasons (bi_profile_context b) (bi_caps b) (rn_context (requested_of q)) (rn_reasoning (requested_of q))
      (rn_tools (requested_of q)) (rn_modalities (requested_of q)) = []"
    using none(3) by (simp add: lifecycle_reasons_def)
  note requirements_met [OF this]
  moreover from none(2) [unfolded role(3)] free(2) obtain m bk st rc mc n where
    "model_of (lr_orchestra rt) (rl_model (rc_info role)) = Ok m" "lr_factory rt m = Ok bk" "model_reasons rt m = []"
    "backend_policy m (Ok bk) = []" "bk_model bk (rl_runtime_id (rc_info role)) = Ok mc"
    "bind_role rt role = \<lparr>bi_reasons = [], bi_model = Some m, bi_profile_context = n, bi_backend = Some bk,
      bi_status = st, bi_runtime = rc, bi_caps = mc\<rparr>"
    by (rule bind_role_none)
  ultimately show ?thesis using role(1,3) free r
    by (intro exI [of _ role] exI [of _ m] exI [of _ bk])
      (auto simp: route_of_def model_reasons_def backend_policy_def Let_def requested_of_def split: if_splits)
qed

text \<open>The stored route is what was resolved: reading it back by its identifier gives every field of
  the route but the live backend, so that a route from the store can be shown and checked, and
  only the process that resolved it can prepare it.\<close>

theorem route_read_back:
  assumes "resolve_route rt e attempts later ids existing own lost name task q True s = (Ok r, s')"
  shows "load_route (ro_id r) s' = Ok (r\<lparr>ro_instance := None\<rparr>) \<and>
    prepare_route rt ow artifact (r\<lparr>ro_instance := None\<rparr>) \<noteq> Ok x"
proof -
  from assms obtain s1 s2 where "resolve_owned rt e ids name task q True s1 = (Ok r, s2)" and "fst s' = fst s2"
    unfolding resolve_route_def by (rule model_scopeE)
  then have "fst s' = fst s1 @ [r]" "ro_id r \<notin> ro_id ` set (fst s1)" by (auto elim: resolve_ownedE)
  then show ?thesis
    by (auto simp: load_route_def select_one_append_new prepare_route_def elim!: and_thenE)
qed

subsection \<open>A sample route\<close>

definition verified_models :: model_registry where
  "verified_models = (let r = default_models (\<lambda>p. p) in
     r\<lparr>mr_models := map (\<lambda>(a, m). (a, m\<lparr>mi_integrity_verified := Some True, mi_runtime_compatible := Some True\<rparr>)) (mr_models r)\<rparr>)"

definition sample_backend :: backend where
  "sample_backend = \<lparr>bk_local_only = True, bk_zero_idle = True, bk_identity = ''llama.cpp'',
     bk_status = Ok \<lparr>bs_backend = ''llama.cpp'', bs_available = True, bs_healthy = True, bs_message = [], bs_support = []\<rparr>,
     bk_capabilities = Ok (no_runtime\<lparr>rk_on_demand := True\<rparr>),
     bk_model = (\<lambda>m. Ok (no_model\<lparr>mk_model := m, mk_context := 8192\<rparr>)),
     bk_load = (\<lambda>m. Err (Runtime_Error [])), bk_unload = (\<lambda>m. Err (Runtime_Error []))\<rparr>"

definition sample_router :: router where
  "sample_router = \<lparr>lr_orchestra = sample_orchestra\<lparr>oc_models := verified_models\<rparr>,
     lr_profile_context = (\<lambda>_ _. Ok 16384), lr_factory = (\<lambda>_. Ok sample_backend)\<rparr>"

definition plain_request :: requirements where
  "plain_request = \<lparr>rn_capabilities = [], rn_context = 4096, rn_reasoning = False, rn_tools = False, rn_modalities = [''text'']\<rparr>"

definition resolved :: "runtime_route result \<times> (routes \<times> db)" where
  "resolved = resolve_route sample_router (sample_env 1) [(sample_env 1, \<lambda>d. d)] (sample_env 2) (\<lambda>n. ''r'' @ dec n) None live_owner None
     (rr_default default_roles) None plain_request True ([], empty_db)"

definition slot_db :: db where
  "slot_db = snd (acquire [(sample_env 1, \<lambda>d. d)] model_slot live_owner (seconds 30)
     (dict_update [(''operation'', JStr ''runtime-route'')] [(''role'', JStr (rr_default default_roles))]) empty_db)"

definition sample_role :: role_record where
  "sample_role = projr (role_of default_roles (rr_default default_roles))"

lemma slot_got: "fst (acquire [(sample_env 1, \<lambda>d. d)] model_slot live_owner (seconds 30)
    (dict_update [(''operation'', JStr ''runtime-route'')] [(''role'', JStr (rr_default default_roles))]) empty_db)"
  by code_simp

lemma sample_role_Ok: "is_ok (role_of default_roles (rr_default default_roles))"
  by code_simp

lemma sample_role_free: "role_reasons sample_role None slot_db (rn_capabilities (requested_of plain_request)) = Ok []"
  by code_simp

lemma sample_binding: "bi_reasons (bind_role sample_router sample_role) @
    lifecycle_reasons sample_role (bind_role sample_router sample_role) (requested_of plain_request) = []"
  by code_simp

definition sample_route :: runtime_route where
  "sample_route = route_of 1 ''r0'' sample_role None (requested_of plain_request) [] (bind_role sample_router sample_role)"

lemma persist_first: "ro_task r = None \<Longrightarrow> persist_route stamp uuid r ([], d) = (Ok (), ([r], d))"
  by (simp add: persist_route_def transact_def missing_id_def optional_def fresh_def and_then_def admit_def raise_if_def)

lemma owned_route: "resolve_owned sample_router (sample_env 1) (\<lambda>n. ''r'' @ dec n) (rr_default default_roles) None plain_request True
    ([], slot_db) = (Ok sample_route, ([sample_route], slot_db))"
proof -
  have role: "role_of (oc_roles (lr_orchestra sample_router)) (rr_default default_roles) = Ok sample_role"
    using sample_role_Ok by (cases "role_of default_roles (rr_default default_roles)")
      (simp_all add: sample_router_def sample_orchestra_def sample_role_def)
  have "dec 0 = ''0''" by code_simp
  then have "route_of (now (sample_env 1)) (''r'' @ dec 0) sample_role None (requested_of plain_request)
      (bi_reasons (bind_role sample_router sample_role) @
       lifecycle_reasons sample_role (bind_role sample_router sample_role) (requested_of plain_request))
      (bind_role sample_router sample_role) = sample_route"
    by (simp only: sample_binding sample_env_simps sample_route_def append.simps)
  moreover have "ro_task sample_route = None" by (simp add: sample_route_def route_of_def)
  ultimately show ?thesis
    using role sample_role_free by (simp add: resolved_def resolve_owned_def persist_first del: append_is_Nil_conv)
qed

lemma resolved_route: "resolved = (Ok sample_route, snd resolved)"
proof -
  have "acquire [(sample_env 1, \<lambda>d. d)] model_slot live_owner (seconds 30)
      (dict_update [(''operation'', JStr ''runtime-route'')] [(''role'', JStr (rr_default default_roles))]) empty_db = (True, slot_db)"
    using slot_got by (simp only: slot_db_def prod_eq_iff fst_conv snd_conv)
  then have "fst resolved = Ok sample_route"
    by (simp add: resolved_def resolve_route_def model_execution_scope_def owned_route [unfolded append.simps] del: acquire.simps)
  then show ?thesis by (metis prod.collapse)
qed

lemma sample_route_fields: "ro_ready sample_route" "ro_id sample_route = ''r0''"
  by (simp_all add: sample_route_def route_of_def)

lemma ready_route_fits_witness:
  "fst resolved = Ok sample_route \<and> 4096 \<le> mk_context (ro_model_caps sample_route) \<and> 4096 \<le> ro_profile_context sample_route \<and>
     bk_model sample_backend (ro_runtime sample_route) = Ok (ro_model_caps sample_route)"
proof -
  from ready_route_fits [OF resolved_route [unfolded resolved_def] sample_route_fields(1)]
  have "bk_model sample_backend (ro_runtime sample_route) = Ok (ro_model_caps sample_route) \<and>
      4096 \<le> mk_context (ro_model_caps sample_route) \<and> 4096 \<le> ro_profile_context sample_route"
    by (auto simp: plain_request_def sample_router_def)
  then show ?thesis using arg_cong [OF resolved_route, of fst] by simp
qed

lemma route_read_back_witness:
  "fst resolved = Ok sample_route \<and> load_route ''r0'' (snd resolved) = Ok (sample_route\<lparr>ro_instance := None\<rparr>)"
  using route_read_back [OF resolved_route [unfolded resolved_def], folded resolved_def]
    arg_cong [OF resolved_route, of fst] sample_route_fields(2) by simp

end
