(* ===== verification/Memory.thy ===== *)
theory Memory
  imports Orchestration Control_Queue "HOL-Library.List_Lexorder" "HOL-Library.Char_ord"
begin

section \<open>Memory\<close>

text \<open>
  \<^verbatim>\<open>src/tars/memory.py\<close>: entries are documents in files, found again through an index and a
  full-text table of the database; candidates wait for a review, which a lease protects.  The
  files lie outside the database, so that an operation that stops between the two leaves them
  apart, until \<^verbatim>\<open>doctor\<close> rebuilds the index.  A document is what \<open>Memory_Text\<close> reads from its
  text, or a text that cannot be read; a path is the directory of its kind with the file's name,
  below the root of the memory.  How SQLite ranks a document for a query is a parameter, a moment is
  a \<open>time\<close>, and each transaction has its own clock.
\<close>

subsection \<open>Entries, files and tables\<close>

type_synonym doc_path = "string \<times> string"

record memory_entry =
  me_id :: ident
  me_kind :: string
  me_scope :: string
  me_title :: string
  me_content :: string
  me_source :: string
  me_created_at :: time
  me_updated_at :: time
  me_confidence :: rat
  me_supersedes :: "ident option"
  me_expiry :: "time option"
  me_tags :: "string list"
  me_path :: doc_path

record fts_row =
  ft_id :: ident
  ft_title :: string
  ft_content :: string
  ft_tags :: string

datatype candidate_state = Staged | Reviewing | Promoted | Rejected

record candidate_row =
  cd_id :: ident
  cd_kind :: string
  cd_scope :: string
  cd_title :: string
  cd_content :: string
  cd_source :: string
  cd_confidence :: rat
  cd_tags :: "string list"
  cd_state :: candidate_state
  cd_reason :: string
  cd_created_at :: time
  cd_reviewed_at :: "time option"

record maintenance_run =
  mn_id :: ident
  mn_trigger :: string
  mn_mode :: string
  mn_status :: string
  mn_report :: dict
  mn_actions :: "dict list"
  mn_rollback :: "string list"
  mn_provenance :: dict
  mn_created_at :: time
  mn_completed_at :: "time option"

text \<open>\<open>None\<close> is a file whose text \<^verbatim>\<open>_parse\<close> cannot read.\<close>

type_synonym document = "memory_entry option"

record memory =
  mm_files :: "(doc_path \<times> document) list"
  mm_history :: "(doc_path \<times> string \<times> document) list"
  mm_index :: "memory_entry list"
  mm_fts :: "fts_row list"
  mm_candidates :: "candidate_row list"
  mm_runs :: "maintenance_run list"

type_synonym remembered = "memory \<times> db"

definition memory_kinds :: "string list" where
  "memory_kinds = [''episodic'', ''profile'', ''projects'', ''reference'', ''system'']"

subsection \<open>Documents\<close>

definition hex_char :: "char \<Rightarrow> bool" where
  "hex_char c = (is_digit c \<or> c \<in> {CHR ''a'', CHR ''b'', CHR ''c'', CHR ''d'', CHR ''e'', CHR ''f''})"

text \<open>\<^verbatim>\<open>^mem-[a-f0-9]{32}$\<close> with \<^verbatim>\<open>match\<close>: \<^verbatim>\<open>$\<close> also matches before a final newline.\<close>

definition plain_memory_id :: "string \<Rightarrow> bool" where
  "plain_memory_id s = (starts_with s ''mem-'' \<and> length s = 36 \<and> list_all hex_char (drop 4 s))"

definition memory_id_ok :: "string \<Rightarrow> bool" where
  "memory_id_ok s = (plain_memory_id s \<or> (s \<noteq> [] \<and> last s = char_of (10 :: nat) \<and> plain_memory_id (butlast s)))"

definition validate_kind :: "string \<Rightarrow> unit result" where
  "validate_kind kind = raise_if (kind \<notin> set memory_kinds) (Value_Error ''invalid memory kind'') (Ok ())"

definition entry_path :: "ident \<Rightarrow> string \<Rightarrow> doc_path result" where
  "entry_path eid kind = and_then (validate_kind kind) (\<lambda>_.
     raise_if (\<not> memory_id_ok eid) (Value_Error ''invalid memory id'') (Ok (kind, eid @ ''.md'')))"

definition parse_document :: "doc_path \<Rightarrow> remembered \<Rightarrow> memory_entry result" where
  "parse_document path s = (case map_of (mm_files (fst s)) path of
     None \<Rightarrow> Err (OS_Error ''no such file'')
   | Some None \<Rightarrow> Err (Value_Error ''invalid memory document'')
   | Some (Some x) \<Rightarrow> Ok (x\<lparr>me_path := path\<rparr>))"

definition write_document :: "doc_path \<Rightarrow> memory_entry \<Rightarrow> remembered \<Rightarrow> remembered" where
  "write_document path x s = ((fst s)\<lparr>mm_files := AList.update path (Some x) (mm_files (fst s))\<rparr>, snd s)"

subsection \<open>The index\<close>

fun join_words :: "string list \<Rightarrow> string" where
  "join_words [] = []"
| "join_words [w] = w"
| "join_words (w # ws) = w @ '' '' @ join_words ws"

definition fts_of :: "memory_entry \<Rightarrow> fts_row" where
  "fts_of x = \<lparr>ft_id = me_id x, ft_title = me_title x, ft_content = me_content x, ft_tags = join_words (me_tags x)\<rparr>"

text \<open>The upsert keeps the time of creation of a row it replaces; a path belongs to one row.\<close>

definition index_entry :: "memory_entry \<Rightarrow> remembered \<Rightarrow> remembered result" where
  "index_entry x s =
    (let m = fst s in
     raise_if (exists_where (\<lambda>r. me_path r = me_path x \<and> me_id r \<noteq> me_id x) (mm_index m))
       (Integrity_Error ''UNIQUE constraint failed'')
    (Ok (m\<lparr>mm_index := (if exists_where (\<lambda>r. me_id r = me_id x) (mm_index m)
           then update_where (\<lambda>r. me_id r = me_id x) (\<lambda>r. x\<lparr>me_created_at := me_created_at r\<rparr>) (mm_index m)
           else mm_index m @ [x]),
         mm_fts := delete_where (\<lambda>r. ft_id r = me_id x) (mm_fts m) @ [fts_of x]\<rparr>, snd s)))"

fun index_all :: "memory_entry list \<Rightarrow> remembered \<Rightarrow> remembered result" where
  "index_all [] s = Ok s"
| "index_all (x # xs) s = and_then (index_entry x s) (index_all xs)"

definition inspect :: "ident \<Rightarrow> remembered \<Rightarrow> memory_entry result" where
  "inspect eid s = (case select_one me_id eid (mm_index (fst s)) of
     None \<Rightarrow> Err (Key_Error ''unknown memory'') | Some r \<Rightarrow> parse_document (me_path r) s)"

definition normalized :: "string \<Rightarrow> string" where
  "normalized s = join_words (split_words [] (casefold s))"

definition find_duplicate :: "string \<Rightarrow> string \<Rightarrow> remembered \<Rightarrow> memory_entry option result" where
  "find_duplicate content scope s =
    (case find (\<lambda>r. me_scope r = scope \<and> normalized (me_content r) = normalized content) (mm_index (fst s)) of
       None \<Rightarrow> Ok None | Some r \<Rightarrow> and_then (inspect (me_id r) s) (\<lambda>x. Ok (Some x)))"

record memory_text =
  mt_content :: string
  mt_kind :: string
  mt_scope :: string
  mt_title :: string
  mt_source :: string
  mt_confidence :: rat
  mt_supersedes :: "ident option"
  mt_expiry :: "time option"
  mt_tags :: "string list"

definition check_memory :: "memory_text \<Rightarrow> unit result" where
  "check_memory t = and_then (validate_kind (mt_kind t)) (\<lambda>_.
     raise_if (strip (mt_content t) = []) (Value_Error ''memory content cannot be empty'')
    (raise_if (mt_confidence t < 0 \<or> 1 < mt_confidence t) (Value_Error ''confidence must be between 0 and 1'')
    (raise_if (strip (mt_scope t) = []) (Value_Error ''memory scope cannot be empty'') (Ok ()))))"

definition new_entry :: "time \<Rightarrow> ident \<Rightarrow> doc_path \<Rightarrow> memory_text \<Rightarrow> memory_entry" where
  "new_entry stamp eid path t = \<lparr>me_id = eid, me_kind = mt_kind t, me_scope = mt_scope t, me_title = mt_title t,
     me_content = strip (mt_content t), me_source = mt_source t, me_created_at = stamp, me_updated_at = stamp,
     me_confidence = mt_confidence t, me_supersedes = mt_supersedes t, me_expiry = mt_expiry t,
     me_tags = first_only (mt_tags t), me_path = path\<rparr>"

text \<open>\<^verbatim>\<open>remember\<close> looks for a duplicate on a connection of its own, then writes the file, then indexes the
  entry in a transaction.  Another process may come in between; \<open>Memory_Races\<close> interleaves the three
  steps, which \<open>remember\<close> takes one after the other.  \<open>eid\<close> is the fresh identifier, or the one the
  review gives.\<close>

definition remember_lookup :: "memory_text \<Rightarrow> remembered \<Rightarrow> memory_entry option result" where
  "remember_lookup t s = and_then (check_memory t) (\<lambda>_.
     and_then (case mt_supersedes t of None \<Rightarrow> Ok () | Some old \<Rightarrow> and_then (inspect old s) (\<lambda>_. Ok ())) (\<lambda>_.
     find_duplicate (strip (mt_content t)) (mt_scope t) s))"

definition remember_write :: "time \<Rightarrow> ident \<Rightarrow> memory_text \<Rightarrow> remembered \<Rightarrow> memory_entry result \<times> remembered" where
  "remember_write stamp eid t s = and_next (entry_path eid (mt_kind t), s) (\<lambda>path s.
     let x = new_entry stamp eid path t in (Ok x, write_document path x s))"

definition remember_index :: "memory_entry \<Rightarrow> remembered \<Rightarrow> memory_entry result \<times> remembered" where
  "remember_index x = transact (\<lambda>s. and_then (index_entry x s) (\<lambda>s. Ok (x, s)))"

definition remember :: "time \<Rightarrow> ident \<Rightarrow> memory_text \<Rightarrow> remembered \<Rightarrow> memory_entry result \<times> remembered" where
  "remember stamp eid t s = and_next (remember_lookup t s, s) (\<lambda>found s. case found of
     Some x \<Rightarrow> (Ok x, s)
   | None \<Rightarrow> and_next (remember_write stamp eid t s) (\<lambda>x s. remember_index x s))"

subsection \<open>Searching\<close>

text \<open>\<^verbatim>\<open>[\w-]\<close> among the characters below 256: beside the ASCII ones, what \<^verbatim>\<open>isalnum\<close> holds of\<close>

definition latin_word :: "nat \<Rightarrow> bool" where
  "latin_word n = (n \<in> {170, 178, 179, 181, 185, 186, 188, 189, 190} \<or> (192 \<le> n \<and> n \<le> 255 \<and> n \<noteq> 215 \<and> n \<noteq> 247))"

definition term_char :: "char \<Rightarrow> bool" where
  "term_char c = (is_lower c \<or> is_upper c \<or> is_digit c \<or> c = CHR ''_'' \<or> c = CHR ''-'' \<or> latin_word (of_char c))"

text \<open>\<^verbatim>\<open>re.findall(r"[\w-]+", query)\<close>\<close>

fun query_terms :: "string \<Rightarrow> string \<Rightarrow> string list" where
  "query_terms acc [] = (if acc = [] then [] else [rev acc])"
| "query_terms acc (c # cs) = (if term_char c then query_terms (c # acc) cs
     else if acc = [] then query_terms [] cs else rev acc # query_terms [] cs)"

text \<open>The expiry is the moment it names; the code compares its text with that of the current time.\<close>

definition live_entry :: "time \<Rightarrow> string option \<Rightarrow> string option \<Rightarrow> memory_entry list \<Rightarrow> memory_entry \<Rightarrow> bool" where
  "live_entry stamp scope kind index r =
     ((scope = None \<or> scope = Some [] \<or> Some (me_scope r) = scope) \<and>
      (kind = None \<or> kind = Some [] \<or> Some (me_kind r) = kind) \<and>
      (case me_expiry r of None \<Rightarrow> True | Some t \<Rightarrow> stamp < t) \<and>
      \<not> exists_where (\<lambda>x. me_supersedes x = Some (me_id r)) index)"

text \<open>\<open>rank\<close> gives the rank of a row of the full-text table, for the terms, when it matches.\<close>

definition search_rows ::
    "(fts_row list \<Rightarrow> string list \<Rightarrow> fts_row \<Rightarrow> rat option) \<Rightarrow> time \<Rightarrow> string list \<Rightarrow> string option \<Rightarrow> string option \<Rightarrow> nat \<Rightarrow>
     memory \<Rightarrow> (rat \<times> memory_entry) list" where
  "search_rows rank stamp terms scope kind limit m =
     take limit (sort_key (\<lambda>(score, r). (score, - me_updated_at r))
       (concat (map (\<lambda>f. case rank (mm_fts m) terms f of None \<Rightarrow> []
          | Some score \<Rightarrow> map (\<lambda>r. (score, r)) (filter (\<lambda>r. me_id r = ft_id f \<and> live_entry stamp scope kind (mm_index m) r)
              (mm_index m))) (mm_fts m))))"

fun parse_hits :: "(rat \<times> memory_entry) list \<Rightarrow> remembered \<Rightarrow> (memory_entry \<times> rat) list result" where
  "parse_hits [] s = Ok []"
| "parse_hits ((score, r) # hits) s = and_then (parse_document (me_path r) s) (\<lambda>x.
     and_then (parse_hits hits s) (\<lambda>xs. Ok ((x, - score) # xs)))"

definition search ::
    "(fts_row list \<Rightarrow> string list \<Rightarrow> fts_row \<Rightarrow> rat option) \<Rightarrow> time \<Rightarrow> string \<Rightarrow> string option \<Rightarrow> string option \<Rightarrow> nat \<Rightarrow>
     remembered \<Rightarrow> (memory_entry \<times> rat) list result" where
  "search rank stamp query scope kind limit s =
    (let terms = query_terms [] (strip query) in
     if terms = [] then Ok [] else
     and_then (if kind = None \<or> kind = Some [] then Ok () else validate_kind (the kind)) (\<lambda>_.
     parse_hits (search_rows rank stamp terms scope kind limit (fst s)) s))"

subsection \<open>Forgetting and rebuilding\<close>

text \<open>\<^verbatim>\<open>_archive\<close>: a copy in the history, named by time, action and digest\<close>

definition archive :: "doc_path \<Rightarrow> string \<Rightarrow> remembered \<Rightarrow> (doc_path \<times> string \<times> document) option \<times> remembered" where
  "archive path action s = (case map_of (mm_files (fst s)) path of
     None \<Rightarrow> (None, s)
   | Some x \<Rightarrow> (Some (path, action, x), ((fst s)\<lparr>mm_history := mm_history (fst s) @ [(path, action, x)]\<rparr>, snd s)))"

definition forget_rows :: "ident \<Rightarrow> remembered \<Rightarrow> remembered" where
  "forget_rows eid s = ((fst s)\<lparr>mm_fts := delete_where (\<lambda>r. ft_id r = eid) (mm_fts (fst s)),
     mm_index := delete_where (\<lambda>r. me_id r = eid) (mm_index (fst s))\<rparr>, snd s)"

definition forget :: "ident \<Rightarrow> remembered \<Rightarrow> (doc_path \<times> string \<times> document) option result \<times> remembered" where
  "forget eid s = and_next (inspect eid s, s) (\<lambda>x s.
     let (kept, s) = archive (me_path x) ''delete'' s;
         s = ((fst s)\<lparr>mm_files := AList.delete (me_path x) (mm_files (fst s))\<rparr>, snd s) in
     (Ok kept, forget_rows eid s))"

definition files_of :: "(string \<Rightarrow> bool) \<Rightarrow> string \<Rightarrow> memory \<Rightarrow> doc_path list" where
  "files_of matching kind m = sort (filter (\<lambda>(k, name). k = kind \<and> matching name) (map fst (mm_files m)))"

definition memory_name :: "string \<Rightarrow> bool" where
  "memory_name name = (starts_with name ''mem-'' \<and> ends_with name ''.md'' \<and> 7 \<le> length name)"

definition corpus :: "memory \<Rightarrow> doc_path list" where
  "corpus m = concat (map (\<lambda>kind. files_of memory_name kind m) memory_kinds)"

fun parse_all :: "doc_path list \<Rightarrow> remembered \<Rightarrow> memory_entry list result" where
  "parse_all [] s = Ok []"
| "parse_all (p # ps) s = and_then (parse_document p s) (\<lambda>x. and_then (parse_all ps s) (\<lambda>xs. Ok (x # xs)))"

definition rebuild_index :: "remembered \<Rightarrow> nat result \<times> remembered" where
  "rebuild_index s = and_next (parse_all (corpus (fst s)) s, s) (\<lambda>xs s.
     transact (\<lambda>s. and_then (index_all xs ((fst s)\<lparr>mm_fts := [], mm_index := []\<rparr>, snd s)) (\<lambda>s. Ok (length xs, s))) s)"

end
