(* ===== verification/Memory_Review.thy ===== *)
theory Memory_Review
  imports Memory Policy
begin

section \<open>Candidates, the doctor, and maintenance of the memory\<close>

text \<open>
  The second half of \<^verbatim>\<open>src/tars/memory.py\<close> and \<^verbatim>\<open>src/tars/memory_maintenance.py\<close>.  A model proposes
  candidates; a reviewer claims one, and promotes or rejects it in a later transaction, provided it
  still holds the lease.  A maintenance run works under a lease of its own.  \<open>step k\<close> is the clock
  of the \<open>k\<close>-th transaction of an operation.
\<close>

subsection \<open>Candidates\<close>

abbreviation review_of :: "ident \<Rightarrow> resource" where
  "review_of cid \<equiv> (Other_Resource ''memory-candidate-review'', cid)"

abbreviation maintenance_of :: "ident \<Rightarrow> resource" where
  "maintenance_of rid \<equiv> (Other_Resource ''memory-maintenance'', rid)"

definition find_candidate :: "remembered \<Rightarrow> ident \<Rightarrow> candidate_row option" where
  "find_candidate s cid = select_one cd_id cid (mm_candidates (fst s))"

definition update_candidates :: "(candidate_row \<Rightarrow> bool) \<Rightarrow> (candidate_row \<Rightarrow> candidate_row) \<Rightarrow> remembered \<Rightarrow> remembered" where
  "update_candidates P f s = ((fst s)\<lparr>mm_candidates := update_where P f (mm_candidates (fst s))\<rparr>, snd s)"

definition stage_candidate :: "time \<Rightarrow> ident \<Rightarrow> memory_text \<Rightarrow> remembered \<Rightarrow> ident result \<times> remembered" where
  "stage_candidate stamp cid t s =
     and_next (check_memory t, s) (\<lambda>_ s.
     transact (\<lambda>s. raise_if (cid \<in> cd_id ` set (mm_candidates (fst s))) (Integrity_Error ''UNIQUE constraint failed'')
       (Ok (cid, ((fst s)\<lparr>mm_candidates := mm_candidates (fst s) @ [\<lparr>cd_id = cid, cd_kind = mt_kind t, cd_scope = mt_scope t,
          cd_title = mt_title t, cd_content = strip (mt_content t), cd_source = mt_source t,
          cd_confidence = mt_confidence t, cd_tags = mt_tags t, cd_state = Staged, cd_reason = [],
          cd_created_at = stamp, cd_reviewed_at = None\<rparr>]\<rparr>, snd s)))) s)"

definition review_candidates :: "candidate_state \<Rightarrow> remembered \<Rightarrow> candidate_row list" where
  "review_candidates st s = sort_key cd_created_at (filter (\<lambda>c. cd_state c = st) (mm_candidates (fst s)))"

definition reviewable :: "candidate_row \<Rightarrow> bool" where
  "reviewable c = (cd_state c = Staged \<or> cd_state c = Reviewing)"

definition start_review ::
    "env \<Rightarrow> owner \<Rightarrow> ident \<Rightarrow> bool \<Rightarrow> string \<Rightarrow> remembered \<Rightarrow> (candidate_row \<times> remembered) result" where
  "start_review e ow cid promote reason s =
    (case find (\<lambda>c. cd_id c = cid \<and> reviewable c) (mm_candidates (fst s)) of
       None \<Rightarrow> Err (Key_Error ''unknown staged memory candidate'')
     | Some row \<Rightarrow>
       let (claimed, d) = claim_in_transaction e (review_of cid) ow (seconds 30) [(''promote'', JBool promote)] (snd s);
           P = (\<lambda>c. cd_id c = cid \<and> reviewable c) in
       raise_if (\<not> claimed) (Runtime_Error ''memory candidate has a live reviewer'')
      (raise_if (count_where P (mm_candidates (fst s)) \<noteq> 1) (Runtime_Error ''memory candidate changed concurrently'')
      (Ok (row, update_candidates P (\<lambda>c. c\<lparr>cd_state := Reviewing, cd_reason := reason, cd_reviewed_at := Some (now e)\<rparr>)
         (fst s, d)))))"

definition holds_lease :: "(lease_row \<Rightarrow> bool) \<Rightarrow> resource \<Rightarrow> owner \<Rightarrow> db \<Rightarrow> bool" where
  "holds_lease P res ow d = exists_where (\<lambda>l. on_lease res l \<and> ls_token l = ow_token ow \<and> P l) (resource_leases d)"

definition settle_review ::
    "env \<Rightarrow> owner \<Rightarrow> ident \<Rightarrow> candidate_state \<Rightarrow> string \<Rightarrow> remembered \<Rightarrow> (unit \<times> remembered) result" where
  "settle_review e ow cid st reason s =
    (let P = (\<lambda>c. cd_id c = cid \<and> cd_state c = Reviewing \<and> holds_lease (\<lambda>l. now e < ls_expires_at l) (review_of cid) ow (snd s)) in
     raise_if (count_where P (mm_candidates (fst s)) \<noteq> 1) (Runtime_Error ''memory candidate lost review ownership'')
    (let s1 = update_candidates P (\<lambda>c. c\<lparr>cd_state := st, cd_reason := reason, cd_reviewed_at := Some (now e)\<rparr>) s in
     Ok ((), (fst s1, drop_lease (Other_Resource ''memory-candidate-review'') cid (ow_token ow) (snd s1)))))"

definition restage :: "owner \<Rightarrow> ident \<Rightarrow> remembered \<Rightarrow> (unit \<times> remembered) result" where
  "restage ow cid s =
    (let P = (\<lambda>c. cd_id c = cid \<and> cd_state c = Reviewing \<and> holds_lease (\<lambda>_. True) (review_of cid) ow (snd s));
         s1 = update_candidates P (\<lambda>c. c\<lparr>cd_state := Staged, cd_reviewed_at := None\<rparr>) s in
     Ok ((), if count_where P (mm_candidates (fst s)) = 0 then s1
       else (fst s1, drop_lease (Other_Resource ''memory-candidate-review'') cid (ow_token ow) (snd s1))))"

definition candidate_text :: "candidate_row \<Rightarrow> memory_text" where
  "candidate_text c = \<lparr>mt_content = cd_content c, mt_kind = cd_kind c, mt_scope = cd_scope c, mt_title = cd_title c,
     mt_source = cd_source c, mt_confidence = cd_confidence c, mt_supersedes = None, mt_expiry = None, mt_tags = cd_tags c\<rparr>"

text \<open>\<^verbatim>\<open>"mem-" + candidate_id.removeprefix("cand-")\<close>\<close>

definition promoted_id :: "ident \<Rightarrow> ident" where
  "promoted_id cid = ''mem-'' @ (if starts_with cid ''cand-'' then drop 5 cid else cid)"

definition decide_candidate ::
    "(nat \<Rightarrow> env) \<Rightarrow> owner \<Rightarrow> ident \<Rightarrow> bool \<Rightarrow> string \<Rightarrow> remembered \<Rightarrow> memory_entry option result \<times> remembered" where
  "decide_candidate step ow cid promote reason s =
     and_next (transact (start_review (step 0) ow cid promote reason) s) (\<lambda>row s.
     if \<not> promote
     then and_next (transact (settle_review (step 1) ow cid Rejected reason) s) (\<lambda>_ s. (Ok None, s))
     else
       let (x, s) = and_next (remember (now (step 1)) (promoted_id cid) (candidate_text row) s) (\<lambda>x s.
             and_next (transact (settle_review (step 2) ow cid Promoted reason) s) (\<lambda>_ s. (Ok x, s))) in
       (case x of Inr entry \<Rightarrow> (Ok (Some entry), s)
        | Inl err \<Rightarrow> and_next (transact (restage ow cid) s) (\<lambda>_ s. (Err err, s))))"

subsection \<open>The doctor\<close>

definition all_documents :: "memory \<Rightarrow> doc_path list" where
  "all_documents m = concat (map (\<lambda>kind. files_of (\<lambda>name. ends_with name ''.md'') kind m) memory_kinds)"

record doctor_report =
  dr_ok :: bool
  dr_files :: nat
  dr_indexed :: nat
  dr_errors :: "(doc_path \<times> error) list"

fun broken_documents :: "doc_path list \<Rightarrow> remembered \<Rightarrow> (doc_path \<times> error) list" where
  "broken_documents [] s = []"
| "broken_documents (p # ps) s = (case parse_document p s of
     Inl err \<Rightarrow> (p, err) # broken_documents ps s | Inr _ \<Rightarrow> broken_documents ps s)"

definition doctor :: "remembered \<Rightarrow> doctor_report result \<times> remembered" where
  "doctor s =
    (let paths = all_documents (fst s); errors = broken_documents paths s in
     and_next (if errors = [] then rebuild_index s else (Ok 0, s)) (\<lambda>indexed s.
     (Ok \<lparr>dr_ok = (errors = []), dr_files = length paths, dr_indexed = indexed, dr_errors = errors\<rparr>, s)))"

record memory_status =
  st_ok :: bool
  st_files :: nat
  st_indexed :: nat
  st_staged :: nat

definition memory_status_of :: "memory \<Rightarrow> memory_status" where
  "memory_status_of m = (let files = length (corpus m); indexed = length (mm_index m) in
     \<lparr>st_ok = (files = indexed), st_files = files, st_indexed = indexed,
      st_staged = count_where (\<lambda>c. cd_state c = Staged) (mm_candidates m)\<rparr>)"

subsection \<open>The audit\<close>

record memory_audit =
  au_entries :: nat
  au_staged :: nat
  au_duplicates :: "ident list list"
  au_expired :: "ident list"
  au_superseded :: "ident list"
  au_orphans :: "ident list"
  au_unindexed :: "doc_path list"
  au_missing :: "doc_path list"

definition same_text :: "memory_entry \<Rightarrow> memory_entry \<Rightarrow> bool" where
  "same_text r r' = (me_scope r = me_scope r' \<and> normalized (me_content r) = normalized (me_content r'))"

fun groups_of :: "memory_entry list \<Rightarrow> memory_entry list list" where
  "groups_of [] = []"
| "groups_of (r # rows) = (r # filter (same_text r) rows) # groups_of (filter (\<lambda>x. \<not> same_text r x) rows)"

definition audit_memory :: "time \<Rightarrow> memory \<Rightarrow> memory_audit" where
  "audit_memory stamp m =
    (let rows = sort_key (\<lambda>r. (me_created_at r, me_id r)) (mm_index m);
         ids = map me_id rows;
         superseded = remdups (concat (map (\<lambda>r. case me_supersedes r of Some x \<Rightarrow> if x = [] then [] else [x] | None \<Rightarrow> []) rows));
         indexed = map me_path rows;
         files = corpus m in
     \<lparr>au_entries = length rows, au_staged = count_where (\<lambda>c. cd_state c = Staged) (mm_candidates m),
      au_duplicates = map (map me_id) (filter (\<lambda>g. 1 < length g) (groups_of rows)),
      au_expired = sort (map me_id (filter (\<lambda>r. case me_expiry r of None \<Rightarrow> False | Some t \<Rightarrow> t \<le> stamp) rows)),
      au_superseded = sort (filter (\<lambda>x. x \<in> set ids) superseded),
      au_orphans = sort (filter (\<lambda>x. x \<notin> set ids) superseded),
      au_unindexed = sort (filter (\<lambda>p. p \<notin> set indexed) files),
      au_missing = sort (filter (\<lambda>p. p \<notin> set files) indexed)\<rparr>)"

subsection \<open>Maintenance runs\<close>

definition maintenance_triggers :: "string list" where
  "maintenance_triggers = [''explicit'', ''session_close'', ''context_rollover'', ''scheduled'']"

definition find_maintenance :: "remembered \<Rightarrow> ident \<Rightarrow> maintenance_run option" where
  "find_maintenance s rid = select_one mn_id rid (mm_runs (fst s))"

definition load_maintenance :: "ident \<Rightarrow> remembered \<Rightarrow> maintenance_run result" where
  "load_maintenance rid s = (case find_maintenance s rid of
     None \<Rightarrow> Err (Key_Error ''unknown memory maintenance run'') | Some r \<Rightarrow> Ok r)"

definition update_runs :: "(maintenance_run \<Rightarrow> bool) \<Rightarrow> (maintenance_run \<Rightarrow> maintenance_run) \<Rightarrow> remembered \<Rightarrow> remembered" where
  "update_runs P f s = ((fst s)\<lparr>mm_runs := update_where P f (mm_runs (fst s))\<rparr>, snd s)"

definition begin_maintenance ::
    "env \<Rightarrow> owner \<Rightarrow> ident \<Rightarrow> string \<Rightarrow> string \<Rightarrow> dict \<Rightarrow> error \<Rightarrow> remembered \<Rightarrow> (unit \<times> remembered) result" where
  "begin_maintenance e ow rid trigger mode provenance busy s =
     raise_if (rid \<in> mn_id ` set (mm_runs (fst s))) (Integrity_Error ''UNIQUE constraint failed'')
    (let (claimed, d) = claim_in_transaction e (maintenance_of rid) ow (seconds 30) [(''mode'', JStr mode)] (snd s) in
     raise_if (\<not> claimed) busy
    (Ok ((), ((fst s)\<lparr>mm_runs := mm_runs (fst s) @ [\<lparr>mn_id = rid, mn_trigger = trigger, mn_mode = mode,
       mn_status = ''running'', mn_report = [], mn_actions = [], mn_rollback = [], mn_provenance = provenance,
       mn_created_at = now e, mn_completed_at = None\<rparr>]\<rparr>, d))))"

definition finish_owned_run ::
    "env \<Rightarrow> owner \<Rightarrow> ident \<Rightarrow> string \<Rightarrow> dict \<Rightarrow> dict list \<Rightarrow> string list \<Rightarrow> remembered \<Rightarrow> (unit \<times> remembered) result" where
  "finish_owned_run e ow rid status report actions rollback s =
    (let P = (\<lambda>r. mn_id r = rid \<and> mn_status r = ''running'' \<and>
           holds_lease (\<lambda>l. now e < ls_expires_at l) (maintenance_of rid) ow (snd s)) in
     raise_if (count_where P (mm_runs (fst s)) \<noteq> 1) (Runtime_Error ''memory maintenance run lost ownership'')
    (let s1 = update_runs P (\<lambda>r. r\<lparr>mn_status := status, mn_report := report, mn_actions := actions,
           mn_rollback := rollback, mn_completed_at := Some (now e)\<rparr>) s in
     Ok ((), (fst s1, drop_lease (Other_Resource ''memory-maintenance'') rid (ow_token ow) (snd s1)))))"

text \<open>What the reports say of an audit and of an archived file is text the caller passes on
  (\<open>told\<close>, \<open>file_name\<close>).\<close>

fun forget_expired ::
    "(doc_path \<Rightarrow> string) \<Rightarrow> ident list \<Rightarrow> dict list \<Rightarrow> string list \<Rightarrow> remembered \<Rightarrow> (error option \<times> dict list \<times> string list) \<times> remembered" where
  "forget_expired file_name [] actions rollback s = ((None, actions, rollback), s)"
| "forget_expired file_name (eid # eids) actions rollback s = (case forget eid s of
     (Inl err, s) \<Rightarrow> ((Some err, actions, rollback), s)
   | (Inr kept, s) \<Rightarrow> forget_expired file_name eids
       (actions @ [[(''action'', JStr ''forget_expired''), (''memory_id'', JStr eid)]])
       (case kept of None \<Rightarrow> rollback | Some (p, _, _) \<Rightarrow> rollback @ [file_name p]) s)"

definition apply_maintenance ::
    "(doc_path \<Rightarrow> string) \<Rightarrow> memory_audit \<Rightarrow> remembered \<Rightarrow> (error option \<times> bool \<times> dict list \<times> string list) \<times> remembered" where
  "apply_maintenance file_name before s =
    (let ((failed, actions, rollback), s) = forget_expired file_name (au_expired before) [] [] s in
     case failed of Some err \<Rightarrow> ((Some err, False, actions, rollback), s)
     | None \<Rightarrow> (case doctor s of
         (Inl err, s) \<Rightarrow> ((Some err, False, actions, rollback), s)
       | (Inr repair, s) \<Rightarrow> ((None, dr_ok repair, actions @ [[(''action'', JStr ''rebuild_index''),
            (''indexed'', JInt (int (dr_indexed repair)))]], rollback), s)))"

text \<open>\<open>lost\<close> is the error the heartbeat ends with when the body returned; both exits of the body end the
  run, and an error of ending it is dropped when the body had raised one.\<close>

definition run_maintenance ::
    "(nat \<Rightarrow> env) \<Rightarrow> owner \<Rightarrow> ident \<Rightarrow> (doc_path \<Rightarrow> string) \<Rightarrow> (memory_audit \<Rightarrow> json) \<Rightarrow> error option \<Rightarrow> string \<Rightarrow> bool \<Rightarrow>
     remembered \<Rightarrow> maintenance_run result \<times> remembered" where
  "run_maintenance step ow rid file_name told lost trigger apply s =
    (if trigger \<notin> set maintenance_triggers then (Err (Value_Error ''invalid maintenance trigger''), s) else
     and_next (transact (begin_maintenance (step 0) ow rid trigger (if apply then ''apply'' else ''audit'') []
       (Runtime_Error ''new memory maintenance run could not acquire ownership'')) s) (\<lambda>_ s.
     let before = audit_memory (now (step 1)) (fst s);
         ((failed, healthy, actions, rollback), s) = (if apply then apply_maintenance file_name before s
            else ((None, True, [], []), s));
         after = (if apply then audit_memory (now (step 2)) (fst s) else before);
         failed = (case failed of Some err \<Rightarrow> Some err | None \<Rightarrow> lost) in
     (case failed of
        Some err \<Rightarrow> (Err err, snd (transact (finish_owned_run (step 3) ow rid ''failed''
           [(''before'', told before), (''error'', JStr (error_text err))] actions rollback) s))
      | None \<Rightarrow> and_next (transact (finish_owned_run (step 3) ow rid (if healthy then ''completed'' else ''failed'')
           [(''before'', told before), (''after'', told after)] actions rollback) s) (\<lambda>_ s.
         (load_maintenance rid s, s)))))"

definition lost_maintenance :: dict where
  "lost_maintenance = [(''error'', JStr ''maintenance owner was lost; partial changes may exist'')]"

definition recover_maintenance :: "env \<Rightarrow> owner \<Rightarrow> ident \<Rightarrow> remembered \<Rightarrow> nat \<times> remembered" where
  "recover_maintenance e ow rid s =
    (let (claimed, d) = claim_in_transaction e (maintenance_of rid) ow (seconds 30) [(''recovery'', JBool True)] (snd s);
         P = (\<lambda>r. mn_id r = rid \<and> mn_status r = ''running'') in
     if \<not> claimed then (0, (fst s, d)) else
     let s1 = update_runs P (\<lambda>r. r\<lparr>mn_status := ''failed'', mn_report := lost_maintenance, mn_completed_at := Some (now e)\<rparr>)
           (fst s, d) in
     (count_where P (mm_runs (fst s)), (fst s1, drop_lease (Other_Resource ''memory-maintenance'') rid (ow_token ow) (snd s1))))"

fun recover_maintenances :: "env \<Rightarrow> owner \<Rightarrow> ident list \<Rightarrow> nat \<Rightarrow> remembered \<Rightarrow> nat \<times> remembered" where
  "recover_maintenances e ow [] n s = (n, s)"
| "recover_maintenances e ow (rid # rids) n s = (let (k, s) = recover_maintenance e ow rid s in recover_maintenances e ow rids (n + k) s)"

definition recover_interrupted_runs :: "env \<Rightarrow> owner \<Rightarrow> remembered \<Rightarrow> nat \<times> remembered" where
  "recover_interrupted_runs e ow s =
     recover_maintenances e ow (map mn_id (filter (\<lambda>r. mn_status r = ''running'') (mm_runs (fst s)))) 0 s"

definition list_maintenance :: "env \<Rightarrow> owner \<Rightarrow> nat \<Rightarrow> remembered \<Rightarrow> maintenance_run list \<times> remembered" where
  "list_maintenance e ow limit s = (let (_, s) = recover_interrupted_runs e ow s in
     (take limit (sort_key (\<lambda>r. - mn_created_at r) (mm_runs (fst s))), s))"

subsection \<open>Reflection\<close>

text \<open>Proposals are staged until one is refused; \<open>ids\<close> are the identifiers of the candidates.\<close>

fun stage_all ::
    "(nat \<Rightarrow> time) \<Rightarrow> (nat \<Rightarrow> ident) \<Rightarrow> nat \<Rightarrow> memory_text list \<Rightarrow> ident list \<Rightarrow> remembered \<Rightarrow> (error option \<times> ident list) \<times> remembered" where
  "stage_all clock ids k [] staged s = ((None, staged), s)"
| "stage_all clock ids k (t # ts) staged s = (case stage_candidate (clock k) (ids k) t s of
     (Inl err, s) \<Rightarrow> ((Some err, staged), s)
   | (Inr cid, s) \<Rightarrow> stage_all clock ids (k + 1) ts (staged @ [cid]) s)"

definition staged_actions :: "ident list \<Rightarrow> dict list" where
  "staged_actions cids = map (\<lambda>cid. [(''action'', JStr ''stage_candidate''), (''candidate_id'', JStr cid)]) cids"

definition stage_reflection ::
    "(nat \<Rightarrow> env) \<Rightarrow> (nat \<Rightarrow> time) \<Rightarrow> owner \<Rightarrow> ident \<Rightarrow> (nat \<Rightarrow> ident) \<Rightarrow> error option \<Rightarrow> memory_text list \<Rightarrow> string \<Rightarrow> dict \<Rightarrow>
     remembered \<Rightarrow> maintenance_run result \<times> remembered" where
  "stage_reflection step clock ow rid ids lost proposals trigger provenance s =
    (let given = (\<lambda>key. case map_of provenance key of None \<Rightarrow> False | Some v \<Rightarrow> truthy v) in
     if trigger \<notin> set maintenance_triggers then (Err (Value_Error ''invalid maintenance trigger''), s) else
     if \<not> given ''model'' \<or> \<not> given ''backend''
     then (Err (Value_Error ''model-assisted reflection requires model and backend provenance''), s) else
     and_next (transact (begin_maintenance (step 0) ow rid trigger ''reflection'' provenance
       (Runtime_Error ''new reflection run could not acquire ownership'')) s) (\<lambda>_ s.
     let ((failed, staged), s) = stage_all clock ids 0
            (map (\<lambda>t. t\<lparr>mt_source := ''reflection:'' @ rid\<rparr>) proposals) [] s;
         cids = JArr (map JStr staged);
         failed = (case failed of Some err \<Rightarrow> Some err | None \<Rightarrow> lost) in
     (case failed of
        Some err \<Rightarrow> (Err err, snd (transact (finish_owned_run (step 1) ow rid ''failed''
           [(''error'', JStr (error_text err)), (''candidate_ids'', cids)] (staged_actions staged) []) s))
      | None \<Rightarrow> and_next (transact (finish_owned_run (step 1) ow rid ''completed''
           [(''proposals'', JInt (int (length staged))), (''candidate_ids'', cids)] (staged_actions staged) []) s) (\<lambda>_ s.
         (load_maintenance rid s, s)))))"

end
