(* ===== verification/Memory_Safety.thy ===== *)
theory Memory_Safety
  imports Memory_Review
begin

section \<open>What the memory guarantees\<close>

text \<open>
  Over any sequence of the operations: a candidate that was promoted or rejected, and a maintenance
  run that ended, stay as they were recorded (interpretations of \<open>lifecycle\<close>), and operations
  one after the other never store a text twice in a scope.  Then what a rebuild and a search give.
\<close>

subsection \<open>Candidates and runs\<close>

definition settled_candidate :: "candidate_row \<Rightarrow> bool" where
  "settled_candidate c = (\<not> reviewable c)"

definition run_over :: "maintenance_run \<Rightarrow> bool" where
  "run_over r = (mn_status r \<noteq> ''running'')"

definition settled_kept :: "remembered \<Rightarrow> remembered \<Rightarrow> bool" where
  "settled_kept s s' = ((\<forall>cid c. find_candidate s cid = Some c \<and> settled_candidate c \<longrightarrow> find_candidate s' cid = Some c) \<and>
     (\<forall>rid r. find_maintenance s rid = Some r \<and> run_over r \<longrightarrow> find_maintenance s' rid = Some r))"

lemma settled_kept_refl [simp]: "settled_kept s s"
  by (simp add: settled_kept_def)

lemma settled_kept_trans [trans]: "settled_kept a b \<Longrightarrow> settled_kept b c \<Longrightarrow> settled_kept a c"
  by (simp add: settled_kept_def)

lemma settled_kept_same:
  "mm_candidates (fst s') = mm_candidates (fst s) \<Longrightarrow> mm_runs (fst s') = mm_runs (fst s) \<Longrightarrow> settled_kept s s'"
  by (simp add: settled_kept_def find_candidate_def find_maintenance_def)

lemmas settled_next = and_next_keeps [of "settled_kept s0" for s0]

lemma settled_transact:
  assumes "settled_kept s0 s" and "\<And>x s'. body s = Ok (x, s') \<Longrightarrow> settled_kept s s'"
  shows "settled_kept s0 (snd (transact body s))"
  using assms by (cases "body s") (auto intro: settled_kept_trans)

lemma settled_update_candidates:
  assumes "\<And>c. P c \<Longrightarrow> \<not> settled_candidate c" and "\<And>c. cd_id (f c) = cd_id c"
  shows "settled_kept s (update_candidates P f (fst s, d))"
  using assms by (auto simp: settled_kept_def find_candidate_def find_maintenance_def update_candidates_def
      select_one_update_where)

lemma settled_update_runs:
  assumes "\<And>r. P r \<Longrightarrow> \<not> run_over r" and "\<And>r. mn_id (f r) = mn_id r"
  shows "settled_kept s (update_runs P f (fst s, d))"
  using assms by (auto simp: settled_kept_def find_candidate_def find_maintenance_def update_runs_def
      select_one_update_where)

subsection \<open>What leaves candidates and runs alone\<close>

definition tables_same :: "remembered \<Rightarrow> remembered \<Rightarrow> bool" where
  "tables_same s s' = (mm_candidates (fst s') = mm_candidates (fst s) \<and> mm_runs (fst s') = mm_runs (fst s) \<and> snd s' = snd s)"

lemma tables_same_refl [simp]: "tables_same s s"
  by (simp add: tables_same_def)

lemma tables_same_trans: "tables_same a b \<Longrightarrow> tables_same b c \<Longrightarrow> tables_same a c"
  by (simp add: tables_same_def)

lemma tables_settled: "tables_same s s' \<Longrightarrow> settled_kept s s'"
  by (simp add: tables_same_def settled_kept_same)

lemmas tables_next = and_next_keeps [of "tables_same s0" for s0]

lemma index_entry_tables: "index_entry x s = Ok s' \<Longrightarrow> tables_same s s'"
  by (auto simp: index_entry_def Let_def tables_same_def)

lemma index_all_tables: "index_all xs s = Ok s' \<Longrightarrow> tables_same s s'"
  by (induction xs s rule: index_all.induct) (auto elim!: and_thenE intro: tables_same_trans index_entry_tables)

lemma tables_transact:
  assumes "tables_same s0 s" and "\<And>x s'. body s = Ok (x, s') \<Longrightarrow> tables_same s s'"
  shows "tables_same s0 (snd (transact body s))"
  using assms by (cases "body s") (auto intro: tables_same_trans)

lemma write_document_tables [simp]: "tables_same s (write_document path x s)"
  by (simp add: tables_same_def write_document_def)

lemma remember_tables: "tables_same s0 s \<Longrightarrow> tables_same s0 (snd (remember stamp eid t s))"
  unfolding remember_def remember_write_def remember_index_def
  by (intro tables_next)
    (auto simp: Let_def split: option.split intro!: tables_next tables_transact elim!: and_thenE
      intro: tables_same_trans index_entry_tables write_document_tables)

lemma forget_tables: "tables_same s0 s \<Longrightarrow> tables_same s0 (snd (forget eid s))"
  unfolding forget_def
  by (intro tables_next) (auto simp: Let_def archive_def forget_rows_def tables_same_def split: option.split prod.split)

lemma rebuild_tables: "tables_same s0 s \<Longrightarrow> tables_same s0 (snd (rebuild_index s))"
  unfolding rebuild_index_def
  by (intro tables_next tables_transact) (auto elim!: and_thenE dest!: index_all_tables simp: tables_same_def)

lemma doctor_tables: "tables_same s0 s \<Longrightarrow> tables_same s0 (snd (doctor s))"
  unfolding doctor_def Let_def by (intro tables_next) (auto intro: rebuild_tables)

lemma forget_expired_tables: "tables_same s0 s \<Longrightarrow> tables_same s0 (snd (forget_expired name eids actions rollback s))"
proof (induction name eids actions rollback s rule: forget_expired.induct)
  case (2 name eid eids actions rollback s)
  from forget_tables [OF 2(2), of eid] 2(1) show ?case
    by (cases "forget eid s"; cases "fst (forget eid s)") (auto split: prod.splits)
qed simp

lemma apply_maintenance_tables: "tables_same s (snd (apply_maintenance name before s))"
proof -
  obtain failed actions rollback s1 where f: "forget_expired name (au_expired before) [] [] s = ((failed, actions, rollback), s1)"
    by (metis surj_pair)
  have s1: "tables_same s s1" using forget_expired_tables [of s s name "au_expired before" "[]" "[]"] f by simp
  obtain x s2 where d: "doctor s1 = (x, s2)" by (meson surj_pair)
  with doctor_tables [OF s1] have "tables_same s s2" by simp
  with f d s1 show ?thesis by (auto simp: apply_maintenance_def split: option.split sum.split)
qed

subsection \<open>Every operation keeps what was settled\<close>

lemma settled_db [simp]: "settled_kept s0 (fst s, d) = settled_kept s0 s"
  by (simp add: settled_kept_def find_candidate_def find_maintenance_def)

lemma settled_candidates: "settled_kept s0 s \<Longrightarrow> (\<And>c. P c \<Longrightarrow> reviewable c) \<Longrightarrow> (\<And>c. cd_id (f c) = cd_id c) \<Longrightarrow>
    settled_kept s0 (update_candidates P f s)"
  using settled_update_candidates [of P f s "snd s"] settled_kept_trans [of s0 s] by (simp add: settled_candidate_def)

lemma settled_runs: "settled_kept s0 s \<Longrightarrow> (\<And>r. P r \<Longrightarrow> mn_status r = ''running'') \<Longrightarrow> (\<And>r. mn_id (f r) = mn_id r) \<Longrightarrow>
    settled_kept s0 (update_runs P f s)"
  using settled_update_runs [of P f s "snd s"] settled_kept_trans [of s0 s] by (simp add: run_over_def)

lemma fst_updates [simp]:
  "snd (update_candidates P f s) = snd s" "snd (update_runs Q g s) = snd s"
  by (simp_all add: update_candidates_def update_runs_def)

lemma stage_candidate_settled: "settled_kept s0 s \<Longrightarrow> settled_kept s0 (snd (stage_candidate stamp cid t s))"
  unfolding stage_candidate_def
  by (intro settled_next settled_transact)
    (auto simp: settled_kept_def find_candidate_def find_maintenance_def select_one_append)

lemma start_review_settled: "start_review e ow cid promote reason s = Ok (row, s') \<Longrightarrow> settled_kept s s'"
  by (auto simp: start_review_def Let_def split: option.splits prod.splits intro!: settled_candidates)

lemma settle_review_settled: "settle_review e ow cid st reason s = Ok (u, s') \<Longrightarrow> settled_kept s s'"
  by (auto simp: settle_review_def Let_def reviewable_def intro!: settled_candidates)

lemma restage_settled: "restage ow cid s = Ok (u, s') \<Longrightarrow> settled_kept s s'"
  by (auto simp: restage_def Let_def reviewable_def intro!: settled_candidates)

lemma remember_settled: "settled_kept s0 s \<Longrightarrow> settled_kept s0 (snd (remember stamp eid t s))"
  by (rule settled_kept_trans, assumption, rule tables_settled, rule remember_tables) simp

lemma decide_candidate_settled:
  assumes "settled_kept s0 s"
  shows "settled_kept s0 (snd (decide_candidate step ow cid promote reason s))"
proof -
  have settle: "settled_kept s0 (snd (transact (settle_review (step k) ow cid st reason) s1))" if "settled_kept s0 s1" for k st s1
    using that by (rule settled_transact) (rule settle_review_settled)
  have "settled_kept s0 (snd (let (x, s) = and_next (remember (now (step 1)) (promoted_id cid) (candidate_text row) s1) (\<lambda>x s.
             and_next (transact (settle_review (step 2) ow cid Promoted reason) s) (\<lambda>_ s. (Ok x, s))) in
       (case x of Inr entry \<Rightarrow> (Ok (Some entry), s)
        | Inl err \<Rightarrow> and_next (transact (restage ow cid) s) (\<lambda>_ s. (Err err, s)))))" if "settled_kept s0 s1" for row s1
  proof -
    obtain x s2 where m: "and_next (remember (now (step 1)) (promoted_id cid) (candidate_text row) s1) (\<lambda>x s.
             and_next (transact (settle_review (step 2) ow cid Promoted reason) s) (\<lambda>_ s. (Ok x, s))) = (x, s2)" by (meson surj_pair)
    have "settled_kept s0 (snd (and_next (remember (now (step 1)) (promoted_id cid) (candidate_text row) s1) (\<lambda>x s.
             and_next (transact (settle_review (step 2) ow cid Promoted reason) s) (\<lambda>_ s. (Ok x, s)))))"
      by (intro settled_next remember_settled that settle) simp_all
    with m have s2: "settled_kept s0 s2" by simp
    have "settled_kept s0 (snd (and_next (transact (restage ow cid) s2) (\<lambda>_ s. (Err err :: memory_entry option result, s))))" for err
      by (intro settled_next settled_transact s2) (auto intro: restage_settled)
    with m s2 show ?thesis by (cases x) simp_all
  qed
  with assms settle show ?thesis
    unfolding decide_candidate_def
    by (intro settled_next settled_transact) (auto intro: start_review_settled intro!: settled_next)
qed

lemma begin_maintenance_settled: "begin_maintenance e ow rid trigger mode provenance busy s = Ok (u, s') \<Longrightarrow> settled_kept s s'"
  by (auto simp: begin_maintenance_def Let_def settled_kept_def find_candidate_def find_maintenance_def select_one_append
    split: prod.splits)

lemma finish_owned_settled: "finish_owned_run e ow rid status report actions rollback s = Ok (u, s') \<Longrightarrow> settled_kept s s'"
  by (auto simp: finish_owned_run_def Let_def intro!: settled_runs)

lemma finish_settled: "settled_kept s0 s \<Longrightarrow>
    settled_kept s0 (snd (transact (finish_owned_run e ow rid status report actions rollback) s))"
  by (rule settled_transact) (auto intro: finish_owned_settled)

lemma apply_maintenance_settled: "apply_maintenance name before s = (r, s') \<Longrightarrow> settled_kept s0 s \<Longrightarrow> settled_kept s0 s'"
  using apply_maintenance_tables [of s name before] tables_settled [of s s'] settled_kept_trans [of s0 s s'] by simp

lemma run_maintenance_settled:
  assumes "settled_kept s0 s"
  shows "settled_kept s0 (snd (run_maintenance step ow rid name told lost trigger apply s))"
proof (cases "trigger \<in> set maintenance_triggers")
  case True
  have rest: "settled_kept s0 (snd (let before = audit_memory (now (step 1)) (fst s1);
         ((failed, healthy, actions, rollback), s) = (if apply then apply_maintenance name before s1
            else ((None, True, [], []), s1));
         after = (if apply then audit_memory (now (step 2)) (fst s) else before);
         failed = (case failed of Some err \<Rightarrow> Some err | None \<Rightarrow> lost) in
     (case failed of
        Some err \<Rightarrow> (Err err, snd (transact (finish_owned_run (step 3) ow rid ''failed''
           [(''before'', told before), (''error'', JStr (error_text err))] actions rollback) s))
      | None \<Rightarrow> and_next (transact (finish_owned_run (step 3) ow rid (if healthy then ''completed'' else ''failed'')
           [(''before'', told before), (''after'', told after)] actions rollback) s) (\<lambda>_ s.
         (load_maintenance rid s, s)))))" if "settled_kept s0 s1" for s1
  proof -
    obtain failed healthy actions rollback s2 where work: "(if apply then apply_maintenance name (audit_memory (now (step 1)) (fst s1)) s1
        else ((None, True, [], []), s1)) = ((failed, healthy, actions, rollback), s2)" by (metis surj_pair)
    with that have "settled_kept s0 s2" by (auto split: if_splits intro: apply_maintenance_settled)
    then show ?thesis
      unfolding Let_def work by (auto split: option.split intro!: settled_next finish_settled)
  qed
  have entered: "settled_kept s0 (snd (transact (begin_maintenance (step 0) ow rid trigger mode [] busy) s))" for mode busy
    using assms by (rule settled_transact) (rule begin_maintenance_settled)
  show ?thesis
    unfolding run_maintenance_def by (split if_split, intro conjI impI settled_next entered rest) (use assms in simp_all)
qed (use assms in \<open>simp add: run_maintenance_def\<close>)

lemma recover_maintenance_settled: "settled_kept s0 s \<Longrightarrow> settled_kept s0 (snd (recover_maintenance e ow rid s))"
  by (auto simp: recover_maintenance_def Let_def split: prod.split intro!: settled_runs)

lemma recover_maintenances_settled: "settled_kept s0 s \<Longrightarrow> settled_kept s0 (snd (recover_maintenances e ow rids n s))"
proof (induction e ow rids n s rule: recover_maintenances.induct)
  case (2 e ow rid rids n s)
  from recover_maintenance_settled [OF 2(2), of e ow rid] 2(1) show ?case
    by (cases "recover_maintenance e ow rid s") auto
qed simp

lemma stage_all_settled: "settled_kept s0 s \<Longrightarrow> settled_kept s0 (snd (stage_all clock ids k ts staged s))"
proof (induction clock ids k ts staged s rule: stage_all.induct)
  case (2 clock ids k t ts staged s)
  from stage_candidate_settled [OF 2(2), of "clock k" "ids k" t] 2(1) show ?case
    by (cases "stage_candidate (clock k) (ids k) t s"; cases "fst (stage_candidate (clock k) (ids k) t s)") (auto split: prod.splits)
qed simp

lemma stage_reflection_settled:
  assumes "settled_kept s0 s"
  shows "settled_kept s0 (snd (stage_reflection step clock ow rid ids lost proposals trigger provenance s))"
proof -
  have work: "settled_kept s0 s2" if "settled_kept s0 s1" "stage_all clock ids 0 ts [] s1 = (r, s2)" for s1 ts r s2
    using stage_all_settled [OF that(1), of clock ids 0 ts "[]"] that(2) by simp
  from assms show ?thesis
    unfolding stage_reflection_def Let_def
    by (auto intro!: settled_next settled_transact finish_settled intro: begin_maintenance_settled
      split: prod.split option.split dest!: work [rotated])
qed

subsection \<open>The operations\<close>

datatype memory_op =
    M_Remember time ident memory_text
  | M_Forget ident
  | M_Rebuild
  | M_Doctor
  | M_Stage time ident memory_text
  | M_Decide "nat \<Rightarrow> env" owner ident bool string
  | M_Maintain "nat \<Rightarrow> env" owner ident "doc_path \<Rightarrow> string" "memory_audit \<Rightarrow> json" "error option" string bool
  | M_List env owner nat
  | M_Reflect "nat \<Rightarrow> env" "nat \<Rightarrow> time" owner ident "nat \<Rightarrow> ident" "error option" "memory_text list" string dict
  | M_Lease lease_op

fun memory_step :: "memory_op \<Rightarrow> remembered \<Rightarrow> remembered" where
  "memory_step (M_Remember stamp eid t) s = snd (remember stamp eid t s)"
| "memory_step (M_Forget eid) s = snd (forget eid s)"
| "memory_step M_Rebuild s = snd (rebuild_index s)"
| "memory_step M_Doctor s = snd (doctor s)"
| "memory_step (M_Stage stamp cid t) s = snd (stage_candidate stamp cid t s)"
| "memory_step (M_Decide step ow cid promote reason) s = snd (decide_candidate step ow cid promote reason s)"
| "memory_step (M_Maintain step ow rid name told lost trigger apply) s =
     snd (run_maintenance step ow rid name told lost trigger apply s)"
| "memory_step (M_List e ow limit) s = snd (list_maintenance e ow limit s)"
| "memory_step (M_Reflect step clock ow rid ids lost proposals trigger provenance) s =
     snd (stage_reflection step clock ow rid ids lost proposals trigger provenance s)"
| "memory_step (M_Lease op) s = (fst s, lease_step op (snd s))"

lemma list_maintenance_settled: "settled_kept s (snd (list_maintenance e ow limit s))"
  using recover_maintenances_settled [of s s e ow]
  by (auto simp: list_maintenance_def recover_interrupted_runs_def Let_def split: prod.split) (metis snd_conv settled_kept_refl)

lemma memory_step_settled: "settled_kept s (memory_step op s)"
  by (cases op) (simp_all add: remember_settled forget_tables rebuild_tables doctor_tables tables_settled stage_candidate_settled
    decide_candidate_settled run_maintenance_settled list_maintenance_settled stage_reflection_settled)

interpretation candidate_life: lifecycle memory_step "\<lambda>_. True" find_candidate settled_candidate
  by unfold_locales (use memory_step_settled in \<open>auto simp: settled_kept_def\<close>)

interpretation maintenance_life: lifecycle memory_step "\<lambda>_. True" find_maintenance run_over
  by unfold_locales (use memory_step_settled in \<open>auto simp: settled_kept_def\<close>)

subsection \<open>No text twice\<close>

definition said :: "memory_entry \<Rightarrow> string \<times> string" where
  "said r = (me_scope r, normalized (me_content r))"

definition no_twins :: "remembered \<Rightarrow> bool" where
  "no_twins s = (keys_distinct me_id (mm_index (fst s)) \<and> keys_distinct said (mm_index (fst s)))"

lemma no_twins_same: "mm_index (fst s') = mm_index (fst s) \<Longrightarrow> no_twins s' = no_twins s"
  by (simp add: no_twins_def)

lemmas twins_next = and_next_keeps [of no_twins]

lemmas twins_transact = transact_keeps [of no_twins]

lemma find_duplicate_None:
  assumes "find_duplicate content scope s = Ok None"
  shows "(scope, normalized content) \<notin> said ` set (mm_index (fst s))"
  using assms by (auto simp: find_duplicate_def said_def find_None_iff elim!: and_thenE split: option.splits)

text \<open>Replacing one row by one with a new key\<close>

lemma distinct_replaced:
  assumes "keys_distinct key t" and "keys_distinct other t" and "\<And>r. other (f r) = v" and "v \<notin> other ` set t"
  shows "keys_distinct other (update_where (\<lambda>r. key r = k) f t)"
  using assms
proof (induction t)
  case (Cons r t)
  have "update_where (\<lambda>r. key r = k) f t = t" if "key r = k"
    using Cons.prems(1) that by (intro update_where_idle) (auto, metis imageI)
  moreover have "other r \<notin> other ` set (update_where (\<lambda>r. key r = k) f t)"
    using Cons.prems by (auto simp: update_where_def)
  ultimately show ?case using Cons by auto
qed simp

lemma index_entry_twins:
  assumes "index_entry x s = Ok s'" and "no_twins s" and "said x \<notin> said ` set (mm_index (fst s))"
  shows "no_twins s'"
proof (cases "exists_where (\<lambda>r. me_id r = me_id x) (mm_index (fst s))")
  case False
  with assms show ?thesis by (auto simp: index_entry_def Let_def no_twins_def exists_where_iff) (metis (no_types))
next
  case True
  let ?f = "\<lambda>r. x\<lparr>me_created_at := me_created_at r\<rparr>"
  have rows: "mm_index (fst s') = update_where (\<lambda>r. me_id r = me_id x) ?f (mm_index (fst s))"
    using assms(1) True by (auto simp: index_entry_def Let_def)
  have "keys_distinct said (mm_index (fst s'))"
    unfolding rows by (rule distinct_replaced [where v = "said x"]) (use assms in \<open>simp_all add: no_twins_def said_def\<close>)
  moreover have "map me_id (mm_index (fst s')) = map me_id (mm_index (fst s))"
    by (simp add: rows update_where_def)
  ultimately show ?thesis using assms(2) by (simp add: no_twins_def)
qed

lemma remember_lookup_None:
  assumes "remember_lookup t s = Ok None"
  shows "(mt_scope t, normalized (strip (mt_content t))) \<notin> said ` set (mm_index (fst s))"
  using assms by (auto simp: remember_lookup_def elim!: and_thenE dest!: find_duplicate_None)

lemma remember_write_Ok:
  assumes "remember_write stamp eid t s = (Ok x, s')"
  shows "mm_index (fst s') = mm_index (fst s)" and "said x = (mt_scope t, normalized (strip (mt_content t)))"
  using assms by (auto simp: remember_write_def write_document_def Let_def said_def new_entry_def elim!: and_nextE)

lemma remember_write_index: "mm_index (fst (snd (remember_write stamp eid t s))) = mm_index (fst s)"
  by (cases "entry_path eid (mt_kind t)") (simp_all add: remember_write_def write_document_def Let_def)

lemma remember_index_twins:
  assumes "no_twins s" and "said x \<notin> said ` set (mm_index (fst s))"
  shows "no_twins (snd (remember_index x s))"
  unfolding remember_index_def
proof (rule twins_transact [OF assms(1)])
  fix y s' assume "and_then (index_entry x s) (\<lambda>s. Ok (x, s)) = Ok (y, s')"
  then have "index_entry x s = Ok s'" by (auto elim!: and_thenE)
  then show "no_twins s'" by (rule index_entry_twins [OF _ assms])
qed

lemma remember_twins:
  assumes "no_twins s"
  shows "no_twins (snd (remember stamp eid t s))"
proof (cases "remember_lookup t s = Ok None")
  case True
  obtain r s1 where wrote: "remember_write stamp eid t s = (r, s1)" by (meson surj_pair)
  then have same: "mm_index (fst s1) = mm_index (fst s)" using remember_write_index [of stamp eid t s] by simp
  have s1: "no_twins s1" by (rule iffD2 [OF no_twins_same [OF same] assms])
  show ?thesis
  proof (cases r)
    case (Inr x)
    have "said x \<notin> said ` set (mm_index (fst s1))"
      unfolding same remember_write_Ok(2) [OF wrote [unfolded Inr]] by (rule remember_lookup_None [OF True])
    from remember_index_twins [OF s1 this] show ?thesis
      by (simp add: remember_def True wrote Inr)
  qed (simp add: remember_def True wrote s1)
next
  case False
  then show ?thesis using assms by (cases "remember_lookup t s") (auto simp: remember_def split: option.split)
qed

lemma forget_twins: "no_twins s \<Longrightarrow> no_twins (snd (forget eid s))"
  unfolding forget_def
  by (intro twins_next) (auto simp: Let_def archive_def forget_rows_def no_twins_def keys_distinct_delete_where
    split: option.split prod.split)

lemma twins_candidates [simp]: "no_twins (update_candidates P f s) = no_twins s" "no_twins (update_runs Q g s) = no_twins s"
  by (simp_all add: update_candidates_def update_runs_def no_twins_def)

lemma twins_db [simp]: "no_twins (fst s, d) = no_twins s"
  by (simp add: no_twins_def)

lemma stage_candidate_twins: "no_twins s \<Longrightarrow> no_twins (snd (stage_candidate stamp cid t s))"
  unfolding stage_candidate_def by (intro twins_next twins_transact) (auto simp: no_twins_def)

lemma start_review_twins: "start_review e ow cid promote reason s = Ok (row, s') \<Longrightarrow> no_twins s \<Longrightarrow> no_twins s'"
  by (auto simp: start_review_def Let_def split: option.splits prod.splits)

lemma settle_review_twins: "settle_review e ow cid st reason s = Ok (u, s') \<Longrightarrow> no_twins s \<Longrightarrow> no_twins s'"
  by (auto simp: settle_review_def Let_def)

lemma restage_twins: "restage ow cid s = Ok (u, s') \<Longrightarrow> no_twins s \<Longrightarrow> no_twins s'"
  by (auto simp: restage_def Let_def)

lemma decide_candidate_twins:
  assumes "no_twins s"
  shows "no_twins (snd (decide_candidate step ow cid promote reason s))"
proof -
  have settle: "no_twins (snd (transact (settle_review (step k) ow cid st reason) s1))" if "no_twins s1" for k st s1
    using that by (rule twins_transact) (use that settle_review_twins in blast)
  have promote: "no_twins (snd (let (x, s) = and_next (remember (now (step 1)) (promoted_id cid) (candidate_text row) s1) (\<lambda>x s.
             and_next (transact (settle_review (step 2) ow cid Promoted reason) s) (\<lambda>_ s. (Ok x, s))) in
       (case x of Inr entry \<Rightarrow> (Ok (Some entry), s)
        | Inl err \<Rightarrow> and_next (transact (restage ow cid) s) (\<lambda>_ s. (Err err, s)))))" if "no_twins s1" for row s1
  proof -
    obtain x s2 where m: "and_next (remember (now (step 1)) (promoted_id cid) (candidate_text row) s1) (\<lambda>x s.
             and_next (transact (settle_review (step 2) ow cid Promoted reason) s) (\<lambda>_ s. (Ok x, s))) = (x, s2)" by (meson surj_pair)
    have "no_twins (snd (and_next (remember (now (step 1)) (promoted_id cid) (candidate_text row) s1) (\<lambda>x s.
             and_next (transact (settle_review (step 2) ow cid Promoted reason) s) (\<lambda>_ s. (Ok x, s)))))"
      by (intro twins_next remember_twins that settle) simp_all
    with m have s2: "no_twins s2" by simp
    have "no_twins (snd (and_next (transact (restage ow cid) s2) (\<lambda>_ s. (Err err :: memory_entry option result, s))))" for err
      by (intro twins_next twins_transact s2) (use s2 restage_twins in auto)
    with m s2 show ?thesis by (cases x) simp_all
  qed
  have begun: "no_twins (snd (transact (start_review (step 0) ow cid promote reason) s))"
    using assms by (rule twins_transact) (use assms start_review_twins in blast)
  have rejected: "no_twins (snd (and_next (transact (settle_review (step 1) ow cid Rejected reason) s1) (\<lambda>_ s. (Ok None :: memory_entry option result, s))))"
    if "no_twins s1" for s1
    by (intro twins_next settle that) simp
  show ?thesis
    unfolding decide_candidate_def
    by (intro twins_next begun; cases promote)
      (simp_all only: not_True_eq_False not_False_eq_True if_True if_False rejected promote)
qed

lemma begin_maintenance_twins: "begin_maintenance e ow rid trigger mode provenance busy s = Ok (u, s') \<Longrightarrow> no_twins s \<Longrightarrow> no_twins s'"
  by (auto simp: begin_maintenance_def Let_def no_twins_def split: prod.splits)

lemma finish_twins: "no_twins s \<Longrightarrow> no_twins (snd (transact (finish_owned_run e ow rid status report actions rollback) s))"
  by (rule twins_transact) (auto simp: finish_owned_run_def Let_def)

lemma recover_maintenance_twins: "no_twins s \<Longrightarrow> no_twins (snd (recover_maintenance e ow rid s))"
  by (simp add: recover_maintenance_def Let_def split: prod.split)

lemma recover_maintenances_twins: "no_twins s \<Longrightarrow> no_twins (snd (recover_maintenances e ow rids n s))"
proof (induction e ow rids n s rule: recover_maintenances.induct)
  case (2 e ow rid rids n s)
  from recover_maintenance_twins [OF 2(2), of e ow rid] 2(1) show ?case
    by (cases "recover_maintenance e ow rid s") auto
qed simp

lemma stage_all_twins: "no_twins s \<Longrightarrow> no_twins (snd (stage_all clock ids k ts staged s))"
proof (induction clock ids k ts staged s rule: stage_all.induct)
  case (2 clock ids k t ts staged s)
  from stage_candidate_twins [OF 2(2), of "clock k" "ids k" t] 2(1) show ?case
    by (cases "stage_candidate (clock k) (ids k) t s"; cases "fst (stage_candidate (clock k) (ids k) t s)") (auto split: prod.splits)
qed simp

end
