(* ===== verification/Memory_Contents.thy ===== *)
theory Memory_Contents
  imports Memory_Safety
begin

section \<open>What the memory holds\<close>

text \<open>
  The operations that do not read the files back never store a text twice in a scope; a promoted
  candidate is remembered and a rejected one changes nothing; the index after a rebuild; the hits
  of a search.
\<close>

subsection \<open>Operations that do not rebuild\<close>

lemma stage_reflection_twins:
  assumes "no_twins s"
  shows "no_twins (snd (stage_reflection step clock ow rid ids lost proposals trigger provenance s))"
proof -
  have entered: "no_twins (snd (transact (begin_maintenance (step 0) ow rid trigger ''reflection'' provenance busy) s))" for busy
    using assms by (rule twins_transact) (use assms begin_maintenance_twins in blast)
  have rest: "no_twins (snd (let ((failed, staged), s) = stage_all clock ids 0
            (map (\<lambda>t. t\<lparr>mt_source := ''reflection:'' @ rid\<rparr>) proposals) [] s1;
         cids = JArr (map JStr staged);
         failed = (case failed of Some err \<Rightarrow> Some err | None \<Rightarrow> lost) in
     (case failed of
        Some err \<Rightarrow> (Err err, snd (transact (finish_owned_run (step 1) ow rid ''failed''
           [(''error'', JStr (error_text err)), (''candidate_ids'', cids)] (staged_actions staged) []) s))
      | None \<Rightarrow> and_next (transact (finish_owned_run (step 1) ow rid ''completed''
           [(''proposals'', JInt (int (length staged))), (''candidate_ids'', cids)] (staged_actions staged) []) s) (\<lambda>_ s.
         (load_maintenance rid s, s)))))" if "no_twins s1" for s1
  proof -
    obtain failed staged s2 where work: "stage_all clock ids 0 (map (\<lambda>t. t\<lparr>mt_source := ''reflection:'' @ rid\<rparr>) proposals) [] s1 =
        ((failed, staged), s2)" by (metis surj_pair)
    with stage_all_twins [OF that] have "no_twins s2" by (metis snd_conv)
    then show ?thesis
      unfolding Let_def work by (auto split: option.split intro!: twins_next finish_twins)
  qed
  show ?thesis
    unfolding stage_reflection_def Let_def [of "\<lambda>key. case map_of provenance key of None \<Rightarrow> False | Some v \<Rightarrow> truthy v"]
    by (split if_split, intro conjI impI, simp add: assms, split if_split, intro conjI impI twins_next entered rest)
      (simp_all add: assms)
qed

fun keeps_files :: "memory_op \<Rightarrow> bool" where
  "keeps_files M_Rebuild = False"
| "keeps_files M_Doctor = False"
| "keeps_files (M_Maintain step ow rid name told lost trigger apply) = False"
| "keeps_files _ = True"

definition quiet_step :: "memory_op \<Rightarrow> remembered \<Rightarrow> remembered" where
  "quiet_step op s = (if keeps_files op then memory_step op s else s)"

lemma list_maintenance_twins: "no_twins s \<Longrightarrow> no_twins (snd (list_maintenance e ow limit s))"
  using recover_maintenances_twins [of s e ow]
  by (auto simp: list_maintenance_def recover_interrupted_runs_def Let_def split: prod.split) (metis snd_conv)

interpretation twin_machine: state_machine quiet_step no_twins
proof unfold_locales
  fix s op
  assume "no_twins s"
  then show "no_twins (quiet_step op s)"
    by (cases op) (simp_all add: quiet_step_def remember_twins forget_twins stage_candidate_twins decide_candidate_twins
      list_maintenance_twins stage_reflection_twins)
qed

lemma quiet_run: "list_all keeps_files ops \<Longrightarrow> fold quiet_step ops s = fold memory_step ops s"
  by (induction ops arbitrary: s) (simp_all add: quiet_step_def)

subsection \<open>What remembering and deciding leave\<close>

lemma index_entry_said:
  assumes "index_entry x s = Ok s'"
  shows "said x \<in> said ` set (mm_index (fst s'))"
proof (cases "exists_where (\<lambda>r. me_id r = me_id x) (mm_index (fst s))")
  case True
  then obtain r where r: "r \<in> set (mm_index (fst s))" "me_id r = me_id x" by (auto simp: exists_where_iff)
  have "mm_index (fst s') = update_where (\<lambda>r. me_id r = me_id x) (\<lambda>r. x\<lparr>me_created_at := me_created_at r\<rparr>) (mm_index (fst s))"
    using assms True by (auto simp: index_entry_def Let_def)
  with r have "x\<lparr>me_created_at := me_created_at r\<rparr> \<in> set (mm_index (fst s'))" by (auto simp: update_where_def)
  then show ?thesis by (rule rev_image_eqI) (simp add: said_def)
qed (use assms in \<open>auto simp: index_entry_def Let_def\<close>)

lemma remember_Ok:
  assumes "remember stamp eid t s = (Ok x, s')"
  shows "(mt_scope t, normalized (strip (mt_content t))) \<in> said ` set (mm_index (fst s'))"
proof -
  from assms obtain found where look: "remember_lookup t s = Ok found"
    and rest: "(case found of Some x \<Rightarrow> (Ok x, s)
       | None \<Rightarrow> and_next (remember_write stamp eid t s) (\<lambda>x s. remember_index x s)) = (Ok x, s')"
    unfolding remember_def by (elim and_nextE) auto
  from look have dup: "find_duplicate (strip (mt_content t)) (mt_scope t) s = Ok found"
    by (auto simp: remember_lookup_def elim!: and_thenE)
  show ?thesis
  proof (cases found)
    case (Some y)
    with dup rest show ?thesis
      by (auto simp: find_duplicate_def said_def image_iff find_Some_iff elim!: and_thenE split: option.splits)
        (metis nth_mem)
  next
    case None
    with rest obtain y s1 where wrote: "remember_write stamp eid t s = (Ok y, s1)" and "index_entry y s1 = Ok s'"
      by (auto simp: remember_index_def transact_eq_Ok elim!: and_nextE and_thenE)
    from index_entry_said [OF this(2)] remember_write_Ok(2) [OF wrote] show ?thesis by simp
  qed
qed

text \<open>The row a review settled\<close>

lemma settle_review_Ok:
  assumes "settle_review e ow cid st reason s = Ok (u, s')" and "keys_distinct cd_id (mm_candidates (fst s))"
  shows "\<exists>c. find_candidate s cid = Some c \<and> cd_state c = Reviewing \<and>
      find_candidate s' cid = Some (c\<lparr>cd_state := st, cd_reason := reason, cd_reviewed_at := Some (now e)\<rparr>)"
    and "mm_index (fst s') = mm_index (fst s)" and "mm_files (fst s') = mm_files (fst s)"
proof -
  let ?P = "\<lambda>c. cd_id c = cid \<and> cd_state c = Reviewing \<and> holds_lease (\<lambda>l. now e < ls_expires_at l) (review_of cid) ow (snd s)"
  let ?f = "\<lambda>c. c\<lparr>cd_state := st, cd_reason := reason, cd_reviewed_at := Some (now e)\<rparr>"
  from assms(1) have "count_where ?P (mm_candidates (fst s)) = 1" and s': "fst s' = fst (update_candidates ?P ?f s)"
    by (auto simp: settle_review_def Let_def)
  then obtain c where c: "c \<in> set (mm_candidates (fst s))" "?P c"
    using count_where_zero_iff [of ?P "mm_candidates (fst s)"] by auto
  from select_one_eq_SomeI [OF assms(2) c(1)] c(2) have "find_candidate s cid = Some c" by (simp add: find_candidate_def)
  moreover have "find_candidate s' cid = Some (?f c)"
    using calculation c(2) s' by (simp add: find_candidate_def update_candidates_def select_one_update_where)
  ultimately show "\<exists>c. find_candidate s cid = Some c \<and> cd_state c = Reviewing \<and> find_candidate s' cid = Some (?f c)"
    using c(2) by blast
  show "mm_index (fst s') = mm_index (fst s)" "mm_files (fst s') = mm_files (fst s)"
    by (simp_all add: s' update_candidates_def)
qed

lemma start_review_Ok:
  assumes "start_review e ow cid promote reason s = Ok (row, s')" and "keys_distinct cd_id (mm_candidates (fst s))"
  shows "find_candidate s cid = Some row" and "reviewable row"
    and "find_candidate s' cid = Some (row\<lparr>cd_state := Reviewing, cd_reason := reason, cd_reviewed_at := Some (now e)\<rparr>)"
    and "keys_distinct cd_id (mm_candidates (fst s'))"
    and "mm_index (fst s') = mm_index (fst s)" and "mm_files (fst s') = mm_files (fst s)"
proof -
  let ?P = "\<lambda>c. cd_id c = cid \<and> reviewable c"
  let ?f = "\<lambda>c. c\<lparr>cd_state := Reviewing, cd_reason := reason, cd_reviewed_at := Some (now e)\<rparr>"
  from assms(1) have row: "find ?P (mm_candidates (fst s)) = Some row" and s': "fst s' = fst (update_candidates ?P ?f s)"
    by (auto simp: start_review_def Let_def update_candidates_def split: option.splits prod.splits)
  then have mem: "row \<in> set (mm_candidates (fst s))" "?P row" by (auto simp: find_Some_iff)
  from select_one_eq_SomeI [OF assms(2) mem(1)] mem(2) show found: "find_candidate s cid = Some row"
    by (simp add: find_candidate_def)
  show "reviewable row" using mem(2) by simp
  show "find_candidate s' cid = Some (?f row)"
    using found mem(2) s' by (simp add: find_candidate_def update_candidates_def select_one_update_where)
  show "keys_distinct cd_id (mm_candidates (fst s'))"
    using assms(2) s' keys_distinct_update_where [of cd_id ?f ?P "mm_candidates (fst s)"] by (simp add: update_candidates_def)
  show "mm_index (fst s') = mm_index (fst s)" "mm_files (fst s') = mm_files (fst s)"
    by (simp_all add: s' update_candidates_def)
qed

lemma promote_Ok:
  assumes "decide_candidate step ow cid True reason s = (Ok x, s')" and "keys_distinct cd_id (mm_candidates (fst s))"
  shows "\<exists>c. find_candidate s cid = Some c \<and> reviewable c \<and> map_option cd_state (find_candidate s' cid) = Some Promoted \<and>
    (cd_scope c, normalized (strip (cd_content c))) \<in> said ` set (mm_index (fst s'))"
proof -
  from assms(1) obtain row s1 where begun: "start_review (step 0) ow cid True reason s = Ok (row, s1)"
    and rest: "(let (x, s) = and_next (remember (now (step 1)) (promoted_id cid) (candidate_text row) s1) (\<lambda>x s.
             and_next (transact (settle_review (step 2) ow cid Promoted reason) s) (\<lambda>_ s. (Ok x, s))) in
       (case x of Inr entry \<Rightarrow> (Ok (Some entry), s)
        | Inl err \<Rightarrow> and_next (transact (restage ow cid) s) (\<lambda>_ s. (Err err, s)))) = (Ok x, s')"
    unfolding decide_candidate_def by (elim and_nextE) (auto simp: transact_eq_Ok)
  note start = start_review_Ok [OF begun assms(2)]
  obtain y s2 where m: "and_next (remember (now (step 1)) (promoted_id cid) (candidate_text row) s1) (\<lambda>x s.
             and_next (transact (settle_review (step 2) ow cid Promoted reason) s) (\<lambda>_ s. (Ok x, s))) = (y, s2)" by (meson surj_pair)
  from rest m obtain entry where "y = Ok entry" "s' = s2"
    by (cases y) (auto elim!: and_nextE)
  with m obtain s3 where rem: "remember (now (step 1)) (promoted_id cid) (candidate_text row) s1 = (Ok entry, s3)"
    and settled: "settle_review (step 2) ow cid Promoted reason s3 = Ok ((), s')"
    by (auto simp: transact_eq_Ok elim!: and_nextE)
  have "mm_candidates (fst s3) = mm_candidates (fst s1)"
    using remember_tables [of s1 s1 "now (step 1)" "promoted_id cid" "candidate_text row"] rem by (simp add: tables_same_def)
  with start(4) have "keys_distinct cd_id (mm_candidates (fst s3))" by simp
  note settle_review_Ok [OF settled this]
  with remember_Ok [OF rem] start(1,2) show ?thesis
    by (auto simp: candidate_text_def)
qed

lemma reject_Ok:
  assumes "decide_candidate step ow cid False reason s = (Ok x, s')" and "keys_distinct cd_id (mm_candidates (fst s))"
  shows "x = None \<and> map_option cd_state (find_candidate s' cid) = Some Rejected \<and> mm_index (fst s') = mm_index (fst s) \<and>
    mm_files (fst s') = mm_files (fst s)"
proof -
  from assms(1) obtain row s1 where begun: "start_review (step 0) ow cid False reason s = Ok (row, s1)"
    and settled: "settle_review (step 1) ow cid Rejected reason s1 = Ok ((), s')" and x: "x = None"
    unfolding decide_candidate_def by (auto simp: transact_eq_Ok elim!: and_nextE)
  note start = start_review_Ok [OF begun assms(2)]
  from settle_review_Ok [OF settled start(4)] start(5,6) x show ?thesis by auto
qed

subsection \<open>After a rebuild\<close>

lemma parse_all_paths: "parse_all ps s = Ok xs \<Longrightarrow> map me_path xs = ps"
proof (induction ps s arbitrary: xs rule: parse_all.induct)
  case (2 p ps s)
  from 2(2) obtain x xs' where x: "parse_document p s = Ok x" and xs: "parse_all ps s = Ok xs'" "xs = x # xs'"
    by (auto elim!: and_thenE)
  have "me_path x = p" using x by (auto simp: parse_document_def split: option.splits)
  with 2(1) [OF xs(1)] xs(2) show ?case by simp
qed simp

lemma index_all_appends:
  assumes "index_all xs s = Ok s'" and "distinct (map me_id xs)" and "me_id ` set xs \<inter> me_id ` set (mm_index (fst s)) = {}"
  shows "mm_index (fst s') = mm_index (fst s) @ xs"
  using assms
proof (induction xs s rule: index_all.induct)
  case (2 x xs s)
  from 2(2) obtain s1 where one: "index_entry x s = Ok s1" and rest: "index_all xs s1 = Ok s'" by (auto elim!: and_thenE)
  from 2(4) have "\<not> exists_where (\<lambda>r. me_id r = me_id x) (mm_index (fst s))"
    by (simp add: exists_where_iff) (metis imageI)
  with one have new: "mm_index (fst s1) = mm_index (fst s) @ [x]" by (auto simp: index_entry_def Let_def)
  from 2(1) [OF rest] 2(3,4) new show ?case by auto
qed simp

lemma index_all_files: "index_all xs s = Ok s' \<Longrightarrow> mm_files (fst s') = mm_files (fst s)"
  by (induction xs s rule: index_all.induct) (auto elim!: and_thenE simp: index_entry_def Let_def)

lemma rebuild_index_Ok:
  assumes "rebuild_index s = (Ok n, s')"
  obtains xs where "parse_all (corpus (fst s)) s = Ok xs" and "n = length xs" and "mm_files (fst s') = mm_files (fst s)"
    and "distinct (map me_id xs) \<Longrightarrow> mm_index (fst s') = xs"
proof -
  from assms obtain xs where xs: "parse_all (corpus (fst s)) s = Ok xs" and n: "n = length xs"
    and all: "index_all xs ((fst s)\<lparr>mm_fts := [], mm_index := []\<rparr>, snd s) = Ok s'"
    by (auto simp: rebuild_index_def transact_eq_Ok elim!: and_nextE and_thenE)
  have "mm_files (fst s') = mm_files (fst s)"
    using index_all_files [OF all] by simp
  with that xs n index_all_appends [OF all] show ?thesis by simp
qed

subsection \<open>Hits\<close>

lemma parse_hits_Ok:
  "parse_hits rows s = Ok hits \<Longrightarrow> length hits = length rows \<and>
     (\<forall>(x, score)\<in>set hits. \<exists>r. (- score, r) \<in> set rows \<and> parse_document (me_path r) s = Ok x)"
  by (induction rows s arbitrary: hits rule: parse_hits.induct) (fastforce elim!: and_thenE)+

lemma search_Ok:
  assumes "search rank stamp query scope kind limit s = Ok hits"
  shows "length hits \<le> limit \<and> (\<forall>(x, score)\<in>set hits. \<exists>r\<in>set (mm_index (fst s)). live_entry stamp scope kind (mm_index (fst s)) r \<and>
    parse_document (me_path r) s = Ok x)"
proof (cases "query_terms [] (strip query) = []")
  case True
  with assms show ?thesis by (simp add: search_def)
next
  case False
  with assms have "parse_hits (search_rows rank stamp (query_terms [] (strip query)) scope kind limit (fst s)) s = Ok hits"
    by (auto simp: search_def Let_def elim!: and_thenE)
  note parse_hits_Ok [OF this]
  moreover have "length (search_rows rank stamp terms scope kind limit m) \<le> limit" for terms m
    by (simp add: search_rows_def)
  moreover have "r \<in> set (mm_index m) \<and> live_entry stamp scope kind (mm_index m) r"
    if "(score, r) \<in> set (search_rows rank stamp terms scope kind limit m)" for terms m score r
    using in_set_takeD [OF that [unfolded search_rows_def]] by (auto split: option.splits)
  ultimately show ?thesis by (fastforce)
qed

end
