(* ===== verification/Memory_Races.thy ===== *)
theory Memory_Races
  imports Memory_Contents
begin

section \<open>Processes that remember at the same time\<close>

text \<open>
  The three steps of \<open>remember\<close> (looking for a duplicate, writing the file, indexing) taken by
  several processes in any interleaving, together with the steps of a review that promotes and
  with the other operations of the memory.  What a process has found out so far is its \<open>work\<close>.
  The search for a duplicate is outside the transaction that indexes: processes that remember the
  same text at the same time store it twice.  As long as no two of them work on the same text at
  the same time, no scope holds a text twice.
\<close>

subsection \<open>Interleaved steps\<close>

datatype work = Unwritten memory_text | Unindexed memory_entry

type_synonym works = "(ident \<times> work) list"

fun work_said :: "work \<Rightarrow> string \<times> string" where
  "work_said (Unwritten t) = (mt_scope t, normalized (strip (mt_content t)))"
| "work_said (Unindexed x) = (me_scope x, normalized (me_content x))"

text \<open>\<open>R_Start\<close>, \<open>R_Settle\<close> and \<open>R_Restage\<close> are the transactions of \<^verbatim>\<open>decide_candidate\<close> around its call of
  \<open>remember\<close>; \<open>R_Whole\<close> is an operation that nothing interrupts.\<close>

datatype race_op =
    R_Lookup ident memory_text
  | R_Write ident time ident
  | R_Index ident
  | R_Start env owner ident bool string
  | R_Settle env owner ident candidate_state string
  | R_Restage owner ident
  | R_Whole memory_op

fun race_step :: "race_op \<Rightarrow> works \<times> remembered \<Rightarrow> works \<times> remembered" where
  "race_step (R_Lookup p t) (ws, s) = (if remember_lookup t s = Ok None
     then (AList.update p (Unwritten t) ws, s) else (AList.delete p ws, s))"
| "race_step (R_Write p stamp eid) (ws, s) = (case map_of ws p of
     Some (Unwritten t) \<Rightarrow> (case remember_write stamp eid t s of
       (Inl err, s) \<Rightarrow> (AList.delete p ws, s) | (Inr x, s) \<Rightarrow> (AList.update p (Unindexed x) ws, s))
   | _ \<Rightarrow> (ws, s))"
| "race_step (R_Index p) (ws, s) = (case map_of ws p of
     Some (Unindexed x) \<Rightarrow> (AList.delete p ws, snd (remember_index x s)) | _ \<Rightarrow> (ws, s))"
| "race_step (R_Start e ow cid promote reason) (ws, s) = (ws, snd (transact (start_review e ow cid promote reason) s))"
| "race_step (R_Settle e ow cid st reason) (ws, s) = (ws, snd (transact (settle_review e ow cid st reason) s))"
| "race_step (R_Restage ow cid) (ws, s) = (ws, snd (transact (restage ow cid) s))"
| "race_step (R_Whole op) (ws, s) = (ws, memory_step op s)"

text \<open>Operations that add no entry, and steps that do not overlap with work on the same text\<close>

fun adds_none :: "memory_op \<Rightarrow> bool" where
  "adds_none (M_Remember stamp eid t) = False"
| "adds_none (M_Decide step ow cid promote reason) = (\<not> promote)"
| "adds_none op = keeps_files op"

fun apart :: "race_op \<Rightarrow> works \<Rightarrow> bool" where
  "apart (R_Lookup p t) ws = list_all (\<lambda>(q, w). q = p \<or> work_said w \<noteq> (mt_scope t, normalized (strip (mt_content t)))) ws"
| "apart (R_Whole op) ws = (adds_none op \<or> (ws = [] \<and> keeps_files op))"
| "apart _ ws = True"

fun all_apart :: "race_op list \<Rightarrow> works \<times> remembered \<Rightarrow> bool" where
  "all_apart [] st = True"
| "all_apart (op # ops) st = (apart op (fst st) \<and> all_apart ops (race_step op st))"

subsection \<open>What stays true\<close>

definition works_new :: "works \<times> remembered \<Rightarrow> bool" where
  "works_new = (\<lambda>(ws, s). no_twins s \<and> distinct (map fst ws) \<and>
     (\<forall>p w q v. map_of ws p = Some w \<and> map_of ws q = Some v \<and> p \<noteq> q \<longrightarrow> work_said w \<noteq> work_said v) \<and>
     (\<forall>p w. map_of ws p = Some w \<longrightarrow> work_said w \<notin> said ` set (mm_index (fst s))))"

lemma works_newD:
  assumes "works_new (ws, s)"
  shows "no_twins s" and "distinct (map fst ws)"
    and "map_of ws p = Some w \<Longrightarrow> map_of ws q = Some v \<Longrightarrow> p \<noteq> q \<Longrightarrow> work_said w \<noteq> work_said v"
    and "map_of ws p = Some w \<Longrightarrow> work_said w \<notin> said ` set (mm_index (fst s))"
  using assms unfolding works_new_def prod.case by blast+

lemma works_newI:
  assumes "works_new (ws, s)" and "no_twins s'" and "distinct (map fst ws')"
    and "\<And>p w. map_of ws' p = Some w \<Longrightarrow> map_of ws p = Some w \<and> work_said w \<notin> said ` set (mm_index (fst s'))"
  shows "works_new (ws', s')"
  using assms(1) unfolding works_new_def prod.case
  by (intro conjI allI impI assms(2,3)) (use assms(4) in blast)+

lemma works_new_sub:
  assumes "works_new (ws, s)" and "no_twins s'" and "said ` set (mm_index (fst s')) \<subseteq> said ` set (mm_index (fst s))"
  shows "works_new (ws, s')"
  by (rule works_newI [OF assms(1,2) works_newD(2) [OF assms(1)]]) (use works_newD(4) [OF assms(1)] assms(3) in blast)

lemma works_new_delete:
  assumes "works_new (ws, s)"
  shows "works_new (AList.delete p ws, s)"
  by (rule works_newI [OF assms]) (use assms in \<open>auto simp: works_new_def distinct_delete delete_conv' split: if_splits\<close>)

lemma works_new_update:
  assumes "works_new (ws, s)" and "work_said v \<notin> said ` set (mm_index (fst s))"
    and "\<And>q w. map_of ws q = Some w \<Longrightarrow> q \<noteq> p \<Longrightarrow> work_said w \<noteq> work_said v"
  shows "works_new (AList.update p v ws, s)"
  unfolding works_new_def prod.case
proof (intro conjI allI impI)
  show "no_twins s" "distinct (map fst (AList.update p v ws))"
    using works_newD(1,2) [OF assms(1)] by (simp_all add: distinct_update)
  show "work_said w \<noteq> work_said u"
    if "map_of (AList.update p v ws) r = Some w \<and> map_of (AList.update p v ws) q = Some u \<and> r \<noteq> q" for r w q u
    using that works_newD(3) [OF assms(1)] assms(3) unfolding update_conv' fun_upd_apply
    by (metis option.inject)
  show "work_said w \<notin> said ` set (mm_index (fst s))" if "map_of (AList.update p v ws) r = Some w" for r w
    using that works_newD(4) [OF assms(1)] assms(2) unfolding update_conv' fun_upd_apply by (metis option.inject)
qed

text \<open>Writing a file leaves the index as it was\<close>

lemma works_new_write:
  assumes "works_new (ws, s)" and "mm_index (fst s') = mm_index (fst s)"
  shows "works_new (ws, s')"
  by (rule works_new_sub [OF assms(1)]) (use assms in \<open>simp_all add: works_new_def no_twins_def\<close>)

subsection \<open>Operations that leave the index as it was\<close>

definition index_is :: "memory_entry list \<Rightarrow> remembered \<Rightarrow> bool" where
  "index_is rows s = (mm_index (fst s) = rows)"

lemmas same_next = and_next_keeps [of "index_is rows" for rows]

lemmas same_transact = transact_keeps [of "index_is rows" for rows]

lemma index_is_updates [simp]:
  "index_is rows (update_candidates P f s) = index_is rows s" "index_is rows (update_runs Q g s) = index_is rows s"
  "index_is rows (fst s, d) = index_is rows s"
  by (simp_all add: index_is_def update_candidates_def update_runs_def)

lemma stage_candidate_same: "index_is rows s \<Longrightarrow> index_is rows (snd (stage_candidate stamp cid t s))"
  unfolding stage_candidate_def by (intro same_next same_transact) (auto simp: index_is_def)

lemma start_review_same: "index_is rows s \<Longrightarrow> index_is rows (snd (transact (start_review e ow cid promote reason) s))"
  by (rule same_transact) (auto simp: start_review_def Let_def index_is_def update_candidates_def split: option.splits prod.splits if_splits)

lemma settle_review_same: "index_is rows s \<Longrightarrow> index_is rows (snd (transact (settle_review e ow cid st reason) s))"
  by (rule same_transact) (auto simp: settle_review_def Let_def index_is_def update_candidates_def split: if_splits)

lemma restage_same: "index_is rows s \<Longrightarrow> index_is rows (snd (transact (restage ow cid) s))"
  by (rule same_transact) (auto simp: restage_def Let_def index_is_def update_candidates_def split: if_splits)

lemma reject_same: "index_is rows s \<Longrightarrow> index_is rows (snd (decide_candidate step ow cid False reason s))"
  unfolding decide_candidate_def
  by (intro same_next start_review_same) (simp_all add: same_next settle_review_same)

lemma begin_maintenance_same:
  "index_is rows s \<Longrightarrow> index_is rows (snd (transact (begin_maintenance e ow rid trigger mode provenance busy) s))"
  by (rule same_transact) (auto simp: begin_maintenance_def Let_def index_is_def split: prod.splits)

lemma finish_same: "index_is rows s \<Longrightarrow> index_is rows (snd (transact (finish_owned_run e ow rid status report actions rollback) s))"
  by (rule same_transact) (auto simp: finish_owned_run_def Let_def index_is_def update_runs_def split: if_splits)

lemma recover_maintenance_same: "index_is rows s \<Longrightarrow> index_is rows (snd (recover_maintenance e ow rid s))"
  by (simp add: recover_maintenance_def Let_def split: prod.split)

lemma recover_maintenances_same: "index_is rows s \<Longrightarrow> index_is rows (snd (recover_maintenances e ow rids n s))"
proof (induction e ow rids n s rule: recover_maintenances.induct)
  case (2 e ow rid rids n s)
  from recover_maintenance_same [OF 2(2), of e ow rid] 2(1) show ?case
    by (cases "recover_maintenance e ow rid s") auto
qed simp

lemma list_maintenance_same: "index_is rows s \<Longrightarrow> index_is rows (snd (list_maintenance e ow limit s))"
  using recover_maintenances_same [of rows s e ow]
  by (auto simp: list_maintenance_def recover_interrupted_runs_def Let_def split: prod.split) (metis snd_conv)

lemma stage_all_same: "index_is rows s \<Longrightarrow> index_is rows (snd (stage_all clock ids k ts staged s))"
proof (induction clock ids k ts staged s rule: stage_all.induct)
  case (2 clock ids k t ts staged s)
  from stage_candidate_same [OF 2(2), of "clock k" "ids k" t] 2(1) show ?case
    by (cases "stage_candidate (clock k) (ids k) t s"; cases "fst (stage_candidate (clock k) (ids k) t s)") (auto split: prod.splits)
qed simp

lemma stage_reflection_same:
  assumes "index_is rows s"
  shows "index_is rows (snd (stage_reflection step clock ow rid ids lost proposals trigger provenance s))"
proof -
  have work: "index_is rows s2" if "index_is rows s1" "stage_all clock ids 0 ts [] s1 = (r, s2)" for s1 ts r s2
    using stage_all_same [OF that(1), of clock ids 0 ts "[]"] that(2) by simp
  from assms show ?thesis
    unfolding stage_reflection_def Let_def
    by (auto intro!: same_next finish_same begin_maintenance_same split: prod.split option.split dest!: work [rotated])
qed

lemma forget_said: "said ` set (mm_index (fst (snd (forget eid s)))) \<subseteq> said ` set (mm_index (fst s))"
  by (cases "inspect eid s") (auto simp: forget_def Let_def archive_def forget_rows_def delete_where_def
    split: option.split prod.split)

lemma adds_none_said:
  assumes "adds_none op"
  shows "said ` set (mm_index (fst (memory_step op s))) \<subseteq> said ` set (mm_index (fst s))"
proof (cases "\<exists>eid. op = M_Forget eid")
  case False
  have "index_is (mm_index (fst s)) s" by (simp add: index_is_def)
  with assms False have "index_is (mm_index (fst s)) (memory_step op s)"
    by (cases op) (simp_all add: stage_candidate_same reject_same list_maintenance_same stage_reflection_same)
  then show ?thesis by (simp add: index_is_def)
qed (use forget_said in \<open>clarsimp simp del: image_subset_iff, blast\<close>)

lemma adds_none_keeps: "adds_none op \<Longrightarrow> keeps_files op"
  by (cases op) simp_all

subsection \<open>Steps of processes apart\<close>

lemma index_entry_adds:
  assumes "index_entry x s = Ok s'"
  shows "said ` set (mm_index (fst s')) \<subseteq> insert (said x) (said ` set (mm_index (fst s)))"
  using assms by (auto simp: index_entry_def Let_def update_where_def said_def split: if_splits)

lemma remember_index_adds:
  "said ` set (mm_index (fst (snd (remember_index x s)))) \<subseteq> insert (said x) (said ` set (mm_index (fst s)))"
  by (cases "index_entry x s") (auto simp: remember_index_def dest: index_entry_adds)

lemma lookup_keeps:
  assumes "works_new (ws, s)" and "apart (R_Lookup p t) ws"
  shows "works_new (race_step (R_Lookup p t) (ws, s))"
proof (cases "remember_lookup t s = Ok None")
  case True
  have "works_new (AList.update p (Unwritten t) ws, s)"
    using assms remember_lookup_None [OF True]
    by (intro works_new_update) (auto simp: list_all_iff dest!: map_of_SomeD)
  with True show ?thesis by simp
qed (use assms works_new_delete in simp)

lemma write_keeps:
  assumes "works_new (ws, s)"
  shows "works_new (race_step (R_Write p stamp eid) (ws, s))"
proof (cases "\<exists>t. map_of ws p = Some (Unwritten t)")
  case True
  then obtain t where t: "map_of ws p = Some (Unwritten t)" by blast
  obtain r s1 where wrote: "remember_write stamp eid t s = (r, s1)" by (meson surj_pair)
  have same: "mm_index (fst s1) = mm_index (fst s)" using remember_write_index [of stamp eid t s] wrote by simp
  have s1: "works_new (ws, s1)" by (rule works_new_write [OF assms same])
  show ?thesis
  proof (cases r)
    case (Inr x)
    have x: "work_said (Unindexed x) = work_said (Unwritten t)"
      using remember_write_Ok(2) [OF wrote [unfolded Inr]] by (simp add: said_def)
    have "works_new (AList.update p (Unindexed x) ws, s1)"
      by (rule works_new_update [OF s1]; unfold x) (rule works_newD(4) [OF s1 t], rule works_newD(3) [OF s1 _ t])
    with t wrote Inr show ?thesis by simp
  qed (use t wrote works_new_delete [OF s1] in simp)
qed (use assms in \<open>auto split: option.split work.split\<close>)

lemma index_keeps:
  assumes "works_new (ws, s)"
  shows "works_new (race_step (R_Index p) (ws, s))"
proof (cases "\<exists>x. map_of ws p = Some (Unindexed x)")
  case True
  then obtain x where x: "map_of ws p = Some (Unindexed x)" by blast
  let ?s = "snd (remember_index x s)"
  from assms x have new: "work_said (Unindexed x) \<notin> said ` set (mm_index (fst s))"
    unfolding works_new_def prod.case by blast
  have "works_new (AList.delete p ws, ?s)"
  proof (rule works_newI [OF assms])
    show "no_twins ?s" using assms new by (intro remember_index_twins) (auto simp: works_new_def said_def)
    show "distinct (map fst (AList.delete p ws))" using assms by (simp add: works_new_def distinct_delete)
    fix q w assume "map_of (AList.delete p ws) q = Some w"
    then have q: "map_of ws q = Some w" "q \<noteq> p" by (auto simp: delete_conv' split: if_splits)
    with assms x have "work_said w \<noteq> work_said (Unindexed x)" and "work_said w \<notin> said ` set (mm_index (fst s))"
      unfolding works_new_def prod.case by blast+
    with q remember_index_adds [of x s]
    show "map_of ws q = Some w \<and> work_said w \<notin> said ` set (mm_index (fst ?s))" by (auto simp: said_def)
  qed
  with x show ?thesis by simp
qed (use assms in \<open>auto split: option.split work.split\<close>)

lemma whole_keeps:
  assumes "works_new (ws, s)" and "apart (R_Whole op) ws"
  shows "works_new (race_step (R_Whole op) (ws, s))"
proof -
  have op: "keeps_files op" using assms(2) adds_none_keeps by auto
  have "no_twins (quiet_step op s)" by (rule twin_machine.step_inv) (use assms(1) in \<open>simp add: works_new_def\<close>)
  with op have twins: "no_twins (memory_step op s)" by (simp add: quiet_step_def)
  show ?thesis
  proof (cases "adds_none op")
    case True
    from works_new_sub [OF assms(1) twins adds_none_said [OF True]] show ?thesis by simp
  qed (use assms(2) twins in \<open>simp add: works_new_def\<close>)
qed

lemma race_step_keeps:
  assumes "works_new (ws, s)" and "apart op ws"
  shows "works_new (race_step op (ws, s))"
proof -
  have "index_is (mm_index (fst s)) s" by (simp add: index_is_def)
  then have review: "mm_index (fst (snd (transact (start_review e ow cid promote reason) s))) = mm_index (fst s)"
    "mm_index (fst (snd (transact (settle_review e ow cid st reason) s))) = mm_index (fst s)"
    "mm_index (fst (snd (transact (restage ow cid) s))) = mm_index (fst s)" for e ow cid promote reason st
    using start_review_same settle_review_same restage_same by (simp_all add: index_is_def)
  show ?thesis
  proof (cases op)
    case (R_Lookup p t) with lookup_keeps [OF assms(1)] assms(2) show ?thesis by blast
  next
    case (R_Write p stamp eid) with write_keeps [OF assms(1)] show ?thesis by blast
  next
    case (R_Index p) with index_keeps [OF assms(1)] show ?thesis by blast
  next
    case (R_Whole mop) with whole_keeps [OF assms(1)] assms(2) show ?thesis by blast
  qed (simp_all add: works_new_write [OF assms(1)] review)
qed

definition apart_step :: "race_op \<Rightarrow> works \<times> remembered \<Rightarrow> works \<times> remembered" where
  "apart_step op st = (if apart op (fst st) then race_step op st else st)"

interpretation race_machine: state_machine apart_step works_new
  by unfold_locales (auto simp: apart_step_def race_step_keeps)

lemma apart_run: "all_apart ops st \<Longrightarrow> fold apart_step ops st = fold race_step ops st"
  by (induction ops arbitrary: st) (simp_all add: apart_step_def)

lemma apart_twins:
  assumes "all_apart ops ([], s)" and "no_twins s"
  shows "no_twins (snd (fold race_step ops ([], s)))"
proof -
  have "works_new ([], s)" using assms(2) by (simp add: works_new_def)
  from race_machine.run_inv [OF this, of ops] show ?thesis
    by (simp add: apart_run [OF assms(1)] works_new_def split: prod.splits)
qed

end
