(* ===== verification/Memory_Text.thy ===== *)
theory Memory_Text
  imports Memory
begin

section \<open>The text of a memory document\<close>

text \<open>
  \<^verbatim>\<open>_serialize\<close> and \<^verbatim>\<open>_parse\<close> of \<^verbatim>\<open>src/tars/memory.py\<close>: a header of one line per column, each a
  name and a JSON value, between two rules, and the content below.  The JSON text of a value and the
  text of a moment are parameters.  A reader gets back what was written as long as no value of the
  header contains, in its JSON text, one of the characters \<^verbatim>\<open>splitlines\<close> ends a line at.
\<close>

definition line_feed :: char where
  "line_feed = char_of (10 :: nat)"

definition carriage_return :: char where
  "carriage_return = char_of (13 :: nat)"

text \<open>What \<^verbatim>\<open>str.splitlines\<close> ends a line at, among the characters below 256\<close>

definition ends_line :: "char \<Rightarrow> bool" where
  "ends_line c = ((of_char c :: nat) \<in> {10, 11, 12, 13, 28, 29, 30, 133})"

fun split_lines :: "string \<Rightarrow> string \<Rightarrow> string list" where
  "split_lines acc [] = (if acc = [] then [] else [rev acc])"
| "split_lines acc [c] = (if ends_line c then [rev acc] else [rev (c # acc)])"
| "split_lines acc (c # d # cs) =
     (if c = carriage_return \<and> d = line_feed then rev acc # split_lines [] cs
      else if ends_line c then rev acc # split_lines [] (d # cs)
      else split_lines (c # acc) (d # cs))"

subsection \<open>Writing\<close>

record codec =
  tc_dumps :: "json \<Rightarrow> string"
  tc_loads :: "string \<Rightarrow> json result"
  tc_iso :: "time \<Rightarrow> string"

definition null_or :: "('a \<Rightarrow> json) \<Rightarrow> 'a option \<Rightarrow> json" where
  "null_or f x = (case x of None \<Rightarrow> JNull | Some y \<Rightarrow> f y)"

definition header_fields :: "codec \<Rightarrow> memory_entry \<Rightarrow> (string \<times> json) list" where
  "header_fields tc x = [(''id'', JStr (me_id x)), (''kind'', JStr (me_kind x)), (''scope'', JStr (me_scope x)),
     (''title'', JStr (me_title x)), (''source'', JStr (me_source x)), (''created_at'', JStr (tc_iso tc (me_created_at x))),
     (''updated_at'', JStr (tc_iso tc (me_updated_at x))), (''confidence'', JReal (me_confidence x)),
     (''supersedes'', null_or JStr (me_supersedes x)), (''expiry'', null_or (\<lambda>t. JStr (tc_iso tc t)) (me_expiry x)),
     (''tags'', JArr (map JStr (me_tags x)))]"

fun join_lines :: "string list \<Rightarrow> string" where
  "join_lines [] = []"
| "join_lines [l] = l"
| "join_lines (l # ls) = l @ line_feed # join_lines ls"

definition rule_line :: string where
  "rule_line = ''---'' @ [line_feed]"

definition field_line :: "codec \<Rightarrow> string \<times> json \<Rightarrow> string" where
  "field_line tc = (\<lambda>(k, v). k @ '': '' @ tc_dumps tc v)"

definition serialize_entry :: "codec \<Rightarrow> memory_entry \<Rightarrow> string" where
  "serialize_entry tc x = rule_line @ join_lines (map (field_line tc) (header_fields tc x)) @
     line_feed # rule_line @ line_feed # strip (me_content x) @ [line_feed]"

subsection \<open>Reading\<close>

text \<open>\<^verbatim>\<open>split("\n---\n", 1)\<close>\<close>

fun split_rule :: "string \<Rightarrow> (string \<times> string) option" where
  "split_rule [] = None"
| "split_rule (c # cs) = (if starts_with (c # cs) (line_feed # rule_line) then Some ([], drop 5 (c # cs))
     else map_option (\<lambda>(h, r). (c # h, r)) (split_rule cs))"

text \<open>What a document says, before anything looks at the types of its values\<close>

record raw_entry =
  rw_id :: json
  rw_kind :: json
  rw_scope :: json
  rw_title :: json
  rw_content :: string
  rw_source :: json
  rw_created_at :: json
  rw_updated_at :: json
  rw_confidence :: rat
  rw_supersedes :: json
  rw_expiry :: json
  rw_tags :: "json list"

definition read_field :: "codec \<Rightarrow> string \<Rightarrow> dict \<Rightarrow> dict result" where
  "read_field tc line m = (case split_once (CHR '':'') line of
     (_, None) \<Rightarrow> Err (Value_Error ''not enough values to unpack'')
   | (key, Some value) \<Rightarrow> and_then (tc_loads tc (strip value)) (\<lambda>v. Ok (AList.update key v m)))"

fun read_header :: "codec \<Rightarrow> string list \<Rightarrow> dict \<Rightarrow> dict result" where
  "read_header tc [] m = Ok m"
| "read_header tc (l # ls) m = and_then (read_field tc l m) (read_header tc ls)"

definition required_field :: "dict \<Rightarrow> string \<Rightarrow> json result" where
  "required_field m key = (case map_of m key of None \<Rightarrow> Err (Key_Error key) | Some v \<Rightarrow> Ok v)"

text \<open>\<^verbatim>\<open>float(...)\<close> of a JSON number, and \<^verbatim>\<open>tuple(...)\<close> of a JSON value; a number written as a string is
  left out.\<close>

definition to_float :: "json \<Rightarrow> rat result" where
  "to_float v = (case v of JReal q \<Rightarrow> Ok q | JInt n \<Rightarrow> Ok (of_int n) | JBool b \<Rightarrow> Ok (if b then 1 else 0)
     | JStr _ \<Rightarrow> Err (Value_Error ''could not convert string to float'')
     | _ \<Rightarrow> Err (Type_Error ''float() argument must be a string or a real number''))"

definition to_tuple :: "json \<Rightarrow> json list result" where
  "to_tuple v = (case v of JArr xs \<Rightarrow> Ok xs | JStr s \<Rightarrow> Ok (map (\<lambda>c. JStr [c]) s) | JObj m \<Rightarrow> Ok (map (\<lambda>(k, _). JStr k) m)
     | _ \<Rightarrow> Err (Type_Error ''object is not iterable''))"

definition raw_of_fields :: "dict \<Rightarrow> string \<Rightarrow> raw_entry result" where
  "raw_of_fields m content =
     and_then (required_field m ''id'') (\<lambda>eid. and_then (required_field m ''kind'') (\<lambda>kind.
     and_then (required_field m ''scope'') (\<lambda>scope. and_then (required_field m ''source'') (\<lambda>source.
     and_then (required_field m ''created_at'') (\<lambda>created. and_then (required_field m ''updated_at'') (\<lambda>updated.
     and_then (and_then (required_field m ''confidence'') to_float) (\<lambda>confidence.
     and_then (to_tuple (case map_of m ''tags'' of None \<Rightarrow> JArr [] | Some v \<Rightarrow> v)) (\<lambda>tags.
     Ok \<lparr>rw_id = eid, rw_kind = kind, rw_scope = scope,
       rw_title = (case map_of m ''title'' of None \<Rightarrow> JStr [] | Some v \<Rightarrow> v), rw_content = content, rw_source = source,
       rw_created_at = created, rw_updated_at = updated, rw_confidence = confidence,
       rw_supersedes = (case map_of m ''supersedes'' of None \<Rightarrow> JNull | Some v \<Rightarrow> v),
       rw_expiry = (case map_of m ''expiry'' of None \<Rightarrow> JNull | Some v \<Rightarrow> v), rw_tags = tags\<rparr>))))))))"

definition parse_entry :: "codec \<Rightarrow> string \<Rightarrow> raw_entry result" where
  "parse_entry tc text =
    (if \<not> starts_with text rule_line then Err (Value_Error ''invalid memory document'') else
     (case split_rule (drop 4 text) of
        None \<Rightarrow> Err (Value_Error ''invalid memory document'')
      | Some (header, content) \<Rightarrow> and_then (read_header tc (split_lines [] header) []) (\<lambda>m.
          raw_of_fields m (strip content))))"

subsection \<open>Reading what was written\<close>

definition one_line :: "string \<Rightarrow> bool" where
  "one_line s = list_all (\<lambda>c. \<not> ends_line c) s"

lemma line_feed_ends [simp]: "ends_line line_feed"
  by (simp add: ends_line_def line_feed_def)

lemma return_ends [simp]: "ends_line carriage_return"
  by (simp add: ends_line_def carriage_return_def)

lemma split_lines_word: "one_line l \<Longrightarrow> split_lines acc (l @ line_feed # r) = (rev acc @ l) # split_lines [] r"
proof (induction l arbitrary: acc)
  case Nil
  have "line_feed \<noteq> carriage_return" by code_simp
  then show ?case by (cases r) simp_all
next
  case (Cons c l)
  then have "\<not> ends_line c" "c \<noteq> carriage_return" by (auto simp: one_line_def)
  with Cons show ?case by (cases l) (auto simp: one_line_def)
qed

lemma split_lines_last: "one_line l \<Longrightarrow> l \<noteq> [] \<or> acc \<noteq> [] \<Longrightarrow> split_lines acc l = [rev acc @ l]"
proof (induction l arbitrary: acc)
  case (Cons c l)
  then have "\<not> ends_line c" "c \<noteq> carriage_return" by (auto simp: one_line_def)
  with Cons show ?case by (cases l) (auto simp: one_line_def)
qed simp

lemma split_joined: "\<forall>l\<in>set ls. one_line l \<and> l \<noteq> [] \<Longrightarrow> split_lines [] (join_lines ls) = ls"
  by (induction ls rule: join_lines.induct) (simp_all add: split_lines_last split_lines_word)

lemma starts_with_Cons: "starts_with (c # cs) (d # ds) = (c = d \<and> starts_with cs ds)"
  by (auto simp: starts_with_def)

lemma split_rule_word: "one_line l \<Longrightarrow> split_rule (l @ r) = map_option (\<lambda>(h, x). (l @ h, x)) (split_rule r)"
proof (induction l)
  case (Cons c l)
  then have "c \<noteq> line_feed" by (auto simp: one_line_def)
  with Cons show ?case
    by (cases "split_rule r") (auto simp: one_line_def starts_with_Cons)
qed (simp add: option.map_ident split_def)

lemma split_rule_feed: "l \<noteq> [] \<Longrightarrow> hd l \<noteq> CHR ''-'' \<Longrightarrow>
    split_rule (line_feed # l @ r) = map_option (\<lambda>(h, x). (line_feed # h, x)) (split_rule (l @ r))"
  by (cases l) (auto simp: starts_with_Cons rule_line_def)

lemma split_rule_here: "split_rule (line_feed # rule_line @ r) = Some ([], r)"
  by (simp add: starts_with_def rule_line_def)

lemma split_rule_joined:
  assumes "ls \<noteq> []" and "\<forall>l\<in>set ls. one_line l \<and> l \<noteq> [] \<and> hd l \<noteq> CHR ''-''"
  shows "split_rule (join_lines ls @ line_feed # rule_line @ r) = Some (join_lines ls, r)"
  using assms
proof (induction ls rule: join_lines.induct)
  case (2 l)
  then show ?case by (simp add: split_rule_word split_rule_here del: split_rule.simps)
next
  case (3 l k ls)
  have "split_rule (line_feed # join_lines (k # ls) @ line_feed # rule_line @ r) =
      map_option (\<lambda>(h, x). (line_feed # h, x)) (split_rule (join_lines (k # ls) @ line_feed # rule_line @ r))"
    by (rule split_rule_feed) (use 3(3) in \<open>cases ls; simp\<close>)+
  with 3 show ?case by (simp add: split_rule_word del: split_rule.simps)
qed simp

lemma strip_space: "is_space c \<Longrightarrow> strip (c # s) = strip s"
  by (simp add: strip_def)

lemma strip_end: "is_space c \<Longrightarrow> strip (s @ [c]) = strip s"
  by (induction s) (simp_all add: strip_def)

lemma feed_space: "is_space line_feed" "is_space (CHR '' '')"
  by code_simp+

lemma read_field_line:
  assumes "CHR '':'' \<notin> set k" and "tc_loads tc (strip (tc_dumps tc v)) = Ok v"
  shows "read_field tc (field_line tc (k, v)) m = Ok (AList.update k v m)"
proof -
  have "takeWhile (\<lambda>x. x \<noteq> CHR '':'') (k @ '': '' @ tc_dumps tc v) = k" using assms(1) by (subst takeWhile_append2) auto
  then have "split_once (CHR '':'') (field_line tc (k, v)) = (k, Some ('' '' @ tc_dumps tc v))"
    by (simp add: split_once_def field_line_def Let_def)
  with assms(2) strip_space [OF feed_space(2)] show ?thesis by (simp add: read_field_def)
qed

lemma read_header_fields:
  assumes "\<forall>(k, v)\<in>set cols. CHR '':'' \<notin> set k \<and> tc_loads tc (strip (tc_dumps tc v)) = Ok v"
  shows "read_header tc (map (field_line tc) cols) m = Ok (fold (\<lambda>(k, v). AList.update k v) cols m)"
  using assms
proof (induction cols arbitrary: m)
  case (Cons f cols)
  obtain k v where "f = (k, v)" by (cases f)
  with Cons read_field_line [of k tc v m] show ?case by simp
qed simp

definition raw_of :: "codec \<Rightarrow> memory_entry \<Rightarrow> raw_entry" where
  "raw_of tc x = \<lparr>rw_id = JStr (me_id x), rw_kind = JStr (me_kind x), rw_scope = JStr (me_scope x), rw_title = JStr (me_title x),
     rw_content = me_content x, rw_source = JStr (me_source x), rw_created_at = JStr (tc_iso tc (me_created_at x)),
     rw_updated_at = JStr (tc_iso tc (me_updated_at x)), rw_confidence = me_confidence x,
     rw_supersedes = null_or JStr (me_supersedes x), rw_expiry = null_or (\<lambda>t. JStr (tc_iso tc t)) (me_expiry x),
     rw_tags = map JStr (me_tags x)\<rparr>"

lemma header_keys: "k \<in> fst ` set (header_fields tc x) \<Longrightarrow> CHR '':'' \<notin> set k \<and> k \<noteq> [] \<and> hd k \<noteq> CHR ''-'' \<and> one_line k"
  by (auto simp: header_fields_def one_line_def ends_line_def)

lemma parse_serialized:
  assumes "\<forall>(k, v)\<in>set (header_fields tc x). tc_loads tc (strip (tc_dumps tc v)) = Ok v \<and> one_line (tc_dumps tc v)"
    and "strip (me_content x) = me_content x"
  shows "parse_entry tc (serialize_entry tc x) = Ok (raw_of tc x)"
proof -
  let ?cols = "header_fields tc x"
  let ?lines = "map (field_line tc) ?cols"
  have colon: "one_line '': ''" by code_simp
  have lines: "one_line l \<and> l \<noteq> [] \<and> hd l \<noteq> CHR ''-''" if "l \<in> set ?lines" for l
  proof -
    from that obtain k v where kv: "(k, v) \<in> set ?cols" and l: "l = k @ '': '' @ tc_dumps tc v"
      by (auto simp: field_line_def)
    then have "k \<in> fst ` set ?cols" by force
    from header_keys [OF this] assms(1) kv colon l show ?thesis by (fastforce simp: one_line_def)
  qed
  have "drop 4 (serialize_entry tc x) = join_lines ?lines @ line_feed # rule_line @ line_feed # strip (me_content x) @ [line_feed]"
    by (simp add: serialize_entry_def rule_line_def)
  moreover have "?lines \<noteq> []" by (simp add: header_fields_def)
  ultimately have split: "split_rule (drop 4 (serialize_entry tc x)) = Some (join_lines ?lines, line_feed # strip (me_content x) @ [line_feed])"
    using split_rule_joined [of ?lines] lines by (simp del: split_rule.simps)
  have "read_header tc ?lines [] = Ok (fold (\<lambda>(k, v). AList.update k v) ?cols [])"
    by (rule read_header_fields) (use assms(1) header_keys in fastforce)
  moreover have "raw_of_fields (fold (\<lambda>(k, v). AList.update k v) ?cols []) (me_content x) = Ok (raw_of tc x)"
    by (simp add: header_fields_def raw_of_fields_def required_field_def to_float_def to_tuple_def raw_of_def)
  moreover have "strip (line_feed # strip (me_content x) @ [line_feed]) = me_content x"
    using assms(2) by (simp add: strip_space strip_end feed_space)
  moreover have "starts_with (serialize_entry tc x) rule_line" by (simp add: serialize_entry_def starts_with_def)
  ultimately show ?thesis
    using split split_joined [of ?lines] lines by (simp add: parse_entry_def del: split_rule.simps)
qed

end
