(* ===== verification/Guarantees_Memory.thy ===== *)
theory Guarantees_Memory
  imports Memory_Races Memory_Text Guarantees_Agent
begin

section \<open>Guarantees of the memory\<close>

text \<open>
  The properties of \<^verbatim>\<open>memory.py\<close> and \<^verbatim>\<open>memory_maintenance.py\<close>, each with a witness: a memory of one
  entry, and a candidate that waits for its review.
\<close>

subsection \<open>A sample memory\<close>

definition sample_id :: ident where
  "sample_id = ''mem-0123456789abcdef0123456789abcdef''"

definition sample_text :: "string \<Rightarrow> memory_text" where
  "sample_text content = \<lparr>mt_content = content, mt_kind = ''profile'', mt_scope = ''global'', mt_title = [], mt_source = ''user'',
     mt_confidence = 1, mt_supersedes = None, mt_expiry = None, mt_tags = []\<rparr>"

definition sample_entry :: memory_entry where
  "sample_entry = new_entry 0 sample_id (''profile'', sample_id @ ''.md'') (sample_text ''likes tea'')"

definition sample_candidate :: "candidate_state \<Rightarrow> candidate_row" where
  "sample_candidate st = \<lparr>cd_id = ''cand-00000000000000000000000000000000'', cd_kind = ''profile'', cd_scope = ''global'',
     cd_title = [], cd_content = ''Likes  TEA'', cd_source = ''model'', cd_confidence = 1 / 2, cd_tags = [], cd_state = st,
     cd_reason = [], cd_created_at = 0, cd_reviewed_at = None\<rparr>"

definition sample_memory :: "candidate_state \<Rightarrow> remembered" where
  "sample_memory st = (\<lparr>mm_files = [((''profile'', sample_id @ ''.md''), Some sample_entry)], mm_history = [],
     mm_index = [sample_entry], mm_fts = [fts_of sample_entry], mm_candidates = [sample_candidate st], mm_runs = []\<rparr>, empty_db)"

lemma sample_memory_simps [simp]:
  "mm_index (fst (sample_memory st)) = [sample_entry]" "mm_candidates (fst (sample_memory st)) = [sample_candidate st]"
  "mm_files (fst (sample_memory st)) = [((''profile'', sample_id @ ''.md''), Some sample_entry)]"
  by (simp_all add: sample_memory_def)

subsection \<open>Documents\<close>




subsection \<open>What is stored\<close>

text \<open>C22. As long as no two processes work on the same text at the same time, no scope holds a text
  twice: however the steps of the processes that remember (the search for a duplicate, the file, the
  index) and that review are interleaved, and whatever is forgotten, staged and rejected meanwhile,
  two entries of the index never have the same words, up to case and blanks, in the same scope.
  Rebuilding the index from the files is not among the steps: it takes in the files as they are.\<close>

theorem no_text_twice:
  assumes "all_apart ops ([], s)" and "keys_distinct me_id (mm_index (fst s))"
    and "keys_distinct (\<lambda>r. (me_scope r, normalized (me_content r))) (mm_index (fst s))"
  shows "keys_distinct (\<lambda>r. (me_scope r, normalized (me_content r))) (mm_index (fst (snd (fold race_step ops ([], s)))))"
proof -
  have "no_twins s" using assms(2,3) by (simp add: no_twins_def said_def [abs_def])
  from apart_twins [OF assms(1) this] show ?thesis by (simp add: no_twins_def said_def [abs_def])
qed

definition apart_run_steps :: "race_op list" where
  "apart_run_steps =
    [R_Lookup ''p'' (sample_text ''likes coffee''), R_Lookup ''q'' (sample_text ''likes milk''),
     R_Write ''q'' 5 ''mem-00000000000000000000000000000001'', R_Write ''p'' 6 ''mem-00000000000000000000000000000002'',
     R_Index ''p'', R_Index ''q'', R_Lookup ''q'' (sample_text ''LIKES  coffee''), R_Whole (M_Forget sample_id)]"

lemma no_text_twice_witness:
  "keys_distinct (\<lambda>r. (me_scope r, normalized (me_content r)))
     (mm_index (fst (snd (fold race_step apart_run_steps ([], sample_memory Staged))))) \<and>
   map me_content (mm_index (fst (snd (fold race_step apart_run_steps ([], sample_memory Staged))))) = [''likes coffee'', ''likes milk'']"
proof
  have "all_apart apart_run_steps ([], sample_memory Staged)" by code_simp
  then show "keys_distinct (\<lambda>r. (me_scope r, normalized (me_content r)))
      (mm_index (fst (snd (fold race_step apart_run_steps ([], sample_memory Staged)))))"
    by (rule no_text_twice) simp_all
qed code_simp

text \<open>Two processes that remember the same text at the same time store it twice: both look for it
  before either has indexed it.\<close>

lemma overlapping_remembers_twice:
  "map me_content (mm_index (fst (snd (fold race_step
     [R_Lookup ''p'' (sample_text ''likes milk''), R_Lookup ''q'' (sample_text ''likes milk''),
      R_Write ''p'' 5 ''mem-00000000000000000000000000000001'', R_Index ''p'',
      R_Write ''q'' 6 ''mem-00000000000000000000000000000002'', R_Index ''q''] ([], sample_memory Staged))))) =
   [''likes tea'', ''likes milk'', ''likes milk'']"
  by code_simp

text \<open>C24. A candidate that was promoted or rejected is decided for good: no operation of the
  memory, of its maintenance or of the leases changes any column of it.\<close>

theorem decided_candidate_final:
  assumes "find_candidate s cid = Some c" and "cd_state c \<in> {Promoted, Rejected}"
  shows "find_candidate (fold memory_step ops s) cid = Some c"
  by (rule candidate_life.terminal_run [OF _ assms(1)]) (use assms(2) in \<open>auto simp: settled_candidate_def reviewable_def\<close>)

lemma decided_candidate_final_witness:
  "find_candidate (fold memory_step [M_Decide (\<lambda>_. sample_env 5) live_owner (cd_id (sample_candidate Rejected)) True ''no'']
     (sample_memory Rejected)) (cd_id (sample_candidate Rejected)) = Some (sample_candidate Rejected)"
  by (rule decided_candidate_final) (simp_all add: find_candidate_def sample_candidate_def)

text \<open>C21. A promoted candidate is remembered: when \<^verbatim>\<open>decide_candidate\<close> promotes, the candidate was
  waiting for its review, it is recorded as promoted, and the index holds its text in its scope,
  whether under an entry of its own or under one that said the same.\<close>

theorem promoted_is_remembered:
  assumes "decide_candidate step ow cid True reason s = (Ok x, s')" and "keys_distinct cd_id (mm_candidates (fst s))"
  shows "\<exists>c. find_candidate s cid = Some c \<and> cd_state c \<in> {Staged, Reviewing} \<and>
    map_option cd_state (find_candidate s' cid) = Some Promoted \<and>
    list_ex (\<lambda>r. me_scope r = cd_scope c \<and> normalized (me_content r) = normalized (strip (cd_content c))) (mm_index (fst s'))"
  using promote_Ok [OF assms] by (fastforce simp: reviewable_def said_def list_ex_iff)

definition promoted :: "memory_entry option result \<times> remembered" where
  "promoted = decide_candidate (\<lambda>_. sample_env 5) live_owner (cd_id (sample_candidate Staged)) True ''fine'' (sample_memory Staged)"

lemma promoted_Ok: "is_ok (fst promoted)"
  by code_simp

lemma promoted_is_remembered_witness:
  "map_option cd_state (find_candidate (snd promoted) (cd_id (sample_candidate Staged))) = Some Promoted"
proof -
  obtain x where "promoted = (Ok x, snd promoted)" using is_ok_pair [OF promoted_Ok] by blast
  from promoted_is_remembered [OF this [unfolded promoted_def]] show ?thesis by (auto simp: promoted_def)
qed

text \<open>C36. A rejection leaves the memory alone: no entry is written or removed, in the index or in the
  files.  So an entry that an interrupted promotion of the same candidate has written stays, although
  the candidate ends rejected.\<close>

theorem rejection_leaves_memory:
  assumes "decide_candidate step ow cid False reason s = (Ok x, s')" and "keys_distinct cd_id (mm_candidates (fst s))"
  shows "x = None \<and> map_option cd_state (find_candidate s' cid) = Some Rejected \<and>
    mm_index (fst s') = mm_index (fst s) \<and> mm_files (fst s') = mm_files (fst s)"
  using assms by (rule reject_Ok)

definition rejected :: "memory_entry option result \<times> remembered" where
  "rejected = decide_candidate (\<lambda>_. sample_env 5) live_owner (cd_id (sample_candidate Staged)) False ''no'' (sample_memory Staged)"

lemma rejected_Ok: "is_ok (fst rejected)"
  by code_simp

lemma rejection_leaves_memory_witness:
  "map_option cd_state (find_candidate (snd rejected) (cd_id (sample_candidate Staged))) = Some Rejected \<and>
   mm_index (fst (snd rejected)) = [sample_entry]"
proof -
  obtain x where "rejected = (Ok x, snd rejected)" using is_ok_pair [OF rejected_Ok] by blast
  from rejection_leaves_memory [OF this [unfolded rejected_def]] show ?thesis by (auto simp: rejected_def)
qed

subsection \<open>Rebuilding and searching\<close>

text \<open>C32. After a rebuild the index and the files agree: the index holds exactly the documents the
  files hold, in their order, the audit finds neither a file without a row nor a row without a
  file, and the status is healthy, provided no two files claim the same identifier.\<close>

theorem rebuild_matches_files:
  assumes "rebuild_index s = (Ok n, s')" and "parse_all (corpus (fst s)) s = Ok xs" and "distinct (map me_id xs)"
  shows "mm_index (fst s') = xs \<and> n = length xs \<and> map me_path (mm_index (fst s')) = corpus (fst s') \<and>
    au_unindexed (audit_memory stamp (fst s')) = [] \<and> au_missing (audit_memory stamp (fst s')) = [] \<and>
    st_ok (memory_status_of (fst s'))"
proof -
  from assms(1) obtain ys where "parse_all (corpus (fst s)) s = Ok ys" and n: "n = length ys"
    and files: "mm_files (fst s') = mm_files (fst s)" and index: "distinct (map me_id ys) \<longrightarrow> mm_index (fst s') = ys"
    using rebuild_index_Ok [OF assms(1)] by blast
  with assms(2,3) have rows: "mm_index (fst s') = xs" "n = length xs" by simp_all
  have same: "corpus (fst s') = corpus (fst s)" using files by (simp add: corpus_def files_of_def)
  from parse_all_paths [OF assms(2)] have paths: "map me_path xs = corpus (fst s)" .
  then have "me_path ` set xs = set (corpus (fst s))" by (metis list.set_map)
  with rows same have "au_unindexed (audit_memory stamp (fst s')) = []" "au_missing (audit_memory stamp (fst s')) = []"
    by (auto simp: audit_memory_def Let_def filter_empty_conv)
  moreover have "length (corpus (fst s)) = length xs" using arg_cong [OF paths, of length] by simp
  ultimately show ?thesis using rows same paths by (simp add: memory_status_of_def Let_def)
qed

definition rebuilt :: "nat result \<times> remembered" where
  "rebuilt = rebuild_index ((fst (sample_memory Staged))\<lparr>mm_index := []\<rparr>, empty_db)"

lemma rebuild_matches_files_witness:
  "st_ok (memory_status_of (fst (snd rebuilt))) \<and> mm_index (fst (snd rebuilt)) = [sample_entry]"
proof -
  have "fst rebuilt = Ok 1" by code_simp
  then have run: "rebuilt = (Ok 1, snd rebuilt)" by (metis prod.collapse)
  have "parse_all (corpus (fst ((fst (sample_memory Staged))\<lparr>mm_index := []\<rparr>, empty_db)))
      ((fst (sample_memory Staged))\<lparr>mm_index := []\<rparr>, empty_db) = Ok [sample_entry]"
    by code_simp
  from rebuild_matches_files [OF run [unfolded rebuilt_def] this] show ?thesis by (simp add: rebuilt_def)
qed

text \<open>C23. A search gives at most as many hits as asked for, each the document of an entry that is in the
  scope and of the kind asked for, has not expired and was not superseded by another entry.\<close>

theorem search_only_live:
  assumes "search rank stamp query scope kind limit s = Ok hits"
  shows "length hits \<le> limit \<and> list_all (\<lambda>(x, score). \<exists>r\<in>set (mm_index (fst s)). parse_document (me_path r) s = Ok x \<and>
    (scope \<in> {None, Some []} \<or> scope = Some (me_scope r)) \<and> (kind \<in> {None, Some []} \<or> kind = Some (me_kind r)) \<and>
    (me_expiry r = None \<or> stamp < the (me_expiry r)) \<and> Some (me_id r) \<notin> me_supersedes ` set (mm_index (fst s))) hits"
proof -
  have live: "(scope \<in> {None, Some []} \<or> scope = Some (me_scope r)) \<and> (kind \<in> {None, Some []} \<or> kind = Some (me_kind r)) \<and>
      (me_expiry r = None \<or> stamp < the (me_expiry r)) \<and> Some (me_id r) \<notin> me_supersedes ` set (mm_index (fst s))"
    if "live_entry stamp scope kind (mm_index (fst s)) r" for r
    using that by (cases "me_expiry r") (auto simp: live_entry_def exists_where_iff image_iff)
  from search_Ok [OF assms] show ?thesis
    unfolding list_all_iff using live by (auto simp only: split_paired_all prod.case) blast
qed

definition any_match :: "fts_row list \<Rightarrow> string list \<Rightarrow> fts_row \<Rightarrow> rat option" where
  "any_match rows terms f = (if contains (hd terms) (ft_content f) then Some (-1) else None)"

lemma search_only_live_witness:
  "search any_match 5 ''tea'' None None 10 (sample_memory Staged) = Ok [(sample_entry, 1)] \<and>
   me_path sample_entry \<in> me_path ` set (mm_index (fst (sample_memory Staged)))"
proof -
  have run: "search any_match 5 ''tea'' None None 10 (sample_memory Staged) = Ok [(sample_entry, 1)]"
    by code_simp
  from search_only_live [OF run] show ?thesis using run by auto
qed

end
