(* ===== verification/Spec2Isabelle.thy ===== *)
theory Spec2Isabelle
  imports Guarantees_Store Guarantees_Core Guarantees_Schedule Guarantees_Delegation Guarantees_Context Guarantees_Agent
    Guarantees_Journal Guarantees_Routing Guarantees_Memory
begin

section \<open>T.A.R.S., a supervisor of agent tasks\<close>

text \<open>
  T.A.R.S. supervises tasks that language models work on with tools.  Everything that must
  survive a crash lives in one SQLite database, which the command line, the core service, the
  scheduler and the workers of child tasks change concurrently.  This development models the code
  that decides what may be written there and when: the store with its triggers, leases, tasks,
  controls, conversations and their context, the agent loop, task runs, the action journal,
  schedules, policy and approvals, evidence, roles, routing, delegation, and the memory.

  \<^bold>\<open>How the code is modelled.\<close>  The database is the record \<open>db\<close>, one list of rows per table.  A
  function that runs inside a transaction is a function from a database to a value with the new
  database, or to an error; \<open>transact\<close> drops the changes of one that raised, and \<open>and_next\<close> runs
  transactions one after the other, so that what was committed stays when a later step raises.
  Every exception of the code is a value of \<open>error\<close> (messages are shortened).  A clock reading, a
  fresh identifier, the identity of a process and the answers of third-party code are arguments:
  \<open>env\<close> holds the clock and \<^verbatim>\<open>/proc\<close>, \<open>net\<close> and \<open>policy_env\<close> the network library, path resolution,
  JSON text and SHA-256, \<open>sched\<close> the executor of a scheduled task, \<open>orchestra\<close> the registries and
  backends, \<open>backend\<close> what a model server answers, \<open>codec\<close> the JSON text of a document.  Interleavings are
  sequences of operations: \<open>fold step ops\<close> with a datatype of the operations of a component, each as
  atomic as its transactions; where an operation reads outside its transaction, as \<^verbatim>\<open>remember\<close> does,
  its steps are interleaved one by one (\<open>Memory_Races\<close>).

  \<^bold>\<open>The theories\<close>, with the code under \<^verbatim>\<open>src/tars/\<close> they model.
  \<^item> \<^verbatim>\<open>Prelude\<close>: errors, transactions, tables as lists, Python strings, and the locales
    \<open>state_machine\<close> (operations that keep an invariant) and \<open>lifecycle\<close> (terminal states no
    operation leaves).
  \<^item> \<^verbatim>\<open>Schema\<close>, \<^verbatim>\<open>Lineage\<close>, \<^verbatim>\<open>Lineage_Audit\<close>, \<^verbatim>\<open>Store_Writes\<close>: \<^verbatim>\<open>state_store.py\<close>; the tables, the
    triggers and foreign keys, inserts and updates that fire them, the audit over \<open>db\<close>, and the proof
    that no accepted write makes it report anything.  \<^verbatim>\<open>Store_Audit\<close>: the whole \<^verbatim>\<open>lineage_errors\<close>, over
    the database, the action journal, the projections and the stored routes, with the same proof.
  \<^item> \<^verbatim>\<open>Events\<close>: \<^verbatim>\<open>events.py\<close> and \<^verbatim>\<open>state_events.py\<close>.  \<^verbatim>\<open>Ownership\<close>, \<^verbatim>\<open>Execution\<close>: \<^verbatim>\<open>ownership.py\<close>,
    leases on resources, process fences and the scope a task is executed in.
  \<^item> \<^verbatim>\<open>Tasks\<close>: \<^verbatim>\<open>tasks.py\<close> and \<^verbatim>\<open>checkpoints.py\<close>.  \<^verbatim>\<open>Control_Queue\<close>, \<^verbatim>\<open>Control_Safety\<close>,
    \<^verbatim>\<open>Lease_Facts\<close>, \<^verbatim>\<open>Recovery_Safety\<close>: \<^verbatim>\<open>control_queue.py\<close>, the queue of controls, which leases are
    free to be taken over, and what the recovery of cancellations does to each of them.
  \<^item> \<^verbatim>\<open>Scheduler\<close>, \<^verbatim>\<open>Scheduler_Safety\<close>: \<^verbatim>\<open>scheduler.py\<close>; the table of runs refines the abstract
    machine \<open>run_move\<close>.
  \<^item> \<^verbatim>\<open>Network\<close>, \<^verbatim>\<open>Policy\<close>, \<^verbatim>\<open>Policy_Safety\<close>, \<^verbatim>\<open>Approvals\<close>, \<^verbatim>\<open>Approvals_Safety\<close>, \<^verbatim>\<open>Evidence\<close>:
    \<^verbatim>\<open>network.py\<close>, \<^verbatim>\<open>policy.py\<close>, \<^verbatim>\<open>approvals.py\<close>, \<^verbatim>\<open>evidence.py\<close>.
  \<^item> \<^verbatim>\<open>Registry\<close>, \<^verbatim>\<open>Roles\<close>, \<^verbatim>\<open>Roles_Safety\<close>: \<^verbatim>\<open>registry.py\<close>, \<^verbatim>\<open>models.py\<close>, \<^verbatim>\<open>roles.py\<close>,
    \<^verbatim>\<open>thinking.py\<close>, \<^verbatim>\<open>generation.py\<close>; the locale \<open>versioned_file\<close> states the generation
    discipline both registry files follow.
  \<^item> \<^verbatim>\<open>Orchestration\<close>, \<^verbatim>\<open>Orchestration_Safety\<close>: \<^verbatim>\<open>orchestration.py\<close>, routing, delegation records
    and handoffs.  \<^verbatim>\<open>Delegation\<close>, \<^verbatim>\<open>Delegation_Safety\<close>: \<^verbatim>\<open>delegation.py\<close>, the contracts of child
    tasks; their life refines the abstract machine \<open>contract_moves\<close>.
  \<^item> \<^verbatim>\<open>Conversations\<close>, \<^verbatim>\<open>Context_Epochs\<close>, \<^verbatim>\<open>Conversations_Safety\<close>: \<^verbatim>\<open>conversation.py\<close>,
    \<^verbatim>\<open>sessions.py\<close>, \<^verbatim>\<open>context_epochs.py\<close>; the transcript and the rollover of an epoch.
    \<^verbatim>\<open>Projection\<close>, \<^verbatim>\<open>Projection_Safety\<close>: \<^verbatim>\<open>context.py\<close> and \<^verbatim>\<open>context_engine.py\<close>, what of a
    conversation a model is given, within its budget.
  \<^item> \<^verbatim>\<open>Agent_Controls\<close>, \<^verbatim>\<open>Agent_Loop\<close>, \<^verbatim>\<open>Agent_Safety\<close>: \<^verbatim>\<open>agent_loop.py\<close>, the rounds of an agent, its
    guards, and the controls it applies at its boundaries.  \<^verbatim>\<open>Runner\<close>, \<^verbatim>\<open>Runner_Safety\<close>: \<^verbatim>\<open>runner.py\<close>,
    the runs of a task and the epochs that stream a model's answer.
  \<^item> \<^verbatim>\<open>Journal\<close>, \<^verbatim>\<open>Journal_Safety\<close>, \<^verbatim>\<open>Journal_Rows\<close>: \<^verbatim>\<open>action_journal.py\<close> and the broker of actions in
    \<^verbatim>\<open>state_store.py\<close>; the journal is a list of rows beside \<open>db\<close>.  \<^verbatim>\<open>Tool_Runtime\<close>, \<^verbatim>\<open>Tool_Safety\<close>:
    \<^verbatim>\<open>tool_core.py\<close>, a group of actions that is authorized, begun and finished together.
  \<^item> \<^verbatim>\<open>Routing\<close>: \<^verbatim>\<open>runtime_routing.py\<close> with the slot of the local model; the stored routes are a list
    beside \<open>db\<close>.
  \<^item> \<^verbatim>\<open>Memory\<close>, \<^verbatim>\<open>Memory_Review\<close>, \<^verbatim>\<open>Memory_Text\<close>: \<^verbatim>\<open>memory.py\<close> and \<^verbatim>\<open>memory_maintenance.py\<close>; the
    state is \<open>remembered\<close>, the files and tables of the memory beside \<open>db\<close>.  \<^verbatim>\<open>Memory_Safety\<close> shows
    that decisions are final and that operations one after the other store no text twice,
    \<^verbatim>\<open>Memory_Races\<close> the same of processes that take the steps of \<^verbatim>\<open>remember\<close> in any order on different
    texts, \<^verbatim>\<open>Memory_Contents\<close> what a promotion, a rebuild and a search give.
  \<^item> \<^verbatim>\<open>Samples\<close>, \<^verbatim>\<open>Agent_Samples\<close>, \<^verbatim>\<open>Runner_Samples\<close> and the \<^verbatim>\<open>Guarantees\<close> theories: small states,
    the properties, and their witnesses.

  \<^bold>\<open>Interfaces.\<close>  \<open>state_machine\<close> is interpreted by the writes to the database and to the whole
  store, the leases (as
  \<open>lease_service\<close>), the role registry, the tasks, the transcripts, the contracts, the journal (its
  invariant and the types of its columns), the memory and its races; \<open>lifecycle\<close> by tasks, controls and
  cancellations, approvals, schedule runs, contracts, actions, memory candidates and maintenance
  runs; \<open>versioned_file\<close> by the model registry and the role registry.  A property takes its
  induction over the operations from the interpretation.

  \<^bold>\<open>Bounds and recursion.\<close>  Loops are structural recursions over the rows or items they visit.
  The rounds of the scheduler, of an agent and of an iterative child recurse on the number of
  slots, rounds or iterations the code allows them; the waits of the code (for a lock, for a
  worker, for the slot of the model) are lists of the attempts that were made.  Fuel appears once:
  \<open>drain_controls\<close> repeats while controls are pending, and \<open>controls_drained\<close> shows that one more than
  the number of pending controls is enough.  Tightening a projection asks the tokenizer at most
  thirteen times, as the code does.

  \<^bold>\<open>Not modelled.\<close>  Threads appear as what they observe; the heartbeats, the wake-up socket and
  service loops only repeat modelled operations.  Reading and writing of configuration files, TOML
  and JSON text, process control, sockets, the tools themselves, model servers, MCP, backups, file
  transactions, calibration and the user interfaces are input and output around the modelled
  decisions.  The audit of the memory leaves out its averages over projections, and the order in
  which the full-text table ranks its rows is a parameter.  SQLite's isolation is assumed:
  transactions are atomic and run one after the other.
\<close>

end
